(* ===== verification/Prelude.thy ===== *)
theory Prelude
  imports Complex_Main "HOL-Library.Word" "HOL-Library.Multiset"
begin

text \<open>
  Shared vocabulary of the development: the types every component uses (durations, samples,
  errors as values), the few list operations of the Rust standard library the sources call
  (\<^verbatim>\<open>position\<close>, \<^verbatim>\<open>get\<close>, \<^verbatim>\<open>splice\<close>, \<^verbatim>\<open>Vec::remove\<close>), the lemma collections, and the generic
  lemmas about them that the component theories rely on.
\<close>

section \<open>Types shared by the components\<close>

text \<open>
  A \<^verbatim>\<open>std::time::Duration\<close> is its length in nanoseconds; an \<^verbatim>\<open>Instant\<close> is read as nanoseconds
  on a monotone clock. \<^verbatim>\<open>saturating_sub\<close> is then the truncating subtraction of \<open>nat\<close>, and
  \<^verbatim>\<open>saturating_add\<close> stops at the largest duration.
\<close>

type_synonym duration = nat
type_synonym instant = nat

definition nanos_per_sec :: nat where
  "nanos_per_sec = 1000000000"

definition u32_max :: nat where
  "u32_max = 4294967295"

definition u64_max :: nat where
  "u64_max = 18446744073709551615"

definition duration_max :: duration where
  "duration_max = u64_max * nanos_per_sec + 999999999"

definition saturating_add :: "duration \<Rightarrow> duration \<Rightarrow> duration" where
  "saturating_add a b = min (a + b) duration_max"

definition millis :: "nat \<Rightarrow> duration" where
  "millis n = n * 1000000"

definition secs :: "nat \<Rightarrow> duration" where
  "secs n = n * nanos_per_sec"

text \<open>One decoded sample: a left-justified 32-bit integer.\<close>

type_synonym sample = "32 word"

text \<open>
  An \<^verbatim>\<open>anyhow::Error\<close>: the value it was made from, which a caller can recover with
  \<^verbatim>\<open>downcast_ref\<close>, under the contexts added on the way up, outermost first.
\<close>

datatype cause =
    OutputGone string
  | DeviceBusy string string
  | Message string

record error =
  err_cause :: cause
  err_context :: "string list"

definition mk_error :: "cause \<Rightarrow> error" where
  "mk_error c = \<lparr>err_cause = c, err_context = []\<rparr>"

definition with_context :: "string \<Rightarrow> error \<Rightarrow> error" where
  "with_context why e = e\<lparr>err_context := why # err_context e\<rparr>"

text \<open>What \<^verbatim>\<open>format!("{error:#}")\<close> prints: the contexts from the outermost in, then the cause.\<close>

fun show_cause :: "cause \<Rightarrow> string" where
  "show_cause (OutputGone why) = ''the audio output is gone: '' @ why"
| "show_cause (DeviceBusy device detail) =
     ''device '' @ [CHR 0x27] @ device @ [CHR 0x27] @
     '' is busy (EBUSY): some other program has it open. If it is PipeWire, leave '' @
     ''`reserve = true` under [output] so phonia asks it to let go; otherwise stop playback to '' @
     ''that DAC (`fuser -v /dev/snd/*`), or as a last resort switch the card'' @ [CHR 0x27] @
     ''s profile off (`pactl set-card-profile <card> off`).'' @ [CHR 0x0A] @
     ''Original ALSA error: '' @ detail"
| "show_cause (Message text) = text"

definition show_error :: "error \<Rightarrow> string" where
  "show_error e = foldr (\<lambda>why rest. why @ '': '' @ rest) (err_context e) (show_cause (err_cause e))"

definition is_output_gone :: "error \<Rightarrow> bool" where
  "is_output_gone e = (case err_cause e of OutputGone _ \<Rightarrow> True | _ \<Rightarrow> False)"

definition is_device_busy :: "error \<Rightarrow> bool" where
  "is_device_busy e = (case err_cause e of DeviceBusy _ _ \<Rightarrow> True | _ \<Rightarrow> False)"

lemma is_output_gone_context [simp]:
  "is_output_gone (with_context why e) = is_output_gone e"
  "is_output_gone (mk_error (Message text)) = False"
  by (simp_all add: is_output_gone_def with_context_def mk_error_def)

section \<open>Numbers as text\<close>

text \<open>\<^verbatim>\<open>u64::to_string\<close> and \<^verbatim>\<open>str::parse::<u64>\<close>, which takes an optional leading \<^verbatim>\<open>+\<close>.\<close>

definition digit_char :: "nat \<Rightarrow> char" where
  "digit_char d = char_of (48 + d)"

definition is_digit :: "char \<Rightarrow> bool" where
  "is_digit c \<longleftrightarrow> 48 \<le> (of_char c :: nat) \<and> (of_char c :: nat) \<le> 57"

definition digit_value :: "char \<Rightarrow> nat" where
  "digit_value c = of_char c - 48"

fun show_nat :: "nat \<Rightarrow> string" where
  "show_nat n = (if n < 10 then [digit_char n] else show_nat (n div 10) @ [digit_char (n mod 10)])"

declare show_nat.simps [simp del]

definition digits_value :: "string \<Rightarrow> nat" where
  "digits_value cs = foldl (\<lambda>n c. 10 * n + digit_value c) 0 cs"

definition parse_nat_upto :: "nat \<Rightarrow> string \<Rightarrow> nat option" where
  "parse_nat_upto limit text =
     (let cs = (case text of c # rest \<Rightarrow> if c = CHR ''+'' then rest else text | [] \<Rightarrow> [])
      in if cs \<noteq> [] \<and> list_all is_digit cs \<and> digits_value cs \<le> limit
         then Some (digits_value cs) else None)"

lemma of_char_digit: "d < 10 \<Longrightarrow> of_char (digit_char d) = (48 + d :: nat)"
  by (simp add: digit_char_def)

lemma is_digit_char [simp]: "d < 10 \<Longrightarrow> is_digit (digit_char d)"
  by (simp add: is_digit_def of_char_digit)

lemma digit_value_char [simp]: "d < 10 \<Longrightarrow> digit_value (digit_char d) = d"
  by (simp add: digit_value_def of_char_digit)

lemma show_nat_digits: "list_all is_digit (show_nat n)"
proof (induction n rule: show_nat.induct)
  case (1 n)
  then show ?case by (subst show_nat.simps) (simp add: list_all_append)
qed

lemma show_nat_not_Nil: "show_nat n \<noteq> []"
  by (subst show_nat.simps) simp

lemma digits_value_show_nat: "digits_value (show_nat n) = n"
proof (induction n rule: show_nat.induct)
  case (1 n)
  then show ?case by (subst show_nat.simps) (simp add: digits_value_def)
qed

lemma parse_show_nat: "n \<le> limit \<Longrightarrow> parse_nat_upto limit (show_nat n) = Some n"
proof -
  assume le: "n \<le> limit"
  have "hd (show_nat n) \<noteq> CHR ''+''"
    using show_nat_digits [of n] show_nat_not_Nil [of n]
    by (cases "show_nat n") (auto simp: is_digit_def)
  then have "(case show_nat n of c # rest \<Rightarrow> if c = CHR ''+'' then rest else show_nat n | [] \<Rightarrow> [])
               = show_nat n"
    by (cases "show_nat n") auto
  then show ?thesis
    using le show_nat_digits [of n] show_nat_not_Nil [of n]
    by (simp add: parse_nat_upto_def digits_value_show_nat)
qed

lemma show_nat_inject [simp]: "show_nat a = show_nat b \<longleftrightarrow> a = b"
  by (metis digits_value_show_nat)

section \<open>Lists, as the Rust standard library offers them\<close>

text \<open>\<^verbatim>\<open>iter().position(p)\<close>, \<^verbatim>\<open>slice.get(i)\<close>, \<^verbatim>\<open>Vec::splice(at..at, new)\<close> and \<^verbatim>\<open>Vec::remove(i)\<close>.\<close>

fun position_of :: "('a \<Rightarrow> bool) \<Rightarrow> 'a list \<Rightarrow> nat option" where
  "position_of p [] = None"
| "position_of p (x # xs) = (if p x then Some 0 else map_option Suc (position_of p xs))"

definition get_at :: "'a list \<Rightarrow> nat \<Rightarrow> 'a option" where
  "get_at xs i = (if i < length xs then Some (xs ! i) else None)"

definition first_of :: "'a list \<Rightarrow> 'a option" where
  "first_of xs = get_at xs 0"

definition last_of :: "'a list \<Rightarrow> 'a option" where
  "last_of xs = (if xs = [] then None else Some (last xs))"

definition insert_at :: "nat \<Rightarrow> 'a list \<Rightarrow> 'a list \<Rightarrow> 'a list" where
  "insert_at i new xs = take i xs @ new @ drop i xs"

definition remove_at :: "nat \<Rightarrow> 'a list \<Rightarrow> 'a list" where
  "remove_at i xs = take i xs @ drop (Suc i) xs"

definition or_else :: "'a option \<Rightarrow> 'a option \<Rightarrow> 'a option" where
  "or_else a b = (case a of None \<Rightarrow> b | Some x \<Rightarrow> Some x)"

lemma or_else_simps [simp]:
  "or_else None b = b" "or_else (Some x) b = Some x"
  by (simp_all add: or_else_def)

subsection \<open>Positions\<close>

lemma position_of_None: "position_of p xs = None \<longleftrightarrow> (\<forall>x \<in> set xs. \<not> p x)"
  by (induction xs) auto

lemma position_of_Some:
  "position_of p xs = Some i \<Longrightarrow> i < length xs \<and> p (xs ! i) \<and> (\<forall>j < i. \<not> p (xs ! j))"
proof (induction xs arbitrary: i)
  case Nil
  then show ?case by simp
next
  case (Cons x xs)
  then show ?case
    by (auto split: if_splits simp: nth_Cons split: nat.splits)
qed

lemma position_of_length: "position_of p xs = Some i \<Longrightarrow> i < length xs"
  and position_of_sat: "position_of p xs = Some i \<Longrightarrow> p (xs ! i)"
  by (auto dest: position_of_Some)

lemma position_of_mem: "x \<in> set xs \<Longrightarrow> \<exists>i. position_of (\<lambda>y. y = x) xs = Some i"
  by (induction xs) auto

lemma position_of_eq_nth:
  "position_of (\<lambda>y. y = x) xs = Some i \<Longrightarrow> i < length xs \<and> xs ! i = x"
  by (auto dest: position_of_Some)

lemma position_of_distinct:
  "distinct xs \<Longrightarrow> i < length xs \<Longrightarrow> position_of (\<lambda>y. y = xs ! i) xs = Some i"
proof (induction xs arbitrary: i)
  case Nil
  then show ?case by simp
next
  case (Cons x xs)
  then show ?case by (cases i) auto
qed

lemma position_of_map: "position_of p (map f xs) = position_of (\<lambda>x. p (f x)) xs"
  by (induction xs) auto

lemma get_at_Some [simp]: "get_at xs i = Some x \<longleftrightarrow> i < length xs \<and> xs ! i = x"
  by (auto simp: get_at_def)

lemma get_at_None [simp]: "get_at xs i = None \<longleftrightarrow> length xs \<le> i"
  by (auto simp: get_at_def)

lemma last_of_simps [simp]:
  "last_of [] = None" "last_of (xs @ [x]) = Some x"
  by (simp_all add: last_of_def)

lemma last_of_None [simp]: "last_of xs = None \<longleftrightarrow> xs = []"
  by (simp add: last_of_def)

lemma last_of_Some_in_set: "last_of xs = Some x \<Longrightarrow> x \<in> set xs"
  by (auto simp: last_of_def split: if_splits)

subsection \<open>Insertion and removal\<close>

lemma length_insert_at [simp]: "length (insert_at i new xs) = length new + length xs"
  by (simp add: insert_at_def)

lemma set_insert_at [simp]: "set (insert_at i new xs) = set new \<union> set xs"
proof -
  have "set xs = set (take i xs) \<union> set (drop i xs)"
    by (metis append_take_drop_id set_append)
  then show ?thesis by (auto simp: insert_at_def)
qed

lemma mset_insert_at [simp]: "mset (insert_at i new xs) = mset new + mset xs"
proof -
  have "mset xs = mset (take i xs) + mset (drop i xs)"
    by (metis append_take_drop_id mset_append)
  then show ?thesis by (simp add: insert_at_def)
qed

lemma map_insert_at: "map f (insert_at i new xs) = insert_at i (map f new) (map f xs)"
  by (simp add: insert_at_def take_map drop_map)

lemma distinct_insert_at:
  "distinct (insert_at i new xs) \<longleftrightarrow> distinct new \<and> distinct xs \<and> set new \<inter> set xs = {}"
proof -
  have "distinct (insert_at i new xs) \<longleftrightarrow> distinct (new @ xs)"
    by (rule mset_eq_imp_distinct_iff) simp
  then show ?thesis by auto
qed

lemma length_remove_at [simp]: "i < length xs \<Longrightarrow> length (remove_at i xs) = length xs - 1"
  by (simp add: remove_at_def)

lemma map_remove_at: "map f (remove_at i xs) = remove_at i (map f xs)"
  by (simp add: remove_at_def take_map drop_map)

lemma remove_at_split:
  "i < length xs \<Longrightarrow> mset xs = {#xs ! i#} + mset (remove_at i xs)"
proof -
  assume "i < length xs"
  then have "mset xs = mset (take i xs @ xs ! i # drop (Suc i) xs)"
    by (simp only: id_take_nth_drop [symmetric])
  then show ?thesis by (simp add: remove_at_def)
qed

lemma mset_remove_at: "i < length xs \<Longrightarrow> mset (remove_at i xs) = mset xs - {#xs ! i#}"
  by (simp add: remove_at_split)

lemma set_remove_at_subset: "set (remove_at i xs) \<subseteq> set xs"
  by (auto simp: remove_at_def dest: in_set_takeD in_set_dropD)

lemma distinct_remove_at: "distinct xs \<Longrightarrow> distinct (remove_at i xs)"
  by (auto simp: remove_at_def set_take_disj_set_drop_if_distinct)

lemma remove_at_distinct_filter:
  "distinct xs \<Longrightarrow> i < length xs \<Longrightarrow> remove_at i xs = filter (\<lambda>y. y \<noteq> xs ! i) xs"
proof (induction xs arbitrary: i)
  case Nil
  then show ?case by simp
next
  case (Cons x xs)
  show ?case
  proof (cases i)
    case 0
    with Cons.prems have "filter (\<lambda>y. y \<noteq> x) xs = xs"
      by (auto intro: filter_True)
    with 0 show ?thesis by (simp add: remove_at_def)
  next
    case (Suc j)
    with Cons.prems have "xs ! j \<noteq> x" by auto
    with Suc Cons show ?thesis by (auto simp: remove_at_def)
  qed
qed

lemma set_remove_at_distinct:
  "distinct xs \<Longrightarrow> i < length xs \<Longrightarrow> set (remove_at i xs) = set xs - {xs ! i}"
  by (auto simp: remove_at_distinct_filter)

end
