(* ===== verification/ReplayGain.thy ===== *)
theory ReplayGain
  imports Prelude
begin

text \<open>
  \<^verbatim>\<open>crates/phonia-core/src/replaygain.rs\<close>: TIDAL's loudness numbers, how the mode in force and
  the album context choose between a track's gain and its album's, and the clip protection;
  with \<^verbatim>\<open>scale_samples\<close> of \<^verbatim>\<open>output/mod.rs\<close>, which applies a gain. A floating-point value is
  the real number it stands for: rounding to \<^verbatim>\<open>f32\<close> and NaN are not modelled.
\<close>

section \<open>Data\<close>

record loudness =
  track_db :: real
  track_peak :: "real option"
  album_db :: "real option"
  album_peak :: "real option"

text \<open>The fields of \<^verbatim>\<open>tidal::PlaybackInfo\<close> that carry loudness.\<close>

record playback_gain =
  track_replay_gain :: "real option"
  track_peak_amplitude :: "real option"
  album_replay_gain :: "real option"
  album_peak_amplitude :: "real option"

datatype gain_mode = ModeOff | ModeTrack | ModeAlbum | ModeAuto

datatype gain_kind = KindTrack | KindAlbum

record applied_gain =
  gain_kind_of :: gain_kind
  gain_db :: real

section \<open>Operations\<close>

definition from_playback_info :: "playback_gain \<Rightarrow> loudness option" where
  "from_playback_info info =
     (case track_replay_gain info of
        None \<Rightarrow> None
      | Some g \<Rightarrow> Some \<lparr>track_db = g, track_peak = track_peak_amplitude info,
                        album_db = album_replay_gain info,
                        album_peak = album_peak_amplitude info\<rparr>)"

definition gain_linear :: "applied_gain \<Rightarrow> real" where
  "gain_linear g = 10 powr (gain_db g / 20)"

definition clip_cap :: "real \<Rightarrow> real option \<Rightarrow> real" where
  "clip_cap db peak =
     (if db \<le> 0 then db
      else case peak of
             Some p \<Rightarrow> if p > 0 then min db (- 20 * log 10 p) else min db 0
           | None \<Rightarrow> min db 0)"

definition choose_gain :: "loudness \<Rightarrow> gain_mode \<Rightarrow> bool \<Rightarrow> applied_gain option" where
  "choose_gain l mode same_album_neighbor =
     (case (case mode of ModeOff \<Rightarrow> None | ModeTrack \<Rightarrow> Some False | ModeAlbum \<Rightarrow> Some True
            | ModeAuto \<Rightarrow> Some same_album_neighbor) of
        None \<Rightarrow> None
      | Some want_album \<Rightarrow>
          Some (case (want_album, album_db l) of
                  (True, Some adb) \<Rightarrow>
                    \<lparr>gain_kind_of = KindAlbum,
                     gain_db = clip_cap adb (or_else (album_peak l) (track_peak l))\<rparr>
                | _ \<Rightarrow>
                    \<lparr>gain_kind_of = KindTrack,
                     gain_db = clip_cap (track_db l) (track_peak l)\<rparr>))"

text \<open>
  \<^verbatim>\<open>f64::round\<close> rounds half away from zero; \<^verbatim>\<open>scale_samples\<close> then clamps to the range of \<^verbatim>\<open>i32\<close>.
\<close>

definition round_away :: "real \<Rightarrow> int" where
  "round_away x = (if 0 \<le> x then \<lfloor>x + 1 / 2\<rfloor> else - \<lfloor>- x + 1 / 2\<rfloor>)"

definition i32_min :: int where
  "i32_min = - 2147483648"

definition i32_max :: int where
  "i32_max = 2147483647"

definition scale_sample :: "real \<Rightarrow> sample \<Rightarrow> sample" where
  "scale_sample g s =
     word_of_int (max i32_min (min i32_max (round_away (real_of_int (sint s) * g))))"

definition scale_samples :: "sample list \<Rightarrow> real \<Rightarrow> sample list" where
  "scale_samples samples g = map (scale_sample g) samples"

section \<open>Facts the properties use\<close>

lemma clip_cap_le: "clip_cap db peak \<le> db"
  by (auto simp: clip_cap_def split: option.splits)

lemma clip_cap_cut [simp]: "db \<le> 0 \<Longrightarrow> clip_cap db peak = db"
  by (simp add: clip_cap_def)

lemma clip_cap_no_clip:
  assumes "0 < p" and "0 < db"
  shows "p * (10 powr (clip_cap db (Some p) / 20)) \<le> 1"
proof -
  have "clip_cap db (Some p) \<le> - 20 * log 10 p"
    using assms by (simp add: clip_cap_def)
  then have "10 powr (clip_cap db (Some p) / 20) \<le> 10 powr (- log 10 p)"
    by (intro powr_mono) auto
  also have "10 powr (- log 10 p) = 1 / p"
    using assms by (simp add: powr_minus_divide)
  finally show ?thesis
    using assms by (simp add: field_simps)
qed

lemma sint_sample_range:
  "i32_min \<le> sint (s :: sample)" "sint (s :: sample) \<le> i32_max"
  using sint_ge [of s] sint_lt [of s] by (simp_all add: i32_min_def i32_max_def)

lemma sint_clamped:
  "sint (word_of_int (max i32_min (min i32_max x)) :: sample) = max i32_min (min i32_max x)"
proof -
  have "max i32_min (min i32_max x) \<in> {- (2 ^ 31) ..< 2 ^ 31}"
    by (auto simp: i32_min_def i32_max_def max_def min_def)
  then show ?thesis
    by (simp add: sint_sbintrunc' signed_take_bit_int_eq_self)
qed

end
