(* ===== verification/Quality.thy ===== *)
theory Quality
  imports Prelude
begin

text \<open>
  The enumerations of \<^verbatim>\<open>crates/phonia-core/src/config/file.rs\<close>: quality tiers (ordered worst to
  best, as the derived \<^verbatim>\<open>Ord\<close> of the enum), output modes, when a pause hands the card back, and
  where the session is stored.
\<close>

datatype quality = Low | High | Lossless | Hires

fun quality_rank :: "quality \<Rightarrow> nat" where
  "quality_rank Low = 0"
| "quality_rank High = 1"
| "quality_rank Lossless = 2"
| "quality_rank Hires = 3"

lemma quality_rank_inject [simp]: "quality_rank a = quality_rank b \<longleftrightarrow> a = b"
  by (cases a; cases b) simp_all

instantiation quality :: linorder
begin

definition less_eq_quality :: "quality \<Rightarrow> quality \<Rightarrow> bool" where
  "less_eq_quality a b \<longleftrightarrow> quality_rank a \<le> quality_rank b"

definition less_quality :: "quality \<Rightarrow> quality \<Rightarrow> bool" where
  "less_quality a b \<longleftrightarrow> quality_rank a < quality_rank b"

instance
proof
  fix a b c :: quality
  show "a < b \<longleftrightarrow> a \<le> b \<and> \<not> b \<le> a" by (auto simp: less_eq_quality_def less_quality_def)
  show "a \<le> a" by (simp add: less_eq_quality_def)
  show "a \<le> b \<Longrightarrow> b \<le> c \<Longrightarrow> a \<le> c" by (simp add: less_eq_quality_def)
  show "a \<le> b \<Longrightarrow> b \<le> a \<Longrightarrow> a = b" by (simp add: less_eq_quality_def)
  show "a \<le> b \<or> b \<le> a" by (auto simp: less_eq_quality_def)
qed

end

lemmas quality_order = less_eq_quality_def less_quality_def

fun lower :: "quality \<Rightarrow> quality option" where
  "lower Hires = Some Lossless"
| "lower Lossless = Some High"
| "lower High = Some Low"
| "lower Low = None"

definition is_lossless :: "quality \<Rightarrow> bool" where
  "is_lossless q \<longleftrightarrow> Lossless \<le> q"

fun show_quality :: "quality \<Rightarrow> string" where
  "show_quality Hires = ''hires''"
| "show_quality Lossless = ''lossless''"
| "show_quality High = ''high''"
| "show_quality Low = ''low''"

definition parse_quality :: "string \<Rightarrow> quality option" where
  "parse_quality text =
     (if text = ''hires'' then Some Hires
      else if text = ''lossless'' then Some Lossless
      else if text = ''high'' then Some High
      else if text = ''low'' then Some Low
      else None)"

datatype output_mode = AutoMode | ExclusiveMode | SharedMode

fun show_output_mode :: "output_mode \<Rightarrow> string" where
  "show_output_mode AutoMode = ''auto''"
| "show_output_mode ExclusiveMode = ''exclusive''"
| "show_output_mode SharedMode = ''shared''"

datatype release_after_pause = Never | After duration

definition default_release_after_pause :: release_after_pause where
  "default_release_after_pause = After (secs 10)"

fun release_wait :: "release_after_pause \<Rightarrow> duration option" where
  "release_wait Never = None"
| "release_wait (After wait) = Some wait"

datatype session_store_kind = Keyring | StoreFile

fun show_session_store :: "session_store_kind \<Rightarrow> string" where
  "show_session_store Keyring = ''keyring''"
| "show_session_store StoreFile = ''file''"

lemma lower_less: "lower q = Some r \<Longrightarrow> r < q"
  by (cases q) (auto simp: quality_order)

lemma lower_adjacent: "lower q = Some r \<Longrightarrow> r < s \<Longrightarrow> q \<le> s"
  by (cases q; cases s) (auto simp: quality_order)

lemma parse_show_quality: "parse_quality (show_quality q) = Some q"
  by (cases q) (simp_all add: parse_quality_def)

end
