(* ===== verification/Decode.thy ===== *)
theory Decode
  imports Prelude
begin

text \<open>
  \<^verbatim>\<open>crates/phonia-core/src/decode.rs\<close>: the source format, the conversions between frames and
  time, and the decode loop that drops what a coarse seek has to skip. The container reader and
  the codec are the third-party \<^verbatim>\<open>symphonia\<close> crate: what it will still deliver is the list
  \<open>dec_stream\<close> of the decoder's state, and its \<^verbatim>\<open>seek\<close> is a parameter.
\<close>

section \<open>Frames and time\<close>

record source_spec =
  sample_rate :: nat
  channels :: nat
  bits_per_sample :: nat

text \<open>
  \<^verbatim>\<open>duration_to_frames\<close> works in \<^verbatim>\<open>u128\<close> and saturates at \<^verbatim>\<open>u64::MAX\<close>;
  \<^verbatim>\<open>frames_to_duration\<close> treats a rate of zero as one.
\<close>

definition duration_to_frames :: "duration \<Rightarrow> nat \<Rightarrow> nat" where
  "duration_to_frames d rate = min ((d * rate + 500000000) div 1000000000) u64_max"

definition frames_to_duration :: "nat \<Rightarrow> nat \<Rightarrow> duration" where
  "frames_to_duration frames rate =
     (let r = max rate 1
      in (frames div r) * nanos_per_sec + ((frames mod r) * 1000000000) div r)"

lemma frames_to_duration_div: "frames_to_duration f r = f * 1000000000 div max r 1"
proof -
  define k :: nat where "k = 1000000000"
  define m where "m = max r 1"
  have "m \<noteq> 0" by (simp add: m_def)
  have "f * k = (f mod m) * k + ((f div m) * k) * m"
    by (metis (no_types, lifting) add.commute add_mult_distrib div_mult_mod_eq mult.assoc mult.commute)
  then have "f * k div m = (f div m) * k + (f mod m) * k div m"
    using \<open>m \<noteq> 0\<close> by simp
  then show ?thesis by (simp add: frames_to_duration_def nanos_per_sec_def Let_def k_def m_def)
qed

lemma frames_to_duration_mono: "a \<le> b \<Longrightarrow> frames_to_duration a r \<le> frames_to_duration b r"
  by (simp add: frames_to_duration_div div_le_mono)

lemma frames_to_duration_0 [simp]: "frames_to_duration 0 r = 0"
  by (simp add: frames_to_duration_div)

text \<open>The intermediate product of \<^verbatim>\<open>frames_to_duration\<close> stays within \<^verbatim>\<open>u64\<close>.\<close>

lemma frames_to_duration_no_overflow:
  assumes "r \<le> u32_max"
  shows "(f mod max r 1) * 1000000000 \<le> u64_max"
proof -
  have "f mod max r 1 \<le> max r 1" by (simp add: less_imp_le)
  also have "\<dots> \<le> 4294967295" using assms by (simp add: u32_max_def)
  finally have "(f mod max r 1) * 1000000000 \<le> 4294967295 * 1000000000"
    by (rule mult_le_mono1)
  then show ?thesis by (simp add: u64_max_def)
qed

lemma round_frame:
  fixes f r :: nat
  assumes "0 < r" "r \<le> 500000001"
  shows "((f * 1000000000 div r) * r + 500000000) div 1000000000 = f"
proof -
  define x where "x = f * 1000000000"
  have e: "x mod r < r" using assms(1) by simp
  have "(x div r) * r + x mod r = x" by simp
  then have "x \<le> (x div r) * r + 500000000" "(x div r) * r + 500000000 < x + 1000000000"
    using e assms(2) by linarith+
  then show ?thesis
    unfolding x_def by (intro div_nat_eqI) simp_all
qed

text \<open>Converting a frame's own time back gives the frame, at any rate up to 500 MHz.\<close>

lemma frames_duration_round_trip:
  assumes "0 < r" "r \<le> 500000001" "f \<le> u64_max"
  shows "duration_to_frames (frames_to_duration f r) r = f"
proof -
  have "max r 1 = r" using assms(1) by simp
  then show ?thesis
    using round_frame [OF assms(1,2), of f] assms(3)
    by (simp add: duration_to_frames_def frames_to_duration_div)
qed

text \<open>
  A track's length from what the container declares; a declared zero means unknown. The time
  base conversion (\<^verbatim>\<open>TimeBase::calc_time\<close>) is symphonia's: its result in nanoseconds, if any, is
  the argument \<open>ticks_time\<close>.
\<close>

definition track_duration :: "nat option \<Rightarrow> duration option \<Rightarrow> nat \<Rightarrow> duration option" where
  "track_duration num_frames ticks_time rate =
     (case (case num_frames of Some f \<Rightarrow> Some (frames_to_duration f rate) | None \<Rightarrow> ticks_time) of
        Some d \<Rightarrow> if d = 0 then None else Some d
      | None \<Rightarrow> None)"

definition source_bits_per_sample :: "nat option \<Rightarrow> bool \<Rightarrow> nat option" where
  "source_bits_per_sample bits is_aac =
     (case bits of Some b \<Rightarrow> Some b | None \<Rightarrow> if is_aac then Some 16 else None)"

section \<open>The decode loop\<close>

text \<open>
  What the container yields next: a packet of some track with what decoding it gives, or an
  error. The end of the list is the end of the stream.
\<close>

datatype decoded = Samples "sample list" | IoDropped | DecodeDropped | Fatal error

datatype packet = Packet nat decoded | ResetRequired | ReadError error

record decoder =
  dec_stream :: "packet list"
  dec_track_id :: nat
  dec_spec :: source_spec
  dec_duration :: "duration option"
  dec_time_base :: "(nat \<times> nat) option"
  dec_skip_samples :: nat
  dec_seekable :: bool

definition usize_max :: nat where
  "usize_max = u64_max"

definition dec_skip_frames :: "nat \<Rightarrow> decoder \<Rightarrow> decoder" where
  "dec_skip_frames frames d =
     (let skipped = min (frames * channels (dec_spec d)) usize_max
      in d\<lparr>dec_skip_samples := min (dec_skip_samples d + skipped) usize_max\<rparr>)"

definition ticks_to_frames :: "int \<Rightarrow> decoder \<Rightarrow> nat" where
  "ticks_to_frames ticks d =
     (let t = nat (max ticks 0)
      in (case dec_time_base d of
            Some (numer, denom) \<Rightarrow> (t * numer * sample_rate (dec_spec d)) div denom
          | None \<Rightarrow> t) mod 2 ^ 64)"

text \<open>
  \<^verbatim>\<open>seek\<close>: \<open>format_seek\<close> is symphonia's, giving the required and the actual timestamp and what
  the stream delivers from there.
\<close>

definition dec_seek ::
    "(duration \<Rightarrow> decoder \<Rightarrow> error + (int \<times> int \<times> packet list)) \<Rightarrow> duration \<Rightarrow> decoder
       \<Rightarrow> (error + duration) \<times> decoder" where
  "dec_seek format_seek at0 d =
     (if \<not> dec_seekable d
      then (Inl (mk_error (Message ''this stream can't be seeked; open it at the target position instead'')), d)
      else case format_seek (min at0 u64_max) d of
             Inl e \<Rightarrow> (Inl (with_context ''seeking in the audio stream'' e), d)
           | Inr (required, actual, stream) \<Rightarrow>
               let skip_frames = ticks_to_frames (required - actual) d;
                   d' = d\<lparr>dec_stream := stream,
                          dec_skip_samples := skip_frames * channels (dec_spec d)\<rparr>
               in (Inr (frames_to_duration (ticks_to_frames required d')
                          (sample_rate (dec_spec d))), d'))"

text \<open>\<^verbatim>\<open>next_chunk_into\<close>: \<open>Inr (Some out)\<close> is \<^verbatim>\<open>Ok(true)\<close> with the chunk, \<open>Inr None\<close> is \<^verbatim>\<open>Ok(false)\<close>.\<close>

fun next_chunk_loop ::
    "packet list \<Rightarrow> nat \<Rightarrow> nat \<Rightarrow> (error + sample list option) \<times> packet list \<times> nat" where
  "next_chunk_loop [] tid skip = (Inr None, [], skip)"
| "next_chunk_loop (ResetRequired # ps) tid skip =
     (Inl (mk_error (Message ''the stream requires resetting the decoder mid-playback; not supported yet'')),
      ps, skip)"
| "next_chunk_loop (ReadError e # ps) tid skip =
     (Inl (with_context ''error reading the next packet from the container'' e), ps, skip)"
| "next_chunk_loop (Packet t d # ps) tid skip =
     (if t \<noteq> tid then next_chunk_loop ps tid skip
      else case d of
             IoDropped \<Rightarrow> next_chunk_loop ps tid skip
           | DecodeDropped \<Rightarrow> next_chunk_loop ps tid skip
           | Fatal e \<Rightarrow> (Inl (with_context ''unrecoverable decoder error'' e), ps, skip)
           | Samples out \<Rightarrow>
               if 0 < skip then
                 let skipped = min skip (length out); rest = drop skipped out
                 in if rest = [] then next_chunk_loop ps tid (skip - skipped)
                    else (Inr (Some rest), ps, skip - skipped)
               else (Inr (Some out), ps, skip))"

definition dec_next_chunk :: "decoder \<Rightarrow> (error + sample list option) \<times> decoder" where
  "dec_next_chunk d =
     (case next_chunk_loop (dec_stream d) (dec_track_id d) (dec_skip_samples d) of
        (r, ps, skip) \<Rightarrow> (r, d\<lparr>dec_stream := ps, dec_skip_samples := skip\<rparr>))"

text \<open>\<^verbatim>\<open>run\<close>, with a callback that always continues: every chunk in order, until the end or an error.\<close>

lemma next_chunk_loop_shorter:
  "next_chunk_loop ps tid skip = (Inr (Some out), ps', skip') \<Longrightarrow> length ps' < length ps"
  by (induction ps tid skip rule: next_chunk_loop.induct)
     (auto simp: Let_def less_SucI split: if_splits decoded.splits)

function run_chunks :: "packet list \<Rightarrow> nat \<Rightarrow> nat \<Rightarrow> sample list list \<times> error option" where
  "run_chunks ps tid skip =
     (case next_chunk_loop ps tid skip of
        (Inl e, _, _) \<Rightarrow> ([], Some e)
      | (Inr None, _, _) \<Rightarrow> ([], None)
      | (Inr (Some out), ps', skip') \<Rightarrow>
          (case run_chunks ps' tid skip' of (rest, e) \<Rightarrow> (out # rest, e)))"
  by pat_completeness auto
termination run_chunks
  by (relation "measure (\<lambda>(ps, tid, skip). length ps)") (auto dest: next_chunk_loop_shorter [OF sym])

declare run_chunks.simps [simp del]

text \<open>Everything the selected track decodes to, up to the first error.\<close>

fun decoded_samples :: "packet list \<Rightarrow> nat \<Rightarrow> sample list" where
  "decoded_samples [] tid = []"
| "decoded_samples (ResetRequired # ps) tid = []"
| "decoded_samples (ReadError e # ps) tid = []"
| "decoded_samples (Packet t d # ps) tid =
     (if t \<noteq> tid then decoded_samples ps tid
      else case d of
             Samples out \<Rightarrow> out @ decoded_samples ps tid
           | Fatal e \<Rightarrow> []
           | _ \<Rightarrow> decoded_samples ps tid)"

lemma next_chunk_loop_samples:
  "next_chunk_loop ps tid skip = (r, ps', skip') \<Longrightarrow>
     drop skip (decoded_samples ps tid) =
       (case r of Inr (Some out) \<Rightarrow> out @ drop skip' (decoded_samples ps' tid) | _ \<Rightarrow> [])"
proof (induction ps tid skip arbitrary: r rule: next_chunk_loop.induct)
  case (4 t d ps tid skip)
  then show ?case
  proof (cases d)
    case (Samples out)
    then show ?thesis
      using 4 by (cases "skip \<le> length out") (auto simp: Let_def split: if_splits)
  qed (auto split: if_splits)
qed auto

text \<open>The chunks handed out, joined, are the decoded samples without what had to be skipped.\<close>

lemma run_chunks_samples:
  "concat (fst (run_chunks ps tid skip)) = drop skip (decoded_samples ps tid)"
proof (induction ps tid skip rule: run_chunks.induct)
  case (1 ps tid skip)
  obtain r ps' skip' where n: "next_chunk_loop ps tid skip = (r, ps', skip')"
    by (cases "next_chunk_loop ps tid skip") auto
  show ?case
  proof (cases "\<exists>out. r = Inr (Some out)")
    case False
    then show ?thesis
      using next_chunk_loop_samples [OF n] n
      by (subst run_chunks.simps) (auto split: sum.splits option.splits)
  next
    case True
    then obtain out where r: "r = Inr (Some out)" by blast
    obtain rest e where rec: "run_chunks ps' tid skip' = (rest, e)"
      by (cases "run_chunks ps' tid skip'") auto
    have "concat (fst (run_chunks ps' tid skip')) = drop skip' (decoded_samples ps' tid)"
      by (rule 1 [OF n [symmetric] r refl refl])
    then show ?thesis
      using next_chunk_loop_samples [OF n] n r rec
      by (subst run_chunks.simps) simp
  qed
qed

end
