(* ===== verification/Engine_Types.thy ===== *)
theory Engine_Types
  imports ReplayGain Quality Decode
begin

text \<open>
  \<^verbatim>\<open>crates/phonia-core/src/engine/types.rs\<close> and \<^verbatim>\<open>engine/supplier.rs\<close>: what the engine is told
  and reports, and how it sees the supplier of tracks. \<^verbatim>\<open>TrackSupplier\<close> is a record of functions
  on an explicit state \<open>'w\<close>, the world outside the engine; its default methods are definitions.
\<close>

section \<open>types.rs\<close>

type_synonym track_ref = string

record delivered =
  requested_quality :: quality
  delivered_quality :: quality

definition fell_back :: "delivered \<Rightarrow> bool" where
  "fell_back d \<longleftrightarrow> delivered_quality d < requested_quality d"

record track_meta =
  tm_track :: track_ref
  tm_title :: "string option"
  tm_artist :: "string option"
  tm_duration :: "duration option"
  tm_quality :: "delivered option"
  tm_cover :: "string option"
  tm_loudness :: "loudness option"
  tm_gain :: "applied_gain option"

definition meta_gain_linear :: "track_meta \<Rightarrow> real" where
  "meta_gain_linear m = (case tm_gain m of None \<Rightarrow> 1 | Some g \<Rightarrow> gain_linear g)"

datatype seek_target = Absolute duration | Forward duration | Backward duration

datatype command =
    Play "track_ref option"
  | Stop
  | Next
  | Previous
  | Pause
  | Resume
  | TogglePause
  | Seek seek_target
  | ReleaseCmd

datatype state = Stopped | Loading | Playing | Paused | Seeking

datatype output_state = Out_Closed | Out_Open | Out_Released "string option"

record status =
  st_state :: state
  st_track :: "track_meta option"
  st_spec :: "source_spec option"
  st_position :: duration
  st_duration :: "duration option"
  st_output :: output_state

datatype release_reason = Idle | ByCommand | Requested | Lost

datatype end_reason = Completed | Interrupted | Failed

datatype event =
    StateChanged state
  | TrackStarted track_meta source_spec bool
  | TrackEnded track_meta end_reason
  | PositionAt duration "duration option"
  | Seeked duration
  | SeekRejected string
  | QueueExhausted
  | OutputReleased "string option" release_reason
  | OutputAcquired
  | ErrorEvent string

section \<open>supplier.rs\<close>

datatype advance = Adv_Auto | Adv_Next | Adv_Previous | Adv_Restart

datatype peek = Peek_Next track_ref | Peek_End | Peek_Unknown

text \<open>
  An encoded source is what symphonia will read from it: a decoder's initial state, or the error
  of probing it.
\<close>

datatype track_media = Encoded "error + decoder" | RawPcm "sample list" source_spec

datatype seek_mode = NoSeek | InPlace | ForwardOnly | Reopen

record loaded_track =
  lt_meta :: track_meta
  lt_media :: track_media
  lt_seek :: seek_mode
  lt_start :: duration

definition new_loaded :: "track_meta \<Rightarrow> track_media \<Rightarrow> loaded_track" where
  "new_loaded m media = \<lparr>lt_meta = m, lt_media = media, lt_seek = NoSeek, lt_start = 0\<rparr>"

definition seekable_in_place :: "loaded_track \<Rightarrow> loaded_track" where
  "seekable_in_place t = t\<lparr>lt_seek := InPlace\<rparr>"

definition forward_only :: "loaded_track \<Rightarrow> loaded_track" where
  "forward_only t = t\<lparr>lt_seek := ForwardOnly\<rparr>"

definition reopenable :: "loaded_track \<Rightarrow> loaded_track" where
  "reopenable t = t\<lparr>lt_seek := Reopen\<rparr>"

definition starting_at :: "duration \<Rightarrow> loaded_track \<Rightarrow> loaded_track" where
  "starting_at at0 t = t\<lparr>lt_start := at0\<rparr>"

text \<open>\<^verbatim>\<open>TrackSupplier\<close>; a future that resolves is its value, with the world it leaves.\<close>

record 'w supplier =
  sup_advance :: "advance \<Rightarrow> 'w \<Rightarrow> track_ref option \<times> 'w"
  sup_open :: "track_ref \<Rightarrow> duration \<Rightarrow> 'w \<Rightarrow> (error + loaded_track) \<times> 'w"
  sup_peek :: "advance \<Rightarrow> 'w \<Rightarrow> peek"
  sup_open_ahead :: "track_ref \<Rightarrow> 'w \<Rightarrow> (error + loaded_track) \<times> 'w"
  sup_started :: "track_ref \<Rightarrow> 'w \<Rightarrow> bool \<times> 'w"

definition default_peek :: "advance \<Rightarrow> 'w \<Rightarrow> peek" where
  "default_peek how w = Peek_Unknown"

definition default_open_ahead ::
    "(track_ref \<Rightarrow> duration \<Rightarrow> 'w \<Rightarrow> (error + loaded_track) \<times> 'w)
       \<Rightarrow> track_ref \<Rightarrow> 'w \<Rightarrow> (error + loaded_track) \<times> 'w" where
  "default_open_ahead open_track track w = open_track track 0 w"

definition default_started :: "track_ref \<Rightarrow> 'w \<Rightarrow> bool \<times> 'w" where
  "default_started track w = (True, w)"

end
