(* ===== verification/Queue_Inner.thy ===== *)
theory Queue_Inner
  imports Engine_Types
begin

text \<open>
  \<^verbatim>\<open>crates/phonia-core/src/queue/inner.rs\<close>: the queue's sequencing state machine. One record for
  \<^verbatim>\<open>Inner\<close>, one function per method; a method that takes \<^verbatim>\<open>&mut self\<close> returns the new state.
  The random generator is the third-party \<^verbatim>\<open>rand\<close> crate: its state is the type parameter
  \<open>'g\<close> and \<^verbatim>\<open>SliceRandom::shuffle\<close> is the parameter \<open>shuf\<close> of the operations that shuffle.
\<close>

section \<open>Data\<close>

type_synonym item_id = nat

datatype repeat = RepeatOff | RepeatOne | RepeatAll

record queue_track =
  qt_source :: track_ref
  qt_title :: "string option"
  qt_artist :: "string option"
  qt_duration :: "duration option"
  qt_cover :: "string option"
  qt_album_id :: "string option"
  qt_artist_id :: "string option"
  qt_album :: "string option"

record queue_item =
  qi_id :: item_id
  qi_track :: queue_track

record queue_snapshot =
  snap_version :: nat
  snap_items :: "queue_item list"
  snap_order :: "item_id list"
  snap_current :: "item_id option"
  snap_shuffle :: bool
  snap_repeat :: repeat
  snap_autoplay :: bool

record 'g inner =
  next_id :: nat
  items :: "queue_item list"
  order :: "item_id list"
  current :: "item_id option"
  pending :: "item_id option"
  pending_backward :: bool
  history :: "item_id list"
  vacated :: "nat option"
  repeat_mode :: repeat
  shuffled :: bool
  rng :: 'g
  version :: nat
  replaygain :: gain_mode
  autoplay :: bool

datatype peeked = Peeked_Next item_id | Peeked_End | Peeked_Unknown

datatype base_slot = Base_At nat | Base_Vacated nat | Base_Nothing

definition history_limit :: nat where
  "history_limit = 200"

type_synonym 'g shuffler = "item_id list \<Rightarrow> 'g \<Rightarrow> item_id list \<times> 'g"

section \<open>Construction and lookup\<close>

definition new_inner :: "'g \<Rightarrow> 'g inner" where
  "new_inner seed =
     \<lparr>next_id = 1, items = [], order = [], current = None, pending = None,
      pending_backward = False, history = [], vacated = None, repeat_mode = RepeatOff,
      shuffled = False, rng = seed, version = 0, replaygain = ModeOff, autoplay = False\<rparr>"

definition snapshot :: "'g inner \<Rightarrow> queue_snapshot" where
  "snapshot q =
     \<lparr>snap_version = version q, snap_items = items q, snap_order = order q,
      snap_current = current q, snap_shuffle = shuffled q, snap_repeat = repeat_mode q,
      snap_autoplay = autoplay q\<rparr>"

definition find_item :: "'g inner \<Rightarrow> item_id \<Rightarrow> queue_item option" where
  "find_item q i = List.find (\<lambda>it. qi_id it = i) (items q)"

definition bump_version :: "'g inner \<Rightarrow> 'g inner" where
  "bump_version q = q\<lparr>version := version q + 1\<rparr>"

definition fill_meta :: "string option \<Rightarrow> duration option \<Rightarrow> queue_track \<Rightarrow> queue_track" where
  "fill_meta title dur t =
     t\<lparr>qt_title := or_else (qt_title t) title, qt_duration := or_else (qt_duration t) dur\<rparr>"

definition record_meta ::
    "item_id \<Rightarrow> string option \<Rightarrow> duration option \<Rightarrow> 'g inner \<Rightarrow> 'g inner" where
  "record_meta i title dur q =
     (case position_of (\<lambda>it. qi_id it = i) (items q) of
        None \<Rightarrow> q
      | Some k \<Rightarrow>
          let it = items q ! k; t = qi_track it;
              changed = (qt_title t = None \<and> title \<noteq> None) \<or>
                        (qt_duration t = None \<and> dur \<noteq> None);
              q = q\<lparr>items := (items q)[k := it\<lparr>qi_track := fill_meta title dur t\<rparr>]\<rparr>
          in if changed then bump_version q else q)"

fun number_items :: "nat \<Rightarrow> queue_track list \<Rightarrow> queue_item list" where
  "number_items n [] = []"
| "number_items n (t # ts) = \<lparr>qi_id = n, qi_track = t\<rparr> # number_items (n + 1) ts"

definition new_items :: "queue_track list \<Rightarrow> 'g inner \<Rightarrow> queue_item list \<times> 'g inner" where
  "new_items ts q =
     (number_items (next_id q) ts, q\<lparr>next_id := next_id q + length ts\<rparr>)"

definition position :: "'g inner \<Rightarrow> item_id \<Rightarrow> nat option" where
  "position q i = position_of (\<lambda>c. c = i) (order q)"

section \<open>Editing\<close>

definition insert_in_order :: "nat \<Rightarrow> item_id list \<Rightarrow> 'g inner \<Rightarrow> 'g inner" where
  "insert_in_order at0 ids q =
     (let i = min at0 (length (order q));
          q = q\<lparr>order := insert_at i ids (order q)\<rparr>
      in case vacated q of
           Some v \<Rightarrow> if i < v then q\<lparr>vacated := Some (v + length ids)\<rparr> else q
         | None \<Rightarrow> q)"

definition q_insert :: "nat \<Rightarrow> queue_track list \<Rightarrow> 'g inner \<Rightarrow> item_id list \<times> 'g inner" where
  "q_insert at0 ts q =
     (let (new, q) = new_items ts q;
          ids = map qi_id new;
          i = min at0 (length (items q));
          order_at = (if shuffled q then length (order q) else i);
          q = q\<lparr>items := insert_at i new (items q)\<rparr>;
          q = insert_in_order order_at ids q
      in (ids, bump_version q))"

definition q_add :: "queue_track list \<Rightarrow> 'g inner \<Rightarrow> item_id list \<times> 'g inner" where
  "q_add ts q = q_insert (length (items q)) ts q"

definition play_next_items_at :: "'g inner \<Rightarrow> nat" where
  "play_next_items_at q =
     (case Option.bind (current q) (\<lambda>i. position_of (\<lambda>it. qi_id it = i) (items q)) of
        Some k \<Rightarrow> k + 1
      | None \<Rightarrow> min (case vacated q of None \<Rightarrow> 0 | Some v \<Rightarrow> v) (length (items q)))"

definition play_next_order_at :: "'g inner \<Rightarrow> nat" where
  "play_next_order_at q =
     (case Option.bind (current q) (position q) of
        Some k \<Rightarrow> k + 1
      | None \<Rightarrow> min (case vacated q of None \<Rightarrow> 0 | Some v \<Rightarrow> v) (length (order q)))"

definition q_play_next :: "queue_track list \<Rightarrow> 'g inner \<Rightarrow> item_id list \<times> 'g inner" where
  "q_play_next ts q =
     (let (new, q) = new_items ts q;
          ids = map qi_id new;
          items_at = play_next_items_at q;
          order_at = play_next_order_at q;
          q = q\<lparr>items := insert_at items_at new (items q)\<rparr>;
          q = insert_in_order order_at ids q
      in (ids, bump_version q))"

text \<open>The body of the loop of \<^verbatim>\<open>remove\<close>, for one id; \<open>None\<close> when there is no such entry.\<close>

definition remove_one :: "item_id \<Rightarrow> 'g inner \<Rightarrow> 'g inner option" where
  "remove_one i q =
     (case position_of (\<lambda>it. qi_id it = i) (items q) of
        None \<Rightarrow> None
      | Some k \<Rightarrow>
          let q = q\<lparr>items := remove_at k (items q)\<rparr>;
              slot = position q i;
              q = (case slot of Some s \<Rightarrow> q\<lparr>order := remove_at s (order q)\<rparr> | None \<Rightarrow> q);
              q = (if current q = Some i then q\<lparr>current := None, vacated := slot\<rparr>
                   else case (vacated q, slot) of
                          (Some v, Some s) \<Rightarrow>
                            if s < v then q\<lparr>vacated := Some (v - 1)\<rparr> else q
                        | _ \<Rightarrow> q);
              q = (if pending q = Some i then q\<lparr>pending := None\<rparr> else q)
          in Some (q\<lparr>history := filter (\<lambda>played. played \<noteq> i) (history q)\<rparr>))"

fun remove_loop :: "item_id list \<Rightarrow> nat \<Rightarrow> 'g inner \<Rightarrow> nat \<times> 'g inner" where
  "remove_loop [] removed q = (removed, q)"
| "remove_loop (i # ids) removed q =
     (case remove_one i q of
        None \<Rightarrow> remove_loop ids removed q
      | Some q' \<Rightarrow> remove_loop ids (removed + 1) q')"

definition q_remove :: "item_id list \<Rightarrow> 'g inner \<Rightarrow> nat \<times> 'g inner" where
  "q_remove ids q =
     (case remove_loop ids 0 q of
        (removed, q') \<Rightarrow> (removed, if removed > 0 then bump_version q' else q'))"

definition q_move_to :: "item_id \<Rightarrow> nat \<Rightarrow> 'g inner \<Rightarrow> bool \<times> 'g inner" where
  "q_move_to i to q =
     (case position_of (\<lambda>it. qi_id it = i) (items q) of
        None \<Rightarrow> (False, q)
      | Some from \<Rightarrow>
          let it = items q ! from;
              rest = remove_at from (items q);
              q = q\<lparr>items := insert_at (min to (length rest)) [it] rest\<rparr>;
              q = (if \<not> shuffled q then q\<lparr>order := map qi_id (items q)\<rparr> else q)
          in (True, bump_version q))"

definition q_clear :: "'g inner \<Rightarrow> 'g inner" where
  "q_clear q =
     bump_version (q\<lparr>items := [], order := [], current := None, pending := None,
                    pending_backward := False, history := [], vacated := None\<rparr>)"

definition q_set_repeat :: "repeat \<Rightarrow> 'g inner \<Rightarrow> 'g inner" where
  "q_set_repeat r q =
     (if repeat_mode q \<noteq> r then bump_version (q\<lparr>repeat_mode := r\<rparr>) else q)"

definition q_set_autoplay :: "bool \<Rightarrow> 'g inner \<Rightarrow> 'g inner" where
  "q_set_autoplay a q = (if autoplay q \<noteq> a then bump_version (q\<lparr>autoplay := a\<rparr>) else q)"

definition q_set_shuffle :: "'g shuffler \<Rightarrow> bool \<Rightarrow> 'g inner \<Rightarrow> 'g inner" where
  "q_set_shuffle shuf on q =
     (if shuffled q = on then q
      else let q = q\<lparr>shuffled := on\<rparr>
           in bump_version
                (if on then
                   let others = filter (\<lambda>i. Some i \<noteq> current q) (map qi_id (items q));
                       (others, g) = shuf others (rng q)
                   in q\<lparr>rng := g,
                        order := (case current q of Some c \<Rightarrow> [c] | None \<Rightarrow> []) @ others,
                        vacated := None\<rparr>
                 else q\<lparr>order := map qi_id (items q), vacated := None\<rparr>))"

definition q_set_replay_gain :: "gain_mode \<Rightarrow> 'g inner \<Rightarrow> 'g inner" where
  "q_set_replay_gain m q = q\<lparr>replaygain := m\<rparr>"

section \<open>ReplayGain in context\<close>

definition album_of :: "'g inner \<Rightarrow> item_id \<Rightarrow> string option" where
  "album_of q i = Option.bind (find_item q i) (\<lambda>it. qt_album_id (qi_track it))"

definition album_context :: "'g inner \<Rightarrow> item_id \<Rightarrow> bool" where
  "album_context q i =
     (if shuffled q then False
      else case album_of q i of
             None \<Rightarrow> False
           | Some album \<Rightarrow>
               (case position q i of
                  None \<Rightarrow> False
                | Some p \<Rightarrow>
                    let matches = (\<lambda>neighbor. Option.bind neighbor (album_of q) = Some album)
                    in matches (if p = 0 then None else get_at (order q) (p - 1))
                       \<or> matches (get_at (order q) (p + 1))))"

definition applied_gain_for :: "'g inner \<Rightarrow> item_id \<Rightarrow> loudness \<Rightarrow> applied_gain option" where
  "applied_gain_for q i l = choose_gain l (replaygain q) (album_context q i)"

section \<open>Sequencing\<close>

definition base_id :: "'g inner \<Rightarrow> item_id option" where
  "base_id q =
     or_else (Option.bind (pending q) (\<lambda>i. if position q i \<noteq> None then Some i else None))
             (current q)"

definition base_of :: "'g inner \<Rightarrow> item_id option \<Rightarrow> base_slot" where
  "base_of q b =
     (case Option.bind b (position q) of
        Some p \<Rightarrow> Base_At p
      | None \<Rightarrow> (case vacated q of Some v \<Rightarrow> Base_Vacated v | None \<Rightarrow> Base_Nothing))"

definition base :: "'g inner \<Rightarrow> base_slot" where
  "base q = base_of q (base_id q)"

fun next_slot :: "base_slot \<Rightarrow> nat" where
  "next_slot (Base_At p) = p + 1"
| "next_slot (Base_Vacated s) = s"
| "next_slot Base_Nothing = 0"

text \<open>\<^verbatim>\<open>wrap_around\<close> is only called with a non-empty order; \<^verbatim>\<open>self.order[0]\<close> panics otherwise.\<close>

definition wrap_around :: "'g shuffler \<Rightarrow> 'g inner \<Rightarrow> item_id option \<times> 'g inner" where
  "wrap_around shuf q =
     (let q = (if shuffled q then
                 let last = base_id q;
                     (ord, g) = shuf (order q) (rng q);
                     ord = (if 2 \<le> length ord \<and> Some (ord ! 0) = last
                            then ord[0 := ord ! 1, 1 := ord ! 0] else ord)
                 in bump_version (q\<lparr>order := ord, rng := g\<rparr>)
               else q)
      in (first_of (order q), q))"

definition forward :: "'g shuffler \<Rightarrow> bool \<Rightarrow> 'g inner \<Rightarrow> item_id option \<times> 'g inner" where
  "forward shuf wrap q =
     (case get_at (order q) (next_slot (base q)) of
        Some i \<Rightarrow> (Some i, q)
      | None \<Rightarrow> if wrap \<and> order q \<noteq> [] then wrap_around shuf q else (None, q))"

function pop_stale :: "(item_id \<Rightarrow> bool) \<Rightarrow> item_id list \<Rightarrow> item_id list" where
  "pop_stale present h =
     (if h = [] then [] else if present (last h) then h else pop_stale present (butlast h))"
  by pat_completeness auto
termination pop_stale
  by (relation "measure (\<lambda>(p, h). length h)") auto

declare pop_stale.simps [simp del]

definition backward :: "bool \<Rightarrow> 'g inner \<Rightarrow> item_id option \<times> 'g inner" where
  "backward wrap q =
     (let q = q\<lparr>history := pop_stale (\<lambda>i. position q i \<noteq> None) (history q)\<rparr>
      in case last_of (history q) of
           Some played \<Rightarrow> (Some played, q)
         | None \<Rightarrow>
             (case base q of
                Base_At p \<Rightarrow> if p = 0 then if wrap then last_of (order q) else None
                             else get_at (order q) (p - 1)
              | Base_Vacated s \<Rightarrow> if s = 0 then None else get_at (order q) (s - 1)
              | Base_Nothing \<Rightarrow> first_of (order q), q))"

text \<open>\<^verbatim>\<open>advance\<close>: the answer for \<open>how\<close>, then its recording as \<^verbatim>\<open>pending\<close>.\<close>

definition advance_target :: "'g shuffler \<Rightarrow> advance \<Rightarrow> 'g inner \<Rightarrow> item_id option \<times> 'g inner" where
  "advance_target shuf how q =
     (case how of
        Adv_Restart \<Rightarrow> (base_id q, q)
      | Adv_Auto \<Rightarrow>
          (case repeat_mode q of
             RepeatOne \<Rightarrow> (or_else (base_id q) (first_of (order q)), q)
           | RepeatOff \<Rightarrow> forward shuf False q
           | RepeatAll \<Rightarrow> forward shuf True q)
      | Adv_Next \<Rightarrow> forward shuf (repeat_mode q \<noteq> RepeatOff) q
      | Adv_Previous \<Rightarrow> backward (repeat_mode q = RepeatAll) q)"

definition q_advance :: "'g shuffler \<Rightarrow> advance \<Rightarrow> 'g inner \<Rightarrow> item_id option \<times> 'g inner" where
  "q_advance shuf how q =
     (let (target, q) = advance_target shuf how q
      in (target,
          q\<lparr>pending := target,
            pending_backward := (how = Adv_Previous \<and> target \<noteq> None)\<rparr>))"

definition peek_forward :: "'g inner \<Rightarrow> bool \<Rightarrow> peeked" where
  "peek_forward q wrap =
     (case get_at (order q) (next_slot (base_of q (current q))) of
        Some i \<Rightarrow> Peeked_Next i
      | None \<Rightarrow>
          if wrap \<and> shuffled q \<and> order q \<noteq> [] then Peeked_Unknown
          else if wrap \<and> order q \<noteq> [] then Peeked_Next (order q ! 0)
          else Peeked_End)"

definition q_peek :: "advance \<Rightarrow> 'g inner \<Rightarrow> peeked" where
  "q_peek how q =
     (case how of
        Adv_Restart \<Rightarrow> (case current q of None \<Rightarrow> Peeked_End | Some i \<Rightarrow> Peeked_Next i)
      | Adv_Auto \<Rightarrow>
          (case repeat_mode q of
             RepeatOne \<Rightarrow>
               (case or_else (current q) (first_of (order q)) of
                  Some i \<Rightarrow> Peeked_Next i
                | None \<Rightarrow> Peeked_End)
           | RepeatOff \<Rightarrow> peek_forward q False
           | RepeatAll \<Rightarrow> peek_forward q True)
      | Adv_Next \<Rightarrow> peek_forward q (repeat_mode q \<noteq> RepeatOff)
      | Adv_Previous \<Rightarrow> Peeked_Unknown)"

definition autoplay_due :: "'g inner \<Rightarrow> item_id option" where
  "autoplay_due q =
     (if autoplay q \<and> repeat_mode q = RepeatOff \<and> q_peek Adv_Auto q = Peeked_End
      then current q else None)"

definition push_history :: "item_id \<Rightarrow> item_id list \<Rightarrow> item_id list" where
  "push_history i h =
     (let h = h @ [i] in if length h > history_limit then remove_at 0 h else h)"

definition q_commit :: "item_id \<Rightarrow> 'g inner \<Rightarrow> bool \<times> 'g inner" where
  "q_commit i q =
     (if find_item q i = None then (False, q)
      else let stepping_back = (pending q = Some i \<and> pending_backward q);
               q = q\<lparr>pending := None, pending_backward := False, vacated := None\<rparr>
           in if current q = Some i then (True, q)
              else let q = (if last_of (history q) = Some i
                            then q\<lparr>history := butlast (history q)\<rparr>
                            else if stepping_back then q
                            else case current q of
                                   Some previous \<Rightarrow>
                                     q\<lparr>history := push_history previous (history q)\<rparr>
                                 | None \<Rightarrow> q)
                   in (True, bump_version (q\<lparr>current := Some i\<rparr>)))"

end
