(* ===== verification/Queue_Wf.thy ===== *)
theory Queue_Wf
  imports Queue_Inner
begin

text \<open>
  Well-formedness of the queue state and its preservation by every operation of
  \<^verbatim>\<open>queue/inner.rs\<close>: the play order is a permutation of the entries (and equal to them unless
  shuffled), ids are unique and below \<^verbatim>\<open>next_id\<close>, and every cursor names an entry that exists.
\<close>

abbreviation item_ids :: "'g inner \<Rightarrow> item_id list" where
  "item_ids q \<equiv> map qi_id (items q)"

definition queue_wf :: "'g inner \<Rightarrow> bool" where
  "queue_wf q \<longleftrightarrow>
     distinct (item_ids q) \<and> (\<forall>i \<in> set (item_ids q). i < next_id q) \<and>
     mset (order q) = mset (item_ids q) \<and>
     (\<not> shuffled q \<longrightarrow> order q = item_ids q) \<and>
     set_option (current q) \<subseteq> set (item_ids q) \<and>
     set_option (pending q) \<subseteq> set (item_ids q) \<and>
     set (history q) \<subseteq> set (item_ids q) \<and>
     length (history q) \<le> history_limit \<and>
     (\<forall>v \<in> set_option (vacated q). v \<le> length (order q) \<and> current q = None)"

text \<open>What the code relies on from \<^verbatim>\<open>rand\<close>: a shuffle rearranges, it never adds or drops.\<close>

definition shuffles :: "'g shuffler \<Rightarrow> bool" where
  "shuffles shuf \<longleftrightarrow> (\<forall>xs g. mset (fst (shuf xs g)) = mset xs)"

lemma shuffles_mset: "shuffles shuf \<Longrightarrow> shuf xs g = (ys, g') \<Longrightarrow> mset ys = mset xs"
  unfolding shuffles_def by (metis fst_conv)

lemma shuffles_set: "shuffles shuf \<Longrightarrow> shuf xs g = (ys, g') \<Longrightarrow> set ys = set xs"
  by (metis shuffles_mset mset_eq_setD)

section \<open>Consequences of well-formedness\<close>

lemma wf_set_order: "queue_wf q \<Longrightarrow> set (order q) = set (item_ids q)"
  unfolding queue_wf_def by (metis mset_eq_setD)

lemma wf_length_order: "queue_wf q \<Longrightarrow> length (order q) = length (items q)"
  unfolding queue_wf_def by (metis length_map mset_eq_length)

lemma wf_distinct_order: "queue_wf q \<Longrightarrow> distinct (order q)"
  unfolding queue_wf_def by (metis mset_eq_imp_distinct_iff)

lemma position_Some: "position q i = Some p \<Longrightarrow> p < length (order q) \<and> order q ! p = i"
  unfolding position_def by (rule position_of_eq_nth)

lemma position_None: "position q i = None \<longleftrightarrow> i \<notin> set (order q)"
  by (auto simp: position_def position_of_None)

lemma position_mem: "i \<in> set (order q) \<Longrightarrow> \<exists>p. position q i = Some p"
  unfolding position_def by (rule position_of_mem)

lemma position_nth:
  "distinct (order q) \<Longrightarrow> p < length (order q) \<Longrightarrow> position q (order q ! p) = Some p"
  unfolding position_def by (rule position_of_distinct)

lemma position_cong: "order q = order q' \<Longrightarrow> position q = position q'"
  by (rule ext) (simp add: position_def)

lemma find_item_None: "find_item q i = None \<longleftrightarrow> i \<notin> set (item_ids q)"
  by (auto simp: find_item_def find_None_iff)

lemma item_position_None:
  "position_of (\<lambda>it. qi_id it = i) xs = None \<longleftrightarrow> i \<notin> set (map qi_id xs)"
  by (auto simp: position_of_None)

lemma item_position_Some:
  "position_of (\<lambda>it. qi_id it = i) xs = Some k \<Longrightarrow>
     k < length xs \<and> qi_id (xs ! k) = i \<and> i \<in> set (map qi_id xs)"
  by (auto dest!: position_of_Some)

lemma item_position_eq:
  "position_of (\<lambda>it. qi_id it = i) xs = position_of (\<lambda>c. c = i) (map qi_id xs)"
  by (simp add: position_of_map)

lemma number_items_ids: "map qi_id (number_items n ts) = [n ..< n + length ts]"
  by (induction ts arbitrary: n) (simp_all add: upt_rec)

lemma number_items_tracks: "map qi_track (number_items n ts) = ts"
  by (induction ts arbitrary: n) simp_all

lemma length_number_items [simp]: "length (number_items n ts) = length ts"
  by (induction ts arbitrary: n) simp_all

lemma bump_version_simps [simp]:
  "next_id (bump_version q) = next_id q" "items (bump_version q) = items q"
  "order (bump_version q) = order q" "current (bump_version q) = current q"
  "pending (bump_version q) = pending q"
  "pending_backward (bump_version q) = pending_backward q"
  "history (bump_version q) = history q" "vacated (bump_version q) = vacated q"
  "repeat_mode (bump_version q) = repeat_mode q" "shuffled (bump_version q) = shuffled q"
  "rng (bump_version q) = rng q" "version (bump_version q) = version q + 1"
  "replaygain (bump_version q) = replaygain q" "autoplay (bump_version q) = autoplay q"
  by (simp_all add: bump_version_def)

lemma queue_wf_bump [simp]: "queue_wf (bump_version q) = queue_wf q"
  by (simp add: queue_wf_def)

text \<open>A state that differs in fields well-formedness does not read.\<close>

lemma queue_wf_cong:
  assumes "items q' = items q" "order q' = order q" "current q' = current q"
    "pending q' = pending q" "history q' = history q" "vacated q' = vacated q"
    "shuffled q' = shuffled q" "next_id q' = next_id q"
  shows "queue_wf q' = queue_wf q"
  using assms by (simp add: queue_wf_def)

section \<open>Every operation preserves it\<close>

lemma wf_new: "queue_wf (new_inner seed)"
  by (simp add: queue_wf_def new_inner_def)

lemma wf_record_meta:
  assumes "queue_wf q" shows "queue_wf (record_meta i title dur q)"
proof (cases "position_of (\<lambda>it. qi_id it = i) (items q)")
  case None
  then show ?thesis using assms by (simp add: record_meta_def)
next
  case (Some k)
  let ?it = "(items q ! k)\<lparr>qi_track := fill_meta title dur (qi_track (items q ! k))\<rparr>"
  have "map qi_id ((items q)[k := ?it]) = item_ids q"
    by (simp add: map_update list_update_id flip: nth_map)
       (metis list_update_id map_update nth_map list_update_beyond not_le_imp_less)
  then have "queue_wf (q\<lparr>items := (items q)[k := ?it]\<rparr>) = queue_wf q"
    by (simp add: queue_wf_def flip: set_map)
  then show ?thesis using assms Some by (simp add: record_meta_def Let_def)
qed

text \<open>Insertion: the new ids are fresh, so uniqueness and the permutation survive.\<close>

lemma insert_in_order_simps [simp]:
  "items (insert_in_order a ids q) = items q"
  "current (insert_in_order a ids q) = current q"
  "pending (insert_in_order a ids q) = pending q"
  "history (insert_in_order a ids q) = history q"
  "shuffled (insert_in_order a ids q) = shuffled q"
  "next_id (insert_in_order a ids q) = next_id q"
  "version (insert_in_order a ids q) = version q"
  "order (insert_in_order a ids q) = insert_at (min a (length (order q))) ids (order q)"
  by (auto simp: insert_in_order_def Let_def split: option.splits)

lemma insert_in_order_vacated:
  "vacated q = Some v \<Longrightarrow> v \<le> length (order q) \<Longrightarrow>
     \<exists>v'. vacated (insert_in_order a ids q) = Some v' \<and> v' \<le> length ids + length (order q)"
  "vacated q = None \<Longrightarrow> vacated (insert_in_order a ids q) = None"
  by (auto simp: insert_in_order_def Let_def)

lemma wf_insert_core:
  assumes wf: "queue_wf q"
    and new: "new = number_items (next_id q) ts"
    and q': "q' = insert_in_order oa (map qi_id new)
               (q\<lparr>next_id := next_id q + length ts, items := insert_at ia new (items q)\<rparr>)"
    and ia: "ia \<le> length (items q)"
    and same: "\<not> shuffled q \<Longrightarrow> oa = ia"
  shows "queue_wf q'"
proof -
  have ids: "map qi_id new = [next_id q ..< next_id q + length ts]"
    by (simp add: new number_items_ids)
  have items': "item_ids q' = insert_at ia (map qi_id new) (item_ids q)"
    by (simp add: q' map_insert_at)
  have fresh: "set (map qi_id new) \<inter> set (item_ids q) = {}"
    using wf by (auto simp: ids queue_wf_def)
  have "distinct (item_ids q')"
    using wf fresh by (auto simp: items' distinct_insert_at ids queue_wf_def simp del: set_map)
  moreover have "\<forall>i \<in> set (item_ids q'). i < next_id q'"
    using wf unfolding items' by (auto simp: q' ids queue_wf_def simp del: set_map)
  moreover have "mset (order q') = mset (item_ids q')"
    using wf unfolding items' by (simp add: q' queue_wf_def)
  moreover have "\<not> shuffled q' \<longrightarrow> order q' = item_ids q'"
    using wf same ia unfolding items' by (auto simp: q' queue_wf_def)
  moreover have "set (item_ids q) \<subseteq> set (item_ids q')"
    unfolding items' by auto
  moreover have "\<forall>v \<in> set_option (vacated q'). v \<le> length (order q') \<and> current q' = None"
  proof (cases "vacated q")
    case None
    then show ?thesis by (simp add: q' insert_in_order_vacated)
  next
    case (Some v)
    then have "v \<le> length (order q)" "current q = None" using wf by (auto simp: queue_wf_def)
    then show ?thesis
      using insert_in_order_vacated(1) [of "q\<lparr>next_id := next_id q + length ts,
          items := insert_at ia new (items q)\<rparr>" v oa "map qi_id new"] Some
      by (auto simp: q')
  qed
  ultimately show ?thesis
    using wf unfolding queue_wf_def by (auto simp: q' simp del: set_map)
qed

lemma wf_insert: "queue_wf q \<Longrightarrow> queue_wf (snd (q_insert a ts q))"
  unfolding q_insert_def new_items_def Let_def
  by (simp split del: if_split,
      rule wf_insert_core [where ts = ts and q = q and ia = "min a (length (items q))"
        and oa = "if shuffled q then length (order q) else min a (length (items q))"]) auto

lemma wf_add: "queue_wf q \<Longrightarrow> queue_wf (snd (q_add ts q))"
  by (simp add: q_add_def wf_insert)

lemma play_next_same_slot:
  assumes "queue_wf q" "\<not> shuffled q"
  shows "play_next_order_at q = play_next_items_at q"
  using assms
  by (auto simp: play_next_order_at_def play_next_items_at_def queue_wf_def position_def
      item_position_eq cong: option.case_cong split: option.splits bind_splits)

lemma play_next_items_at_le: "play_next_items_at q \<le> length (items q)"
  by (auto simp: play_next_items_at_def Suc_le_eq dest: position_of_length
      split: option.splits bind_splits)

lemma position_next_id [simp]: "position (q\<lparr>next_id := n\<rparr>) = position q"
  by (rule position_cong) simp

lemma play_next_at_cong [simp]:
  "play_next_items_at (q\<lparr>next_id := n\<rparr>) = play_next_items_at q"
  "play_next_order_at (q\<lparr>next_id := n\<rparr>) = play_next_order_at q"
  by (simp_all add: play_next_items_at_def play_next_order_at_def split: option.split)

lemma wf_play_next: "queue_wf q \<Longrightarrow> queue_wf (snd (q_play_next ts q))"
  unfolding q_play_next_def new_items_def Let_def
  by (simp split del: if_split,
      rule wf_insert_core [where ts = ts and q = q and ia = "play_next_items_at q"
        and oa = "play_next_order_at q"])
     (auto simp: play_next_same_slot play_next_items_at_le)

text \<open>Removal of one entry, then of a list of them.\<close>

lemma remove_one_None: "remove_one i q = None \<longleftrightarrow> i \<notin> set (item_ids q)"
  by (auto simp: remove_one_def Let_def position_of_None dest!: item_position_Some
      split: option.splits)

lemma remove_one_frame:
  assumes "remove_one i q = Some q'"
  shows "next_id q' = next_id q" "shuffled q' = shuffled q" "version q' = version q"
    "history q' = filter (\<lambda>j. j \<noteq> i) (history q)"
    "pending q' = (if pending q = Some i then None else pending q)"
    "current q' = (if current q = Some i then None else current q)"
    "repeat_mode q' = repeat_mode q" "autoplay q' = autoplay q"
  using assms by (auto simp: remove_one_def Let_def split: option.splits if_splits)

lemma remove_one_items:
  assumes "remove_one i q = Some q'" and "queue_wf q"
  shows "item_ids q' = filter (\<lambda>j. j \<noteq> i) (item_ids q)"
    and "order q' = filter (\<lambda>j. j \<noteq> i) (order q)" and "i \<in> set (item_ids q)"
proof -
  from assms(1) obtain k where k: "position_of (\<lambda>it. qi_id it = i) (items q) = Some k"
    by (auto simp: remove_one_def split: option.splits)
  note k' = item_position_Some [OF k]
  then show mem: "i \<in> set (item_ids q)" by blast
  have "items q' = remove_at k (items q)"
    using assms(1) k by (auto simp: remove_one_def Let_def split: option.splits if_splits)
  then have "item_ids q' = remove_at k (item_ids q)" by (simp add: map_remove_at)
  then show "item_ids q' = filter (\<lambda>j. j \<noteq> i) (item_ids q)"
    using assms(2) k' by (simp add: remove_at_distinct_filter queue_wf_def)
  from mem assms(2) have "i \<in> set (order q)" by (simp add: wf_set_order)
  then obtain s where s: "position q i = Some s" using position_mem by blast
  then have "position (q\<lparr>items := remove_at k (items q)\<rparr>) i = Some s"
    by (simp add: position_def)
  then have "order q' = remove_at s (order q)"
    using assms(1) k by (auto simp: remove_one_def Let_def split: option.splits if_splits)
  then show "order q' = filter (\<lambda>j. j \<noteq> i) (order q)"
    using position_Some [OF s] wf_distinct_order [OF assms(2)]
    by (simp add: remove_at_distinct_filter)
qed

lemma remove_one_vacated:
  assumes "remove_one i q = Some q'" and "queue_wf q"
  shows "\<forall>v \<in> set_option (vacated q'). v \<le> length (order q') \<and> current q' = None"
proof -
  from assms(1) obtain k where k: "position_of (\<lambda>it. qi_id it = i) (items q) = Some k"
    by (auto simp: remove_one_def split: option.splits)
  have "i \<in> set (order q)"
    using remove_one_items(3) [OF assms] assms(2) by (simp add: wf_set_order)
  then obtain s where s: "position q i = Some s" using position_mem by blast
  then have s': "position (q\<lparr>items := remove_at k (items q)\<rparr>) i = Some s"
    by (simp add: position_def)
  have len: "length (remove_at s (order q)) = length (order q) - 1" "s < length (order q)"
    using position_Some [OF s] by simp_all
  have "\<forall>v \<in> set_option (vacated q). v \<le> length (order q) \<and> current q = None"
    using assms(2) by (simp add: queue_wf_def)
  then show ?thesis
    using assms(1) k s' len
    by (auto simp: remove_one_def Let_def split: option.splits if_splits)
qed

lemma remove_one_slot:
  assumes "remove_one i q = Some q'" and "current q = Some i" and "position q i = Some p"
  shows "vacated q' = Some p" and "order q' = remove_at p (order q)"
proof -
  have pos: "position (q\<lparr>items := xs\<rparr>) i = Some p" for xs
    using assms(3) by (simp add: position_def)
  show "vacated q' = Some p" and "order q' = remove_at p (order q)"
    using assms(1,2) by (auto simp: remove_one_def Let_def pos split: option.splits if_splits)
qed

lemma wf_remove_one:
  assumes r: "remove_one i q = Some q'" and wf: "queue_wf q"
  shows "queue_wf q'"
proof -
  note frame = remove_one_frame [OF r]
  note ids = remove_one_items(1,2) [OF r wf]
  have "mset (filter (\<lambda>j. j \<noteq> i) (order q)) = mset (filter (\<lambda>j. j \<noteq> i) (item_ids q))"
    using wf unfolding queue_wf_def by (metis mset_filter)
  then have "mset (order q') = mset (item_ids q')" by (simp only: ids)
  moreover have "distinct (item_ids q')" "\<forall>j \<in> set (item_ids q'). j < next_id q'"
    using wf unfolding ids frame(1) queue_wf_def by (simp_all only: distinct_filter set_filter) blast
  moreover have "\<not> shuffled q' \<longrightarrow> order q' = item_ids q'"
    using wf unfolding ids frame(2) queue_wf_def by simp
  moreover have "set_option (current q') \<subseteq> set (item_ids q')"
    "set_option (pending q') \<subseteq> set (item_ids q')" "set (history q') \<subseteq> set (item_ids q')"
    using wf unfolding ids frame queue_wf_def by (auto simp del: set_map split: if_splits)
  moreover have "length (history q') \<le> history_limit"
    using wf unfolding frame queue_wf_def by (auto intro: le_trans [OF length_filter_le])
  ultimately show ?thesis
    using remove_one_vacated [OF r wf] unfolding queue_wf_def by blast
qed

lemma remove_loop_induct:
  assumes "P q" and "\<And>q i q'. P q \<Longrightarrow> remove_one i q = Some q' \<Longrightarrow> P q'"
  shows "P (snd (remove_loop ids n q))"
  using assms(1)
  by (induction ids n q rule: remove_loop.induct) (auto intro: assms(2) split: option.splits)

lemma wf_remove: "queue_wf q \<Longrightarrow> queue_wf (snd (q_remove ids q))"
  using remove_loop_induct [of queue_wf q ids 0]
  by (auto simp: q_remove_def wf_remove_one split: prod.splits)

lemma wf_move_to:
  assumes "queue_wf q" shows "queue_wf (snd (q_move_to i to q))"
proof (cases "position_of (\<lambda>it. qi_id it = i) (items q)")
  case None
  then show ?thesis using assms by (simp add: q_move_to_def)
next
  case (Some k)
  let ?rest = "remove_at k (items q)"
  let ?new = "insert_at (min to (length ?rest)) [items q ! k] ?rest"
  have "mset ?new = mset (items q)"
    using item_position_Some [OF Some] by (simp add: remove_at_split [of k "items q"])
  then have m: "mset (map qi_id ?new) = mset (item_ids q)" by simp
  note facts = mset_eq_setD [OF m] mset_eq_imp_distinct_iff [OF m] mset_eq_length [OF m]
  show ?thesis
    using assms Some m facts wf_length_order [OF assms]
    unfolding queue_wf_def q_move_to_def
    by (auto simp: Let_def simp del: set_map mset_map)
qed

lemma wf_clear: "queue_wf (q_clear q)"
  by (simp add: queue_wf_def q_clear_def)

lemma wf_set_repeat: "queue_wf q \<Longrightarrow> queue_wf (q_set_repeat r q)"
  by (simp add: q_set_repeat_def queue_wf_def)

lemma wf_set_autoplay: "queue_wf q \<Longrightarrow> queue_wf (q_set_autoplay a q)"
  by (simp add: q_set_autoplay_def queue_wf_def)

lemma wf_set_replay_gain: "queue_wf q \<Longrightarrow> queue_wf (q_set_replay_gain m q)"
  by (simp add: q_set_replay_gain_def queue_wf_def)

lemma mset_head_others:
  assumes "distinct xs" and "set_option c \<subseteq> set xs"
    and "mset ys = mset (filter (\<lambda>i. Some i \<noteq> c) xs)"
  shows "mset ((case c of Some i \<Rightarrow> [i] | None \<Rightarrow> []) @ ys) = mset xs"
proof (cases c)
  case None
  then show ?thesis using assms(3) by simp
next
  case (Some i)
  have "mset xs = filter_mset (\<lambda>j. j = i) (mset xs) + filter_mset (\<lambda>j. j \<noteq> i) (mset xs)"
    by (rule multiset_partition)
  moreover have "filter_mset (\<lambda>j. j = i) (mset xs) = {#i#}"
    using assms(1,2) Some by (simp add: filter_eq_replicate_mset distinct_count_atmost_1)
  ultimately show ?thesis using Some assms(3) by (simp add: eq_commute)
qed

lemma wf_set_shuffle:
  assumes "shuffles shuf" and wf: "queue_wf q"
  shows "queue_wf (q_set_shuffle shuf on q)"
proof (cases "shuffled q = on")
  case True
  then show ?thesis using wf by (simp add: q_set_shuffle_def)
next
  case False
  show ?thesis
  proof (cases on)
    case True
    obtain ys g where s: "shuf (filter (\<lambda>i. Some i \<noteq> current q) (item_ids q)) (rng q) = (ys, g)"
      by fastforce
    have "mset ((case current q of Some i \<Rightarrow> [i] | None \<Rightarrow> []) @ ys) = mset (item_ids q)"
      using wf shuffles_mset [OF assms(1) s] by (intro mset_head_others) (auto simp: queue_wf_def)
    then show ?thesis
      using wf s False True by (simp add: q_set_shuffle_def queue_wf_def)
  next
    case off: False
    then show ?thesis using wf False by (simp add: q_set_shuffle_def queue_wf_def)
  qed
qed

end
