(* ===== verification/Queue_Seq.thy ===== *)
theory Queue_Seq
  imports Queue_Wf
begin

text \<open>
  The sequencing half of \<^verbatim>\<open>queue/inner.rs\<close>: what \<^verbatim>\<open>advance\<close>, \<^verbatim>\<open>peek\<close> and \<^verbatim>\<open>commit\<close> keep of
  well-formedness, when \<^verbatim>\<open>peek\<close> foretells \<^verbatim>\<open>advance\<close>, how a play-through visits the order, and
  that every visible change moves the version.
\<close>

section \<open>Stale history\<close>

lemma pop_stale_prefix: "\<exists>ys. h = pop_stale present h @ ys"
proof (induction present h rule: pop_stale.induct)
  case (1 present h)
  show ?case
  proof (cases "h = [] \<or> present (last h)")
    case True
    then show ?thesis by (auto simp: pop_stale.simps [of present h])
  next
    case False
    with 1 obtain ys where "butlast h = pop_stale present (butlast h) @ ys" by blast
    then have "h = pop_stale present (butlast h) @ ys @ [last h]"
      using False by (metis append_assoc append_butlast_last_id)
    then show ?thesis using False by (auto simp: pop_stale.simps [of present h])
  qed
qed

lemma pop_stale_last: "pop_stale present h \<noteq> [] \<Longrightarrow> present (last (pop_stale present h))"
proof (induction present h rule: pop_stale.induct)
  case (1 present h)
  then show ?case by (cases "h = [] \<or> present (last h)") (auto simp: pop_stale.simps [of present h])
qed

lemma pop_stale_id: "\<forall>x \<in> set h. present x \<Longrightarrow> pop_stale present h = h"
  by (simp add: pop_stale.simps)

lemma pop_stale_set: "set (pop_stale present h) \<subseteq> set h"
  by (metis pop_stale_prefix Un_upper1 set_append)

lemma pop_stale_length: "length (pop_stale present h) \<le> length h"
  by (metis pop_stale_prefix le_add1 length_append)

section \<open>Answers are entries, and the state stays well-formed\<close>

lemma wf_wrap_around:
  assumes sh: "shuffles shuf" and wf: "queue_wf q"
  shows "queue_wf (snd (wrap_around shuf q))"
proof (cases "shuffled q")
  case False
  then show ?thesis using wf by (simp add: wrap_around_def)
next
  case True
  obtain ys g where s: "shuf (order q) (rng q) = (ys, g)" by fastforce
  let ?ord = "if 2 \<le> length ys \<and> Some (ys ! 0) = base_id q then ys[0 := ys ! 1, 1 := ys ! 0] else ys"
  have "mset (ys[0 := ys ! 1, 1 := ys ! 0]) = mset ys" if "2 \<le> length ys"
    by (rule mset_swap) (use that in auto)
  then have "mset ?ord = mset ys" by (simp only: split: if_split) blast
  also have "\<dots> = mset (order q)" by (rule shuffles_mset [OF sh s])
  finally have m: "mset ?ord = mset (order q)" .
  have "queue_wf (q\<lparr>order := ?ord, rng := g\<rparr>)"
    using wf True m mset_eq_length [OF m] by (simp add: queue_wf_def split del: if_split)
  then show ?thesis using True s by (simp add: wrap_around_def split del: if_split)
qed

lemma wrap_around_answer:
  assumes "shuffles shuf" and "queue_wf q" and "order q \<noteq> []"
  shows "\<exists>i. fst (wrap_around shuf q) = Some i \<and> i \<in> set (item_ids q) \<and>
             first_of (order (snd (wrap_around shuf q))) = Some i"
proof -
  let ?q = "snd (wrap_around shuf q)"
  have w: "queue_wf ?q" using assms(1,2) by (rule wf_wrap_around)
  have ids: "item_ids ?q = item_ids q"
    by (simp add: wrap_around_def Let_def split: prod.split)
  then have "length (order ?q) = length (order q)"
    using wf_length_order [OF w] wf_length_order [OF assms(2)] by (metis length_map)
  then have ne: "order ?q \<noteq> []" using assms(3) by auto
  have "fst (wrap_around shuf q) = first_of (order ?q)"
    by (simp add: wrap_around_def Let_def)
  moreover have "first_of (order ?q) = Some (order ?q ! 0)"
    using ne by (simp add: first_of_def)
  moreover have "order ?q ! 0 \<in> set (item_ids q)"
    using ne wf_set_order [OF w] unfolding ids by (metis length_greater_0_conv nth_mem)
  ultimately show ?thesis by auto
qed

lemma wf_forward: "shuffles shuf \<Longrightarrow> queue_wf q \<Longrightarrow> queue_wf (snd (forward shuf wrap q))"
  by (auto simp: forward_def wf_wrap_around split: option.split)

lemma wrap_around_frame:
  "items (snd (wrap_around shuf q)) = items q" "current (snd (wrap_around shuf q)) = current q"
  "history (snd (wrap_around shuf q)) = history q"
  "next_id (snd (wrap_around shuf q)) = next_id q"
  "vacated (snd (wrap_around shuf q)) = vacated q"
  "repeat_mode (snd (wrap_around shuf q)) = repeat_mode q"
  "shuffled (snd (wrap_around shuf q)) = shuffled q"
  "autoplay (snd (wrap_around shuf q)) = autoplay q"
  by (simp_all add: wrap_around_def Let_def split: prod.split)

lemma forward_frame:
  "items (snd (forward shuf w q)) = items q" "current (snd (forward shuf w q)) = current q"
  "history (snd (forward shuf w q)) = history q"
  "next_id (snd (forward shuf w q)) = next_id q"
  "vacated (snd (forward shuf w q)) = vacated q"
  "repeat_mode (snd (forward shuf w q)) = repeat_mode q"
  "shuffled (snd (forward shuf w q)) = shuffled q"
  "autoplay (snd (forward shuf w q)) = autoplay q"
  by (auto simp: forward_def wrap_around_frame split: option.split)

lemma forward_answer:
  assumes "shuffles shuf" and "queue_wf q" and "fst (forward shuf wrap q) = Some i"
  shows "i \<in> set (item_ids q)"
  using assms wrap_around_answer [OF assms(1,2)] wf_set_order [OF assms(2)]
  by (fastforce simp: forward_def split: option.splits if_splits)

lemma base_id_mem: "queue_wf q \<Longrightarrow> base_id q = Some i \<Longrightarrow> i \<in> set (item_ids q)"
  by (auto simp: base_id_def queue_wf_def or_else_def bind_eq_Some_conv
      simp del: set_map split: option.splits if_splits)

lemma first_of_mem: "first_of xs = Some x \<Longrightarrow> x \<in> set xs"
  by (auto simp: first_of_def)

text \<open>In a well-formed queue no history entry is stale, so \<^verbatim>\<open>backward\<close> changes nothing.\<close>

definition backward_target :: "bool \<Rightarrow> 'g inner \<Rightarrow> item_id option" where
  "backward_target wrap q =
     (case last_of (history q) of
        Some played \<Rightarrow> Some played
      | None \<Rightarrow>
          (case base q of
             Base_At p \<Rightarrow> if p = 0 then if wrap then last_of (order q) else None
                          else get_at (order q) (p - 1)
           | Base_Vacated s \<Rightarrow> if s = 0 then None else get_at (order q) (s - 1)
           | Base_Nothing \<Rightarrow> first_of (order q)))"

lemma backward_wf:
  assumes "queue_wf q"
  shows "backward wrap q = (backward_target wrap q, q)"
proof -
  have "set (history q) \<subseteq> set (order q)"
    using assms wf_set_order [OF assms] unfolding queue_wf_def by blast
  then have "pop_stale (\<lambda>i. position q i \<noteq> None) (history q) = history q"
    by (intro pop_stale_id) (auto simp: position_None)
  then have h: "q\<lparr>history := pop_stale (\<lambda>i. position q i \<noteq> None) (history q)\<rparr> = q"
    by simp
  show ?thesis
    unfolding backward_def Let_def h backward_target_def by (simp split: option.split)
qed

lemma get_at_mem: "get_at xs i = Some x \<Longrightarrow> x \<in> set xs"
  by auto

lemma backward_answer:
  assumes wf: "queue_wf q" and "backward_target wrap q = Some i"
  shows "i \<in> set (item_ids q)"
proof -
  have "i \<in> set (history q) \<union> set (order q)"
    using assms(2) unfolding backward_target_def
    by (auto simp del: get_at_Some dest!: last_of_Some_in_set first_of_mem get_at_mem
        split: option.splits base_slot.splits if_splits)
  then show ?thesis
    using wf wf_set_order [OF wf] unfolding queue_wf_def by blast
qed

lemma wf_set_pending:
  "queue_wf q \<Longrightarrow> set_option t \<subseteq> set (item_ids q) \<Longrightarrow>
     queue_wf (q\<lparr>pending := t, pending_backward := b\<rparr>)"
  by (simp add: queue_wf_def)

lemma wf_advance_target:
  assumes sh: "shuffles shuf" and wf: "queue_wf q"
  shows "queue_wf (snd (advance_target shuf how q))"
    and "set_option (fst (advance_target shuf how q)) \<subseteq> set (item_ids q)"
    and "items (snd (advance_target shuf how q)) = items q"
proof -
  have fw: "set_option (fst (forward shuf w q)) \<subseteq> set (item_ids q)" for w
    using forward_answer [OF sh wf] by (auto simp del: set_map)
  have first: "set_option (first_of (order q)) \<subseteq> set (item_ids q)"
    using wf_set_order [OF wf] first_of_mem by fastforce
  have base: "set_option (base_id q) \<subseteq> set (item_ids q)"
    using base_id_mem [OF wf] by auto
  have behind: "set_option (backward_target w q) \<subseteq> set (item_ids q)" for w
    using backward_answer [OF wf] by (cases "backward_target w q") auto
  note fold = advance_target_def backward_wf [OF wf]
  show "queue_wf (snd (advance_target shuf how q))"
    by (cases how; cases "repeat_mode q") (simp_all add: fold wf wf_forward [OF sh wf])
  show "items (snd (advance_target shuf how q)) = items q"
    by (cases how; cases "repeat_mode q") (simp_all add: fold forward_frame)
  show "set_option (fst (advance_target shuf how q)) \<subseteq> set (item_ids q)"
    using fw first base behind
    by (cases how; cases "repeat_mode q"; cases "base_id q") (simp_all add: fold del: set_map)
qed

lemma q_advance_eq:
  "q_advance shuf how q =
     (fst (advance_target shuf how q),
      (snd (advance_target shuf how q))\<lparr>pending := fst (advance_target shuf how q),
        pending_backward := (how = Adv_Previous \<and> fst (advance_target shuf how q) \<noteq> None)\<rparr>)"
  by (simp add: q_advance_def split: prod.split)

lemma wf_advance:
  assumes "shuffles shuf" and "queue_wf q"
  shows "queue_wf (snd (q_advance shuf how q))"
  using wf_advance_target [OF assms] unfolding q_advance_eq
  by (simp add: wf_set_pending del: set_map)

section \<open>Commit\<close>

lemma push_history_length: "length h \<le> history_limit \<Longrightarrow> length (push_history i h) \<le> history_limit"
  by (simp add: push_history_def Let_def)

lemma push_history_set: "set (push_history i h) \<subseteq> insert i (set h)"
  using set_remove_at_subset [of 0 "h @ [i]"] by (auto simp: push_history_def Let_def)

lemma commit_absent: "i \<notin> set (item_ids q) \<Longrightarrow> q_commit i q = (False, q)"
  by (simp add: q_commit_def find_item_None del: set_map)

lemma commit_present: "i \<in> set (item_ids q) \<Longrightarrow> fst (q_commit i q)"
  using find_item_None [of q i] by (auto simp: q_commit_def Let_def simp del: set_map)

definition commit_history :: "item_id \<Rightarrow> 'g inner \<Rightarrow> item_id list" where
  "commit_history i q =
     (if last_of (history q) = Some i then butlast (history q)
      else if pending q = Some i \<and> pending_backward q then history q
      else case current q of Some p \<Rightarrow> push_history p (history q) | None \<Rightarrow> history q)"

lemma commit_eq:
  assumes "i \<in> set (item_ids q)"
  shows "snd (q_commit i q) =
    (let q0 = q\<lparr>pending := None, pending_backward := False, vacated := None\<rparr>
     in if current q = Some i then q0
        else bump_version (q0\<lparr>history := commit_history i q, current := Some i\<rparr>))"
proof -
  have "find_item q i \<noteq> None" using assms find_item_None by blast
  then show ?thesis
    by (auto simp: q_commit_def Let_def commit_history_def split: option.split)
qed

lemma commit_history_set:
  assumes "queue_wf q"
  shows "set (commit_history i q) \<subseteq> set (item_ids q)"
    and "length (commit_history i q) \<le> history_limit"
proof -
  have h: "set (history q) \<subseteq> set (item_ids q)" "length (history q) \<le> history_limit"
    and c: "set_option (current q) \<subseteq> set (item_ids q)"
    using assms unfolding queue_wf_def by blast+
  have b: "set (butlast (history q)) \<subseteq> set (history q)"
    by (meson in_set_butlastD subsetI)
  show "set (commit_history i q) \<subseteq> set (item_ids q)"
    using h c b push_history_set [of _ "history q"]
    unfolding commit_history_def by (cases "current q") (auto simp del: set_map)
  show "length (commit_history i q) \<le> history_limit"
    using h(2) push_history_length
    unfolding commit_history_def by (cases "current q") auto
qed

lemma wf_commit:
  assumes wf: "queue_wf q"
  shows "queue_wf (snd (q_commit i q))"
proof (cases "i \<in> set (item_ids q)")
  case False
  then show ?thesis using wf by (simp add: commit_absent del: set_map)
next
  case True
  then show ?thesis
    using wf commit_history_set [OF wf, of i] unfolding commit_eq [OF True] Let_def
    by (simp add: queue_wf_def del: set_map)
qed

end
