(* ===== verification/Queue_Facade.thy ===== *)
theory Queue_Facade
  imports Queue_Seq
begin

text \<open>
  \<^verbatim>\<open>crates/phonia-core/src/queue/mod.rs\<close>: the shared queue. The mutex serialises its operations,
  so each is one step on the record below: the state behind the lock and the snapshot that
  \<^verbatim>\<open>watch\<close> subscribers see. Opening an entry is two steps (the part before the first \<^verbatim>\<open>.await\<close>,
  and the part after the opener has answered), between which other operations may run.
\<close>

section \<open>References to entries\<close>

definition id_track_ref :: "item_id \<Rightarrow> track_ref" where
  "id_track_ref i = show_nat i"

definition id_from_ref :: "track_ref \<Rightarrow> item_id option" where
  "id_from_ref track = parse_nat_upto u64_max track"

lemma id_from_track_ref [simp]: "i \<le> u64_max \<Longrightarrow> id_from_ref (id_track_ref i) = Some i"
  by (simp add: id_from_ref_def id_track_ref_def parse_show_nat)

section \<open>The shared queue\<close>

record 'g queue =
  qu_inner :: "'g inner"
  qu_published :: queue_snapshot

definition with_seed :: "'g \<Rightarrow> 'g queue" where
  "with_seed seed =
     (let inner = new_inner seed in \<lparr>qu_inner = inner, qu_published = snapshot inner\<rparr>)"

definition mutate :: "('g inner \<Rightarrow> 'r \<times> 'g inner) \<Rightarrow> 'g queue \<Rightarrow> 'r \<times> 'g queue" where
  "mutate change qu =
     (let before = snap_version (snapshot (qu_inner qu));
          (result, inner) = change (qu_inner qu)
      in (result,
          qu\<lparr>qu_inner := inner,
             qu_published := (if snap_version (snapshot inner) \<noteq> before then snapshot inner
                              else qu_published qu)\<rparr>))"

definition unit_change :: "('g inner \<Rightarrow> 'g inner) \<Rightarrow> 'g inner \<Rightarrow> unit \<times> 'g inner" where
  "unit_change f q = ((), f q)"

definition queue_add :: "queue_track list \<Rightarrow> 'g queue \<Rightarrow> item_id list \<times> 'g queue" where
  "queue_add ts = mutate (q_add ts)"

definition queue_insert :: "nat \<Rightarrow> queue_track list \<Rightarrow> 'g queue \<Rightarrow> item_id list \<times> 'g queue" where
  "queue_insert at0 ts = mutate (q_insert at0 ts)"

definition queue_play_next :: "queue_track list \<Rightarrow> 'g queue \<Rightarrow> item_id list \<times> 'g queue" where
  "queue_play_next ts = mutate (q_play_next ts)"

definition queue_remove :: "item_id list \<Rightarrow> 'g queue \<Rightarrow> nat \<times> 'g queue" where
  "queue_remove ids = mutate (q_remove ids)"

definition queue_move_to :: "item_id \<Rightarrow> nat \<Rightarrow> 'g queue \<Rightarrow> bool \<times> 'g queue" where
  "queue_move_to i to = mutate (q_move_to i to)"

definition queue_clear :: "'g queue \<Rightarrow> unit \<times> 'g queue" where
  "queue_clear = mutate (unit_change q_clear)"

definition queue_set_shuffle :: "'g shuffler \<Rightarrow> bool \<Rightarrow> 'g queue \<Rightarrow> unit \<times> 'g queue" where
  "queue_set_shuffle shuf on = mutate (unit_change (q_set_shuffle shuf on))"

definition queue_set_repeat :: "repeat \<Rightarrow> 'g queue \<Rightarrow> unit \<times> 'g queue" where
  "queue_set_repeat r = mutate (unit_change (q_set_repeat r))"

definition queue_set_autoplay :: "bool \<Rightarrow> 'g queue \<Rightarrow> unit \<times> 'g queue" where
  "queue_set_autoplay a = mutate (unit_change (q_set_autoplay a))"

definition queue_autoplay_due :: "'g queue \<Rightarrow> item_id option" where
  "queue_autoplay_due qu = autoplay_due (qu_inner qu)"

definition queue_set_replay_gain :: "gain_mode \<Rightarrow> 'g queue \<Rightarrow> unit \<times> 'g queue" where
  "queue_set_replay_gain m = mutate (unit_change (q_set_replay_gain m))"

definition queue_applied_gain :: "item_id \<Rightarrow> loudness \<Rightarrow> 'g queue \<Rightarrow> applied_gain option" where
  "queue_applied_gain i l qu = applied_gain_for (qu_inner qu) i l"

definition queue_snapshot_of :: "'g queue \<Rightarrow> queue_snapshot" where
  "queue_snapshot_of qu = qu_published qu"

definition queue_record_meta :: "item_id \<Rightarrow> track_meta \<Rightarrow> 'g queue \<Rightarrow> unit \<times> 'g queue" where
  "queue_record_meta i m = mutate (unit_change (record_meta i (tm_title m) (tm_duration m)))"

section \<open>The queue as the engine's supplier\<close>

definition queue_advance :: "'g shuffler \<Rightarrow> advance \<Rightarrow> 'g queue \<Rightarrow> track_ref option \<times> 'g queue" where
  "queue_advance shuf how qu =
     (let (target, qu) = mutate (q_advance shuf how) qu in (map_option id_track_ref target, qu))"

definition queue_peek :: "advance \<Rightarrow> 'g queue \<Rightarrow> peek" where
  "queue_peek how qu =
     (case q_peek how (qu_inner qu) of
        Peeked_Next i \<Rightarrow> Peek_Next (id_track_ref i)
      | Peeked_End \<Rightarrow> Peek_End
      | Peeked_Unknown \<Rightarrow> Peek_Unknown)"

definition queue_started :: "track_ref \<Rightarrow> 'g queue \<Rightarrow> bool \<times> 'g queue" where
  "queue_started track qu =
     (case id_from_ref track of
        Some i \<Rightarrow> mutate (q_commit i) qu
      | None \<Rightarrow> (False, qu))"

text \<open>The part of \<^verbatim>\<open>open_entry\<close> that runs at the call, up to the opener's future.\<close>

definition commit_and_find :: "item_id \<Rightarrow> bool \<Rightarrow> 'g inner \<Rightarrow> queue_item option \<times> 'g inner" where
  "commit_and_find i commit q =
     (if commit then
        (let (found, q) = q_commit i q in (if found then find_item q i else None, q))
      else (find_item q i, q))"

definition open_entry_begin ::
    "track_ref \<Rightarrow> bool \<Rightarrow> 'g queue \<Rightarrow> (error + queue_item) \<times> 'g queue" where
  "open_entry_begin track commit qu =
     (case id_from_ref track of
        None \<Rightarrow> (Inl (mk_error (Message (CHR 0x22 # track @ [CHR 0x22] @ '' is not a queue entry''))), qu)
      | Some i \<Rightarrow>
          (case mutate (commit_and_find i commit) qu of
             (None, qu) \<Rightarrow>
               (Inl (mk_error (Message (''the queue entry '' @ show_nat i @ '' no longer exists''))), qu)
           | (Some item, qu) \<Rightarrow> (Inr item, qu)))"

text \<open>The part after the opener has answered, while the queue is still alive.\<close>

definition open_entry_finish ::
    "item_id \<Rightarrow> queue_item \<Rightarrow> error + loaded_track \<Rightarrow> 'g queue
       \<Rightarrow> (error + loaded_track) \<times> 'g queue" where
  "open_entry_finish i item opened qu =
     (case opened of
        Inl e \<Rightarrow> (Inl e, qu)
      | Inr loaded \<Rightarrow>
          let m = lt_meta loaded; t = qi_track item;
              m = m\<lparr>tm_track := id_track_ref i,
                    tm_title := or_else (tm_title m) (qt_title t),
                    tm_artist := or_else (tm_artist m) (qt_artist t),
                    tm_duration := or_else (tm_duration m) (qt_duration t),
                    tm_cover := or_else (tm_cover m) (qt_cover t)\<rparr>;
              m = m\<lparr>tm_gain := Option.bind (tm_loudness m)
                                 (\<lambda>l. queue_applied_gain i l qu)\<rparr>;
              (_, qu) = queue_record_meta i m qu
          in (Inr (loaded\<lparr>lt_meta := m\<rparr>), qu))"

text \<open>
  \<^verbatim>\<open>open_entry\<close> with nothing in between; \<open>opener\<close> is the \<^verbatim>\<open>TrackOpener\<close>, on a world \<open>'x\<close> of
  its own.
\<close>

type_synonym 'x opener = "track_ref \<Rightarrow> duration \<Rightarrow> 'x \<Rightarrow> (error + loaded_track) \<times> 'x"

definition open_entry ::
    "'x opener \<Rightarrow> track_ref \<Rightarrow> duration \<Rightarrow> bool \<Rightarrow> 'g queue \<times> 'x
       \<Rightarrow> (error + loaded_track) \<times> 'g queue \<times> 'x" where
  "open_entry opener track at0 commit s =
     (case open_entry_begin track commit (fst s) of
        (Inl e, qu) \<Rightarrow> (Inl e, qu, snd s)
      | (Inr item, qu) \<Rightarrow>
          let (opened, x) = opener (qt_source (qi_track item)) at0 (snd s);
              (loaded, qu) = open_entry_finish (qi_id item) item opened qu
          in (loaded, qu, x))"

definition queue_supplier :: "'g shuffler \<Rightarrow> 'x opener \<Rightarrow> ('g queue \<times> 'x) supplier" where
  "queue_supplier shuf opener =
     \<lparr>sup_advance = (\<lambda>how (qu, x). let (t, qu) = queue_advance shuf how qu in (t, qu, x)),
      sup_open = (\<lambda>track at0. open_entry opener track at0 True),
      sup_peek = (\<lambda>how (qu, x). queue_peek how qu),
      sup_open_ahead = (\<lambda>track. open_entry opener track 0 False),
      sup_started = (\<lambda>track (qu, x). let (ok, qu) = queue_started track qu in (ok, qu, x))\<rparr>"

section \<open>Every visible change moves the version\<close>

definition moves :: "'g inner \<Rightarrow> 'g inner \<Rightarrow> bool" where
  "moves q q' \<longleftrightarrow> version q \<le> version q' \<and> (version q' = version q \<longrightarrow> snapshot q' = snapshot q)"

lemma moves_refl [simp, intro]: "moves q q"
  by (simp add: moves_def)

lemma moves_trans: "moves q q' \<Longrightarrow> moves q' q'' \<Longrightarrow> moves q q''"
  by (auto simp: moves_def)

lemma moves_bump: "version q' = version q \<Longrightarrow> moves q (bump_version q')"
  by (simp add: moves_def bump_version_def)

lemma moves_same:
  "snapshot q' = snapshot q \<Longrightarrow> moves q q'"
  by (simp add: moves_def snapshot_def)

lemma fill_meta_none:
  "\<not> ((qt_title t = None \<and> title \<noteq> None) \<or> (qt_duration t = None \<and> dur \<noteq> None)) \<Longrightarrow>
     fill_meta title dur t = t"
  by (cases "qt_title t"; cases "qt_duration t") (auto simp: fill_meta_def)

lemma moves_record_meta: "moves q (record_meta i title dur q)"
proof (cases "position_of (\<lambda>it. qi_id it = i) (items q)")
  case None
  then show ?thesis by (simp add: record_meta_def)
next
  case (Some k)
  let ?t = "qi_track (items q ! k)"
  show ?thesis
  proof (cases "(qt_title ?t = None \<and> title \<noteq> None) \<or> (qt_duration ?t = None \<and> dur \<noteq> None)")
    case True
    then show ?thesis using Some by (simp add: record_meta_def Let_def moves_bump)
  next
    case False
    then have "record_meta i title dur q = q"
      using Some fill_meta_none [OF False]
      by (simp add: record_meta_def Let_def)
    then show ?thesis by simp
  qed
qed

lemma version_insert_in_order [simp]: "version (insert_in_order a ids q) = version q"
  by (simp add: insert_in_order_def Let_def split: option.split)

lemma moves_insert: "moves q (snd (q_insert a ts q))"
  by (auto simp: q_insert_def new_items_def Let_def intro: moves_bump)

lemma moves_add: "moves q (snd (q_add ts q))"
  by (simp add: q_add_def moves_insert)

lemma moves_play_next: "moves q (snd (q_play_next ts q))"
  by (auto simp: q_play_next_def new_items_def Let_def intro: moves_bump)

lemma remove_loop_count:
  "remove_loop ids n q = (m, q') \<Longrightarrow> n \<le> m \<and> version q' = version q \<and> (m = n \<longrightarrow> q' = q)"
  by (induction ids n q rule: remove_loop.induct)
     (auto simp: remove_one_frame(3) split: option.splits)

lemma moves_remove: "moves q (snd (q_remove ids q))"
proof -
  obtain m q' where r: "remove_loop ids 0 q = (m, q')" by fastforce
  show ?thesis
    using remove_loop_count [OF r] r by (auto simp: q_remove_def intro: moves_bump)
qed

lemma moves_move_to: "moves q (snd (q_move_to i to q))"
  by (auto simp: q_move_to_def Let_def intro!: moves_bump split: option.split)

lemma moves_clear: "moves q (q_clear q)"
  by (auto simp: q_clear_def intro: moves_bump)

lemma moves_set_repeat: "moves q (q_set_repeat r q)"
  and moves_set_autoplay: "moves q (q_set_autoplay a q)"
  by (auto simp: q_set_repeat_def q_set_autoplay_def intro: moves_bump)

lemma moves_set_shuffle: "moves q (q_set_shuffle shuf on q)"
  by (auto simp: q_set_shuffle_def Let_def intro: moves_bump split: prod.split)

lemma moves_set_replay_gain: "moves q (q_set_replay_gain m q)"
  by (auto simp: q_set_replay_gain_def snapshot_def intro: moves_same)

lemma moves_wrap_around: "moves q (snd (wrap_around shuf q))"
  by (auto simp: wrap_around_def Let_def intro: moves_bump split: prod.split)

lemma moves_forward: "moves q (snd (forward shuf w q))"
  by (auto simp: forward_def moves_wrap_around split: option.split)

lemma moves_backward: "moves q (snd (backward w q))"
  by (auto simp: backward_def Let_def snapshot_def intro!: moves_same split: option.split)

lemma moves_advance_target: "moves q (snd (advance_target shuf how q))"
  by (cases how) (auto simp: advance_target_def moves_forward moves_backward split: repeat.split)

lemma moves_advance: "moves q (snd (q_advance shuf how q))"
  unfolding q_advance_eq
  by (rule moves_trans [OF moves_advance_target [of q shuf how]])
     (auto simp: snapshot_def intro: moves_same)

lemma moves_commit: "moves q (snd (q_commit i q))"
  by (auto simp: q_commit_def Let_def snapshot_def intro: moves_same moves_bump split: option.split)

lemmas moves_rules =
  moves_record_meta moves_add moves_insert moves_play_next moves_remove moves_move_to moves_clear
  moves_set_repeat moves_set_autoplay moves_set_shuffle moves_set_replay_gain moves_advance
  moves_commit

section \<open>What is published is what is there\<close>

definition published_ok :: "'g queue \<Rightarrow> bool" where
  "published_ok qu \<longleftrightarrow> qu_published qu = snapshot (qu_inner qu)"

lemma mutate_inner: "qu_inner (snd (mutate f qu)) = snd (f (qu_inner qu))"
  and mutate_result: "fst (mutate f qu) = fst (f (qu_inner qu))"
  by (simp_all add: mutate_def split: prod.split)

lemma mutate_published:
  assumes "published_ok qu" and "moves (qu_inner qu) (snd (f (qu_inner qu)))"
  shows "published_ok (snd (mutate f qu))"
  using assms by (auto simp: published_ok_def mutate_def moves_def snapshot_def split: prod.split)

end
