(* ===== verification/Queue_Run.thy ===== *)
theory Queue_Run
  imports Queue_Facade
begin

text \<open>
  Runs of the queue: any sequence of operations, as any number of threads may issue them
  through the mutex, and the driver that plays a queue through. The lemmas here carry the queue
  properties of \<^verbatim>\<open>Queue_Props\<close>.
\<close>

section \<open>Runs\<close>

datatype queue_op =
    OpAdd "queue_track list"
  | OpInsert nat "queue_track list"
  | OpPlayNext "queue_track list"
  | OpRemove "item_id list"
  | OpMoveTo item_id nat
  | OpClear
  | OpShuffle bool
  | OpRepeat repeat
  | OpAutoplay bool
  | OpReplayGain gain_mode
  | OpRecordMeta item_id track_meta
  | OpAdvance advance
  | OpStarted track_ref
  | OpOpenBegin track_ref bool
  | OpOpenFinish item_id queue_item "error + loaded_track"

fun queue_step :: "'g shuffler \<Rightarrow> queue_op \<Rightarrow> 'g queue \<Rightarrow> 'g queue" where
  "queue_step shuf (OpAdd ts) qu = snd (queue_add ts qu)"
| "queue_step shuf (OpInsert n ts) qu = snd (queue_insert n ts qu)"
| "queue_step shuf (OpPlayNext ts) qu = snd (queue_play_next ts qu)"
| "queue_step shuf (OpRemove ids) qu = snd (queue_remove ids qu)"
| "queue_step shuf (OpMoveTo i to) qu = snd (queue_move_to i to qu)"
| "queue_step shuf OpClear qu = snd (queue_clear qu)"
| "queue_step shuf (OpShuffle on) qu = snd (queue_set_shuffle shuf on qu)"
| "queue_step shuf (OpRepeat r) qu = snd (queue_set_repeat r qu)"
| "queue_step shuf (OpAutoplay a) qu = snd (queue_set_autoplay a qu)"
| "queue_step shuf (OpReplayGain m) qu = snd (queue_set_replay_gain m qu)"
| "queue_step shuf (OpRecordMeta i m) qu = snd (queue_record_meta i m qu)"
| "queue_step shuf (OpAdvance how) qu = snd (queue_advance shuf how qu)"
| "queue_step shuf (OpStarted track) qu = snd (queue_started track qu)"
| "queue_step shuf (OpOpenBegin track commit) qu = snd (open_entry_begin track commit qu)"
| "queue_step shuf (OpOpenFinish i item opened) qu = snd (open_entry_finish i item opened qu)"

definition run_queue :: "'g shuffler \<Rightarrow> queue_op list \<Rightarrow> 'g queue \<Rightarrow> 'g queue" where
  "run_queue shuf ops qu = fold (queue_step shuf) ops qu"

text \<open>The ids an operation hands out.\<close>

fun op_ids :: "queue_op \<Rightarrow> 'g queue \<Rightarrow> item_id list" where
  "op_ids (OpAdd ts) qu = fst (queue_add ts qu)"
| "op_ids (OpInsert n ts) qu = fst (queue_insert n ts qu)"
| "op_ids (OpPlayNext ts) qu = fst (queue_play_next ts qu)"
| "op_ids _ qu = []"

text \<open>Every step changes the inner state by a composition of the operations of \<^verbatim>\<open>Inner\<close>.\<close>

lemma queue_step_inner:
  assumes refl: "\<And>q. R q q"
    and basic:
      "\<And>q ts. R q (snd (q_add ts q))" "\<And>q n ts. R q (snd (q_insert n ts q))"
      "\<And>q ts. R q (snd (q_play_next ts q))" "\<And>q ids. R q (snd (q_remove ids q))"
      "\<And>q i n. R q (snd (q_move_to i n q))" "\<And>q. R q (q_clear q)"
      "\<And>q on. R q (q_set_shuffle shuf on q)" "\<And>q r. R q (q_set_repeat r q)"
      "\<And>q a. R q (q_set_autoplay a q)" "\<And>q m. R q (q_set_replay_gain m q)"
      "\<And>q i t d. R q (record_meta i t d q)" "\<And>q how. R q (snd (q_advance shuf how q))"
      "\<And>q i. R q (snd (q_commit i q))"
  shows "R (qu_inner qu) (qu_inner (queue_step shuf op qu))"
proof -
  have mut: "R (qu_inner qu) (qu_inner (snd (mutate f qu)))"
    if "\<And>q. R q (snd (f q))" for f :: "'a inner \<Rightarrow> 'r \<times> 'a inner" and qu
    using that by (simp add: mutate_inner)
  have find: "R q (snd (commit_and_find i c q))" for i c q
    using basic(13) [of q i] refl
    by (cases "q_commit i q") (simp add: commit_and_find_def)
  have opened: "R (qu_inner qu) (qu_inner (snd (open_entry_begin track c qu)))" for track c
  proof (cases "id_from_ref track")
    case None
    then show ?thesis by (simp add: open_entry_begin_def refl)
  next
    case (Some i)
    have "R (qu_inner qu) (qu_inner (snd (mutate (commit_and_find i c) qu)))"
      by (rule mut [OF find])
    then show ?thesis
      using Some
      by (cases "mutate (commit_and_find i c) qu")
         (simp add: open_entry_begin_def split: option.split)
  qed
  have unit: "R q (snd (unit_change f q))" if "R q (f q)" for f q
    using that by (simp add: unit_change_def)
  have finished: "R (qu_inner qu) (qu_inner (snd (open_entry_finish i item opened qu)))"
    for i item opened
    by (cases opened)
       (simp_all add: open_entry_finish_def Let_def split_def queue_record_meta_def refl mut unit basic)
  have advanced: "R (qu_inner qu) (qu_inner (snd (queue_advance shuf how qu)))" for how
    by (simp add: queue_advance_def split_def Let_def mut basic)
  have started: "R (qu_inner qu) (qu_inner (snd (queue_started track qu)))" for track
    by (simp add: queue_started_def mut basic refl split: option.split)
  note methods = queue_add_def queue_insert_def queue_play_next_def queue_remove_def
    queue_move_to_def queue_clear_def queue_set_shuffle_def queue_set_repeat_def
    queue_set_autoplay_def queue_set_replay_gain_def queue_record_meta_def
  show ?thesis
    by (cases op) (simp_all add: methods opened finished advanced started mut unit basic)
qed

lemma queue_step_wf:
  assumes "shuffles shuf"
  shows "queue_wf (qu_inner qu) \<longrightarrow> queue_wf (qu_inner (queue_step shuf op qu))"
  using queue_step_inner [of "\<lambda>q q'. queue_wf q \<longrightarrow> queue_wf q'" shuf qu op] assms
  by (simp add: wf_add wf_insert wf_play_next wf_remove wf_move_to wf_clear wf_set_shuffle
      wf_set_repeat wf_set_autoplay wf_set_replay_gain wf_record_meta wf_advance wf_commit)

lemma run_queue_wf:
  assumes "shuffles shuf" and "queue_wf (qu_inner qu)"
  shows "queue_wf (qu_inner (run_queue shuf ops qu))"
  using assms(2) unfolding run_queue_def
  by (induction ops arbitrary: qu) (use queue_step_wf [OF assms(1)] in auto)

lemma queue_step_moves: "moves (qu_inner qu) (qu_inner (queue_step shuf op qu))"
  by (rule queue_step_inner) (simp_all add: moves_rules)

lemma queue_step_published: "published_ok qu \<Longrightarrow> published_ok (queue_step shuf op qu)"
proof -
  assume ok: "published_ok qu"
  have mut: "published_ok (snd (mutate f qu))"
    if "\<And>q. moves q (snd (f q))" for f :: "'a inner \<Rightarrow> 'r \<times> 'a inner"
    by (rule mutate_published [OF ok]) (rule that)
  have find: "moves q (snd (commit_and_find i c q))" for i c q
    using moves_commit [of q i] by (cases "q_commit i q") (simp add: commit_and_find_def)
  have opened: "published_ok (snd (open_entry_begin track c qu))" for track c
  proof (cases "id_from_ref track")
    case None
    then show ?thesis by (simp add: open_entry_begin_def ok)
  next
    case (Some i)
    have "published_ok (snd (mutate (commit_and_find i c) qu))"
      by (rule mut [OF find])
    then show ?thesis
      using Some
      by (cases "mutate (commit_and_find i c) qu")
         (simp add: open_entry_begin_def split: option.split)
  qed
  have unit: "moves q (snd (unit_change f q))" if "moves q (f q)" for f q
    using that by (simp add: unit_change_def)
  have finished: "published_ok (snd (open_entry_finish i item opened qu))" for i item opened
    by (cases opened)
       (simp_all add: open_entry_finish_def Let_def split_def queue_record_meta_def ok mut unit
         moves_rules)
  have advanced: "published_ok (snd (queue_advance shuf how qu))" for how
    by (simp add: queue_advance_def split_def Let_def mut moves_rules)
  have started: "published_ok (snd (queue_started track qu))" for track
    by (simp add: queue_started_def mut moves_rules ok split: option.split)
  note methods = queue_add_def queue_insert_def queue_play_next_def queue_remove_def
    queue_move_to_def queue_clear_def queue_set_shuffle_def queue_set_repeat_def
    queue_set_autoplay_def queue_set_replay_gain_def queue_record_meta_def
  show ?thesis
    by (cases op)
       (simp_all add: methods opened finished advanced started mut unit moves_rules)
qed

lemma wf_with_seed [simp]: "queue_wf (qu_inner (with_seed seed))"
  by (simp add: with_seed_def Let_def wf_new)

section \<open>Ids only grow\<close>

lemma next_id_steps [simp]:
  "next_id (record_meta i t d q) = next_id q"
  "next_id (snd (q_move_to i n q)) = next_id q"
  "next_id (q_clear q) = next_id q"
  "next_id (q_set_shuffle shuf on q) = next_id q"
  "next_id (q_set_repeat r q) = next_id q"
  "next_id (q_set_autoplay a q) = next_id q"
  "next_id (q_set_replay_gain m q) = next_id q"
  "next_id (snd (q_commit i q)) = next_id q"
  by (simp_all add: record_meta_def q_move_to_def q_clear_def q_set_shuffle_def q_set_repeat_def
      q_set_autoplay_def q_set_replay_gain_def q_commit_def Let_def
      split: option.split prod.split)

lemma next_id_remove [simp]: "next_id (snd (q_remove ids q)) = next_id q"
proof -
  have "next_id (snd (remove_loop ids 0 q)) = next_id q"
    by (rule remove_loop_induct) (auto dest: remove_one_frame(1))
  then show ?thesis by (auto simp: q_remove_def split: prod.split)
qed

lemma next_id_advance [simp]: "next_id (snd (q_advance shuf how q)) = next_id q"
proof -
  have "next_id (snd (advance_target shuf how q)) = next_id q"
    by (cases how)
       (simp_all add: advance_target_def forward_frame backward_def Let_def
         split: repeat.split option.split)
  then show ?thesis by (simp add: q_advance_eq)
qed

lemma inserted_ids:
  "fst (q_insert n ts q) = [next_id q ..< next_id q + length ts]"
  "fst (q_add ts q) = [next_id q ..< next_id q + length ts]"
  "fst (q_play_next ts q) = [next_id q ..< next_id q + length ts]"
  "next_id (snd (q_insert n ts q)) = next_id q + length ts"
  "next_id (snd (q_add ts q)) = next_id q + length ts"
  "next_id (snd (q_play_next ts q)) = next_id q + length ts"
  by (simp_all add: q_insert_def q_add_def q_play_next_def new_items_def Let_def number_items_ids)

lemma queue_step_next_id: "next_id (qu_inner qu) \<le> next_id (qu_inner (queue_step shuf op qu))"
  by (rule queue_step_inner) (simp_all add: inserted_ids)

lemma run_queue_next_id: "next_id (qu_inner qu) \<le> next_id (qu_inner (run_queue shuf ops qu))"
  unfolding run_queue_def
  by (induction ops arbitrary: qu) (auto intro: order_trans [OF queue_step_next_id])

lemma op_ids_fresh: "i \<in> set (op_ids op qu) \<Longrightarrow> next_id (qu_inner qu) \<le> i"
  by (cases op)
     (auto simp: queue_add_def queue_insert_def queue_play_next_def mutate_result inserted_ids)

lemma wf_ids_below: "queue_wf q \<Longrightarrow> i \<in> set (item_ids q) \<Longrightarrow> i < next_id q"
  unfolding queue_wf_def by blast

section \<open>Sequencing from a settled state\<close>

text \<open>No answer of \<^verbatim>\<open>advance\<close> waits to be committed.\<close>

definition settled :: "'g inner \<Rightarrow> bool" where
  "settled q \<longleftrightarrow> queue_wf q \<and> pending q = None"

lemma settled_base: "settled q \<Longrightarrow> base_id q = current q"
  by (simp add: settled_def base_id_def)

lemma settled_base_of: "settled q \<Longrightarrow> base q = base_of q (current q)"
  by (simp add: base_def settled_base)

lemma commit_settled: "queue_wf q \<Longrightarrow> i \<in> set (item_ids q) \<Longrightarrow> settled (snd (q_commit i q))"
  using wf_commit [of q i] commit_eq [of i q] by (simp add: settled_def Let_def)

lemma commit_current: "i \<in> set (item_ids q) \<Longrightarrow> current (snd (q_commit i q)) = Some i"
  by (simp add: commit_eq Let_def)

lemma commit_frame [simp]:
  "order (snd (q_commit i q)) = order q" "items (snd (q_commit i q)) = items q"
  "repeat_mode (snd (q_commit i q)) = repeat_mode q" "shuffled (snd (q_commit i q)) = shuffled q"
  "rng (snd (q_commit i q)) = rng q"
  by (simp_all add: q_commit_def Let_def split: option.split)

text \<open>\<^verbatim>\<open>advance\<close> without a wrap changes nothing but what it recorded as pending.\<close>

definition offer :: "item_id option \<Rightarrow> 'g inner \<Rightarrow> 'g inner" where
  "offer t q = q\<lparr>pending := t, pending_backward := False\<rparr>"

lemma forward_no_wrap:
  "get_at (order q) (next_slot (base q)) = t \<Longrightarrow> \<not> wrap \<or> t \<noteq> None \<Longrightarrow> forward shuf wrap q = (t, q)"
  by (auto simp: forward_def split: option.split)

lemma commit_offer: "i \<in> set (item_ids q) \<Longrightarrow> snd (q_commit i (offer (Some i) q)) =
    snd (q_commit i (q\<lparr>pending := None, pending_backward := False\<rparr>))"
  by (simp add: commit_eq commit_history_def offer_def Let_def cong: option.case_cong)

text \<open>\<^verbatim>\<open>peek\<close> foretells \<^verbatim>\<open>advance\<close>, which then only records its answer.\<close>

lemma peek_forward_advance:
  assumes "settled q"
  shows "peek_forward q wrap = Peeked_Next i \<Longrightarrow> forward shuf wrap q = (Some i, q)"
    and "peek_forward q wrap = Peeked_End \<Longrightarrow> forward shuf wrap q = (None, q)"
  using assms
  by (auto simp: peek_forward_def forward_def settled_base_of wrap_around_def first_of_def
      split: option.splits if_splits)

lemma peek_advance_target:
  assumes "settled q"
  shows "q_peek how q = Peeked_Next i \<Longrightarrow> advance_target shuf how q = (Some i, q)"
    and "q_peek how q = Peeked_End \<Longrightarrow> advance_target shuf how q = (None, q)"
  using settled_base [OF assms] peek_forward_advance [OF assms]
  by (cases how; cases "repeat_mode q"; auto simp: q_peek_def advance_target_def split: option.splits)+

lemma peek_advance:
  assumes "settled q"
  shows "q_peek how q = Peeked_Next i \<Longrightarrow> q_advance shuf how q = (Some i, offer (Some i) q)"
    and "q_peek how q = Peeked_End \<Longrightarrow> q_advance shuf how q = (None, offer None q)"
proof -
  have "how \<noteq> Adv_Previous" if "q_peek how q = Peeked_Next i \<or> q_peek how q = Peeked_End"
    using that by (auto simp: q_peek_def)
  then show "q_peek how q = Peeked_Next i \<Longrightarrow> q_advance shuf how q = (Some i, offer (Some i) q)"
    and "q_peek how q = Peeked_End \<Longrightarrow> q_advance shuf how q = (None, offer None q)"
    using peek_advance_target [OF assms] by (auto simp: q_advance_eq offer_def)
qed

lemma peek_mem:
  assumes "settled q" and "q_peek how q = Peeked_Next i"
  shows "i \<in> set (item_ids q)"
proof -
  have "shuffles (\<lambda>xs g. (xs, g))" by (simp add: shuffles_def)
  moreover have "queue_wf q" using assms(1) by (simp add: settled_def)
  ultimately have "set_option (fst (advance_target (\<lambda>xs g. (xs, g)) how q)) \<subseteq> set (item_ids q)"
    by (rule wf_advance_target(2))
  then show ?thesis using peek_advance_target(1) [OF assms] by simp
qed

section \<open>Playing a queue through\<close>

text \<open>
  What is heard when every entry is played to its end: the engine asks for the next one, and
  opening it commits it.
\<close>

fun played :: "'g shuffler \<Rightarrow> nat \<Rightarrow> 'g inner \<Rightarrow> item_id list" where
  "played shuf 0 q = []"
| "played shuf (Suc n) q =
     (case q_advance shuf Adv_Auto q of
        (None, _) \<Rightarrow> []
      | (Some i, q') \<Rightarrow> i # played shuf n (snd (q_commit i q')))"

lemma next_slot_committed:
  assumes "queue_wf q" and "p < length (order q)" and "current q = Some (order q ! p)"
    and "pending q = None"
  shows "next_slot (base q) = Suc p"
proof -
  have "position q (order q ! p) = Some p"
    by (rule position_nth [OF wf_distinct_order [OF assms(1)] assms(2)])
  then show ?thesis using assms(3,4) by (simp add: base_def base_of_def base_id_def)
qed

lemma played_step:
  assumes s: "settled q" and t: "advance_target shuf Adv_Auto q = (Some (order q ! p), q)"
    and p: "p < length (order q)"
  defines "q' \<equiv> snd (q_commit (order q ! p) (snd (q_advance shuf Adv_Auto q)))"
  shows "settled q'" "next_slot (base q') = Suc p" "order q' = order q"
    "repeat_mode q' = repeat_mode q" "shuffled q' = shuffled q"
    "played shuf (Suc n) q = order q ! p # played shuf n q'"
proof -
  have wf: "queue_wf q" using s by (simp add: settled_def)
  have mem: "order q ! p \<in> set (item_ids q)"
    using p wf_set_order [OF wf] nth_mem by blast
  have adv: "q_advance shuf Adv_Auto q = (Some (order q ! p), offer (Some (order q ! p)) q)"
    by (simp add: q_advance_eq t offer_def)
  have o: "queue_wf (offer (Some (order q ! p)) q)"
    unfolding offer_def using wf_set_pending [OF wf] mem by simp
  have mem': "order q ! p \<in> set (item_ids (offer (Some (order q ! p)) q))"
    using mem by (simp add: offer_def)
  show st: "settled q'" unfolding q'_def adv using commit_settled [OF o mem'] by simp
  show ord: "order q' = order q" and "repeat_mode q' = repeat_mode q" "shuffled q' = shuffled q"
    unfolding q'_def adv by (simp_all add: offer_def)
  have c: "current q' = Some (order q ! p)"
    unfolding q'_def adv using commit_current [OF mem'] by simp
  show "next_slot (base q') = Suc p"
    using next_slot_committed [of q' p] st c p by (simp add: settled_def ord)
  show "played shuf (Suc n) q = order q ! p # played shuf n q'"
    unfolding q'_def by (simp add: adv)
qed

lemma played_to_the_end:
  assumes "settled q" and "repeat_mode q = RepeatOff"
  shows "played shuf n q = take n (drop (next_slot (base q)) (order q))"
  using assms
proof (induction n arbitrary: q)
  case 0
  then show ?case by simp
next
  case (Suc n)
  let ?p = "next_slot (base q)"
  show ?case
  proof (cases "?p < length (order q)")
    case False
    then have "q_advance shuf Adv_Auto q = (None, offer None q)"
      using Suc.prems by (simp add: q_advance_eq advance_target_def forward_def offer_def get_at_def)
    then show ?thesis using False by simp
  next
    case True
    have t: "advance_target shuf Adv_Auto q = (Some (order q ! ?p), q)"
      using Suc.prems True by (simp add: advance_target_def forward_def get_at_def)
    note st = played_step [OF Suc.prems(1) t True]
    show ?thesis
      unfolding st(6) using Suc.IH [OF st(1)] st Suc.prems True
      by (simp add: Cons_nth_drop_Suc [symmetric])
  qed
qed

lemma played_around:
  assumes "settled q" and "repeat_mode q = RepeatAll" and "\<not> shuffled q" and "order q \<noteq> []"
    and "next_slot (base q) \<le> length (order q)"
  shows "played shuf n q =
    map (\<lambda>k. order q ! ((next_slot (base q) + k) mod length (order q))) [0 ..< n]"
  using assms
proof (induction n arbitrary: q)
  case 0
  then show ?case by simp
next
  case (Suc n)
  let ?p = "next_slot (base q) mod length (order q)"
  have p: "?p < length (order q)" using Suc.prems(4) by simp
  have t: "advance_target shuf Adv_Auto q = (Some (order q ! ?p), q)"
    using Suc.prems
    by (cases "next_slot (base q) = length (order q)")
       (auto simp: advance_target_def forward_def get_at_def wrap_around_def first_of_def)
  note st = played_step [OF Suc.prems(1) t p]
  have eq: "(Suc ?p + k) mod length (order q) = (next_slot (base q) + Suc k) mod length (order q)"
    for k by (metis add_Suc_right add_Suc_shift mod_add_left_eq)
  have "played shuf n (snd (q_commit (order q ! ?p) (snd (q_advance shuf Adv_Auto q)))) =
          map (\<lambda>k. order q ! ((next_slot (base q) + Suc k) mod length (order q))) [0 ..< n]"
    using Suc.IH [OF st(1)] st(2-5) Suc.prems p eq by (simp add: Suc_le_eq)
  then show ?case
    unfolding st(6)
    by (simp add: map_upt_Suc del: upt_Suc)
qed

end
