(* ===== verification/Queue_Props.thy ===== *)
theory Queue_Props
  imports Queue_Run
begin

text \<open>
  The properties of the playback queue, over the model of \<^verbatim>\<open>queue/inner.rs\<close> and \<^verbatim>\<open>queue/mod.rs\<close>.
  Each property is followed by its witness on a small concrete queue; \<open>rev\<close> stands there for
  the shuffle.
\<close>

section \<open>A concrete queue\<close>

definition sample_shuffle :: "nat shuffler" where
  "sample_shuffle xs g = (rev xs, g + 1)"

definition sample_track :: "string \<Rightarrow> queue_track" where
  "sample_track s = \<lparr>qt_source = s, qt_title = None, qt_artist = None, qt_duration = None,
     qt_cover = None, qt_album_id = None, qt_artist_id = None, qt_album = None\<rparr>"

definition sample_tracks :: "queue_track list" where
  "sample_tracks = map sample_track [''a'', ''b'', ''c'']"

definition sample_queue :: "nat inner" where
  "sample_queue = snd (q_add sample_tracks (new_inner 0))"

text \<open>The same, with its second entry playing.\<close>

definition sample_playing :: "nat inner" where
  "sample_playing = snd (q_commit 2 sample_queue)"

lemma sample_shuffles: "shuffles sample_shuffle"
  by (simp add: shuffles_def sample_shuffle_def)

lemma sample_settled: "settled sample_queue" "settled sample_playing"
proof -
  have wf: "queue_wf sample_queue"
    unfolding sample_queue_def by (rule wf_add [OF wf_new])
  then show "settled sample_queue" by (simp add: settled_def) code_simp
  show "settled sample_playing"
    unfolding sample_playing_def by (rule commit_settled [OF wf]) code_simp
qed

section \<open>Well-formedness and publication\<close>

text \<open>
  C1. Whatever operations the queue's users and the engine perform, in any order, its state
  stays well-formed: ids are unique, the play order is a permutation of the entries (and equal
  to them unless shuffled), the current entry, the offered one and the history exist, and the
  history is bounded.
\<close>

theorem queue_always_well_formed:
  assumes "shuffles shuf"
  shows "queue_wf (qu_inner (run_queue shuf ops (with_seed seed)))"
  using run_queue_wf [OF assms wf_with_seed] .

lemma queue_always_well_formed_witness:
  "queue_wf (qu_inner (run_queue sample_shuffle
     [OpAdd sample_tracks, OpShuffle True, OpStarted ''2'', OpRemove [1, 2]] (with_seed 0)))"
  by (rule queue_always_well_formed [OF sample_shuffles])

text \<open>
  C2. The snapshot that subscribers see is always the queue's current one: no operation changes
  what a snapshot shows without moving the version, so \<^verbatim>\<open>mutate\<close> never misses a change.
\<close>

theorem published_snapshot_current:
  "qu_published (run_queue shuf ops (with_seed seed)) =
     snapshot (qu_inner (run_queue shuf ops (with_seed seed)))"
proof -
  have "published_ok (run_queue shuf ops qu)" if "published_ok qu" for qu
    using that unfolding run_queue_def
    by (induction ops arbitrary: qu) (auto intro: queue_step_published)
  then show ?thesis by (simp add: published_ok_def with_seed_def Let_def)
qed

text \<open>
  Ids are never reused: an id an operation hands out is no entry of any earlier state,
  removed since or not.
\<close>

theorem ids_never_reused:
  assumes "shuffles shuf"
    and "i \<in> set (op_ids op (run_queue shuf (earlier @ later) (with_seed seed)))"
  shows "i \<notin> set (item_ids (qu_inner (run_queue shuf earlier (with_seed seed))))"
proof
  let ?then = "run_queue shuf earlier (with_seed seed)"
  assume "i \<in> set (item_ids (qu_inner ?then))"
  then have "i < next_id (qu_inner ?then)"
    using wf_ids_below run_queue_wf [OF assms(1) wf_with_seed] by blast
  also have "\<dots> \<le> next_id (qu_inner (run_queue shuf later ?then))"
    by (rule run_queue_next_id)
  also have "\<dots> \<le> i"
    using op_ids_fresh [OF assms(2)] by (simp add: run_queue_def)
  finally show False by simp
qed

lemma ids_never_reused_witness:
  "4 \<notin> set (item_ids (qu_inner (run_queue sample_shuffle [OpAdd sample_tracks] (with_seed 0))))"
  by (rule ids_never_reused [OF sample_shuffles, where op = "OpAdd sample_tracks" and
        later = "[OpRemove [3]]"])
     (simp add: run_queue_def queue_add_def queue_remove_def mutate_result mutate_inner
       inserted_ids with_seed_def new_inner_def sample_tracks_def Let_def)

section \<open>What comes next\<close>

text \<open>
  C3. \<^verbatim>\<open>peek\<close> foretells \<^verbatim>\<open>advance\<close>: with no offer outstanding, whatever \<^verbatim>\<open>peek\<close> says comes next is
  what \<^verbatim>\<open>advance\<close> then gives, whatever the shuffle does, and the queue shows no change.
\<close>

theorem peek_foretells_advance:
  assumes "queue_wf q" and "pending q = None" and "q_peek how q \<noteq> Peeked_Unknown"
  shows "(case q_peek how q of Peeked_Next i \<Rightarrow> Some i | _ \<Rightarrow> None) = fst (q_advance shuf how q)
    \<and> snapshot (snd (q_advance shuf how q)) = snapshot q"
proof -
  have s: "settled q" using assms by (simp add: settled_def)
  show ?thesis
    using peek_advance [OF s] assms(3)
    by (cases "q_peek how q") (auto simp: offer_def snapshot_def)
qed

lemma peek_foretells_advance_witness:
  "fst (q_advance sample_shuffle Adv_Next sample_playing) = Some 3"
proof -
  have "(case q_peek Adv_Next sample_playing of Peeked_Next i \<Rightarrow> Some i | _ \<Rightarrow> None) = Some 3"
    by code_simp
  then show ?thesis
    using peek_foretells_advance [of sample_playing Adv_Next sample_shuffle] sample_settled(2)
    by (cases "q_peek Adv_Next sample_playing") (auto simp: settled_def)
qed

text \<open>
  C4. A gapless join leaves the queue exactly as loading the next track would: with no offer
  outstanding, committing the entry \<^verbatim>\<open>peek\<close> named is the same as taking it with \<^verbatim>\<open>advance\<close> and
  committing it as it is opened.
\<close>

theorem gapless_same_as_loading:
  assumes "queue_wf q" and "pending q = None" and "\<not> pending_backward q"
    and "q_peek Adv_Auto q = Peeked_Next i"
  shows "q_commit i q = q_commit i (snd (q_advance shuf Adv_Auto q))"
proof -
  have s: "settled q" using assms by (simp add: settled_def)
  have q: "q\<lparr>pending := None, pending_backward := False\<rparr> = q" using assms(2,3) by simp
  have mem: "i \<in> set (item_ids q)" by (rule peek_mem [OF s assms(4)])
  then have "i \<in> set (item_ids (offer (Some i) q))" by (simp add: offer_def)
  then have "q_commit i (offer (Some i) q) = q_commit i q"
    using commit_offer [OF mem] commit_present [OF mem] commit_present q by (metis prod.collapse)
  then show ?thesis by (simp add: peek_advance(1) [OF s assms(4)])
qed

lemma gapless_same_as_loading_witness:
  "q_commit 3 sample_playing = q_commit 3 (snd (q_advance sample_shuffle Adv_Auto sample_playing))"
proof (rule gapless_same_as_loading)
  show "queue_wf sample_playing" "pending sample_playing = None"
    using sample_settled by (simp_all add: settled_def)
qed code_simp+

section \<open>Playing through\<close>

text \<open>
  With repeat off, playing from here on visits what is left of the play order (shuffled or
  not), each entry exactly once and in order, and then ends.
\<close>

theorem play_through_order:
  assumes "queue_wf q" and "pending q = None" and "repeat_mode q = RepeatOff"
    and "length (order q) \<le> n"
  shows "played shuf n q = drop (next_slot (base q)) (order q) \<and> distinct (played shuf n q)"
proof -
  have "settled q" using assms(1,2) by (simp add: settled_def)
  then have "played shuf n q = drop (next_slot (base q)) (order q)"
    using played_to_the_end [of q shuf n] assms(3,4) by simp
  then show ?thesis using wf_distinct_order [OF assms(1)] by simp
qed

lemma play_through_order_witness:
  "played sample_shuffle 5 sample_queue = drop (next_slot (base sample_queue)) (order sample_queue)
    \<and> distinct (played sample_shuffle 5 sample_queue)"
proof (rule play_through_order)
  show "queue_wf sample_queue" "pending sample_queue = None"
    using sample_settled by (simp_all add: settled_def)
qed code_simp+

text \<open>
  C5. With repeat all and no shuffle, playing never ends and cycles through the order: the
  k-th track played is the entry k places further on, wrapping around.
\<close>

theorem repeat_all_cycles:
  assumes "queue_wf q" and "pending q = None" and "current q = Some (order q ! p)"
    and "p < length (order q)" and "repeat_mode q = RepeatAll" and "\<not> shuffled q"
  shows "played shuf n q = map (\<lambda>k. order q ! ((Suc p + k) mod length (order q))) [0 ..< n]"
proof -
  have "settled q" using assms(1,2) by (simp add: settled_def)
  moreover have "next_slot (base q) = Suc p"
    by (rule next_slot_committed [OF assms(1,4,3,2)])
  moreover have "order q \<noteq> []" using assms(4) by auto
  ultimately show ?thesis
    using played_around [of q shuf n] assms(4-6) by simp
qed

lemma repeat_all_cycles_witness:
  "played sample_shuffle 4 (q_set_repeat RepeatAll sample_playing)
    = map (\<lambda>k. order (q_set_repeat RepeatAll sample_playing) !
               ((Suc 1 + k) mod length (order (q_set_repeat RepeatAll sample_playing)))) [0 ..< 4]"
proof (rule repeat_all_cycles)
  show "queue_wf (q_set_repeat RepeatAll sample_playing)"
    using sample_settled(2) by (simp add: settled_def wf_set_repeat)
qed code_simp+

text \<open>
  When a shuffled queue starts a new cycle it reshuffles every entry, and with two or more
  of them the new cycle never opens with the entry the last one closed with.
\<close>

theorem new_cycle_reshuffles:
  assumes "shuffles shuf" and "queue_wf q" and "shuffled q" and "2 \<le> length (order q)"
    and "wrap_around shuf q = (opening, q')"
  shows "opening \<noteq> base_id q \<and> mset (order q') = mset (order q)
    \<and> opening = Some (hd (order q')) \<and> version q < version q'"
proof -
  obtain ys g where s: "shuf (order q) (rng q) = (ys, g)" by fastforce
  have m: "mset ys = mset (order q)" by (rule shuffles_mset [OF assms(1) s])
  have len: "2 \<le> length ys" using mset_eq_length [OF m] assms(4) by simp
  have "distinct ys"
    using m wf_distinct_order [OF assms(2)] mset_eq_imp_distinct_iff by blast
  moreover have "0 < length ys" "1 < length ys" using len by linarith+
  ultimately have ne: "ys ! 0 \<noteq> ys ! 1" by (simp only: nth_eq_iff_index_eq)
  have swap: "mset (ys[0 := ys ! 1, 1 := ys ! 0]) = mset ys"
    by (rule mset_swap) (use len in auto)
  have hd: "hd (ys[0 := ys ! 1, 1 := ys ! 0]) = ys ! 1" "hd ys = ys ! 0"
    using len by (cases ys; simp add: hd_conv_nth)+
  have wrap: "opening = Some (if Some (ys ! 0) = base_id q then ys ! 1 else ys ! 0)"
    "order q' = (if Some (ys ! 0) = base_id q then ys[0 := ys ! 1, 1 := ys ! 0] else ys)"
    "version q' = version q + 1"
    using assms(3,5) len
    by (auto simp: wrap_around_def s Let_def first_of_def get_at_def bump_version_def
        split: if_splits)
  show ?thesis
    using wrap ne hd swap m by (cases "base_id q = Some (ys ! 0)") auto
qed

lemma new_cycle_reshuffles_witness:
  "fst (wrap_around sample_shuffle (q_set_shuffle sample_shuffle True sample_playing)) \<noteq>
     base_id (q_set_shuffle sample_shuffle True sample_playing)"
proof -
  let ?q = "q_set_shuffle sample_shuffle True sample_playing"
  have "queue_wf ?q"
    using wf_set_shuffle [OF sample_shuffles, of sample_playing True] sample_settled(2)
    by (simp add: settled_def)
  moreover have "shuffled ?q" "2 \<le> length (order ?q)" by code_simp+
  ultimately show ?thesis
    using new_cycle_reshuffles [OF sample_shuffles _ _ _ prod.collapse [symmetric], of ?q]
    by blast
qed

section \<open>Going back\<close>

text \<open>
  Previous undoes Next: after skipping from the current entry to another, Previous offers
  the former again, and taking it restores the current entry and the history. (Skipping back to
  the entry that was played just before is itself a step back, and excluded.)
\<close>

theorem previous_undoes_next:
  assumes "shuffles shuf" and "queue_wf q" and "current q = Some c" and "i \<noteq> c"
    and "q_advance shuf Adv_Next q = (Some i, q1)"
    and "last_of (history q) \<noteq> Some i" and "length (history q) < history_limit"
    and "q2 = snd (q_commit i q1)" and "q3 = snd (q_advance shuf Adv_Previous q2)"
  shows "fst (q_advance shuf Adv_Previous q2) = Some c \<and> current (snd (q_commit c q3)) = Some c
    \<and> history (snd (q_commit c q3)) = history q"
proof -
  have w1: "queue_wf q1"
    using wf_advance [OF assms(1,2), of Adv_Next] assms(5) by simp
  note t = wf_advance_target [OF assms(1,2), of Adv_Next]
  have i1: "i \<in> set (item_ids q1)"
    using t(2,3) assms(5) by (auto simp: q_advance_eq)
  have f1: "current q1 = Some c" "history q1 = history q" "items q1 = items q"
      "\<not> pending_backward q1"
    using assms(3,5) forward_frame [of shuf "repeat_mode q \<noteq> RepeatOff" q]
    by (auto simp: q_advance_eq advance_target_def)
  have w2: "queue_wf q2" unfolding assms(8) by (rule wf_commit [OF w1])
  have c2: "current q2 = Some i" "items q2 = items q" "history q2 = history q @ [c]"
    using commit_eq [OF i1] f1 assms(4,6,7,8)
    by (simp_all add: commit_history_def push_history_def Let_def)
  have b2: "backward w q2 = (Some c, q2)" for w
    by (simp add: backward_wf [OF w2] backward_target_def c2)
  have a2: "q_advance shuf Adv_Previous q2 = (Some c, q2\<lparr>pending := Some c, pending_backward := True\<rparr>)"
    by (simp add: q_advance_eq advance_target_def b2)
  have c3: "c \<in> set (item_ids q3)"
    using assms(2,3,9) a2 c2(2) by (simp add: queue_wf_def)
  show ?thesis
    using commit_eq [OF c3] a2 assms(4,9) c2
    by (simp add: commit_history_def Let_def)
qed

lemma previous_undoes_next_witness:
  "fst (q_advance sample_shuffle Adv_Previous
          (snd (q_commit 3 (snd (q_advance sample_shuffle Adv_Next sample_playing))))) = Some 2"
proof -
  have "q_advance sample_shuffle Adv_Next sample_playing
          = (Some 3, snd (q_advance sample_shuffle Adv_Next sample_playing))"
    by code_simp
  moreover have "last_of (history sample_playing) \<noteq> Some 3"
    "length (history sample_playing) < history_limit" "current sample_playing = Some 2"
    by code_simp+
  ultimately show ?thesis
    using previous_undoes_next [OF sample_shuffles, of sample_playing 2 3] sample_settled(2)
    by (simp add: settled_def)
qed

section \<open>Editing while playing\<close>

text \<open>
  Removing the entry that is playing does not change what comes next: the entry that
  followed it in the play order still does.
\<close>

theorem removing_current_keeps_next:
  assumes "queue_wf q" and "pending q = None" and "repeat_mode q = RepeatOff"
    and "current q = Some c"
  shows "q_peek Adv_Auto (snd (q_remove [c] q)) = q_peek Adv_Auto q
    \<and> current (snd (q_remove [c] q)) = None \<and> c \<notin> set (order (snd (q_remove [c] q)))"
proof -
  have mem: "c \<in> set (item_ids q)" using assms(1,4) by (simp add: queue_wf_def)
  then obtain q' where r: "remove_one c q = Some q'" using remove_one_None by fastforce
  have "c \<in> set (order q)" using mem wf_set_order [OF assms(1)] by blast
  then obtain p where p: "position q c = Some p" using position_mem by blast
  have pl: "p < length (order q)" "order q ! p = c" using position_Some [OF p] by auto
  have v: "vacated q' = Some p" "order q' = remove_at p (order q)"
    using remove_one_slot [OF r assms(4) p] by auto
  have q': "snd (q_remove [c] q) = bump_version q'" by (simp add: q_remove_def r)
  have "get_at (remove_at p (order q)) p = get_at (order q) (Suc p)"
    using pl(1) by (auto simp: get_at_def remove_at_def nth_append)
  then have peek: "peek_forward q' False = peek_forward q False"
    using v p assms(4) remove_one_frame(6) [OF r]
    by (simp add: peek_forward_def base_of_def)
  have "position (bump_version q') = position q'" by (rule position_cong) simp
  then have "peek_forward (bump_version q') False = peek_forward q' False"
    by (simp add: peek_forward_def base_of_def cong: option.case_cong)
  moreover have "repeat_mode q' = RepeatOff" using remove_one_frame(7) [OF r] assms(3) by simp
  moreover have "current q' = None" using remove_one_frame(6) [OF r] assms(4) by simp
  moreover have "c \<notin> set (order q')" using remove_one_items(2) [OF r assms(1)] by simp
  ultimately show ?thesis using q' peek assms(3) by (simp add: q_peek_def)
qed

lemma removing_current_keeps_next_witness:
  "q_peek Adv_Auto (snd (q_remove [2] sample_playing)) = Peeked_Next 3"
proof -
  have "q_peek Adv_Auto sample_playing = Peeked_Next 3" "repeat_mode sample_playing = RepeatOff"
    "current sample_playing = Some 2" by code_simp+
  then show ?thesis
    using removing_current_keeps_next [of sample_playing 2] sample_settled(2)
    by (simp add: settled_def)
qed

text \<open>
  Tracks added with "play next" come right after the one playing, in the order given,
  whether the queue is shuffled or not, and nothing else moves.
\<close>

theorem play_next_plays_next:
  assumes "queue_wf q" and "current q = Some (order q ! p)" and "p < length (order q)"
    and "q_play_next ts q = (ids, q')"
  shows "order q' = take (Suc p) (order q) @ ids @ drop (Suc p) (order q)
    \<and> length ids = length ts
    \<and> (ts \<noteq> [] \<longrightarrow> q_peek Adv_Next q' = Peeked_Next (hd ids))"
proof -
  have pos: "position q (order q ! p) = Some p"
    by (rule position_nth [OF wf_distinct_order [OF assms(1)] assms(3)])
  have at0: "play_next_order_at q = Suc p"
    using assms(2) pos by (simp add: play_next_order_at_def)
  have ids: "ids = [next_id q ..< next_id q + length ts]"
    using inserted_ids(3) [of ts q] assms(4) by simp
  have ord: "order q' = take (Suc p) (order q) @ ids @ drop (Suc p) (order q)"
    and cur: "current q' = Some (order q ! p)"
    using assms(2-4) at0 ids
    by (auto simp: q_play_next_def new_items_def Let_def insert_in_order_def insert_at_def
        number_items_ids bump_version_def split: option.splits if_splits)
  have wf': "queue_wf q'" using wf_play_next [OF assms(1), of ts] assms(4) by simp
  have p': "p < length (order q')" "order q' ! p = order q ! p"
    using assms(3) by (simp_all add: ord nth_append)
  have "position q' (order q' ! p) = Some p"
    by (rule position_nth [OF wf_distinct_order [OF wf'] p'(1)])
  then have slot: "next_slot (base_of q' (current q')) = Suc p"
    using cur p'(2) by (simp add: base_of_def)
  have "get_at (order q') (Suc p) = Some (hd ids)" if "ts \<noteq> []"
  proof -
    have "0 < length ts" using that by simp
    then have "Suc p < length ts + length (order q)" using assms(3) by linarith
    then show ?thesis using that assms(3) ids by (simp add: ord nth_append hd_conv_nth)
  qed
  then show ?thesis using ord slot ids by (simp add: q_peek_def peek_forward_def del: get_at_Some)
qed

lemma play_next_plays_next_witness:
  "q_peek Adv_Next (snd (q_play_next sample_tracks sample_playing)) = Peeked_Next 4"
proof -
  have c: "current sample_playing = Some (order sample_playing ! 1)"
    "1 < length (order sample_playing)" "hd (fst (q_play_next sample_tracks sample_playing)) = 4"
    "sample_tracks \<noteq> []" by code_simp+
  show ?thesis
    using play_next_plays_next [OF _ c(1,2) prod.collapse [symmetric], of sample_tracks]
      sample_settled(2) c(3,4)
    by (simp add: settled_def)
qed

text \<open>
  Turning shuffle on keeps the playing entry first and only rearranges the others; turning
  it off again restores the queue order. Neither touches the entries or the current one.
\<close>

theorem shuffle_toggle:
  assumes "shuffles shuf" and "queue_wf q" and "\<not> shuffled q"
    and "q' = q_set_shuffle shuf True q" and "q'' = q_set_shuffle shuf False q'"
  shows "mset (order q') = mset (order q) \<and> items q' = items q \<and> current q' = current q
    \<and> (current q \<noteq> None \<longrightarrow> first_of (order q') = current q)
    \<and> order q'' = order q \<and> items q'' = items q \<and> current q'' = current q"
proof -
  have w': "queue_wf q'" unfolding assms(4) by (rule wf_set_shuffle [OF assms(1,2)])
  obtain ys g where s: "shuf (filter (\<lambda>i. Some i \<noteq> current q) (item_ids q)) (rng q) = (ys, g)"
    by fastforce
  have q': "items q' = items q" "current q' = current q" "shuffled q'"
      "order q' = (case current q of Some c \<Rightarrow> [c] | None \<Rightarrow> []) @ ys"
    unfolding assms(4) using assms(3) s
    by (simp_all add: q_set_shuffle_def Let_def)
  have "mset (order q') = mset (order q)"
    using w' assms(2) q'(1) unfolding queue_wf_def by metis
  moreover have "order q = item_ids q" using assms(2,3) unfolding queue_wf_def by blast
  moreover have "order q'' = item_ids q'" "items q'' = items q'" "current q'' = current q'"
    unfolding assms(5) using q'(3) by (simp_all add: q_set_shuffle_def)
  ultimately show ?thesis
    using q' by (auto simp: first_of_def get_at_def)
qed

lemma shuffle_toggle_witness:
  "first_of (order (q_set_shuffle sample_shuffle True sample_playing)) = Some 2"
proof -
  have c: "\<not> shuffled sample_playing" "current sample_playing = Some 2" by code_simp+
  show ?thesis
    using shuffle_toggle [OF sample_shuffles _ c(1) refl refl] sample_settled(2) c(2)
    by (simp add: settled_def)
qed

text \<open>
  The reference the engine is given for an entry stands for that entry, and only for it.
\<close>

theorem track_ref_round_trip:
  assumes "i \<le> u64_max"
  shows "id_from_ref (id_track_ref i) = Some i
    \<and> (\<forall>j. id_track_ref j = id_track_ref i \<longrightarrow> j = i)"
  using assms by simp (simp add: id_track_ref_def)

lemma track_ref_round_trip_witness: "id_from_ref (id_track_ref 4096) = Some 4096"
  using track_ref_round_trip [of 4096] by (simp add: u64_max_def)

end
