(* ===== verification/Engine_State.thy ===== *)
theory Engine_State
  imports Engine_Types
begin

text \<open>
  The state of the audio thread (\<^verbatim>\<open>crates/phonia-core/src/engine/audio_thread.rs\<close>): the record
  \<open>engine\<close> for \<^verbatim>\<open>AudioThread\<close>, the record \<open>ctx\<close> for the parts of its \<^verbatim>\<open>Context\<close> that do not change,
  the audio source of a track, the messages, and the tasks it spawns.

  What is outside the thread (the clock, the supplier, the device and whoever else uses them) is
  a world of type \<open>'w\<close>, threaded through every call in the order the code makes them; the
  functions of \<open>ctx\<close> are arbitrary, so a result may depend on anything that happened before,
  including interference from other threads. A \<^verbatim>\<open>Box<dyn AudioSink>\<close> is a handle with the two
  things that do not change while it is open.
\<close>

section \<open>The audio of a track\<close>

definition raw_chunk_frames :: nat where
  "raw_chunk_frames = 4096"

datatype source = SrcDecoder decoder | SrcRaw "sample list" nat source_spec

fun source_spec_of :: "source \<Rightarrow> source_spec" where
  "source_spec_of (SrcDecoder d) = dec_spec d"
| "source_spec_of (SrcRaw samples next spec) = spec"

text \<open>A channel count of zero panics in the code (a division by zero); \<open>div\<close> gives zero here.\<close>

fun source_duration :: "source \<Rightarrow> duration option" where
  "source_duration (SrcDecoder d) = dec_duration d"
| "source_duration (SrcRaw samples next spec) =
     Some (frames_to_duration (length samples div channels spec) (sample_rate spec))"

type_synonym format_seek = "duration \<Rightarrow> decoder \<Rightarrow> error + (int \<times> int \<times> packet list)"

fun source_seek :: "format_seek \<Rightarrow> duration \<Rightarrow> source \<Rightarrow> (error + duration) \<times> source" where
  "source_seek fs at0 (SrcDecoder d) =
     (let (r, d) = dec_seek fs at0 d in (r, SrcDecoder d))"
| "source_seek fs at0 (SrcRaw samples next spec) =
     (let total = length samples div channels spec;
          frame = min (duration_to_frames at0 (sample_rate spec)) total
      in (Inr (frames_to_duration frame (sample_rate spec)),
          SrcRaw samples (frame * channels spec) spec))"

fun source_skip_frames :: "nat \<Rightarrow> source \<Rightarrow> source" where
  "source_skip_frames frames (SrcDecoder d) = SrcDecoder (dec_skip_frames frames d)"
| "source_skip_frames frames (SrcRaw samples next spec) =
     (let skipped = min (frames * channels spec) usize_max
      in SrcRaw samples (min (min (next + skipped) usize_max) (length samples)) spec)"

text \<open>\<open>Inr (Some chunk)\<close> is \<^verbatim>\<open>Ok(true)\<close> with the chunk in \<^verbatim>\<open>out\<close>; \<open>Inr None\<close> is \<^verbatim>\<open>Ok(false)\<close>.\<close>

fun source_next_chunk :: "source \<Rightarrow> (error + sample list option) \<times> source" where
  "source_next_chunk (SrcDecoder d) =
     (let (r, d) = dec_next_chunk d in (r, SrcDecoder d))"
| "source_next_chunk (SrcRaw samples next spec) =
     (if length samples \<le> next then (Inr None, SrcRaw samples next spec)
      else let stop = min (next + raw_chunk_frames * channels spec) (length samples)
           in (Inr (Some (drop next (take stop samples))), SrcRaw samples stop spec))"

record prepared =
  pr_meta :: track_meta
  pr_source :: source
  pr_seek :: seek_mode
  pr_start :: duration
  pr_first_chunk :: "sample list"

fun open_source :: "track_media \<Rightarrow> error + source" where
  "open_source (Encoded (Inl e)) = Inl (with_context ''opening the decoder'' e)"
| "open_source (Encoded (Inr d)) = Inr (SrcDecoder d)"
| "open_source (RawPcm samples spec) = Inr (SrcRaw samples 0 spec)"

definition prepare :: "loaded_track \<Rightarrow> error + prepared" where
  "prepare t =
     (case open_source (lt_media t) of
        Inl e \<Rightarrow> Inl e
      | Inr src \<Rightarrow> Inr \<lparr>pr_meta = lt_meta t, pr_source = src, pr_seek = lt_seek t,
                         pr_start = lt_start t, pr_first_chunk = []\<rparr>)"

text \<open>The second half of \<^verbatim>\<open>prefetch\<close>: the first chunk, decoded ahead.\<close>

definition decode_first :: "prepared \<Rightarrow> error + prepared" where
  "decode_first p =
     (case source_next_chunk (pr_source p) of
        (Inl e, _) \<Rightarrow> Inl e
      | (Inr None, src) \<Rightarrow> Inr (p\<lparr>pr_source := src, pr_first_chunk := []\<rparr>)
      | (Inr (Some chunk), src) \<Rightarrow> Inr (p\<lparr>pr_source := src, pr_first_chunk := chunk\<rparr>))"

section \<open>The thread's state\<close>

datatype load_target = LoadTrack track_ref | LoadAdvance advance

record playing =
  p_meta :: track_meta
  p_spec :: source_spec
  p_source :: "source option"
  p_seek :: seek_mode
  p_pending :: "sample list"
  p_offset :: nat
  p_recent :: "sample list"
  p_sink_paused :: bool
  p_frames_written :: nat
  p_base :: duration
  p_duration :: "duration option"
  p_position :: duration
  p_last_position_at :: instant
  p_lead_in :: nat
  p_source_done :: bool

record outgoing =
  og_meta :: track_meta
  og_spec :: source_spec
  og_duration :: "duration option"
  og_end_position :: duration
  og_position :: duration

datatype next_phase = Opening | Ready prepared | PrefetchFailed

record next_track =
  nx_track :: track_ref
  nx_generation :: nat
  nx_phase :: next_phase

text \<open>The channel a release request is answered on is named by a number.\<close>

record release =
  rl_reason :: release_reason
  rl_by :: "string option"
  rl_done :: "nat option"

record sink =
  sk_id :: nat
  sk_spec :: source_spec
  sk_capacity :: nat

type_synonym sink_factory = nat

text \<open>A task handed to the runtime; its answer, if any, is a message with its number.\<close>

datatype task = LoadTask nat load_target duration | PrefetchTask nat track_ref

record 'w ctx =
  cx_supplier :: "'w supplier"
  cx_now :: "'w \<Rightarrow> instant \<times> 'w"
  cx_open :: "sink_factory \<Rightarrow> source_spec \<Rightarrow> 'w \<Rightarrow> (error + sink) \<times> 'w"
  cx_release :: "sink_factory \<Rightarrow> 'w \<Rightarrow> 'w"
  cx_on_release_request :: "sink_factory \<Rightarrow> 'w \<Rightarrow> 'w"
  cx_write :: "sink \<Rightarrow> sample list \<Rightarrow> 'w \<Rightarrow> (error + nat) \<times> 'w"
  cx_delay :: "sink \<Rightarrow> 'w \<Rightarrow> (error + nat) \<times> 'w"
  cx_pause :: "sink \<Rightarrow> 'w \<Rightarrow> error option \<times> 'w"
  cx_resume :: "sink \<Rightarrow> 'w \<Rightarrow> error option \<times> 'w"
  cx_flush :: "sink \<Rightarrow> 'w \<Rightarrow> error option \<times> 'w"
  cx_drain :: "sink \<Rightarrow> 'w \<Rightarrow> error option \<times> 'w"
  cx_set_gain :: "sink \<Rightarrow> real \<Rightarrow> 'w \<Rightarrow> 'w"
  cx_close :: "sink \<Rightarrow> 'w \<Rightarrow> 'w"
  cx_format_seek :: format_seek
  cx_position_interval :: duration
  cx_release_after_pause :: "duration option"
  cx_gapless :: bool

text \<open>
  \<^verbatim>\<open>AudioThread\<close>, with the mutable part of its context: the sink factory, the published status,
  and what has been sent so far (events, answers to release requests and to output switches,
  tasks spawned), oldest first.
\<close>

record 'w engine =
  e_state :: state
  e_generation :: nat
  e_load_task :: "nat option"
  e_pause_when_ready :: bool
  e_sink :: "sink option"
  e_released :: "string option option"
  e_release_when_ready :: "release option"
  e_paused_at :: "instant option"
  e_current :: "playing option"
  e_outgoing :: "outgoing option"
  e_next :: "next_track option"
  e_prefetch_generation :: nat
  e_waiting_until :: "instant option"
  e_adopting :: bool
  e_polling :: bool
  e_sinks :: sink_factory
  e_status :: status
  e_events :: "event list"
  e_answers :: "(nat \<times> bool) list"
  e_switched :: "(nat \<times> string option) list"
  e_tasks :: "task list"
  e_world :: 'w

datatype msg =
    MsgCommand command
  | MsgLoaded nat prepared
  | MsgLoadFailed nat string
  | MsgPrefetched nat "string + prepared"
  | MsgQueueExhausted nat
  | MsgReleaseRequested "string option" nat
  | MsgSetOutput sink_factory nat
  | MsgShutdown

definition wait_margin :: duration where
  "wait_margin = millis 50"

definition prefetch_lead :: duration where
  "prefetch_lead = secs 30"

definition previous_restart_after :: duration where
  "previous_restart_after = secs 3"

text \<open>The status a new engine publishes, and the state the thread starts in.\<close>

definition initial_status :: status where
  "initial_status =
     \<lparr>st_state = Stopped, st_track = None, st_spec = None, st_position = 0, st_duration = None,
      st_output = Out_Closed\<rparr>"

definition new_engine :: "sink_factory \<Rightarrow> 'w \<Rightarrow> 'w engine" where
  "new_engine sinks w =
     \<lparr>e_state = Stopped, e_generation = 0, e_load_task = None, e_pause_when_ready = False,
      e_sink = None, e_released = None, e_release_when_ready = None, e_paused_at = None,
      e_current = None, e_outgoing = None, e_next = None, e_prefetch_generation = 0,
      e_waiting_until = None, e_adopting = False, e_polling = False,
      e_sinks = sinks, e_status = initial_status, e_events = [], e_answers = [],
      e_switched = [], e_tasks = [], e_world = w\<rparr>"

section \<open>Calls to the outside\<close>

definition run_w :: "('w \<Rightarrow> 'r \<times> 'w) \<Rightarrow> 'w engine \<Rightarrow> 'r \<times> 'w engine" where
  "run_w f e = (fst (f (e_world e)), e\<lparr>e_world := snd (f (e_world e))\<rparr>)"

definition do_w :: "('w \<Rightarrow> 'w) \<Rightarrow> 'w engine \<Rightarrow> 'w engine" where
  "do_w f e = e\<lparr>e_world := f (e_world e)\<rparr>"

text \<open>\<^verbatim>\<open>sink.delay_frames().unwrap_or(0)\<close>, and zero without a sink.\<close>

definition queued_frames :: "'w ctx \<Rightarrow> 'w engine \<Rightarrow> nat \<times> 'w engine" where
  "queued_frames cx e =
     (case e_sink e of
        None \<Rightarrow> (0, e)
      | Some s \<Rightarrow>
          let (r, e) = run_w (cx_delay cx s) e
          in (case r of Inl _ \<Rightarrow> 0 | Inr n \<Rightarrow> n, e))"

text \<open>\<^verbatim>\<open>self.sink = None\<close>: the sink, if there is one, is dropped.\<close>

definition drop_sink :: "'w ctx \<Rightarrow> 'w engine \<Rightarrow> 'w engine" where
  "drop_sink cx e =
     (case e_sink e of
        None \<Rightarrow> e
      | Some s \<Rightarrow> do_w (cx_close cx s) (e\<lparr>e_sink := None\<rparr>))"

text \<open>The answers of the tasks, as they run on the runtime.\<close>

definition load_answer :: "'w ctx \<Rightarrow> nat \<Rightarrow> load_target \<Rightarrow> duration \<Rightarrow> 'w \<Rightarrow> msg \<times> 'w" where
  "load_answer cx generation target at0 w =
     (let (track, w) = (case target of
                          LoadTrack t \<Rightarrow> (Some t, w)
                        | LoadAdvance how \<Rightarrow> sup_advance (cx_supplier cx) how w)
      in case track of
           None \<Rightarrow> (MsgQueueExhausted generation, w)
         | Some t \<Rightarrow>
             let (opened, w) = sup_open (cx_supplier cx) t at0 w
             in (case (case opened of Inl e \<Rightarrow> Inl e | Inr loaded \<Rightarrow> prepare loaded) of
                   Inr p \<Rightarrow> MsgLoaded generation p
                 | Inl e \<Rightarrow> MsgLoadFailed generation (show_error e), w))"

definition prefetch_answer :: "'w ctx \<Rightarrow> nat \<Rightarrow> track_ref \<Rightarrow> 'w \<Rightarrow> msg \<times> 'w" where
  "prefetch_answer cx generation track w =
     (let (opened, w) = sup_open_ahead (cx_supplier cx) track w;
          result = (case opened of
                      Inl e \<Rightarrow> Inl e
                    | Inr loaded \<Rightarrow>
                        (case prepare loaded of Inl e \<Rightarrow> Inl e | Inr p \<Rightarrow> decode_first p))
      in (MsgPrefetched generation
            (case result of Inl e \<Rightarrow> Inl (show_error e) | Inr p \<Rightarrow> Inr p), w))"

end
