(* ===== verification/Audio_Thread.thy ===== *)
theory Audio_Thread
  imports Engine_State
begin

text \<open>
  The methods of \<^verbatim>\<open>AudioThread\<close> (\<^verbatim>\<open>engine/audio_thread.rs\<close>), one function each, and its loop as
  a step relation. The calls to the outside come in the order the code makes them.
\<close>

section \<open>Reporting\<close>

definition emit :: "event \<Rightarrow> 'w engine \<Rightarrow> 'w engine" where
  "emit ev e = e\<lparr>e_events := e_events e @ [ev]\<rparr>"

definition status_of :: "'w engine \<Rightarrow> status" where
  "status_of e =
     (let (track, spec, position, duration) =
            (case (e_outgoing e, e_current e) of
               (Some og, _) \<Rightarrow> (Some (og_meta og), Some (og_spec og), og_position og, og_duration og)
             | (None, Some p) \<Rightarrow> (Some (p_meta p), Some (p_spec p), p_position p, p_duration p)
             | (None, None) \<Rightarrow> (None, None, 0, None))
      in \<lparr>st_state = e_state e, st_track = track, st_spec = spec, st_position = position,
          st_duration = duration,
          st_output = (case (e_sink e, e_released e) of
                         (Some _, _) \<Rightarrow> Out_Open
                       | (None, Some by) \<Rightarrow> Out_Released by
                       | (None, None) \<Rightarrow> Out_Closed)\<rparr>)"

definition publish_status :: "'w engine \<Rightarrow> 'w engine" where
  "publish_status e = e\<lparr>e_status := status_of e\<rparr>"

definition set_state :: "'w ctx \<Rightarrow> state \<Rightarrow> 'w engine \<Rightarrow> 'w engine" where
  "set_state cx s e =
     (let changed = e_state e \<noteq> s;
          e = (if changed then
                 if s = Paused then
                   let (t, e) = run_w (cx_now cx) e in e\<lparr>e_paused_at := Some t\<rparr>
                 else e\<lparr>e_paused_at := None\<rparr>
               else e);
          e = publish_status (e\<lparr>e_state := s\<rparr>)
      in if changed then emit (StateChanged s) e else e)"

definition answer :: "release \<Rightarrow> bool \<Rightarrow> 'w engine \<Rightarrow> 'w engine" where
  "answer request given_up e =
     (case rl_done request of
        None \<Rightarrow> e
      | Some d \<Rightarrow> e\<lparr>e_answers := e_answers e @ [(d, given_up)]\<rparr>)"

text \<open>Answers a request that was waiting for a track to load, if there is one.\<close>

definition answer_waiting :: "bool \<Rightarrow> 'w engine \<Rightarrow> 'w engine" where
  "answer_waiting given_up e =
     (case e_release_when_ready e of
        None \<Rightarrow> e
      | Some request \<Rightarrow> answer request given_up (e\<lparr>e_release_when_ready := None\<rparr>))"

definition flush_sink :: "'w ctx \<Rightarrow> 'w engine \<Rightarrow> 'w engine" where
  "flush_sink cx e =
     (case e_sink e of
        None \<Rightarrow> e
      | Some s \<Rightarrow>
          let (r, e) = run_w (cx_flush cx s) e
          in case r of
               None \<Rightarrow> e
             | Some err \<Rightarrow>
                 emit (ErrorEvent (show_error (with_context ''flushing the audio output'' err))) e)"

section \<open>Loading\<close>

definition drop_next :: "'w engine \<Rightarrow> 'w engine" where
  "drop_next e = e\<lparr>e_next := None, e_waiting_until := None, e_adopting := False\<rparr>"

definition cancel_load :: "'w engine \<Rightarrow> 'w engine" where
  "cancel_load e = e\<lparr>e_generation := e_generation e + 1, e_load_task := None\<rparr>"

definition begin_load ::
    "'w ctx \<Rightarrow> load_target \<Rightarrow> duration \<Rightarrow> state \<Rightarrow> bool \<Rightarrow> 'w engine \<Rightarrow> 'w engine" where
  "begin_load cx target at0 s pause_when_ready e =
     (let e = cancel_load e;
          e = drop_next e;
          e = answer_waiting False e;
          e = e\<lparr>e_pause_when_ready := pause_when_ready\<rparr>;
          e = set_state cx s e
      in e\<lparr>e_load_task := Some (e_generation e),
           e_tasks := e_tasks e @ [LoadTask (e_generation e) target at0]\<rparr>)"

definition request_load :: "'w ctx \<Rightarrow> load_target \<Rightarrow> 'w engine \<Rightarrow> 'w engine" where
  "request_load cx target e = begin_load cx target 0 Loading False e"

definition start_prefetch :: "track_ref \<Rightarrow> 'w engine \<Rightarrow> 'w engine" where
  "start_prefetch track e =
     (let generation = e_prefetch_generation e + 1
      in e\<lparr>e_prefetch_generation := generation,
           e_tasks := e_tasks e @ [PrefetchTask generation track],
           e_next := Some \<lparr>nx_track = track, nx_generation = generation, nx_phase = Opening\<rparr>\<rparr>)"

section \<open>Position\<close>

definition heard_position :: "'w ctx \<Rightarrow> 'w engine \<Rightarrow> duration \<times> 'w engine" where
  "heard_position cx e =
     (case e_current e of
        None \<Rightarrow> (0, e)
      | Some p \<Rightarrow>
          let (queued, e) = queued_frames cx e;
              heard = p_frames_written p - queued
          in (case e_outgoing e of
                Some og \<Rightarrow>
                  og_end_position og
                    - frames_to_duration (p_lead_in p - heard) (sample_rate (p_spec p))
              | None \<Rightarrow>
                  p_base p + frames_to_duration (heard - p_lead_in p) (sample_rate (p_spec p)), e))"

definition emit_position :: "'w ctx \<Rightarrow> 'w engine \<Rightarrow> 'w engine" where
  "emit_position cx e =
     (let (position, e) = heard_position cx e
      in case e_current e of
           None \<Rightarrow> e
         | Some p \<Rightarrow>
             let (t, e) = run_w (cx_now cx) e;
                 p = p\<lparr>p_last_position_at := t\<rparr>
             in case e_outgoing e of
                  Some og \<Rightarrow>
                    emit (PositionAt position (og_duration og))
                      (publish_status (e\<lparr>e_current := Some p,
                                         e_outgoing := Some (og\<lparr>og_position := position\<rparr>)\<rparr>))
                | None \<Rightarrow>
                    emit (PositionAt position (p_duration p))
                      (publish_status (e\<lparr>e_current := Some (p\<lparr>p_position := position\<rparr>)\<rparr>)))"

section \<open>The boundary between two joined tracks\<close>

definition check_crossing :: "'w ctx \<Rightarrow> 'w engine \<Rightarrow> 'w engine" where
  "check_crossing cx e =
     (case (e_outgoing e, e_current e, e_sink e) of
        (Some og, Some p, Some s) \<Rightarrow>
          let (queued, e) = queued_frames cx e
          in if p_frames_written p - queued < p_lead_in p then e
             else
               let e = e\<lparr>e_outgoing := None\<rparr>;
                   e = emit (PositionAt (og_end_position og) (og_duration og)) e;
                   e = emit (TrackEnded (og_meta og) Completed) e;
                   (ok, e) = run_w (sup_started (cx_supplier cx) (tm_track (p_meta p))) e
               in if \<not> ok then
                    request_load cx (LoadAdvance Adv_Next) (flush_sink cx (e\<lparr>e_current := None\<rparr>))
                  else
                    let e = publish_status e;
                        e = emit (TrackStarted (p_meta p) (p_spec p) True) e
                    in emit_position cx e
      | _ \<Rightarrow> e)"

section \<open>Closing, failing, stopping\<close>

definition close_output :: "'w ctx \<Rightarrow> 'w engine \<Rightarrow> 'w engine" where
  "close_output cx e =
     (let e = drop_sink cx e;
          e = e\<lparr>e_released := None\<rparr>;
          e = answer_waiting True e
      in do_w (cx_release cx (e_sinks e)) e)"

definition end_failed :: "'w engine \<Rightarrow> 'w engine" where
  "end_failed e =
     (let e = (case e_outgoing e of
                 Some og \<Rightarrow>
                   (emit (TrackEnded (og_meta og) Failed) (e\<lparr>e_outgoing := None\<rparr>))
                     \<lparr>e_current := None\<rparr>
               | None \<Rightarrow> e)
      in case e_current e of
           Some p \<Rightarrow> emit (TrackEnded (p_meta p) Failed) (e\<lparr>e_current := None\<rparr>)
         | None \<Rightarrow> e)"

definition fail :: "'w ctx \<Rightarrow> error \<Rightarrow> 'w engine \<Rightarrow> 'w engine" where
  "fail cx err e =
     (let e = emit (ErrorEvent (show_error err)) e;
          e = end_failed e;
          e = drop_next e;
          e = cancel_load e;
          e = e\<lparr>e_pause_when_ready := False\<rparr>;
          e = close_output cx e
      in set_state cx Stopped e)"

definition interrupt_current :: "'w ctx \<Rightarrow> 'w engine \<Rightarrow> 'w engine" where
  "interrupt_current cx e =
     (case e_outgoing e of
        Some og \<Rightarrow>
          let e = e\<lparr>e_outgoing := None, e_current := None\<rparr>;
              e = drop_next e;
              e = flush_sink cx e
          in emit (TrackEnded (og_meta og) Interrupted) e
      | None \<Rightarrow>
          (case e_current e of
             None \<Rightarrow> e
           | Some p \<Rightarrow>
               let e = e\<lparr>e_current := None\<rparr>;
                   e = flush_sink cx e
               in emit (TrackEnded (p_meta p) Interrupted) e))"

definition stop :: "'w ctx \<Rightarrow> 'w engine \<Rightarrow> 'w engine" where
  "stop cx e =
     (let e = interrupt_current cx e;
          e = drop_next e;
          e = cancel_load e;
          e = e\<lparr>e_pause_when_ready := False\<rparr>;
          e = close_output cx e
      in set_state cx Stopped e)"

section \<open>Handing the device back\<close>

definition pause :: "'w ctx \<Rightarrow> 'w engine \<Rightarrow> 'w engine" where
  "pause cx e =
     (case e_state e of
        Loading \<Rightarrow> e\<lparr>e_pause_when_ready := True\<rparr>
      | Seeking \<Rightarrow> e\<lparr>e_pause_when_ready := True\<rparr>
      | Playing \<Rightarrow>
          (case (e_current e, e_sink e) of
             (Some p, Some s) \<Rightarrow>
               let (r, e) = run_w (cx_pause cx s) e
               in (case r of
                     Some err \<Rightarrow> fail cx (with_context ''pausing the audio output'' err) e
                   | None \<Rightarrow>
                       emit_position cx
                         (set_state cx Paused (e\<lparr>e_current := Some (p\<lparr>p_sink_paused := True\<rparr>)\<rparr>)))
           | _ \<Rightarrow> emit_position cx (set_state cx Paused e))
      | Paused \<Rightarrow> e
      | Stopped \<Rightarrow> e)"

text \<open>What the device holds but the listener has not heard goes back into \<^verbatim>\<open>pending\<close>.\<close>

definition carry_over :: "bool \<Rightarrow> nat \<Rightarrow> playing \<Rightarrow> playing" where
  "carry_over joined queued p =
     (let channels = channels (p_spec p);
          keep = min (min queued (length (p_recent p) div channels)) (p_frames_written p);
          carried = drop (length (p_recent p) - keep * channels) (p_recent p)
                      @ drop (min (p_offset p) (length (p_pending p))) (p_pending p);
          heard = p_frames_written p - keep;
          p = p\<lparr>p_pending := carried, p_offset := 0\<rparr>;
          p = (if joined then p\<lparr>p_lead_in := p_lead_in p - heard\<rparr>
               else p\<lparr>p_base := p_base p
                        + frames_to_duration (heard - p_lead_in p) (sample_rate (p_spec p)),
                      p_lead_in := 0\<rparr>)
      in p\<lparr>p_frames_written := 0, p_recent := [], p_sink_paused := False,
           p_position := p_base p\<rparr>)"

definition set_aside_unheard :: "'w ctx \<Rightarrow> 'w engine \<Rightarrow> 'w engine" where
  "set_aside_unheard cx e =
     (let e = check_crossing cx e;
          joined = (e_outgoing e \<noteq> None)
      in case (e_current e, e_sink e) of
           (Some p, Some s) \<Rightarrow>
             let (queued, e) = queued_frames cx e
             in e\<lparr>e_current := Some (carry_over joined queued p)\<rparr>
         | _ \<Rightarrow> e)"

definition release_output :: "'w ctx \<Rightarrow> release \<Rightarrow> 'w engine \<Rightarrow> 'w engine" where
  "release_output cx request e =
     (if e_state e = Loading \<or> e_state e = Seeking then
        let earlier = e_release_when_ready e;
            e = e\<lparr>e_pause_when_ready := True, e_release_when_ready := Some request\<rparr>
        in case earlier of None \<Rightarrow> e | Some r \<Rightarrow> answer r False e
      else if e_state e = Stopped then answer request True e
      else if e_sink e = None then answer request True e
      else
        let e = pause cx e
        in if e_state e \<noteq> Paused then answer request True e
           else
             let e = drop_next e;
                 e = set_aside_unheard cx e;
                 e = drop_sink cx e;
                 e = do_w (cx_release cx (e_sinks e)) e;
                 e = e\<lparr>e_released := Some (rl_by request)\<rparr>;
                 e = publish_status e;
                 e = emit (OutputReleased (rl_by request) (rl_reason request)) e
             in answer request True e)"

definition output_lost :: "'w ctx \<Rightarrow> error \<Rightarrow> 'w engine \<Rightarrow> 'w engine" where
  "output_lost cx err e =
     (let e = drop_next e;
          e = emit (ErrorEvent (show_error err)) e;
          e = (if e_state e = Playing then set_state cx Paused e else e);
          e = set_aside_unheard cx e;
          e = drop_sink cx e;
          e = do_w (cx_release cx (e_sinks e)) e;
          e = e\<lparr>e_released := Some None\<rparr>;
          e = publish_status e;
          e = emit (OutputReleased None Lost) e;
          e = emit_position cx e
      in publish_status e)"

definition failed :: "'w ctx \<Rightarrow> error \<Rightarrow> 'w engine \<Rightarrow> 'w engine" where
  "failed cx err e =
     (if is_output_gone err \<and> e_current e \<noteq> None \<and> (e_state e = Playing \<or> e_state e = Paused)
      then output_lost cx err e else fail cx err e)"

section \<open>Starting a track\<close>

definition open_sink :: "'w ctx \<Rightarrow> source_spec \<Rightarrow> 'w engine \<Rightarrow> error option \<times> 'w engine" where
  "open_sink cx spec e =
     (let e = drop_sink cx e;
          (r, e) = run_w (cx_open cx (e_sinks e) spec) e
      in case r of
           Inl err \<Rightarrow> (Some (with_context ''opening the audio output'' err), e)
         | Inr s \<Rightarrow>
             let e = e\<lparr>e_sink := Some s\<rparr>
             in (None,
                 if e_released e \<noteq> None
                 then emit OutputAcquired (publish_status (e\<lparr>e_released := None\<rparr>))
                 else e))"

definition release_if_asked :: "'w ctx \<Rightarrow> 'w engine \<Rightarrow> 'w engine" where
  "release_if_asked cx e =
     (if e_state e = Paused then
        case e_release_when_ready e of
          None \<Rightarrow> e
        | Some request \<Rightarrow> release_output cx request (e\<lparr>e_release_when_ready := None\<rparr>)
      else e)"

definition sink_fits :: "source_spec \<Rightarrow> 'w engine \<Rightarrow> bool" where
  "sink_fits spec e = (case e_sink e of None \<Rightarrow> False | Some s \<Rightarrow> sk_spec s = spec)"

definition fresh_playing :: "prepared \<Rightarrow> instant \<Rightarrow> playing" where
  "fresh_playing track t =
     \<lparr>p_meta = pr_meta track, p_spec = source_spec_of (pr_source track),
      p_source = Some (pr_source track), p_seek = pr_seek track,
      p_pending = pr_first_chunk track, p_offset = 0, p_recent = [], p_sink_paused = False,
      p_frames_written = 0, p_base = pr_start track,
      p_duration = or_else (tm_duration (pr_meta track)) (source_duration (pr_source track)),
      p_position = pr_start track, p_last_position_at = t, p_lead_in = 0, p_source_done = False\<rparr>"

definition start_track :: "'w ctx \<Rightarrow> prepared \<Rightarrow> 'w engine \<Rightarrow> error option \<times> 'w engine" where
  "start_track cx track e =
     (let e = e\<lparr>e_waiting_until := None, e_polling := False\<rparr>;
          spec = source_spec_of (pr_source track);
          (r, e) = (if sink_fits spec e then (None, e) else open_sink cx spec e)
      in case r of
           Some err \<Rightarrow> (Some err, emit (TrackEnded (pr_meta track) Failed) e)
         | None \<Rightarrow>
             let (t, e) = run_w (cx_now cx) e;
                 e = e\<lparr>e_current := Some (fresh_playing track t)\<rparr>;
                 e = emit (TrackStarted (pr_meta track) spec False) e;
                 s = (if e_pause_when_ready e then Paused else Playing);
                 e = e\<lparr>e_pause_when_ready := False\<rparr>;
                 e = set_state cx s e;
                 e = emit_position cx e
             in (None, release_if_asked cx e))"

definition start_opened_ahead :: "'w ctx \<Rightarrow> prepared \<Rightarrow> 'w engine \<Rightarrow> 'w engine" where
  "start_opened_ahead cx track e =
     (let (ok, e) = run_w (sup_started (cx_supplier cx) (tm_track (pr_meta track))) e
      in if \<not> ok then request_load cx (LoadAdvance Adv_Next) e
         else let (r, e) = start_track cx track e
              in case r of None \<Rightarrow> e | Some err \<Rightarrow> fail cx err e)"

section \<open>The end of a track\<close>

definition finish_track_completed :: "'w ctx \<Rightarrow> 'w engine \<Rightarrow> bool \<times> 'w engine" where
  "finish_track_completed cx e =
     (let (r, e) = (case e_sink e of
                      None \<Rightarrow> (None, e)
                    | Some s \<Rightarrow> run_w (cx_drain cx s) e)
      in case r of
           Some err \<Rightarrow> (False, failed cx (with_context ''draining the audio output'' err) e)
         | None \<Rightarrow>
             let e = emit_position cx e
             in (True,
                 case e_current e of
                   None \<Rightarrow> e
                 | Some p \<Rightarrow> emit (TrackEnded (p_meta p) Completed) (e\<lparr>e_current := None\<rparr>)))"

definition track_completed :: "'w ctx \<Rightarrow> 'w engine \<Rightarrow> 'w engine" where
  "track_completed cx e =
     (let (ok, e) = finish_track_completed cx e
      in if ok then request_load cx (LoadAdvance Adv_Auto) e else e)"

text \<open>
  The two halves of a join: what is kept of the track that plays out, and the track written behind
  it, which goes on counting the same frames.
\<close>

definition joined_outgoing :: "playing \<Rightarrow> outgoing" where
  "joined_outgoing previous =
     \<lparr>og_meta = p_meta previous, og_spec = p_spec previous, og_duration = p_duration previous,
      og_end_position = p_base previous
        + frames_to_duration (p_frames_written previous - p_lead_in previous)
            (sample_rate (p_spec previous)),
      og_position = p_position previous\<rparr>"

definition joined_playing :: "prepared \<Rightarrow> playing \<Rightarrow> playing" where
  "joined_playing track previous =
     \<lparr>p_meta = pr_meta track, p_spec = p_spec previous, p_source = Some (pr_source track),
      p_seek = pr_seek track, p_pending = pr_first_chunk track, p_offset = 0,
      p_recent = p_recent previous, p_sink_paused = p_sink_paused previous,
      p_frames_written = p_frames_written previous, p_base = pr_start track,
      p_duration = or_else (tm_duration (pr_meta track)) (source_duration (pr_source track)),
      p_position = pr_start track, p_last_position_at = p_last_position_at previous,
      p_lead_in = p_frames_written previous, p_source_done = False\<rparr>"

definition handover :: "'w ctx \<Rightarrow> prepared \<Rightarrow> 'w engine \<Rightarrow> 'w engine" where
  "handover cx track e =
     (case e_current e of
        None \<Rightarrow> e
      | Some previous \<Rightarrow>
          check_crossing cx
            (e\<lparr>e_outgoing := Some (joined_outgoing previous),
               e_current := Some (joined_playing track previous)\<rparr>))"

definition join_next :: "'w ctx \<Rightarrow> 'w engine \<Rightarrow> 'w engine" where
  "join_next cx e =
     (case e_next e of
        Some nx \<Rightarrow>
          (case nx_phase nx of
             Ready track \<Rightarrow>
               let e = e\<lparr>e_next := None, e_waiting_until := None\<rparr>
               in if sink_fits (source_spec_of (pr_source track)) e then handover cx track e
                  else let (ok, e) = finish_track_completed cx e
                       in if ok then start_opened_ahead cx track e else e
           | _ \<Rightarrow> e\<lparr>e_next := None\<rparr>)
      | None \<Rightarrow> e)"

definition wait_for_next :: "'w ctx \<Rightarrow> 'w engine \<Rightarrow> 'w engine" where
  "wait_for_next cx e =
     (let (deadline, e) =
            (case e_waiting_until e of
               Some d \<Rightarrow> (d, e)
             | None \<Rightarrow>
                 let (queued, e) = queued_frames cx e;
                     rate = (case e_current e of None \<Rightarrow> 1 | Some p \<Rightarrow> sample_rate (p_spec p));
                     (t, e) = run_w (cx_now cx) e;
                     d = t + (frames_to_duration queued rate - wait_margin)
                 in (d, e\<lparr>e_waiting_until := Some d\<rparr>));
          (t, e) = run_w (cx_now cx) e
      in if t < deadline then e\<lparr>e_polling := True\<rparr>
         else
           let (ok, e) = finish_track_completed cx (e\<lparr>e_waiting_until := None\<rparr>)
           in if ok then set_state cx Loading (e\<lparr>e_adopting := True\<rparr>) else e)"

definition end_of_source :: "'w ctx \<Rightarrow> 'w engine \<Rightarrow> 'w engine" where
  "end_of_source cx e =
     (case sup_peek (cx_supplier cx) Adv_Auto (e_world e) of
        Peek_Next wanted \<Rightarrow>
          let e = (case e_next e of
                     Some nx \<Rightarrow> if nx_track nx \<noteq> wanted then drop_next e else e
                   | None \<Rightarrow> e);
              e = (if e_next e = None then start_prefetch wanted e else e)
          in (case map_option nx_phase (e_next e) of
                Some (Ready _) \<Rightarrow> join_next cx e
              | Some Opening \<Rightarrow> wait_for_next cx e
              | _ \<Rightarrow> track_completed cx (drop_next e))
      | _ \<Rightarrow> track_completed cx (drop_next e))"

definition source_finished :: "'w ctx \<Rightarrow> 'w engine \<Rightarrow> 'w engine" where
  "source_finished cx e =
     (if e_outgoing e \<noteq> None then e\<lparr>e_polling := True\<rparr>
      else if cx_gapless cx then end_of_source cx e
      else track_completed cx e)"

definition maybe_prefetch :: "'w ctx \<Rightarrow> 'w engine \<Rightarrow> 'w engine" where
  "maybe_prefetch cx e =
     (if \<not> cx_gapless cx \<or> e_state e \<noteq> Playing \<or> e_outgoing e \<noteq> None then e
      else case e_current e of
             None \<Rightarrow> e
           | Some p \<Rightarrow>
               let peeked = sup_peek (cx_supplier cx) Adv_Auto (e_world e);
                   remaining = map_option (\<lambda>d. d - (p_base p + frames_to_duration
                                  (p_frames_written p - p_lead_in p) (sample_rate (p_spec p))))
                                (p_duration p);
                   start = (\<lambda>e. case (peeked, remaining) of
                                  (Peek_Next track, Some r) \<Rightarrow>
                                    if r \<le> prefetch_lead then start_prefetch track e else e
                                | _ \<Rightarrow> e)
               in case e_next e of
                    None \<Rightarrow> start e
                  | Some nx \<Rightarrow>
                      if peeked \<noteq> Peek_Next (nx_track nx)
                         \<or> (case remaining of Some r \<Rightarrow> r > prefetch_lead * 3 div 2 | None \<Rightarrow> False)
                      then start (drop_next e) else e)"

definition take_ready_next :: "'w ctx \<Rightarrow> advance \<Rightarrow> 'w engine \<Rightarrow> prepared option \<times> 'w engine" where
  "take_ready_next cx how e =
     (if \<not> cx_gapless cx \<or> e_outgoing e \<noteq> None then (None, e)
      else case e_next e of
             None \<Rightarrow> (None, e)
           | Some nx \<Rightarrow>
               (case nx_phase nx of
                  Ready track \<Rightarrow>
                    if sup_peek (cx_supplier cx) how (e_world e) \<noteq> Peek_Next (nx_track nx)
                    then (None, e) else (Some track, e\<lparr>e_next := None\<rparr>)
                | _ \<Rightarrow> (None, e)))"

definition prefetched :: "'w ctx \<Rightarrow> nat \<Rightarrow> string + prepared \<Rightarrow> 'w engine \<Rightarrow> 'w engine" where
  "prefetched cx generation result e =
     (case e_next e of
        None \<Rightarrow> e
      | Some nx \<Rightarrow>
          if nx_generation nx \<noteq> generation then e
          else case result of
                 Inr track \<Rightarrow>
                   if e_adopting e then
                     start_opened_ahead cx track (e\<lparr>e_next := None, e_adopting := False\<rparr>)
                   else e\<lparr>e_next := Some (nx\<lparr>nx_phase := Ready track\<rparr>)\<rparr>
               | Inl _ \<Rightarrow>
                   if e_adopting e then
                     request_load cx (LoadAdvance Adv_Auto) (e\<lparr>e_next := None, e_adopting := False\<rparr>)
                   else e\<lparr>e_next := Some (nx\<lparr>nx_phase := PrefetchFailed\<rparr>)\<rparr>)"

section \<open>Seeking\<close>

definition reject_seek :: "string \<Rightarrow> 'w engine \<Rightarrow> 'w engine" where
  "reject_seek reason e = emit (SeekRejected reason) e"

fun seek_to :: "seek_target \<Rightarrow> duration \<Rightarrow> duration" where
  "seek_to (Absolute at0) from = at0"
| "seek_to (Forward by) from = saturating_add from by"
| "seek_to (Backward by) from = from - by"

definition rebased :: "duration \<Rightarrow> playing \<Rightarrow> playing" where
  "rebased position p =
     p\<lparr>p_base := position, p_frames_written := 0, p_pending := [], p_offset := 0, p_recent := [],
       p_position := position, p_lead_in := 0, p_source_done := False, p_sink_paused := False\<rparr>"

definition rebase :: "duration \<Rightarrow> 'w engine \<Rightarrow> 'w engine" where
  "rebase position e =
     e\<lparr>e_waiting_until := None, e_current := map_option (rebased position) (e_current e)\<rparr>"

definition finish_reposition :: "'w ctx \<Rightarrow> duration \<Rightarrow> 'w engine \<Rightarrow> 'w engine" where
  "finish_reposition cx position e =
     emit_position cx (emit (Seeked position) (rebase position e))"

definition seek_past_the_end :: "'w ctx \<Rightarrow> 'w engine \<Rightarrow> 'w engine" where
  "seek_past_the_end cx e =
     (let (ready, e) = take_ready_next cx Adv_Auto e;
          e = flush_sink cx e;
          e = (case e_current e of
                 None \<Rightarrow> e
               | Some p \<Rightarrow> emit (TrackEnded (p_meta p) Completed) (e\<lparr>e_current := None\<rparr>))
      in case ready of
           Some track \<Rightarrow> start_opened_ahead cx track e
         | None \<Rightarrow> request_load cx (LoadAdvance Adv_Auto) e)"

definition seek_in_place :: "'w ctx \<Rightarrow> duration \<Rightarrow> 'w engine \<Rightarrow> 'w engine" where
  "seek_in_place cx at0 e =
     (let e = flush_sink cx e
      in case e_current e of
           None \<Rightarrow> e
         | Some p \<Rightarrow>
             (case p_source p of
                None \<Rightarrow> e
              | Some src \<Rightarrow>
                  let (r, src) = source_seek (cx_format_seek cx) at0 src;
                      e = e\<lparr>e_current := Some (p\<lparr>p_source := Some src\<rparr>)\<rparr>
                  in case r of
                       Inr landed \<Rightarrow> finish_reposition cx landed e
                     | Inl err \<Rightarrow> fail cx (with_context ''seeking in the track'' err) e))"

definition seek_forward_only :: "'w ctx \<Rightarrow> duration \<Rightarrow> 'w engine \<Rightarrow> 'w engine" where
  "seek_forward_only cx at0 e =
     (case e_current e of
        None \<Rightarrow> e
      | Some p \<Rightarrow>
          let queued_in_chunk = (length (p_pending p) - p_offset p) div channels (p_spec p);
              decoded = p_frames_written p + queued_in_chunk;
              decoded_until = p_base p + frames_to_duration decoded (sample_rate (p_spec p))
          in if at0 < decoded_until then
               reject_seek ''this stream can only seek forward, past what is already buffered'' e
             else
               let skip = duration_to_frames (at0 - decoded_until) (sample_rate (p_spec p));
                   e = flush_sink cx e;
                   e = e\<lparr>e_current := Some (p\<lparr>p_source := map_option (source_skip_frames skip)
                                                          (p_source p)\<rparr>)\<rparr>
               in finish_reposition cx at0 e)"

definition seek_reopen :: "'w ctx \<Rightarrow> duration \<Rightarrow> bool \<Rightarrow> 'w engine \<Rightarrow> 'w engine" where
  "seek_reopen cx at0 was_paused e =
     (let e = flush_sink cx e
      in case e_current e of
           None \<Rightarrow> e
         | Some p \<Rightarrow>
             let e = e\<lparr>e_current := Some (p\<lparr>p_source := None\<rparr>)\<rparr>;
                 e = rebase at0 e;
                 e = begin_load cx (LoadTrack (tm_track (p_meta p))) at0 Seeking was_paused e;
                 e = emit (Seeked at0) e
             in emit_position cx e)"

definition seek_during_handover :: "'w ctx \<Rightarrow> seek_target \<Rightarrow> 'w engine \<Rightarrow> 'w engine" where
  "seek_during_handover cx target e =
     (let (from, e) = heard_position cx e;
          at0 = seek_to target from;
          was_paused = (e_state e = Paused)
      in case e_outgoing e of
           None \<Rightarrow> e
         | Some og \<Rightarrow>
             let e = e\<lparr>e_outgoing := None, e_current := None\<rparr>;
                 e = drop_next e
             in if (case og_duration og of Some d \<Rightarrow> d \<le> at0 | None \<Rightarrow> False) then
                  let e = flush_sink cx e;
                      e = emit (TrackEnded (og_meta og) Completed) e
                  in request_load cx (LoadAdvance Adv_Auto) e
                else
                  let (t, e) = run_w (cx_now cx) e;
                      e = e\<lparr>e_current := Some
                             \<lparr>p_meta = og_meta og, p_spec = og_spec og, p_source = None,
                              p_seek = Reopen, p_pending = [], p_offset = 0, p_recent = [],
                              p_sink_paused = False, p_frames_written = 0, p_base = at0,
                              p_duration = og_duration og, p_position = at0,
                              p_last_position_at = t, p_lead_in = 0, p_source_done = False\<rparr>\<rparr>
                  in seek_reopen cx at0 was_paused e)"

definition seek :: "'w ctx \<Rightarrow> seek_target \<Rightarrow> 'w engine \<Rightarrow> 'w engine" where
  "seek cx target e =
     (if e_outgoing e \<noteq> None then seek_during_handover cx target e
      else case e_current e of
             None \<Rightarrow> reject_seek ''nothing is playing'' e
           | Some p \<Rightarrow>
               if e_state e \<notin> {Playing, Paused, Seeking} then reject_seek ''nothing is playing'' e
               else
                 let (from, e) = heard_position cx e;
                     at0 = seek_to target from
                 in if p_seek p = NoSeek then reject_seek (''this track can'' @ [CHR 0x27] @ ''t be seeked'') e
                    else if (case p_duration p of Some d \<Rightarrow> d \<le> at0 | None \<Rightarrow> False)
                         then seek_past_the_end cx e
                    else case p_seek p of
                           InPlace \<Rightarrow> seek_in_place cx at0 e
                         | ForwardOnly \<Rightarrow> seek_forward_only cx at0 e
                         | Reopen \<Rightarrow>
                             seek_reopen cx at0
                               (e_state e = Paused \<or> e_state e = Seeking \<and> e_pause_when_ready e) e
                         | NoSeek \<Rightarrow> e)"

definition finish_seek :: "'w ctx \<Rightarrow> prepared \<Rightarrow> 'w engine \<Rightarrow> error option \<times> 'w engine" where
  "finish_seek cx track e =
     (case e_current e of
        None \<Rightarrow> (None, e)
      | Some p \<Rightarrow>
          if source_spec_of (pr_source track) \<noteq> p_spec p then
            (Some (mk_error (Message
               ''the reopened track has a different format than the one that was playing'')), e)
          else
            let start = pr_start track;
                (src, landed) =
                  (if start \<le> p_base p then
                     (source_skip_frames
                        (duration_to_frames (p_base p - start) (sample_rate (p_spec p)))
                        (pr_source track), p_base p)
                   else (pr_source track, start));
                e = e\<lparr>e_current := Some (p\<lparr>p_source := Some src, p_seek := pr_seek track,
                                            p_base := landed, p_position := landed\<rparr>)\<rparr>;
                s = (if e_pause_when_ready e then Paused else Playing);
                e = e\<lparr>e_pause_when_ready := False\<rparr>;
                e = set_state cx s e;
                e = emit_position cx e
            in (None, release_if_asked cx e))"

section \<open>Pausing and resuming; switching outputs\<close>

definition reopen_output :: "'w ctx \<Rightarrow> 'w engine \<Rightarrow> error option \<times> 'w engine" where
  "reopen_output cx e =
     (case e_current e of
        Some p \<Rightarrow> if e_sink e = None then open_sink cx (p_spec p) e else (None, e)
      | None \<Rightarrow> (None, e))"

definition resume :: "'w ctx \<Rightarrow> 'w engine \<Rightarrow> 'w engine" where
  "resume cx e =
     (case e_state e of
        Loading \<Rightarrow> e\<lparr>e_pause_when_ready := False\<rparr>
      | Seeking \<Rightarrow> e\<lparr>e_pause_when_ready := False\<rparr>
      | Paused \<Rightarrow>
          let (r, e) = reopen_output cx e
          in (case r of
                Some err \<Rightarrow> emit (ErrorEvent (show_error err)) e
              | None \<Rightarrow>
                  (case (e_current e, e_sink e) of
                     (Some p, Some s) \<Rightarrow>
                       if p_sink_paused p then
                         let (r, e) = run_w (cx_resume cx s) e
                         in case r of
                              Some err \<Rightarrow> fail cx (with_context ''resuming the audio output'' err) e
                            | None \<Rightarrow>
                                set_state cx Playing
                                  (e\<lparr>e_current := Some (p\<lparr>p_sink_paused := False\<rparr>)\<rparr>)
                       else set_state cx Playing e
                   | _ \<Rightarrow> set_state cx Playing e))
      | Playing \<Rightarrow> e
      | Stopped \<Rightarrow> e)"

definition replace_sinks :: "'w ctx \<Rightarrow> sink_factory \<Rightarrow> 'w engine \<Rightarrow> 'w engine" where
  "replace_sinks cx sinks e =
     (let e = do_w (cx_release cx (e_sinks e)) e;
          e = do_w (cx_on_release_request cx sinks) e
      in e\<lparr>e_sinks := sinks\<rparr>)"

definition switched :: "nat \<Rightarrow> string option \<Rightarrow> 'w engine \<Rightarrow> 'w engine" where
  "switched chan result e = e\<lparr>e_switched := e_switched e @ [(chan, result)]\<rparr>"

text \<open>The part of \<^verbatim>\<open>set_output\<close> that every path but a failing pause goes through.\<close>

definition move_output :: "'w ctx \<Rightarrow> sink_factory \<Rightarrow> nat \<Rightarrow> bool \<Rightarrow> 'w engine \<Rightarrow> 'w engine" where
  "move_output cx sinks chan was_playing e =
     (let e = drop_sink cx e;
          e = e\<lparr>e_released := None\<rparr>;
          e = answer_waiting True e;
          e = replace_sinks cx sinks e;
          e = publish_status e
      in if was_playing \<and> e_state e = Paused then
           let (r, e) = reopen_output cx e
           in case r of
                None \<Rightarrow> switched chan None (resume cx e)
              | Some err \<Rightarrow>
                  switched chan (Some (show_error err)) (emit (ErrorEvent (show_error err)) e)
         else switched chan None e)"

definition set_output :: "'w ctx \<Rightarrow> sink_factory \<Rightarrow> nat \<Rightarrow> 'w engine \<Rightarrow> 'w engine" where
  "set_output cx sinks chan e =
     (let e = drop_next e;
          was_playing = (e_state e = Playing)
      in if (e_state e = Playing \<or> e_state e = Paused) \<and> e_sink e \<noteq> None then
           let e = pause cx e
           in if e_state e \<noteq> Paused then switched chan None (replace_sinks cx sinks e)
              else move_output cx sinks chan was_playing (set_aside_unheard cx e)
         else move_output cx sinks chan was_playing e)"

section \<open>Writing\<close>

text \<open>The bookkeeping after the sink took \<open>frames\<close> frames.\<close>

definition wrote :: "nat \<Rightarrow> nat \<Rightarrow> playing \<Rightarrow> playing" where
  "wrote capacity frames p =
     (let channels = channels (p_spec p);
          written_to = p_offset p + frames * channels;
          recent = p_recent p @ drop (p_offset p) (take written_to (p_pending p));
          keep = capacity * channels
      in p\<lparr>p_recent := (if frames > 0 then
                          if length recent > keep * 2 then drop (length recent - keep) recent
                          else recent
                        else p_recent p),
           p_offset := (if frames = 0 then length (p_pending p) else written_to),
           p_frames_written := p_frames_written p + frames\<rparr>)"

text \<open>The samples of the next write, and the gain they are played with.\<close>

definition next_write :: "outgoing option \<Rightarrow> playing \<Rightarrow> sample list \<times> real" where
  "next_write og p =
     (let chunk = drop (p_offset p) (p_pending p)
      in case og of
           Some o' \<Rightarrow>
             if p_frames_written p < p_lead_in p then
               (take ((p_lead_in p - p_frames_written p) * channels (p_spec p)) chunk,
                meta_gain_linear (og_meta o'))
             else (chunk, meta_gain_linear (p_meta p))
         | None \<Rightarrow> (chunk, meta_gain_linear (p_meta p)))"

definition write_chunk :: "'w ctx \<Rightarrow> sink \<Rightarrow> playing \<Rightarrow> 'w engine \<Rightarrow> error option \<times> 'w engine" where
  "write_chunk cx s p e =
     (let (chunk, gain) = next_write (e_outgoing e) p;
          e = do_w (cx_set_gain cx s gain) e;
          (r, e) = run_w (cx_write cx s chunk) e
      in case r of
           Inl err \<Rightarrow> (Some err, e\<lparr>e_current := Some p\<rparr>)
         | Inr frames \<Rightarrow>
             let p = wrote (sk_capacity s) frames p;
                 e = e\<lparr>e_current := Some p\<rparr>;
                 (t, e) = run_w (cx_now cx) e
             in (None,
                 if cx_position_interval cx \<le> t - p_last_position_at p
                 then maybe_prefetch cx (emit_position cx e) else e))"

definition play_step :: "'w ctx \<Rightarrow> 'w engine \<Rightarrow> error option \<times> 'w engine" where
  "play_step cx e =
     (let e = e\<lparr>e_polling := False\<rparr>;
          e = check_crossing cx e
      in case e_current e of
           None \<Rightarrow> (None, e)
         | Some p \<Rightarrow>
             if p_source_done p then (None, source_finished cx e)
             else case e_sink e of
                    None \<Rightarrow> (Some (mk_error (Message ''playing without an audio output'')), e)
                  | Some s \<Rightarrow>
                      (case p_source p of
                         None \<Rightarrow> (Some (mk_error (Message ''playing without a source'')), e)
                       | Some src \<Rightarrow>
                           if length (p_pending p) \<le> p_offset p then
                             (case source_next_chunk src of
                                (Inl err, src) \<Rightarrow>
                                  (Some err, e\<lparr>e_current := Some (p\<lparr>p_source := Some src\<rparr>)\<rparr>)
                              | (Inr None, src) \<Rightarrow>
                                  (None, source_finished cx
                                     (e\<lparr>e_current := Some (p\<lparr>p_source := Some src,
                                                             p_source_done := True\<rparr>)\<rparr>))
                              | (Inr (Some chunk), src) \<Rightarrow>
                                  write_chunk cx s (p\<lparr>p_source := Some src, p_pending := chunk,
                                                      p_offset := 0\<rparr>) e)
                           else write_chunk cx s p e))"

section \<open>Commands and messages\<close>

definition is_awaited :: "nat \<Rightarrow> 'w engine \<Rightarrow> bool" where
  "is_awaited generation e \<longleftrightarrow>
     (e_state e = Loading \<or> e_state e = Seeking) \<and> generation = e_generation e"

fun command :: "'w ctx \<Rightarrow> command \<Rightarrow> 'w engine \<Rightarrow> 'w engine" where
  "command cx (Play (Some track)) e =
     request_load cx (LoadTrack track) (interrupt_current cx e)"
| "command cx (Play None) e =
     (if e_state e = Stopped then request_load cx (LoadAdvance Adv_Auto) e else e)"
| "command cx Next e =
     (let (ready, e) = take_ready_next cx Adv_Next e;
          e = interrupt_current cx e
      in case ready of
           Some track \<Rightarrow> start_opened_ahead cx track e
         | None \<Rightarrow> request_load cx (LoadAdvance Adv_Next) e)"
| "command cx Previous e =
     (let (position, e) = heard_position cx e;
          e = interrupt_current cx e
      in request_load cx
           (LoadAdvance (if previous_restart_after \<le> position then Adv_Restart else Adv_Previous)) e)"
| "command cx Stop e = stop cx e"
| "command cx Pause e = pause cx e"
| "command cx Resume e = resume cx e"
| "command cx TogglePause e =
     (if e_state e \<in> {Playing, Loading, Seeking} \<and> \<not> e_pause_when_ready e
      then pause cx e else resume cx e)"
| "command cx (Seek target) e = seek cx target e"
| "command cx ReleaseCmd e =
     release_output cx \<lparr>rl_reason = ByCommand, rl_by = None, rl_done = None\<rparr> e"

text \<open>\<^verbatim>\<open>handle\<close>: \<open>False\<close> when the thread should exit.\<close>

fun handle :: "'w ctx \<Rightarrow> msg \<Rightarrow> 'w engine \<Rightarrow> bool \<times> 'w engine" where
  "handle cx (MsgCommand c) e = (True, command cx c e)"
| "handle cx (MsgReleaseRequested by chan) e =
     (True, release_output cx \<lparr>rl_reason = Requested, rl_by = by, rl_done = Some chan\<rparr> e)"
| "handle cx (MsgLoaded generation track) e =
     (True,
      if is_awaited generation e then
        let (r, e) = (if e_state e = Seeking then finish_seek cx track e
                      else start_track cx track e)
        in case r of None \<Rightarrow> e | Some err \<Rightarrow> fail cx err e
      else e)"
| "handle cx (MsgLoadFailed generation err) e =
     (True, if is_awaited generation e then fail cx (mk_error (Message err)) e else e)"
| "handle cx (MsgQueueExhausted generation) e =
     (True, if is_awaited generation e then stop cx (emit QueueExhausted e) else e)"
| "handle cx (MsgPrefetched generation result) e = (True, prefetched cx generation result e)"
| "handle cx (MsgSetOutput sinks chan) e = (True, set_output cx sinks chan e)"
| "handle cx MsgShutdown e = (False, stop cx e)"

definition idle_deadline :: "'w ctx \<Rightarrow> 'w engine \<Rightarrow> instant option" where
  "idle_deadline cx e =
     (if e_state e \<noteq> Paused \<or> e_sink e = None then None
      else Option.bind (e_paused_at e) (\<lambda>t. map_option (\<lambda>d. t + d) (cx_release_after_pause cx)))"

section \<open>The loop\<close>

text \<open>
  One round of \<^verbatim>\<open>run\<close>. Between rounds the world moves on its own (\<open>Outside\<close>): time passes, the
  device plays, other threads use the queue. Which message arrives, and whether one arrives
  before a timeout, is up to the outside too.
\<close>

definition play_round :: "'w ctx \<Rightarrow> 'w engine \<Rightarrow> 'w engine" where
  "play_round cx e =
     (let (r, e) = play_step cx e in case r of None \<Rightarrow> e | Some err \<Rightarrow> failed cx err e)"

definition idle_release :: "'w ctx \<Rightarrow> 'w engine \<Rightarrow> 'w engine" where
  "idle_release cx e = release_output cx \<lparr>rl_reason = Idle, rl_by = None, rl_done = None\<rparr> e"

text \<open>
  A load task that was spawned answers at most once: the state of the whole is the engine with the set of load
  tasks that have answered. What is modelled of the channel is that answers may come late, in
  any order, interleaved with anything; an abandoned task may still answer.
\<close>

fun answers_load :: "msg \<Rightarrow> nat option" where
  "answers_load (MsgLoaded g _) = Some g"
| "answers_load (MsgLoadFailed g _) = Some g"
| "answers_load (MsgQueueExhausted g) = Some g"
| "answers_load _ = None"

inductive loop_step :: "'w ctx \<Rightarrow> 'w engine \<times> nat set \<Rightarrow> 'w engine \<times> nat set \<Rightarrow> bool" for cx where
  Outside: "loop_step cx (e, answered) (e\<lparr>e_world := w\<rparr>, answered)"
| Told: "answers_load m = None \<Longrightarrow> handle cx m e = (True, e') \<Longrightarrow>
    loop_step cx (e, answered) (e', answered)"
| Answered: "answers_load m = Some g \<Longrightarrow> g \<notin> answered \<Longrightarrow> LoadTask g target at0 \<in> set (e_tasks e) \<Longrightarrow>
    handle cx m e = (True, e') \<Longrightarrow> loop_step cx (e, answered) (e', insert g answered)"
| PlayRound: "e_state e = Playing \<Longrightarrow> loop_step cx (e, answered) (play_round cx e, answered)"
| IdleTimeout: "idle_deadline cx e = Some t \<Longrightarrow>
    loop_step cx (e, answered) (idle_release cx e, answered)"
| Exit: "handle cx m e = (False, e') \<Longrightarrow> loop_step cx (e, answered) (stop cx e', answered)"
| Disconnected: "loop_step cx (e, answered) (stop cx e, answered)"

inductive reachable :: "'w ctx \<Rightarrow> 'w engine \<times> nat set \<Rightarrow> bool" for cx where
  Start: "reachable cx (new_engine sinks w, {})"
| Step: "reachable cx s \<Longrightarrow> loop_step cx s s' \<Longrightarrow> reachable cx s'"

inductive_cases loop_stepE: "loop_step cx (e, answered) s'"

end
