(* ===== verification/Engine_Frame.thy ===== *)
theory Engine_Frame
  imports Audio_Thread
begin

text \<open>
  What the primitive steps of the audio thread leave alone: for each of them, the fields it does
  not touch. These are simplification rules; the invariant proofs only look at what changes.
\<close>

lemma run_w_frame [simp]:
  "e_state (snd (run_w f e)) = e_state e"
  "e_generation (snd (run_w f e)) = e_generation e"
  "e_load_task (snd (run_w f e)) = e_load_task e"
  "e_pause_when_ready (snd (run_w f e)) = e_pause_when_ready e"
  "e_sink (snd (run_w f e)) = e_sink e"
  "e_released (snd (run_w f e)) = e_released e"
  "e_release_when_ready (snd (run_w f e)) = e_release_when_ready e"
  "e_paused_at (snd (run_w f e)) = e_paused_at e"
  "e_current (snd (run_w f e)) = e_current e"
  "e_outgoing (snd (run_w f e)) = e_outgoing e"
  "e_next (snd (run_w f e)) = e_next e"
  "e_prefetch_generation (snd (run_w f e)) = e_prefetch_generation e"
  "e_waiting_until (snd (run_w f e)) = e_waiting_until e"
  "e_adopting (snd (run_w f e)) = e_adopting e"
  "e_polling (snd (run_w f e)) = e_polling e"
  "e_sinks (snd (run_w f e)) = e_sinks e"
  "e_status (snd (run_w f e)) = e_status e"
  "e_events (snd (run_w f e)) = e_events e"
  "e_answers (snd (run_w f e)) = e_answers e"
  "e_switched (snd (run_w f e)) = e_switched e"
  "e_tasks (snd (run_w f e)) = e_tasks e"
  by (simp_all add: run_w_def)

lemma do_w_frame [simp]:
  "e_state (do_w f e) = e_state e"
  "e_generation (do_w f e) = e_generation e"
  "e_load_task (do_w f e) = e_load_task e"
  "e_pause_when_ready (do_w f e) = e_pause_when_ready e"
  "e_sink (do_w f e) = e_sink e"
  "e_released (do_w f e) = e_released e"
  "e_release_when_ready (do_w f e) = e_release_when_ready e"
  "e_paused_at (do_w f e) = e_paused_at e"
  "e_current (do_w f e) = e_current e"
  "e_outgoing (do_w f e) = e_outgoing e"
  "e_next (do_w f e) = e_next e"
  "e_prefetch_generation (do_w f e) = e_prefetch_generation e"
  "e_waiting_until (do_w f e) = e_waiting_until e"
  "e_adopting (do_w f e) = e_adopting e"
  "e_polling (do_w f e) = e_polling e"
  "e_sinks (do_w f e) = e_sinks e"
  "e_status (do_w f e) = e_status e"
  "e_events (do_w f e) = e_events e"
  "e_answers (do_w f e) = e_answers e"
  "e_switched (do_w f e) = e_switched e"
  "e_tasks (do_w f e) = e_tasks e"
  by (simp_all add: do_w_def)

lemma queued_frames_frame [simp]:
  "e_state (snd (queued_frames cx e)) = e_state e"
  "e_generation (snd (queued_frames cx e)) = e_generation e"
  "e_load_task (snd (queued_frames cx e)) = e_load_task e"
  "e_pause_when_ready (snd (queued_frames cx e)) = e_pause_when_ready e"
  "e_sink (snd (queued_frames cx e)) = e_sink e"
  "e_released (snd (queued_frames cx e)) = e_released e"
  "e_release_when_ready (snd (queued_frames cx e)) = e_release_when_ready e"
  "e_paused_at (snd (queued_frames cx e)) = e_paused_at e"
  "e_current (snd (queued_frames cx e)) = e_current e"
  "e_outgoing (snd (queued_frames cx e)) = e_outgoing e"
  "e_next (snd (queued_frames cx e)) = e_next e"
  "e_prefetch_generation (snd (queued_frames cx e)) = e_prefetch_generation e"
  "e_waiting_until (snd (queued_frames cx e)) = e_waiting_until e"
  "e_adopting (snd (queued_frames cx e)) = e_adopting e"
  "e_polling (snd (queued_frames cx e)) = e_polling e"
  "e_sinks (snd (queued_frames cx e)) = e_sinks e"
  "e_status (snd (queued_frames cx e)) = e_status e"
  "e_events (snd (queued_frames cx e)) = e_events e"
  "e_answers (snd (queued_frames cx e)) = e_answers e"
  "e_switched (snd (queued_frames cx e)) = e_switched e"
  "e_tasks (snd (queued_frames cx e)) = e_tasks e"
  by (simp_all add: queued_frames_def Let_def split_def split: option.split)

lemma heard_position_frame [simp]:
  "e_state (snd (heard_position cx e)) = e_state e"
  "e_generation (snd (heard_position cx e)) = e_generation e"
  "e_load_task (snd (heard_position cx e)) = e_load_task e"
  "e_pause_when_ready (snd (heard_position cx e)) = e_pause_when_ready e"
  "e_sink (snd (heard_position cx e)) = e_sink e"
  "e_released (snd (heard_position cx e)) = e_released e"
  "e_release_when_ready (snd (heard_position cx e)) = e_release_when_ready e"
  "e_paused_at (snd (heard_position cx e)) = e_paused_at e"
  "e_current (snd (heard_position cx e)) = e_current e"
  "e_outgoing (snd (heard_position cx e)) = e_outgoing e"
  "e_next (snd (heard_position cx e)) = e_next e"
  "e_prefetch_generation (snd (heard_position cx e)) = e_prefetch_generation e"
  "e_waiting_until (snd (heard_position cx e)) = e_waiting_until e"
  "e_adopting (snd (heard_position cx e)) = e_adopting e"
  "e_polling (snd (heard_position cx e)) = e_polling e"
  "e_sinks (snd (heard_position cx e)) = e_sinks e"
  "e_status (snd (heard_position cx e)) = e_status e"
  "e_events (snd (heard_position cx e)) = e_events e"
  "e_answers (snd (heard_position cx e)) = e_answers e"
  "e_switched (snd (heard_position cx e)) = e_switched e"
  "e_tasks (snd (heard_position cx e)) = e_tasks e"
  by (simp_all add: heard_position_def Let_def split_def split: option.split)

lemma emit_frame [simp]:
  "e_state (emit ev e) = e_state e"
  "e_generation (emit ev e) = e_generation e"
  "e_load_task (emit ev e) = e_load_task e"
  "e_pause_when_ready (emit ev e) = e_pause_when_ready e"
  "e_sink (emit ev e) = e_sink e"
  "e_released (emit ev e) = e_released e"
  "e_release_when_ready (emit ev e) = e_release_when_ready e"
  "e_paused_at (emit ev e) = e_paused_at e"
  "e_current (emit ev e) = e_current e"
  "e_outgoing (emit ev e) = e_outgoing e"
  "e_next (emit ev e) = e_next e"
  "e_prefetch_generation (emit ev e) = e_prefetch_generation e"
  "e_waiting_until (emit ev e) = e_waiting_until e"
  "e_adopting (emit ev e) = e_adopting e"
  "e_polling (emit ev e) = e_polling e"
  "e_sinks (emit ev e) = e_sinks e"
  "e_status (emit ev e) = e_status e"
  "e_answers (emit ev e) = e_answers e"
  "e_switched (emit ev e) = e_switched e"
  "e_tasks (emit ev e) = e_tasks e"
  "e_world (emit ev e) = e_world e"
  by (simp_all add: emit_def)

lemma publish_status_frame [simp]:
  "e_state (publish_status e) = e_state e"
  "e_generation (publish_status e) = e_generation e"
  "e_load_task (publish_status e) = e_load_task e"
  "e_pause_when_ready (publish_status e) = e_pause_when_ready e"
  "e_sink (publish_status e) = e_sink e"
  "e_released (publish_status e) = e_released e"
  "e_release_when_ready (publish_status e) = e_release_when_ready e"
  "e_paused_at (publish_status e) = e_paused_at e"
  "e_current (publish_status e) = e_current e"
  "e_outgoing (publish_status e) = e_outgoing e"
  "e_next (publish_status e) = e_next e"
  "e_prefetch_generation (publish_status e) = e_prefetch_generation e"
  "e_waiting_until (publish_status e) = e_waiting_until e"
  "e_adopting (publish_status e) = e_adopting e"
  "e_polling (publish_status e) = e_polling e"
  "e_sinks (publish_status e) = e_sinks e"
  "e_events (publish_status e) = e_events e"
  "e_answers (publish_status e) = e_answers e"
  "e_switched (publish_status e) = e_switched e"
  "e_tasks (publish_status e) = e_tasks e"
  "e_world (publish_status e) = e_world e"
  by (simp_all add: publish_status_def)

lemma set_state_frame [simp]:
  "e_generation (set_state cx s e) = e_generation e"
  "e_load_task (set_state cx s e) = e_load_task e"
  "e_pause_when_ready (set_state cx s e) = e_pause_when_ready e"
  "e_sink (set_state cx s e) = e_sink e"
  "e_released (set_state cx s e) = e_released e"
  "e_release_when_ready (set_state cx s e) = e_release_when_ready e"
  "e_current (set_state cx s e) = e_current e"
  "e_outgoing (set_state cx s e) = e_outgoing e"
  "e_next (set_state cx s e) = e_next e"
  "e_prefetch_generation (set_state cx s e) = e_prefetch_generation e"
  "e_waiting_until (set_state cx s e) = e_waiting_until e"
  "e_adopting (set_state cx s e) = e_adopting e"
  "e_polling (set_state cx s e) = e_polling e"
  "e_sinks (set_state cx s e) = e_sinks e"
  "e_answers (set_state cx s e) = e_answers e"
  "e_switched (set_state cx s e) = e_switched e"
  "e_tasks (set_state cx s e) = e_tasks e"
  by (simp_all add: set_state_def Let_def split_def)

lemma answer_frame [simp]:
  "e_state (answer r b e) = e_state e"
  "e_generation (answer r b e) = e_generation e"
  "e_load_task (answer r b e) = e_load_task e"
  "e_pause_when_ready (answer r b e) = e_pause_when_ready e"
  "e_sink (answer r b e) = e_sink e"
  "e_released (answer r b e) = e_released e"
  "e_release_when_ready (answer r b e) = e_release_when_ready e"
  "e_paused_at (answer r b e) = e_paused_at e"
  "e_current (answer r b e) = e_current e"
  "e_outgoing (answer r b e) = e_outgoing e"
  "e_next (answer r b e) = e_next e"
  "e_prefetch_generation (answer r b e) = e_prefetch_generation e"
  "e_waiting_until (answer r b e) = e_waiting_until e"
  "e_adopting (answer r b e) = e_adopting e"
  "e_polling (answer r b e) = e_polling e"
  "e_sinks (answer r b e) = e_sinks e"
  "e_status (answer r b e) = e_status e"
  "e_events (answer r b e) = e_events e"
  "e_switched (answer r b e) = e_switched e"
  "e_tasks (answer r b e) = e_tasks e"
  "e_world (answer r b e) = e_world e"
  by (simp_all add: answer_def split: option.split)

lemma answer_waiting_frame [simp]:
  "e_state (answer_waiting b e) = e_state e"
  "e_generation (answer_waiting b e) = e_generation e"
  "e_load_task (answer_waiting b e) = e_load_task e"
  "e_pause_when_ready (answer_waiting b e) = e_pause_when_ready e"
  "e_sink (answer_waiting b e) = e_sink e"
  "e_released (answer_waiting b e) = e_released e"
  "e_paused_at (answer_waiting b e) = e_paused_at e"
  "e_current (answer_waiting b e) = e_current e"
  "e_outgoing (answer_waiting b e) = e_outgoing e"
  "e_next (answer_waiting b e) = e_next e"
  "e_prefetch_generation (answer_waiting b e) = e_prefetch_generation e"
  "e_waiting_until (answer_waiting b e) = e_waiting_until e"
  "e_adopting (answer_waiting b e) = e_adopting e"
  "e_polling (answer_waiting b e) = e_polling e"
  "e_sinks (answer_waiting b e) = e_sinks e"
  "e_status (answer_waiting b e) = e_status e"
  "e_events (answer_waiting b e) = e_events e"
  "e_switched (answer_waiting b e) = e_switched e"
  "e_tasks (answer_waiting b e) = e_tasks e"
  "e_world (answer_waiting b e) = e_world e"
  by (simp_all add: answer_waiting_def split: option.split)

lemma flush_sink_frame [simp]:
  "e_state (flush_sink cx e) = e_state e"
  "e_generation (flush_sink cx e) = e_generation e"
  "e_load_task (flush_sink cx e) = e_load_task e"
  "e_pause_when_ready (flush_sink cx e) = e_pause_when_ready e"
  "e_sink (flush_sink cx e) = e_sink e"
  "e_released (flush_sink cx e) = e_released e"
  "e_release_when_ready (flush_sink cx e) = e_release_when_ready e"
  "e_paused_at (flush_sink cx e) = e_paused_at e"
  "e_current (flush_sink cx e) = e_current e"
  "e_outgoing (flush_sink cx e) = e_outgoing e"
  "e_next (flush_sink cx e) = e_next e"
  "e_prefetch_generation (flush_sink cx e) = e_prefetch_generation e"
  "e_waiting_until (flush_sink cx e) = e_waiting_until e"
  "e_adopting (flush_sink cx e) = e_adopting e"
  "e_polling (flush_sink cx e) = e_polling e"
  "e_sinks (flush_sink cx e) = e_sinks e"
  "e_status (flush_sink cx e) = e_status e"
  "e_answers (flush_sink cx e) = e_answers e"
  "e_switched (flush_sink cx e) = e_switched e"
  "e_tasks (flush_sink cx e) = e_tasks e"
  by (simp_all add: flush_sink_def Let_def split_def split: option.split)

lemma drop_next_frame [simp]:
  "e_state (drop_next e) = e_state e"
  "e_generation (drop_next e) = e_generation e"
  "e_load_task (drop_next e) = e_load_task e"
  "e_pause_when_ready (drop_next e) = e_pause_when_ready e"
  "e_sink (drop_next e) = e_sink e"
  "e_released (drop_next e) = e_released e"
  "e_release_when_ready (drop_next e) = e_release_when_ready e"
  "e_paused_at (drop_next e) = e_paused_at e"
  "e_current (drop_next e) = e_current e"
  "e_outgoing (drop_next e) = e_outgoing e"
  "e_prefetch_generation (drop_next e) = e_prefetch_generation e"
  "e_polling (drop_next e) = e_polling e"
  "e_sinks (drop_next e) = e_sinks e"
  "e_status (drop_next e) = e_status e"
  "e_events (drop_next e) = e_events e"
  "e_answers (drop_next e) = e_answers e"
  "e_switched (drop_next e) = e_switched e"
  "e_tasks (drop_next e) = e_tasks e"
  "e_world (drop_next e) = e_world e"
  by (simp_all add: drop_next_def)

lemma cancel_load_frame [simp]:
  "e_state (cancel_load e) = e_state e"
  "e_pause_when_ready (cancel_load e) = e_pause_when_ready e"
  "e_sink (cancel_load e) = e_sink e"
  "e_released (cancel_load e) = e_released e"
  "e_release_when_ready (cancel_load e) = e_release_when_ready e"
  "e_paused_at (cancel_load e) = e_paused_at e"
  "e_current (cancel_load e) = e_current e"
  "e_outgoing (cancel_load e) = e_outgoing e"
  "e_next (cancel_load e) = e_next e"
  "e_prefetch_generation (cancel_load e) = e_prefetch_generation e"
  "e_waiting_until (cancel_load e) = e_waiting_until e"
  "e_adopting (cancel_load e) = e_adopting e"
  "e_polling (cancel_load e) = e_polling e"
  "e_sinks (cancel_load e) = e_sinks e"
  "e_status (cancel_load e) = e_status e"
  "e_events (cancel_load e) = e_events e"
  "e_answers (cancel_load e) = e_answers e"
  "e_switched (cancel_load e) = e_switched e"
  "e_tasks (cancel_load e) = e_tasks e"
  "e_world (cancel_load e) = e_world e"
  by (simp_all add: cancel_load_def)

lemma begin_load_frame [simp]:
  "e_sink (begin_load cx t a s b e) = e_sink e"
  "e_released (begin_load cx t a s b e) = e_released e"
  "e_current (begin_load cx t a s b e) = e_current e"
  "e_outgoing (begin_load cx t a s b e) = e_outgoing e"
  "e_prefetch_generation (begin_load cx t a s b e) = e_prefetch_generation e"
  "e_polling (begin_load cx t a s b e) = e_polling e"
  "e_sinks (begin_load cx t a s b e) = e_sinks e"
  "e_switched (begin_load cx t a s b e) = e_switched e"
  by (simp_all add: begin_load_def Let_def)

lemma start_prefetch_frame [simp]:
  "e_state (start_prefetch t e) = e_state e"
  "e_generation (start_prefetch t e) = e_generation e"
  "e_load_task (start_prefetch t e) = e_load_task e"
  "e_pause_when_ready (start_prefetch t e) = e_pause_when_ready e"
  "e_sink (start_prefetch t e) = e_sink e"
  "e_released (start_prefetch t e) = e_released e"
  "e_release_when_ready (start_prefetch t e) = e_release_when_ready e"
  "e_paused_at (start_prefetch t e) = e_paused_at e"
  "e_current (start_prefetch t e) = e_current e"
  "e_outgoing (start_prefetch t e) = e_outgoing e"
  "e_waiting_until (start_prefetch t e) = e_waiting_until e"
  "e_adopting (start_prefetch t e) = e_adopting e"
  "e_polling (start_prefetch t e) = e_polling e"
  "e_sinks (start_prefetch t e) = e_sinks e"
  "e_status (start_prefetch t e) = e_status e"
  "e_events (start_prefetch t e) = e_events e"
  "e_answers (start_prefetch t e) = e_answers e"
  "e_switched (start_prefetch t e) = e_switched e"
  "e_world (start_prefetch t e) = e_world e"
  by (simp_all add: start_prefetch_def Let_def)

lemma emit_position_frame [simp]:
  "e_state (emit_position cx e) = e_state e"
  "e_generation (emit_position cx e) = e_generation e"
  "e_load_task (emit_position cx e) = e_load_task e"
  "e_pause_when_ready (emit_position cx e) = e_pause_when_ready e"
  "e_sink (emit_position cx e) = e_sink e"
  "e_released (emit_position cx e) = e_released e"
  "e_release_when_ready (emit_position cx e) = e_release_when_ready e"
  "e_paused_at (emit_position cx e) = e_paused_at e"
  "e_next (emit_position cx e) = e_next e"
  "e_prefetch_generation (emit_position cx e) = e_prefetch_generation e"
  "e_waiting_until (emit_position cx e) = e_waiting_until e"
  "e_adopting (emit_position cx e) = e_adopting e"
  "e_polling (emit_position cx e) = e_polling e"
  "e_sinks (emit_position cx e) = e_sinks e"
  "e_answers (emit_position cx e) = e_answers e"
  "e_switched (emit_position cx e) = e_switched e"
  "e_tasks (emit_position cx e) = e_tasks e"
  by (simp_all add: emit_position_def Let_def split_def split: option.split)

lemma drop_sink_frame [simp]:
  "e_state (drop_sink cx e) = e_state e"
  "e_generation (drop_sink cx e) = e_generation e"
  "e_load_task (drop_sink cx e) = e_load_task e"
  "e_pause_when_ready (drop_sink cx e) = e_pause_when_ready e"
  "e_released (drop_sink cx e) = e_released e"
  "e_release_when_ready (drop_sink cx e) = e_release_when_ready e"
  "e_paused_at (drop_sink cx e) = e_paused_at e"
  "e_current (drop_sink cx e) = e_current e"
  "e_outgoing (drop_sink cx e) = e_outgoing e"
  "e_next (drop_sink cx e) = e_next e"
  "e_prefetch_generation (drop_sink cx e) = e_prefetch_generation e"
  "e_waiting_until (drop_sink cx e) = e_waiting_until e"
  "e_adopting (drop_sink cx e) = e_adopting e"
  "e_polling (drop_sink cx e) = e_polling e"
  "e_sinks (drop_sink cx e) = e_sinks e"
  "e_status (drop_sink cx e) = e_status e"
  "e_events (drop_sink cx e) = e_events e"
  "e_answers (drop_sink cx e) = e_answers e"
  "e_switched (drop_sink cx e) = e_switched e"
  "e_tasks (drop_sink cx e) = e_tasks e"
  by (simp_all add: drop_sink_def split: option.split)

lemma close_output_frame [simp]:
  "e_state (close_output cx e) = e_state e"
  "e_generation (close_output cx e) = e_generation e"
  "e_load_task (close_output cx e) = e_load_task e"
  "e_pause_when_ready (close_output cx e) = e_pause_when_ready e"
  "e_paused_at (close_output cx e) = e_paused_at e"
  "e_current (close_output cx e) = e_current e"
  "e_outgoing (close_output cx e) = e_outgoing e"
  "e_next (close_output cx e) = e_next e"
  "e_prefetch_generation (close_output cx e) = e_prefetch_generation e"
  "e_waiting_until (close_output cx e) = e_waiting_until e"
  "e_adopting (close_output cx e) = e_adopting e"
  "e_polling (close_output cx e) = e_polling e"
  "e_sinks (close_output cx e) = e_sinks e"
  "e_status (close_output cx e) = e_status e"
  "e_events (close_output cx e) = e_events e"
  "e_switched (close_output cx e) = e_switched e"
  "e_tasks (close_output cx e) = e_tasks e"
  by (simp_all add: close_output_def Let_def)

lemma replace_sinks_frame [simp]:
  "e_state (replace_sinks cx k e) = e_state e"
  "e_generation (replace_sinks cx k e) = e_generation e"
  "e_load_task (replace_sinks cx k e) = e_load_task e"
  "e_pause_when_ready (replace_sinks cx k e) = e_pause_when_ready e"
  "e_sink (replace_sinks cx k e) = e_sink e"
  "e_released (replace_sinks cx k e) = e_released e"
  "e_release_when_ready (replace_sinks cx k e) = e_release_when_ready e"
  "e_paused_at (replace_sinks cx k e) = e_paused_at e"
  "e_current (replace_sinks cx k e) = e_current e"
  "e_outgoing (replace_sinks cx k e) = e_outgoing e"
  "e_next (replace_sinks cx k e) = e_next e"
  "e_prefetch_generation (replace_sinks cx k e) = e_prefetch_generation e"
  "e_waiting_until (replace_sinks cx k e) = e_waiting_until e"
  "e_adopting (replace_sinks cx k e) = e_adopting e"
  "e_polling (replace_sinks cx k e) = e_polling e"
  "e_status (replace_sinks cx k e) = e_status e"
  "e_events (replace_sinks cx k e) = e_events e"
  "e_answers (replace_sinks cx k e) = e_answers e"
  "e_switched (replace_sinks cx k e) = e_switched e"
  "e_tasks (replace_sinks cx k e) = e_tasks e"
  by (simp_all add: replace_sinks_def Let_def)

lemma switched_frame [simp]:
  "e_state (switched c r e) = e_state e"
  "e_generation (switched c r e) = e_generation e"
  "e_load_task (switched c r e) = e_load_task e"
  "e_pause_when_ready (switched c r e) = e_pause_when_ready e"
  "e_sink (switched c r e) = e_sink e"
  "e_released (switched c r e) = e_released e"
  "e_release_when_ready (switched c r e) = e_release_when_ready e"
  "e_paused_at (switched c r e) = e_paused_at e"
  "e_current (switched c r e) = e_current e"
  "e_outgoing (switched c r e) = e_outgoing e"
  "e_next (switched c r e) = e_next e"
  "e_prefetch_generation (switched c r e) = e_prefetch_generation e"
  "e_waiting_until (switched c r e) = e_waiting_until e"
  "e_adopting (switched c r e) = e_adopting e"
  "e_polling (switched c r e) = e_polling e"
  "e_sinks (switched c r e) = e_sinks e"
  "e_status (switched c r e) = e_status e"
  "e_events (switched c r e) = e_events e"
  "e_answers (switched c r e) = e_answers e"
  "e_tasks (switched c r e) = e_tasks e"
  "e_world (switched c r e) = e_world e"
  by (simp_all add: switched_def)

end
