(* ===== verification/Engine_Inv.thy ===== *)
theory Engine_Inv
  imports Engine_Frame
begin

text \<open>
  The invariant of the audio thread: which parts of its state go together, what its events have
  told so far, and that a load it no longer waits for cannot start a track. One lemma per method;
  the methods below a track's start need less than the invariant (\<open>log_ok\<close>), because between two
  tracks the state is in transition.
\<close>

declare option.case_cong [cong]

section \<open>What the events have told\<close>

text \<open>
  The track a listener of the events takes to be current, and whether the events kept to the
  protocol: a start only when nothing is current, an end only of what is, save that a track the
  device refuses fails without having started. \<open>None\<close> means the protocol was broken.
\<close>

fun hears :: "track_meta option option \<Rightarrow> event \<Rightarrow> track_meta option option" where
  "hears None ev = None"
| "hears (Some None) (TrackStarted m spec g) = Some (Some m)"
| "hears (Some (Some c)) (TrackStarted m spec g) = None"
| "hears (Some None) (TrackEnded m r) = (if r = Failed then Some None else None)"
| "hears (Some (Some c)) (TrackEnded m r) = (if m = c then Some None else None)"
| "hears s ev = s"

definition announced :: "event list \<Rightarrow> track_meta option option" where
  "announced evs = foldl hears (Some None) evs"

fun state_heard :: "state \<Rightarrow> event \<Rightarrow> state" where
  "state_heard s (StateChanged s') = s'"
| "state_heard s ev = s"

definition last_state :: "event list \<Rightarrow> state" where
  "last_state evs = foldl state_heard Stopped evs"

lemma announced_append [simp]: "announced (evs @ es) = foldl hears (announced evs) es"
  by (simp add: announced_def)

lemma last_state_append [simp]:
  "last_state (evs @ es) = foldl state_heard (last_state evs) es"
  by (simp add: last_state_def)

lemma hears_other [simp]:
  "hears s (StateChanged x) = s" "hears s (PositionAt a b) = s" "hears s (Seeked a) = s"
  "hears s (SeekRejected r) = s" "hears s QueueExhausted = s" "hears s (OutputReleased by why) = s"
  "hears s OutputAcquired = s" "hears s (ErrorEvent m) = s"
  by (cases s; cases "the s"; simp)+

lemma emit_events [simp]: "e_events (emit ev e) = e_events e @ [ev]"
  by (simp add: emit_def)

section \<open>The track everything reported is about\<close>

definition heard_track :: "'w engine \<Rightarrow> track_meta option" where
  "heard_track e =
     (case e_outgoing e of
        Some og \<Rightarrow> Some (og_meta og)
      | None \<Rightarrow> map_option p_meta (e_current e))"

lemma heard_track_cong:
  "e_outgoing e' = e_outgoing e \<Longrightarrow> e_current e' = e_current e \<Longrightarrow> heard_track e' = heard_track e"
  by (simp add: heard_track_def split: option.split)

definition log_ok :: "'w engine \<Rightarrow> bool" where
  "log_ok e \<longleftrightarrow>
     announced (e_events e) = Some (heard_track e) \<and>
     last_state (e_events e) = e_state e \<and>
     (e_paused_at e \<noteq> None \<longleftrightarrow> e_state e = Paused)"

definition has_source :: "'w engine \<Rightarrow> bool" where
  "has_source e \<longleftrightarrow> (case e_current e of Some p \<Rightarrow> p_source p \<noteq> None | None \<Rightarrow> True)"

definition core_inv :: "nat set \<Rightarrow> 'w engine \<Rightarrow> bool" where
  "core_inv answered e \<longleftrightarrow>
     log_ok e \<and>
     (e_outgoing e \<noteq> None \<longrightarrow> e_state e = Playing \<or> e_state e = Paused) \<and>
     (e_current e \<noteq> None \<longleftrightarrow> e_state e \<in> {Playing, Paused, Seeking}) \<and>
     (e_state e \<noteq> Seeking \<longrightarrow> has_source e) \<and>
     (e_state e = Stopped \<longrightarrow>
        e_sink e = None \<and> e_released e = None \<and> e_release_when_ready e = None) \<and>
     (e_pause_when_ready e \<longrightarrow> e_state e = Loading \<or> e_state e = Seeking) \<and>
     (e_adopting e \<longrightarrow>
        e_state e = Loading \<and> (\<exists>nx. e_next e = Some nx \<and> nx_phase nx = Opening)) \<and>
     (e_state e = Playing \<or> e_state e = Paused \<or> e_next e \<noteq> None \<longrightarrow>
        e_generation e \<in> answered)"

definition told :: "'w engine \<Rightarrow> bool" where
  "told e \<longleftrightarrow> e_status e = status_of e"

definition engine_inv :: "nat set \<Rightarrow> 'w engine \<Rightarrow> bool" where
  "engine_inv answered e \<longleftrightarrow> core_inv answered e \<and> told e"

lemma status_of_cong:
  assumes "e_state e' = e_state e" "e_outgoing e' = e_outgoing e" "e_current e' = e_current e"
    "e_sink e' = e_sink e" "e_released e' = e_released e"
  shows "status_of e' = status_of e"
  using assms by (simp add: status_of_def)

section \<open>What the primitive steps change\<close>

lemma publish_status_told [simp]: "told (publish_status e)"
  by (simp add: told_def publish_status_def status_of_def)

lemma told_emit [simp]: "told (emit ev e) = told e"
  by (simp add: told_def status_of_def)

lemma told_run_w [simp]: "told (snd (run_w f e)) = told e"
  and told_do_w [simp]: "told (do_w g e) = told e"
  by (simp_all add: told_def status_of_def)

lemma told_queued [simp]: "told (snd (queued_frames cx e)) = told e"
  and told_heard [simp]: "told (snd (heard_position cx e)) = told e"
  by (simp_all add: told_def status_of_def)

lemma told_flush [simp]: "told (flush_sink cx e) = told e"
  and told_drop_next [simp]: "told (drop_next e) = told e"
  and told_cancel [simp]: "told (cancel_load e) = told e"
  and told_answer [simp]: "told (answer r b e) = told e"
  and told_answer_waiting [simp]: "told (answer_waiting b e) = told e"
  and told_prefetch [simp]: "told (start_prefetch t e) = told e"
  and told_replace [simp]: "told (replace_sinks cx k e) = told e"
  and told_switched [simp]: "told (switched c result e) = told e"
  by (simp_all add: told_def status_of_def)

lemma set_state_effect [simp]:
  "e_state (set_state cx s e) = s"
  "e_events (set_state cx s e) =
     e_events e @ (if e_state e \<noteq> s then [StateChanged s] else [])"
  "told (set_state cx s e)"
  by (simp_all add: set_state_def Let_def split_def publish_status_def told_def status_of_def)

lemma set_state_paused_at:
  "(e_paused_at e \<noteq> None \<longleftrightarrow> e_state e = Paused) \<Longrightarrow>
     (e_paused_at (set_state cx s e) \<noteq> None) = (s = Paused)"
  by (simp add: set_state_def Let_def split_def)

lemma heard_track_set_state [simp]: "heard_track (set_state cx s e) = heard_track e"
  by (rule heard_track_cong) simp_all

lemma heard_track_begin_load [simp]: "heard_track (begin_load cx t a s b e) = heard_track e"
  by (rule heard_track_cong) simp_all

lemma log_ok_set_state: "log_ok e \<Longrightarrow> log_ok (set_state cx s e)"
  using set_state_paused_at [of e cx s] by (auto simp: log_ok_def)

lemma flush_sink_log [simp]:
  "announced (e_events (flush_sink cx e)) = announced (e_events e)"
  "last_state (e_events (flush_sink cx e)) = last_state (e_events e)"
  by (simp_all add: flush_sink_def Let_def split_def split: option.split)

lemma heard_track_flush [simp]: "heard_track (flush_sink cx e) = heard_track e"
  by (rule heard_track_cong) simp_all

lemma log_ok_flush [simp]: "log_ok (flush_sink cx e) = log_ok e"
  by (simp add: log_ok_def)

lemma drop_next_effect [simp]:
  "e_next (drop_next e) = None" "e_waiting_until (drop_next e) = None"
  "\<not> e_adopting (drop_next e)"
  by (simp_all add: drop_next_def)

lemma log_ok_cong:
  assumes "e_events e' = e_events e" "e_outgoing e' = e_outgoing e" "e_current e' = e_current e"
    "e_state e' = e_state e" "e_paused_at e' = e_paused_at e"
  shows "log_ok e' = log_ok e"
  using assms by (simp add: log_ok_def heard_track_def)

lemma answer_waiting_effect [simp]: "e_release_when_ready (answer_waiting b e) = None"
  by (simp add: answer_waiting_def split: option.split)

lemma begin_load_effect [simp]:
  "e_state (begin_load cx t a s b e) = s"
  "e_generation (begin_load cx t a s b e) = e_generation e + 1"
  "e_load_task (begin_load cx t a s b e) = Some (e_generation e + 1)"
  "e_next (begin_load cx t a s b e) = None"
  "\<not> e_adopting (begin_load cx t a s b e)"
  "e_pause_when_ready (begin_load cx t a s b e) = b"
  "e_release_when_ready (begin_load cx t a s b e) = None"
  "e_events (begin_load cx t a s b e) = e_events e @ (if e_state e \<noteq> s then [StateChanged s] else [])"
  "e_tasks (begin_load cx t a s b e) = e_tasks e @ [LoadTask (e_generation e + 1) t a]"
  by (simp_all add: begin_load_def Let_def cancel_load_def)

lemma told_load_task [simp]: "told (e\<lparr>e_load_task := a, e_tasks := b\<rparr>) = told e"
  by (simp add: told_def status_of_def)

lemma told_begin_load [simp]: "told (begin_load cx t a s b e)"
  by (simp add: begin_load_def Let_def)

lemma log_ok_begin_load: "log_ok e \<Longrightarrow> log_ok (begin_load cx t a s b e)"
proof -
  assume "log_ok e"
  then have "log_ok ((answer_waiting False (drop_next (cancel_load e)))\<lparr>e_pause_when_ready := b\<rparr>)"
    by (simp add: log_ok_def heard_track_def)
  then have "log_ok (set_state cx s
      ((answer_waiting False (drop_next (cancel_load e)))\<lparr>e_pause_when_ready := b\<rparr>))"
    by (rule log_ok_set_state)
  then show ?thesis by (simp add: begin_load_def Let_def log_ok_def heard_track_def)
qed

lemma emit_position_effect:
  "map_option p_meta (e_current (emit_position cx e)) = map_option p_meta (e_current e)"
  "map_option p_source (e_current (emit_position cx e)) = map_option p_source (e_current e)"
  "map_option og_meta (e_outgoing (emit_position cx e)) = map_option og_meta (e_outgoing e)"
  "announced (e_events (emit_position cx e)) = announced (e_events e)"
  "last_state (e_events (emit_position cx e)) = last_state (e_events e)"
  by (simp_all add: emit_position_def Let_def split_def split: option.split)

lemmas emit_position_log [simp] = emit_position_effect(4,5)

lemma emit_position_None [simp]:
  "e_current (emit_position cx e) = None \<longleftrightarrow> e_current e = None"
  "e_outgoing (emit_position cx e) = None \<longleftrightarrow> e_outgoing e = None"
  by (metis emit_position_effect(1) option.map_disc_iff, metis emit_position_effect(3) option.map_disc_iff)

lemma heard_track_alt:
  "heard_track e = (if e_outgoing e = None then map_option p_meta (e_current e)
                    else map_option og_meta (e_outgoing e))"
  by (auto simp: heard_track_def split: option.split)

lemma heard_track_emit_position [simp]: "heard_track (emit_position cx e) = heard_track e"
  by (simp add: heard_track_alt emit_position_effect)

lemma has_source_alt: "has_source e \<longleftrightarrow> map_option p_source (e_current e) \<noteq> Some None"
  by (auto simp: has_source_def split: option.split)

lemma has_source_emit_position [simp]: "has_source (emit_position cx e) = has_source e"
  by (simp add: has_source_alt emit_position_effect)

lemma log_ok_emit_position [simp]: "log_ok (emit_position cx e) = log_ok e"
  by (simp add: log_ok_def)

lemma told_emit_position: "told e \<Longrightarrow> told (emit_position cx e)"
  by (auto simp: emit_position_def Let_def split_def split: option.split)

lemma core_inv_emit_position: "core_inv A e \<Longrightarrow> core_inv A (emit_position cx e)"
  by (simp add: core_inv_def)

lemma drop_sink_effect [simp]: "e_sink (drop_sink cx e) = None"
  by (simp add: drop_sink_def split: option.split)

lemma close_output_effect [simp]:
  "e_sink (close_output cx e) = None" "e_released (close_output cx e) = None"
  "e_release_when_ready (close_output cx e) = None"
  by (simp_all add: close_output_def Let_def)

lemma core_inv_cong:
  assumes "e_events e' = e_events e" "e_outgoing e' = e_outgoing e" "e_current e' = e_current e"
    "e_state e' = e_state e" "e_paused_at e' = e_paused_at e" "e_sink e' = e_sink e"
    "e_released e' = e_released e" "e_release_when_ready e' = e_release_when_ready e"
    "e_pause_when_ready e' = e_pause_when_ready e" "e_adopting e' = e_adopting e"
    "e_next e' = e_next e" "e_generation e' = e_generation e"
  shows "core_inv A e' = core_inv A e"
  using assms by (simp add: core_inv_def log_ok_def heard_track_def has_source_def)

section \<open>Loading, failing, stopping\<close>

lemma inv_request_load:
  assumes "log_ok e" and "e_current e = None" and "e_outgoing e = None"
  shows "engine_inv A (request_load cx t e)"
  using log_ok_begin_load [OF assms(1)] assms(2,3)
  by (simp add: engine_inv_def core_inv_def request_load_def has_source_def)

lemma end_failed_effect:
  assumes "announced (e_events e) = Some (heard_track e)"
    and "last_state (e_events e) = e_state e"
  shows "announced (e_events (end_failed e)) = Some None"
    "last_state (e_events (end_failed e)) = e_state e"
    "e_current (end_failed e) = None" "e_outgoing (end_failed e) = None"
    "e_state (end_failed e) = e_state e" "e_paused_at (end_failed e) = e_paused_at e"
  using assms
  by (auto simp: end_failed_def Let_def heard_track_def split: option.split)

lemma close_output_log [simp]: "e_events (close_output cx e) = e_events e"
  by simp

lemma inv_fail:
  assumes "log_ok e"
  shows "engine_inv A (fail cx err e)"
proof -
  let ?a = "emit (ErrorEvent (show_error err)) e"
  have "announced (e_events ?a) = Some (heard_track ?a)" "last_state (e_events ?a) = e_state ?a"
    using assms by (simp_all add: log_ok_def heard_track_def)
  note ends = end_failed_effect [OF this]
  let ?b = "close_output cx
      (cancel_load (drop_next (end_failed ?a)) \<lparr>e_pause_when_ready := False\<rparr>)"
  have "log_ok ?b"
    using ends assms by (simp add: log_ok_def heard_track_def)
  then have "log_ok (set_state cx Stopped ?b)" by (rule log_ok_set_state)
  then show ?thesis
    using ends
    by (simp add: fail_def Let_def engine_inv_def core_inv_def has_source_def)
qed

lemma interrupt_effect:
  assumes "log_ok e"
  shows "e_current (interrupt_current cx e) = None" "e_outgoing (interrupt_current cx e) = None"
    "log_ok (interrupt_current cx e)"
  using assms
  by (auto simp: interrupt_current_def Let_def log_ok_def heard_track_def split: option.split)

lemma inv_stop:
  assumes "log_ok e"
  shows "engine_inv A (stop cx e)"
proof -
  note ends = interrupt_effect [OF assms, of cx]
  let ?b = "close_output cx
      (cancel_load (drop_next (interrupt_current cx e)) \<lparr>e_pause_when_ready := False\<rparr>)"
  have "log_ok ?b"
    using ends by (simp add: log_ok_def heard_track_def)
  then have "log_ok (set_state cx Stopped ?b)" by (rule log_ok_set_state)
  then show ?thesis
    using ends
    by (simp add: stop_def Let_def engine_inv_def core_inv_def has_source_def)
qed

lemma core_log [dest]: "core_inv A e \<Longrightarrow> log_ok e"
  by (simp add: core_inv_def)

end
