(* ===== verification/Engine_Keeps.thy ===== *)
theory Engine_Keeps
  imports Engine_Inv
begin

text \<open>
  Every method of the audio thread, every message and every round of its loop keeps the
  invariant of \<^verbatim>\<open>Engine_Inv\<close>.
\<close>

section \<open>The boundary, and what was not heard\<close>

lemma crossing_keeps:
  assumes "core_inv A e"
  shows "core_inv A (check_crossing cx e)" and "told e \<Longrightarrow> told (check_crossing cx e)"
proof -
  have "core_inv A (check_crossing cx e) \<and> (told e \<longrightarrow> told (check_crossing cx e))"
  proof (cases "e_outgoing e")
    case None
    then show ?thesis using assms by (simp add: check_crossing_def)
  next
    case (Some og)
    show ?thesis
    proof (cases "e_current e = None \<or> e_sink e = None")
      case True
      then show ?thesis
        using assms Some by (auto simp: check_crossing_def split: option.split)
    next
      case False
      then obtain p s where ps: "e_current e = Some p" "e_sink e = Some s" by auto
      let ?q = "snd (queued_frames cx e)"
      show ?thesis
      proof (cases "p_frames_written p - fst (queued_frames cx e) < p_lead_in p")
        case True
        have "core_inv A ?q = core_inv A e" by (rule core_inv_cong) simp_all
        then show ?thesis
          using True assms ps Some by (simp add: check_crossing_def Let_def split_def)
      next
        case cross: False
        let ?b = "emit (TrackEnded (og_meta og) Completed)
            (emit (PositionAt (og_end_position og) (og_duration og)) (?q\<lparr>e_outgoing := None\<rparr>))"
        let ?r = "run_w (sup_started (cx_supplier cx) (tm_track (p_meta p))) ?b"
        have st: "e_state e = Playing \<or> e_state e = Paused"
          using assms Some by (simp add: core_inv_def)
        have "announced (e_events e) = Some (Some (og_meta og))"
          "last_state (e_events e) = e_state e"
          using core_log [OF assms] Some by (simp_all add: log_ok_def heard_track_def)
        then have ann: "announced (e_events (snd ?r)) = Some None"
          "last_state (e_events (snd ?r)) = e_state e"
          by simp_all
        show ?thesis
        proof (cases "fst ?r")
          case False
          let ?f = "flush_sink cx ((snd ?r)\<lparr>e_current := None\<rparr>)"
          have "log_ok ((snd ?r)\<lparr>e_current := None\<rparr>)"
            using assms ann by (simp add: core_inv_def log_ok_def heard_track_def)
          then have "engine_inv A (request_load cx (LoadAdvance Adv_Next) ?f)"
            by (intro inv_request_load) simp_all
          then show ?thesis
            using False cross ps Some
            by (simp add: check_crossing_def Let_def split_def engine_inv_def)
        next
          case True
          let ?c = "emit (TrackStarted (p_meta p) (p_spec p) True) (publish_status (snd ?r))"
          have "core_inv A ?c"
            using assms ann ps st
            by (simp add: core_inv_def log_ok_def heard_track_def has_source_def)
          then show ?thesis
            using True cross ps Some core_inv_emit_position [of A ?c cx] told_emit_position [of ?c cx]
            by (simp add: check_crossing_def Let_def split_def)
        qed
      qed
    qed
  qed
  then show "core_inv A (check_crossing cx e)" and "told e \<Longrightarrow> told (check_crossing cx e)"
    by blast+
qed

lemma carry_over_frame [simp]:
  "p_meta (carry_over j q p) = p_meta p" "p_source (carry_over j q p) = p_source p"
  "p_spec (carry_over j q p) = p_spec p" "p_seek (carry_over j q p) = p_seek p"
  "p_duration (carry_over j q p) = p_duration p"
  "p_source_done (carry_over j q p) = p_source_done p"
  by (simp_all add: carry_over_def Let_def)

lemma core_inv_update_current:
  assumes "core_inv A e" and "e_current e = Some p" and "p_meta p' = p_meta p"
    and "p_source p' = p_source p"
  shows "core_inv A (e\<lparr>e_current := Some p'\<rparr>)"
  using assms by (simp add: core_inv_def log_ok_def heard_track_def has_source_def)

lemma set_aside_keeps:
  assumes "core_inv A e"
  shows "core_inv A (set_aside_unheard cx e)"
proof -
  let ?e = "check_crossing cx e"
  have c: "core_inv A ?e" by (rule crossing_keeps(1) [OF assms])
  have "core_inv A (snd (queued_frames cx ?e)) = core_inv A ?e"
    by (rule core_inv_cong) simp_all
  then show ?thesis
    using c core_inv_update_current [of A "snd (queued_frames cx ?e)"]
    by (auto simp: set_aside_unheard_def Let_def split_def split: option.split)
qed

section \<open>Pausing and giving the device back\<close>

lemma core_inv_run_w [simp]: "core_inv A (snd (run_w f e)) = core_inv A e"
  and core_inv_do_w [simp]: "core_inv A (do_w g e) = core_inv A e"
  and core_inv_publish [simp]: "core_inv A (publish_status e) = core_inv A e"
  and core_inv_answer [simp]: "core_inv A (answer r b e) = core_inv A e"
  and core_inv_switched [simp]: "core_inv A (switched c result e) = core_inv A e"
  and core_inv_replace [simp]: "core_inv A (replace_sinks cx k e) = core_inv A e"
  and core_inv_queued [simp]: "core_inv A (snd (queued_frames cx e)) = core_inv A e"
  and core_inv_heard [simp]: "core_inv A (snd (heard_position cx e)) = core_inv A e"
  by (rule core_inv_cong; simp)+

lemma pause_keeps:
  assumes "core_inv A e"
  shows "core_inv A (pause cx e)" and "told e \<Longrightarrow> told (pause cx e)"
proof -
  have "core_inv A (pause cx e) \<and> (told e \<longrightarrow> told (pause cx e))"
  proof (cases "e_state e")
    case Playing
    then obtain p where p: "e_current e = Some p" using assms by (auto simp: core_inv_def)
    show ?thesis
    proof (cases "e_sink e")
      case None
      have "log_ok (set_state cx Paused e)" using assms by (intro log_ok_set_state) auto
      then have "core_inv A (set_state cx Paused e)"
        using assms Playing by (simp add: core_inv_def has_source_def)
      then show ?thesis
        using Playing p None
        by (simp add: pause_def core_inv_emit_position told_emit_position)
    next
      case (Some s)
      let ?r = "run_w (cx_pause cx s) e"
      show ?thesis
      proof (cases "fst ?r")
        case err: (Some why)
        have "log_ok (snd ?r)" using assms by (intro core_log [of A]) simp
        then have "engine_inv A (fail cx (with_context ''pausing the audio output'' why) (snd ?r))"
          by (rule inv_fail)
        then show ?thesis
          using Playing p Some err by (simp add: pause_def split_def engine_inv_def)
      next
        case None
        let ?b = "(snd ?r)\<lparr>e_current := Some (p\<lparr>p_sink_paused := True\<rparr>)\<rparr>"
        have b: "core_inv A ?b"
          using assms p by (intro core_inv_update_current [where p = p]) simp_all
        then have "log_ok (set_state cx Paused ?b)" by (intro log_ok_set_state) auto
        then have "core_inv A (set_state cx Paused ?b)"
          using b Playing by (simp add: core_inv_def has_source_def)
        then show ?thesis
          using Playing p Some None
          by (simp add: pause_def split_def core_inv_emit_position told_emit_position)
      qed
    qed
  qed (use assms in \<open>simp_all add: pause_def core_inv_def log_ok_def heard_track_def
      has_source_def told_def status_of_def\<close>)
  then show "core_inv A (pause cx e)" and "told e \<Longrightarrow> told (pause cx e)" by blast+
qed

lemma core_inv_drop_next: "core_inv A e \<Longrightarrow> core_inv A (drop_next e)"
  by (auto simp: core_inv_def log_ok_def heard_track_def has_source_def)

lemma core_inv_drop_sink: "core_inv A e \<Longrightarrow> core_inv A (drop_sink cx e)"
  by (auto simp: core_inv_def log_ok_def heard_track_def has_source_def)

lemma core_inv_emit:
  assumes "core_inv A e" and "hears (announced (e_events e)) ev = announced (e_events e)"
    and "state_heard (last_state (e_events e)) ev = last_state (e_events e)"
  shows "core_inv A (emit ev e)"
  using assms by (simp add: core_inv_def log_ok_def heard_track_def has_source_def)

lemma core_inv_released:
  assumes "core_inv A e" and "e_state e \<noteq> Stopped"
  shows "core_inv A (e\<lparr>e_released := r\<rparr>)"
  using assms by (simp add: core_inv_def log_ok_def heard_track_def has_source_def)

lemma crossing_not_stopped:
  "e_state e \<noteq> Stopped \<Longrightarrow> e_state (check_crossing cx e) \<noteq> Stopped"
  by (simp add: check_crossing_def Let_def split_def request_load_def split: option.split)

lemma set_aside_not_stopped:
  "e_state e \<noteq> Stopped \<Longrightarrow> e_state (set_aside_unheard cx e) \<noteq> Stopped"
  using crossing_not_stopped [of e cx]
  by (simp add: set_aside_unheard_def Let_def split_def split: option.split)

lemma release_keeps:
  assumes "engine_inv A e"
  shows "engine_inv A (release_output cx request e)"
proof -
  have c: "core_inv A e" "told e" using assms by (simp_all add: engine_inv_def)
  show ?thesis
  proof (cases "e_state e = Loading \<or> e_state e = Seeking")
    case True
    let ?e = "e\<lparr>e_pause_when_ready := True, e_release_when_ready := Some request\<rparr>"
    have "core_inv A ?e" using c(1) True
      by (auto simp: core_inv_def log_ok_def heard_track_def has_source_def)
    moreover have "told ?e" using c(2) by (simp add: told_def status_of_def)
    ultimately show ?thesis
      using True by (simp add: release_output_def Let_def engine_inv_def split: option.split)
  next
    case settled: False
    show ?thesis
    proof (cases "e_state e = Stopped \<or> e_sink e = None")
      case True
      then show ?thesis
        using settled c by (auto simp: release_output_def engine_inv_def)
    next
      case held: False
      let ?p = "pause cx e"
      have p: "core_inv A ?p" "told ?p" using pause_keeps [OF c(1)] c(2) by simp_all
      show ?thesis
      proof (cases "e_state ?p = Paused")
        case False
        then show ?thesis
          using settled held p by (auto simp: release_output_def Let_def engine_inv_def)
      next
        case True
        let ?a = "set_aside_unheard cx (drop_next ?p)"
        have "core_inv A ?a" by (intro set_aside_keeps core_inv_drop_next p)
        moreover have "e_state ?a \<noteq> Stopped" using True by (intro set_aside_not_stopped) simp
        ultimately have "core_inv A
            ((do_w (cx_release cx (e_sinks (drop_sink cx ?a))) (drop_sink cx ?a))
               \<lparr>e_released := Some (rl_by request)\<rparr>)"
          by (intro core_inv_released) (simp_all add: core_inv_drop_sink)
        then show ?thesis
          using settled held True
          by (auto simp: release_output_def Let_def engine_inv_def core_inv_emit)
      qed
    qed
  qed
qed

lemma output_lost_keeps:
  assumes "core_inv A e" and "e_state e = Playing \<or> e_state e = Paused"
  shows "engine_inv A (output_lost cx err e)"
proof -
  let ?a = "emit (ErrorEvent (show_error err)) (drop_next e)"
  let ?b = "if e_state ?a = Playing then set_state cx Paused ?a else ?a"
  have a: "core_inv A ?a" using assms(1) by (intro core_inv_emit core_inv_drop_next) simp_all
  have "core_inv A (set_state cx Paused ?a)" if "e_state ?a = Playing"
  proof -
    have "log_ok (set_state cx Paused ?a)" using a by (intro log_ok_set_state) auto
    then show ?thesis using a that by (simp add: core_inv_def has_source_def)
  qed
  then have b: "core_inv A ?b" using a by simp
  have "e_state ?b \<noteq> Stopped" using assms(2) by auto
  then have "e_state (set_aside_unheard cx ?b) \<noteq> Stopped" by (rule set_aside_not_stopped)
  moreover have "core_inv A (set_aside_unheard cx ?b)" by (rule set_aside_keeps [OF b])
  ultimately have "core_inv A
      ((do_w (cx_release cx (e_sinks (drop_sink cx (set_aside_unheard cx ?b))))
          (drop_sink cx (set_aside_unheard cx ?b)))\<lparr>e_released := Some None\<rparr>)"
    by (intro core_inv_released) (simp_all add: core_inv_drop_sink)
  then show ?thesis
    unfolding output_lost_def Let_def engine_inv_def
    by (simp add: core_inv_emit core_inv_emit_position)
qed

lemma failed_keeps:
  assumes "core_inv A e"
  shows "engine_inv A (failed cx err e)"
  using output_lost_keeps [OF assms] inv_fail [of e A cx err] core_log [OF assms]
  by (auto simp: failed_def)

section \<open>Opening the device and starting a track\<close>

lemma open_sink_log:
  "e_current (snd (open_sink cx spec e)) = e_current e"
  "e_outgoing (snd (open_sink cx spec e)) = e_outgoing e"
  "e_state (snd (open_sink cx spec e)) = e_state e"
  "e_paused_at (snd (open_sink cx spec e)) = e_paused_at e"
  "e_generation (snd (open_sink cx spec e)) = e_generation e"
  "e_next (snd (open_sink cx spec e)) = e_next e"
  "e_adopting (snd (open_sink cx spec e)) = e_adopting e"
  "e_pause_when_ready (snd (open_sink cx spec e)) = e_pause_when_ready e"
  "e_release_when_ready (snd (open_sink cx spec e)) = e_release_when_ready e"
  "announced (e_events (snd (open_sink cx spec e))) = announced (e_events e)"
  "last_state (e_events (snd (open_sink cx spec e))) = last_state (e_events e)"
  by (simp_all add: open_sink_def Let_def split_def split: sum.split)

lemma heard_open_sink: "heard_track (snd (open_sink cx spec e)) = heard_track e"
  by (rule heard_track_cong) (simp_all add: open_sink_log)

lemma open_sink_keeps:
  assumes "core_inv A e" and "e_state e \<noteq> Stopped"
  shows "core_inv A (snd (open_sink cx spec e))"
  using assms
  by (auto simp: core_inv_def log_ok_def heard_open_sink open_sink_log has_source_def)

lemma start_track_keeps:
  assumes "log_ok e" and "e_current e = None" and "e_outgoing e = None" and "\<not> e_adopting e"
    and "e_generation e \<in> A"
  shows "fst (start_track cx track e) = None \<Longrightarrow> engine_inv A (snd (start_track cx track e))"
    and "log_ok (snd (start_track cx track e)) \<or> fst (start_track cx track e) = None"
proof -
  let ?e = "e\<lparr>e_waiting_until := None, e_polling := False\<rparr>"
  let ?spec = "source_spec_of (pr_source track)"
  define opened where
    "opened = (if sink_fits ?spec ?e then (None, ?e) else open_sink cx ?spec ?e)"
  let ?o = "snd opened"
  have o: "e_current ?o = None" "e_outgoing ?o = None" "e_state ?o = e_state e"
    "e_paused_at ?o = e_paused_at e" "\<not> e_adopting ?o" "e_generation ?o = e_generation e"
    "announced (e_events ?o) = Some None" "last_state (e_events ?o) = e_state e"
    using assms by (auto simp: opened_def open_sink_log log_ok_def heard_track_def)
  have st: "start_track cx track e =
      (case fst opened of
         Some err \<Rightarrow> (Some err, emit (TrackEnded (pr_meta track) Failed) ?o)
       | None \<Rightarrow>
           let (t, e) = run_w (cx_now cx) ?o;
               e = e\<lparr>e_current := Some (fresh_playing track t)\<rparr>;
               e = emit (TrackStarted (pr_meta track) ?spec False) e;
               s = (if e_pause_when_ready e then Paused else Playing);
               e = e\<lparr>e_pause_when_ready := False\<rparr>;
               e = set_state cx s e;
               e = emit_position cx e
           in (None, release_if_asked cx e))"
    by (simp add: start_track_def opened_def Let_def split_def)
  show "log_ok (snd (start_track cx track e)) \<or> fst (start_track cx track e) = None"
    using o assms(1)
    by (cases "fst opened") (simp_all add: st log_ok_def heard_track_def split_def Let_def)
  assume "fst (start_track cx track e) = None"
  then have "fst opened = None" by (cases "fst opened") (simp_all add: st)
  let ?t = "run_w (cx_now cx) ?o"
  let ?c = "(emit (TrackStarted (pr_meta track) ?spec False)
      ((snd ?t)\<lparr>e_current := Some (fresh_playing track (fst ?t))\<rparr>))\<lparr>e_pause_when_ready := False\<rparr>"
  let ?s = "if e_pause_when_ready ?o then Paused else Playing"
  have "log_ok ?c"
    using o assms(1) by (simp add: log_ok_def heard_track_def fresh_playing_def)
  then have "log_ok (set_state cx ?s ?c)" by (rule log_ok_set_state)
  then have "core_inv A (set_state cx ?s ?c)"
    using o assms(5) by (simp add: core_inv_def has_source_def fresh_playing_def)
  then have k: "engine_inv A (emit_position cx (set_state cx ?s ?c))"
    by (simp add: engine_inv_def core_inv_emit_position told_emit_position)
  have "engine_inv A (release_if_asked cx e')" if "engine_inv A e'" for e' :: "'a engine"
  proof -
    have "engine_inv A (e'\<lparr>e_release_when_ready := None\<rparr>)"
      using that by (auto simp: engine_inv_def core_inv_def log_ok_def heard_track_def has_source_def
          told_def status_of_def)
    then show ?thesis
      using that release_keeps by (auto simp: release_if_asked_def split: option.split)
  qed
  then show "engine_inv A (snd (start_track cx track e))"
    using k \<open>fst opened = None\<close> by (simp add: st Let_def split_def)
qed

end
