(* ===== verification/Engine_Loop.thy ===== *)
theory Engine_Loop
  imports Engine_Keeps
begin

text \<open>
  The invariant of \<^verbatim>\<open>Engine_Inv\<close> through the rest of the audio thread: the end of a track, seeking,
  resuming, switching outputs, writing, every message, and the loop.
\<close>

section \<open>Between two tracks\<close>

definition between :: "nat set \<Rightarrow> 'w engine \<Rightarrow> bool" where
  "between A e \<longleftrightarrow> log_ok e \<and> e_current e = None \<and> e_outgoing e = None"

lemma between_request: "between A e \<Longrightarrow> engine_inv A (request_load cx t e)"
  by (simp add: between_def inv_request_load)

lemma between_cong:
  assumes "e_events e' = e_events e" "e_outgoing e' = e_outgoing e" "e_current e' = e_current e"
    "e_state e' = e_state e" "e_paused_at e' = e_paused_at e"
  shows "between A e' = between A e"
  using assms log_ok_cong [OF assms] by (simp add: between_def)

lemma start_opened_ahead_keeps:
  assumes "between A e" and "\<not> e_adopting e" and "e_generation e \<in> A"
  shows "engine_inv A (start_opened_ahead cx track e)"
proof -
  let ?r = "run_w (sup_started (cx_supplier cx) (tm_track (pr_meta track))) e"
  have b: "between A (snd ?r)" using assms(1) between_cong [of "snd ?r" e A] by simp
  then have l: "log_ok (snd ?r)" "e_current (snd ?r) = None" "e_outgoing (snd ?r) = None"
    by (simp_all add: between_def)
  have k: "fst (start_track cx track (snd ?r)) = None \<Longrightarrow>
        engine_inv A (snd (start_track cx track (snd ?r)))"
    "log_ok (snd (start_track cx track (snd ?r))) \<or> fst (start_track cx track (snd ?r)) = None"
    using start_track_keeps [OF l, of A cx track] assms(2,3) by auto
  show ?thesis
    using between_request [OF b, of cx] k
    by (auto simp: start_opened_ahead_def Let_def split_def inv_fail split: option.split)
qed

section \<open>The end of a track\<close>

lemma core_generation:
  "core_inv A e \<Longrightarrow> e_state e = Playing \<or> e_state e = Paused \<or> e_next e \<noteq> None \<Longrightarrow>
     e_generation e \<in> A"
  unfolding core_inv_def by blast

lemma core_adopting:
  "core_inv A e \<Longrightarrow> e_state e \<noteq> Loading \<Longrightarrow> \<not> e_adopting e"
  unfolding core_inv_def by blast

lemma core_current:
  "core_inv A e \<Longrightarrow> (e_current e = None) = (e_state e \<notin> {Playing, Paused, Seeking})"
  unfolding core_inv_def by blast

lemma core_outgoing:
  "core_inv A e \<Longrightarrow> e_state e \<notin> {Playing, Paused} \<Longrightarrow> e_outgoing e = None"
  unfolding core_inv_def by blast

lemma finish_failed:
  assumes "core_inv A e" and "\<not> fst (finish_track_completed cx e)"
  shows "engine_inv A (snd (finish_track_completed cx e))"
  using assms by (auto simp: finish_track_completed_def Let_def split_def intro!: failed_keeps
      split: option.splits)

lemma finish_done:
  assumes "core_inv A e" and "e_outgoing e = None" and "fst (finish_track_completed cx e)"
  shows "between A (snd (finish_track_completed cx e))"
    and "e_state (snd (finish_track_completed cx e)) = e_state e"
    and "e_generation (snd (finish_track_completed cx e)) = e_generation e"
    and "e_adopting (snd (finish_track_completed cx e)) = e_adopting e"
    and "e_next (snd (finish_track_completed cx e)) = e_next e"
    and "e_pause_when_ready (snd (finish_track_completed cx e)) = e_pause_when_ready e"
proof -
  define d where "d = (case e_sink e of None \<Rightarrow> (None, e) | Some s \<Rightarrow> run_w (cx_drain cx s) e)"
  have d: "e_outgoing (snd d) = None" "e_state (snd d) = e_state e"
    "e_generation (snd d) = e_generation e" "e_adopting (snd d) = e_adopting e"
    "e_next (snd d) = e_next e" "e_pause_when_ready (snd d) = e_pause_when_ready e"
    using assms(2) by (simp_all add: d_def split: option.split)
  have "core_inv A (snd d) = core_inv A e"
    by (simp add: d_def split: option.split)
  then have l: "log_ok (emit_position cx (snd d))" using assms(1) by auto
  have on: "e_outgoing (emit_position cx (snd d)) = None" using d(1) by simp
  have f: "finish_track_completed cx e =
      (True, case e_current (emit_position cx (snd d)) of
         None \<Rightarrow> emit_position cx (snd d)
       | Some p \<Rightarrow> emit (TrackEnded (p_meta p) Completed)
           ((emit_position cx (snd d))\<lparr>e_current := None\<rparr>))"
    using assms(3) by (auto simp: finish_track_completed_def d_def Let_def split_def split: option.splits)
  show "between A (snd (finish_track_completed cx e))"
    using l by (auto simp: f between_def log_ok_def heard_track_def on split: option.split)
  show "e_state (snd (finish_track_completed cx e)) = e_state e"
    "e_generation (snd (finish_track_completed cx e)) = e_generation e"
    "e_adopting (snd (finish_track_completed cx e)) = e_adopting e"
    "e_next (snd (finish_track_completed cx e)) = e_next e"
    "e_pause_when_ready (snd (finish_track_completed cx e)) = e_pause_when_ready e"
    using d by (simp_all add: f split: option.split)
qed

lemma track_completed_keeps:
  assumes "core_inv A e" and "e_outgoing e = None"
  shows "engine_inv A (track_completed cx e)"
  using finish_failed [OF assms(1), of cx] finish_done(1) [OF assms, of cx] between_request
  by (auto simp: track_completed_def Let_def split_def)

lemma handover_keeps:
  assumes "core_inv A e" and "told e" and "e_state e = Playing" and "e_outgoing e = None"
  shows "engine_inv A (handover cx track e)"
proof -
  obtain p where p: "e_current e = Some p" using core_current [OF assms(1)] assms(3) by auto
  define h where "h = e\<lparr>e_outgoing := Some (joined_outgoing p),
    e_current := Some (joined_playing track p)\<rparr>"
  have "core_inv A h"
    using assms p by (simp add: h_def joined_outgoing_def joined_playing_def core_inv_def log_ok_def
        heard_track_def has_source_def)
  moreover have "told h"
    using assms p by (simp add: h_def joined_outgoing_def told_def status_of_def)
  ultimately have "engine_inv A (check_crossing cx h)"
    using crossing_keeps [of A h cx] by (simp add: engine_inv_def)
  then show ?thesis using p by (simp add: handover_def h_def)
qed

lemma told_irrelevant:
  "told (e\<lparr>e_next := n\<rparr>) = told e" "told (e\<lparr>e_next := n, e_waiting_until := w\<rparr>) = told e"
  "told (e\<lparr>e_waiting_until := w\<rparr>) = told e" "told (e\<lparr>e_polling := b\<rparr>) = told e"
  "told (e\<lparr>e_adopting := b\<rparr>) = told e" "told (e\<lparr>e_next := n, e_adopting := b\<rparr>) = told e"
  "told (e\<lparr>e_pause_when_ready := b\<rparr>) = told e"
  by (simp_all add: told_def status_of_def)

lemma core_irrelevant:
  "core_inv A (e\<lparr>e_waiting_until := w\<rparr>) = core_inv A e"
  "core_inv A (e\<lparr>e_polling := b\<rparr>) = core_inv A e"
  by (rule core_inv_cong; simp)+

lemma core_forget_next:
  "core_inv A e \<Longrightarrow> \<not> e_adopting e \<Longrightarrow> core_inv A (e\<lparr>e_next := None\<rparr>)"
  "core_inv A e \<Longrightarrow> \<not> e_adopting e \<Longrightarrow> core_inv A (e\<lparr>e_next := None, e_waiting_until := w\<rparr>)"
  by (auto simp: core_inv_def log_ok_def heard_track_def has_source_def)

lemma join_next_keeps:
  assumes "engine_inv A e" and "e_state e = Playing" and "e_outgoing e = None"
  shows "engine_inv A (join_next cx e)"
proof -
  have c: "core_inv A e" "told e" using assms(1) by (simp_all add: engine_inv_def)
  have na: "\<not> e_adopting e" using core_adopting [OF c(1)] assms(2) by simp
  have g: "e_generation e \<in> A" using core_generation [OF c(1)] assms(2) by simp
  show ?thesis
  proof (cases "e_next e")
    case None
    then show ?thesis using assms(1) by (simp add: join_next_def)
  next
    case (Some nx)
    show ?thesis
    proof (cases "nx_phase nx")
      case (Ready track)
      let ?e = "e\<lparr>e_next := None, e_waiting_until := None\<rparr>"
      have e: "core_inv A ?e" "told ?e"
        using core_forget_next(2) [OF c(1) na] c(2) by (simp_all add: told_irrelevant)
      have h: "engine_inv A (handover cx track ?e)"
        using handover_keeps [OF e] assms(2,3) by simp
      have f: "engine_inv A (snd (finish_track_completed cx ?e))"
        if "\<not> fst (finish_track_completed cx ?e)"
        by (rule finish_failed [OF e(1) that])
      have d: "engine_inv A (start_opened_ahead cx track (snd (finish_track_completed cx ?e)))"
        if "fst (finish_track_completed cx ?e)"
        using finish_done [OF e(1) _ that] assms(3) na g
        by (intro start_opened_ahead_keeps) simp_all
      show ?thesis
        using Some Ready h f d by (simp add: join_next_def Let_def split_def)
    qed (use Some core_forget_next(1) [OF c(1) na] c(2) in
          \<open>simp_all add: join_next_def engine_inv_def told_irrelevant\<close>)
  qed
qed

lemma wait_for_next_keeps:
  assumes "engine_inv A e" and "e_state e = Playing" and "e_outgoing e = None"
    and "e_next e = Some nx" and "nx_phase nx = Opening"
  shows "engine_inv A (wait_for_next cx e)"
proof -
  have c: "core_inv A e" "told e" using assms(1) by (simp_all add: engine_inv_def)
  define w where "w =
    (case e_waiting_until e of
       Some d \<Rightarrow> (d, e)
     | None \<Rightarrow>
         let (queued, e) = queued_frames cx e;
             rate = (case e_current e of None \<Rightarrow> 1 | Some p \<Rightarrow> sample_rate (p_spec p));
             (t, e) = run_w (cx_now cx) e;
             d = t + (frames_to_duration queued rate - wait_margin)
         in (d, e\<lparr>e_waiting_until := Some d\<rparr>))"
  let ?n = "run_w (cx_now cx) (snd w)"
  have n: "core_inv A (snd ?n)" "told (snd ?n)" "e_state (snd ?n) = Playing"
    "e_outgoing (snd ?n) = None" "e_next (snd ?n) = Some nx"
    using c assms(2-4)
    by (simp_all add: w_def Let_def split_def core_irrelevant told_irrelevant split: option.split)
  let ?f = "finish_track_completed cx ((snd ?n)\<lparr>e_waiting_until := None\<rparr>)"
  have wt: "wait_for_next cx e =
      (if fst ?n < fst w then (snd ?n)\<lparr>e_polling := True\<rparr>
       else if fst ?f then set_state cx Loading ((snd ?f)\<lparr>e_adopting := True\<rparr>) else snd ?f)"
    by (simp add: wait_for_next_def w_def Let_def split_def)
  have i: "core_inv A ((snd ?n)\<lparr>e_waiting_until := None\<rparr>)" using n(1) by (simp add: core_irrelevant)
  show ?thesis
  proof (cases "fst ?n < fst w")
    case True
    then show ?thesis using n by (simp add: wt engine_inv_def core_irrelevant told_irrelevant)
  next
    case late: False
    show ?thesis
    proof (cases "fst ?f")
      case False
      then show ?thesis using late finish_failed [OF i, of cx] by (simp add: wt)
    next
      case True
      note d = finish_done [OF i _ True]
      let ?a = "(snd ?f)\<lparr>e_adopting := True\<rparr>"
      have "log_ok (snd ?f)" using d(1) n(4) by (simp add: between_def)
      then have "log_ok ?a" by (simp add: log_ok_def heard_track_def)
      then have "log_ok (set_state cx Loading ?a)" by (rule log_ok_set_state)
      moreover have "\<not> e_pause_when_ready (snd ?n)" using n(1,3) by (auto simp: core_inv_def)
      ultimately have "core_inv A (set_state cx Loading ?a)"
        using d n core_generation [OF n(1)] assms(5)
        by (simp add: core_inv_def between_def has_source_def)
      then show ?thesis using late True by (simp add: wt engine_inv_def)
    qed
  qed
qed

lemma core_start_prefetch:
  "core_inv A e \<Longrightarrow> e_state e = Playing \<Longrightarrow> core_inv A (start_prefetch t e)"
  by (auto simp: start_prefetch_def Let_def core_inv_def log_ok_def heard_track_def has_source_def)

lemma start_prefetch_effect [simp]:
  "e_next (start_prefetch t e) =
     Some \<lparr>nx_track = t, nx_generation = e_prefetch_generation e + 1, nx_phase = Opening\<rparr>"
  by (simp add: start_prefetch_def Let_def)

lemma end_of_source_keeps:
  assumes "engine_inv A e" and "e_state e = Playing" and "e_outgoing e = None"
  shows "engine_inv A (end_of_source cx e)"
proof -
  have c: "core_inv A e" "told e" using assms(1) by (simp_all add: engine_inv_def)
  have over: "engine_inv A (track_completed cx (drop_next e'))"
    if "core_inv A e'" "e_outgoing e' = None" for e'
    using that by (intro track_completed_keeps core_inv_drop_next) simp_all
  show ?thesis
  proof (cases "sup_peek (cx_supplier cx) Adv_Auto (e_world e)")
    case (Peek_Next wanted)
    define a where "a = (case e_next e of
        Some nx \<Rightarrow> if nx_track nx \<noteq> wanted then drop_next e else e | None \<Rightarrow> e)"
    define b where "b = (if e_next a = None then start_prefetch wanted a else a)"
    have a: "core_inv A a" "told a" "e_state a = Playing" "e_outgoing a = None"
      using c assms(2,3) by (auto simp: a_def core_inv_drop_next split: option.split)
    have b: "core_inv A b" "told b" "e_state b = Playing" "e_outgoing b = None"
      using a by (simp_all add: b_def core_start_prefetch)
    have i: "engine_inv A b" using b by (simp add: engine_inv_def)
    obtain nx where nx: "e_next b = Some nx" by (cases "e_next a") (auto simp: b_def)
    have eos: "end_of_source cx e = (case map_option nx_phase (e_next b) of
                Some (Ready _) \<Rightarrow> join_next cx b
              | Some Opening \<Rightarrow> wait_for_next cx b
              | _ \<Rightarrow> track_completed cx (drop_next b))"
      by (simp only: end_of_source_def Peek_Next peek.case Let_def a_def b_def)
    show ?thesis
      using join_next_keeps [OF i b(3,4), of cx] wait_for_next_keeps [OF i b(3,4) nx, of cx]
        over [OF b(1,4)]
      by (cases "nx_phase nx") (simp_all add: eos nx)
  qed (use over [OF c(1) assms(3)] in \<open>simp_all add: end_of_source_def\<close>)
qed

lemma source_finished_keeps:
  assumes "engine_inv A e" and "e_state e = Playing"
  shows "engine_inv A (source_finished cx e)"
  using assms end_of_source_keeps [OF assms, of cx] track_completed_keeps [of A e cx]
  by (auto simp: source_finished_def engine_inv_def core_irrelevant told_irrelevant)

lemma maybe_prefetch_keeps:
  assumes "engine_inv A e"
  shows "engine_inv A (maybe_prefetch cx e)"
proof -
  have c: "core_inv A e" "told e" using assms by (simp_all add: engine_inv_def)
  show ?thesis
  proof (cases "e_state e = Playing")
    case False
    then show ?thesis using assms by (simp add: maybe_prefetch_def)
  next
    case True
    have s: "engine_inv A (start_prefetch t e')" if "core_inv A e'" "told e'" "e_state e' = Playing"
      for t e'
      using that by (simp add: engine_inv_def core_start_prefetch)
    have d: "core_inv A (drop_next e)" "told (drop_next e)" "e_state (drop_next e) = Playing"
      using c True by (simp_all add: core_inv_drop_next)
    have di: "engine_inv A (drop_next e)" using d by (simp add: engine_inv_def)
    show ?thesis
      using s [OF c True] s [OF d] di assms
      by (auto simp: maybe_prefetch_def Let_def split: option.split peek.split)
  qed
qed

lemma prefetched_keeps:
  assumes "engine_inv A e"
  shows "engine_inv A (prefetched cx generation result e)"
proof (cases "e_next e")
  case None
  then show ?thesis using assms by (simp add: prefetched_def)
next
  case (Some nx)
  have c: "core_inv A e" "told e" using assms by (simp_all add: engine_inv_def)
  have g: "e_generation e \<in> A" using core_generation [OF c(1)] Some by simp
  let ?e = "e\<lparr>e_next := None, e_adopting := False\<rparr>"
  have ad: "between A ?e" if "e_adopting e"
    using c(1) that core_current [OF c(1)] core_outgoing [OF c(1)]
    by (auto simp: core_inv_def between_def log_ok_def heard_track_def)
  have ph: "engine_inv A (e\<lparr>e_next := Some (nx\<lparr>nx_phase := ph\<rparr>)\<rparr>)" if "\<not> e_adopting e" for ph
    using assms that Some
    by (auto simp: engine_inv_def core_inv_def log_ok_def heard_track_def has_source_def
        told_irrelevant)
  show ?thesis
  proof (cases "e_adopting e")
    case True
    have "engine_inv A (start_opened_ahead cx track ?e)" for track
      using ad [OF True] g by (intro start_opened_ahead_keeps) simp_all
    then show ?thesis
      using Some True between_request [OF ad [OF True]] assms
      by (simp add: prefetched_def split: sum.split)
  next
    case False
    then show ?thesis using Some ph [OF False] assms by (simp add: prefetched_def split: sum.split)
  qed
qed

lemma take_ready_effect:
  "e_current (snd (take_ready_next cx how e)) = e_current e"
  "e_outgoing (snd (take_ready_next cx how e)) = e_outgoing e"
  "e_generation (snd (take_ready_next cx how e)) = e_generation e"
  "e_adopting (snd (take_ready_next cx how e)) = e_adopting e"
  "e_state (snd (take_ready_next cx how e)) = e_state e"
  "log_ok (snd (take_ready_next cx how e)) = log_ok e"
  by (simp_all add: take_ready_next_def log_ok_def heard_track_def
      split: option.split next_phase.split)

lemma take_ready_Some:
  assumes "core_inv A e" and "fst (take_ready_next cx how e) = Some track"
  shows "e_generation e \<in> A" and "\<not> e_adopting e" and "e_outgoing e = None"
  using assms
  by (auto simp: take_ready_next_def core_inv_def split: if_splits option.splits next_phase.splits)

end
