(* ===== verification/Engine_Reach.thy ===== *)
theory Engine_Reach
  imports Engine_Loop
begin

text \<open>
  The invariant through seeking, resuming, switching outputs and writing, and then through every
  message and every round of the loop: it holds in every reachable state.
\<close>

section \<open>Seeking\<close>

lemma inv_emit:
  assumes "engine_inv A e" and "hears (announced (e_events e)) ev = announced (e_events e)"
    and "state_heard (last_state (e_events e)) ev = last_state (e_events e)"
  shows "engine_inv A (emit ev e)"
  using assms by (simp add: engine_inv_def core_inv_emit)

lemma core_flush: "core_inv A (flush_sink cx e) = core_inv A e"
  by (simp add: core_inv_def has_source_def)

lemma rebased_frame [simp]:
  "p_meta (rebased t p) = p_meta p" "p_source (rebased t p) = p_source p"
  "p_spec (rebased t p) = p_spec p" "p_duration (rebased t p) = p_duration p"
  by (simp_all add: rebased_def)

lemma core_rebase: "core_inv A e \<Longrightarrow> core_inv A (rebase t e)"
  by (auto simp: rebase_def core_inv_def log_ok_def heard_track_def has_source_def
      option.map_comp comp_def split: option.splits)

lemma told_emit_position_current:
  "e_current e \<noteq> None \<Longrightarrow> told (emit_position cx e)"
  by (auto simp: emit_position_def Let_def split_def split: option.split)

lemma finish_reposition_keeps:
  assumes "core_inv A e" and "e_current e \<noteq> None"
  shows "engine_inv A (finish_reposition cx t e)"
proof -
  have "core_inv A (emit (Seeked t) (rebase t e))"
    using core_rebase [OF assms(1)] by (intro core_inv_emit) simp_all
  moreover have "e_current (emit (Seeked t) (rebase t e)) \<noteq> None"
    using assms(2) by (simp add: rebase_def)
  ultimately show ?thesis
    by (simp add: finish_reposition_def engine_inv_def core_inv_emit_position
        told_emit_position_current del: hears_other)
qed

lemma seek_past_keeps:
  assumes "core_inv A e" and "e_outgoing e = None"
  shows "engine_inv A (seek_past_the_end cx e)"
proof -
  let ?r = "take_ready_next cx Adv_Auto e"
  define b where "b = (case e_current (flush_sink cx (snd ?r)) of
      None \<Rightarrow> flush_sink cx (snd ?r)
    | Some p \<Rightarrow> emit (TrackEnded (p_meta p) Completed)
        ((flush_sink cx (snd ?r))\<lparr>e_current := None\<rparr>))"
  have l: "log_ok (flush_sink cx (snd ?r))" using assms(1) by (auto simp: take_ready_effect)
  have "between A b"
    using l assms(2)
    by (auto simp: b_def between_def take_ready_effect log_ok_def heard_track_def split: option.split)
  moreover have "e_generation b = e_generation e" "e_adopting b = e_adopting e"
    by (simp_all add: b_def take_ready_effect split: option.split)
  moreover have "seek_past_the_end cx e =
      (case fst ?r of
         Some track \<Rightarrow> start_opened_ahead cx track b
       | None \<Rightarrow> request_load cx (LoadAdvance Adv_Auto) b)"
    by (simp add: seek_past_the_end_def Let_def split_def b_def)
  ultimately show ?thesis
    using take_ready_Some [OF assms(1), of cx Adv_Auto]
    by (cases "fst ?r") (simp_all add: between_request start_opened_ahead_keeps)
qed

lemma core_update_source:
  assumes "core_inv A e" and "e_current e = Some p" and "p_meta p' = p_meta p"
    and "p_source p' = None \<longrightarrow> p_source p = None"
  shows "core_inv A (e\<lparr>e_current := Some p'\<rparr>)"
  using assms by (auto simp: core_inv_def log_ok_def heard_track_def has_source_def)

lemma seek_in_place_keeps:
  assumes "engine_inv A e" and "e_outgoing e = None"
  shows "engine_inv A (seek_in_place cx t e)"
proof -
  have c: "core_inv A (flush_sink cx e)" "told (flush_sink cx e)"
    using assms(1) by (simp_all add: engine_inv_def core_flush)
  show ?thesis
  proof (cases "e_current e")
    case None
    then show ?thesis using c by (simp add: seek_in_place_def engine_inv_def)
  next
    case (Some p)
    show ?thesis
    proof (cases "p_source p")
      case None
      then show ?thesis using c Some by (simp add: seek_in_place_def engine_inv_def)
    next
      case src: (Some src)
      have "core_inv A ((flush_sink cx e)\<lparr>e_current := Some (p\<lparr>p_source := Some src'\<rparr>)\<rparr>)" for src'
        using c(1) Some by (intro core_update_source [where p = p]) simp_all
      note this core_log [OF this]
      then show ?thesis
        using Some src
        by (simp add: seek_in_place_def Let_def split_def finish_reposition_keeps inv_fail
            split: sum.split)
    qed
  qed
qed

lemma seek_forward_keeps:
  assumes "engine_inv A e"
  shows "engine_inv A (seek_forward_only cx t e)"
proof (cases "e_current e")
  case None
  then show ?thesis using assms by (simp add: seek_forward_only_def)
next
  case (Some p)
  have c: "core_inv A (flush_sink cx e)" using assms by (simp add: engine_inv_def core_flush)
  have "core_inv A ((flush_sink cx e)\<lparr>e_current := Some (p\<lparr>p_source :=
      map_option (source_skip_frames k) (p_source p)\<rparr>)\<rparr>)" for k
    using c Some by (intro core_update_source [where p = p]) simp_all
  then show ?thesis
    using Some assms
    by (simp add: seek_forward_only_def Let_def finish_reposition_keeps reject_seek_def inv_emit)
qed

lemma seek_reopen_keeps:
  assumes "log_ok e" and "e_outgoing e = None" and "e_current e = Some p"
  shows "engine_inv A (seek_reopen cx t was e)"
proof -
  let ?a = "rebase t ((flush_sink cx e)\<lparr>e_current := Some (p\<lparr>p_source := None\<rparr>)\<rparr>)"
  let ?b = "begin_load cx (LoadTrack (tm_track (p_meta p))) t Seeking was ?a"
  have a: "e_outgoing ?a = None" "e_current ?a = Some (rebased t (p\<lparr>p_source := None\<rparr>))"
    using assms(2) by (simp_all add: rebase_def)
  have "log_ok ?a"
    using assms by (simp add: rebase_def log_ok_def heard_track_def)
  then have "log_ok ?b" by (rule log_ok_begin_load)
  then have "core_inv A (emit (Seeked t) ?b)"
    using a by (intro core_inv_emit) (simp_all add: core_inv_def)
  then show ?thesis
    using assms(3)
    by (simp add: seek_reopen_def Let_def engine_inv_def core_inv_emit_position told_emit_position)
qed

lemma seek_during_keeps:
  assumes "engine_inv A e"
  shows "engine_inv A (seek_during_handover cx target e)"
proof (cases "e_outgoing e")
  case None
  then show ?thesis
    using assms by (simp add: seek_during_handover_def Let_def split_def engine_inv_def)
next
  case (Some og)
  let ?h = "snd (heard_position cx e)"
  let ?d = "drop_next (?h\<lparr>e_outgoing := None, e_current := None\<rparr>)"
  have log: "announced (e_events e) = Some (Some (og_meta og))" "last_state (e_events e) = e_state e"
    "(e_paused_at e \<noteq> None) = (e_state e = Paused)"
    using assms Some by (auto simp: engine_inv_def core_inv_def log_ok_def heard_track_def)
  have "between A (emit (TrackEnded (og_meta og) Completed) (flush_sink cx ?d))"
    using log by (simp add: between_def log_ok_def heard_track_def)
  then have over: "engine_inv A (request_load cx (LoadAdvance Adv_Auto)
      (emit (TrackEnded (og_meta og) Completed) (flush_sink cx ?d)))"
    by (rule between_request)
  have reopened: "engine_inv A (seek_reopen cx t was (e'\<lparr>e_current := Some p\<rparr>))"
    if "e_events e' = e_events e" "e_state e' = e_state e" "e_paused_at e' = e_paused_at e"
      "e_outgoing e' = None" "p_meta p = og_meta og" for t was e' p
    using that log by (intro seek_reopen_keeps) (simp_all add: log_ok_def heard_track_def)
  show ?thesis
    using Some over by (simp add: seek_during_handover_def Let_def split_def reopened)
qed

lemma seek_keeps:
  assumes "engine_inv A e"
  shows "engine_inv A (seek cx target e)"
proof -
  have rej: "engine_inv A (reject_seek why e')" if "engine_inv A e'" for why e'
    using that by (simp add: reject_seek_def inv_emit)
  show ?thesis
  proof (cases "e_outgoing e")
    case (Some og)
    then show ?thesis using seek_during_keeps [OF assms] by (simp add: seek_def)
  next
    case None
    show ?thesis
    proof (cases "e_current e")
      case no: None
      then show ?thesis using None rej [OF assms] by (simp add: seek_def)
    next
      case (Some p)
      let ?h = "snd (heard_position cx e)"
      have h: "engine_inv A ?h" "core_inv A ?h" "e_outgoing ?h = None" "e_current ?h = Some p"
        using assms None Some by (simp_all add: engine_inv_def)
      have "log_ok ?h" using h(2) by (rule core_log)
      note r = seek_reopen_keeps [OF this h(3,4)]
      show ?thesis
        using None Some rej [OF assms] rej [OF h(1)] seek_past_keeps [OF h(2,3)]
          seek_in_place_keeps [OF h(1,3)] seek_forward_keeps [OF h(1)] r h(1)
        by (cases "p_seek p") (simp_all add: seek_def Let_def split_def)
    qed
  qed
qed

lemma inv_release_if_asked:
  assumes "engine_inv A e"
  shows "engine_inv A (release_if_asked cx e)"
proof -
  have "engine_inv A (e\<lparr>e_release_when_ready := None\<rparr>)"
    using assms by (auto simp: engine_inv_def core_inv_def log_ok_def heard_track_def has_source_def
        told_def status_of_def)
  then show ?thesis
    using assms release_keeps by (auto simp: release_if_asked_def split: option.split)
qed

lemma finish_seek_keeps:
  assumes "engine_inv A e" and "e_state e = Seeking" and "e_generation e \<in> A"
  shows "fst (finish_seek cx track e) = None \<Longrightarrow> engine_inv A (snd (finish_seek cx track e))"
    and "log_ok (snd (finish_seek cx track e)) \<or> fst (finish_seek cx track e) = None"
proof -
  have c: "core_inv A e" "told e" using assms(1) by (simp_all add: engine_inv_def)
  obtain p where p: "e_current e = Some p" using core_current [OF c(1)] assms(2) by auto
  have o: "e_outgoing e = None" using core_outgoing [OF c(1)] assms(2) by simp
  have na: "\<not> e_adopting e" using core_adopting [OF c(1)] assms(2) by simp
  show "log_ok (snd (finish_seek cx track e)) \<or> fst (finish_seek cx track e) = None"
    using c(1) p by (auto simp: finish_seek_def Let_def split_def)
  assume ok: "fst (finish_seek cx track e) = None"
  then have spec: "source_spec_of (pr_source track) = p_spec p"
    using p by (simp add: finish_seek_def split: if_splits)
  have k: "engine_inv A (release_if_asked cx (emit_position cx (set_state cx s
      (e\<lparr>e_current := Some p', e_pause_when_ready := False\<rparr>))))"
    if "p_meta p' = p_meta p" "p_source p' \<noteq> None" "s = Playing \<or> s = Paused" for p' s
  proof (rule inv_release_if_asked)
    let ?c = "e\<lparr>e_current := Some p', e_pause_when_ready := False\<rparr>"
    have "log_ok ?c"
      using c(1) that(1) p o by (simp add: core_inv_def log_ok_def heard_track_def)
    then have "log_ok (set_state cx s ?c)" by (rule log_ok_set_state)
    then have "core_inv A (set_state cx s ?c)"
      using that na assms(3) by (auto simp: core_inv_def has_source_def)
    then show "engine_inv A (emit_position cx (set_state cx s ?c))"
      by (simp add: engine_inv_def core_inv_emit_position told_emit_position)
  qed
  show "engine_inv A (snd (finish_seek cx track e))"
    using p spec by (simp add: finish_seek_def Let_def split_def k)
qed

section \<open>Resuming and switching outputs\<close>

lemma reopen_output_keeps:
  assumes "core_inv A e" and "e_state e = Paused"
  shows "core_inv A (snd (reopen_output cx e))"
    and "e_state (snd (reopen_output cx e)) = Paused"
    and "fst (reopen_output cx e) \<noteq> None \<Longrightarrow> told e \<Longrightarrow> told (snd (reopen_output cx e))"
proof -
  show "core_inv A (snd (reopen_output cx e))" and "e_state (snd (reopen_output cx e)) = Paused"
    using open_sink_keeps [OF assms(1)] assms
    by (auto simp: reopen_output_def open_sink_log split: option.split)
  show "fst (reopen_output cx e) \<noteq> None \<Longrightarrow> told e \<Longrightarrow> told (snd (reopen_output cx e))"
    by (auto simp: reopen_output_def open_sink_def drop_sink_def Let_def split_def
        split: option.splits sum.splits if_splits)
qed

lemma core_set_state_playing:
  assumes "core_inv A e" and "e_state e = Paused"
  shows "engine_inv A (set_state cx Playing e)"
proof -
  have "log_ok (set_state cx Playing e)" using assms(1) by (intro log_ok_set_state) auto
  then show ?thesis
    using assms by (simp add: engine_inv_def core_inv_def has_source_def)
qed

lemma resume_keeps:
  assumes "core_inv A e" and "told e \<or> e_state e = Paused \<and> e_sink e \<noteq> None"
  shows "engine_inv A (resume cx e)"
proof (cases "e_state e")
  case Paused
  let ?r = "reopen_output cx e"
  note r = reopen_output_keeps [OF assms(1) Paused, of cx]
  show ?thesis
  proof (cases "fst ?r")
    case (Some why)
    have "told e" using assms(2) Some by (auto simp: reopen_output_def split: option.splits if_splits)
    then have "engine_inv A (emit (ErrorEvent (show_error why)) (snd ?r))"
      using r Some by (intro inv_emit) (simp_all add: engine_inv_def)
    then show ?thesis using Paused Some by (simp add: resume_def Let_def split_def)
  next
    case None
    show ?thesis
    proof (cases "\<exists>p s. e_current (snd ?r) = Some p \<and> e_sink (snd ?r) = Some s \<and> p_sink_paused p")
      case False
      have "engine_inv A (set_state cx Playing (snd ?r))"
        by (rule core_set_state_playing [OF r(1,2)])
      then show ?thesis
        using Paused None False by (auto simp: resume_def Let_def split_def split: option.split)
    next
      case True
      then obtain p s where ps: "e_current (snd ?r) = Some p" "e_sink (snd ?r) = Some s"
        "p_sink_paused p" by blast
      let ?w = "run_w (cx_resume cx s) (snd ?r)"
      have "log_ok (snd ?w)" using r(1) by (intro core_log [of A]) simp
      then have f: "engine_inv A (fail cx err (snd ?w))" for err by (rule inv_fail)
      have "core_inv A ((snd ?w)\<lparr>e_current := Some (p\<lparr>p_sink_paused := False\<rparr>)\<rparr>)"
        using r(1) ps by (intro core_inv_update_current [where p = p]) simp_all
      then have "engine_inv A (set_state cx Playing
          ((snd ?w)\<lparr>e_current := Some (p\<lparr>p_sink_paused := False\<rparr>)\<rparr>))"
        using r(2) by (intro core_set_state_playing) simp_all
      then show ?thesis
        using Paused None ps f
        by (simp add: resume_def Let_def split_def split: option.split)
    qed
  qed
qed (use assms in \<open>auto simp: resume_def engine_inv_def core_inv_def log_ok_def heard_track_def
      has_source_def told_irrelevant\<close>)

lemma core_answer_waiting: "core_inv A e \<Longrightarrow> core_inv A (answer_waiting b e)"
  by (simp add: core_inv_def log_ok_def heard_track_def has_source_def)

lemma core_unreleased: "core_inv A e \<Longrightarrow> core_inv A (e\<lparr>e_released := None\<rparr>)"
  by (simp add: core_inv_def log_ok_def heard_track_def has_source_def)

lemma move_output_keeps:
  assumes "core_inv A e"
  shows "engine_inv A (move_output cx sinks chan was e)"
proof -
  define m where "m = publish_status (replace_sinks cx sinks
      (answer_waiting True ((drop_sink cx e)\<lparr>e_released := None\<rparr>)))"
  have c: "core_inv A m"
    unfolding m_def using assms
    by (simp add: core_answer_waiting core_unreleased core_inv_drop_sink)
  have t: "told m" by (simp add: m_def)
  have sw: "engine_inv A (switched chan result e') = engine_inv A e'" for result e'
    by (simp add: engine_inv_def)
  have mv: "move_output cx sinks chan was e =
      (if was \<and> e_state m = Paused then
         (case fst (reopen_output cx m) of
            None \<Rightarrow> switched chan None (resume cx (snd (reopen_output cx m)))
          | Some err \<Rightarrow> switched chan (Some (show_error err))
              (emit (ErrorEvent (show_error err)) (snd (reopen_output cx m))))
       else switched chan None m)"
    by (simp add: move_output_def m_def Let_def split_def)
  show ?thesis
  proof (cases "was \<and> e_state m = Paused")
    case False
    then show ?thesis unfolding mv using c t by (auto simp: sw engine_inv_def)
  next
    case True
    then have p: "e_state m = Paused" by simp
    note r = reopen_output_keeps [OF c p, of cx]
    show ?thesis
    proof (cases "fst (reopen_output cx m)")
      case (Some err)
      have "engine_inv A (snd (reopen_output cx m))"
        using r Some t by (simp add: engine_inv_def)
      then have "engine_inv A (emit (ErrorEvent (show_error err)) (snd (reopen_output cx m)))"
        by (intro inv_emit) simp_all
      then show ?thesis unfolding mv using True Some by (simp add: sw)
    next
      case None
      obtain q where q: "e_current m = Some q" using core_current [OF c] p by auto
      have "e_sink (snd (reopen_output cx m)) \<noteq> None"
        using None q by (auto simp: reopen_output_def open_sink_def Let_def split_def
            split: if_splits sum.splits)
      then have "engine_inv A (resume cx (snd (reopen_output cx m)))"
        using r(1,2) by (intro resume_keeps) simp_all
      then show ?thesis unfolding mv using True None by (simp add: sw)
    qed
  qed
qed

lemma set_output_keeps:
  assumes "engine_inv A e"
  shows "engine_inv A (set_output cx sinks chan e)"
proof -
  have c: "core_inv A (drop_next e)" "told (drop_next e)"
    using assms by (simp_all add: engine_inv_def core_inv_drop_next)
  note p = pause_keeps [OF c(1), of cx]
  have "engine_inv A (switched chan None (replace_sinks cx sinks (pause cx (drop_next e))))"
    using p c(2) by (simp add: engine_inv_def)
  moreover have "engine_inv A (move_output cx sinks chan was
      (set_aside_unheard cx (pause cx (drop_next e))))" for was
    by (intro move_output_keeps set_aside_keeps p(1))
  moreover have "engine_inv A (move_output cx sinks chan was (drop_next e))" for was
    by (intro move_output_keeps c(1))
  ultimately show ?thesis by (simp add: set_output_def Let_def)
qed

section \<open>Writing\<close>

lemma wrote_frame [simp]:
  "p_meta (wrote k n p) = p_meta p" "p_source (wrote k n p) = p_source p"
  "p_spec (wrote k n p) = p_spec p" "p_duration (wrote k n p) = p_duration p"
  "p_position (wrote k n p) = p_position p"
  by (simp_all add: wrote_def Let_def)

lemma told_update_current:
  assumes "told e" and "e_current e = Some p" and "p_meta p' = p_meta p" "p_spec p' = p_spec p"
    "p_position p' = p_position p" "p_duration p' = p_duration p"
  shows "told (e\<lparr>e_current := Some p'\<rparr>)"
  using assms by (simp add: told_def status_of_def split: option.splits)

lemma write_chunk_keeps:
  assumes "engine_inv A e" and "e_current e = Some q" and "p_meta p = p_meta q"
    and "p_source p \<noteq> None" and "p_spec p = p_spec q" and "p_position p = p_position q"
    and "p_duration p = p_duration q"
  shows "core_inv A (snd (write_chunk cx s p e))"
    and "fst (write_chunk cx s p e) = None \<Longrightarrow> engine_inv A (snd (write_chunk cx s p e))"
proof -
  define w where "w = run_w (cx_write cx s (fst (next_write (e_outgoing e) p)))
      (do_w (cx_set_gain cx s (snd (next_write (e_outgoing e) p))) e)"
  have c: "core_inv A (snd w)" "told (snd w)" "e_current (snd w) = Some q"
    using assms(1,2) by (simp_all add: w_def engine_inv_def)
  have u: "engine_inv A ((snd w)\<lparr>e_current := Some p'\<rparr>)"
    if "p_meta p' = p_meta q" "p_source p' \<noteq> None" "p_spec p' = p_spec q"
      "p_position p' = p_position q" "p_duration p' = p_duration q" for p'
    using core_update_source [OF c(1,3), of p'] told_update_current [OF c(2,3), of p'] that
    by (simp add: engine_inv_def)
  have wc: "write_chunk cx s p e =
      (case fst w of
         Inl err \<Rightarrow> (Some err, (snd w)\<lparr>e_current := Some p\<rparr>)
       | Inr frames \<Rightarrow>
           let p = wrote (sk_capacity s) frames p;
               (t, e) = run_w (cx_now cx) ((snd w)\<lparr>e_current := Some p\<rparr>)
           in (None, if cx_position_interval cx \<le> t - p_last_position_at p
                     then maybe_prefetch cx (emit_position cx e) else e))"
    by (simp add: write_chunk_def w_def Let_def split_def cong: sum.case_cong)
  have n: "engine_inv A (snd (run_w (cx_now cx) e'))"
    "engine_inv A (maybe_prefetch cx (emit_position cx (snd (run_w (cx_now cx) e'))))"
    if "engine_inv A e'" for e'
  proof -
    show n1: "engine_inv A (snd (run_w (cx_now cx) e'))"
      using that by (simp add: engine_inv_def)
    show "engine_inv A (maybe_prefetch cx (emit_position cx (snd (run_w (cx_now cx) e'))))"
      using n1 by (intro maybe_prefetch_keeps)
        (simp add: engine_inv_def core_inv_emit_position told_emit_position)
  qed
  have all: "engine_inv A (snd (write_chunk cx s p e))"
    using u [of p] n [OF u [of "wrote (sk_capacity s) (projr (fst w)) p"]] assms(3-7)
    by (cases "fst w") (simp_all add: wc Let_def split_def)
  then show "core_inv A (snd (write_chunk cx s p e))" by (simp add: engine_inv_def)
  show "fst (write_chunk cx s p e) = None \<Longrightarrow> engine_inv A (snd (write_chunk cx s p e))"
    using all .
qed

lemma crossing_state:
  "e_current (check_crossing cx e) \<noteq> None \<Longrightarrow> e_state (check_crossing cx e) = e_state e"
  by (auto simp: check_crossing_def Let_def split_def request_load_def split: option.splits)

lemma play_round_keeps:
  assumes "engine_inv A e" and "e_state e = Playing"
  shows "engine_inv A (play_round cx e)"
proof -
  let ?c = "check_crossing cx (e\<lparr>e_polling := False\<rparr>)"
  have "core_inv A (e\<lparr>e_polling := False\<rparr>)" "told (e\<lparr>e_polling := False\<rparr>)"
    using assms(1) by (simp_all add: engine_inv_def core_irrelevant told_irrelevant)
  then have c: "core_inv A ?c" "told ?c" using crossing_keeps by blast+
  have ci: "engine_inv A ?c" using c by (simp add: engine_inv_def)
  show ?thesis
  proof (cases "e_current ?c")
    case None
    then show ?thesis using ci by (simp add: play_round_def play_step_def Let_def)
  next
    case (Some p)
    have st: "e_state ?c = Playing" using crossing_state [of cx "e\<lparr>e_polling := False\<rparr>"] Some assms(2) by simp
    have upd: "engine_inv A (?c\<lparr>e_current := Some p'\<rparr>)"
      if "p_meta p' = p_meta p" "p_source p' \<noteq> None" "p_spec p' = p_spec p"
        "p_position p' = p_position p" "p_duration p' = p_duration p" for p'
      using core_update_source [OF c(1) Some, of p'] told_update_current [OF c(2) Some, of p'] that
      by (simp add: engine_inv_def)
    have fin: "engine_inv A (source_finished cx e')" if "engine_inv A e'" "e_state e' = Playing" for e'
      using that by (rule source_finished_keeps)
    have fl: "engine_inv A (failed cx err e')" if "core_inv A e'" for err e'
      using that by (rule failed_keeps)
    have wr: "engine_inv A (case fst (write_chunk cx s p' ?c) of None \<Rightarrow> snd (write_chunk cx s p' ?c)
        | Some err \<Rightarrow> failed cx err (snd (write_chunk cx s p' ?c)))"
      if "p_meta p' = p_meta p" "p_source p' \<noteq> None" "p_spec p' = p_spec p"
        "p_position p' = p_position p" "p_duration p' = p_duration p" for s p'
      using write_chunk_keeps [OF ci Some that, of cx s] fl by (auto split: option.split)
    let ?step = "(if p_source_done p then (None, source_finished cx ?c)
             else case e_sink ?c of
                    None \<Rightarrow> (Some (mk_error (Message ''playing without an audio output'')), ?c)
                  | Some s \<Rightarrow>
                      (case p_source p of
                         None \<Rightarrow> (Some (mk_error (Message ''playing without a source'')), ?c)
                       | Some src \<Rightarrow>
                           if length (p_pending p) \<le> p_offset p then
                             (case source_next_chunk src of
                                (Inl err, src) \<Rightarrow>
                                  (Some err, ?c\<lparr>e_current := Some (p\<lparr>p_source := Some src\<rparr>)\<rparr>)
                              | (Inr None, src) \<Rightarrow>
                                  (None, source_finished cx
                                     (?c\<lparr>e_current := Some (p\<lparr>p_source := Some src,
                                                             p_source_done := True\<rparr>)\<rparr>))
                              | (Inr (Some chunk), src) \<Rightarrow>
                                  write_chunk cx s (p\<lparr>p_source := Some src, p_pending := chunk,
                                                      p_offset := 0\<rparr>) ?c)
                           else write_chunk cx s p ?c))"
    have pr: "play_round cx e =
        (case fst ?step of None \<Rightarrow> snd ?step | Some err \<Rightarrow> failed cx err (snd ?step))"
      using Some by (simp only: play_round_def play_step_def Let_def split_def option.case)
    have f1: "engine_inv A (source_finished cx
        (?c\<lparr>e_current := Some (p\<lparr>p_source := Some src, p_source_done := True\<rparr>)\<rparr>))" for src
      using st by (intro fin upd) simp_all
    have f2: "engine_inv A (failed cx err (?c\<lparr>e_current := Some (p\<lparr>p_source := Some src\<rparr>)\<rparr>))"
      for err src
      using upd [of "p\<lparr>p_source := Some src\<rparr>"] by (intro fl) (simp add: engine_inv_def)
    show ?thesis
    proof (cases "p_source_done p \<or> e_sink ?c = None \<or> p_source p = None")
      case True
      then show ?thesis
        unfolding pr using fin [OF ci st] fl [OF c(1)] by (auto split: option.split)
    next
      case False
      then obtain s src where ss: "e_sink ?c = Some s" "p_source p = Some src" "\<not> p_source_done p"
        by auto
      have w1: "engine_inv A (case fst (write_chunk cx s p ?c) of None \<Rightarrow> snd (write_chunk cx s p ?c)
          | Some err \<Rightarrow> failed cx err (snd (write_chunk cx s p ?c)))"
        using ss by (intro wr) simp_all
      have w2: "engine_inv A (case fst (write_chunk cx s
            (p\<lparr>p_source := Some src', p_pending := chunk, p_offset := 0\<rparr>) ?c) of
            None \<Rightarrow> snd (write_chunk cx s
              (p\<lparr>p_source := Some src', p_pending := chunk, p_offset := 0\<rparr>) ?c)
          | Some err \<Rightarrow> failed cx err (snd (write_chunk cx s
              (p\<lparr>p_source := Some src', p_pending := chunk, p_offset := 0\<rparr>) ?c)))" for src' chunk
        by (rule wr) simp_all
      obtain r src' where n: "source_next_chunk src = (r, src')" by fastforce
      show ?thesis
      proof (cases "length (p_pending p) \<le> p_offset p")
        case False
        then show ?thesis unfolding pr using ss w1 by simp
      next
        case True
        consider err where "r = Inl err" | "r = Inr None" | chunk where "r = Inr (Some chunk)"
          by (metis not_Some_eq sum.exhaust)
        then show ?thesis
        proof cases
          case 1
          then show ?thesis unfolding pr using ss n True f2 [of err src'] by simp
        next
          case 2
          then show ?thesis unfolding pr using ss n True f1 [of src'] by simp
        next
          case (3 chunk)
          then show ?thesis unfolding pr using ss n True w2 [of chunk src'] by simp
        qed
      qed
    qed
  qed
qed

section \<open>Every message, every round\<close>

lemma interrupt_between: "core_inv A e \<Longrightarrow> between A (interrupt_current cx e)"
  using interrupt_effect [of e cx] by (auto simp: between_def)

lemma interrupt_frame [simp]:
  "e_generation (interrupt_current cx e) = e_generation e"
  "e_adopting (interrupt_current cx e) \<Longrightarrow> e_adopting e"
  by (simp_all add: interrupt_current_def Let_def split: option.splits)

lemma command_keeps:
  assumes "engine_inv A e"
  shows "engine_inv A (command cx c e)"
proof -
  have c: "core_inv A e" "told e" using assms by (simp_all add: engine_inv_def)
  have load: "engine_inv A (request_load cx t (interrupt_current cx e'))" if "core_inv A e'" for t e'
    by (rule between_request [OF interrupt_between [OF that]])
  show ?thesis
  proof (cases c)
    case (Play t)
    have "engine_inv A (request_load cx t e)" if "e_state e = Stopped" for t
    proof (rule inv_request_load [OF core_log [OF c(1)]])
      show "e_current e = None" using core_current [OF c(1)] that by simp
      show "e_outgoing e = None" using core_outgoing [OF c(1)] that by simp
    qed
    then show ?thesis using Play load [OF c(1)] assms by (cases t) auto
  next
    case Next
    let ?r = "take_ready_next cx Adv_Next e"
    let ?i = "interrupt_current cx (snd ?r)"
    have "log_ok (snd ?r)" using core_log [OF c(1)] by (simp add: take_ready_effect)
    then have b: "between A ?i" using interrupt_effect [of "snd ?r" cx] by (simp add: between_def)
    have "engine_inv A (start_opened_ahead cx track ?i)" if "fst ?r = Some track" for track
      using take_ready_Some [OF c(1) that] b interrupt_frame(2) [of cx "snd ?r"]
      by (intro start_opened_ahead_keeps) (auto simp: take_ready_effect)
    then show ?thesis
      using Next between_request [OF b] by (simp add: Let_def split_def split: option.split)
  next
    case Previous
    have "core_inv A (snd (heard_position cx e))" using c(1) by simp
    then show ?thesis using Previous load by (simp add: Let_def split_def)
  qed (use assms c in \<open>simp_all add: inv_stop core_log seek_keeps release_keeps resume_keeps
         pause_keeps engine_inv_def [of A "pause cx e"]\<close>)
qed

lemma core_inv_mono: "core_inv A e \<Longrightarrow> A \<subseteq> B \<Longrightarrow> core_inv B e"
  unfolding core_inv_def by blast

lemma handle_keeps:
  assumes "engine_inv A e" and "\<forall>g. answers_load m = Some g \<longrightarrow> g \<notin> A"
  shows "engine_inv (A \<union> set_option (answers_load m)) (snd (handle cx m e))"
proof -
  have c: "core_inv A e" "told e" using assms(1) by (simp_all add: engine_inv_def)
  have log: "log_ok e" using c(1) by (rule core_log)
  show ?thesis
  proof (cases m)
    case (MsgLoaded g track)
    let ?B = "insert g A"
    have B: "engine_inv ?B e"
      using assms(1) core_inv_mono [of A e ?B] by (auto simp: engine_inv_def)
    show ?thesis
    proof (cases "is_awaited g e")
      case False
      then show ?thesis using MsgLoaded B by simp
    next
      case True
      then have g: "e_generation e = g" "g \<notin> A" using assms(2) MsgLoaded by (auto simp: is_awaited_def)
      show ?thesis
      proof (cases "e_state e = Seeking")
        case seeking: True
        have "e_generation e \<in> ?B" using g by simp
        note k = finish_seek_keeps [OF B seeking this, of cx track]
        show ?thesis
          using MsgLoaded True seeking k
          by (cases "fst (finish_seek cx track e)") (auto simp: Let_def split_def inv_fail)
      next
        case False
        then have "e_state e = Loading" using True by (simp add: is_awaited_def)
        then have s: "e_current e = None" "e_outgoing e = None"
          using core_current [OF c(1)] core_outgoing [OF c(1)] by auto
        have na: "\<not> e_adopting e" using c(1) g unfolding core_inv_def by blast
        have "e_generation e \<in> ?B" using g by simp
        note k = start_track_keeps [OF log s na this, of cx track]
        show ?thesis
          using MsgLoaded True False k
          by (cases "fst (start_track cx track e)") (auto simp: Let_def split_def inv_fail)
      qed
    qed
  next
    case (MsgLoadFailed g err)
    then show ?thesis
      using assms(1) core_inv_mono [of A e "insert g A"] inv_fail [OF log]
      by (auto simp: engine_inv_def)
  next
    case (MsgQueueExhausted g)
    have "log_ok (emit QueueExhausted e)" using log by (simp add: log_ok_def heard_track_def)
    then show ?thesis
      using MsgQueueExhausted assms(1) core_inv_mono [of A e "insert g A"] inv_stop
      by (auto simp: engine_inv_def)
  qed (use assms(1) log in \<open>simp_all add: command_keeps prefetched_keeps release_keeps
         set_output_keeps inv_stop\<close>)
qed

definition run_inv :: "'w engine \<times> nat set \<Rightarrow> bool" where
  "run_inv s \<longleftrightarrow> engine_inv (snd s) (fst s)"

lemma run_inv_new: "run_inv (new_engine sinks w, {})"
  by (simp add: run_inv_def engine_inv_def core_inv_def log_ok_def new_engine_def announced_def
      last_state_def heard_track_def has_source_def told_def status_of_def initial_status_def)

lemma run_inv_step:
  assumes "run_inv s" and "loop_step cx s s'"
  shows "run_inv s'"
  using assms(2,1)
proof (induction rule: loop_step.induct)
  case (Outside e answered w)
  have "core_inv answered (e\<lparr>e_world := w\<rparr>) = core_inv answered e" by (rule core_inv_cong) simp_all
  then show ?case using Outside by (simp add: run_inv_def engine_inv_def told_def status_of_def)
next
  case (Told m e e' answered)
  then show ?case using handle_keeps [of answered e m cx] by (simp add: run_inv_def)
next
  case (Answered m g answered target at0 e e')
  then show ?case using handle_keeps [of answered e m cx] by (simp add: run_inv_def)
next
  case (PlayRound e answered)
  then show ?case by (simp add: run_inv_def play_round_keeps)
next
  case (IdleTimeout e t answered)
  then show ?case by (simp add: run_inv_def idle_release_def release_keeps)
next
  case (Exit m e e' answered)
  have "answers_load m = None" using Exit(1) by (cases m) auto
  then have "engine_inv answered e'"
    using handle_keeps [of answered e m cx] Exit by (simp add: run_inv_def)
  then show ?case by (auto simp: run_inv_def engine_inv_def [of _ e'] intro!: inv_stop)
next
  case (Disconnected e answered)
  then show ?case by (auto simp: run_inv_def engine_inv_def [of _ e] intro!: inv_stop)
qed

lemma reachable_inv: "reachable cx s \<Longrightarrow> run_inv s"
  by (induction rule: reachable.induct) (auto intro: run_inv_new run_inv_step)

end
