(* ===== verification/Engine_Audio.thy ===== *)
theory Engine_Audio
  imports Engine_Frame
begin

text \<open>
  What becomes of the samples: the audio a track still has to give, what one write takes of it,
  the window of recent samples the engine keeps, and what is set aside when the device is closed.
\<close>

section \<open>The samples still to come\<close>

fun source_rest :: "source \<Rightarrow> sample list" where
  "source_rest (SrcDecoder d) =
     drop (dec_skip_samples d) (decoded_samples (dec_stream d) (dec_track_id d))"
| "source_rest (SrcRaw samples next spec) = drop next samples"

lemma source_next_chunk_rest:
  "source_next_chunk src = (Inr (Some chunk), src') \<Longrightarrow> source_rest src = chunk @ source_rest src'"
  "source_next_chunk src = (Inr None, src') \<Longrightarrow> source_rest src = []"
proof -
  show "source_next_chunk src = (Inr (Some chunk), src') \<Longrightarrow> source_rest src = chunk @ source_rest src'"
  proof (cases src)
    case (SrcDecoder d)
    assume "source_next_chunk src = (Inr (Some chunk), src')"
    then show ?thesis
      using SrcDecoder
        next_chunk_loop_samples [of "dec_stream d" "dec_track_id d" "dec_skip_samples d"]
      by (auto simp: dec_next_chunk_def split: prod.splits)
  next
    case (SrcRaw samples pos spec)
    assume "source_next_chunk src = (Inr (Some chunk), src')"
    then have "\<not> length samples \<le> pos"
      "chunk = drop pos (take (min (pos + raw_chunk_frames * channels spec) (length samples)) samples)"
      "src' = SrcRaw samples (min (pos + raw_chunk_frames * channels spec) (length samples)) spec"
      using SrcRaw by (auto simp: Let_def split: if_splits)
    moreover have "drop pos samples = drop pos (take n samples) @ drop n samples" if "pos \<le> n" for n
    proof -
      have "drop pos samples = drop pos (take n samples @ drop n samples)" by simp
      also have "\<dots> = drop pos (take n samples) @ drop (pos - length (take n samples)) (drop n samples)"
        by (rule drop_append)
      finally show ?thesis using that by (cases "n \<le> length samples") auto
    qed
    ultimately show ?thesis using SrcRaw by simp
  qed
  show "source_next_chunk src = (Inr None, src') \<Longrightarrow> source_rest src = []"
  proof (cases src)
    case (SrcDecoder d)
    assume "source_next_chunk src = (Inr None, src')"
    then show ?thesis
      using SrcDecoder
        next_chunk_loop_samples [of "dec_stream d" "dec_track_id d" "dec_skip_samples d"]
      by (auto simp: dec_next_chunk_def split: prod.splits)
  qed (auto simp: Let_def split: if_splits)
qed

text \<open>What the track being played has yet to hand to the device.\<close>

definition to_play :: "playing \<Rightarrow> sample list" where
  "to_play p =
     drop (p_offset p) (p_pending p)
       @ (case p_source p of Some src \<Rightarrow> source_rest src | None \<Rightarrow> [])"

lemma wrote_to_play:
  assumes "0 < n" and "p_offset p + n * channels (p_spec p) \<le> length (p_pending p)"
  shows "to_play p = take (n * channels (p_spec p)) (drop (p_offset p) (p_pending p))
                       @ to_play (wrote cap n p)"
proof -
  have "drop (p_offset p + n * channels (p_spec p)) (p_pending p)
      = drop (n * channels (p_spec p)) (drop (p_offset p) (p_pending p))"
    by (simp add: add.commute)
  then show ?thesis
    using assms(1) unfolding to_play_def wrote_def Let_def
    by (simp del: drop_drop)
qed

section \<open>The window of recent samples\<close>

text \<open>
  \<open>written\<close> is everything handed to the sink since the position was last rebased. The window is
  its end, and holds all of it or at least what the sink can hold queued.
\<close>

definition recent_ok :: "nat \<Rightarrow> sample list \<Rightarrow> playing \<Rightarrow> bool" where
  "recent_ok capacity written p \<longleftrightarrow>
     length written = p_frames_written p * channels (p_spec p) \<and>
     (\<exists>old. written = old @ p_recent p) \<and>
     min (length written) (capacity * channels (p_spec p)) \<le> length (p_recent p)"

lemma recent_ok_fresh: "p_frames_written p = 0 \<Longrightarrow> p_recent p = [] \<Longrightarrow> recent_ok cap [] p"
  by (simp add: recent_ok_def)

lemma recent_ok_wrote:
  assumes "recent_ok cap written p" and "0 < n"
    and "p_offset p + n * channels (p_spec p) \<le> length (p_pending p)"
  shows "recent_ok cap
    (written @ take (n * channels (p_spec p)) (drop (p_offset p) (p_pending p))) (wrote cap n p)"
proof -
  let ?c = "channels (p_spec p)"
  let ?new = "take (n * ?c) (drop (p_offset p) (p_pending p))"
  obtain old where old: "written = old @ p_recent p" using assms(1) by (auto simp: recent_ok_def)
  have new: "drop (p_offset p) (take (p_offset p + n * ?c) (p_pending p)) = ?new"
    by (simp add: drop_take)
  have len: "length ?new = n * ?c" using assms(3) by simp
  let ?r = "p_recent p @ ?new"
  have rec: "p_recent (wrote cap n p)
      = (if length ?r > cap * ?c * 2 then drop (length ?r - cap * ?c) ?r else ?r)"
    using assms(2) new by (simp add: wrote_def Let_def)
  have "\<exists>old'. written @ ?new = old' @ p_recent (wrote cap n p)"
  proof (cases "length ?r > cap * ?c * 2")
    case True
    have "written @ ?new = (old @ take (length ?r - cap * ?c) ?r) @ drop (length ?r - cap * ?c) ?r"
      using old by (simp only: append.assoc append_take_drop_id)
    then show ?thesis unfolding rec using True by auto
  next
    case False
    have "written @ ?new = old @ ?r" using old by simp
    then show ?thesis unfolding rec using False by auto
  qed
  moreover have "min (length (written @ ?new)) (cap * ?c) \<le> length (p_recent (wrote cap n p))"
  proof (cases "length ?r > cap * ?c * 2")
    case True
    then have "cap * ?c \<le> length ?r" by linarith
    then have "length (drop (length ?r - cap * ?c) ?r) = cap * ?c"
      by (simp only: length_drop diff_diff_cancel)
    then have "length (p_recent (wrote cap n p)) = cap * ?c" unfolding rec using True by simp
    then show ?thesis by simp
  next
    case False
    have "min (length written) (cap * ?c) \<le> length (p_recent p)"
      using assms(1) unfolding recent_ok_def by (elim conjE)
    then have "min (length written + n * ?c) (cap * ?c) \<le> length (p_recent p) + n * ?c"
      by linarith
    then show ?thesis unfolding rec using False len by simp
  qed
  moreover have "p_frames_written (wrote cap n p) = p_frames_written p + n"
    "p_spec (wrote cap n p) = p_spec p"
    by (simp_all add: wrote_def Let_def)
  ultimately show ?thesis
    using assms(1) len by (simp add: recent_ok_def algebra_simps)
qed

section \<open>What was not heard\<close>

lemma keep_exact:
  assumes "recent_ok cap written p" and "0 < channels (p_spec p)" and "queued \<le> cap"
    and "queued \<le> p_frames_written p"
  shows "min (min queued (length (p_recent p) div channels (p_spec p))) (p_frames_written p) = queued"
proof -
  let ?c = "channels (p_spec p)"
  have "queued * ?c \<le> min (length written) (cap * ?c)"
    using assms by (simp add: recent_ok_def)
  also have "\<dots> \<le> length (p_recent p)"
    using assms(1) unfolding recent_ok_def by (elim conjE)
  finally have "queued \<le> length (p_recent p) div ?c"
    using assms(2) by (metis div_le_mono nonzero_mult_div_cancel_right less_numeral_extra(3))
  then show ?thesis using assms(4) by simp
qed

lemma unheard_suffix:
  assumes "recent_ok cap written p" and "0 < channels (p_spec p)" and "queued \<le> cap"
    and "queued \<le> p_frames_written p"
  shows "drop (length (p_recent p) - queued * channels (p_spec p)) (p_recent p)
    = drop ((p_frames_written p - queued) * channels (p_spec p)) written"
proof -
  let ?c = "channels (p_spec p)"
  obtain old where old: "written = old @ p_recent p" using assms(1) by (auto simp: recent_ok_def)
  have "queued * ?c \<le> min (length written) (cap * ?c)"
    using assms by (simp add: recent_ok_def)
  also have "\<dots> \<le> length (p_recent p)"
    using assms(1) unfolding recent_ok_def by (elim conjE)
  finally have q: "queued * ?c \<le> length (p_recent p)" .
  have "length old + length (p_recent p) = p_frames_written p * ?c"
    using assms(1) old by (simp add: recent_ok_def)
  then have "(p_frames_written p - queued) * ?c = length old + (length (p_recent p) - queued * ?c)"
    using q by (simp add: diff_mult_distrib)
  then show ?thesis by (simp add: old)
qed

text \<open>The position \<^verbatim>\<open>heard_position\<close> computes, as a function of what it reads.\<close>

definition position_heard :: "outgoing option \<Rightarrow> playing \<Rightarrow> nat \<Rightarrow> duration" where
  "position_heard og p queued =
     (let heard = p_frames_written p - queued
      in case og of
           Some o' \<Rightarrow>
             og_end_position o' - frames_to_duration (p_lead_in p - heard) (sample_rate (p_spec p))
         | None \<Rightarrow>
             p_base p + frames_to_duration (heard - p_lead_in p) (sample_rate (p_spec p)))"

lemma heard_position_eq:
  "e_current e = Some p \<Longrightarrow>
     fst (heard_position cx e) = position_heard (e_outgoing e) p (fst (queued_frames cx e))"
  by (simp add: heard_position_def position_heard_def Let_def split_def split: option.split)

lemma carry_over_position:
  assumes "recent_ok cap written p" and "0 < channels (p_spec p)" and "queued \<le> cap"
    and "queued \<le> p_frames_written p"
  shows "position_heard og (carry_over (og \<noteq> None) queued p) 0 = position_heard og p queued"
  using keep_exact [OF assms]
  by (auto simp: carry_over_def position_heard_def Let_def split: option.split)

lemma carry_over_audio:
  assumes "recent_ok cap written p" and "0 < channels (p_spec p)" and "queued \<le> cap"
    and "queued \<le> p_frames_written p"
  shows "to_play (carry_over j queued p)
    = drop ((p_frames_written p - queued) * channels (p_spec p)) written @ to_play p"
  using keep_exact [OF assms] unheard_suffix [OF assms]
  by (cases "p_offset p \<le> length (p_pending p)")
     (auto simp: to_play_def carry_over_def Let_def)

end
