(* ===== verification/Engine_Demo.thy ===== *)
theory Engine_Demo
  imports Engine_Reach Engine_Audio
begin

text \<open>
  A small concrete outside for the audio thread, on which the witnesses of the engine's properties
  run: a clock, a supplier with one two-frame track in memory, and a device that takes everything
  it is given and plays it at once. The world is the clock with all samples the device has taken.
\<close>

record demo_world =
  dw_clock :: nat
  dw_taken :: "sample list"

definition demo_spec :: source_spec where
  "demo_spec = \<lparr>sample_rate = 44100, channels = 2, bits_per_sample = 16\<rparr>"

definition demo_meta :: "track_ref \<Rightarrow> track_meta" where
  "demo_meta t = \<lparr>tm_track = t, tm_title = None, tm_artist = None, tm_duration = None,
     tm_quality = None, tm_cover = None, tm_loudness = None, tm_gain = None\<rparr>"

definition demo_samples :: "sample list" where
  "demo_samples = [1, 2, 3, 4]"

definition demo_loaded :: "track_ref \<Rightarrow> loaded_track" where
  "demo_loaded t = seekable_in_place (new_loaded (demo_meta t) (RawPcm demo_samples demo_spec))"

definition demo_prepared :: prepared where
  "demo_prepared = \<lparr>pr_meta = demo_meta ''7'', pr_source = SrcRaw demo_samples 0 demo_spec,
     pr_seek = InPlace, pr_start = 0, pr_first_chunk = []\<rparr>"

definition demo_supplier :: "demo_world supplier" where
  "demo_supplier =
     \<lparr>sup_advance = (\<lambda>how w. (Some ''7'', w)),
      sup_open = (\<lambda>t at0 w. (Inr (demo_loaded t), w)),
      sup_peek = (\<lambda>how w. Peek_Next ''8''),
      sup_open_ahead = (\<lambda>t w. (Inr (demo_loaded t), w)),
      sup_started = (\<lambda>t w. (True, w))\<rparr>"

definition demo_sink :: "source_spec \<Rightarrow> sink" where
  "demo_sink spec = \<lparr>sk_id = 0, sk_spec = spec, sk_capacity = 8\<rparr>"

text \<open>\<open>opens\<close>: whether the device can be opened; \<open>drains\<close> and the rest always work.\<close>

definition demo_ctx :: "bool \<Rightarrow> demo_world ctx" where
  "demo_ctx opens =
     \<lparr>cx_supplier = demo_supplier,
      cx_now = (\<lambda>w. (dw_clock w, w\<lparr>dw_clock := dw_clock w + 1\<rparr>)),
      cx_open = (\<lambda>k spec w. (if opens then Inr (demo_sink spec)
                              else Inl (mk_error (Message ''no device'')), w)),
      cx_release = (\<lambda>k w. w), cx_on_release_request = (\<lambda>k w. w),
      cx_write = (\<lambda>s xs w. (Inr (length xs div channels (sk_spec s)),
          w\<lparr>dw_taken := dw_taken w
              @ take (length xs div channels (sk_spec s) * channels (sk_spec s)) xs\<rparr>)),
      cx_delay = (\<lambda>s w. (Inr 0, w)),
      cx_pause = (\<lambda>s w. (None, w)), cx_resume = (\<lambda>s w. (None, w)),
      cx_flush = (\<lambda>s w. (None, w)), cx_drain = (\<lambda>s w. (None, w)),
      cx_set_gain = (\<lambda>s g w. w), cx_close = (\<lambda>s w. w),
      cx_format_seek = (\<lambda>at0 d. Inl (mk_error (Message ''no container''))),
      cx_position_interval = 1000, cx_release_after_pause = Some 10, cx_gapless = True\<rparr>"

definition demo_start :: "demo_world engine" where
  "demo_start = new_engine 0 \<lparr>dw_clock = 0, dw_taken = []\<rparr>"

text \<open>After "play", and after the track arrived.\<close>

definition demo_loading :: "demo_world engine" where
  "demo_loading = snd (handle (demo_ctx True) (MsgCommand (Play None)) demo_start)"

definition demo_playing :: "demo_world engine" where
  "demo_playing = snd (handle (demo_ctx True) (MsgLoaded 1 demo_prepared) demo_loading)"

lemma demo_loading_reachable: "reachable (demo_ctx True) (demo_loading, {})"
proof (rule reachable.Step)
  show "reachable (demo_ctx True) (demo_start, {})"
    unfolding demo_start_def by (rule reachable.Start)
  show "loop_step (demo_ctx True) (demo_start, {}) (demo_loading, {})"
    by (rule loop_step.Told [of "MsgCommand (Play None)"]) (simp_all add: demo_loading_def)
qed

lemma demo_loading_tasks: "e_tasks demo_loading = [LoadTask 1 (LoadAdvance Adv_Auto) 0]"
  by (simp add: demo_loading_def demo_start_def new_engine_def request_load_def)

lemma demo_playing_reachable: "reachable (demo_ctx True) (demo_playing, {1})"
proof (rule reachable.Step [OF demo_loading_reachable])
  show "loop_step (demo_ctx True) (demo_loading, {}) (demo_playing, {1})"
    by (rule loop_step.Answered [of "MsgLoaded 1 demo_prepared"]) (simp_all add: demo_playing_def demo_loading_tasks)
qed

lemmas demo_defs = demo_playing_def demo_loading_def demo_start_def demo_ctx_def demo_sink_def
  demo_supplier_def demo_prepared_def demo_meta_def demo_samples_def demo_spec_def

lemma demo_loading_facts:
  "e_state demo_loading = Loading" "e_generation demo_loading = 1" "e_current demo_loading = None"
  "e_sink demo_loading = None" "e_outgoing demo_loading = None" "e_released demo_loading = None"
  "\<not> e_pause_when_ready demo_loading" "e_release_when_ready demo_loading = None"
  "e_next demo_loading = None" "e_world demo_loading = \<lparr>dw_clock = 0, dw_taken = []\<rparr>"
  "e_sinks demo_loading = 0" "e_events demo_loading = [StateChanged Loading]"
  by (simp_all add: demo_loading_def demo_start_def new_engine_def request_load_def begin_load_def
      cancel_load_def drop_next_def answer_waiting_def set_state_def publish_status_def emit_def
      Let_def)

lemma demo_playing_facts:
  "e_state demo_playing = Playing" "e_sink demo_playing = Some (demo_sink demo_spec)"
  by (simp_all add: demo_playing_def is_awaited_def demo_loading_facts start_track_def
      sink_fits_def open_sink_def drop_sink_def demo_ctx_def Let_def run_w_def
      release_if_asked_def split_def demo_prepared_def)

text \<open>A state in the middle of the track, written out.\<close>

definition demo_mid :: "demo_world engine" where
  "demo_mid = demo_start
     \<lparr>e_state := Playing, e_sink := Some (demo_sink demo_spec),
      e_current := Some (fresh_playing demo_prepared 0)\<rparr>"

lemma demo_mid_facts [simp]:
  "e_state demo_mid = Playing" "e_sink demo_mid = Some (demo_sink demo_spec)"
  "e_current demo_mid = Some (fresh_playing demo_prepared 0)" "e_outgoing demo_mid = None"
  "e_world demo_mid = \<lparr>dw_clock = 0, dw_taken = []\<rparr>" "e_next demo_mid = None"
  by (simp_all add: demo_mid_def demo_start_def new_engine_def)

end
