(* ===== verification/Engine_Props.thy ===== *)
theory Engine_Props
  imports Engine_Demo
begin

text \<open>
  The properties of the playback engine, over the model of \<^verbatim>\<open>engine/audio_thread.rs\<close>: first those of
  every reachable state, then what single operations do to the audio, the device and the queue.
\<close>

section \<open>Every reachable state\<close>

text \<open>
  C6. In every state the audio thread reaches, whatever arrives in whatever order: a track is
  loaded exactly while playing, paused or seeking, with its audio source unless it is being
  reopened; the previous track is only still heard while playing or paused; a stopped engine holds
  no device and owes no answer; a pause to come belongs to a track being loaded; and the time of a
  pause is known exactly while paused.
\<close>

theorem engine_state_consistent:
  assumes "reachable cx (e, answered)"
  shows "(e_current e \<noteq> None \<longleftrightarrow> e_state e \<in> {Playing, Paused, Seeking})
    \<and> (\<forall>p. e_current e = Some p \<longrightarrow> e_state e \<noteq> Seeking \<longrightarrow> p_source p \<noteq> None)
    \<and> (e_outgoing e \<noteq> None \<longrightarrow> e_state e \<in> {Playing, Paused})
    \<and> (e_state e = Stopped \<longrightarrow>
         e_sink e = None \<and> e_released e = None \<and> e_release_when_ready e = None)
    \<and> (e_pause_when_ready e \<longrightarrow> e_state e \<in> {Loading, Seeking})
    \<and> (e_paused_at e \<noteq> None \<longleftrightarrow> e_state e = Paused)"
proof -
  have c: "core_inv answered e"
    using reachable_inv [OF assms] by (simp add: run_inv_def engine_inv_def)
  have "\<forall>p. e_current e = Some p \<longrightarrow> e_state e \<noteq> Seeking \<longrightarrow> p_source p \<noteq> None"
    using c by (auto simp: core_inv_def has_source_def)
  then show ?thesis using c unfolding core_inv_def log_ok_def by blast
qed

lemma engine_state_consistent_witness:
  "e_current demo_playing \<noteq> None \<and> e_outgoing demo_loading = None"
  using engine_state_consistent [OF demo_playing_reachable]
    engine_state_consistent [OF demo_loading_reachable] demo_playing_facts demo_loading_facts
  by simp

text \<open>
  C7. The status anyone can read is at every moment the one that follows from the engine's state:
  no handler leaves a change unpublished.
\<close>

theorem status_always_published:
  assumes "reachable cx (e, answered)"
  shows "e_status e = status_of e"
  using reachable_inv [OF assms] by (simp add: run_inv_def engine_inv_def told_def)

lemma status_always_published_witness: "e_status demo_playing = status_of demo_playing"
  by (rule status_always_published [OF demo_playing_reachable])

text \<open>
  C8. The events keep to a protocol a listener can rely on: a track starts only when none is
  current, ends only if it is the current one, exactly once (a track the device refuses fails
  without starting), the listener's current track is the engine's, and the last state announced
  is the engine's state.
\<close>

theorem events_keep_protocol:
  assumes "reachable cx (e, answered)"
  shows "announced (e_events e) = Some (heard_track e) \<and> last_state (e_events e) = e_state e"
  using reachable_inv [OF assms]
  by (simp add: run_inv_def engine_inv_def core_inv_def log_ok_def)

lemma events_keep_protocol_witness:
  "announced (e_events demo_playing) = Some (heard_track demo_playing)
    \<and> last_state (e_events demo_playing) = Playing"
  using events_keep_protocol [OF demo_playing_reachable] by (simp add: demo_playing_facts)

section \<open>The audio\<close>

text \<open>
  What the engine relies on from a sink and its surroundings: a write takes whole frames from the
  front, at least one if there is one, and \<open>taken\<close> records them; no other call takes samples.
\<close>

definition records :: "'w ctx \<Rightarrow> ('w \<Rightarrow> sample list) \<Rightarrow> bool" where
  "records cx taken \<longleftrightarrow>
     (\<forall>s xs w n w'. cx_write cx s xs w = (Inr n, w') \<longrightarrow>
        n * channels (sk_spec s) \<le> length xs \<and> (0 < channels (sk_spec s) \<and> channels (sk_spec s) \<le> length xs \<longrightarrow> 0 < n) \<and>
        taken w' = taken w @ take (n * channels (sk_spec s)) xs) \<and>
     (\<forall>s g w. taken (cx_set_gain cx s g w) = taken w) \<and>
     (\<forall>w. taken (snd (cx_now cx w)) = taken w) \<and>
     (\<forall>s w. taken (snd (cx_delay cx s w)) = taken w)"

lemma records_write:
  assumes "records cx taken" and "cx_write cx s xs w = (Inr n, w')"
  shows "n * channels (sk_spec s) \<le> length xs"
    "0 < channels (sk_spec s) \<Longrightarrow> channels (sk_spec s) \<le> length xs \<Longrightarrow> 0 < n"
    "taken w' = taken w @ take (n * channels (sk_spec s)) xs"
  using assms unfolding records_def by blast+

lemma records_calls:
  assumes "records cx taken"
  shows "taken (e_world (snd (run_w (cx_now cx) e))) = taken (e_world e)"
    "taken (e_world (do_w (cx_set_gain cx s g) e)) = taken (e_world e)"
    "taken (e_world (snd (queued_frames cx e))) = taken (e_world e)"
    "taken (e_world (emit_position cx e)) = taken (e_world e)"
proof -
  show n: "taken (e_world (snd (run_w (cx_now cx) e))) = taken (e_world e)" for e
    using assms by (simp add: records_def run_w_def)
  show "taken (e_world (do_w (cx_set_gain cx s g) e)) = taken (e_world e)"
    using assms by (simp add: records_def do_w_def)
  show q: "taken (e_world (snd (queued_frames cx e))) = taken (e_world e)" for e
    using assms by (simp add: queued_frames_def Let_def split_def records_def run_w_def split: option.split)
  have "taken (e_world (snd (heard_position cx e))) = taken (e_world e)"
    using q by (simp add: heard_position_def Let_def split_def split: option.split)
  then show "taken (e_world (emit_position cx e)) = taken (e_world e)"
    using n by (simp add: emit_position_def Let_def split_def publish_status_def emit_def split: option.split)
qed

lemma emit_position_current:
  assumes "e_outgoing e = None" and "e_current e = Some p"
  shows "\<exists>t pos. e_current (emit_position cx e)
    = Some (p\<lparr>p_last_position_at := t, p_position := pos\<rparr>)"
  using assms by (fastforce simp: emit_position_def Let_def split_def)

lemma maybe_prefetch_plays:
  "e_current (maybe_prefetch cx e) = e_current e" "e_world (maybe_prefetch cx e) = e_world e"
  "e_outgoing (maybe_prefetch cx e) = e_outgoing e" "e_sink (maybe_prefetch cx e) = e_sink e"
  "e_state (maybe_prefetch cx e) = e_state e"
  by (simp_all add: maybe_prefetch_def Let_def split: option.split peek.split)

text \<open>
  One round moves \<open>new\<close> samples of the track from what is to come to the device, and keeps the window
  of recent samples covering what the device can hold.
\<close>

definition moved_on :: "nat \<Rightarrow> sample list \<Rightarrow> playing \<Rightarrow> playing \<Rightarrow> bool" where
  "moved_on cap new p q \<longleftrightarrow>
     to_play p = new @ to_play q \<and> p_spec q = p_spec p \<and> p_base q = p_base p \<and>
     p_lead_in q = p_lead_in p \<and>
     (\<forall>written. recent_ok cap written p \<longrightarrow> recent_ok cap (written @ new) q)"

lemma recent_ok_times [simp]:
  "recent_ok cap w (q\<lparr>p_last_position_at := t\<rparr>) = recent_ok cap w q"
  "recent_ok cap w (q\<lparr>p_position := pos\<rparr>) = recent_ok cap w q"
  "recent_ok cap w (q\<lparr>p_sink_paused := b\<rparr>) = recent_ok cap w q"
  by (simp_all add: recent_ok_def)

lemma to_play_times [simp]:
  "to_play (q\<lparr>p_last_position_at := t\<rparr>) = to_play q"
  "to_play (q\<lparr>p_position := pos\<rparr>) = to_play q"
  "to_play (q\<lparr>p_sink_paused := b\<rparr>) = to_play q"
  by (simp_all add: to_play_def)

lemma moved_on_times [simp]:
  "moved_on cap new p (q\<lparr>p_last_position_at := t\<rparr>) = moved_on cap new p q"
  "moved_on cap new p (q\<lparr>p_position := pos\<rparr>) = moved_on cap new p q"
  by (simp_all add: moved_on_def)

lemma moved_on_wrote:
  assumes "0 < n" and "p_offset p + n * channels (p_spec p) \<le> length (p_pending p)"
  shows "moved_on cap (take (n * channels (p_spec p)) (drop (p_offset p) (p_pending p))) p
    (wrote cap n p)"
  using wrote_to_play [OF assms] recent_ok_wrote [OF _ assms]
  by (simp add: moved_on_def) (simp add: wrote_def Let_def)

lemma write_chunk_plays:
  assumes rec: "records cx taken" and fits: "sk_spec s = p_spec p"
    and chans: "0 < channels (p_spec p)"
    and whole: "channels (p_spec p) \<le> length (drop (p_offset p) (p_pending p))"
    and ok: "fst (write_chunk cx s p e) = None" and "e_outgoing e = None"
  shows "\<exists>q new. e_current (snd (write_chunk cx s p e)) = Some q \<and>
    taken (e_world (snd (write_chunk cx s p e))) = taken (e_world e) @ new \<and>
    moved_on (sk_capacity s) new p q"
proof -
  let ?chunk = "drop (p_offset p) (p_pending p)"
  let ?g = "do_w (cx_set_gain cx s (meta_gain_linear (p_meta p))) e"
  obtain r w where w: "cx_write cx s ?chunk (e_world ?g) = (r, w)" by fastforce
  have wc: "write_chunk cx s p e =
      (case r of
         Inl err \<Rightarrow> (Some err, ?g\<lparr>e_world := w, e_current := Some p\<rparr>)
       | Inr frames \<Rightarrow>
           let q = wrote (sk_capacity s) frames p;
               (t, e') = run_w (cx_now cx) (?g\<lparr>e_world := w, e_current := Some q\<rparr>)
           in (None, if cx_position_interval cx \<le> t - p_last_position_at q
                     then maybe_prefetch cx (emit_position cx e') else e'))"
  proof -
    have "next_write (e_outgoing e) p = (?chunk, meta_gain_linear (p_meta p))"
      using assms(6) by (simp add: next_write_def)
    moreover have "run_w (cx_write cx s ?chunk) ?g = (r, ?g\<lparr>e_world := w\<rparr>)"
      using w by (simp add: run_w_def)
    ultimately show ?thesis by (simp add: write_chunk_def cong: sum.case_cong)
  qed
  obtain n where n: "r = Inr n" using ok by (cases r) (auto simp: wc)
  have tk: "n * channels (p_spec p) \<le> length ?chunk" "0 < n"
    "taken w = taken (e_world e) @ take (n * channels (p_spec p)) ?chunk"
    using records_write [OF rec, of s ?chunk "e_world ?g" n w] w n whole fits chans
      records_calls(2) [OF rec]
    by simp_all
  let ?q = "wrote (sk_capacity s) n p"
  let ?e = "snd (run_w (cx_now cx) (?g\<lparr>e_world := w, e_current := Some ?q\<rparr>))"
  have e: "e_current ?e = Some ?q" "e_outgoing ?e = None" "taken (e_world ?e) = taken w"
    using records_calls(1) [OF rec] assms(6) by simp_all
  have "0 < n * channels (p_spec p)" using tk(2) chans by simp
  then have "p_offset p + n * channels (p_spec p) \<le> length (p_pending p)"
    using tk(1) unfolding length_drop by linarith
  note moved = moved_on_wrote [OF tk(2) this, of "sk_capacity s"]
  obtain t pos where q': "e_current (emit_position cx ?e)
      = Some (?q\<lparr>p_last_position_at := t, p_position := pos\<rparr>)"
    using emit_position_current [OF e(2,1)] by blast
  show ?thesis
    using n e q' moved tk(3) records_calls(4) [OF rec, of ?e]
    by (simp add: wc Let_def split_def maybe_prefetch_plays)
qed

text \<open>
  A round of playing in the middle of a track: the source is there and has something left, what is
  written are whole frames, and the round ends without an error.
\<close>

definition sound_round :: "'w ctx \<Rightarrow> 'w engine \<Rightarrow> bool" where
  "sound_round cx e \<longleftrightarrow> fst (play_step cx e) = None \<and>
     (case e_current e of
        None \<Rightarrow> False
      | Some p \<Rightarrow> \<not> p_source_done p \<and> to_play p \<noteq> [] \<and>
          (p_offset p < length (p_pending p) \<longrightarrow>
             channels (p_spec p) \<le> length (drop (p_offset p) (p_pending p))) \<and>
          (case p_source p of
             None \<Rightarrow> False
           | Some src \<Rightarrow>
               (case source_next_chunk src of
                  (Inr (Some chunk), src') \<Rightarrow> channels (p_spec p) \<le> length chunk
                | _ \<Rightarrow> True)))"

lemma write_chunk_frame:
  assumes "e_outgoing e = None"
  shows "e_outgoing (snd (write_chunk cx s p e)) = None"
  "e_sink (snd (write_chunk cx s p e)) = e_sink e"
  "e_state (snd (write_chunk cx s p e)) = e_state e"
  using assms by (auto simp: write_chunk_def maybe_prefetch_plays Let_def split_def split: sum.split)

lemma play_step_plays:
  assumes rec: "records cx taken" and og: "e_outgoing e = None" and p: "e_current e = Some p"
    and s: "e_sink e = Some s" and fits: "sk_spec s = p_spec p" and chans: "0 < channels (p_spec p)"
    and round: "sound_round cx e"
  shows "\<exists>q new. e_current (snd (play_step cx e)) = Some q \<and>
    taken (e_world (snd (play_step cx e))) = taken (e_world e) @ new \<and>
    moved_on (sk_capacity s) new p q \<and>
    e_outgoing (snd (play_step cx e)) = None \<and> e_sink (snd (play_step cx e)) = Some s \<and>
    e_state (snd (play_step cx e)) = e_state e"
proof -
  let ?c = "check_crossing cx (e\<lparr>e_polling := False\<rparr>)"
  have c: "?c = e\<lparr>e_polling := False\<rparr>" using og by (simp add: check_crossing_def)
  obtain src where src: "p_source p = Some src" "\<not> p_source_done p" "to_play p \<noteq> []"
    using round p by (auto simp: sound_round_def split: option.splits)
  have wr: "\<exists>r new. e_current (snd (write_chunk cx s q ?c)) = Some r \<and>
      taken (e_world (snd (write_chunk cx s q ?c))) = taken (e_world e) @ new \<and>
      moved_on (sk_capacity s) new q r \<and>
      e_outgoing (snd (write_chunk cx s q ?c)) = None \<and>
      e_sink (snd (write_chunk cx s q ?c)) = Some s \<and>
      e_state (snd (write_chunk cx s q ?c)) = e_state e"
    if "p_spec q = p_spec p" "channels (p_spec q) \<le> length (drop (p_offset q) (p_pending q))"
      "fst (write_chunk cx s q ?c) = None" for q
    using write_chunk_plays [OF rec _ _ that(2,3)] og s fits chans that(1)
      write_chunk_frame [of ?c cx s q]
    by (simp add: c)
  show ?thesis
  proof (cases "length (p_pending p) \<le> p_offset p")
    case False
    then have "play_step cx e = write_chunk cx s p ?c"
      using p src s by (simp add: play_step_def c)
    then show ?thesis using wr [of p] False round p by (simp add: sound_round_def)
  next
    case True
    obtain r src' where n: "source_next_chunk src = (r, src')" by fastforce
    have rest: "to_play p = source_rest src" using True src by (simp add: to_play_def)
    have ps: "play_step cx e =
        (case r of
           Inl err \<Rightarrow> (Some err, ?c\<lparr>e_current := Some (p\<lparr>p_source := Some src'\<rparr>)\<rparr>)
         | Inr None \<Rightarrow> (None, source_finished cx
             (?c\<lparr>e_current := Some (p\<lparr>p_source := Some src', p_source_done := True\<rparr>)\<rparr>))
         | Inr (Some chunk) \<Rightarrow> write_chunk cx s
             (p\<lparr>p_source := Some src', p_pending := chunk, p_offset := 0\<rparr>) ?c)"
      using True p src s n by (simp add: play_step_def c split: sum.split option.split)
    obtain chunk where r: "r = Inr (Some chunk)"
      using round src(3) source_next_chunk_rest(2) [of src src'] n rest
      by (cases r) (auto simp: ps sound_round_def split: option.splits)
    let ?q = "p\<lparr>p_source := Some src', p_pending := chunk, p_offset := 0\<rparr>"
    have same: "to_play ?q = to_play p"
      using source_next_chunk_rest(1) [of src chunk src'] n r rest by (simp add: to_play_def)
    have ok: "channels (p_spec p) \<le> length chunk" "fst (write_chunk cx s ?q ?c) = None"
      using round p src n r by (simp_all add: sound_round_def ps)
    obtain q new where q: "e_current (snd (write_chunk cx s ?q ?c)) = Some q"
      "taken (e_world (snd (write_chunk cx s ?q ?c))) = taken (e_world e) @ new"
      "moved_on (sk_capacity s) new ?q q"
      "e_outgoing (snd (write_chunk cx s ?q ?c)) = None"
      "e_sink (snd (write_chunk cx s ?q ?c)) = Some s"
      "e_state (snd (write_chunk cx s ?q ?c)) = e_state e"
      using wr [of ?q] ok by auto
    have "recent_ok k w ?q = recent_ok k w p" for k w by (simp add: recent_ok_def)
    then have "moved_on (sk_capacity s) new p q"
      using q(3) same by (simp add: moved_on_def)
    then show ?thesis using q r by (simp add: ps)
  qed
qed

text \<open>
  C9. No sample of a track is lost, repeated or reordered on its way to the device: across a round
  of playing, what the device has taken followed by what the track has yet to give stays the same,
  until the track has nothing more to give.
\<close>

theorem playing_loses_no_sample:
  assumes "records cx taken" and "e_outgoing e = None" and "e_current e = Some p"
    and "\<not> p_source_done p" and "p_source p = Some src" and "e_sink e = Some s"
    and "sk_spec s = p_spec p" and "0 < channels (p_spec p)"
    and "p_offset p < length (p_pending p) \<longrightarrow>
           channels (p_spec p) \<le> length (drop (p_offset p) (p_pending p))"
    and "\<forall>chunk src'. source_next_chunk src = (Inr (Some chunk), src') \<longrightarrow>
           channels (p_spec p) \<le> length chunk"
    and "fst (play_step cx e) = None" and "to_play p \<noteq> []"
  shows "\<exists>p'. e_current (snd (play_step cx e)) = Some p' \<and>
    taken (e_world (snd (play_step cx e))) @ to_play p' = taken (e_world e) @ to_play p"
proof -
  have "sound_round cx e"
    using assms(3-5,9-12) by (auto simp: sound_round_def split: sum.split option.split)
  from play_step_plays [OF assms(1-3,6-8) this] show ?thesis by (auto simp: moved_on_def)
qed

lemma demo_write_ok: "fst (write_chunk (demo_ctx opens) s p e) = None"
  by (simp add: write_chunk_def demo_ctx_def run_w_def split_def Let_def)

lemma demo_records: "records (demo_ctx True) dw_taken"
  by (auto simp: records_def demo_ctx_def div_greater_zero_iff)

lemma playing_loses_no_sample_witness:
  "\<exists>p'. e_current (snd (play_step (demo_ctx True) demo_mid)) = Some p' \<and>
     dw_taken (e_world (snd (play_step (demo_ctx True) demo_mid))) @ to_play p' = demo_samples"
proof -
  have p: "to_play (fresh_playing demo_prepared 0) = demo_samples"
    by (simp add: to_play_def fresh_playing_def demo_prepared_def)
  have n: "fst (play_step (demo_ctx True) demo_mid) = None"
    by (simp add: play_step_def check_crossing_def fresh_playing_def demo_prepared_def
        demo_samples_def demo_spec_def raw_chunk_frames_def Let_def demo_write_ok)
  show ?thesis
    using playing_loses_no_sample [OF demo_records, of demo_mid "fresh_playing demo_prepared 0"
        "SrcRaw demo_samples 0 demo_spec" "demo_sink demo_spec"] n p
    by (simp add: fresh_playing_def demo_prepared_def demo_samples_def demo_spec_def demo_sink_def
        raw_chunk_frames_def Let_def)
qed

text \<open>
  The window of recent samples always covers what the device can hold: whatever is written,
  the window stays the end of what was written, and holds all of it or at least the device's
  capacity, so what was not heard can be played again after the device is closed.
\<close>

theorem recent_window_covers_device:
  assumes "recent_ok cap written p" and "0 < n"
    and "p_offset p + n * channels (p_spec p) \<le> length (p_pending p)"
  shows "recent_ok cap
      (written @ take (n * channels (p_spec p)) (drop (p_offset p) (p_pending p))) (wrote cap n p)
    \<and> recent_ok cap [] (rebased t p) \<and> recent_ok cap [] (carry_over j q p)"
  using recent_ok_wrote [OF assms]
  by (simp add: recent_ok_fresh rebased_def carry_over_def Let_def)

lemma recent_window_covers_device_witness:
  "recent_ok 1 [1, 2]
     (wrote 1 1 ((fresh_playing demo_prepared 0)\<lparr>p_pending := [1, 2, 3, 4]\<rparr>))"
  using recent_window_covers_device [of 1 "[]" "(fresh_playing demo_prepared 0)\<lparr>p_pending := [1, 2, 3, 4]\<rparr>" 1]
  by (simp add: recent_ok_fresh fresh_playing_def demo_prepared_def demo_spec_def)

lemma paused_release_current:
  assumes "e_state e = Paused" and "e_sink e = Some s" and "e_current e = Some p"
    and "e_outgoing e = None"
  shows "e_current (release_output cx r e) =
      Some (carry_over False (fst (queued_frames cx e)) p)"
    and "e_sink (release_output cx r e) = None" and "e_outgoing (release_output cx r e) = None"
proof -
  have q: "fst (queued_frames cx (drop_next e)) = fst (queued_frames cx e)"
    using assms(2) by (simp add: queued_frames_def run_w_def drop_next_def split_def)
  have a: "set_aside_unheard cx (drop_next e) =
      (snd (queued_frames cx (drop_next e)))
        \<lparr>e_current := Some (carry_over False (fst (queued_frames cx e)) p)\<rparr>"
    using assms q by (simp add: set_aside_unheard_def check_crossing_def Let_def split_def)
  show "e_current (release_output cx r e) =
      Some (carry_over False (fst (queued_frames cx e)) p)"
    and "e_sink (release_output cx r e) = None" and "e_outgoing (release_output cx r e) = None"
    using assms by (simp_all add: release_output_def pause_def a Let_def)
qed

text \<open>A stretch of rounds, from a position with nothing written yet.\<close>

primrec rounds :: "'w ctx \<Rightarrow> nat \<Rightarrow> 'w engine \<Rightarrow> 'w engine" where
  "rounds cx 0 e = e"
| "rounds cx (Suc n) e = snd (play_step cx (rounds cx n e))"

lemma rounds_play:
  assumes "records cx taken" and "e_outgoing e = None" and "e_current e = Some p"
    and "e_sink e = Some s" and "sk_spec s = p_spec p" and "0 < channels (p_spec p)"
    and "p_frames_written p = 0" and "p_recent p = []"
    and "\<forall>k < n. sound_round cx (rounds cx k e)"
  shows "\<exists>q new. e_current (rounds cx n e) = Some q \<and>
    taken (e_world (rounds cx n e)) = taken (e_world e) @ new \<and>
    recent_ok (sk_capacity s) new q \<and> to_play p = new @ to_play q \<and>
    p_spec q = p_spec p \<and> p_base q = p_base p \<and> p_lead_in q = p_lead_in p \<and>
    e_outgoing (rounds cx n e) = None \<and>
    e_sink (rounds cx n e) = Some s \<and>
    e_state (rounds cx n e) = e_state e"
  using assms(9)
proof (induction n)
  case 0
  then show ?case using assms recent_ok_fresh by simp
next
  case (Suc n)
  let ?e = "rounds cx n e"
  from Suc obtain q new where q: "e_current ?e = Some q"
    "taken (e_world ?e) = taken (e_world e) @ new" "recent_ok (sk_capacity s) new q"
    "to_play p = new @ to_play q" "p_spec q = p_spec p" "p_base q = p_base p"
    "p_lead_in q = p_lead_in p" "e_outgoing ?e = None" "e_sink ?e = Some s"
    "e_state ?e = e_state e"
    by auto
  have "sk_spec s = p_spec q" "0 < channels (p_spec q)" "sound_round cx ?e"
    using q(5) assms(5,6) Suc.prems by simp_all
  from play_step_plays [OF assms(1) q(8,1,9) this] obtain q' new' where
    "e_current (snd (play_step cx ?e)) = Some q'"
    "taken (e_world (snd (play_step cx ?e))) = taken (e_world ?e) @ new'"
    "moved_on (sk_capacity s) new' q q'"
    "e_outgoing (snd (play_step cx ?e)) = None" "e_sink (snd (play_step cx ?e)) = Some s"
    "e_state (snd (play_step cx ?e)) = e_state ?e"
    by blast
  then show ?case using q by (auto simp: moved_on_def intro!: exI [of _ "new @ new'"])
qed

lemma pause_playing:
  assumes "e_state e = Playing" and "e_sink e = Some s" and "e_current e = Some p"
    and "e_outgoing e = None" and "e_state (pause cx e) = Paused"
  shows "e_sink (pause cx e) = Some s" "e_outgoing (pause cx e) = None"
    "\<exists>t pos. e_current (pause cx e)
       = Some (p\<lparr>p_sink_paused := True, p_last_position_at := t, p_position := pos\<rparr>)"
    "release_output cx r e = release_output cx r (pause cx e)"
proof -
  obtain w where w: "run_w (cx_pause cx s) e = (None, e\<lparr>e_world := w\<rparr>)"
  proof (cases "run_w (cx_pause cx s) e")
    case (Pair r e1)
    then have "r = None"
      using assms by (cases r) (auto simp: pause_def fail_def)
    then show ?thesis using Pair that by (auto simp: run_w_def split_def)
  qed
  let ?e = "set_state cx Paused (e\<lparr>e_world := w, e_current := Some (p\<lparr>p_sink_paused := True\<rparr>)\<rparr>)"
  have pause: "pause cx e = emit_position cx ?e" using assms w by (simp add: pause_def)
  show sink: "e_sink (pause cx e) = Some s" and og: "e_outgoing (pause cx e) = None"
    using assms by (simp_all add: pause)
  show "\<exists>t pos. e_current (pause cx e)
       = Some (p\<lparr>p_sink_paused := True, p_last_position_at := t, p_position := pos\<rparr>)"
    using emit_position_current [of ?e "p\<lparr>p_sink_paused := True\<rparr>" cx] assms
    by (simp add: pause)
  have again: "pause cx (pause cx e) = pause cx e"
    using assms(5) by (simp add: pause_def [of cx "pause cx e"])
  show "release_output cx r e = release_output cx r (pause cx e)"
    unfolding release_output_def [of cx r e] release_output_def [of cx r "pause cx e"] again
    using assms sink by simp
qed

text \<open>
  C10. Handing the device back loses nothing. After any number of rounds that played one track from
  a position at which nothing had been written yet, the device is given up while it still holds
  \<open>queued\<close> frames that were not heard (it reports them, and holds at most its capacity and at most
  what it has taken). What the track plays from there is then exactly what it had to play at the
  start less the frames that were heard, sample for sample; the position is that of the last frame
  heard; and it makes no difference whether playback had been paused before.
\<close>

theorem release_loses_nothing:
  assumes "records cx taken" and "e_outgoing e = None" and "e_current e = Some p"
    and "e_sink e = Some s" and "sk_spec s = p_spec p" and "0 < channels (p_spec p)"
    and "p_frames_written p = 0" and "p_recent p = []"
    and "\<forall>k < n. sound_round cx (rounds cx k e)"
    and "e' = rounds cx n e"
    and "e_state e = Playing" and "e_state (pause cx e') = Paused"
    and "fst (cx_delay cx s (e_world (pause cx e'))) = Inr queued"
    and "queued \<le> sk_capacity s"
    and "heard + queued
      = (length (taken (e_world e')) - length (taken (e_world e))) div channels (p_spec p)"
  shows "\<exists>q. e_current (release_output cx r e') = Some q \<and>
      to_play q = drop (heard * channels (p_spec p)) (to_play p) \<and>
      fst (heard_position cx (release_output cx r e'))
        = p_base p + frames_to_duration (heard - p_lead_in p) (sample_rate (p_spec p)) \<and>
      e_sink (release_output cx r e') = None \<and>
      release_output cx r (pause cx e') = release_output cx r e'"
proof -
  obtain q new where q: "e_current e' = Some q" "taken (e_world e') = taken (e_world e) @ new"
    "recent_ok (sk_capacity s) new q" "to_play p = new @ to_play q"
    "p_spec q = p_spec p" "p_base q = p_base p" "p_lead_in q = p_lead_in p"
    "e_outgoing e' = None" "e_sink e' = Some s" "e_state e' = Playing"
    using rounds_play [OF assms(1-9)] assms(10,11) by auto
  note pa = pause_playing [OF q(10,9,1,8) assms(12)]
  obtain t pos where pq: "e_current (pause cx e')
      = Some (q\<lparr>p_sink_paused := True, p_last_position_at := t, p_position := pos\<rparr>)"
    using pa(3) by blast
  let ?p = "q\<lparr>p_sink_paused := True, p_last_position_at := t, p_position := pos\<rparr>"
  have "length new = p_frames_written q * channels (p_spec p)"
    using q(3,5) by (simp add: recent_ok_def)
  then have fw: "p_frames_written q = heard + queued" using q(2) assms(6,15) by simp
  have rec: "recent_ok (sk_capacity s) new ?p" using q(3) by simp
  have ch: "0 < channels (p_spec ?p)" using assms(6) q(5) by simp
  have le: "queued \<le> p_frames_written ?p" using fw by simp
  have qd: "fst (queued_frames cx (pause cx e')) = queued"
    using pa(1) assms(13) by (simp add: queued_frames_def run_w_def)
  note r = paused_release_current [where cx = cx, OF assms(12) pa(1) pq pa(2), unfolded qd]
  have "fst (queued_frames cx (release_output cx r (pause cx e'))) = 0"
    using r(2) by (simp add: queued_frames_def)
  then have "fst (heard_position cx (release_output cx r (pause cx e')))
      = p_base p + frames_to_duration (heard - p_lead_in p) (sample_rate (p_spec p))"
    using carry_over_position [OF rec ch assms(14) le, of None] r fw q(5-7)
    by (simp add: heard_position_eq position_heard_def)
  moreover have "to_play (carry_over False queued ?p) = drop (heard * channels (p_spec p)) (to_play p)"
  proof -
    have "heard * channels (p_spec p) \<le> length new"
      using q(3,5) fw by (simp add: recent_ok_def)
    moreover have "to_play ?p = to_play q" by (simp add: to_play_def)
    ultimately show ?thesis
      using carry_over_audio [OF rec ch assms(14) le, of False] fw q(4,5) by simp
  qed
  ultimately show ?thesis using r [of r] pa(4) [of r] by simp
qed

text \<open>The device of the small outside, with one of the two frames it took not yet heard.\<close>

definition demo_lag :: "demo_world ctx" where
  "demo_lag = (demo_ctx True)\<lparr>cx_delay := (\<lambda>s w. (Inr 1, w))\<rparr>"

lemma demo_lag_records: "records demo_lag dw_taken"
  by (auto simp: demo_lag_def records_def demo_ctx_def div_greater_zero_iff)

lemma demo_lag_round:
  "sound_round demo_lag demo_mid"
  "dw_taken (e_world (snd (play_step demo_lag demo_mid))) = demo_samples"
  by (simp_all add: sound_round_def play_step_def check_crossing_def fresh_playing_def
      demo_prepared_def demo_samples_def demo_spec_def demo_sink_def demo_lag_def demo_ctx_def
      raw_chunk_frames_def to_play_def write_chunk_def next_write_def run_w_def do_w_def wrote_def
      emit_position_def maybe_prefetch_def heard_position_def queued_frames_def publish_status_def
      emit_def
      Let_def split_def)

lemma release_loses_nothing_witness:
  "\<exists>q. e_current (release_output demo_lag \<lparr>rl_reason = Idle, rl_by = None, rl_done = None\<rparr>
       (snd (play_step demo_lag demo_mid))) = Some q \<and> to_play q = [3, 4]"
proof -
  have play: "to_play (fresh_playing demo_prepared 0) = demo_samples"
    by (simp add: to_play_def fresh_playing_def demo_prepared_def)
  have "e_state (snd (play_step demo_lag demo_mid)) = Playing"
    using rounds_play [OF demo_lag_records, of demo_mid "fresh_playing demo_prepared 0"
        "demo_sink demo_spec" 1] demo_lag_round(1)
    by (auto simp: fresh_playing_def demo_prepared_def demo_spec_def demo_sink_def)
  then have paused: "e_state (pause demo_lag (snd (play_step demo_lag demo_mid))) = Paused"
    by (simp add: pause_def demo_lag_def demo_ctx_def run_w_def split: option.split)
  then show ?thesis
    using release_loses_nothing [OF demo_lag_records, of demo_mid "fresh_playing demo_prepared 0"
        "demo_sink demo_spec" 1 "snd (play_step demo_lag demo_mid)" 1 1
        "\<lparr>rl_reason = Idle, rl_by = None, rl_done = None\<rparr>"] demo_lag_round play paused
    by (auto simp: fresh_playing_def demo_prepared_def demo_spec_def demo_sink_def
        demo_samples_def demo_lag_def)
qed

section \<open>The device\<close>

lemma pause_settles:
  assumes "e_state e = Playing \<or> e_state e = Paused"
  shows "e_state (pause cx e) = Paused \<or> e_state (pause cx e) = Stopped"
  using assms
  by (auto simp: pause_def Let_def split_def fail_def split: option.split)

text \<open>
  C11. A program that asks for the device is answered truthfully: unless a track is being loaded,
  the device is closed when the answer "given up" is sent; while one is, the request waits, and
  the track will start paused.
\<close>

theorem release_request_honoured:
  assumes "reachable cx (e, answered)"
    and "e' = snd (handle cx (MsgReleaseRequested by chan) e)"
  shows "if e_state e \<in> {Loading, Seeking}
    then e_pause_when_ready e' \<and> e_sink e' = e_sink e \<and>
      e_release_when_ready e' = Some \<lparr>rl_reason = Requested, rl_by = by, rl_done = Some chan\<rparr>
    else e_sink e' = None \<and> last_of (e_answers e') = Some (chan, True)"
proof -
  let ?r = "\<lparr>rl_reason = Requested, rl_by = by, rl_done = Some chan\<rparr>"
  have c: "core_inv answered e"
    using reachable_inv [OF assms(1)] by (simp add: run_inv_def engine_inv_def)
  have e': "e' = release_output cx ?r e" by (simp add: assms(2))
  have ans: "last_of (e_answers (answer ?r True e2)) = Some (chan, True)" for e2 :: "'a engine"
    by (simp add: answer_def)
  show ?thesis
  proof (cases "e_state e = Loading \<or> e_state e = Seeking")
    case True
    then show ?thesis by (auto simp: e' release_output_def Let_def split: option.split)
  next
    case settled: False
    have stopped: "e_sink e = None" if "e_state e = Stopped"
      using c that by (simp add: core_inv_def)
    show ?thesis
    proof (cases "e_sink e = None")
      case True
      then show ?thesis using settled by (simp add: e' release_output_def ans)
    next
      case held: False
      then have p: "e_state e = Playing \<or> e_state e = Paused"
        using settled stopped by (cases "e_state e") auto
      have "e_sink (pause cx e) = None" if "e_state (pause cx e) \<noteq> Paused"
        using pause_keeps(1) [OF c, of cx] pause_settles [OF p, of cx] that
        by (simp add: core_inv_def)
      then show ?thesis
        using settled held p ans by (auto simp: e' release_output_def Let_def)
    qed
  qed
qed

lemma release_request_honoured_witness:
  "e_sink (snd (handle (demo_ctx True) (MsgReleaseRequested None 5) demo_playing)) = None
    \<and> last_of (e_answers (snd (handle (demo_ctx True) (MsgReleaseRequested None 5) demo_playing)))
        = Some (5, True)"
  using release_request_honoured [OF demo_playing_reachable refl, of None 5]
  by (simp add: demo_playing_facts del: handle.simps)

text \<open>
  A refused resume loses nothing: if the device cannot be taken again, the engine says why and
  is otherwise exactly as it was, so a later resume can retry.
\<close>

theorem refused_resume_loses_nothing:
  assumes "e_state e = Paused" and "e_sink e = None" and "e_current e = Some p"
    and "cx_open cx (e_sinks e) (p_spec p) (e_world e) = (Inl err, w)"
  shows "command cx Resume e =
      e\<lparr>e_events := e_events e
            @ [ErrorEvent (show_error (with_context ''opening the audio output'' err))],
        e_world := w\<rparr>"
  using assms
  by (simp add: resume_def reopen_output_def open_sink_def drop_sink_def run_w_def emit_def)

lemma refused_resume_loses_nothing_witness:
  "e_current (command (demo_ctx False) Resume (demo_mid\<lparr>e_state := Paused, e_sink := None\<rparr>))
     = Some (fresh_playing demo_prepared 0)"
  using refused_resume_loses_nothing [of "demo_mid\<lparr>e_state := Paused, e_sink := None\<rparr>"
      "fresh_playing demo_prepared 0" "demo_ctx False"]
  by (simp add: demo_ctx_def)

end
