(* ===== verification/Engine_Waits.thy ===== *)
theory Engine_Waits
  imports Engine_Reach
begin

text \<open>
  A second invariant of the audio thread: while it waits for a track, something is on its way that
  will end the wait. It is kept by every step but one, a switch of outputs while the engine is
  waiting for the track that was opened ahead.
\<close>

definition waits :: "nat set \<Rightarrow> 'w engine \<Rightarrow> bool" where
  "waits A e \<longleftrightarrow>
     (\<forall>g \<in> A. g \<le> e_generation e) \<and>
     (\<forall>g t a. LoadTask g t a \<in> set (e_tasks e) \<longrightarrow> g \<le> e_generation e) \<and>
     ((e_state e = Loading \<or> e_state e = Seeking) \<and> \<not> e_adopting e \<longrightarrow>
        e_generation e \<notin> A \<and> (\<exists>t a. LoadTask (e_generation e) t a \<in> set (e_tasks e)))"

lemma waits_cong:
  assumes "e_generation e' = e_generation e" "e_tasks e' = e_tasks e" "e_state e' = e_state e"
    "e_adopting e' = e_adopting e"
  shows "waits A e' = waits A e"
  using assms by (simp add: waits_def)

lemma waits_primitive [simp]:
  "waits A (snd (run_w f e)) = waits A e" "waits A (do_w g e) = waits A e"
  "waits A (snd (queued_frames cx e)) = waits A e"
  "waits A (snd (heard_position cx e)) = waits A e"
  "waits A (emit ev e) = waits A e" "waits A (publish_status e) = waits A e"
  "waits A (answer r b e) = waits A e" "waits A (answer_waiting b e) = waits A e"
  "waits A (flush_sink cx e) = waits A e" "waits A (emit_position cx e) = waits A e"
  "waits A (drop_sink cx e) = waits A e" "waits A (close_output cx e) = waits A e"
  "waits A (replace_sinks cx k e) = waits A e" "waits A (switched c result e) = waits A e"
  by (rule waits_cong; simp)+

lemma waits_fields [simp]:
  "waits A (e\<lparr>e_current := c\<rparr>) = waits A e" "waits A (e\<lparr>e_outgoing := og\<rparr>) = waits A e"
  "waits A (e\<lparr>e_outgoing := og, e_current := c\<rparr>) = waits A e"
  "waits A (e\<lparr>e_sink := s\<rparr>) = waits A e" "waits A (e\<lparr>e_released := r\<rparr>) = waits A e"
  "waits A (e\<lparr>e_pause_when_ready := b\<rparr>) = waits A e"
  "waits A (e\<lparr>e_release_when_ready := rl\<rparr>) = waits A e"
  "waits A (e\<lparr>e_pause_when_ready := b, e_release_when_ready := rl\<rparr>) = waits A e"
  "waits A (e\<lparr>e_current := c, e_pause_when_ready := b\<rparr>) = waits A e"
  "waits A (e\<lparr>e_waiting_until := w\<rparr>) = waits A e" "waits A (e\<lparr>e_polling := b\<rparr>) = waits A e"
  "waits A (e\<lparr>e_waiting_until := w, e_polling := b\<rparr>) = waits A e"
  "waits A (e\<lparr>e_next := n\<rparr>) = waits A e" "waits A (e\<lparr>e_next := n, e_waiting_until := w\<rparr>) = waits A e"
  "waits A (e\<lparr>e_waiting_until := w, e_current := c\<rparr>) = waits A e"
  by (rule waits_cong; simp)+

text \<open>A state in which nothing is awaited only has to bound the numbers.\<close>

definition bounded :: "nat set \<Rightarrow> 'w engine \<Rightarrow> bool" where
  "bounded A e \<longleftrightarrow>
     (\<forall>g \<in> A. g \<le> e_generation e) \<and>
     (\<forall>g t a. LoadTask g t a \<in> set (e_tasks e) \<longrightarrow> g \<le> e_generation e)"

lemma waits_bounded: "waits A e \<Longrightarrow> bounded A e"
  by (simp add: waits_def bounded_def)

lemma bounded_waits: "bounded A e \<Longrightarrow> e_state e \<notin> {Loading, Seeking} \<Longrightarrow> waits A e"
  by (simp add: waits_def bounded_def)

lemma bounded_primitive [simp]:
  "bounded A (snd (run_w f e)) = bounded A e" "bounded A (do_w g e) = bounded A e"
  "bounded A (snd (queued_frames cx e)) = bounded A e"
  "bounded A (snd (heard_position cx e)) = bounded A e"
  "bounded A (emit ev e) = bounded A e" "bounded A (publish_status e) = bounded A e"
  "bounded A (answer r b e) = bounded A e" "bounded A (answer_waiting b e) = bounded A e"
  "bounded A (flush_sink cx e) = bounded A e" "bounded A (emit_position cx e) = bounded A e"
  "bounded A (drop_sink cx e) = bounded A e" "bounded A (close_output cx e) = bounded A e"
  "bounded A (drop_next e) = bounded A e" "bounded A (set_state cx s e) = bounded A e"
  by (simp_all add: bounded_def)

lemma bounded_fields [simp]:
  "bounded A (e\<lparr>e_current := c\<rparr>) = bounded A e" "bounded A (e\<lparr>e_outgoing := og\<rparr>) = bounded A e"
  "bounded A (e\<lparr>e_outgoing := og, e_current := c\<rparr>) = bounded A e"
  "bounded A (e\<lparr>e_sink := s\<rparr>) = bounded A e" "bounded A (e\<lparr>e_released := r\<rparr>) = bounded A e"
  "bounded A (e\<lparr>e_pause_when_ready := b\<rparr>) = bounded A e"
  "bounded A (e\<lparr>e_release_when_ready := rl\<rparr>) = bounded A e"
  "bounded A (e\<lparr>e_adopting := b\<rparr>) = bounded A e" "bounded A (e\<lparr>e_next := n\<rparr>) = bounded A e"
  "bounded A (e\<lparr>e_next := n, e_adopting := b\<rparr>) = bounded A e"
  "bounded A (e\<lparr>e_waiting_until := w\<rparr>) = bounded A e"
  "bounded A (e\<lparr>e_waiting_until := w, e_current := c\<rparr>) = bounded A e"
  by (simp_all add: bounded_def)

lemma bounded_cancel: "bounded A e \<Longrightarrow> bounded A (cancel_load e)"
  unfolding bounded_def cancel_load_def by (simp, blast intro: le_SucI)

section \<open>The steps\<close>

lemma waits_begin_load: "bounded A e \<Longrightarrow> waits A (begin_load cx t a s b e)"
  by (auto simp: bounded_def waits_def) (blast intro: le_SucI)

lemma waits_request: "bounded A e \<Longrightarrow> waits A (request_load cx t e)"
  by (simp add: request_load_def waits_begin_load)

lemma bounded_end_failed [simp]: "bounded A (end_failed e) = bounded A e"
  by (simp add: end_failed_def Let_def bounded_def split: option.split)

lemma waits_fail: "bounded A e \<Longrightarrow> waits A (fail cx err e)"
  by (rule bounded_waits) (simp_all add: fail_def Let_def bounded_cancel)

lemma bounded_interrupt [simp]: "bounded A (interrupt_current cx e) = bounded A e"
  by (simp add: interrupt_current_def Let_def split: option.split)

lemma waits_stop: "bounded A e \<Longrightarrow> waits A (stop cx e)"
  by (rule bounded_waits) (simp_all add: stop_def Let_def bounded_cancel)

lemma waits_crossing: "waits A e \<Longrightarrow> waits A (check_crossing cx e)"
  by (simp add: check_crossing_def Let_def split_def waits_request waits_bounded
      split: option.split)

lemma waits_set_aside: "waits A e \<Longrightarrow> waits A (set_aside_unheard cx e)"
  by (simp add: set_aside_unheard_def Let_def split_def waits_crossing split: option.split)

lemma waits_set_state: "bounded A e \<Longrightarrow> s \<notin> {Loading, Seeking} \<Longrightarrow> waits A (set_state cx s e)"
  by (rule bounded_waits) simp_all

lemma waits_pause: "waits A e \<Longrightarrow> waits A (pause cx e)"
  by (simp add: pause_def Let_def split_def waits_set_state waits_bounded waits_fail
      split: state.split option.split)

lemma waits_drop_next:
  "waits A e \<Longrightarrow> e_state e \<notin> {Loading, Seeking} \<Longrightarrow> waits A (drop_next e)"
  using bounded_waits [of A "drop_next e"] by (simp add: waits_bounded)

lemma waits_release: "waits A e \<Longrightarrow> waits A (release_output cx r e)"
  using waits_pause [of A e cx]
  by (auto simp: release_output_def Let_def waits_set_aside waits_drop_next split: option.split)

lemma waits_output_lost:
  "waits A e \<Longrightarrow> e_state e = Playing \<or> e_state e = Paused \<Longrightarrow> waits A (output_lost cx err e)"
  by (auto simp: output_lost_def Let_def waits_set_aside waits_drop_next waits_set_state
      waits_bounded)

lemma waits_failed: "waits A e \<Longrightarrow> waits A (failed cx err e)"
  by (auto simp: failed_def waits_output_lost waits_fail waits_bounded)

lemma waits_open_sink: "waits A (snd (open_sink cx spec e)) = waits A e"
  by (simp add: open_sink_def Let_def split_def split: sum.split)

lemma bounded_open_sink: "bounded A (snd (open_sink cx spec e)) = bounded A e"
  by (simp add: open_sink_def Let_def split_def split: sum.split)

lemma waits_release_if_asked: "waits A e \<Longrightarrow> waits A (release_if_asked cx e)"
  by (simp add: release_if_asked_def waits_release split: option.split)

lemma start_track_waits:
  assumes "bounded A e"
  shows "bounded A (snd (start_track cx track e))"
    and "fst (start_track cx track e) = None \<Longrightarrow> waits A (snd (start_track cx track e))"
proof -
  let ?e = "e\<lparr>e_waiting_until := None, e_polling := False\<rparr>"
  let ?spec = "source_spec_of (pr_source track)"
  define opened where
    "opened = (if sink_fits ?spec ?e then (None, ?e) else open_sink cx ?spec ?e)"
  have o: "bounded A (snd opened)"
    using assms bounded_open_sink [of A cx ?spec ?e] by (simp add: opened_def bounded_def)
  have st: "start_track cx track e =
      (case fst opened of
         Some err \<Rightarrow> (Some err, emit (TrackEnded (pr_meta track) Failed) (snd opened))
       | None \<Rightarrow>
           let (t, e) = run_w (cx_now cx) (snd opened);
               e = e\<lparr>e_current := Some (fresh_playing track t)\<rparr>;
               e = emit (TrackStarted (pr_meta track) ?spec False) e;
               s = (if e_pause_when_ready e then Paused else Playing);
               e = e\<lparr>e_pause_when_ready := False\<rparr>;
               e = set_state cx s e;
               e = emit_position cx e
           in (None, release_if_asked cx e))"
    by (simp add: start_track_def opened_def Let_def split_def)
  have w: "waits A (release_if_asked cx (emit_position cx (set_state cx s e')))"
    if "bounded A e'" "s = Playing \<or> s = Paused" for s e'
    using that by (auto intro!: waits_release_if_asked simp: waits_set_state)
  show "fst (start_track cx track e) = None \<Longrightarrow> waits A (snd (start_track cx track e))"
    using w o by (cases "fst opened") (simp_all add: st Let_def split_def)
  have "bounded A (release_if_asked cx (emit_position cx (set_state cx s e')))"
    if "bounded A e'" "s = Playing \<or> s = Paused" for s e'
    by (rule waits_bounded [OF w [OF that]])
  then show "bounded A (snd (start_track cx track e))"
    using o by (cases "fst opened") (simp_all add: st Let_def split_def)
qed

lemma waits_start_opened: "bounded A e \<Longrightarrow> waits A (start_opened_ahead cx track e)"
  using start_track_waits [of A
      "snd (run_w (sup_started (cx_supplier cx) (tm_track (pr_meta track))) e)" cx track]
  by (auto simp: start_opened_ahead_def Let_def split_def waits_request waits_fail split: option.split)

lemma finish_waits:
  assumes "waits A e"
  shows "waits A (snd (finish_track_completed cx e))"
  using assms
  by (auto simp: finish_track_completed_def Let_def split_def waits_failed split: option.split)

lemma waits_track_completed: "waits A e \<Longrightarrow> waits A (track_completed cx e)"
  using finish_waits [of A e cx]
  by (simp add: track_completed_def Let_def split_def waits_request waits_bounded)

lemma waits_handover: "waits A e \<Longrightarrow> waits A (handover cx track e)"
  by (simp add: handover_def waits_crossing split: option.split)

lemma waits_join_next: "waits A e \<Longrightarrow> waits A (join_next cx e)"
  using finish_waits [of A "e\<lparr>e_next := None, e_waiting_until := None\<rparr>" cx]
  by (simp add: join_next_def Let_def split_def waits_handover waits_start_opened waits_bounded
      split: option.split next_phase.split)

lemma waits_adopting: "bounded A e \<Longrightarrow> e_adopting e \<Longrightarrow> waits A (set_state cx Loading e)"
  by (simp add: waits_def bounded_def)

lemma waits_wait_for_next: "waits A e \<Longrightarrow> waits A (wait_for_next cx e)"
proof -
  assume e: "waits A e"
  define w where "w =
    (case e_waiting_until e of
       Some d \<Rightarrow> (d, e)
     | None \<Rightarrow>
         let (queued, e) = queued_frames cx e;
             rate = (case e_current e of None \<Rightarrow> 1 | Some p \<Rightarrow> sample_rate (p_spec p));
             (t, e) = run_w (cx_now cx) e;
             d = t + (frames_to_duration queued rate - wait_margin)
         in (d, e\<lparr>e_waiting_until := Some d\<rparr>))"
  let ?n = "run_w (cx_now cx) (snd w)"
  have n: "waits A (snd ?n)"
    using e by (simp add: w_def Let_def split_def split: option.split)
  let ?f = "finish_track_completed cx ((snd ?n)\<lparr>e_waiting_until := None\<rparr>)"
  have f: "waits A (snd ?f)" using n by (intro finish_waits) simp
  then have "waits A (set_state cx Loading ((snd ?f)\<lparr>e_adopting := True\<rparr>))"
    by (intro waits_adopting) (simp_all add: waits_bounded)
  moreover have "wait_for_next cx e =
      (if fst ?n < fst w then (snd ?n)\<lparr>e_polling := True\<rparr>
       else if fst ?f then set_state cx Loading ((snd ?f)\<lparr>e_adopting := True\<rparr>) else snd ?f)"
    unfolding wait_for_next_def Let_def split_def w_def [unfolded Let_def split_def, symmetric]
    by (rule refl)
  ultimately show ?thesis using n f by simp
qed

lemma waits_start_prefetch: "waits A e \<Longrightarrow> waits A (start_prefetch t e)"
  by (auto simp: start_prefetch_def Let_def waits_def)

lemma start_prefetch_state: "e_state (start_prefetch t e) = e_state e"
  by simp

lemma waits_end_of_source:
  assumes "waits A e" and "e_state e = Playing"
  shows "waits A (end_of_source cx e)"
proof -
  have d: "waits A (drop_next e)" using assms by (simp add: waits_drop_next)
  have over: "waits A (track_completed cx (drop_next e'))" if "waits A e'" "e_state e' = Playing" for e'
    using that by (intro waits_track_completed waits_drop_next) simp_all
  show ?thesis
  proof (cases "sup_peek (cx_supplier cx) Adv_Auto (e_world e)")
    case (Peek_Next wanted)
    define a where "a = (case e_next e of
        Some nx \<Rightarrow> if nx_track nx \<noteq> wanted then drop_next e else e | None \<Rightarrow> e)"
    define b where "b = (if e_next a = None then start_prefetch wanted a else a)"
    have a: "waits A a" "e_state a = Playing"
      using assms d by (auto simp: a_def split: option.split)
    have b: "waits A b" "e_state b = Playing"
      using a by (simp_all add: b_def waits_start_prefetch)
    have "end_of_source cx e = (case map_option nx_phase (e_next b) of
                Some (Ready _) \<Rightarrow> join_next cx b
              | Some Opening \<Rightarrow> wait_for_next cx b
              | _ \<Rightarrow> track_completed cx (drop_next b))"
      by (simp only: end_of_source_def Peek_Next peek.case Let_def a_def b_def)
    then show ?thesis
      using waits_join_next [OF b(1), of cx] waits_wait_for_next [OF b(1), of cx] over [OF b]
      by (cases "e_next b") (simp_all split: next_phase.split)
  qed (use over [OF assms] in \<open>simp_all add: end_of_source_def\<close>)
qed

lemma waits_source_finished:
  "waits A e \<Longrightarrow> e_state e = Playing \<Longrightarrow> waits A (source_finished cx e)"
  by (simp add: source_finished_def waits_end_of_source waits_track_completed)

lemma waits_maybe_prefetch: "waits A e \<Longrightarrow> waits A (maybe_prefetch cx e)"
  by (simp add: maybe_prefetch_def Let_def waits_start_prefetch waits_drop_next
      split: option.split peek.split)

lemma waits_prefetched: "waits A e \<Longrightarrow> waits A (prefetched cx g result e)"
  by (simp add: prefetched_def waits_start_opened waits_request waits_bounded
      split: option.split sum.split)

lemma waits_take_ready: "waits A (snd (take_ready_next cx how e)) = waits A e"
  by (simp add: take_ready_next_def split: option.split next_phase.split)

lemma waits_rebase: "waits A (rebase t e) = waits A e"
  by (simp add: rebase_def)

lemma bounded_rebase: "bounded A (rebase t e) = bounded A e"
  by (simp add: rebase_def)

lemma waits_seek_past: "waits A e \<Longrightarrow> waits A (seek_past_the_end cx e)"
  using waits_take_ready [of A cx Adv_Auto e]
  by (auto simp: seek_past_the_end_def Let_def split_def waits_start_opened waits_request
      waits_bounded split: option.split)

lemma waits_seek_in_place: "waits A e \<Longrightarrow> waits A (seek_in_place cx t e)"
  by (simp add: seek_in_place_def Let_def split_def finish_reposition_def waits_rebase waits_fail
      waits_bounded split: option.split sum.split)

lemma waits_seek_forward: "waits A e \<Longrightarrow> waits A (seek_forward_only cx t e)"
  by (simp add: seek_forward_only_def Let_def finish_reposition_def waits_rebase reject_seek_def
      split: option.split)

lemma waits_seek_reopen: "waits A e \<Longrightarrow> waits A (seek_reopen cx t was e)"
  by (simp add: seek_reopen_def Let_def waits_begin_load bounded_rebase waits_bounded
      split: option.split)

lemma waits_seek_during:
  assumes "waits A e"
  shows "waits A (seek_during_handover cx target e)"
proof (cases "e_outgoing e")
  case None
  then show ?thesis using assms by (simp add: seek_during_handover_def Let_def split_def)
next
  case (Some og)
  have b: "bounded A e" using assms by (rule waits_bounded)
  have "waits A (seek_reopen cx t was e')" if "bounded A e'" "e_current e' = Some p" for t was e' p
    using that by (simp add: seek_reopen_def Let_def waits_begin_load bounded_rebase)
  then show ?thesis
    using Some b by (simp add: seek_during_handover_def Let_def split_def waits_request)
qed

lemma waits_seek: "waits A e \<Longrightarrow> waits A (seek cx target e)"
  by (simp add: seek_def Let_def split_def waits_seek_during reject_seek_def waits_seek_past
      waits_seek_in_place waits_seek_forward waits_seek_reopen split: option.split seek_mode.split)

lemma finish_seek_waits:
  assumes "bounded A e" and "e_current e \<noteq> None"
  shows "bounded A (snd (finish_seek cx track e))"
    and "fst (finish_seek cx track e) = None \<Longrightarrow> waits A (snd (finish_seek cx track e))"
proof -
  have w: "waits A (release_if_asked cx (emit_position cx (set_state cx s e')))"
    if "bounded A e'" "s = Playing \<or> s = Paused" for s e'
    using that by (auto intro!: waits_release_if_asked simp: waits_set_state)
  have u: "bounded A (e\<lparr>e_current := c, e_pause_when_ready := b\<rparr>)" for c b
    using assms(1) by (simp add: bounded_def)
  have wb: "bounded A (release_if_asked cx (emit_position cx (set_state cx s e')))"
    if "bounded A e'" "s = Playing \<or> s = Paused" for s e'
    by (rule waits_bounded [OF w [OF that]])
  show "bounded A (snd (finish_seek cx track e))"
    using assms w wb u by (auto simp: finish_seek_def Let_def split_def split: option.split)
  show "fst (finish_seek cx track e) = None \<Longrightarrow> waits A (snd (finish_seek cx track e))"
    using assms w u by (auto simp: finish_seek_def Let_def split_def split: option.splits if_splits)
qed

lemma waits_reopen_output: "waits A (snd (reopen_output cx e)) = waits A e"
  by (simp add: reopen_output_def waits_open_sink split: option.split)

lemma waits_resume: "waits A e \<Longrightarrow> waits A (resume cx e)"
proof -
  assume w: "waits A e"
  then have "waits A (snd (reopen_output cx e))" by (simp add: waits_reopen_output)
  note r = this waits_bounded [OF this]
  show ?thesis
    using w r
    by (auto simp: resume_def Let_def split_def waits_set_state waits_fail
        split: state.split option.split)
qed

lemma waits_move_output: "waits A e \<Longrightarrow> waits A (move_output cx k chan was e)"
  by (simp add: move_output_def Let_def split_def waits_reopen_output waits_resume
      split: option.split)

lemma waits_set_output:
  assumes "waits A e" and "\<not> e_adopting e"
  shows "waits A (set_output cx k chan e)"
proof -
  have "waits A (drop_next e)" using assms by (auto simp: waits_def)
  then show ?thesis
    using waits_pause [of A "drop_next e" cx]
    by (simp add: set_output_def Let_def waits_move_output waits_set_aside)
qed

lemma waits_write_chunk: "waits A e \<Longrightarrow> waits A (snd (write_chunk cx s p e))"
  by (simp add: write_chunk_def Let_def split_def waits_maybe_prefetch split: sum.split)

lemma waits_play_round:
  assumes "waits A e" and "e_state e = Playing"
  shows "waits A (play_round cx e)"
proof -
  have c: "waits A (check_crossing cx (e\<lparr>e_polling := False\<rparr>))"
    using assms(1) by (simp add: waits_crossing)
  have st: "e_state (check_crossing cx (e\<lparr>e_polling := False\<rparr>)) = Playing"
    if "e_current (check_crossing cx (e\<lparr>e_polling := False\<rparr>)) = Some p" for p
    using crossing_state [of cx "e\<lparr>e_polling := False\<rparr>"] that assms(2) by simp
  have "waits A (snd (play_step cx e))"
    using c st
    by (auto simp: play_step_def Let_def split_def waits_write_chunk waits_source_finished
        split: option.split sum.split)
  then show ?thesis by (simp add: play_round_def Let_def split_def waits_failed split: option.split)
qed

lemma waits_command:
  assumes "waits A e"
  shows "waits A (command cx c e)"
proof (cases c)
  case (Play t)
  then show ?thesis using assms by (cases t) (simp_all add: waits_request waits_bounded)
next
  case Next
  have b: "bounded A (snd (take_ready_next cx Adv_Next e))"
    using assms waits_take_ready by (intro waits_bounded) blast
  then show ?thesis
    using Next by (simp add: Let_def split_def waits_request waits_start_opened split: option.split)
next
  case Previous
  then show ?thesis using assms by (simp add: Let_def split_def waits_request waits_bounded)
qed (use assms in \<open>simp_all add: waits_stop waits_bounded waits_seek waits_release waits_resume
       waits_pause\<close>)

section \<open>Runs\<close>

text \<open>A run in which no output is switched while the engine waits for the track opened ahead.\<close>

fun risky :: "msg \<Rightarrow> 'w engine \<Rightarrow> bool" where
  "risky (MsgSetOutput k chan) e = e_adopting e"
| "risky _ e = False"

text \<open>
  The second component are the loads that have answered, the third the tracks opened ahead: a task
  answers at most once.
\<close>

fun answers_prefetch :: "msg \<Rightarrow> nat option" where
  "answers_prefetch (MsgPrefetched g result) = Some g"
| "answers_prefetch _ = None"

inductive careful :: "'w ctx \<Rightarrow> 'w engine \<times> nat set \<times> nat set \<Rightarrow> bool" for cx where
  Fresh: "careful cx (new_engine sinks w, {}, {})"
| Alone: "careful cx (e, A, P) \<Longrightarrow> careful cx (e\<lparr>e_world := w\<rparr>, A, P)"
| Message: "careful cx (e, A, P) \<Longrightarrow> answers_load m = None \<Longrightarrow> answers_prefetch m = None \<Longrightarrow>
    \<not> risky m e \<Longrightarrow> handle cx m e = (True, e') \<Longrightarrow> careful cx (e', A, P)"
| Answer: "careful cx (e, A, P) \<Longrightarrow> answers_load m = Some g \<Longrightarrow> g \<notin> A \<Longrightarrow>
    LoadTask g target at0 \<in> set (e_tasks e) \<Longrightarrow> handle cx m e = (True, e') \<Longrightarrow>
    careful cx (e', insert g A, P)"
| Ahead: "careful cx (e, A, P) \<Longrightarrow> answers_prefetch m = Some g \<Longrightarrow> g \<notin> P \<Longrightarrow>
    PrefetchTask g track \<in> set (e_tasks e) \<Longrightarrow> handle cx m e = (True, e') \<Longrightarrow>
    careful cx (e', A, insert g P)"
| Round: "careful cx (e, A, P) \<Longrightarrow> e_state e = Playing \<Longrightarrow> careful cx (play_round cx e, A, P)"
| Timeout: "careful cx (e, A, P) \<Longrightarrow> idle_deadline cx e = Some t \<Longrightarrow>
    careful cx (idle_release cx e, A, P)"

lemma careful_reachable: "careful cx (e, A, P) \<Longrightarrow> reachable cx (e, A)"
proof (induction "(e, A, P)" arbitrary: e A P rule: careful.induct)
  case (Ahead e A P m g track e')
  have "answers_load m = None" using Ahead(3) by (cases m) auto
  then show ?case using Ahead by (blast intro: reachable.intros loop_step.intros)
qed (blast intro: reachable.intros loop_step.intros)+

lemma waits_answered:
  assumes "waits A e" and "engine_inv A e" and "g \<notin> A" and "g \<le> e_generation e"
    and "answers_load m = Some g"
  shows "waits (insert g A) (snd (handle cx m e))"
proof (cases "is_awaited g e")
  case False
  then have same: "snd (handle cx m e) = e" using assms(5) by (cases m) auto
  have "e_generation e = g \<Longrightarrow> e_state e \<noteq> Loading \<and> e_state e \<noteq> Seeking"
    using False by (simp add: is_awaited_def)
  then have "waits (insert g A) e" using assms(1,4) by (auto simp: waits_def)
  then show ?thesis by (simp only: same)
next
  case True
  have b: "bounded (insert g A) e" using assms(1,4) by (auto simp: bounded_def waits_def)
  have c: "core_inv A e" using assms(2) by (simp add: engine_inv_def)
  show ?thesis
  proof (cases m)
    case (MsgLoaded h track)
    show ?thesis
    proof (cases "e_state e = Seeking")
      case seeking: True
      have "e_current e \<noteq> None" using core_current [OF c] seeking by simp
      note k = finish_seek_waits [OF b this, of cx track]
      show ?thesis
        using MsgLoaded True seeking assms(5) k
        by (cases "fst (finish_seek cx track e)") (auto simp: Let_def split_def waits_fail)
    next
      case False
      note k = start_track_waits [OF b, of cx track]
      show ?thesis
        using MsgLoaded True False assms(5) k
        by (cases "fst (start_track cx track e)") (auto simp: Let_def split_def waits_fail)
    qed
  qed (use True b assms(5) in \<open>simp_all add: waits_fail waits_stop\<close>)
qed

lemma careful_waits: "careful cx (e, A, P) \<Longrightarrow> waits A e"
proof (induction "(e, A, P)" arbitrary: e A P rule: careful.induct)
  case (Fresh sinks w)
  then show ?case by (simp add: waits_def new_engine_def)
next
  case (Alone e A P w)
  have "waits A (e\<lparr>e_world := w\<rparr>) = waits A e" by (rule waits_cong) simp_all
  then show ?case using Alone by simp
next
  case (Message e A P m e')
  have "waits A (snd (handle cx m e))"
    using Message(2-5) waits_bounded [OF Message(2)]
    by (cases m) (simp_all add: waits_command waits_release waits_set_output waits_stop)
  then show ?case using Message(6) by simp
next
  case (Answer e A P m g target at0 e')
  have "engine_inv A e"
    using reachable_inv [OF careful_reachable [OF Answer(1)]] by (simp add: run_inv_def)
  moreover have "g \<le> e_generation e" using Answer by (auto simp: waits_def)
  ultimately show ?case using waits_answered [of A e g m cx] Answer by simp
next
  case (Ahead e A P m g track e')
  have "waits A (snd (handle cx m e))"
    using Ahead(2,3) by (cases m) (simp_all add: waits_prefetched)
  then show ?case using Ahead(6) by simp
next
  case (Round e A P)
  then show ?case by (simp add: waits_play_round)
next
  case (Timeout e A P t)
  then show ?case by (simp add: idle_release_def waits_release)
qed

end
