(* ===== verification/Engine_Prefetch.thy ===== *)
theory Engine_Prefetch
  imports Engine_Waits
begin

text \<open>
  The track opened ahead: while the engine takes it to be opening, the task that opens it has been
  started, under the number the engine expects, and has not answered.
\<close>

definition fetching :: "nat set \<Rightarrow> 'w engine \<Rightarrow> bool" where
  "fetching P e \<longleftrightarrow>
     (\<forall>g \<in> P. g \<le> e_prefetch_generation e) \<and>
     (\<forall>g t. PrefetchTask g t \<in> set (e_tasks e) \<longrightarrow> g \<le> e_prefetch_generation e) \<and>
     (\<forall>nx. e_next e = Some nx \<and> nx_phase nx = Opening \<longrightarrow>
        nx_generation nx \<notin> P \<and> PrefetchTask (nx_generation nx) (nx_track nx) \<in> set (e_tasks e))"

lemma fetching_cong:
  assumes "e_next e' = e_next e" "e_tasks e' = e_tasks e" "e_prefetch_generation e' = e_prefetch_generation e"
  shows "fetching P e' = fetching P e"
  using assms by (simp add: fetching_def)

lemma fetching_primitive [simp]:
  "fetching P (snd (run_w f e)) = fetching P e" "fetching P (do_w g e) = fetching P e"
  "fetching P (snd (queued_frames cx e)) = fetching P e"
  "fetching P (snd (heard_position cx e)) = fetching P e"
  "fetching P (emit ev e) = fetching P e" "fetching P (publish_status e) = fetching P e"
  "fetching P (answer r b e) = fetching P e" "fetching P (answer_waiting b e) = fetching P e"
  "fetching P (flush_sink cx e) = fetching P e" "fetching P (emit_position cx e) = fetching P e"
  "fetching P (drop_sink cx e) = fetching P e" "fetching P (close_output cx e) = fetching P e"
  "fetching P (replace_sinks cx k e) = fetching P e" "fetching P (switched c result e) = fetching P e"
  "fetching P (set_state cx s e) = fetching P e" "fetching P (cancel_load e) = fetching P e"
  by (rule fetching_cong; simp)+

lemma fetching_fields [simp]:
  "fetching P (e\<lparr>e_current := c\<rparr>) = fetching P e" "fetching P (e\<lparr>e_outgoing := og\<rparr>) = fetching P e"
  "fetching P (e\<lparr>e_outgoing := og, e_current := c\<rparr>) = fetching P e"
  "fetching P (e\<lparr>e_sink := s\<rparr>) = fetching P e" "fetching P (e\<lparr>e_released := r\<rparr>) = fetching P e"
  "fetching P (e\<lparr>e_pause_when_ready := b\<rparr>) = fetching P e"
  "fetching P (e\<lparr>e_release_when_ready := rl\<rparr>) = fetching P e"
  "fetching P (e\<lparr>e_pause_when_ready := b, e_release_when_ready := rl\<rparr>) = fetching P e"
  "fetching P (e\<lparr>e_current := c, e_pause_when_ready := b\<rparr>) = fetching P e"
  "fetching P (e\<lparr>e_waiting_until := w\<rparr>) = fetching P e" "fetching P (e\<lparr>e_polling := b\<rparr>) = fetching P e"
  "fetching P (e\<lparr>e_waiting_until := w, e_polling := b\<rparr>) = fetching P e"
  "fetching P (e\<lparr>e_waiting_until := w, e_current := c\<rparr>) = fetching P e"
  "fetching P (e\<lparr>e_adopting := b\<rparr>) = fetching P e" "fetching P (e\<lparr>e_world := v\<rparr>) = fetching P e"
  by (rule fetching_cong; simp)+

lemma fetching_dropped [simp]:
  assumes "fetching P e"
  shows "fetching P (drop_next e)" "fetching P (e\<lparr>e_next := None\<rparr>)"
    "fetching P (e\<lparr>e_next := None, e_waiting_until := w\<rparr>)" "fetching P (e\<lparr>e_next := None, e_adopting := b\<rparr>)"
  using assms by (simp_all add: fetching_def drop_next_def)

section \<open>The steps\<close>

lemma fetching_begin_load: "fetching P e \<Longrightarrow> fetching P (begin_load cx t a s b e)"
  by (simp add: begin_load_def fetching_def drop_next_def Let_def)

lemma fetching_request: "fetching P e \<Longrightarrow> fetching P (request_load cx t e)"
  by (simp add: request_load_def fetching_begin_load)

text \<open>The number of a task just started is new.\<close>

lemma fetching_start_prefetch: "fetching P e \<Longrightarrow> fetching P (start_prefetch t e)"
  by (fastforce simp: start_prefetch_def fetching_def Let_def)

lemma fetching_end_failed [simp]: "fetching P (end_failed e) = fetching P e"
  by (simp add: end_failed_def Let_def split: option.split)

lemma fetching_fail: "fetching P e \<Longrightarrow> fetching P (fail cx err e)"
  by (simp add: fail_def Let_def)

lemma fetching_interrupt: "fetching P e \<Longrightarrow> fetching P (interrupt_current cx e)"
  by (simp add: interrupt_current_def Let_def split: option.split)

lemma fetching_stop: "fetching P e \<Longrightarrow> fetching P (stop cx e)"
  by (simp add: stop_def Let_def fetching_interrupt)

lemma fetching_crossing: "fetching P e \<Longrightarrow> fetching P (check_crossing cx e)"
  by (simp add: check_crossing_def Let_def split_def fetching_request split: option.split)

lemma fetching_set_aside: "fetching P e \<Longrightarrow> fetching P (set_aside_unheard cx e)"
  by (simp add: set_aside_unheard_def Let_def split_def fetching_crossing split: option.split)

lemma fetching_pause: "fetching P e \<Longrightarrow> fetching P (pause cx e)"
  by (simp add: pause_def Let_def split_def fetching_fail split: state.split option.split)

lemma fetching_release: "fetching P e \<Longrightarrow> fetching P (release_output cx r e)"
  by (simp add: release_output_def Let_def fetching_set_aside fetching_pause split: option.split)

lemma fetching_output_lost: "fetching P e \<Longrightarrow> fetching P (output_lost cx err e)"
  by (simp add: output_lost_def Let_def fetching_set_aside)

lemma fetching_failed: "fetching P e \<Longrightarrow> fetching P (failed cx err e)"
  by (simp add: failed_def fetching_output_lost fetching_fail)

lemma fetching_open_sink [simp]: "fetching P (snd (open_sink cx spec e)) = fetching P e"
  by (simp add: open_sink_def Let_def split_def split: sum.split)

lemma fetching_release_if_asked: "fetching P e \<Longrightarrow> fetching P (release_if_asked cx e)"
  by (simp add: release_if_asked_def fetching_release split: option.split)

lemma fetching_start_track: "fetching P e \<Longrightarrow> fetching P (snd (start_track cx track e))"
  by (simp add: start_track_def Let_def split_def fetching_release_if_asked split: option.split)

lemma fetching_start_opened: "fetching P e \<Longrightarrow> fetching P (start_opened_ahead cx track e)"
  by (simp add: start_opened_ahead_def Let_def split_def fetching_request fetching_fail fetching_start_track
      split: option.split)

lemma fetching_finish: "fetching P e \<Longrightarrow> fetching P (snd (finish_track_completed cx e))"
  by (simp add: finish_track_completed_def Let_def split_def fetching_failed split: option.split)

lemma fetching_track_completed: "fetching P e \<Longrightarrow> fetching P (track_completed cx e)"
  by (simp add: track_completed_def Let_def split_def fetching_request fetching_finish)

lemma fetching_handover: "fetching P e \<Longrightarrow> fetching P (handover cx track e)"
  by (simp add: handover_def fetching_crossing split: option.split)

lemma fetching_join_next: "fetching P e \<Longrightarrow> fetching P (join_next cx e)"
  by (simp add: join_next_def Let_def split_def fetching_handover fetching_start_opened fetching_finish
      split: option.split next_phase.split)

lemma fetching_wait_for_next: "fetching P e \<Longrightarrow> fetching P (wait_for_next cx e)"
  by (simp add: wait_for_next_def Let_def split_def fetching_finish split: option.split)

lemma fetching_end_of_source: "fetching P e \<Longrightarrow> fetching P (end_of_source cx e)"
  by (simp add: end_of_source_def Let_def fetching_join_next fetching_wait_for_next fetching_track_completed
      fetching_start_prefetch split: peek.split option.split next_phase.split)

lemma fetching_source_finished: "fetching P e \<Longrightarrow> fetching P (source_finished cx e)"
  by (simp add: source_finished_def fetching_end_of_source fetching_track_completed)

lemma fetching_maybe_prefetch: "fetching P e \<Longrightarrow> fetching P (maybe_prefetch cx e)"
  by (simp add: maybe_prefetch_def Let_def fetching_start_prefetch split: option.split peek.split)

lemma fetching_take_ready: "fetching P e \<Longrightarrow> fetching P (snd (take_ready_next cx how e))"
  by (simp add: take_ready_next_def split: option.split next_phase.split)

text \<open>The answer of a task ends the opening of the track with its number, and of no other.\<close>

lemma fetching_prefetched:
  assumes "fetching P e" "PrefetchTask g t \<in> set (e_tasks e)"
  shows "fetching (insert g P) (prefetched cx g result e)"
proof (cases "\<exists>nx. e_next e = Some nx \<and> nx_generation nx = g")
  case False
  then have "prefetched cx g result e = e" by (simp add: prefetched_def split: option.split)
  then show ?thesis using assms False by (auto simp: fetching_def)
next
  case True
  then obtain nx where nx: "e_next e = Some nx" "nx_generation nx = g" by blast
  have g: "g \<le> e_prefetch_generation e" using assms by (auto simp: fetching_def)
  have "fetching (insert g P) (e\<lparr>e_next := None, e_adopting := False\<rparr>)"
    "fetching (insert g P) (e\<lparr>e_next := Some (nx\<lparr>nx_phase := Ready track\<rparr>)\<rparr>)"
    "fetching (insert g P) (e\<lparr>e_next := Some (nx\<lparr>nx_phase := PrefetchFailed\<rparr>)\<rparr>)" for track
    using assms(1) g by (simp_all add: fetching_def)
  then show ?thesis
    using nx by (simp add: prefetched_def fetching_start_opened fetching_request split: sum.split)
qed

lemma fetching_rebase [simp]: "fetching P (rebase t e) = fetching P e"
  by (simp add: rebase_def)

lemma fetching_seek_past: "fetching P e \<Longrightarrow> fetching P (seek_past_the_end cx e)"
  by (simp add: seek_past_the_end_def Let_def split_def fetching_start_opened fetching_request
      fetching_take_ready split: option.split)

lemma fetching_seek_in_place: "fetching P e \<Longrightarrow> fetching P (seek_in_place cx t e)"
  by (simp add: seek_in_place_def Let_def split_def finish_reposition_def fetching_fail
      split: option.split sum.split)

lemma fetching_seek_forward: "fetching P e \<Longrightarrow> fetching P (seek_forward_only cx t e)"
  by (simp add: seek_forward_only_def Let_def finish_reposition_def reject_seek_def split: option.split)

lemma fetching_seek_reopen: "fetching P e \<Longrightarrow> fetching P (seek_reopen cx t was e)"
  by (simp add: seek_reopen_def Let_def fetching_begin_load split: option.split)

lemma fetching_seek_during: "fetching P e \<Longrightarrow> fetching P (seek_during_handover cx target e)"
  by (simp add: seek_during_handover_def Let_def split_def fetching_seek_reopen fetching_request split: option.split)

lemma fetching_seek: "fetching P e \<Longrightarrow> fetching P (seek cx target e)"
  by (simp add: seek_def Let_def split_def fetching_seek_during reject_seek_def fetching_seek_past
      fetching_seek_in_place fetching_seek_forward fetching_seek_reopen split: option.split seek_mode.split)

lemma fetching_finish_seek: "fetching P e \<Longrightarrow> fetching P (snd (finish_seek cx track e))"
  by (simp add: finish_seek_def Let_def split_def fetching_release_if_asked split: option.split)

lemma fetching_reopen_output [simp]: "fetching P (snd (reopen_output cx e)) = fetching P e"
  by (simp add: reopen_output_def split: option.split)

lemma fetching_resume: "fetching P e \<Longrightarrow> fetching P (resume cx e)"
  by (simp add: resume_def Let_def split_def fetching_fail split: state.split option.split)

lemma fetching_move_output: "fetching P e \<Longrightarrow> fetching P (move_output cx k chan was e)"
  by (simp add: move_output_def Let_def split_def fetching_resume split: option.split)

lemma fetching_set_output: "fetching P e \<Longrightarrow> fetching P (set_output cx k chan e)"
  by (simp add: set_output_def Let_def fetching_move_output fetching_set_aside fetching_pause)

lemma fetching_write_chunk: "fetching P e \<Longrightarrow> fetching P (snd (write_chunk cx s p e))"
  by (simp add: write_chunk_def Let_def split_def fetching_maybe_prefetch split: sum.split)

lemma fetching_play_round: "fetching P e \<Longrightarrow> fetching P (play_round cx e)"
proof -
  assume "fetching P e"
  then have "fetching P (snd (play_step cx e))"
    by (simp add: play_step_def Let_def split_def fetching_crossing fetching_source_finished fetching_write_chunk
        split: option.split sum.split)
  then show ?thesis by (simp add: play_round_def Let_def split_def fetching_failed split: option.split)
qed

lemma fetching_command: "fetching P e \<Longrightarrow> fetching P (command cx c e)"
proof (cases c)
  case (Play t)
  then show "fetching P e \<Longrightarrow> ?thesis" by (cases t) (simp_all add: fetching_request fetching_interrupt)
next
  case Next
  then show "fetching P e \<Longrightarrow> ?thesis"
    by (simp add: Let_def split_def fetching_request fetching_start_opened fetching_take_ready fetching_interrupt
        split: option.split)
qed (simp_all add: Let_def split_def fetching_stop fetching_seek fetching_release fetching_resume fetching_pause
      fetching_request fetching_interrupt)

lemma fetching_handle:
  assumes "fetching P e" "answers_prefetch m = None"
  shows "fetching P (snd (handle cx m e))"
  using assms
  by (cases m) (simp_all add: Let_def split_def fetching_command fetching_release fetching_finish_seek
      fetching_start_track fetching_fail fetching_stop fetching_set_output split: option.split)

section \<open>The runs\<close>

lemma careful_fetching: "careful cx (e, A, P) \<Longrightarrow> fetching P e"
proof (induction "(e, A, P)" arbitrary: e A P rule: careful.induct)
  case (Fresh sinks w)
  then show ?case by (simp add: fetching_def new_engine_def)
next
  case (Message e A P m e')
  then show ?case using fetching_handle [of P e m cx] by simp
next
  case (Answer e A P m g target at0 e')
  then have "answers_prefetch m = None" by (cases m) auto
  then show ?case using Answer fetching_handle [of P e m cx] by simp
next
  case (Ahead e A P m g track e')
  then obtain result where "m = MsgPrefetched g result" by (cases m) auto
  then show ?case using Ahead fetching_prefetched [of P e g track cx result] by simp
next
  case (Round e A P)
  then show ?case by (simp add: fetching_play_round)
next
  case (Timeout e A P t)
  then show ?case by (simp add: idle_release_def fetching_release)
qed simp

end
