(* ===== verification/Engine_Waits_Props.thy ===== *)
theory Engine_Waits_Props
  imports Engine_Prefetch Engine_Demo
begin

text \<open>
  What the audio thread waits for, where it lands after a seek, and the cases the code does not
  handle: each of these is a run of the model, step by step.
\<close>

section \<open>Waiting\<close>

text \<open>
  C12. While the engine is loading or seeking, a task that will end the wait has been started and has not
  answered: the load of the current generation, or, when it is about to adopt the track opened ahead,
  the task that opens that very track under the number the engine expects. This holds in every run
  in which a task answers at most once and no output is switched during such an adoption.
\<close>

theorem never_waits_for_nothing:
  assumes "careful cx (e, loaded, opened)" and "e_state e = Loading \<or> e_state e = Seeking"
  shows "(e_adopting e \<and> (\<exists>nx. e_next e = Some nx \<and> nx_phase nx = Opening \<and> nx_generation nx \<notin> opened \<and>
      PrefetchTask (nx_generation nx) (nx_track nx) \<in> set (e_tasks e))) \<or>
    (e_generation e \<notin> loaded \<and>
      (\<exists>target at0. LoadTask (e_generation e) target at0 \<in> set (e_tasks e)))"
proof -
  have "waits loaded e" using careful_waits [OF assms(1)] .
  moreover have "core_inv loaded e"
    using reachable_inv [OF careful_reachable [OF assms(1)]] by (simp add: run_inv_def engine_inv_def)
  then have "e_adopting e \<Longrightarrow> \<exists>nx. e_next e = Some nx \<and> nx_phase nx = Opening"
    unfolding core_inv_def by blast
  moreover have "fetching opened e" using careful_fetching [OF assms(1)] .
  ultimately show ?thesis using assms(2) unfolding waits_def fetching_def by blast
qed

lemma demo_loading_careful: "careful (demo_ctx True) (demo_loading, {}, {})"
proof (rule careful.Message)
  show "careful (demo_ctx True) (demo_start, {}, {})" unfolding demo_start_def by (rule careful.Fresh)
  show "handle (demo_ctx True) (MsgCommand (Play None)) demo_start = (True, demo_loading)"
    by (simp add: demo_loading_def)
qed simp_all

lemma never_waits_for_nothing_witness:
  "\<exists>target at0. LoadTask (e_generation demo_loading) target at0 \<in> set (e_tasks demo_loading)"
  using never_waits_for_nothing [OF demo_loading_careful] demo_loading_facts by auto

text \<open>
  The exception is real. The engine has drained the old track and waits, \<open>Loading\<close>, for the track
  opened ahead; switching the output drops that track and asks for nothing instead. Nothing is in
  flight any more, the answer that was on its way is ignored, and so is "play".
\<close>

lemma switching_while_adopting:
  assumes "e_state e = Loading"
  shows "e_state (set_output cx k chan e) = Loading"
    and "e_next (set_output cx k chan e) = None" and "\<not> e_adopting (set_output cx k chan e)"
    and "e_tasks (set_output cx k chan e) = e_tasks e"
    and "e_generation (set_output cx k chan e) = e_generation e"
  using assms by (simp_all add: set_output_def move_output_def Let_def)

lemma stuck_ignores:
  assumes "e_state e = Loading" and "e_next e = None"
  shows "snd (handle cx (MsgPrefetched g result) e) = e"
    and "snd (handle cx (MsgCommand (Play None)) e) = e"
    and "idle_deadline cx e = None"
  using assms by (simp_all add: prefetched_def idle_deadline_def)

text \<open>A run into it: a track without samples, whose successor is still opening when it ends.\<close>

definition demo_silent :: prepared where
  "demo_silent = demo_prepared\<lparr>pr_source := SrcRaw [] 0 demo_spec\<rparr>"

definition demo_ending :: "demo_world engine" where
  "demo_ending = snd (handle (demo_ctx True) (MsgLoaded 1 demo_silent) demo_loading)"

definition demo_adopting :: "demo_world engine" where
  "demo_adopting = play_round (demo_ctx True) demo_ending"

definition demo_stuck :: "demo_world engine" where
  "demo_stuck = set_output (demo_ctx True) 1 9 demo_adopting"

lemma demo_ending_reachable: "reachable (demo_ctx True) (demo_ending, {1})"
proof (rule reachable.Step [OF demo_loading_reachable])
  show "loop_step (demo_ctx True) (demo_loading, {}) (demo_ending, {1})"
    by (rule loop_step.Answered [of "MsgLoaded 1 demo_silent"])
      (simp_all add: demo_ending_def demo_loading_tasks)
qed

lemma demo_ending_facts:
  "e_state demo_ending = Playing" "e_outgoing demo_ending = None" "e_next demo_ending = None"
  "e_waiting_until demo_ending = None"
  "e_sink demo_ending = Some (demo_sink demo_spec)"
  "map_option p_source (e_current demo_ending) = Some (Some (SrcRaw [] 0 demo_spec))"
  "map_option p_pending (e_current demo_ending) = Some []"
  "map_option p_offset (e_current demo_ending) = Some 0"
  "map_option p_source_done (e_current demo_ending) = Some False"
  "e_tasks demo_ending = [LoadTask 1 (LoadAdvance Adv_Auto) 0]"
  by (simp_all add: demo_ending_def is_awaited_def demo_loading_facts start_track_def
      sink_fits_def open_sink_def drop_sink_def demo_ctx_def Let_def run_w_def
      release_if_asked_def split_def demo_prepared_def demo_silent_def demo_loading_tasks
      fresh_playing_def emit_position_def)

lemma silent_round:
  assumes "e_state e = Playing" "e_outgoing e = None" "e_next e = None" "e_waiting_until e = None"
    and "e_sink e = Some s" and "e_current e = Some p"
    and "p_source p = Some (SrcRaw [] 0 demo_spec)" "p_pending p = []" "p_offset p = 0"
    and "\<not> p_source_done p"
  shows "e_state (play_round (demo_ctx True) e) = Loading"
    and "e_tasks (play_round (demo_ctx True) e)
      = e_tasks e @ [PrefetchTask (e_prefetch_generation e + 1) ''8'']"
  using assms
  by (simp_all add: play_round_def play_step_def check_crossing_def source_finished_def
      end_of_source_def wait_for_next_def finish_track_completed_def queued_frames_def run_w_def
      start_prefetch_def emit_position_def heard_position_def demo_ctx_def demo_supplier_def Let_def
      split_def raw_chunk_frames_def demo_spec_def)

lemma demo_adopting_facts:
  "e_state demo_adopting = Loading"
  "e_tasks demo_adopting
     = [LoadTask 1 (LoadAdvance Adv_Auto) 0, PrefetchTask (e_prefetch_generation demo_ending + 1) ''8'']"
proof -
  obtain p where p: "e_current demo_ending = Some p" "p_source p = Some (SrcRaw [] 0 demo_spec)"
    "p_pending p = []" "p_offset p = 0" "\<not> p_source_done p"
    using demo_ending_facts(6-9) by auto
  show "e_state demo_adopting = Loading"
    "e_tasks demo_adopting
     = [LoadTask 1 (LoadAdvance Adv_Auto) 0, PrefetchTask (e_prefetch_generation demo_ending + 1) ''8'']"
    using silent_round [OF demo_ending_facts(1-5) p] demo_ending_facts(10)
    by (simp_all add: demo_adopting_def)
qed

lemma demo_stuck_reachable: "reachable (demo_ctx True) (demo_stuck, {1})"
proof (rule reachable.Step [OF reachable.Step [OF demo_ending_reachable]])
  show "loop_step (demo_ctx True) (demo_ending, {1}) (demo_adopting, {1})"
    unfolding demo_adopting_def by (rule loop_step.PlayRound) (simp add: demo_ending_facts)
  show "loop_step (demo_ctx True) (demo_adopting, {1}) (demo_stuck, {1})"
    by (rule loop_step.Told [of "MsgSetOutput 1 9"]) (simp_all add: demo_stuck_def)
qed

theorem switching_output_strands_engine:
  "reachable (demo_ctx True) (demo_stuck, {1}) \<and> e_state demo_stuck = Loading
    \<and> (\<forall>g t a. LoadTask g t a \<in> set (e_tasks demo_stuck) \<longrightarrow> g \<in> {1})
    \<and> (\<forall>g result. snd (handle (demo_ctx True) (MsgPrefetched g result) demo_stuck) = demo_stuck)
    \<and> snd (handle (demo_ctx True) (MsgCommand (Play None)) demo_stuck) = demo_stuck
    \<and> idle_deadline (demo_ctx True) demo_stuck = None"
proof -
  note s = switching_while_adopting [OF demo_adopting_facts(1), of "demo_ctx True" 1 9,
      folded demo_stuck_def]
  show ?thesis
    using demo_stuck_reachable s(1,4) stuck_ignores [OF s(1,2)] demo_adopting_facts(2) by simp
qed

section \<open>Seeking\<close>

text \<open>
  What a source still has to give after skipping, as long as the count of samples to skip does not
  saturate (a Rust vector is never longer than \<^verbatim>\<open>usize::MAX\<close>).
\<close>

fun skip_fits :: "nat \<Rightarrow> source \<Rightarrow> bool" where
  "skip_fits n (SrcDecoder d) \<longleftrightarrow> dec_skip_samples d + n * channels (dec_spec d) \<le> usize_max"
| "skip_fits n (SrcRaw samples pos spec) \<longleftrightarrow> length samples \<le> usize_max"

lemma source_skip_rest:
  assumes "skip_fits n src"
  shows "source_rest (source_skip_frames n src)
    = drop (n * channels (source_spec_of src)) (source_rest src)"
proof (cases src)
  case (SrcDecoder d)
  then have "min (n * channels (dec_spec d)) usize_max = n * channels (dec_spec d)"
    "min (dec_skip_samples d + n * channels (dec_spec d)) usize_max
      = dec_skip_samples d + n * channels (dec_spec d)"
    using assms by simp_all
  then show ?thesis by (simp add: SrcDecoder dec_skip_frames_def add.commute)
next
  case (SrcRaw samples pos spec)
  then have "length samples \<le> usize_max" using assms by simp
  then have "min (min (pos + min (n * channels spec) usize_max) usize_max) (length samples)
      = min (pos + n * channels spec) (length samples)"
    by auto
  moreover have "drop (min k (length samples)) samples = drop k samples" for k
    by (simp add: min_def)
  ultimately show ?thesis by (simp add: SrcRaw Let_def add.commute)
qed

lemma emit_position_keeps_track:
  "e_current e = Some p \<Longrightarrow> \<exists>t x. e_current (emit_position cx e)
     = Some (p\<lparr>p_last_position_at := t, p_position := x\<rparr>) \<or>
       e_current (emit_position cx e) = Some (p\<lparr>p_last_position_at := t\<rparr>)"
  by (auto simp: emit_position_def Let_def split_def split: option.split)

text \<open>
  C13. A seek in a stream that has to be reopened lands on the exact frame: whatever earlier point the
  supplier could reopen at, the samples up to the target are skipped, and the position is the
  target; a stream that starts later is played from where it starts, and says so.
\<close>

theorem reopened_seek_lands:
  assumes "e_current e = Some p" and "source_spec_of (pr_source track) = p_spec p"
    and "p_pending p = []" and "e_release_when_ready e = None"
    and "skip_fits (duration_to_frames (p_base p - pr_start track) (sample_rate (p_spec p))) (pr_source track)"
  shows "fst (finish_seek cx track e) = None \<and>
    (\<exists>p'. e_current (snd (finish_seek cx track e)) = Some p' \<and>
      (if pr_start track \<le> p_base p
       then p_base p' = p_base p \<and> to_play p' =
         drop (duration_to_frames (p_base p - pr_start track) (sample_rate (p_spec p))
                 * channels (p_spec p)) (source_rest (pr_source track))
       else p_base p' = pr_start track \<and> to_play p' = source_rest (pr_source track)))"
proof -
  let ?rate = "sample_rate (p_spec p)"
  define src where "src = (if pr_start track \<le> p_base p
    then source_skip_frames (duration_to_frames (p_base p - pr_start track) ?rate) (pr_source track)
    else pr_source track)"
  define landed where "landed = max (p_base p) (pr_start track)"
  let ?p = "p\<lparr>p_source := Some src, p_seek := pr_seek track, p_base := landed, p_position := landed\<rparr>"
  let ?s = "if e_pause_when_ready e then Paused else Playing"
  let ?e = "set_state cx ?s (e\<lparr>e_current := Some ?p, e_pause_when_ready := False\<rparr>)"
  have f: "finish_seek cx track e = (None, release_if_asked cx (emit_position cx ?e))"
    using assms(1,2) by (simp add: finish_seek_def src_def landed_def Let_def max_def)
  have "e_release_when_ready (emit_position cx ?e) = None" using assms(4) by simp
  then have r: "release_if_asked cx (emit_position cx ?e) = emit_position cx ?e"
    by (simp add: release_if_asked_def)
  have "e_current ?e = Some ?p" by simp
  then obtain t x where "e_current (emit_position cx ?e) = Some (?p\<lparr>p_last_position_at := t, p_position := x\<rparr>) \<or>
      e_current (emit_position cx ?e) = Some (?p\<lparr>p_last_position_at := t\<rparr>)"
    using emit_position_keeps_track by blast
  then obtain p' where p': "e_current (emit_position cx ?e) = Some p'" "p_base p' = landed"
    "to_play p' = source_rest src"
    using assms(3) by (auto simp: to_play_def)
  have "source_rest src = (if pr_start track \<le> p_base p
      then drop (duration_to_frames (p_base p - pr_start track) ?rate * channels (p_spec p))
             (source_rest (pr_source track))
      else source_rest (pr_source track))"
    using source_skip_rest [OF assms(5)] assms(2) by (simp add: src_def)
  then show ?thesis using f r p' by (auto simp: landed_def)
qed

lemma reopened_seek_lands_witness:
  "\<exists>p'. e_current (snd (finish_seek (demo_ctx True) demo_prepared
       (demo_mid\<lparr>e_state := Seeking, e_current := Some (rebased 22676 (fresh_playing demo_prepared 0))\<rparr>)))
     = Some p' \<and> p_base p' = 22676 \<and> to_play p' = [3, 4]"
proof -
  have one: "duration_to_frames 22676 44100 = 1" by (simp add: duration_to_frames_def u64_max_def)
  show ?thesis
    using reopened_seek_lands [of
        "demo_mid\<lparr>e_state := Seeking, e_current := Some (rebased 22676 (fresh_playing demo_prepared 0))\<rparr>"
        "rebased 22676 (fresh_playing demo_prepared 0)" demo_prepared "demo_ctx True"] one
    by (simp add: rebased_def fresh_playing_def demo_prepared_def demo_spec_def demo_samples_def
        demo_mid_def demo_start_def new_engine_def usize_max_def u64_max_def)
qed

text \<open>Where the audio of the track that was handed out so far ends.\<close>

definition decoded_until :: "playing \<Rightarrow> duration" where
  "decoded_until p =
     p_base p + frames_to_duration
       (p_frames_written p - p_lead_in p
          + (length (p_pending p) - p_offset p) div channels (p_spec p))
       (sample_rate (p_spec p))"

text \<open>
  C14. In a track that was not joined to the one before it, a stream that only goes forward refuses what it
  has already handed out and otherwise skips to the frame: nothing of what is skipped is played,
  everything after it is, and the position is the target. After a join the code counts the frames of
  the track before as well, and the claim does not hold: \<open>forward_seek_after_join_refused\<close> below.
\<close>

theorem forward_seek_lands:
  assumes "e_current e = Some p" and "p_source p = Some src" and "source_spec_of src = p_spec p"
    and "skip_fits (duration_to_frames (at0 - decoded_until p) (sample_rate (p_spec p))) src"
    and "p_lead_in p = 0"
  shows "if at0 < decoded_until p
    then seek_forward_only cx at0 e
      = reject_seek ''this stream can only seek forward, past what is already buffered'' e
    else \<exists>p'. e_current (seek_forward_only cx at0 e) = Some p' \<and> p_base p' = at0 \<and>
      p_frames_written p' = 0 \<and>
      to_play p' = drop (duration_to_frames (at0 - decoded_until p) (sample_rate (p_spec p))
                           * channels (p_spec p)) (source_rest src)"
proof (cases "at0 < decoded_until p")
  case True
  then show ?thesis using assms(1,5) by (simp add: seek_forward_only_def decoded_until_def Let_def)
next
  case False
  let ?skip = "duration_to_frames (at0 - decoded_until p) (sample_rate (p_spec p))"
  let ?p = "rebased at0 (p\<lparr>p_source := Some (source_skip_frames ?skip src)\<rparr>)"
  let ?e = "emit (Seeked at0) (rebase at0 ((flush_sink cx e)
      \<lparr>e_current := Some (p\<lparr>p_source := Some (source_skip_frames ?skip src)\<rparr>)\<rparr>))"
  have f: "seek_forward_only cx at0 e = emit_position cx ?e"
    using assms(1,2,5) False
    by (simp add: seek_forward_only_def decoded_until_def finish_reposition_def Let_def)
  have "e_current ?e = Some ?p" by (simp add: rebase_def)
  then obtain t x where "e_current (emit_position cx ?e) = Some (?p\<lparr>p_last_position_at := t, p_position := x\<rparr>) \<or>
      e_current (emit_position cx ?e) = Some (?p\<lparr>p_last_position_at := t\<rparr>)"
    using emit_position_keeps_track by blast
  then obtain p' where "e_current (emit_position cx ?e) = Some p'" "p_base p' = at0"
    "p_frames_written p' = 0" "to_play p' = source_rest (source_skip_frames ?skip src)"
    by (auto simp: to_play_def rebased_def)
  then show ?thesis using False f source_skip_rest [OF assms(4)] assms(3) by simp
qed

lemma forward_seek_lands_witness:
  "\<exists>p'. e_current (seek_forward_only (demo_ctx True) 22676 demo_mid) = Some p' \<and> to_play p' = [3, 4]"
proof -
  have one: "duration_to_frames 22676 44100 = 1" by (simp add: duration_to_frames_def u64_max_def)
  have "decoded_until (fresh_playing demo_prepared 0) = 0"
    by (simp add: decoded_until_def fresh_playing_def demo_prepared_def)
  then show ?thesis
    using forward_seek_lands [of demo_mid "fresh_playing demo_prepared 0"
        "SrcRaw demo_samples 0 demo_spec" 22676 "demo_ctx True"] one
    by (auto simp add: fresh_playing_def demo_prepared_def demo_spec_def demo_samples_def usize_max_def
        u64_max_def)
qed

text \<open>
  The frames of the track before are counted too once two tracks were joined: half a second into a
  track none of which has been decoded is refused as "already buffered", because a second of the
  track before was written to the same device.
\<close>

theorem forward_seek_after_join_refused:
  assumes "e_current e = Some (joined_playing track previous)"
    and "p_spec previous = \<lparr>sample_rate = 44100, channels = 2, bits_per_sample = 16\<rparr>"
    and "p_frames_written previous = 44100" and "pr_start track = 0" and "pr_first_chunk track = []"
  shows "seek_forward_only cx (millis 500) e
    = reject_seek ''this stream can only seek forward, past what is already buffered'' e"
  using assms
  by (simp add: seek_forward_only_def joined_playing_def frames_to_duration_div millis_def Let_def)

text \<open>
  A pause that released the device, a seek that has to reopen the stream, and a resume while it is
  reopened: the track that then arrives is played without taking the device again, and the next
  round stops the engine.
\<close>

lemma emit_position_sink [simp]: "e_sink (emit_position cx e) = e_sink e"
  by simp

theorem resume_while_seeking_stops:
  assumes "e_state e = Paused" and "e_sink e = None" and "e_current e = Some p"
    and "e_outgoing e = None" and "e_release_when_ready e = None" and "\<not> p_source_done p"
    and "source_spec_of (pr_source track) = p_spec p"
  shows "\<exists>e1 e2. e1 = command cx Resume (seek_reopen cx at0 True e)
    \<and> e2 = snd (handle cx (MsgLoaded (e_generation e1) track) e1)
    \<and> e_state e2 = Playing \<and> e_sink e2 = None \<and> e_state (play_round cx e2) = Stopped"
proof -
  define e1 where "e1 = command cx Resume (seek_reopen cx at0 True e)"
  obtain q where s: "e_state (seek_reopen cx at0 True e) = Seeking" "e_sink (seek_reopen cx at0 True e) = None"
    "e_outgoing (seek_reopen cx at0 True e) = None"
    "e_current (seek_reopen cx at0 True e) = Some q" "p_spec q = p_spec p" "\<not> p_source_done q"
    "e_release_when_ready (seek_reopen cx at0 True e) = None"
  proof -
    let ?b = "emit (Seeked at0) (begin_load cx (LoadTrack (tm_track (p_meta p))) at0 Seeking True
        (rebase at0 ((flush_sink cx e)\<lparr>e_current := Some (p\<lparr>p_source := None\<rparr>)\<rparr>)))"
    have r: "seek_reopen cx at0 True e = emit_position cx ?b"
      using assms(3) by (simp add: seek_reopen_def Let_def)
    have "e_current ?b = Some (rebased at0 (p\<lparr>p_source := None\<rparr>))" by (simp add: rebase_def)
    then obtain q where "e_current (emit_position cx ?b) = Some q" "p_spec q = p_spec p" "\<not> p_source_done q"
      using emit_position_keeps_track by (fastforce simp: rebased_def)
    then show ?thesis using that assms r by (simp add: rebase_def)
  qed
  have e1: "e_state e1 = Seeking" "e_sink e1 = None" "e_outgoing e1 = None" "e_current e1 = Some q"
    "\<not> e_pause_when_ready e1" "e_release_when_ready e1 = None"
    using s by (simp_all add: e1_def resume_def)
  define e2 where "e2 = snd (handle cx (MsgLoaded (e_generation e1) track) e1)"
  have e2: "e_state e2 = Playing \<and> e_sink e2 = None \<and> e_outgoing e2 = None \<and>
      (\<exists>p'. e_current e2 = Some p' \<and> \<not> p_source_done p')"
  proof -
    have fit: "source_spec_of (pr_source track) = p_spec q" using assms(7) s(5) by simp
    obtain src at1 where f: "finish_seek cx track e1 = (None, release_if_asked cx (emit_position cx
        (set_state cx Playing (e1\<lparr>e_current := Some (q\<lparr>p_source := Some src, p_seek := pr_seek track,
           p_base := at1, p_position := at1\<rparr>), e_pause_when_ready := False\<rparr>))))"
      using e1(4,5) fit by (auto simp: finish_seek_def Let_def split_def)
    let ?q = "q\<lparr>p_source := Some src, p_seek := pr_seek track, p_base := at1, p_position := at1\<rparr>"
    let ?e = "set_state cx Playing (e1\<lparr>e_current := Some ?q, e_pause_when_ready := False\<rparr>)"
    have r: "release_if_asked cx (emit_position cx ?e) = emit_position cx ?e"
      using e1(6) by (simp add: release_if_asked_def)
    have h: "e2 = emit_position cx ?e" using e1(1) f r by (simp add: e2_def is_awaited_def)
    have "e_current ?e = Some ?q" by simp
    then obtain p' where "e_current (emit_position cx ?e) = Some p'" "\<not> p_source_done p'"
      using emit_position_keeps_track s(6) by fastforce
    then show ?thesis using e1 by (simp add: h)
  qed
  have "e_state (play_round cx e2) = Stopped"
    using e2 by (auto simp: play_round_def play_step_def check_crossing_def failed_def fail_def Let_def)
  then show ?thesis using e2 e1_def e2_def by blast
qed

end
