(* ===== verification/Caps.thy ===== *)
theory Caps
  imports Strings Decode
begin

text \<open>
  \<^verbatim>\<open>output/caps.rs\<close>: what a device can play without loss, probed rate by rate, and the choice of a
  container for a track, or the precise reason there is none. The hardware's own answers
  (\<^verbatim>\<open>test_rate\<close>, \<^verbatim>\<open>test_format_at\<close>) are arguments, as they are in the code.
\<close>

datatype sample_format = S16Le | S24_3Le | S24Le | S32Le

definition all_formats :: "sample_format list" where
  "all_formats = [S16Le, S24_3Le, S32Le, S24Le]"

fun significant_bits :: "sample_format \<Rightarrow> nat" where
  "significant_bits S16Le = 16"
| "significant_bits S24_3Le = 24"
| "significant_bits S24Le = 24"
| "significant_bits S32Le = 32"

fun container_bytes :: "sample_format \<Rightarrow> nat" where
  "container_bytes S16Le = 2"
| "container_bytes S24_3Le = 3"
| "container_bytes S24Le = 4"
| "container_bytes S32Le = 4"

fun show_format :: "sample_format \<Rightarrow> string" where
  "show_format S16Le = ''S16_LE''"
| "show_format S24_3Le = ''S24_3LE''"
| "show_format S24Le = ''S24_LE''"
| "show_format S32Le = ''S32_LE''"

definition standard_rates :: "nat list" where
  "standard_rates = [44100, 48000, 88200, 96000, 176400, 192000, 352800, 384000]"

text \<open>The \<^verbatim>\<open>BTreeMap\<close> of rates is an association list in ascending order of rate.\<close>

record capabilities =
  cap_channels :: "nat \<times> nat"
  cap_rates :: "(nat \<times> sample_format list) list"

definition formats_at :: "nat \<Rightarrow> capabilities \<Rightarrow> sample_format list option" where
  "formats_at rate caps = map_of (cap_rates caps) rate"

fun put_rate :: "nat \<Rightarrow> 'a \<Rightarrow> (nat \<times> 'a) list \<Rightarrow> (nat \<times> 'a) list" where
  "put_rate k v [] = [(k, v)]"
| "put_rate k v ((k', v') # rest) =
     (if k < k' then (k, v) # (k', v') # rest
      else if k = k' then (k, v) # rest
      else (k', v') # put_rate k v rest)"

definition wanted_rates :: "nat list \<Rightarrow> nat list" where
  "wanted_rates extra =
     foldl (\<lambda>wanted r. if r \<in> set wanted then wanted else wanted @ [r]) standard_rates extra"

definition probe_rate ::
    "(nat \<Rightarrow> bool) \<Rightarrow> (nat \<Rightarrow> sample_format \<Rightarrow> bool) \<Rightarrow> (nat \<times> sample_format list) list \<Rightarrow> nat \<Rightarrow>
     (nat \<times> sample_format list) list" where
  "probe_rate test_rate test_format_at rates rate =
     (if \<not> test_rate rate then rates
      else let formats = filter (test_format_at rate) all_formats
           in if formats = [] then rates else put_rate rate formats rates)"

definition probe_with ::
    "nat \<times> nat \<Rightarrow> nat list \<Rightarrow> (nat \<Rightarrow> bool) \<Rightarrow> (nat \<Rightarrow> sample_format \<Rightarrow> bool) \<Rightarrow> capabilities" where
  "probe_with chans extra test_rate test_format_at =
     \<lparr>cap_channels = chans,
      cap_rates = foldl (probe_rate test_rate test_format_at) [] (wanted_rates extra)\<rparr>"

datatype missing = NoDepth | NoChannels | NoRate | DepthAtRate "sample_format list"

definition choose_format :: "source_spec \<Rightarrow> capabilities \<Rightarrow> missing + sample_format" where
  "choose_format src caps =
     (if bits_per_sample src = 0 \<or> bits_per_sample src > 32 then Inl NoDepth
      else if channels src < fst (cap_channels caps) \<or> channels src > snd (cap_channels caps)
      then Inl NoChannels
      else case formats_at (sample_rate src) caps of
             None \<Rightarrow> Inl NoRate
           | Some formats \<Rightarrow>
               (case find (\<lambda>f. bits_per_sample src \<le> significant_bits f) formats of
                  Some f \<Rightarrow> Inr f
                | None \<Rightarrow> Inl (DepthAtRate formats)))"

section \<open>What is said about it\<close>

definition pad_left :: "nat \<Rightarrow> string \<Rightarrow> string" where
  "pad_left n s = replicate (n - length s) (CHR '' '') @ s"

definition channel_range_text :: "nat \<times> nat \<Rightarrow> string" where
  "channel_range_text r =
     (if fst r = snd r then show_nat (fst r) @ '' channel(s)''
      else show_nat (fst r) @ '' to '' @ show_nat (snd r) @ '' channels'')"

definition rates_fitting :: "capabilities \<Rightarrow> nat \<Rightarrow> nat list" where
  "rates_fitting caps bits =
     map fst (filter (\<lambda>(r, formats). \<exists>f \<in> set formats. bits \<le> significant_bits f) (cap_rates caps))"

definition rates_text :: "nat list \<Rightarrow> string" where
  "rates_text rates = join '', '' (map show_nat rates)"

definition rates_text_formats :: "sample_format list \<Rightarrow> string" where
  "rates_text_formats formats = join '', '' (map show_format formats)"

definition caps_to_text :: "capabilities \<Rightarrow> string" where
  "caps_to_text caps =
     join [CHR 0x0A]
      ((if fst (cap_channels caps) = snd (cap_channels caps)
        then ''Channels: '' @ show_nat (fst (cap_channels caps))
        else ''Channels: '' @ show_nat (fst (cap_channels caps)) @ ''-''
               @ show_nat (snd (cap_channels caps)))
       # (if cap_rates caps = [] then [''No rate was accepted with any lossless format.'']
          else ''  Rate (Hz)  Formats''
               # map (\<lambda>(rate, formats). ''  '' @ pad_left 9 (show_nat rate) @ ''  ''
                                            @ join '', '' (map show_format formats))
                     (cap_rates caps)))"

record unsupported =
  un_device :: string
  un_source :: source_spec
  un_missing :: missing
  un_caps :: capabilities

definition show_unsupported :: "unsupported \<Rightarrow> string" where
  "show_unsupported u =
     (case un_missing u of
        NoDepth \<Rightarrow>
          ''a '' @ show_nat (bits_per_sample (un_source u))
          @ ''-bit source has no lossless container phonia knows how to use (only 1 to 32 bits are)''
      | NoChannels \<Rightarrow>
          un_device u @ '' accepts '' @ channel_range_text (cap_channels (un_caps u))
          @ ''; this track has '' @ show_nat (channels (un_source u)) @ '' channel(s)''
      | NoRate \<Rightarrow>
          un_device u @ '' cannot play '' @ show_nat (sample_rate (un_source u))
          @ '' Hz natively; for '' @ show_nat (bits_per_sample (un_source u))
          @ ''-bit audio it can do ''
          @ rates_text (rates_fitting (un_caps u) (bits_per_sample (un_source u)))
          @ '' Hz. phonia does not resample in exclusive mode; to hear it resampled, play through the sound server (`phonia ctl output set shared:default`).''
      | DepthAtRate offered \<Rightarrow>
          un_device u @ '' at '' @ show_nat (sample_rate (un_source u)) @ '' Hz only takes ''
          @ rates_text_formats offered @ '', which would drop bits from a ''
          @ show_nat (bits_per_sample (un_source u)) @ ''-bit source'')"

section \<open>Lemmas\<close>

lemma map_of_put_rate [simp]: "map_of (put_rate k v m) = (map_of m)(k \<mapsto> v)"
  by (induction m) (auto simp: fun_eq_iff)

lemma put_rate_keys: "fst ` set (put_rate k v m) = insert k (fst ` set m)"
proof (induction m)
  case (Cons kv m)
  then show ?case by (cases kv) (simp add: insert_commute)
qed simp

lemma put_rate_sorted:
  "sorted_wrt (<) (map fst m) \<Longrightarrow> sorted_wrt (<) (map fst (put_rate k v m))"
proof (induction m)
  case (Cons kv m)
  obtain k' v' where kv: "kv = (k', v')" by fastforce
  have "\<forall>x \<in> set (map fst (put_rate k v m)). k' < x" if "k' < k"
    using Cons(2) that put_rate_keys [of k v m] by (auto simp: kv)
  then show ?case using Cons by (auto simp: kv)
qed simp

lemma wanted_rates_set: "set (wanted_rates extra) = set standard_rates \<union> set extra"
proof -
  have "set (foldl (\<lambda>wanted r. if r \<in> set wanted then wanted else wanted @ [r]) ws extra)
      = set ws \<union> set extra" for ws
    by (induction extra arbitrary: ws) auto
  then show ?thesis by (simp add: wanted_rates_def)
qed

lemma probe_rates_lookup:
  "map_of (foldl (probe_rate tr tf) m rates) r =
     (if r \<in> set rates \<and> tr r \<and> filter (tf r) all_formats \<noteq> []
      then Some (filter (tf r) all_formats) else map_of m r)"
  by (induction rates arbitrary: m) (auto simp: probe_rate_def Let_def)

lemma probe_rates_sorted:
  "sorted_wrt (<) (map fst m) \<Longrightarrow> sorted_wrt (<) (map fst (foldl (probe_rate tr tf) m rates))"
  by (induction rates arbitrary: m) (auto simp: probe_rate_def Let_def put_rate_sorted)

lemma formats_at_probe:
  "formats_at r (probe_with chans extra tr tf) =
     (if r \<in> set standard_rates \<union> set extra \<and> tr r \<and> filter (tf r) all_formats \<noteq> []
      then Some (filter (tf r) all_formats) else None)"
  by (simp add: formats_at_def probe_with_def probe_rates_lookup wanted_rates_set)

lemma choose_format_Inr:
  "choose_format src caps = Inr f \<Longrightarrow>
     0 < bits_per_sample src \<and> bits_per_sample src \<le> significant_bits f"
  by (auto simp: choose_format_def find_Some_iff split: if_splits option.splits)

end
