(* ===== verification/Packing.thy ===== *)
theory Packing
  imports Caps "HOL-Library.Word"
begin

unbundle bit_operations_syntax

text \<open>
  How \<^verbatim>\<open>output/alsa.rs\<close> packs left-justified 32-bit samples into the container a device takes: bit
  shifts only. The interface every container keeps is a locale: a width, and a decoding that gives
  back every sample that has no more than the container's significant bits. A stream of frames is
  then read back exactly, which is proved once, for all of them.
\<close>

type_synonym byte = "8 word"

section \<open>The code\<close>

text \<open>\<^verbatim>\<open>to_le_bytes\<close> of an \<^verbatim>\<open>i32\<close>; \<^verbatim>\<open>sample >> n\<close> of a signed integer keeps the sign.\<close>

definition le_bytes :: "sample \<Rightarrow> byte list" where
  "le_bytes v = [ucast v, ucast (drop_bit 8 v), ucast (drop_bit 16 v), ucast (drop_bit 24 v)]"

definition le_bytes16 :: "16 word \<Rightarrow> byte list" where
  "le_bytes16 v = [ucast v, ucast (drop_bit 8 v)]"

definition pack_s16le :: "sample \<Rightarrow> byte list" where
  "pack_s16le s = le_bytes16 (ucast (signed_drop_bit 16 s))"

definition pack_s24_3le :: "sample \<Rightarrow> byte list" where
  "pack_s24_3le s =
     (let bytes = le_bytes (signed_drop_bit 8 s) in [bytes ! 0, bytes ! 1, bytes ! 2])"

definition pack_s24le :: "sample \<Rightarrow> byte list" where
  "pack_s24le s = le_bytes (signed_drop_bit 8 s)"

definition pack_s32le :: "sample \<Rightarrow> byte list" where
  "pack_s32le s = le_bytes s"

fun pack_sample :: "sample_format \<Rightarrow> sample \<Rightarrow> byte list" where
  "pack_sample S16Le s = pack_s16le s"
| "pack_sample S24_3Le s = pack_s24_3le s"
| "pack_sample S24Le s = pack_s24le s"
| "pack_sample S32Le s = pack_s32le s"

definition pack_frames :: "sample_format \<Rightarrow> sample list \<Rightarrow> byte list" where
  "pack_frames f samples = concat (map (pack_sample f) samples)"

section \<open>What a container promises\<close>

text \<open>A sample of a source of \<open>bits\<close> bits is left-justified: the bits below are zero.\<close>

definition fits_bits :: "nat \<Rightarrow> sample \<Rightarrow> bool" where
  "fits_bits bits s \<longleftrightarrow> (\<forall>i < 32 - bits. \<not> bit s i)"

locale sample_container =
  fixes pack :: "sample \<Rightarrow> byte list"
    and unpack :: "byte list \<Rightarrow> sample"
    and width :: nat
    and bits :: nat
  assumes width_pos: "0 < width"
    and pack_length: "length (pack s) = width"
    and unpack_pack: "fits_bits bits s \<Longrightarrow> unpack (pack s) = s"
begin

lemma packed_length: "length (concat (map pack samples)) = length samples * width"
  by (induction samples) (simp_all add: pack_length)

text \<open>The receiving side reads the stream in groups of the container's width.\<close>

lemma packed_group:
  assumes "i < length samples"
  shows "take width (drop (i * width) (concat (map pack samples))) = pack (samples ! i)"
  using assms
proof (induction samples arbitrary: i)
  case (Cons s samples)
  then show ?case by (cases i) (simp_all add: pack_length)
qed simp

lemma packed_read_back:
  assumes "\<forall>s \<in> set samples. fits_bits bits s"
  shows "map (\<lambda>i. unpack (take width (drop (i * width) (concat (map pack samples)))))
           [0..<length samples] = samples"
proof (rule nth_equalityI)
  fix i
  assume "i < length (map (\<lambda>i. unpack (take width (drop (i * width) (concat (map pack samples)))))
           [0..<length samples])"
  then have i: "i < length samples" by simp
  then have "fits_bits bits (samples ! i)" using assms by simp
  then show "map (\<lambda>i. unpack (take width (drop (i * width) (concat (map pack samples)))))
           [0..<length samples] ! i = samples ! i"
    using i by (simp add: packed_group unpack_pack)
qed simp

lemma packed_inject:
  assumes "\<forall>s \<in> set xs. fits_bits bits s" and "\<forall>s \<in> set ys. fits_bits bits s"
    and "concat (map pack xs) = concat (map pack ys)"
  shows "xs = ys"
proof -
  have "length xs * width = length ys * width"
    using assms(3) packed_length by metis
  then have len: "length xs = length ys" using width_pos by simp
  show ?thesis
    using packed_read_back [OF assms(1)] packed_read_back [OF assms(2)]
    unfolding len assms(3) by (rule trans [OF sym])
qed

end

text \<open>What a device does with a container: the sample, left-justified again.\<close>

definition word_of_bytes :: "byte list \<Rightarrow> sample" where
  "word_of_bytes bs = foldr (\<lambda>b w. push_bit 8 w OR ucast b) bs 0"

fun unpack_sample :: "sample_format \<Rightarrow> byte list \<Rightarrow> sample" where
  "unpack_sample S16Le bs = push_bit 16 (word_of_bytes bs)"
| "unpack_sample S24_3Le bs = push_bit 8 (word_of_bytes bs)"
| "unpack_sample S24Le bs = push_bit 8 (word_of_bytes (take 3 bs))"
| "unpack_sample S32Le bs = word_of_bytes bs"

lemma pack_sample_length: "length (pack_sample f s) = container_bytes f"
  by (cases f)
    (simp_all add: pack_s16le_def le_bytes16_def pack_s24_3le_def pack_s24le_def pack_s32le_def
      le_bytes_def Let_def)

lemma bits32: "(\<And>i. i < 32 \<Longrightarrow> bit (v :: 32 word) i = bit w i) \<Longrightarrow> v = w"
  by (rule bit_word_eqI) simp

lemma bit_word_of_bytes:
  "i < 32 \<Longrightarrow> bit (word_of_bytes (b # bs)) i
     = (if i < 8 then bit b i else bit (word_of_bytes bs) (i - 8))"
  by (auto simp: word_of_bytes_def bit_or_iff bit_push_bit_iff bit_ucast_iff dest: bit_imp_le_length)

lemma bit_word_of_Nil: "\<not> bit (word_of_bytes []) i"
  by (simp add: word_of_bytes_def)

lemma word_of_le_bytes: "word_of_bytes (le_bytes v) = v"
  by (rule bits32)
    (auto simp: le_bytes_def bit_word_of_bytes bit_word_of_Nil bit_ucast_iff bit_drop_bit_eq)

lemma bit_take3_le_bytes:
  "i < 32 \<Longrightarrow> bit (word_of_bytes (take 3 (le_bytes v))) i \<longleftrightarrow> i < 24 \<and> bit v i"
  by (auto simp: le_bytes_def bit_word_of_bytes bit_word_of_Nil bit_ucast_iff bit_drop_bit_eq)

lemma bit_le_bytes16:
  "i < 32 \<Longrightarrow> bit (word_of_bytes (le_bytes16 v)) i \<longleftrightarrow> i < 16 \<and> bit v i"
  by (auto simp: le_bytes16_def bit_word_of_bytes bit_word_of_Nil bit_ucast_iff bit_drop_bit_eq)

lemma pack_s24_3le_alt: "pack_s24_3le s = take 3 (pack_s24le s)"
  by (simp add: pack_s24_3le_def pack_s24le_def le_bytes_def Let_def)

lemma bit_asr: "i + n < 32 \<Longrightarrow> bit (signed_drop_bit n (s :: sample)) i = bit s (i + n)"
proof -
  assume "i + n < 32"
  then have "\<not> LENGTH(32) - n \<le> i" by simp
  then show ?thesis by (simp only: bit_signed_drop_bit_iff simp_thms if_False add.commute)
qed

lemma unpack_pack_sample:
  assumes "fits_bits (significant_bits f) s"
  shows "unpack_sample f (pack_sample f s) = s"
proof (rule bits32)
  fix i :: nat
  assume i: "i < 32"
  have low: "32 - significant_bits f \<le> i" if "bit s i"
    using assms that unfolding fits_bits_def by (meson not_less)
  show "bit (unpack_sample f (pack_sample f s)) i = bit s i"
    using i low
    by (cases f)
      (auto simp: pack_s16le_def pack_s24_3le_alt pack_s24le_def pack_s32le_def bit_push_bit_iff
        le_add_diff_inverse2 word_of_le_bytes bit_take3_le_bytes bit_le_bytes16 bit_ucast_iff bit_asr)
qed

text \<open>Every container of the code keeps the promise.\<close>

interpretation s16: sample_container "pack_sample S16Le" "unpack_sample S16Le" 2 16
  using pack_sample_length [of S16Le] unpack_pack_sample [of S16Le] by unfold_locales simp_all

interpretation s24_3: sample_container "pack_sample S24_3Le" "unpack_sample S24_3Le" 3 24
  using pack_sample_length [of S24_3Le] unpack_pack_sample [of S24_3Le] by unfold_locales simp_all

interpretation s24: sample_container "pack_sample S24Le" "unpack_sample S24Le" 4 24
  using pack_sample_length [of S24Le] unpack_pack_sample [of S24Le] by unfold_locales simp_all

interpretation s32: sample_container "pack_sample S32Le" "unpack_sample S32Le" 4 32
  using pack_sample_length [of S32Le] unpack_pack_sample [of S32Le] by unfold_locales simp_all

lemma sample_container_format:
  "sample_container (pack_sample f) (unpack_sample f) (container_bytes f) (significant_bits f)"
  by unfold_locales (simp_all add: pack_sample_length unpack_pack_sample, cases f, simp_all)

lemma fits_bits_take_bit: "fits_bits b s \<longleftrightarrow> take_bit (32 - b) s = 0"
  by (auto simp: fits_bits_def bit_eq_iff bit_take_bit_iff)

lemma fits_bits_mono: "fits_bits b s \<Longrightarrow> b \<le> b' \<Longrightarrow> fits_bits b' s"
  by (simp add: fits_bits_def)

end
