(* ===== verification/Sink_Report.thy ===== *)
theory Sink_Report
  imports Caps
begin

text \<open>
  The bit-perfect verdict of \<^verbatim>\<open>output/alsa.rs\<close>: what the kernel says about the running stream,
  compared with what was asked for. Text is UTF-8, so the arrow and the marks are three bytes each.
\<close>

datatype proc_reading =
    NotHw
  | Unreadable string string
  | ReadProc string string

record shared_route =
  sr_sink :: string
  sr_rate :: nat
  sr_kind :: string
  sr_codec :: "string option"
  sr_lossy :: bool

record sink_report =
  rp_device :: string
  rp_source :: source_spec
  rp_format :: string
  rp_proc :: proc_reading
  rp_shared :: "shared_route option"

definition new_report :: "string \<Rightarrow> source_spec \<Rightarrow> string \<Rightarrow> proc_reading \<Rightarrow> sink_report" where
  "new_report device src format proc =
     \<lparr>rp_device = device, rp_source = src, rp_format = format, rp_proc = proc, rp_shared = None\<rparr>"

definition shared_report :: "source_spec \<Rightarrow> string \<Rightarrow> shared_route \<Rightarrow> sink_report" where
  "shared_report src format route =
     \<lparr>rp_device = sr_sink route, rp_source = src, rp_format = format, rp_proc = NotHw,
      rp_shared = Some route\<rparr>"

section \<open>Reading the kernel's account\<close>

definition parse_hw_device :: "string \<Rightarrow> (nat \<times> nat) option" where
  "parse_hw_device device =
     (case strip_prefix ''hw:'' device of
        None \<Rightarrow> None
      | Some rest \<Rightarrow>
          (case split_once '','' rest of
             None \<Rightarrow> None
           | Some (crd, pcm) \<Rightarrow>
               (case (parse_u32 crd, parse_u32 pcm) of
                  (Some c, Some p) \<Rightarrow> Some (c, p)
                | _ \<Rightarrow> None)))"

definition extract_proc_field :: "string \<Rightarrow> string \<Rightarrow> string option" where
  "extract_proc_field contents key =
     find_map (\<lambda>line. case split_once '':'' line of
                        None \<Rightarrow> None
                      | Some (k, v) \<Rightarrow> if trim k = key then Some (trim v) else None)
       (lines contents)"

definition extract_proc_rate :: "string \<Rightarrow> nat option" where
  "extract_proc_rate contents =
     (case extract_proc_field contents ''rate'' of
        None \<Rightarrow> None
      | Some value \<Rightarrow>
          (case split_whitespace value of [] \<Rightarrow> None | w # _ \<Rightarrow> parse_u32 w))"

definition device_rate :: "sink_report \<Rightarrow> nat option" where
  "device_rate r = (case rp_proc r of ReadProc _ contents \<Rightarrow> extract_proc_rate contents | _ \<Rightarrow> None)"

definition device_format :: "sink_report \<Rightarrow> string option" where
  "device_format r =
     (case rp_proc r of ReadProc _ contents \<Rightarrow> extract_proc_field contents ''format'' | _ \<Rightarrow> None)"

text \<open>\<open>report_of\<close> is \<^verbatim>\<open>AlsaSink::report\<close>; reading the file is the argument.\<close>

definition report_of ::
    "(string \<Rightarrow> string + string) \<Rightarrow> string \<Rightarrow> source_spec \<Rightarrow> sample_format \<Rightarrow> sink_report" where
  "report_of read device src format =
     new_report device src (show_format format)
       (case parse_hw_device device of
          None \<Rightarrow> NotHw
        | Some (crd, dev) \<Rightarrow>
            (let path = ''/proc/asound/card'' @ show_nat crd @ ''/pcm'' @ show_nat dev
                          @ ''p/sub0/hw_params''
             in case read path of
                  Inr contents \<Rightarrow> ReadProc path contents
                | Inl err \<Rightarrow> Unreadable path err))"

section \<open>The verdict\<close>

definition bit_perfect :: "sink_report \<Rightarrow> bool" where
  "bit_perfect r \<longleftrightarrow>
     rp_shared r = None
     \<and> device_rate r = Some (sample_rate (rp_source r))
     \<and> device_format r = Some (rp_format r)"

definition report_problem :: "sink_report \<Rightarrow> string option" where
  "report_problem r =
     (if bit_perfect r then None
      else case rp_shared r of
             Some route \<Rightarrow>
               Some (case (sr_codec route, sr_lossy route) of
                       (Some codec, True) \<Rightarrow>
                         ''shared through the sound server, and the '' @ codec
                         @ '' codec loses information''
                     | (None, True) \<Rightarrow> ''shared through the sound server, over a lossy link''
                     | _ \<Rightarrow> ''shared through the sound server, which mixes it with other audio'')
           | None \<Rightarrow>
               Some (case rp_proc r of
                       NotHw \<Rightarrow>
                         ''the device is not hw:N,D (possible resampling/mixing via dmix/PipeWire)''
                     | _ \<Rightarrow>
                         (case (device_rate r, device_format r) of
                            (Some rate, Some format) \<Rightarrow>
                              if rate \<noteq> sample_rate (rp_source r)
                              then ''the card reports '' @ show_nat rate @ '' Hz instead of ''
                                     @ show_nat (sample_rate (rp_source r)) @ '' Hz''
                              else ''the card reports format '' @ format @ '' instead of ''
                                     @ rp_format r
                          | _ \<Rightarrow> ''could not read /proc/asound to confirm it'')))"

definition arrow_text :: string where
  "arrow_text = [CHR 0xE2, CHR 0x86, CHR 0x92]"

definition check_mark :: string where
  "check_mark = [CHR 0xE2, CHR 0x9C, CHR 0x94]"

definition cross_mark :: string where
  "cross_mark = [CHR 0xE2, CHR 0x9C, CHR 0x96]"

definition source_text :: "source_spec \<Rightarrow> string" where
  "source_text src =
     ''FLAC '' @ show_nat (bits_per_sample src) @ ''-bit/'' @ show_nat (sample_rate src) @ '' Hz ''
     @ show_nat (channels src) @ ''ch''"

definition shared_text :: "sink_report \<Rightarrow> shared_route \<Rightarrow> string" where
  "shared_text r route =
     (let via = (case sr_codec route of
                   Some codec \<Rightarrow> sr_kind route @ '', '' @ codec
                 | None \<Rightarrow> sr_kind route @ '', shared, PipeWire'');
          resampled = (if sr_rate route \<noteq> sample_rate (rp_source r)
                       then '' resampled to '' @ show_nat (sr_rate route) @ '' Hz'' else []);
          verdict = (case (sr_codec route, sr_lossy route) of
                       (Some codec, True) \<Rightarrow> ''SHARED, LOSSY CODEC ('' @ codec @ '')''
                     | (None, True) \<Rightarrow> ''SHARED, LOSSY''
                     | _ \<Rightarrow> ''SHARED (not bit-perfect)'')
      in source_text (rp_source r) @ '' '' @ arrow_text @ '' '' @ sr_sink route @ '' ('' @ via @ '')''
           @ resampled @ ''  '' @ cross_mark @ '' '' @ verdict)"

definition report_text :: "sink_report \<Rightarrow> string" where
  "report_text r =
     (case rp_shared r of
        Some route \<Rightarrow> shared_text r route
      | None \<Rightarrow>
          (case rp_proc r of
             NotHw \<Rightarrow>
               ''Device '' @ [CHR 0x27] @ rp_device r @ [CHR 0x27]
               @ '' is not in hw:N,D form; skipping the /proc/asound check.'' @ [CHR 0x0A]
           | Unreadable path err \<Rightarrow>
               ''Warning: could not read '' @ path @ '': '' @ err @ [CHR 0x0A]
           | ReadProc path contents \<Rightarrow> ''--- '' @ path @ '' ---'' @ [CHR 0x0A] @ contents)
          @ (case report_problem r of
               None \<Rightarrow>
                 source_text (rp_source r) @ '' '' @ arrow_text @ '' '' @ rp_device r @ '' ''
                 @ rp_format r @ '' '' @ show_nat (sample_rate (rp_source r)) @ '' Hz  ''
                 @ check_mark @ '' BIT-PERFECT''
             | Some reason \<Rightarrow>
                 source_text (rp_source r) @ '' '' @ arrow_text @ '' '' @ rp_device r @ '' ''
                 @ rp_format r @ ''  '' @ cross_mark @ '' CONVERTED ('' @ reason @ '')''))"

section \<open>Lemmas\<close>

lemma report_problem_None: "report_problem r = None \<longleftrightarrow> bit_perfect r"
  by (auto simp: report_problem_def split: option.split)

lemma shared_not_bit_perfect: "\<not> bit_perfect (shared_report src format route)"
  by (simp add: bit_perfect_def shared_report_def)

lemma parse_hw_alsa:
  "crd \<le> u32_max \<Longrightarrow> dev \<le> u32_max \<Longrightarrow>
     parse_hw_device (''hw:'' @ show_nat crd @ '','' @ show_nat dev) = Some (crd, dev)"
proof -
  assume le: "crd \<le> u32_max" "dev \<le> u32_max"
  have "CHR '','' \<notin> set (show_nat crd)"
    by (rule not_in_show_nat) (simp add: is_digit_def)
  then have "split_once '','' (show_nat crd @ '','' @ show_nat dev) = Some (show_nat crd, show_nat dev)"
    using split_once_char by simp
  then show ?thesis using le by (simp add: parse_hw_device_def parse_u32_show_nat)
qed

text \<open>A line of the kernel's text gives its value back, whatever lines come before with other keys.\<close>

lemma lines_append_line:
  "CHR 0x0A \<notin> set l \<Longrightarrow> lines (l @ CHR 0x0A # rest) = drop_cr l # lines rest"
  by (auto simp: lines_def Let_def split_char_append)

end
