(* ===== verification/Alsa.thy ===== *)
theory Alsa
  imports Packing Sink_Report
begin

text \<open>
  \<^verbatim>\<open>AlsaSink\<close> of \<^verbatim>\<open>output/alsa.rs\<close>. The opened PCM device is the third-party \<^verbatim>\<open>alsa\<close> crate: its calls
  (and reading the kernel's files, and the handler of reports) are the functions of a record over a world \<open>'w\<close>, with the errors they may give. What is modelled
  is what the sink does with them: writing all of a chunk whatever the device takes at once,
  pausing with or without the hardware's help, and the tail kept to replay what a drop throws away.
\<close>

section \<open>The device, as the code calls it\<close>

record alsa_error =
  errno :: nat
  alsa_text :: string

record 'w pcm =
  pcm_writei :: "byte list \<Rightarrow> 'w \<Rightarrow> (alsa_error + nat) \<times> 'w"
  pcm_wait :: "nat \<Rightarrow> 'w \<Rightarrow> alsa_error option \<times> 'w"
  pcm_try_recover :: "alsa_error \<Rightarrow> 'w \<Rightarrow> alsa_error option \<times> 'w"
  pcm_state_raw :: "'w \<Rightarrow> int"
  pcm_delay :: "'w \<Rightarrow> (alsa_error + int) \<times> 'w"
  pcm_pause :: "bool \<Rightarrow> 'w \<Rightarrow> alsa_error option \<times> 'w"
  pcm_drop :: "'w \<Rightarrow> alsa_error option \<times> 'w"
  pcm_prepare :: "'w \<Rightarrow> alsa_error option \<times> 'w"
  pcm_drain :: "'w \<Rightarrow> alsa_error option \<times> 'w"
  pcm_read_file :: "string \<Rightarrow> 'w \<Rightarrow> string + string"
  pcm_report :: "sink_report \<Rightarrow> 'w \<Rightarrow> 'w"

text \<open>Numbers of \<^verbatim>\<open>libc\<close> and of \<^verbatim>\<open>snd_pcm_state_t\<close>.\<close>

definition EPIPE :: nat where "EPIPE = 32"
definition ENODEV :: nat where "ENODEV = 19"

definition state_running :: int where "state_running = 3"
definition state_draining :: int where "state_draining = 5"
definition state_paused :: int where "state_paused = 6"
definition state_disconnected :: int where "state_disconnected = 8"

definition alsa_err :: "alsa_error \<Rightarrow> error" where
  "alsa_err e = mk_error (Message (alsa_text e))"

definition unplugged :: "'w pcm \<Rightarrow> alsa_error \<Rightarrow> 'w \<Rightarrow> bool" where
  "unplugged pcm e w \<longleftrightarrow> errno e = ENODEV \<or> pcm_state_raw pcm w = state_disconnected"

section \<open>Writing all of a chunk\<close>

definition max_consecutive_zero_writes :: nat where
  "max_consecutive_zero_writes = 50"

definition stopped_accepting :: "string \<Rightarrow> nat \<Rightarrow> error" where
  "stopped_accepting device zeros =
     mk_error (Message (''device '' @ [CHR 0x27] @ device @ [CHR 0x27] @ '' stopped accepting audio ('' @ show_nat zeros
       @ '' consecutive 0-frame writes); aborting instead of silently dropping the rest of the chunk''))"

text \<open>
  \<open>None\<close> is a loop that never ends (a device that underruns and recovers for ever). The loop variables are
  the offset reached and the number of writes in a row that took nothing.
\<close>

partial_function (option) write_all ::
    "'w pcm \<Rightarrow> string \<Rightarrow> nat \<Rightarrow> byte list \<Rightarrow> nat \<Rightarrow> nat \<Rightarrow> 'w \<Rightarrow> (error option \<times> 'w) option" where
  "write_all pcm device bpf bytes off zeros w =
     (if length bytes \<le> off then Some (None, w)
      else case pcm_writei pcm (drop off bytes) w of
             (Inr n, w) \<Rightarrow>
               if n = 0 then
                 if max_consecutive_zero_writes < zeros + 1
                 then Some (Some (stopped_accepting device (zeros + 1)), w)
                 else (case pcm_wait pcm 100 w of
                         (Some e, w) \<Rightarrow>
                           Some (Some (with_context
                             ''waiting for the ALSA device to accept more data'' (alsa_err e)), w)
                       | (None, w) \<Rightarrow> write_all pcm device bpf bytes off (zeros + 1) w)
               else write_all pcm device bpf bytes (off + n * bpf) 0 w
           | (Inl e, w) \<Rightarrow>
               if errno e = EPIPE then
                 (case pcm_try_recover pcm e w of
                    (Some e, w) \<Rightarrow>
                      Some (Some (with_context ''could not recover from an underrun'' (alsa_err e)), w)
                  | (None, w) \<Rightarrow> write_all pcm device bpf bytes off zeros w)
               else if unplugged pcm e w then
                 Some (Some (mk_error (OutputGone
                   (''device '' @ [CHR 0x27] @ device @ [CHR 0x27] @ '' was disconnected''))), w)
               else Some (Some (with_context ''error writing to the ALSA device'' (alsa_err e)), w))"

section \<open>The tail\<close>

record tail_buffer =
  tb_capacity :: nat
  tb_bytes :: "byte list"

definition tail_new :: "nat \<Rightarrow> tail_buffer" where
  "tail_new capacity = \<lparr>tb_capacity = capacity, tb_bytes = []\<rparr>"

definition tail_len :: "tail_buffer \<Rightarrow> nat" where
  "tail_len t = min (length (tb_bytes t)) (tb_capacity t)"

definition tail_push :: "byte list \<Rightarrow> tail_buffer \<Rightarrow> tail_buffer" where
  "tail_push data t =
     (let bytes = tb_bytes t @ data
      in t\<lparr>tb_bytes := (if tb_capacity t * 2 < length bytes
                        then drop (length bytes - tb_capacity t) bytes else bytes)\<rparr>)"

definition tail_take_last :: "nat \<Rightarrow> tail_buffer \<Rightarrow> byte list" where
  "tail_take_last n t =
     (let n = min n (tail_len t) in drop (length (tb_bytes t) - n) (tb_bytes t))"

definition tail_clear :: "tail_buffer \<Rightarrow> tail_buffer" where
  "tail_clear t = t\<lparr>tb_bytes := []\<rparr>"

section \<open>The sink\<close>

datatype pause_state = Running | Hardware | Dropped "byte list"

record alsa_sink =
  as_device :: string
  as_format :: sample_format
  as_source :: source_spec
  as_period_frames :: nat
  as_buffer_frames :: nat
  as_can_pause :: bool
  as_tail :: tail_buffer
  as_pause :: pause_state
  as_on_report :: bool

definition bytes_per_frame :: "alsa_sink \<Rightarrow> nat" where
  "bytes_per_frame s = container_bytes (as_format s) * channels (as_source s)"

text \<open>The sink \<^verbatim>\<open>open\<close> builds once the hardware parameters are settled.\<close>

definition alsa_opened ::
    "string \<Rightarrow> source_spec \<Rightarrow> sample_format \<Rightarrow> nat \<Rightarrow> nat \<Rightarrow> bool \<Rightarrow> alsa_sink" where
  "alsa_opened device src format period buffer can_pause =
     \<lparr>as_device = device, as_format = format, as_source = src,
      as_period_frames = max period 1, as_buffer_frames = max buffer 1, as_can_pause = can_pause,
      as_tail = tail_new (max buffer 1 * (container_bytes format * channels src)),
      as_pause = Running, as_on_report = False\<rparr>"

definition with_report_handler :: "alsa_sink \<Rightarrow> alsa_sink" where
  "with_report_handler s = s\<lparr>as_on_report := True\<rparr>"

text \<open>The report the kernel's files give of the running sink.\<close>

definition alsa_report :: "'w pcm \<Rightarrow> alsa_sink \<Rightarrow> 'w \<Rightarrow> sink_report" where
  "alsa_report pcm s w =
     report_of (\<lambda>path. pcm_read_file pcm path w) (as_device s) (as_source s) (as_format s)"

definition alsa_write ::
    "'w pcm \<Rightarrow> sample list \<Rightarrow> alsa_sink \<Rightarrow> 'w \<Rightarrow> ((error + nat) \<times> alsa_sink \<times> 'w) option" where
  "alsa_write pcm samples s w =
     (if as_pause s \<noteq> Running
      then Some (Inl (mk_error (Message ''write() called on a paused ALSA sink'')), s, w)
      else
        let chans = channels (as_source s);
            frames = min (length samples div chans) (as_period_frames s)
        in if frames = 0 then Some (Inr 0, s, w)
           else
             let scratch = pack_frames (as_format s) (take (frames * chans) samples)
             in case write_all pcm (as_device s) (bytes_per_frame s) scratch 0 0 w of
                  None \<Rightarrow> None
                | Some (Some e, w) \<Rightarrow> Some (Inl e, s, w)
                | Some (None, w) \<Rightarrow>
                    let s = s\<lparr>as_tail := tail_push scratch (as_tail s)\<rparr>
                    in if as_on_report s
                       then let s = s\<lparr>as_on_report := False\<rparr>
                            in Some (Inr frames, s, pcm_report pcm (alsa_report pcm s w) w)
                       else Some (Inr frames, s, w))"

definition alsa_delay_frames :: "'w pcm \<Rightarrow> alsa_sink \<Rightarrow> 'w \<Rightarrow> nat \<times> 'w" where
  "alsa_delay_frames pcm s w =
     (case as_pause s of
        Dropped replay \<Rightarrow> (length replay div bytes_per_frame s, w)
      | _ \<Rightarrow>
          if pcm_state_raw pcm w \<in> {state_running, state_paused, state_draining}
          then (case pcm_delay pcm w of (Inr d, w) \<Rightarrow> (nat d, w) | (Inl _, w) \<Rightarrow> (0, w))
          else (0, w))"

definition alsa_pause :: "'w pcm \<Rightarrow> alsa_sink \<Rightarrow> 'w \<Rightarrow> error option \<times> alsa_sink \<times> 'w" where
  "alsa_pause pcm s w =
     (if as_pause s \<noteq> Running then (None, s, w)
      else
        let (hard, w) = (if as_can_pause s then pcm_pause pcm True w
                         else (Some \<lparr>errno = 0, alsa_text = []\<rparr>, w))
        in if hard = None then (None, s\<lparr>as_pause := Hardware\<rparr>, w)
           else
             let bpf = bytes_per_frame s;
                 (d, w) = pcm_delay pcm w;
                 pending = min (case d of Inr d \<Rightarrow> nat d | Inl _ \<Rightarrow> 0) (tail_len (as_tail s) div bpf);
                 replay = tail_take_last (pending * bpf) (as_tail s);
                 (r, w) = pcm_drop pcm w
             in case r of
                  Some e \<Rightarrow>
                    (Some (with_context ''could not drop() the ALSA device to pause'' (alsa_err e)), s, w)
                | None \<Rightarrow>
                    (None, s\<lparr>as_tail := tail_clear (as_tail s), as_pause := Dropped replay\<rparr>, w))"

definition alsa_resume ::
    "'w pcm \<Rightarrow> alsa_sink \<Rightarrow> 'w \<Rightarrow> (error option \<times> alsa_sink \<times> 'w) option" where
  "alsa_resume pcm s w =
     (let was = as_pause s; s = s\<lparr>as_pause := Running\<rparr>
      in case was of
           Running \<Rightarrow> Some (None, s, w)
         | Hardware \<Rightarrow>
             (case pcm_pause pcm False w of
                (Some e, w) \<Rightarrow>
                  Some (Some (with_context ''could not resume the ALSA device'' (alsa_err e)), s, w)
              | (None, w) \<Rightarrow> Some (None, s, w))
         | Dropped replay \<Rightarrow>
             (case pcm_prepare pcm w of
                (Some e, w) \<Rightarrow>
                  Some (Some (with_context ''could not prepare() the ALSA device to resume''
                                (alsa_err e)), s, w)
              | (None, w) \<Rightarrow>
                  (case write_all pcm (as_device s) (bytes_per_frame s) replay 0 0 w of
                     None \<Rightarrow> None
                   | Some (Some e, w) \<Rightarrow> Some (Some e, s, w)
                   | Some (None, w) \<Rightarrow>
                       Some (None, s\<lparr>as_tail := tail_push replay (as_tail s)\<rparr>, w))))"

definition alsa_flush :: "'w pcm \<Rightarrow> alsa_sink \<Rightarrow> 'w \<Rightarrow> error option \<times> alsa_sink \<times> 'w" where
  "alsa_flush pcm s w =
     (case pcm_drop pcm w of
        (Some e, w) \<Rightarrow> (Some (with_context ''could not drop() the ALSA device'' (alsa_err e)), s, w)
      | (None, w) \<Rightarrow>
          (case pcm_prepare pcm w of
             (Some e, w) \<Rightarrow>
               (Some (with_context ''could not prepare() the ALSA device'' (alsa_err e)), s, w)
           | (None, w) \<Rightarrow>
               (None, s\<lparr>as_tail := tail_clear (as_tail s), as_pause := Running\<rparr>, w)))"

definition alsa_drain :: "'w pcm \<Rightarrow> alsa_sink \<Rightarrow> 'w \<Rightarrow> (error option \<times> alsa_sink \<times> 'w) option" where
  "alsa_drain pcm s w =
     (case alsa_resume pcm s w of
        None \<Rightarrow> None
      | Some (Some e, s, w) \<Rightarrow> Some (Some e, s, w)
      | Some (None, s, w) \<Rightarrow>
          (case pcm_drain pcm w of
             (Some e, w) \<Rightarrow>
               Some (Some (with_context ''could not drain() the ALSA device'' (alsa_err e)), s, w)
           | (None, w) \<Rightarrow>
               (case pcm_prepare pcm w of
                  (Some e, w) \<Rightarrow>
                    Some (Some (with_context ''could not prepare() the ALSA device after draining''
                                  (alsa_err e)), s, w)
                | (None, w) \<Rightarrow> Some (None, s\<lparr>as_tail := tail_clear (as_tail s)\<rparr>, w))))"

end
