(* ===== verification/Alsa_Props.thy ===== *)
theory Alsa_Props
  imports Alsa
begin

text \<open>
  The properties of bit-perfect output: the choice of a container, the packing, the writing of a
  whole chunk, and pausing a device that cannot pause.
\<close>

section \<open>Choosing and packing\<close>

definition playable :: "source_spec \<Rightarrow> nat \<times> nat \<Rightarrow> bool" where
  "playable src chans \<longleftrightarrow>
     0 < bits_per_sample src \<and> bits_per_sample src \<le> 32 \<and>
     fst chans \<le> channels src \<and> channels src \<le> snd chans"

lemma find_filter: "find p (filter q xs) = find (\<lambda>x. q x \<and> p x) xs"
  by (induction xs) auto

lemma find_mem: "find p xs = Some x \<Longrightarrow> x \<in> set xs \<and> p x"
  by (auto simp: find_Some_iff)

lemma cap_channels_probe [simp]: "cap_channels (probe_with chans extra tr tf) = chans"
  by (simp add: probe_with_def)

lemma choose_probe:
  "choose_format src (probe_with chans [sample_rate src] tr tf) =
     (if \<not> (0 < bits_per_sample src \<and> bits_per_sample src \<le> 32) then Inl NoDepth
      else if \<not> playable src chans then Inl NoChannels
      else let offered = filter (tf (sample_rate src)) all_formats
           in if \<not> tr (sample_rate src) \<or> offered = [] then Inl NoRate
              else (case find (\<lambda>f. bits_per_sample src \<le> significant_bits f) offered of
                      Some f \<Rightarrow> Inr f | None \<Rightarrow> Inl (DepthAtRate offered)))"
  by (auto simp: choose_format_def playable_def Let_def formats_at_probe not_le
      split: option.split)

lemma find_narrowest:
  assumes "find (\<lambda>f. q f \<and> bits \<le> significant_bits f) all_formats = Some f"
    and "q g" and "bits \<le> significant_bits g"
  shows "container_bytes f \<le> container_bytes g"
  using assms by (cases g) (auto simp: all_formats_def split: if_splits)

text \<open>
  C15. A track is packed into the narrowest container the device accepts at the track's exact rate
  that loses no bit, and only if there is none is it refused, with the reason that applies.
\<close>

theorem choose_narrowest_lossless:
  "case choose_format src (probe_with chans [sample_rate src] tr tf) of
     Inr f \<Rightarrow> playable src chans \<and> tr (sample_rate src) \<and> tf (sample_rate src) f \<and>
       bits_per_sample src \<le> significant_bits f \<and>
       (\<forall>g. tf (sample_rate src) g \<longrightarrow> bits_per_sample src \<le> significant_bits g \<longrightarrow>
          container_bytes f \<le> container_bytes g)
   | Inl NoDepth \<Rightarrow> \<not> (0 < bits_per_sample src \<and> bits_per_sample src \<le> 32)
   | Inl NoChannels \<Rightarrow> \<not> (fst chans \<le> channels src \<and> channels src \<le> snd chans)
   | Inl NoRate \<Rightarrow> playable src chans \<and>
       (tr (sample_rate src) \<longrightarrow> (\<forall>g. \<not> tf (sample_rate src) g))
   | Inl (DepthAtRate offered) \<Rightarrow> playable src chans \<and> tr (sample_rate src) \<and>
       (\<forall>g. tf (sample_rate src) g \<longleftrightarrow> g \<in> set offered) \<and>
       (\<forall>g \<in> set offered. significant_bits g < bits_per_sample src)"
proof -
  let ?offered = "filter (tf (sample_rate src)) all_formats"
  let ?wide = "\<lambda>f. bits_per_sample src \<le> significant_bits f"
  have all: "g \<in> set all_formats" for g by (cases g) (simp_all add: all_formats_def)
  show ?thesis
  proof (cases "playable src chans \<and> tr (sample_rate src) \<and> ?offered \<noteq> []")
    case False
    then show ?thesis
      using all by (auto simp: choose_probe playable_def Let_def filter_empty_conv)
  next
    case True
    show ?thesis
    proof (cases "find ?wide ?offered")
      case None
      then have c: "choose_format src (probe_with chans [sample_rate src] tr tf) = Inl (DepthAtRate ?offered)"
        using True by (simp add: choose_probe playable_def Let_def)
      have "\<forall>g \<in> set ?offered. significant_bits g < bits_per_sample src"
        using None by (auto simp: find_None_iff not_le)
      then show ?thesis using True all unfolding c by simp
    next
      case (Some f)
      then have "tf (sample_rate src) f \<and> ?wide f" using find_mem [of ?wide ?offered f] by simp
      moreover have "container_bytes f \<le> container_bytes g"
        if "tf (sample_rate src) g" "?wide g" for g
        using find_narrowest [of "tf (sample_rate src)" "bits_per_sample src" f g] Some that
        by (simp add: find_filter)
      moreover have "choose_format src (probe_with chans [sample_rate src] tr tf) = Inr f"
        using True Some by (simp add: choose_probe playable_def Let_def)
      ultimately show ?thesis using True by simp
    qed
  qed
qed

lemma choose_narrowest_lossless_witness:
  "choose_format \<lparr>sample_rate = 44100, channels = 2, bits_per_sample = 24\<rparr>
     (probe_with (2, 2) [44100] (\<lambda>r. True) (\<lambda>r f. f \<noteq> S24_3Le)) = Inr S32Le
   \<and> container_bytes S32Le \<le> container_bytes S24Le"
proof -
  let ?src = "\<lparr>sample_rate = 44100, channels = 2, bits_per_sample = 24\<rparr>"
  have c: "choose_format ?src (probe_with (2, 2) [44100] (\<lambda>r. True) (\<lambda>r f. f \<noteq> S24_3Le)) = Inr S32Le"
    using choose_probe [of ?src "(2, 2)" "\<lambda>r. True" "\<lambda>r f. f \<noteq> S24_3Le"]
    by (simp add: playable_def all_formats_def)
  then have "\<forall>g. g \<noteq> S24_3Le \<longrightarrow> 24 \<le> significant_bits g \<longrightarrow> container_bytes S32Le \<le> container_bytes g"
    using choose_narrowest_lossless [of ?src "(2, 2)" "\<lambda>r. True" "\<lambda>r f. f \<noteq> S24_3Le"] by simp
  then have "container_bytes S32Le \<le> container_bytes S24Le" by (metis sample_format.distinct(7) le_refl
        significant_bits.simps(3))
  then show ?thesis using c by simp
qed

text \<open>
  C16. Packing into the chosen container is lossless: whatever format is chosen for a track, the
  stream of bytes the device is given reads back, sample for sample, as what was decoded.
\<close>

theorem chosen_packing_lossless:
  assumes "choose_format src caps = Inr f"
    and "\<forall>s \<in> set samples. fits_bits (bits_per_sample src) s"
  shows "map (\<lambda>i. unpack_sample f
            (take (container_bytes f) (drop (i * container_bytes f) (pack_frames f samples))))
          [0..<length samples] = samples
    \<and> length (pack_frames f samples) = length samples * container_bytes f"
proof -
  have fit: "\<forall>s \<in> set samples. fits_bits (significant_bits f) s"
    using assms choose_format_Inr fits_bits_mono by blast
  show ?thesis
  proof (cases f)
    case S16Le
    then show ?thesis
      using s16.packed_read_back [of samples] s16.packed_length [of samples] fit
      by (simp add: pack_frames_def)
  next
    case S24_3Le
    then show ?thesis
      using s24_3.packed_read_back [of samples] s24_3.packed_length [of samples] fit
      by (simp add: pack_frames_def)
  next
    case S24Le
    then show ?thesis
      using s24.packed_read_back [of samples] s24.packed_length [of samples] fit
      by (simp add: pack_frames_def)
  next
    case S32Le
    then show ?thesis
      using s32.packed_read_back [of samples] s32.packed_length [of samples] fit
      by (simp add: pack_frames_def)
  qed
qed

lemma chosen_packing_lossless_witness:
  "map (\<lambda>i. unpack_sample S16Le
      (take (container_bytes S16Le) (drop (i * container_bytes S16Le) (pack_frames S16Le [0x7FFF0000, 0x80000000]))))
      [0..<length [0x7FFF0000 :: sample, 0x80000000]]
     = [0x7FFF0000, 0x80000000]
   \<and> length (pack_frames S16Le [0x7FFF0000, 0x80000000])
     = length [0x7FFF0000 :: sample, 0x80000000] * container_bytes S16Le"
proof (rule chosen_packing_lossless)
  show "choose_format \<lparr>sample_rate = 44100, channels = 2, bits_per_sample = 16\<rparr>
      \<lparr>cap_channels = (1, 2), cap_rates = [(44100, [S16Le])]\<rparr> = Inr S16Le"
    by (simp add: choose_format_def formats_at_def)
  show "\<forall>s \<in> set [0x7FFF0000, 0x80000000].
      fits_bits (bits_per_sample \<lparr>sample_rate = 44100, channels = 2, bits_per_sample = 16\<rparr>) s"
    by (simp add: fits_bits_take_bit)
qed

section \<open>Writing a chunk\<close>

text \<open>
  What is documented of a PCM device: a write takes whole frames from the front of what it is
  given, and only a write takes anything. \<open>budget\<close> bounds the underruns still to come.
\<close>

definition pcm_takes :: "'w pcm \<Rightarrow> nat \<Rightarrow> ('w \<Rightarrow> byte list) \<Rightarrow> ('w \<Rightarrow> nat) \<Rightarrow> bool" where
  "pcm_takes pcm bpf taken budget \<longleftrightarrow>
     (\<forall>bs w n w'. pcm_writei pcm bs w = (Inr n, w') \<longrightarrow>
        n * bpf \<le> length bs \<and> taken w' = taken w @ take (n * bpf) bs \<and> budget w' \<le> budget w) \<and>
     (\<forall>bs w e w'. pcm_writei pcm bs w = (Inl e, w') \<longrightarrow>
        taken w' = taken w \<and> budget w' \<le> budget w \<and> (errno e = EPIPE \<longrightarrow> budget w' < budget w)) \<and>
     (\<forall>ms w. taken (snd (pcm_wait pcm ms w)) = taken w \<and>
        budget (snd (pcm_wait pcm ms w)) \<le> budget w) \<and>
     (\<forall>e w. taken (snd (pcm_try_recover pcm e w)) = taken w \<and>
        budget (snd (pcm_try_recover pcm e w)) \<le> budget w)"

lemma pcm_takes_write:
  assumes "pcm_takes pcm bpf taken budget" and "pcm_writei pcm bs w = (Inr n, w')"
  shows "n * bpf \<le> length bs" "taken w' = taken w @ take (n * bpf) bs" "budget w' \<le> budget w"
  using assms unfolding pcm_takes_def by blast+

lemma pcm_takes_error:
  assumes "pcm_takes pcm bpf taken budget" and "pcm_writei pcm bs w = (Inl e, w')"
  shows "taken w' = taken w" "budget w' \<le> budget w" "errno e = EPIPE \<Longrightarrow> budget w' < budget w"
  using assms unfolding pcm_takes_def by blast+

lemma pcm_takes_calls:
  assumes "pcm_takes pcm bpf taken budget"
  shows "pcm_wait pcm ms w = (r, w') \<Longrightarrow> taken w' = taken w \<and> budget w' \<le> budget w"
    and "pcm_try_recover pcm e w = (r', w') \<Longrightarrow> taken w' = taken w \<and> budget w' \<le> budget w"
proof -
  show "pcm_wait pcm ms w = (r, w') \<Longrightarrow> taken w' = taken w \<and> budget w' \<le> budget w"
    using assms unfolding pcm_takes_def by (metis snd_conv)
  show "pcm_try_recover pcm e w = (r', w') \<Longrightarrow> taken w' = taken w \<and> budget w' \<le> budget w"
    using assms unfolding pcm_takes_def by (metis snd_conv)
qed

definition left_to_write :: "('w \<Rightarrow> nat) \<Rightarrow> nat \<Rightarrow> nat \<Rightarrow> nat \<Rightarrow> 'w \<Rightarrow> nat" where
  "left_to_write budget len off zeros w =
     budget w + (len - off) * (max_consecutive_zero_writes + 2)
       + (max_consecutive_zero_writes + 1 - zeros)"

lemma left_progress:
  assumes "budget w' \<le> budget w" and "off < len" and "off < off'"
  shows "left_to_write budget len off' 0 w' < left_to_write budget len off zeros w"
proof -
  have arith: "c + a * (50 + 2) + (50 + 1 - 0) < d + b * (50 + 2) + (50 + 1 - z)"
    if "a + 1 \<le> b" "c \<le> d" for a b c d z :: nat
    using that by simp
  have "(len - off') + 1 \<le> len - off" using assms by linarith
  then show ?thesis
    using assms(1) arith unfolding left_to_write_def max_consecutive_zero_writes_def by blast
qed

lemma write_all_done:
  assumes "pcm_takes pcm bpf taken budget" and "0 < bpf"
  shows "\<exists>r w'. write_all pcm device bpf bytes off zeros w = Some (r, w') \<and>
    (off \<le> length bytes \<longrightarrow> r = None \<longrightarrow> taken w' = taken w @ drop off bytes)"
proof (induction "left_to_write budget (length bytes) off zeros w" arbitrary: off zeros w
    rule: less_induct)
  case (less off zeros w)
  note takes = assms(1)
  note step = write_all.simps [of pcm device bpf bytes off zeros w]
  show ?case
  proof (cases "length bytes \<le> off")
    case True
    then show ?thesis by (simp add: step)
  next
    case more: False
    obtain r w1 where wr: "pcm_writei pcm (drop off bytes) w = (r, w1)" by fastforce
    show ?thesis
    proof (cases r)
      case (Inr n)
      note t = pcm_takes_write [OF takes wr [unfolded Inr]]
      show ?thesis
      proof (cases "n = 0")
        case False
        have "off + n * bpf \<le> length bytes" using t(1) more by simp
        moreover have "0 < n * bpf" using False assms(2) by simp
        ultimately have "left_to_write budget (length bytes) (off + n * bpf) 0 w1
            < left_to_write budget (length bytes) off zeros w"
          using t(3) more by (intro left_progress) simp_all
        note ih = less [OF this]
        have "drop off bytes = take (n * bpf) (drop off bytes) @ drop (off + n * bpf) bytes"
          by (metis add.commute append_take_drop_id drop_drop)
        then show ?thesis
          using ih t(2) \<open>off + n * bpf \<le> length bytes\<close> False more
          by (auto simp: step wr Inr simp del: append_take_drop_id)
      next
        case zero: True
        show ?thesis
        proof (cases "max_consecutive_zero_writes < zeros + 1")
          case True
          then show ?thesis using more zero by (simp add: step wr Inr)
        next
          case False
          obtain q w2 where wt: "pcm_wait pcm 100 w1 = (q, w2)" by fastforce
          note c = pcm_takes_calls(1) [OF takes wt]
          have "left_to_write budget (length bytes) off (zeros + 1) w2
              < left_to_write budget (length bytes) off zeros w"
            using False t(3) c unfolding left_to_write_def max_consecutive_zero_writes_def
            by linarith
          note ih = less [OF this]
          show ?thesis
            using ih t(2) c more zero False by (cases q) (auto simp: step wr Inr wt)
        qed
      qed
    next
      case (Inl e)
      note t = pcm_takes_error [OF takes wr [unfolded Inl]]
      show ?thesis
      proof (cases "errno e = EPIPE")
        case False
        then show ?thesis using more by (simp add: step wr Inl)
      next
        case True
        obtain q w2 where rc: "pcm_try_recover pcm e w1 = (q, w2)" by fastforce
        note c = pcm_takes_calls(2) [OF takes rc]
        have "left_to_write budget (length bytes) off zeros w2
            < left_to_write budget (length bytes) off zeros w"
          using t(3) [OF True] c by (simp add: left_to_write_def)
        note ih = less [OF this]
        show ?thesis using ih t(1) c more True by (cases q) (auto simp: step wr Inl rc)
      qed
    qed
  qed
qed

text \<open>
  C17. Writing a chunk ends, whatever the device takes at a time, as long as it does not underrun for
  ever; and when it ends without an error, the device has taken every byte, in order, once.
\<close>

theorem write_all_ends_complete:
  assumes "pcm_takes pcm bpf taken budget" and "0 < bpf"
  shows "\<exists>r w'. write_all pcm device bpf bytes 0 0 w = Some (r, w') \<and>
    (r = None \<longrightarrow> taken w' = taken w @ bytes)"
  using write_all_done [OF assms, of device bytes 0 0 w] by auto

text \<open>A device for the witnesses: it takes one frame at a time and underruns \<open>fst\<close> times first.\<close>

definition demo_pcm :: "(nat \<times> byte list) pcm" where
  "demo_pcm =
     \<lparr>pcm_writei = (\<lambda>bs (u, t). if 0 < u then (Inl \<lparr>errno = EPIPE, alsa_text = ''EPIPE''\<rparr>, (u - 1, t))
        else (Inr (min 1 (length bs div 2)), (u, t @ take (min 1 (length bs div 2) * 2) bs))),
      pcm_wait = (\<lambda>ms w. (None, w)), pcm_try_recover = (\<lambda>e w. (None, w)),
      pcm_state_raw = (\<lambda>w. 3), pcm_delay = (\<lambda>w. (Inr 1, w)),
      pcm_pause = (\<lambda>b w. (None, w)), pcm_drop = (\<lambda>w. (None, w)), pcm_prepare = (\<lambda>w. (None, w)),
      pcm_drain = (\<lambda>w. (None, w)), pcm_read_file = (\<lambda>p w. Inl ''no such file''),
      pcm_report = (\<lambda>r w. w)\<rparr>"

lemma demo_pcm_takes: "pcm_takes demo_pcm 2 snd fst"
  by (auto simp: pcm_takes_def demo_pcm_def EPIPE_def split: if_splits)

lemma demo_pcm_calls:
  "pcm_delay demo_pcm w = (Inr 1, w)" "pcm_drop demo_pcm w = (None, w)"
  "pcm_prepare demo_pcm w = (None, w)"
  by (simp_all add: demo_pcm_def)

lemma demo_write_all: "fst (the (write_all demo_pcm ''hw:0,0'' 2 [1, 2, 3, 4] 0 0 (1, []))) = None"
  by (simp add: write_all.simps demo_pcm_def EPIPE_def)

lemma write_all_ends_complete_witness:
  "\<exists>w'. write_all demo_pcm ''hw:0,0'' 2 [1, 2, 3, 4] 0 0 (1, []) = Some (None, w') \<and>
     snd w' = [1, 2, 3, 4]"
  using write_all_ends_complete [OF demo_pcm_takes, of "''hw:0,0''" "[1, 2, 3, 4]" "(1, [])"]
    demo_write_all
  by auto

section \<open>Pausing a device that cannot pause\<close>

definition tail_ok :: "byte list \<Rightarrow> tail_buffer \<Rightarrow> bool" where
  "tail_ok written t \<longleftrightarrow>
     (\<exists>old. written = old @ tb_bytes t) \<and> min (length written) (tb_capacity t) \<le> length (tb_bytes t)"

lemma tail_ok_new: "tail_ok [] (tail_new cap)" and tail_ok_clear: "tail_ok [] (tail_clear t)"
  by (simp_all add: tail_ok_def tail_new_def tail_clear_def)

lemma tail_ok_push:
  assumes "tail_ok written t"
  shows "tail_ok (written @ data) (tail_push data t)"
proof -
  obtain old where old: "written = old @ tb_bytes t" using assms by (auto simp: tail_ok_def)
  let ?bytes = "tb_bytes t @ data"
  let ?cut = "length ?bytes - tb_capacity t"
  have "written @ data = (old @ take ?cut ?bytes) @ drop ?cut ?bytes"
    by (simp only: append_assoc append_take_drop_id) (simp add: old)
  moreover have "min (length (written @ data)) (tb_capacity t) \<le> length ?bytes"
    using assms by (auto simp: tail_ok_def)
  moreover have "length (drop ?cut ?bytes) = min (length ?bytes) (tb_capacity t)" by simp
  ultimately show ?thesis
  proof (cases "tb_capacity t * 2 < length ?bytes")
    case True
    then have "tb_bytes (tail_push data t) = drop ?cut ?bytes" "tb_capacity (tail_push data t) = tb_capacity t"
      by (simp_all add: tail_push_def Let_def)
    moreover have "min (length (written @ data)) (tb_capacity t) \<le> length (drop ?cut ?bytes)"
      using True by simp
    ultimately show ?thesis
      unfolding tail_ok_def using \<open>written @ data = _\<close> by metis
  next
    case False
    then have "tb_bytes (tail_push data t) = ?bytes" "tb_capacity (tail_push data t) = tb_capacity t"
      by (simp_all add: tail_push_def Let_def)
    then show ?thesis
      unfolding tail_ok_def
      using old \<open>min (length (written @ data)) (tb_capacity t) \<le> length ?bytes\<close> by simp
  qed
qed

lemma tail_take_last_exact:
  assumes "tail_ok written t" and "n \<le> tb_capacity t" and "n \<le> length written"
  shows "tail_take_last n t = drop (length written - n) written" and "n \<le> tail_len t"
proof -
  show len: "n \<le> tail_len t" using assms by (auto simp: tail_ok_def tail_len_def)
  obtain old where "written = old @ tb_bytes t" using assms by (auto simp: tail_ok_def)
  moreover have "n \<le> length (tb_bytes t)" using len by (simp add: tail_len_def)
  ultimately show "tail_take_last n t = drop (length written - n) written"
    using len by (simp add: tail_take_last_def Let_def)
qed

text \<open>
  A device that cannot pause loses nothing to a pause: the frames it had queued are taken out of
  the tail before they are dropped, are reported as still to be heard, and resuming writes
  exactly those again, first.
\<close>

theorem pause_without_hardware:
  assumes "as_pause s = Running" and "\<not> as_can_pause s" and "tail_ok written (as_tail s)"
    and "0 < bytes_per_frame s"
    and "pcm_delay pcm w = (Inr (int queued), w1)" and "pcm_drop pcm w1 = (None, w2)"
    and "queued * bytes_per_frame s \<le> tb_capacity (as_tail s)"
    and "queued * bytes_per_frame s \<le> length written"
    and "pcm_prepare pcm w2 = (None, w3)" and "pcm_takes pcm (bytes_per_frame s) taken budget"
  shows "let unheard = drop (length written - queued * bytes_per_frame s) written in
    \<exists>s'. alsa_pause pcm s w = (None, s', w2) \<and> fst (alsa_delay_frames pcm s' w2) = queued \<and>
      (\<exists>r s'' w4. alsa_resume pcm s' w2 = Some (r, s'', w4) \<and> as_pause s'' = Running \<and>
         (r = None \<longrightarrow> taken w4 = taken w3 @ unheard \<and> tail_ok unheard (as_tail s'')))"
proof -
  let ?n = "queued * bytes_per_frame s"
  let ?unheard = "drop (length written - ?n) written"
  note tl = tail_take_last_exact [OF assms(3) assms(7,8)]
  have "queued \<le> tail_len (as_tail s) div bytes_per_frame s"
    using tl(2) assms(4) by (simp add: less_eq_div_iff_mult_less_eq)
  then have pending: "min queued (tail_len (as_tail s) div bytes_per_frame s) = queued" by simp
  let ?s = "s\<lparr>as_tail := tail_clear (as_tail s), as_pause := Dropped ?unheard\<rparr>"
  have p: "alsa_pause pcm s w = (None, ?s, w2)"
    using assms(1,2,5,6) pending tl(1) by (simp add: alsa_pause_def)
  have bpf: "bytes_per_frame (s\<lparr>as_tail := t, as_pause := q\<rparr>) = bytes_per_frame s" for t q
    by (simp add: bytes_per_frame_def)
  have "length ?unheard = ?n" using assms(8) by simp
  then have d: "fst (alsa_delay_frames pcm ?s w2) = queued"
    using assms(4) by (simp add: alsa_delay_frames_def bpf)
  obtain r w4 where w: "write_all pcm (as_device s) (bytes_per_frame s) ?unheard 0 0 w3 = Some (r, w4)"
    "r = None \<longrightarrow> taken w4 = taken w3 @ ?unheard"
    using write_all_done [OF assms(10,4), of "as_device s" ?unheard 0 0 w3] by auto
  have t: "tail_ok ?unheard (tail_push ?unheard (tail_clear (as_tail s)))"
    using tail_ok_push [OF tail_ok_clear, of ?unheard "as_tail s"] by simp
  show ?thesis
    using p d w t assms(9) by (cases r) (simp_all add: Let_def alsa_resume_def bpf)
qed

lemma pause_without_hardware_witness:
  "let s = (alsa_opened ''hw:0,0'' \<lparr>sample_rate = 44100, channels = 1, bits_per_sample = 16\<rparr> S16Le 2 4
              False)\<lparr>as_tail := tail_push [1, 2, 3, 4] (tail_new 8)\<rparr>
   in \<exists>s'. alsa_pause demo_pcm s (0, [1, 2, 3, 4]) = (None, s', (0, [1, 2, 3, 4]))
        \<and> fst (alsa_delay_frames demo_pcm s' (0, [1, 2, 3, 4])) = 1"
proof -
  let ?s = "(alsa_opened ''hw:0,0'' \<lparr>sample_rate = 44100, channels = 1, bits_per_sample = 16\<rparr> S16Le 2 4
              False)\<lparr>as_tail := tail_push [1, 2, 3, 4] (tail_new 8)\<rparr>"
  have s: "as_pause ?s = Running" "\<not> as_can_pause ?s" "bytes_per_frame ?s = 2"
    "tb_capacity (as_tail ?s) = 8"
    by (simp_all add: alsa_opened_def bytes_per_frame_def tail_push_def tail_new_def)
  have t: "tail_ok [1, 2, 3, 4] (as_tail ?s)"
    using tail_ok_push [OF tail_ok_new, of "[1, 2, 3, 4]" 8] by (simp add: alsa_opened_def)
  have takes: "pcm_takes demo_pcm (bytes_per_frame ?s) snd fst" using demo_pcm_takes s(3) by simp
  show ?thesis
    using pause_without_hardware [OF s(1,2) t _ _ _ _ _ _ takes, of "(0, [1, 2, 3, 4])" 1
        "(0, [1, 2, 3, 4])" "(0, [1, 2, 3, 4])" "(0, [1, 2, 3, 4])"] s(3,4)
    unfolding Let_def by (simp only: demo_pcm_calls) force
qed

end
