(* ===== verification/Device.thy ===== *)
theory Device
  imports Sink_Report
begin

text \<open>
  \<^verbatim>\<open>output/device.rs\<close>: naming a sound card. What the code reads of \<^verbatim>\<open>/proc/asound\<close> is a record: the
  text of \<^verbatim>\<open>cards\<close>, and the directories \<^verbatim>\<open>card<N>\<close> with what is in them, in the order the file
  system lists them.
\<close>

section \<open>Devices and cards\<close>

datatype device = Hw nat nat "string option" | Other string

fun alsa_name :: "device \<Rightarrow> string" where
  "alsa_name (Hw crd dev _) = ''hw:'' @ show_nat crd @ '','' @ show_nat dev"
| "alsa_name (Other name) = name"

fun describe_device :: "device \<Rightarrow> string" where
  "describe_device (Hw crd dev (Some ident)) = alsa_name (Hw crd dev None) @ '' ('' @ ident @ '')''"
| "describe_device other = alsa_name other"

record card_info =
  ci_index :: nat
  ci_id :: string
  ci_name :: string
  ci_usb :: bool
  ci_playback :: "nat list"

record card_dir =
  cd_id :: "string option"
  cd_files :: "string list"
  cd_usbid :: bool
  cd_stream0 :: "string option"

record asound =
  as_cards :: "string option"
  as_entries :: "string + (string \<times> card_dir) list"

definition card_name :: "string \<Rightarrow> nat \<Rightarrow> string option" where
  "card_name cards_file index =
     find_map
       (\<lambda>line. case split_once '' '' (trim_start line) of
                 None \<Rightarrow> None
               | Some (number, rest) \<Rightarrow>
                   if parse_u32 number = Some index
                   then map_option (\<lambda>(_, name). trim name) (split_once '' - '' rest)
                   else None)
       (lines cards_file)"

definition pcm_number :: "string \<Rightarrow> nat option" where
  "pcm_number name =
     Option.bind (strip_prefix ''pcm'' name)
       (\<lambda>rest. Option.bind (strip_suffix ''p'' rest) parse_u32)"

definition card_of :: "string \<Rightarrow> string \<times> card_dir \<Rightarrow> card_info option" where
  "card_of names entry =
     (case Option.bind (strip_prefix ''card'' (fst entry)) parse_u32 of
        None \<Rightarrow> None
      | Some index \<Rightarrow>
          (case cd_id (snd entry) of
             None \<Rightarrow> None
           | Some text \<Rightarrow>
               let ident = trim text
               in Some \<lparr>ci_index = index, ci_id = ident,
                        ci_name = (case card_name names index of Some n \<Rightarrow> n | None \<Rightarrow> ident),
                        ci_usb = cd_usbid (snd entry),
                        ci_playback = sort (List.map_filter pcm_number (cd_files (snd entry)))\<rparr>))"

definition cards :: "asound \<Rightarrow> error + card_info list" where
  "cards t =
     (case as_entries t of
        Inl err \<Rightarrow> Inl (mk_error (Message (''reading /proc/asound: '' @ err)))
      | Inr entries \<Rightarrow>
          let names = (case as_cards t of Some text \<Rightarrow> text | None \<Rightarrow> [])
          in Inr (sort_key ci_index (List.map_filter (card_of names) entries)))"

section \<open>Resolving a name\<close>

text \<open>The loop of \<^verbatim>\<open>split_hw\<close>: the card and device found so far, and how many came without a key.\<close>

fun split_hw_loop ::
    "string list \<Rightarrow> string option \<Rightarrow> nat option \<Rightarrow> nat \<Rightarrow> (string option \<times> nat option) option" where
  "split_hw_loop [] crd dev positional = Some (crd, dev)"
| "split_hw_loop (part # parts) crd dev positional =
     (case split_once ''='' part of
        Some (key, value) \<Rightarrow>
          if key = ''CARD'' then split_hw_loop parts (Some value) dev positional
          else if key = ''DEV'' then
            (case parse_u32 value of
               None \<Rightarrow> None
             | Some d \<Rightarrow> split_hw_loop parts crd (Some d) positional)
          else None
      | None \<Rightarrow>
          if positional = 0 then split_hw_loop parts (Some part) dev 1
          else if positional = 1 then
            (case parse_u32 part of
               None \<Rightarrow> None
             | Some d \<Rightarrow> split_hw_loop parts crd (Some d) 2)
          else None)"

definition split_hw :: "string \<Rightarrow> (string \<times> nat) option" where
  "split_hw rest =
     (case split_hw_loop (split_char (CHR '','') rest) None None 0 of
        None \<Rightarrow> None
      | Some (None, _) \<Rightarrow> None
      | Some (Some crd, dev) \<Rightarrow>
          if crd = [] then None else Some (crd, case dev of Some d \<Rightarrow> d | None \<Rightarrow> 0))"

definition card_id :: "asound \<Rightarrow> nat \<Rightarrow> string option" where
  "card_id t crd =
     (case as_entries t of
        Inl _ \<Rightarrow> None
      | Inr entries \<Rightarrow>
          (case map_of entries (''card'' @ show_nat crd) of
             None \<Rightarrow> None
           | Some d \<Rightarrow> map_option trim (cd_id d)))"

definition by_id :: "string \<Rightarrow> string \<Rightarrow> nat \<Rightarrow> asound \<Rightarrow> error + device" where
  "by_id spec ident dev t =
     (case cards t of
        Inl e \<Rightarrow> Inl e
      | Inr cs \<Rightarrow>
          (case find (\<lambda>c. ci_id c = ident) cs of
             Some c \<Rightarrow> Inr (Hw (ci_index c) dev (Some (ci_id c)))
           | None \<Rightarrow>
               Inl (mk_error (Message
                 (''no sound card with id '' @ debug_str ident @ '' (from '' @ debug_str spec
                  @ ''); cards now: ''
                  @ (if cs = [] then ''none'' else join '', '' (map ci_id cs))
                  @ ''. Is the DAC plugged in? Run `phonia devices`'')))))"

definition first_usb :: "card_info list \<Rightarrow> card_info option" where
  "first_usb cs = find (\<lambda>c. ci_usb c \<and> ci_playback c \<noteq> []) cs"

definition first_usb_card :: "asound \<Rightarrow> error + device" where
  "first_usb_card t =
     (case cards t of
        Inl e \<Rightarrow> Inl e
      | Inr cs \<Rightarrow>
          (case first_usb cs of
             Some c \<Rightarrow> Inr (Hw (ci_index c) (hd (ci_playback c)) (Some (ci_id c)))
           | None \<Rightarrow>
               Inl (mk_error (Message
                 (''device = '' @ debug_str ''auto''
                  @ '' found no USB sound card with playback. Is the DAC plugged in? Run `phonia devices`'')))))"

definition resolve_device :: "string \<Rightarrow> asound \<Rightarrow> error + device" where
  "resolve_device spec t =
     (if spec = ''auto'' then first_usb_card t
      else case strip_prefix ''hw:'' spec of
             None \<Rightarrow> Inr (Other spec)
           | Some rest \<Rightarrow>
               (case split_hw rest of
                  None \<Rightarrow>
                    Inl (mk_error (Message
                      (debug_str spec @ '' is not a device name: expected hw:<card>,<device>'')))
                | Some (crd, dev) \<Rightarrow>
                    (case parse_u32 crd of
                       Some n \<Rightarrow> Inr (Hw n dev (card_id t n))
                     | None \<Rightarrow> by_id spec crd dev t)))"

definition usb_dac :: "asound \<Rightarrow> string option" where
  "usb_dac t =
     (case cards t of
        Inl _ \<Rightarrow> None
      | Inr cs \<Rightarrow>
          map_option (\<lambda>c. ''hw:'' @ ci_id c @ '','' @ show_nat (hd (ci_playback c))) (first_usb cs))"

section \<open>Listing the cards\<close>

record advertised =
  ad_format :: string
  ad_channels :: string
  ad_rates :: string

fun parse_advertised_loop ::
    "string list \<Rightarrow> string option \<Rightarrow> string option \<Rightarrow> advertised list" where
  "parse_advertised_loop [] fmt chans = []"
| "parse_advertised_loop (raw # rest) fmt chans =
     (let line = trim raw
      in if line = ''Capture:'' then []
         else case strip_prefix ''Format:'' line of
                Some v \<Rightarrow> parse_advertised_loop rest (Some (trim v)) chans
              | None \<Rightarrow>
                  (case strip_prefix ''Channels:'' line of
                     Some v \<Rightarrow> parse_advertised_loop rest fmt (Some (trim v))
                   | None \<Rightarrow>
                       (case strip_prefix ''Rates:'' line of
                          Some v \<Rightarrow>
                            (case (fmt, chans) of
                               (Some f, Some c) \<Rightarrow>
                                 (if f \<noteq> ''SPECIAL''
                                  then [\<lparr>ad_format = f, ad_channels = c, ad_rates = trim v\<rparr>] else [])
                                 @ parse_advertised_loop rest None None
                             | _ \<Rightarrow> parse_advertised_loop rest None None)
                        | None \<Rightarrow> parse_advertised_loop rest fmt chans)))"

definition parse_advertised :: "string \<Rightarrow> advertised list" where
  "parse_advertised stream0 = parse_advertised_loop (lines stream0) None None"

fun add_advertised ::
    "advertised \<Rightarrow> (string \<times> string \<times> string list) list \<Rightarrow> (string \<times> string \<times> string list) list" where
  "add_advertised a [] = [(ad_channels a, ad_rates a, [ad_format a])]"
| "add_advertised a ((c, r, fs) # groups) =
     (if c = ad_channels a \<and> r = ad_rates a then (c, r, fs @ [ad_format a]) # groups
      else (c, r, fs) # add_advertised a groups)"

definition advertised_lines :: "string \<Rightarrow> string list" where
  "advertised_lines stream0 =
     map (\<lambda>(c, r, fs). join '', '' fs @ '' at '' @ r @ '' ('' @ c @ ''ch)'')
       (foldl (\<lambda>groups a. add_advertised a groups) [] (parse_advertised stream0))"

text \<open>
  \<^verbatim>\<open>list_with\<close>: the probe for a hardware volume control (its description) is the argument. The
  directory of a card is the entry \<^verbatim>\<open>card<index>\<close>.
\<close>

definition pad_right :: "nat \<Rightarrow> string \<Rightarrow> string" where
  "pad_right n s = s @ replicate (n - length s) (CHR '' '')"

definition card_lines :: "asound \<Rightarrow> (nat \<Rightarrow> string option) \<Rightarrow> card_info \<Rightarrow> string list" where
  "card_lines t probe c =
     (''  '' @ pad_right 16 (join '' '' (map (\<lambda>d. ''hw:'' @ ci_id c @ '','' @ show_nat d) (ci_playback c)))
      @ ''  '' @ ci_name c @ ''  (card '' @ show_nat (ci_index c)
      @ (if ci_usb c then '', USB'' else []) @ '')'')
     # (if ci_usb c then
          (case as_entries t of
             Inl _ \<Rightarrow> []
           | Inr entries \<Rightarrow>
               (case Option.bind (map_of entries (''card'' @ show_nat (ci_index c))) cd_stream0 of
                  Some stream0 \<Rightarrow> map (\<lambda>l. ''      advertises '' @ l) (advertised_lines stream0)
                | None \<Rightarrow> []))
        else [])
     @ (case probe (ci_index c) of Some info \<Rightarrow> [''      hardware volume: '' @ info] | None \<Rightarrow> [])"

definition list_with :: "asound \<Rightarrow> (nat \<Rightarrow> string option) \<Rightarrow> error + string" where
  "list_with t probe =
     (case cards t of
        Inl e \<Rightarrow> Inl e
      | Inr cs \<Rightarrow>
          let playing = filter (\<lambda>c. ci_playback c \<noteq> []) cs
          in if playing = [] then Inr ''No sound cards with playback were found.''
             else Inr (join [CHR 0x0A]
               ([''Sound cards, exclusive and bit-perfect (put the device in ~/.config/phonia/config.toml under [output]):'']
                @ concat (map (card_lines t probe) playing)
                @ [''Or use `auto` for the first USB sound card.''])))"

section \<open>Lemmas\<close>

definition plain_id :: "string \<Rightarrow> bool" where
  "plain_id ident \<longleftrightarrow> ident \<noteq> [] \<and> CHR '','' \<notin> set ident \<and> CHR ''='' \<notin> set ident"

lemma not_digit [simp]: "\<not> is_digit (CHR '','')" "\<not> is_digit (CHR ''='')"
  by (simp_all add: is_digit_def)

lemma split_hw_name:
  assumes "plain_id ident" and "dev \<le> u32_max"
  shows "split_hw (ident @ '','' @ show_nat dev) = Some (ident, dev)"
proof -
  have parts: "split_char (CHR '','') (ident @ CHR '','' # show_nat dev) = [ident, show_nat dev]"
    using assms(1) not_in_show_nat [of "CHR '',''" dev]
    by (simp add: plain_id_def split_char_append split_char_no_sep)
  have "split_once ''='' ident = None" "split_once ''='' (show_nat dev) = None"
    using assms(1) not_in_show_nat [of "CHR ''=''" dev]
    by (simp_all add: plain_id_def split_once_char_None)
  then show ?thesis
    using assms by (simp add: split_hw_def parts parse_u32_show_nat plain_id_def)
qed

lemma resolve_name:
  assumes "plain_id ident" and "dev \<le> u32_max"
  shows "resolve_device (''hw:'' @ ident @ '','' @ show_nat dev) t =
    (case parse_u32 ident of Some n \<Rightarrow> Inr (Hw n dev (card_id t n))
     | None \<Rightarrow> by_id (''hw:'' @ ident @ '','' @ show_nat dev) ident dev t)"
proof -
  have "strip_prefix ''hw:'' (''hw:'' @ ident @ '','' @ show_nat dev) = Some (ident @ '','' @ show_nat dev)"
    by simp
  then show ?thesis using split_hw_name [OF assms] by (simp add: resolve_device_def split: option.split)
qed

lemma by_id_found:
  assumes "cards t = Inr cs" and "c \<in> set cs" and "distinct (map ci_id cs)"
  shows "by_id spec (ci_id c) dev t = Inr (Hw (ci_index c) dev (Some (ci_id c)))"
proof -
  have "find (\<lambda>d. ci_id d = ci_id c) cs = Some c"
    using assms(2,3)
  proof (induction cs)
    case (Cons d ds)
    then show ?case by (auto simp: rev_image_eqI)
  qed simp
  then show ?thesis using assms(1) by (simp add: by_id_def)
qed

lemma parse_nat_upto_le: "parse_nat_upto m s = Some n \<Longrightarrow> n \<le> m"
  by (auto simp: parse_nat_upto_def Let_def split: if_splits)

lemma map_filter_mem: "y \<in> set (List.map_filter f xs) \<longleftrightarrow> (\<exists>x \<in> set xs. f x = Some y)"
  by (induction xs) (auto simp: List.map_filter_def)

lemma pcm_number_le: "pcm_number name = Some d \<Longrightarrow> d \<le> u32_max"
  by (auto simp: pcm_number_def parse_u32_def bind_eq_Some_conv dest: parse_nat_upto_le)

lemma card_of_bounds:
  "card_of names entry = Some c \<Longrightarrow>
     ci_index c \<le> u32_max \<and> (\<forall>d \<in> set (ci_playback c). d \<le> u32_max)"
  by (auto simp: card_of_def Let_def map_filter_mem parse_u32_def bind_eq_Some_conv
      dest: parse_nat_upto_le pcm_number_le split: option.splits)

lemma cards_bounds:
  assumes "cards t = Inr cs" and "c \<in> set cs"
  shows "ci_index c \<le> u32_max" "d \<in> set (ci_playback c) \<Longrightarrow> d \<le> u32_max"
  using assms card_of_bounds
  by (auto simp: cards_def Let_def map_filter_mem split: sum.splits)

text \<open>The name \<^verbatim>\<open>phonia devices\<close> prints for a card names that card.\<close>

lemma listed_name_resolves:
  assumes "cards t = Inr cs" and "c \<in> set cs" and "d \<in> set (ci_playback c)"
    and "distinct (map ci_id cs)" and "plain_id (ci_id c)" and "parse_u32 (ci_id c) = None"
  shows "resolve_device (''hw:'' @ ci_id c @ '','' @ show_nat d) t
    = Inr (Hw (ci_index c) d (Some (ci_id c)))"
  using resolve_name [OF assms(5) cards_bounds(2) [OF assms(1-3)]] assms(6)
    by_id_found [OF assms(1,2,4)]
  by simp

section \<open>The device that is picked automatically\<close>

text \<open>
  The name shown for the USB DAC is one that works: resolving it gives the very device
  \<^verbatim>\<open>auto\<close> picks, and what is opened is a numbered card, so that the bit-perfect check can read
  the kernel's account of it.
\<close>

theorem auto_names_the_dac:
  assumes "cards t = Inr cs" and "distinct (map ci_id cs)"
    and "\<forall>c \<in> set cs. plain_id (ci_id c) \<and> parse_u32 (ci_id c) = None"
    and "usb_dac t = Some name"
  shows "\<exists>n d ident. resolve_device name t = Inr (Hw n d (Some ident))
    \<and> resolve_device ''auto'' t = resolve_device name t
    \<and> parse_hw_device (alsa_name (Hw n d (Some ident))) = Some (n, d)"
proof -
  obtain c where c: "first_usb cs = Some c"
    and name: "name = ''hw:'' @ ci_id c @ '','' @ show_nat (hd (ci_playback c))"
    using assms(1,4) by (auto simp: usb_dac_def)
  from c have mem: "c \<in> set cs" and dev: "hd (ci_playback c) \<in> set (ci_playback c)"
    by (auto simp: first_usb_def find_Some_iff)
  let ?d = "hd (ci_playback c)"
  have r: "resolve_device name t = Inr (Hw (ci_index c) ?d (Some (ci_id c)))"
    unfolding name using listed_name_resolves [OF assms(1) mem dev assms(2)] assms(3) mem by simp
  moreover have "resolve_device ''auto'' t = Inr (Hw (ci_index c) ?d (Some (ci_id c)))"
    using assms(1) c by (simp add: resolve_device_def first_usb_card_def)
  moreover have "parse_hw_device (alsa_name (Hw (ci_index c) ?d (Some (ci_id c))))
      = Some (ci_index c, ?d)"
    using parse_hw_alsa cards_bounds [OF assms(1) mem] dev by simp
  ultimately show ?thesis by metis
qed

definition demo_asound :: asound where
  "demo_asound =
     \<lparr>as_cards = None,
      as_entries = Inr
        [(''card1'', \<lparr>cd_id = Some ''DS2'', cd_files = [''pcm0p''], cd_usbid = True, cd_stream0 = None\<rparr>),
         (''card0'', \<lparr>cd_id = Some ''NVidia'', cd_files = [''pcm3p''], cd_usbid = False,
                      cd_stream0 = None\<rparr>)]\<rparr>"

lemma demo_cards:
  "cards demo_asound = Inr
     [\<lparr>ci_index = 0, ci_id = ''NVidia'', ci_name = ''NVidia'', ci_usb = False, ci_playback = [3]\<rparr>,
      \<lparr>ci_index = 1, ci_id = ''DS2'', ci_name = ''DS2'', ci_usb = True, ci_playback = [0]\<rparr>]"
  by (simp add: cards_def demo_asound_def card_of_def pcm_number_def List.map_filter_def card_name_def
      str_eval)

lemma auto_names_the_dac_witness:
  "\<exists>n d ident. resolve_device ''hw:DS2,0'' demo_asound = Inr (Hw n d (Some ident))
    \<and> resolve_device ''auto'' demo_asound = resolve_device ''hw:DS2,0'' demo_asound
    \<and> parse_hw_device (alsa_name (Hw n d (Some ident))) = Some (n, d)"
proof (rule auto_names_the_dac [OF demo_cards])
  show "usb_dac demo_asound = Some ''hw:DS2,0''"
    by (simp add: usb_dac_def demo_cards first_usb_def str_eval)
qed (simp_all add: plain_id_def str_eval)

end
