(* ===== verification/Config.thy ===== *)
theory Config
  imports Quality ReplayGain Device
begin

text \<open>
  The settings (\<^verbatim>\<open>config/mod.rs\<close> and the tables of \<^verbatim>\<open>config/file.rs\<close>): which file is read, how the command
  line, the file and the defaults are put together, and where the sound goes. Reading a file and
  parsing TOML are arguments; a path is its text.
\<close>

section \<open>The file\<close>

record cfg_output =
  co_device :: "string option"
  co_mode :: "output_mode option"
  co_sink :: "string option"
  co_reserve :: "bool option"
  co_release_after_pause :: "release_after_pause option"

record cfg_tidal =
  ct_max_quality :: "quality option"
  ct_min_quality :: "quality option"
  ct_session_store :: "session_store_kind option"
  ct_report_plays :: "bool option"

record cfg_daemon =
  cd_socket :: "string option"
  cd_verbose :: "bool option"
  cd_mpris :: "bool option"

record cfg_playback =
  cp_gapless :: "bool option"
  cp_replaygain :: "gain_mode option"
  cp_autoplay :: "bool option"

record config_file =
  cf_output :: cfg_output
  cf_tidal :: cfg_tidal
  cf_daemon :: cfg_daemon
  cf_playback :: cfg_playback

definition default_config_file :: config_file where
  "default_config_file =
     \<lparr>cf_output = \<lparr>co_device = None, co_mode = None, co_sink = None, co_reserve = None,
                   co_release_after_pause = None\<rparr>,
      cf_tidal = \<lparr>ct_max_quality = None, ct_min_quality = None, ct_session_store = None,
                  ct_report_plays = None\<rparr>,
      cf_daemon = \<lparr>cd_socket = None, cd_verbose = None, cd_mpris = None\<rparr>,
      cf_playback = \<lparr>cp_gapless = None, cp_replaygain = None, cp_autoplay = None\<rparr>\<rparr>"

text \<open>How TOML values become a wait: a whole number that is not negative, or the word.\<close>

datatype toml_value = TomlInt int | TomlStr string

definition parse_release_after_pause :: "toml_value \<Rightarrow> release_after_pause option" where
  "parse_release_after_pause v =
     (case v of
        TomlInt n \<Rightarrow> if 0 \<le> n then Some (After (secs (nat n))) else None
      | TomlStr w \<Rightarrow> if w = ''never'' then Some Never else None)"

definition show_release_after_pause :: "release_after_pause \<Rightarrow> string" where
  "show_release_after_pause r =
     (case r of Never \<Rightarrow> ''never'' | After wait \<Rightarrow> show_nat (wait div nanos_per_sec) @ '' s'')"

section \<open>Which file\<close>

datatype config_source = ExplicitFile string | DefaultFile string

fun source_path :: "config_source \<Rightarrow> string" where
  "source_path (ExplicitFile path) = path"
| "source_path (DefaultFile path) = path"

definition join_path :: "string \<Rightarrow> string \<Rightarrow> string" where
  "join_path dir name = (if strip_suffix ''/'' dir \<noteq> None \<or> dir = [] then dir @ name else dir @ ''/'' @ name)"

definition discover :: "string option \<Rightarrow> string option \<Rightarrow> string option \<Rightarrow> config_source option" where
  "discover flag env dir =
     (case flag of
        Some path \<Rightarrow> Some (ExplicitFile path)
      | None \<Rightarrow>
          (case env of
             Some path \<Rightarrow>
               if path \<noteq> [] then Some (ExplicitFile path)
               else map_option (\<lambda>d. DefaultFile (join_path d ''config.toml'')) dir
           | None \<Rightarrow> map_option (\<lambda>d. DefaultFile (join_path d ''config.toml'')) dir))"

record loaded_config =
  ld_file :: config_file
  ld_path :: "string option"

datatype file_read = FileText string | FileMissing error | FileUnreadable error

definition load_config ::
    "(string \<Rightarrow> file_read) \<Rightarrow> (string \<Rightarrow> error + config_file) \<Rightarrow> config_source option \<Rightarrow>
     error + loaded_config" where
  "load_config read parse source =
     (let nothing = \<lparr>ld_file = default_config_file, ld_path = None\<rparr>
      in case source of
           None \<Rightarrow> Inr nothing
         | Some src \<Rightarrow>
             (case read (source_path src) of
                FileMissing e \<Rightarrow>
                  (case src of
                     DefaultFile _ \<Rightarrow> Inr nothing
                   | ExplicitFile path \<Rightarrow>
                       Inl (with_context (''reading the config file '' @ path) e))
              | FileUnreadable e \<Rightarrow>
                  Inl (with_context (''reading the config file '' @ source_path src) e)
              | FileText content \<Rightarrow>
                  (case parse content of
                     Inl e \<Rightarrow> Inl (with_context (''in the config file '' @ source_path src) e)
                   | Inr f \<Rightarrow> Inr \<lparr>ld_file = f, ld_path = Some (source_path src)\<rparr>)))"

section \<open>Putting the settings together\<close>

datatype origin = FromFlag | FromFile | FromDefault

fun show_origin :: "origin \<Rightarrow> string" where
  "show_origin FromFlag = ''command line''"
| "show_origin FromFile = ''config file''"
| "show_origin FromDefault = ''default''"

record 'a sourced =
  so_value :: 'a
  so_origin :: origin

definition pick_setting :: "'a option \<Rightarrow> 'a option \<Rightarrow> 'a \<Rightarrow> 'a sourced" where
  "pick_setting flag file dflt =
     (case (flag, file) of
        (Some v, _) \<Rightarrow> \<lparr>so_value = v, so_origin = FromFlag\<rparr>
      | (None, Some v) \<Rightarrow> \<lparr>so_value = v, so_origin = FromFile\<rparr>
      | (None, None) \<Rightarrow> \<lparr>so_value = dflt, so_origin = FromDefault\<rparr>)"

record overrides =
  ov_device :: "string option"
  ov_mode :: "output_mode option"
  ov_sink :: "string option"
  ov_max_quality :: "quality option"
  ov_min_quality :: "quality option"
  ov_socket :: "string option"
  ov_verbose :: "bool option"

record settings =
  se_device :: "string option sourced"
  se_mode :: "output_mode sourced"
  se_sink :: "string sourced"
  se_reserve :: "bool sourced"
  se_release_after_pause :: "release_after_pause sourced"
  se_max_quality :: "quality sourced"
  se_min_quality :: "quality sourced"
  se_session_store :: "session_store_kind sourced"
  se_socket :: "string option sourced"
  se_verbose :: "bool sourced"
  se_gapless :: "bool sourced"
  se_replaygain :: "gain_mode sourced"
  se_report_plays :: "bool sourced"
  se_autoplay :: "bool sourced"
  se_mpris :: "bool sourced"

definition resolve_settings :: "overrides \<Rightarrow> config_file \<Rightarrow> settings" where
  "resolve_settings ov f =
     (let device_flag = ov_device ov \<noteq> None
      in \<lparr>se_device = pick_setting (map_option Some (ov_device ov)) (map_option Some (co_device (cf_output f))) None,
          se_mode = pick_setting (if device_flag then Some ExclusiveMode else ov_mode ov)
                      (co_mode (cf_output f)) AutoMode,
          se_sink = pick_setting (ov_sink ov) (co_sink (cf_output f)) ''default'',
          se_reserve = pick_setting None (co_reserve (cf_output f)) True,
          se_release_after_pause =
            pick_setting None (co_release_after_pause (cf_output f)) default_release_after_pause,
          se_max_quality = pick_setting (ov_max_quality ov) (ct_max_quality (cf_tidal f)) Hires,
          se_min_quality = pick_setting (ov_min_quality ov) (ct_min_quality (cf_tidal f)) Lossless,
          se_session_store = pick_setting None (ct_session_store (cf_tidal f)) Keyring,
          se_socket = pick_setting (map_option Some (ov_socket ov)) (map_option Some (cd_socket (cf_daemon f))) None,
          se_verbose = pick_setting (ov_verbose ov) (cd_verbose (cf_daemon f)) False,
          se_gapless = pick_setting None (cp_gapless (cf_playback f)) True,
          se_replaygain = pick_setting None (cp_replaygain (cf_playback f)) ModeOff,
          se_report_plays = pick_setting None (ct_report_plays (cf_tidal f)) True,
          se_autoplay = pick_setting None (cp_autoplay (cf_playback f)) False,
          se_mpris = pick_setting None (cd_mpris (cf_daemon f)) True\<rparr>)"

section \<open>Where the sound goes\<close>

datatype output_spec = Exclusive string | Shared "string option"

fun output_id :: "output_spec \<Rightarrow> string" where
  "output_id (Exclusive device) = ''exclusive:'' @ device"
| "output_id (Shared None) = ''shared:default''"
| "output_id (Shared (Some sink)) = ''shared:'' @ sink"

definition after_prefix :: "string \<Rightarrow> string \<Rightarrow> string option" where
  "after_prefix p s =
     (case strip_prefix p s of Some rest \<Rightarrow> if rest \<noteq> [] then Some rest else None | None \<Rightarrow> None)"

definition output_from_id :: "string \<Rightarrow> error + output_spec" where
  "output_from_id i =
     (case after_prefix ''exclusive:'' i of
        Some device \<Rightarrow> Inr (Exclusive device)
      | None \<Rightarrow>
          (case after_prefix ''shared:'' i of
             Some sink \<Rightarrow> Inr (Shared (if sink \<noteq> ''default'' then Some sink else None))
           | None \<Rightarrow> Inl (mk_error (Message (debug_str i @
               '' is not an output id: they look like exclusive:hw:DS2,0, shared:default or shared:<output name>'')))))"

fun describe_output :: "output_spec \<Rightarrow> string" where
  "describe_output (Exclusive device) = ''device '' @ device"
| "describe_output (Shared None) = ''shared, the desktop'' @ [CHR 0x27] @ ''s default output''"
| "describe_output (Shared (Some sink)) = ''shared, output '' @ sink"

definition with_output_id :: "string \<Rightarrow> overrides \<Rightarrow> error + overrides" where
  "with_output_id i ov =
     (case output_from_id i of
        Inl e \<Rightarrow> Inl e
      | Inr (Exclusive device) \<Rightarrow> Inr (ov\<lparr>ov_device := Some device\<rparr>)
      | Inr (Shared sink) \<Rightarrow>
          Inr (ov\<lparr>ov_mode := Some SharedMode,
                  ov_sink := Some (case sink of Some s \<Rightarrow> s | None \<Rightarrow> ''default'')\<rparr>))"

definition require_device :: "settings \<Rightarrow> error + string" where
  "require_device s =
     (case so_value (se_device s) of
        Some device \<Rightarrow> Inr device
      | None \<Rightarrow> Inl (mk_error (Message
          (''no audio device configured. Run `phonia devices` to see the sound cards, then put '' @
           ''`device = '' @ [CHR 0x22] @ ''hw:...'' @ [CHR 0x22] @
           ''` under [output] in the config file, or pass --device''))))"

definition shared_output :: "settings \<Rightarrow> output_spec" where
  "shared_output s =
     Shared (if so_value (se_sink s) \<noteq> ''default'' then Some (so_value (se_sink s)) else None)"

definition output_in :: "asound \<Rightarrow> settings \<Rightarrow> error + output_spec" where
  "output_in asound s =
     (case so_value (se_mode s) of
        ExclusiveMode \<Rightarrow> (case require_device s of Inl e \<Rightarrow> Inl e | Inr device \<Rightarrow> Inr (Exclusive device))
      | SharedMode \<Rightarrow> Inr (shared_output s)
      | AutoMode \<Rightarrow>
          (case (case so_value (se_device s) of Some d \<Rightarrow> Some d | None \<Rightarrow> usb_dac asound) of
             Some device \<Rightarrow> Inr (Exclusive device)
           | None \<Rightarrow> Inr (shared_output s)))"

definition check_quality :: "settings \<Rightarrow> error option" where
  "check_quality s =
     (let best = so_value (se_max_quality s); worst = so_value (se_min_quality s)
      in if best < worst then
           Some (mk_error (Message
             (''tidal.max_quality ('' @ show_quality best @ '') is below tidal.min_quality ('' @
              show_quality worst @ ''), so no track could play: raise the first or lower the second'')))
         else None)"

definition socket_path :: "string \<Rightarrow> settings \<Rightarrow> string" where
  "socket_path dflt s = (case so_value (se_socket s) of Some p \<Rightarrow> p | None \<Rightarrow> dflt)"

section \<open>Lemmas\<close>

lemma after_prefix_Some: "after_prefix p s = Some r \<longleftrightarrow> s = p @ r \<and> r \<noteq> []"
  by (auto simp: after_prefix_def strip_prefix_Some split: option.splits)

lemma output_from_id_Inr:
  assumes "output_from_id i = Inr spec"
  shows "(\<exists>device. device \<noteq> [] \<and> spec = Exclusive device \<and> i = output_id spec) \<or>
     (spec = Shared None \<and> i = output_id spec) \<or>
     (\<exists>sink. sink \<noteq> [] \<and> sink \<noteq> ''default'' \<and> spec = Shared (Some sink) \<and> i = output_id spec)"
proof (cases "after_prefix ''exclusive:'' i")
  case (Some device)
  then have "spec = Exclusive device" using assms by (simp add: output_from_id_def)
  moreover have "i = ''exclusive:'' @ device" "device \<noteq> []" using Some unfolding after_prefix_Some by blast+
  ultimately have "device \<noteq> [] \<and> spec = Exclusive device \<and> i = output_id spec"
    by (simp only: output_id.simps simp_thms)
  then show ?thesis by blast
next
  case None
  then obtain sink where s: "after_prefix ''shared:'' i = Some sink"
    "spec = Shared (if sink \<noteq> ''default'' then Some sink else None)"
    using assms by (auto simp: output_from_id_def split: option.splits)
  then have "i = ''shared:'' @ sink" "sink \<noteq> []" unfolding after_prefix_Some by blast+
  then show ?thesis
  proof (cases "sink = ''default''")
    case True
    then have "spec = Shared None \<and> i = output_id spec"
      using s(2) \<open>i = ''shared:'' @ sink\<close> by simp
    then show ?thesis by blast
  next
    case False
    then have "sink \<noteq> [] \<and> sink \<noteq> ''default'' \<and> spec = Shared (Some sink) \<and> i = output_id spec"
      using s(2) \<open>i = ''shared:'' @ sink\<close> \<open>sink \<noteq> []\<close> by (simp only: output_id.simps if_True simp_thms)
    then show ?thesis by blast
  qed
qed

text \<open>
  An output id that is understood is the id of the output it names; and the output
  named on the command line is where the sound goes, whatever the settings file says and whatever
  cards there are.
\<close>

theorem named_output_is_used:
  assumes "output_from_id i = Inr spec" and "ov_device ov = None"
  shows "output_id spec = i \<and>
    (\<exists>ov'. with_output_id i ov = Inr ov' \<and> output_in asound (resolve_settings ov' file) = Inr spec)"
proof -
  consider device where "spec = Exclusive device" "i = output_id spec"
    | "spec = Shared None" "i = output_id spec"
    | sink where "sink \<noteq> ''default''" "spec = Shared (Some sink)" "i = output_id spec"
    using output_from_id_Inr [OF assms(1)] by blast
  then show ?thesis
    by cases (use assms in \<open>auto simp: with_output_id_def output_in_def resolve_settings_def pick_setting_def
        require_device_def shared_output_def split: option.splits\<close>)
qed

lemma named_output_is_used_witness:
  "\<forall>asound. \<exists>ov'. with_output_id ''exclusive:hw:1,0'' \<lparr>ov_device = None, ov_mode = None, ov_sink = None,
      ov_max_quality = None, ov_min_quality = None, ov_socket = None, ov_verbose = None\<rparr> = Inr ov' \<and>
    output_in asound (resolve_settings ov' (default_config_file\<lparr>cf_output := (cf_output default_config_file)
      \<lparr>co_mode := Some SharedMode\<rparr>\<rparr>)) = Inr (Exclusive ''hw:1,0'')"
  using named_output_is_used [of "''exclusive:hw:1,0''" "Exclusive ''hw:1,0''"
      "\<lparr>ov_device = None, ov_mode = None, ov_sink = None, ov_max_quality = None, ov_min_quality = None,
        ov_socket = None, ov_verbose = None\<rparr>"]
  by (simp add: output_from_id_def after_prefix_def)

text \<open>An output of the sound server that is called \<open>default\<close> cannot be named by its id.\<close>

lemma default_sink_not_round: "output_from_id (output_id (Shared (Some ''default''))) = Inr (Shared None)"
  by (simp add: output_from_id_def after_prefix_def)

end
