(* ===== verification/Fifo_Sinks.thy ===== *)
theory Fifo_Sinks
  imports Packing ReplayGain
begin

text \<open>
  The outputs that queue audio in memory: the ring between the audio thread and the sound server
  (\<^verbatim>\<open>output/shared/ring.rs\<close>) and the test sink (\<^verbatim>\<open>output/fake.rs\<close>). Both keep one contract, stated as
  a locale: what they accept is delivered in order, once, however the other side draws from it.
\<close>

section \<open>The contract\<close>

text \<open>
  A client that delivers samples writes what is left again and again; between the writes (and while
  one waits) the other side acts. \<open>put\<close> answers \<open>None\<close> while it has to wait.
\<close>

inductive delivers ::
    "(sample list \<Rightarrow> 's \<Rightarrow> ((error + nat) \<times> 's) option) \<Rightarrow> ('s \<Rightarrow> 's \<Rightarrow> bool) \<Rightarrow> nat \<Rightarrow>
     sample list \<Rightarrow> 's \<Rightarrow> 's \<Rightarrow> bool"
  for put outside chans where
  All: "delivers put outside chans [] s s"
| Meanwhile: "outside s s1 \<Longrightarrow> delivers put outside chans xs s1 s2 \<Longrightarrow> delivers put outside chans xs s s2"
| Write: "put xs s = Some (Inr n, s1) \<Longrightarrow> delivers put outside chans (drop (n * chans) xs) s1 s2 \<Longrightarrow>
    delivers put outside chans xs s s2"

locale fifo_sink =
  fixes put :: "sample list \<Rightarrow> 's \<Rightarrow> ((error + nat) \<times> 's) option"
    and outside :: "'s \<Rightarrow> 's \<Rightarrow> bool"
    and stream :: "'s \<Rightarrow> 'b list"
    and encode :: "sample list \<Rightarrow> 'b list"
    and chans :: nat
    and usable :: "'s \<Rightarrow> bool"
  assumes encode_append: "encode (xs @ ys) = encode xs @ encode ys"
    and put_ok: "usable s \<Longrightarrow> put xs s = Some (Inr n, s') \<Longrightarrow>
      usable s' \<and> n * chans \<le> length xs \<and> stream s' = stream s @ encode (take (n * chans) xs)"
    and put_err: "usable s \<Longrightarrow> put xs s = Some (Inl e, s') \<Longrightarrow> usable s' \<and> stream s' = stream s"
    and outside_ok: "usable s \<Longrightarrow> outside s s' \<Longrightarrow> usable s' \<and> stream s' = stream s"
begin

lemma encode_Nil: "encode [] = []"
  using encode_append [of "[]" "[]"] by simp

lemma delivers_stream:
  "delivers put outside chans xs s s' \<Longrightarrow> usable s \<Longrightarrow> usable s' \<and> stream s' = stream s @ encode xs"
proof (induction rule: delivers.induct)
  case (All s)
  then show ?case by (simp add: encode_Nil)
next
  case (Meanwhile s s1 xs s2)
  then show ?case using outside_ok by auto
next
  case (Write xs s n s1 s2)
  then have "encode xs = encode (take (n * chans) xs) @ encode (drop (n * chans) xs)"
    by (simp flip: encode_append)
  then show ?case using Write put_ok by auto
qed

text \<open>Two deliveries in a row are one, so chunks may be cut anywhere.\<close>

lemma delivers_append:
  assumes "delivers put outside chans xs s s1" and "delivers put outside chans ys s1 s2" and "usable s"
  shows "stream s2 = stream s @ encode (xs @ ys)"
  using delivers_stream [OF assms(1,3)] delivers_stream [OF assms(2)] by (simp add: encode_append)

end

section \<open>The ring\<close>

definition ring_stall :: duration where
  "ring_stall = secs 5"

record ring =
  rg_frame_bytes :: nat
  rg_channels :: nat
  rg_capacity_bytes :: nat
  rg_period_frames :: nat
  rg_bytes :: "byte list"
  rg_waker :: bool
  rg_pulled :: nat
  rg_gone :: "string option"
  rg_closed :: bool

definition ring_new :: "nat \<Rightarrow> nat \<Rightarrow> nat \<Rightarrow> ring" where
  "ring_new capacity_frames period_frames chans =
     \<lparr>rg_frame_bytes = chans * 4, rg_channels = chans,
      rg_capacity_bytes = capacity_frames * (chans * 4), rg_period_frames = period_frames,
      rg_bytes = [], rg_waker = False, rg_pulled = 0, rg_gone = None, rg_closed = False\<rparr>"

definition ring_capacity_frames :: "ring \<Rightarrow> nat" where
  "ring_capacity_frames r = rg_capacity_bytes r div rg_frame_bytes r"

definition samples_bytes :: "sample list \<Rightarrow> byte list" where
  "samples_bytes xs = concat (map le_bytes xs)"

text \<open>
  One look of a blocked writer: it is done, or waits on with what it last saw pulled, and when.
\<close>

datatype look = Done "(error + nat) \<times> ring" | Waiting "nat \<times> instant"

definition ring_look :: "nat \<times> instant \<Rightarrow> instant \<Rightarrow> sample list \<Rightarrow> ring \<Rightarrow> look" where
  "ring_look last_progress now samples r =
     (let frames = min (length samples div rg_channels r) (rg_period_frames r);
          needed = frames * rg_frame_bytes r
      in case rg_gone r of
           Some why \<Rightarrow> Done (Inl (mk_error (OutputGone why)), r)
         | None \<Rightarrow>
             if length (rg_bytes r) + needed \<le> rg_capacity_bytes r then
               Done (Inr frames,
                     r\<lparr>rg_bytes := rg_bytes r @ samples_bytes (take (frames * rg_channels r) samples),
                       rg_waker := False\<rparr>)
             else if rg_pulled r \<noteq> fst last_progress then Waiting (rg_pulled r, now)
             else if ring_stall < now - snd last_progress
             then Done (Inl (mk_error (OutputGone ''the sound server stopped taking audio'')), r)
             else Waiting last_progress)"

text \<open>What happens while the writer waits: each wake-up finds the ring as the others left it.\<close>

fun ring_wait :: "nat \<times> instant \<Rightarrow> (instant \<times> (ring \<Rightarrow> ring)) list \<Rightarrow> sample list \<Rightarrow> ring \<Rightarrow> look" where
  "ring_wait last_progress [] samples r = Waiting last_progress"
| "ring_wait last_progress ((now, others) # wakes) samples r =
     (let r = others r
      in case ring_look last_progress now samples r of
           Done res \<Rightarrow> Done res
         | Waiting last_progress \<Rightarrow> ring_wait last_progress wakes samples r)"

definition ring_write ::
    "instant \<Rightarrow> (instant \<times> (ring \<Rightarrow> ring)) list \<Rightarrow> sample list \<Rightarrow> ring \<Rightarrow> look" where
  "ring_write now wakes samples r =
     (if min (length samples div rg_channels r) (rg_period_frames r) = 0 then Done (Inr 0, r)
      else ring_wait (rg_pulled r, now) ((now, id) # wakes) samples r)"

definition ring_push_silence :: "nat \<Rightarrow> ring \<Rightarrow> ring" where
  "ring_push_silence frames r =
     r\<lparr>rg_bytes := rg_bytes r @ replicate (frames * rg_frame_bytes r) 0, rg_waker := False\<rparr>"

definition ring_queued_frames :: "ring \<Rightarrow> nat" where
  "ring_queued_frames r = length (rg_bytes r) div rg_frame_bytes r"

definition ring_clear :: "ring \<Rightarrow> ring" where
  "ring_clear r = r\<lparr>rg_bytes := []\<rparr>"

definition ring_mark_gone :: "string \<Rightarrow> ring \<Rightarrow> ring" where
  "ring_mark_gone why r =
     r\<lparr>rg_gone := (case rg_gone r of None \<Rightarrow> Some why | Some w \<Rightarrow> Some w), rg_waker := False\<rparr>"

definition ring_close :: "ring \<Rightarrow> ring" where
  "ring_close r = r\<lparr>rg_closed := True\<rparr>"

text \<open>\<^verbatim>\<open>poll_read\<close> into a buffer of \<open>n\<close> bytes: the bytes taken, or \<open>None\<close> for "not yet".\<close>

definition ring_poll_read :: "nat \<Rightarrow> ring \<Rightarrow> byte list option \<times> ring" where
  "ring_poll_read n r =
     (let taken = min n (length (rg_bytes r)) div rg_frame_bytes r * rg_frame_bytes r
      in if taken = 0 then (None, r\<lparr>rg_waker := True\<rparr>)
         else (Some (take taken (rg_bytes r)),
               r\<lparr>rg_bytes := drop taken (rg_bytes r), rg_pulled := rg_pulled r + taken\<rparr>))"

subsection \<open>The ring with what the server drew\<close>

type_synonym ring_run = "ring \<times> byte list"

fun ring_put :: "sample list \<Rightarrow> ring_run \<Rightarrow> ((error + nat) \<times> ring_run) option" where
  "ring_put xs (r, drawn) =
     (if min (length xs div rg_channels r) (rg_period_frames r) = 0 then Some (Inr 0, (r, drawn))
      else case ring_look (rg_pulled r, 0) 0 xs r of
             Done (res, r') \<Rightarrow> Some (res, (r', drawn))
           | Waiting _ \<Rightarrow> None)"

inductive ring_outside :: "ring_run \<Rightarrow> ring_run \<Rightarrow> bool" where
  Drawn: "ring_poll_read n r = (Some bs, r') \<Longrightarrow> ring_outside (r, drawn) (r', drawn @ bs)"
| NotYet: "ring_poll_read n r = (None, r') \<Longrightarrow> ring_outside (r, drawn) (r', drawn)"
| Gone: "ring_outside (r, drawn) (ring_mark_gone why r, drawn)"
| Closed: "ring_outside (r, drawn) (ring_close r, drawn)"

inductive_cases ring_outsideE: "ring_outside (r, drawn) s"

fun ring_stream :: "ring_run \<Rightarrow> byte list" where
  "ring_stream (r, drawn) = drawn @ rg_bytes r"

definition ring_usable :: "nat \<Rightarrow> ring_run \<Rightarrow> bool" where
  "ring_usable chans s \<longleftrightarrow>
     0 < chans \<and> rg_channels (fst s) = chans \<and> rg_frame_bytes (fst s) = chans * 4 \<and>
     (chans * 4) dvd length (rg_bytes (fst s))"

lemma length_le_bytes [simp]: "length (le_bytes s) = 4"
  by (simp add: le_bytes_def)

lemma samples_bytes_length [simp]: "length (samples_bytes xs) = length xs * 4"
  by (induction xs) (simp_all add: samples_bytes_def)

lemma samples_bytes_append: "samples_bytes (xs @ ys) = samples_bytes xs @ samples_bytes ys"
  by (simp add: samples_bytes_def)

lemma ring_look_done:
  "ring_look lp now xs r = Done (Inr n, r') \<Longrightarrow>
     n = min (length xs div rg_channels r) (rg_period_frames r) \<and>
     length (rg_bytes r) + n * rg_frame_bytes r \<le> rg_capacity_bytes r \<and>
     r' = r\<lparr>rg_bytes := rg_bytes r @ samples_bytes (take (n * rg_channels r) xs), rg_waker := False\<rparr>"
  "ring_look lp now xs r = Done (Inl e, r') \<Longrightarrow> r' = r \<and> is_output_gone e"
  by (auto simp: ring_look_def Let_def is_output_gone_def mk_error_def split: if_splits option.splits)

lemma frames_fit: "0 < c \<Longrightarrow> min (len div c) p * c \<le> (len :: nat)"
  by (meson div_times_less_eq_dividend le_trans min.cobounded1 mult_le_mono1)

lemma ring_put_ok:
  assumes "ring_usable chans s" and "ring_put xs s = Some (Inr n, s')"
  shows "ring_usable chans s' \<and> n * chans \<le> length xs \<and>
    ring_stream s' = ring_stream s @ samples_bytes (take (n * chans) xs)"
proof -
  obtain r drawn where s: "s = (r, drawn)" by fastforce
  have u: "0 < chans" "rg_channels r = chans" "rg_frame_bytes r = chans * 4"
    "(chans * 4) dvd length (rg_bytes r)"
    using assms(1) by (simp_all add: ring_usable_def s)
  show ?thesis
  proof (cases "min (length xs div chans) (rg_period_frames r) = 0")
    case True
    then show ?thesis using assms u by (auto simp: s samples_bytes_def)
  next
    case False
    then have "ring_put xs s = (case ring_look (rg_pulled r, 0) 0 xs r of
        Done (res, r') \<Rightarrow> Some (res, (r', drawn)) | Waiting _ \<Rightarrow> None)"
      using u(2) by (simp only: s ring_put.simps if_False)
    then obtain r' where l: "ring_look (rg_pulled r, 0) 0 xs r = Done (Inr n, r')" and s': "s' = (r', drawn)"
      using assms(2) by (auto split: look.splits)
    note d = ring_look_done(1) [OF l]
    have "n * chans \<le> length xs" using d u frames_fit by simp
    then have "length (take (n * chans) xs) = n * chans" by simp
    then show ?thesis
      using d u \<open>n * chans \<le> length xs\<close> by (auto simp: s s' ring_usable_def mult.assoc)
  qed
qed

lemma ring_poll_bytes:
  assumes "ring_poll_read n r = (b, r')"
  shows "rg_bytes r = (case b of Some bs \<Rightarrow> bs | None \<Rightarrow> []) @ rg_bytes r'"
    and "rg_pulled r' = rg_pulled r + length (case b of Some bs \<Rightarrow> bs | None \<Rightarrow> [])"
    and "rg_frame_bytes r dvd length (case b of Some bs \<Rightarrow> bs | None \<Rightarrow> [])"
    and "rg_channels r' = rg_channels r" "rg_frame_bytes r' = rg_frame_bytes r"
    and "rg_capacity_bytes r' = rg_capacity_bytes r" "rg_gone r' = rg_gone r"
    "rg_period_frames r' = rg_period_frames r"
proof -
  have le: "min n (length (rg_bytes r)) div rg_frame_bytes r * rg_frame_bytes r \<le> length (rg_bytes r)"
    by (meson div_times_less_eq_dividend le_trans min.cobounded2)
  show "rg_bytes r = (case b of Some bs \<Rightarrow> bs | None \<Rightarrow> []) @ rg_bytes r'"
    and "rg_channels r' = rg_channels r" "rg_frame_bytes r' = rg_frame_bytes r"
    and "rg_capacity_bytes r' = rg_capacity_bytes r" "rg_gone r' = rg_gone r"
    "rg_period_frames r' = rg_period_frames r"
    using assms by (auto simp: ring_poll_read_def Let_def split: if_splits)
  show "rg_pulled r' = rg_pulled r + length (case b of Some bs \<Rightarrow> bs | None \<Rightarrow> [])"
    and "rg_frame_bytes r dvd length (case b of Some bs \<Rightarrow> bs | None \<Rightarrow> [])"
    using assms le by (auto simp: ring_poll_read_def Let_def min_absorb1 split: if_splits)
qed

lemma ring_outside_ok:
  assumes "ring_usable chans s" and "ring_outside s s'"
  shows "ring_usable chans s' \<and> ring_stream s' = ring_stream s"
  using assms(2,1)
proof (cases rule: ring_outside.cases)
  case (Drawn n r bs r' drawn)
  note b = ring_poll_bytes [OF Drawn(3)]
  have "(chans * 4) dvd length (rg_bytes r')"
    using assms(1) b(1,3) by (auto simp: Drawn ring_usable_def dvd_add_right_iff)
  then show ?thesis using assms(1) b by (simp add: Drawn ring_usable_def)
next
  case (NotYet n r r' drawn)
  note b = ring_poll_bytes [OF NotYet(3)]
  show ?thesis using assms(1) b by (simp add: NotYet ring_usable_def)
qed (simp_all add: ring_usable_def ring_mark_gone_def ring_close_def)

lemma ring_put_err:
  assumes "ring_usable chans s" and "ring_put xs s = Some (Inl e, s')"
  shows "ring_usable chans s' \<and> ring_stream s' = ring_stream s"
  using assms by (cases s) (auto split: if_splits look.splits dest: ring_look_done(2))

interpretation ring_fifo: fifo_sink ring_put ring_outside ring_stream samples_bytes chans "ring_usable chans"
  for chans
proof unfold_locales
  show "samples_bytes (xs @ ys) = samples_bytes xs @ samples_bytes ys" for xs ys
    by (rule samples_bytes_append)
qed (rule ring_put_ok ring_put_err ring_outside_ok; assumption)+

section \<open>The test sink\<close>

record fake_sink =
  fs_spec :: source_spec
  fs_period :: nat
  fs_capacity :: nat
  fs_gain :: real
  fs_queued :: "sample list"
  fs_played :: "sample list"
  fs_paused :: bool
  fs_autoplay :: bool
  fs_blocking :: bool
  fs_gone :: "string option"
  fs_flushes :: nat
  fs_drains :: nat

definition fake_new :: "source_spec \<Rightarrow> nat \<Rightarrow> nat \<Rightarrow> fake_sink" where
  "fake_new spec period capacity =
     \<lparr>fs_spec = spec, fs_period = period, fs_capacity = capacity, fs_gain = 1, fs_queued = [],
      fs_played = [], fs_paused = False, fs_autoplay = False, fs_blocking = False, fs_gone = None,
      fs_flushes = 0, fs_drains = 0\<rparr>"

definition fake_advance :: "nat \<Rightarrow> fake_sink \<Rightarrow> fake_sink" where
  "fake_advance frames s =
     (if fs_paused s then s
      else let samples = min (frames * channels (fs_spec s)) (length (fs_queued s))
           in s\<lparr>fs_queued := drop samples (fs_queued s),
                fs_played := fs_played s @ take samples (fs_queued s)\<rparr>)"

definition fake_lose_output :: "string \<Rightarrow> fake_sink \<Rightarrow> fake_sink" where
  "fake_lose_output why s = s\<lparr>fs_gone := Some why\<rparr>"

text \<open>One look of a writer; \<open>late\<close>: the test never advanced the sink. \<open>None\<close>: it waits.\<close>

definition fake_write :: "bool \<Rightarrow> sample list \<Rightarrow> fake_sink \<Rightarrow> ((error + nat) \<times> fake_sink) option" where
  "fake_write late samples s =
     (let chans = channels (fs_spec s);
          frames = min (length samples div chans) (fs_period s);
          samples = take (frames * chans) samples;
          samples = (if fs_gain s = 1 then samples else scale_samples samples (fs_gain s));
          capacity = fs_capacity s * chans
      in case fs_gone s of
           Some why \<Rightarrow> Some (Inl (mk_error (OutputGone why)), s)
         | None \<Rightarrow>
             if fs_paused s then Some (Inl (mk_error (Message ''write() called on a paused sink'')), s)
             else if fs_autoplay s then Some (Inr frames, s\<lparr>fs_played := fs_played s @ samples\<rparr>)
             else if \<not> fs_blocking s \<or> length (fs_queued s) + length samples \<le> capacity then
               let overflow = length (fs_queued s) + length samples - capacity
               in Some (Inr frames,
                        s\<lparr>fs_played := fs_played s @ take overflow (fs_queued s),
                          fs_queued := drop overflow (fs_queued s) @ samples\<rparr>)
             else if late then
               Some (Inl (mk_error (Message ''write blocked for more than 10s: the test never advanced the sink'')), s)
             else None)"

definition fake_delay_frames :: "fake_sink \<Rightarrow> nat" where
  "fake_delay_frames s = length (fs_queued s) div channels (fs_spec s)"

definition fake_pause :: "fake_sink \<Rightarrow> fake_sink" where
  "fake_pause s = s\<lparr>fs_paused := True\<rparr>"

definition fake_resume :: "fake_sink \<Rightarrow> fake_sink" where
  "fake_resume s = s\<lparr>fs_paused := False\<rparr>"

definition fake_flush :: "fake_sink \<Rightarrow> fake_sink" where
  "fake_flush s = s\<lparr>fs_queued := [], fs_paused := False, fs_flushes := fs_flushes s + 1\<rparr>"

definition fake_drain :: "fake_sink \<Rightarrow> fake_sink" where
  "fake_drain s =
     s\<lparr>fs_paused := False, fs_played := fs_played s @ fs_queued s, fs_queued := [],
       fs_drains := fs_drains s + 1\<rparr>"

text \<open>The device side and the calls that may come between two writes.\<close>

inductive fake_outside :: "fake_sink \<Rightarrow> fake_sink \<Rightarrow> bool" where
  "fake_outside s (fake_advance n s)"
| "fake_outside s (fake_pause s)"
| "fake_outside s (fake_resume s)"
| "fake_outside s (fake_drain s)"
| "fake_outside s (fake_lose_output why s)"

definition fake_stream :: "fake_sink \<Rightarrow> sample list" where
  "fake_stream s = fs_played s @ fs_queued s"

definition fake_usable :: "nat \<Rightarrow> fake_sink \<Rightarrow> bool" where
  "fake_usable chans s \<longleftrightarrow> 0 < chans \<and> channels (fs_spec s) = chans \<and> fs_gain s = 1
     \<and> (fs_autoplay s \<longrightarrow> fs_queued s = [])"

lemma take_drop_append: "a @ take n q @ drop n q @ b = a @ q @ b"
  by (metis append.assoc append_take_drop_id)

lemma fake_put_ok:
  assumes "fake_usable chans s" and "fake_write late xs s = Some (Inr n, s')"
  shows "fake_usable chans s' \<and> n * chans \<le> length xs \<and>
    fake_stream s' = fake_stream s @ take (n * chans) xs"
proof -
  have "min (length xs div chans) (fs_period s) * chans \<le> length xs"
    using assms(1) frames_fit by (simp add: fake_usable_def)
  then show ?thesis
    using assms
    by (auto simp: fake_write_def fake_usable_def fake_stream_def Let_def take_drop_append
        split: option.splits if_splits)
qed

lemma fake_put_err:
  "fake_usable chans s \<Longrightarrow> fake_write late xs s = Some (Inl e, s') \<Longrightarrow>
     fake_usable chans s' \<and> fake_stream s' = fake_stream s"
  by (auto simp: fake_write_def Let_def split: option.splits if_splits)

lemma fake_outside_ok:
  assumes "fake_usable chans s" and "fake_outside s s'"
  shows "fake_usable chans s' \<and> fake_stream s' = fake_stream s"
  using assms(2,1)
  by (cases rule: fake_outside.cases)
    (auto simp: fake_usable_def fake_stream_def fake_advance_def fake_pause_def fake_resume_def
      fake_drain_def fake_lose_output_def Let_def)

interpretation fake_fifo: fifo_sink "fake_write late" fake_outside fake_stream "\<lambda>xs. xs" chans
  "fake_usable chans" for late chans
  by unfold_locales (rule append.simps refl fake_put_ok fake_put_err fake_outside_ok; assumption?)+

section \<open>What reaches the other side\<close>

text \<open>
  C18. Whatever is delivered through the ring reaches the sound server byte for byte, in order and
  once, however the writes are cut, however the server draws and whenever the output goes away:
  what was drawn followed by what waits is what was there before followed by the samples.
\<close>

theorem ring_delivers_in_order:
  assumes "delivers ring_put ring_outside chans xs (r, drawn) (r', drawn')"
    and "ring_usable chans (r, drawn)"
  shows "drawn' @ rg_bytes r' = drawn @ rg_bytes r @ samples_bytes xs"
  using ring_fifo.delivers_stream [OF assms] by simp

lemma ring_delivers_in_order_witness:
  "\<exists>r' drawn'. drawn' @ rg_bytes r' = samples_bytes [1, 2, 3] \<and>
     delivers ring_put ring_outside 1 [1, 2, 3] (ring_new 2 2 1, []) (r', drawn')"
proof -
  let ?r = "ring_new 2 2 1"
  let ?r1 = "?r\<lparr>rg_bytes := samples_bytes [1, 2]\<rparr>"
  let ?r2 = "?r1\<lparr>rg_bytes := [], rg_pulled := 8\<rparr>"
  let ?r3 = "?r2\<lparr>rg_bytes := samples_bytes [3]\<rparr>"
  have w1: "ring_put [1, 2, 3] (?r, []) = Some (Inr 2, (?r1, []))"
    by (simp add: ring_new_def ring_look_def Let_def)
  have p: "ring_poll_read 8 ?r1 = (Some (samples_bytes [1, 2]), ?r2)"
    by (simp add: ring_new_def ring_poll_read_def Let_def)
  have w2: "ring_put [3] (?r2, samples_bytes [1, 2]) = Some (Inr 1, (?r3, samples_bytes [1, 2]))"
    by (simp add: ring_new_def ring_look_def Let_def)
  have d: "delivers ring_put ring_outside 1 [1, 2, 3] (?r, []) (?r3, samples_bytes [1, 2])"
  proof (rule delivers.Write [where put = ring_put, OF w1])
    have "delivers ring_put ring_outside 1 [3] (?r2, samples_bytes [1, 2]) (?r3, samples_bytes [1, 2])"
      by (rule delivers.Write [where put = ring_put, OF w2]) (simp add: delivers.All)
    then show "delivers ring_put ring_outside 1 (drop (2 * 1) [1, 2, 3]) (?r1, []) (?r3, samples_bytes [1, 2])"
      using delivers.Meanwhile [where outside = ring_outside, OF ring_outside.Drawn [OF p, of "[]"]] by simp
  qed
  have u: "ring_usable 1 (?r, [])" by (simp add: ring_usable_def ring_new_def)
  have "samples_bytes [1, 2] @ rg_bytes ?r3 = samples_bytes [1, 2, 3]"
    using ring_delivers_in_order [OF d u] by (simp add: ring_new_def)
  then show ?thesis using d by blast
qed

text \<open>
  A writer does not wait for ever on a server that has stopped: once it has been woken with no byte
  drawn for longer than the limit, it fails with "the audio output is gone", or earlier succeeds.
\<close>

theorem ring_writer_gives_up:
  assumes "ring_stall < later - now" and "\<exists>others. (later, others) \<in> set wakes"
    and "\<forall>(t, others) \<in> set wakes. \<forall>r. rg_pulled (others r) = rg_pulled r"
  shows "\<exists>res r'. ring_write now wakes samples r = Done (res, r') \<and>
    (\<forall>e. res = Inl e \<longrightarrow> is_output_gone e)"
proof -
  have look: "(\<exists>res r'. ring_look (rg_pulled r, now) t samples r = Done (res, r') \<and>
        (\<forall>e. res = Inl e \<longrightarrow> is_output_gone e)) \<or>
      ring_look (rg_pulled r, now) t samples r = Waiting (rg_pulled r, now) \<and> \<not> ring_stall < t - now" for t r
    by (auto simp: ring_look_def Let_def is_output_gone_def mk_error_def split: option.split)
  have waits: "\<exists>res r'. ring_wait (rg_pulled r, now) wakes samples r = Done (res, r') \<and>
      (\<forall>e. res = Inl e \<longrightarrow> is_output_gone e)"
    if "\<exists>others. (later, others) \<in> set wakes"
      "\<forall>(t, others) \<in> set wakes. \<forall>r. rg_pulled (others r) = rg_pulled r" for wakes r
    using that
  proof (induction wakes arbitrary: r)
    case (Cons w wakes)
    obtain t others where w: "w = (t, others)" by fastforce
    have same: "rg_pulled (others r) = rg_pulled r" using Cons.prems(2) by (auto simp: w)
    show ?case
      using look [of "others r" t]
    proof
      assume "ring_look (rg_pulled (others r), now) t samples (others r)
          = Waiting (rg_pulled (others r), now) \<and> \<not> ring_stall < t - now"
      then show ?thesis
        using Cons.IH [of "others r"] Cons.prems assms(1) by (auto simp: w same Let_def)
    qed (auto simp: w same Let_def)
  qed simp
  show ?thesis
  proof (cases "min (length samples div rg_channels r) (rg_period_frames r) = 0")
    case True
    then show ?thesis by (auto simp: ring_write_def)
  next
    case False
    have "\<exists>others. (later, others) \<in> set ((now, id) # wakes)"
      "\<forall>(t, others) \<in> set ((now, id) # wakes). \<forall>r. rg_pulled (others r) = rg_pulled r"
      using assms(2,3) by auto
    from waits [OF this, of r] False show ?thesis unfolding ring_write_def by simp
  qed
qed

lemma ring_writer_gives_up_witness:
  "\<exists>e r'. ring_write 0 [(secs 6, id)] [1, 2] (ring_new 1 2 1) = Done (Inl e, r') \<and> is_output_gone e"
proof -
  obtain res r' where w: "ring_write 0 [(secs 6, id)] [1, 2] (ring_new 1 2 1) = Done (res, r')"
    "\<forall>e. res = Inl e \<longrightarrow> is_output_gone e"
    using ring_writer_gives_up [of "secs 6" 0 "[(secs 6, id)]" "[1, 2]" "ring_new 1 2 1"]
    by (auto simp: ring_stall_def secs_def nanos_per_sec_def)
  have "\<exists>e r'. ring_write 0 [(secs 6, id)] [1, 2] (ring_new 1 2 1) = Done (Inl e, r')"
    by (simp add: ring_write_def ring_look_def ring_new_def Let_def ring_stall_def secs_def
        nanos_per_sec_def)
  then show ?thesis using w by auto
qed

text \<open>
  The ring holds whole frames only, and never more than its capacity unless silence was put in
  front; the server is given whole frames too.
\<close>

theorem ring_bounded_whole_frames:
  assumes "ring_usable chans (r, drawn)" and "length (rg_bytes r) \<le> rg_capacity_bytes r"
    and "ring_put xs (r, drawn) = Some (res, (r1, drawn1))"
    and "ring_poll_read n r1 = (b, r2)"
  shows "length (rg_bytes r1) \<le> rg_capacity_bytes r1 \<and> length (rg_bytes r2) \<le> length (rg_bytes r1)
    \<and> (chans * 4) dvd length (rg_bytes r1) \<and> (chans * 4) dvd length (rg_bytes r2)
    \<and> (\<forall>bs. b = Some bs \<longrightarrow> 0 < length bs \<and> length bs \<le> n \<and> (chans * 4) dvd length bs)"
proof -
  have u1: "ring_usable chans (r1, drawn1)"
    using assms(3) ring_put_ok [OF assms(1)] ring_put_err [OF assms(1)] by (cases res) blast+
  have cap: "length (rg_bytes r1) \<le> rg_capacity_bytes r1"
  proof (cases "ring_look (rg_pulled r, 0) 0 xs r")
    case (Done p)
    obtain q s where p: "p = (q, s)" by fastforce
    show ?thesis
    proof (cases q)
      case (Inr m)
      note d = ring_look_done(1) [OF Done [unfolded p Inr]]
      have u: "0 < chans" "rg_channels r = chans" "rg_frame_bytes r = chans * 4"
        using assms(1) by (simp_all add: ring_usable_def)
      have "m * chans \<le> length xs" using d u frames_fit by simp
      then have "length (samples_bytes (take (m * chans) xs)) = m * rg_frame_bytes r"
        by (simp add: u(3))
      then have "length (rg_bytes s) \<le> rg_capacity_bytes s"
        using d [THEN conjunct2] by (simp add: u(2))
      then show ?thesis using assms(2,3) Done p by (auto split: if_splits)
    next
      case (Inl e)
      then show ?thesis
        using assms(2,3) Done p ring_look_done(2) [OF Done [unfolded p Inl]] by (auto split: if_splits)
    qed
  qed (use assms(2,3) in \<open>auto split: if_splits\<close>)
  note b = ring_poll_bytes [OF assms(4)]
  have "0 < length bs \<and> length bs \<le> n" if "b = Some bs" for bs
  proof -
    have "min n (length (rg_bytes r1)) div rg_frame_bytes r1 * rg_frame_bytes r1
        \<le> min n (length (rg_bytes r1))" by (rule div_times_less_eq_dividend)
    then show ?thesis using assms(4) that by (auto simp: ring_poll_read_def Let_def split: if_splits)
  qed
  then show ?thesis
    using u1 cap b by (auto simp: ring_usable_def dvd_add_right_iff split: option.splits)
qed

lemma ring_bounded_whole_frames_witness:
  "length (rg_bytes ((ring_new 2 2 1)\<lparr>rg_bytes := samples_bytes [1, 2]\<rparr>)) \<le> 8"
proof -
  have u: "ring_usable 1 (ring_new 2 2 1, [])" by (simp add: ring_usable_def ring_new_def)
  have w: "ring_put [1, 2, 3] (ring_new 2 2 1, [])
      = Some (Inr 2, ((ring_new 2 2 1)\<lparr>rg_bytes := samples_bytes [1, 2]\<rparr>, []))"
    by (simp add: ring_new_def ring_look_def Let_def)
  show ?thesis
    using ring_bounded_whole_frames [OF u _ w surjective_pairing, of 8]
    by (simp add: ring_new_def)
qed

end
