(* ===== verification/Shared_Sink.thy ===== *)
theory Shared_Sink
  imports Fifo_Sinks Sink_Report
begin

text \<open>
  Playing through the sound server (\<^verbatim>\<open>output/shared/mod.rs\<close>): the sink over the ring. The server
  itself is behind the trait \<^verbatim>\<open>Transport\<close>, here a record of functions over a world \<open>'w\<close>; what the
  server does to the ring while the sink waits is an argument of the operations that wait.
\<close>

definition drain_slack :: duration where
  "drain_slack = secs 10"

record timing =
  tm_queued_bytes :: nat
  tm_write_bytes :: nat
  tm_read_bytes :: nat
  tm_sink_latency :: duration

record 'w transport =
  tr_cork :: "bool \<Rightarrow> 'w \<Rightarrow> error option \<times> 'w"
  tr_flush :: "'w \<Rightarrow> error option \<times> 'w"
  tr_timing :: "'w \<Rightarrow> (error + timing) \<times> 'w"

text \<open>The sink; \<open>sh_told\<close> are the reports its handler was given.\<close>

record 'w shared_sink =
  sh_spec :: source_spec
  sh_ring :: ring
  sh_world :: 'w
  sh_silence_frames :: nat
  sh_silence_end :: nat
  sh_needs_silence :: bool
  sh_server_target_frames :: nat
  sh_report :: "sink_report option"
  sh_told :: "sink_report list"
  sh_gain :: real

definition shared_new ::
    "source_spec \<Rightarrow> ring \<Rightarrow> 'w \<Rightarrow> nat \<Rightarrow> nat \<Rightarrow> sink_report option \<Rightarrow> 'w shared_sink" where
  "shared_new spec r w silence target rep =
     \<lparr>sh_spec = spec, sh_ring = r, sh_world = w, sh_silence_frames = silence,
      sh_silence_end = silence, sh_needs_silence = False, sh_server_target_frames = target,
      sh_report = rep, sh_told = [], sh_gain = 1\<rparr>"

definition shared_frame_bytes :: "'w shared_sink \<Rightarrow> nat" where
  "shared_frame_bytes s = channels (sh_spec s) * 4"

definition add_silence :: "'w transport \<Rightarrow> 'w shared_sink \<Rightarrow> 'w shared_sink" where
  "add_silence t s =
     (let waiting = ring_queued_frames (sh_ring s);
          (r, w) = tr_timing t (sh_world s);
          s = s\<lparr>sh_world := w\<rparr>;
          s = (case r of
                 Inr tm \<Rightarrow> s\<lparr>sh_silence_end := tm_write_bytes tm div shared_frame_bytes s + waiting
                                                + sh_silence_frames s\<rparr>
               | Inl _ \<Rightarrow> s)
      in s\<lparr>sh_ring := ring_push_silence (sh_silence_frames s) (sh_ring s), sh_needs_silence := False\<rparr>)"

definition shared_drop :: "'w shared_sink \<Rightarrow> 'w shared_sink" where
  "shared_drop s = s\<lparr>sh_ring := ring_close (sh_ring s)\<rparr>"

definition shared_capacity_frames :: "'w shared_sink \<Rightarrow> nat" where
  "shared_capacity_frames s =
     ring_capacity_frames (sh_ring s) + sh_server_target_frames s + sample_rate (sh_spec s)"

definition shared_set_gain :: "real \<Rightarrow> 'w shared_sink \<Rightarrow> 'w shared_sink" where
  "shared_set_gain g s = s\<lparr>sh_gain := g\<rparr>"

text \<open>\<open>None\<close>: still waiting for room after what the others did (\<open>wakes\<close>).\<close>

definition shared_write ::
    "'w transport \<Rightarrow> instant \<Rightarrow> (instant \<times> (ring \<Rightarrow> ring)) list \<Rightarrow> sample list \<Rightarrow> 'w shared_sink \<Rightarrow>
     ((error + nat) \<times> 'w shared_sink) option" where
  "shared_write t now wakes samples s =
     (let s = (if sh_needs_silence s then add_silence t s else s);
          samples = (if sh_gain s = 1 then samples else scale_samples samples (sh_gain s))
      in case ring_write now wakes samples (sh_ring s) of
           Waiting _ \<Rightarrow> None
         | Done (Inl e, r) \<Rightarrow> Some (Inl e, s\<lparr>sh_ring := r\<rparr>)
         | Done (Inr frames, r) \<Rightarrow>
             let s = s\<lparr>sh_ring := r\<rparr>
             in Some (Inr frames,
                  if 0 < frames then
                    (case sh_report s of
                       Some rep \<Rightarrow> s\<lparr>sh_report := None, sh_told := sh_told s @ [rep]\<rparr>
                     | None \<Rightarrow> s)
                  else s))"

text \<open>The latency in frames is computed in \<^verbatim>\<open>f64\<close>, read as the reals, and truncated.\<close>

definition shared_delay_frames :: "'w transport \<Rightarrow> 'w shared_sink \<Rightarrow> nat \<times> 'w shared_sink" where
  "shared_delay_frames t s =
     (let waiting = ring_queued_frames (sh_ring s);
          (r, w) = tr_timing t (sh_world s);
          s = s\<lparr>sh_world := w\<rparr>
      in case r of
           Inl _ \<Rightarrow> (waiting, s)
         | Inr tm \<Rightarrow>
             let frame = shared_frame_bytes s;
                 unplayed = waiting + tm_queued_bytes tm div frame;
                 silence_left = sh_silence_end s - tm_read_bytes tm div frame;
                 latency = tm_sink_latency tm * sample_rate (sh_spec s) div nanos_per_sec
             in (unplayed - silence_left + latency, s))"

definition shared_cork :: "'w transport \<Rightarrow> bool \<Rightarrow> 'w shared_sink \<Rightarrow> error option \<times> 'w shared_sink" where
  "shared_cork t corked s =
     (let (r, w) = tr_cork t corked (sh_world s) in (r, s\<lparr>sh_world := w\<rparr>))"

definition shared_pause :: "'w transport \<Rightarrow> 'w shared_sink \<Rightarrow> error option \<times> 'w shared_sink" where
  "shared_pause t s = shared_cork t True s"

definition shared_resume :: "'w transport \<Rightarrow> 'w shared_sink \<Rightarrow> error option \<times> 'w shared_sink" where
  "shared_resume t s = shared_cork t False s"

definition shared_flush :: "'w transport \<Rightarrow> 'w shared_sink \<Rightarrow> error option \<times> 'w shared_sink" where
  "shared_flush t s =
     (let s = s\<lparr>sh_ring := ring_clear (sh_ring s), sh_silence_end := 0, sh_needs_silence := True\<rparr>;
          (r, w) = tr_flush t (sh_world s);
          s = s\<lparr>sh_world := w\<rparr>
      in case r of Some e \<Rightarrow> (Some e, s) | None \<Rightarrow> shared_cork t False s)"

text \<open>
  The loop of \<^verbatim>\<open>drain\<close>. Before every further look the thread sleeps, the others act on the ring and on
  the world, and the clock shows \<open>now\<close>: one element of \<open>polls\<close>. \<open>None\<close>: still waiting.
\<close>

fun drain_loop ::
    "'w transport \<Rightarrow> instant \<Rightarrow> instant \<Rightarrow> (instant \<times> (ring \<Rightarrow> ring) \<times> ('w \<Rightarrow> 'w)) list \<Rightarrow> 'w shared_sink \<Rightarrow>
     ((error + duration) \<times> 'w shared_sink) option" where
  "drain_loop t deadline now polls s =
     (case rg_gone (sh_ring s) of
        Some why \<Rightarrow> Some (Inl (mk_error (OutputGone why)), s)
      | None \<Rightarrow>
          (case tr_timing t (sh_world s) of
             (Inl e, w) \<Rightarrow> Some (Inl e, s\<lparr>sh_world := w\<rparr>)
           | (Inr tm, w) \<Rightarrow>
               let s = s\<lparr>sh_world := w\<rparr>
               in if ring_queued_frames (sh_ring s) = 0 \<and> tm_queued_bytes tm < shared_frame_bytes s
                  then Some (Inr (tm_sink_latency tm), s)
                  else if deadline < now then
                    Some (Inl (mk_error (Message
                      (''the sound server did not finish playing within ''
                         @ show_nat (drain_slack div nanos_per_sec) @ '' s''))), s)
                  else
                    (case polls of
                       [] \<Rightarrow> None
                     | (now, on_ring, on_world) # polls \<Rightarrow>
                         drain_loop t deadline now polls
                           (s\<lparr>sh_ring := on_ring (sh_ring s), sh_world := on_world (sh_world s)\<rparr>))))"

declare drain_loop.simps [simp del]

text \<open>The result with the time slept for the last frames.\<close>

definition shared_drain ::
    "'w transport \<Rightarrow> instant \<Rightarrow> (instant \<times> (ring \<Rightarrow> ring) \<times> ('w \<Rightarrow> 'w)) list \<Rightarrow> 'w shared_sink \<Rightarrow>
     ((error + duration) \<times> 'w shared_sink) option" where
  "shared_drain t now polls s =
     (case shared_cork t False s of
        (Some e, s) \<Rightarrow> Some (Inl e, s)
      | (None, s) \<Rightarrow>
          (case drain_loop t (now + drain_slack) now polls s of
             Some (Inr latency, s) \<Rightarrow> Some (Inr latency, s\<lparr>sh_needs_silence := True\<rparr>)
           | other \<Rightarrow> other))"

section \<open>Lemmas\<close>

text \<open>A write reports once, with the first audio; the sink keeps its format and its world otherwise.\<close>

lemma shared_write_reports_once:
  "shared_write t now wakes xs s = Some (Inr n, s') \<Longrightarrow> 0 < n \<Longrightarrow>
     sh_report s' = None \<and> set (sh_told s') \<subseteq> set (sh_told s) \<union> set_option (sh_report s)"
  by (auto simp: shared_write_def Let_def add_silence_def split_def
      split: look.splits sum.splits option.splits if_splits prod.splits)

text \<open>
  What the delay counts: \<open>total\<close> frames were ever put in, the silence ended at \<open>silence_end\<close> of them.
\<close>

definition timing_fits :: "nat \<Rightarrow> ring \<Rightarrow> timing \<Rightarrow> bool" where
  "timing_fits frame r tm \<longleftrightarrow>
     tm_write_bytes tm = rg_pulled r \<and> frame dvd rg_pulled r \<and> frame dvd length (rg_bytes r) \<and>
     frame dvd tm_read_bytes tm \<and> tm_read_bytes tm + tm_queued_bytes tm = tm_write_bytes tm"

definition frames_in :: "nat \<Rightarrow> ring \<Rightarrow> nat" where
  "frames_in frame r = (rg_pulled r + length (rg_bytes r)) div frame"

lemma delay_frames_audio:
  assumes "tr_timing t (sh_world s) = (Inr tm, w)" and "0 < channels (sh_spec s)"
    and "rg_frame_bytes (sh_ring s) = shared_frame_bytes s"
    and "timing_fits (shared_frame_bytes s) (sh_ring s) tm"
    and "sh_silence_end s \<le> frames_in (shared_frame_bytes s) (sh_ring s)"
  shows "fst (shared_delay_frames t s) =
    min (frames_in (shared_frame_bytes s) (sh_ring s) - sh_silence_end s)
        (frames_in (shared_frame_bytes s) (sh_ring s) - tm_read_bytes tm div shared_frame_bytes s)
    + tm_sink_latency tm * sample_rate (sh_spec s) div nanos_per_sec"
proof -
  let ?f = "shared_frame_bytes s"
  have f: "0 < ?f" using assms(2) by (simp add: shared_frame_bytes_def)
  obtain a where a: "rg_pulled (sh_ring s) = ?f * a" using assms(4) by (auto simp: timing_fits_def)
  obtain b where b: "length (rg_bytes (sh_ring s)) = ?f * b" using assms(4) by (auto simp: timing_fits_def)
  obtain c where c: "tm_read_bytes tm = ?f * c" using assms(4) by (auto simp: timing_fits_def)
  have "?f * c + tm_queued_bytes tm = ?f * a" using assms(4) a c by (simp add: timing_fits_def)
  note k = a b c this
  have q: "tm_queued_bytes tm = ?f * (a - c)" using k(4) by (simp add: diff_mult_distrib2)
  have ca: "c \<le> a" using k(4) f by (metis le_add1 mult_le_cancel1 not_gr_zero)
  have in_: "frames_in ?f (sh_ring s) = a + b"
    using k f by (simp add: frames_in_def flip: distrib_left)
  show ?thesis
    using assms(1,3,5) f k q ca in_
    by (simp add: shared_delay_frames_def Let_def ring_queued_frames_def shared_frame_bytes_def)
qed

end
