(* ===== verification/Reservation.thy ===== *)
theory Reservation
  imports Caps
begin

text \<open>
  Taking a sound card from the desktop (\<^verbatim>\<open>output/reserve.rs\<close>) and falling back to the sound server
  for what the card cannot play (\<^verbatim>\<open>output/fallback.rs\<close>). The bus, the opening of a device and the
  clock are functions over a world \<open>'w\<close>.
\<close>

section \<open>The reservation of one card\<close>

datatype reserve_error =
    NoBus string
  | Refused string string "int option"
  | Unresponsive string string
  | ReserveFailed string

definition reserve_priority :: int where
  "reserve_priority = 10"

definition show_int :: "int \<Rightarrow> string" where
  "show_int i = (if i < 0 then ''-'' @ show_nat (nat (- i)) else show_nat (nat i))"

fun show_reserve_error :: "reserve_error \<Rightarrow> string" where
  "show_reserve_error (NoBus why) = ''no D-Bus session to reserve the DAC on: '' @ why"
| "show_reserve_error (Refused dev holder priority) =
     ''the DAC '' @ dev @ '' is held by '' @ holder
     @ (case priority of Some p \<Rightarrow> '' (priority '' @ show_int p @ '')'' | None \<Rightarrow> [])
     @ '', which refused to release it to phonia (priority '' @ show_int reserve_priority
     @ ''). Stop that application or its playback on the DAC and try again, or set `reserve = false` under [output] to skip the request.''"
| "show_reserve_error (Unresponsive dev holder) =
     holder @ '' did not answer the request to release '' @ dev @ '' in time''"
| "show_reserve_error (ReserveFailed why) = ''could not reserve the DAC: '' @ why"

datatype ensured = AlreadyHeld | Acquired bool

text \<open>A held reservation is its card and a number; dropping it gives the card back.\<close>

record 'w bus =
  bus_acquire :: "nat \<Rightarrow> string \<Rightarrow> 'w \<Rightarrow> (reserve_error + nat \<times> bool) \<times> 'w"
  bus_drop :: "nat \<Rightarrow> 'w \<Rightarrow> 'w"

type_synonym slot = "(nat \<times> nat) option"

definition slot_release :: "'w bus \<Rightarrow> slot \<Rightarrow> 'w \<Rightarrow> slot \<times> 'w" where
  "slot_release bus held w =
     (None, case held of None \<Rightarrow> w | Some (_, reservation) \<Rightarrow> bus_drop bus reservation w)"

definition held_card :: "slot \<Rightarrow> nat option" where
  "held_card held = map_option fst held"

definition ensure ::
    "'w bus \<Rightarrow> nat \<Rightarrow> string \<Rightarrow> slot \<Rightarrow> 'w \<Rightarrow> (reserve_error + ensured) \<times> slot \<times> 'w" where
  "ensure bus crd name held w =
     (if held_card held = Some crd then (Inr AlreadyHeld, held, w)
      else
        let (held, w) = slot_release bus held w;
            (r, w) = bus_acquire bus crd name w
        in case r of
             Inl e \<Rightarrow> (Inl e, held, w)
           | Inr (reservation, took_over) \<Rightarrow> (Inr (Acquired took_over), Some (crd, reservation), w))"

section \<open>Opening under the reservation\<close>

definition busy_retries :: nat where
  "busy_retries = 20"

definition busy_note :: "bool \<Rightarrow> bool \<Rightarrow> string option" where
  "busy_note took_over no_bus =
     (if took_over then Some
        ''phonia reserved the card through D-Bus, but it is still busy: a program that does not use device reservation has it open (see `fuser -v /dev/snd/*`)''
      else if no_bus then Some ''device reservation was not possible: there is no D-Bus session''
      else None)"

text \<open>The loop of \<^verbatim>\<open>open_reserved_with\<close>: \<open>sleep\<close> passes the delay between two attempts.\<close>

fun open_retrying ::
    "('w \<Rightarrow> (error + 'a) \<times> 'w) \<Rightarrow> ('w \<Rightarrow> 'w) \<Rightarrow> string option \<Rightarrow> nat \<Rightarrow> 'w \<Rightarrow> (error + 'a) \<times> 'w" where
  "open_retrying opener sleep hint attempts_left w =
     (case opener w of
        (Inl e, w) \<Rightarrow>
          if is_device_busy e then
            (case attempts_left of
               Suc n \<Rightarrow> open_retrying opener sleep hint n (sleep w)
             | 0 \<Rightarrow> (case hint of Some text \<Rightarrow> (Inl (with_context text e), w) | None \<Rightarrow> (Inl e, w)))
          else (Inl e, w)
      | (Inr s, w) \<Rightarrow> (Inr s, w))"

declare open_retrying.simps [simp del]

definition open_reserved_with ::
    "'w bus \<Rightarrow> slot option \<Rightarrow> (nat \<times> string) option \<Rightarrow> nat \<Rightarrow> ('w \<Rightarrow> 'w) \<Rightarrow>
     ('w \<Rightarrow> (error + 'a) \<times> 'w) \<Rightarrow> 'w \<Rightarrow> (error + 'a) \<times> slot option \<times> 'w" where
  "open_reserved_with bus slot crd retries sleep opener w =
     (case (slot, crd) of
        (Some held, Some (n, name)) \<Rightarrow>
          (let (r, held, w) = ensure bus n name held w
           in case r of
                Inr (Acquired took_over) \<Rightarrow>
                  (let (s, w) = open_retrying opener sleep (busy_note took_over False)
                                  (if took_over then retries else 0) w
                   in (s, Some held, w))
              | Inr AlreadyHeld \<Rightarrow>
                  (let (s, w) = open_retrying opener sleep (busy_note False False) 0 w
                   in (s, Some held, w))
              | Inl (NoBus _) \<Rightarrow>
                  (let (s, w) = open_retrying opener sleep (busy_note False True) 0 w
                   in (s, Some held, w))
              | Inl e \<Rightarrow> (Inl (mk_error (Message (show_reserve_error e))), Some held, w))
      | _ \<Rightarrow>
          (let (s, w) = open_retrying opener sleep (busy_note False False) 0 w in (s, slot, w)))"

section \<open>Falling back to the sound server\<close>

datatype open_error = NotSupported unsupported | OpenError error

text \<open>
  The two sides of the factory, each a way to open and to release; the switches announced are kept
  in the state, oldest first: \<open>True\<close> is a move to the sound server.
\<close>

record 'w sides =
  sd_open_exclusive :: "source_spec \<Rightarrow> 'w \<Rightarrow> (open_error + nat) \<times> 'w"
  sd_open_shared :: "source_spec \<Rightarrow> 'w \<Rightarrow> (open_error + nat) \<times> 'w"
  sd_release_exclusive :: "'w \<Rightarrow> 'w"
  sd_release_shared :: "'w \<Rightarrow> 'w"
  sd_settle :: "'w \<Rightarrow> 'w"

record 'w fallback =
  fb_on_shared :: bool
  fb_switches :: "bool list"
  fb_world :: 'w

definition moved_to :: "bool \<Rightarrow> 'w fallback \<Rightarrow> 'w fallback" where
  "moved_to now_shared f =
     (if fb_on_shared f = now_shared then f
      else f\<lparr>fb_on_shared := now_shared, fb_switches := fb_switches f @ [now_shared]\<rparr>)"

definition falls_back :: "open_error \<Rightarrow> bool" where
  "falls_back e = (case e of NotSupported u \<Rightarrow> un_missing u \<noteq> NoDepth | OpenError _ \<Rightarrow> False)"

definition fallback_open ::
    "'w sides \<Rightarrow> source_spec \<Rightarrow> 'w fallback \<Rightarrow> (open_error + bool \<times> nat) \<times> 'w fallback" where
  "fallback_open sides spec f =
     (case sd_open_exclusive sides spec (fb_world f) of
        (Inr s, w) \<Rightarrow> (Inr (False, s), moved_to False (f\<lparr>fb_world := w\<rparr>))
      | (Inl e, w) \<Rightarrow>
          if \<not> falls_back e then (Inl e, f\<lparr>fb_world := w\<rparr>)
          else
            (case sd_open_shared sides spec (sd_settle sides (sd_release_exclusive sides w)) of
               (Inl e, w) \<Rightarrow> (Inl e, f\<lparr>fb_world := w\<rparr>)
             | (Inr s, w) \<Rightarrow> (Inr (True, s), moved_to True (f\<lparr>fb_world := w\<rparr>))))"

definition fallback_release :: "'w sides \<Rightarrow> 'w fallback \<Rightarrow> 'w fallback" where
  "fallback_release sides f =
     f\<lparr>fb_world := sd_release_shared sides (sd_release_exclusive sides (fb_world f))\<rparr>"

section \<open>Lemmas\<close>

text \<open>How often a device that stays busy is tried: once more than the retries.\<close>

lemma open_retrying_busy:
  assumes "\<And>w. opener w = (Inl (err w), step w)" and "\<And>w. is_device_busy (err w)"
  shows "\<exists>e. open_retrying opener sleep hint k w
      = (Inl e, ((\<lambda>w. step (sleep w)) ^^ k) (step w)) \<and> is_device_busy e"
proof (induction k arbitrary: w)
  case 0
  have "is_device_busy (with_context why (err w))" for why w
    using assms(2) by (simp add: is_device_busy_def with_context_def)
  then show ?case
    using assms by (subst open_retrying.simps) (simp split: option.split)
next
  case (Suc k)
  obtain e where "open_retrying opener sleep hint k (sleep (step w))
      = (Inl e, ((\<lambda>w. step (sleep w)) ^^ k) (step (sleep (step w))))" and e: "is_device_busy e"
    using Suc by blast
  moreover have "((\<lambda>w. step (sleep w)) ^^ k) (step (sleep (step w)))
      = ((\<lambda>w. step (sleep w)) ^^ Suc k) (step w)"
    by (simp only: funpow_Suc_right o_apply)
  ultimately show ?case
    using e assms by (subst open_retrying.simps) simp
qed

text \<open>The announced switches alternate, and the last one says where the audio goes.\<close>

fun alternates :: "bool \<Rightarrow> bool list \<Rightarrow> bool option" where
  "alternates side [] = Some side"
| "alternates side (s # ss) = (if s = side then None else alternates s ss)"

lemma alternates_append:
  "alternates side (ss @ [s]) =
     (case alternates side ss of None \<Rightarrow> None | Some l \<Rightarrow> if s = l then None else Some s)"
  by (induction ss arbitrary: side) auto

definition fallback_ok :: "'w fallback \<Rightarrow> bool" where
  "fallback_ok f \<longleftrightarrow> alternates False (fb_switches f) = Some (fb_on_shared f)"

lemma fallback_ok_world [simp]: "fallback_ok (f\<lparr>fb_world := w\<rparr>) = fallback_ok f"
  by (simp add: fallback_ok_def)

lemma fallback_ok_moved: "fallback_ok f \<Longrightarrow> fallback_ok (moved_to s f)"
  by (auto simp: fallback_ok_def moved_to_def alternates_append)

lemma moved_to_side [simp]: "fb_on_shared (moved_to s f) = s"
  by (simp add: moved_to_def)

section \<open>What the two promise\<close>

text \<open>
  C19. A track goes to the card whenever the card can play it, and to the sound server exactly when the
  card cannot play its format (never for an invalid depth or an unrelated failure); and the listener
  is told of a change of side exactly when there is one.
\<close>

theorem fallback_follows_the_card:
  assumes "fallback_ok f" and "fallback_open sides spec f = (r, f')"
  shows "fallback_ok f' \<and>
    (case r of
       Inr (shared, _) \<Rightarrow> fb_on_shared f' = shared \<and>
         (shared \<longleftrightarrow> (\<exists>u. fst (sd_open_exclusive sides spec (fb_world f)) = Inl (NotSupported u)
                          \<and> un_missing u \<noteq> NoDepth)) \<and>
         fb_switches f' = fb_switches f @ (if fb_on_shared f = shared then [] else [shared])
     | Inl e \<Rightarrow> fb_switches f' = fb_switches f \<and> fb_on_shared f' = fb_on_shared f)"
  using assms
  by (auto simp: fallback_open_def falls_back_def moved_to_def fallback_ok_moved
      split: sum.splits prod.splits open_error.splits if_splits)
    (auto simp: fallback_ok_def alternates_append)

text \<open>
  A busy device is waited for only if the card was just taken from another holder, and then a
  bounded number of times; the card is reserved before the device is opened; and a refusal stops
  the open, keeping nothing held.
\<close>

theorem busy_device_bounded_retries:
  assumes "\<And>w. opener w = (Inl (err w), step w)" and "\<And>w. is_device_busy (err w)"
    and "held_card held \<noteq> Some crd"
    and "bus_acquire bus crd name (snd (slot_release bus held w)) = (r, w1)"
  shows "case r of
      Inr (reservation, took_over) \<Rightarrow>
        (\<exists>e. open_reserved_with bus (Some held) (Some (crd, name)) retries sleep opener w =
           (Inl e :: error + 'a, Some (Some (crd, reservation)),
            ((\<lambda>w. step (sleep w)) ^^ (if took_over then retries else 0)) (step w1)) \<and> is_device_busy e)
    | Inl (NoBus _) \<Rightarrow>
        (\<exists>e. open_reserved_with bus (Some held) (Some (crd, name)) retries sleep opener w =
           (Inl e :: error + 'a, Some None, step w1) \<and> is_device_busy e)
    | Inl e \<Rightarrow>
        open_reserved_with bus (Some held) (Some (crd, name)) retries sleep opener w =
           (Inl (mk_error (Message (show_reserve_error e))) :: error + 'a, Some None, w1)"
proof -
  have busy: "\<exists>e. open_retrying opener sleep hint k v
      = (Inl e, ((\<lambda>w. step (sleep w)) ^^ k) (step v)) \<and> is_device_busy e" for hint k v
    by (rule open_retrying_busy [where opener = opener and err = err and step = step, OF assms(1,2)])
  have e: "ensure bus crd name held w =
      (case r of Inl e \<Rightarrow> (Inl e, None, w1)
       | Inr (reservation, took_over) \<Rightarrow> (Inr (Acquired took_over), Some (crd, reservation), w1))"
    using assms(3,4) by (simp add: ensure_def slot_release_def split_def split: sum.split)
  show ?thesis
  proof (cases r)
    case (Inl err)
    then show ?thesis
      using e busy [of "busy_note False True" 0 w1]
      by (cases err) (auto simp: open_reserved_with_def Let_def split_def)
  next
    case (Inr p)
    obtain n t where p: "p = (n, t)" by fastforce
    then show ?thesis
      using e Inr busy [of "busy_note t False" "if t then retries else 0" w1]
      by (auto simp: open_reserved_with_def Let_def split_def)
  qed
qed

lemma busy_device_bounded_retries_witness:
  "\<exists>e. open_reserved_with
      \<lparr>bus_acquire = (\<lambda>c name w. (Inr (7, True), w)), bus_drop = (\<lambda>n w. w)\<rparr>
      (Some None) (Some (1, ''hw:DS2,0'')) busy_retries id
      (\<lambda>n :: nat. (Inl (mk_error (DeviceBusy ''hw:1,0'' ''EBUSY'')) :: error + nat, n + 1)) 0
    = (Inl e, Some (Some (1, 7)), 21) \<and> is_device_busy e"
proof -
  have step: "((\<lambda>w :: nat. id w + 1) ^^ k) m = m + k" for k m by (induction k) simp_all
  show ?thesis
    using busy_device_bounded_retries
      [of "\<lambda>n :: nat. (Inl (mk_error (DeviceBusy ''hw:1,0'' ''EBUSY'')) :: error + nat, n + 1)"
        "\<lambda>n. mk_error (DeviceBusy ''hw:1,0'' ''EBUSY'')" "\<lambda>n. n + 1" None 1
        "\<lparr>bus_acquire = (\<lambda>c name w. (Inr (7, True), w)), bus_drop = (\<lambda>n w. w)\<rparr>"
        "''hw:DS2,0''" 0 "Inr (7, True)" 0 busy_retries id]
    by (simp only: step) (simp add: is_device_busy_def mk_error_def held_card_def slot_release_def
        busy_retries_def)
qed

lemma fallback_follows_the_card_witness:
  "let sides = \<lparr>sd_open_exclusive = (\<lambda>spec w. if sample_rate spec = 44100 then (Inr 1, w)
                   else (Inl (NotSupported \<lparr>un_device = ''hw:1,0'', un_source = spec, un_missing = NoRate,
                               un_caps = \<lparr>cap_channels = (2, 2), cap_rates = []\<rparr>\<rparr>), w)),
                 sd_open_shared = (\<lambda>spec w. (Inr 2, w)), sd_release_exclusive = (\<lambda>w. w),
                 sd_release_shared = (\<lambda>w. w), sd_settle = (\<lambda>w. w)\<rparr>;
       spec = \<lparr>sample_rate = 96000, channels = 2, bits_per_sample = 24\<rparr>;
       f = \<lparr>fb_on_shared = False, fb_switches = [], fb_world = ()\<rparr>
   in fb_on_shared (snd (fallback_open sides spec f)) \<and>
      fb_switches (snd (fallback_open sides spec f)) = [True]"
proof -
  let ?sides = "\<lparr>sd_open_exclusive = (\<lambda>spec w. if sample_rate spec = 44100 then (Inr 1, w)
                   else (Inl (NotSupported \<lparr>un_device = ''hw:1,0'', un_source = spec, un_missing = NoRate,
                               un_caps = \<lparr>cap_channels = (2, 2), cap_rates = []\<rparr>\<rparr>), w)),
                 sd_open_shared = (\<lambda>spec w. (Inr 2, w)), sd_release_exclusive = (\<lambda>w. w),
                 sd_release_shared = (\<lambda>w. w), sd_settle = (\<lambda>w. w)\<rparr>"
  let ?spec = "\<lparr>sample_rate = 96000, channels = 2, bits_per_sample = 24\<rparr>"
  let ?f = "\<lparr>fb_on_shared = False, fb_switches = [], fb_world = ()\<rparr>"
  have "fallback_ok ?f" by (simp add: fallback_ok_def)
  then show ?thesis
    using fallback_follows_the_card [of ?f ?sides ?spec "fst (fallback_open ?sides ?spec ?f)"]
    by (simp add: Let_def fallback_open_def falls_back_def)
qed

end
