(* ===== verification/Dash.thy ===== *)
theory Dash
  imports Strings
begin

text \<open>
  DASH manifests (\<^verbatim>\<open>dash.rs\<close>): from the XML events of a manifest to the segments of a track, and from
  a point in time to the segment that contains it. The XML reader itself (\<^verbatim>\<open>quick_xml\<close>) is not in the
  repository: its events are the input of the model. Seconds in \<^verbatim>\<open>f64\<close> are read as the reals.
\<close>

section \<open>Data\<close>

datatype segment_timing =
    Unknown
  | Constant nat
  | Explicit "nat list" nat

record dash_segments =
  ds_init_url :: string
  ds_media_url_template :: string
  ds_start_number :: nat
  ds_segment_count :: "nat option"
  ds_codecs :: "string option"
  ds_timescale :: nat
  ds_timing :: segment_timing
  ds_presentation_duration :: "duration option"

record segment_at =
  sa_number :: nat
  sa_index :: nat
  sa_start :: duration

record timeline_entry =
  te_t :: "nat option"
  te_d :: nat
  te_r :: int

section \<open>Times and ticks\<close>

definition ticks_to_duration :: "nat \<Rightarrow> nat \<Rightarrow> duration" where
  "ticks_to_duration ticks timescale =
     (let timescale = max timescale 1
      in ticks div timescale * nanos_per_sec + ticks mod timescale * 1000000000 div timescale)"

text \<open>The product is a \<^verbatim>\<open>u128\<close>: it holds every duration for a timescale up to \<open>10 ^ 10\<close>.\<close>

definition duration_to_ticks :: "duration \<Rightarrow> nat \<Rightarrow> nat" where
  "duration_to_ticks d timescale =
     (let scaled = d * max timescale 1
      in min ((scaled + 500000000) div 1000000000) u64_max)"

definition total_duration :: "dash_segments \<Rightarrow> duration option" where
  "total_duration ds =
     (case ds_timing ds of
        Explicit starts fin \<Rightarrow> Some (ticks_to_duration fin (ds_timescale ds))
      | _ \<Rightarrow> ds_presentation_duration ds)"

text \<open>\<^verbatim>\<open>partition_point\<close> on a list where what satisfies the predicate comes first.\<close>

definition partition_point :: "('a \<Rightarrow> bool) \<Rightarrow> 'a list \<Rightarrow> nat" where
  "partition_point P xs = length (takeWhile P xs)"

definition segment_for_time :: "duration \<Rightarrow> dash_segments \<Rightarrow> segment_at option" where
  "segment_for_time at0 ds =
     (let ticks = duration_to_ticks at0 (ds_timescale ds);
          found = (case ds_timing ds of
             Unknown \<Rightarrow> None
           | Explicit starts fin \<Rightarrow>
               if fin \<le> ticks then None
               else let index = partition_point (\<lambda>start. start \<le> ticks) starts - 1
                    in if u32_max < index then None
                       else map_option (Pair index) (get_at starts index)
           | Constant len \<Rightarrow>
               if len = 0 \<or> (case total_duration ds of Some until \<Rightarrow> until \<le> at0 | None \<Rightarrow> False)
               then None
               else let index = ticks div len
                    in if u32_max < index then None
                       else if (case ds_segment_count ds of Some n \<Rightarrow> n \<le> index | None \<Rightarrow> False)
                       then None
                       else Some (index, index * len))
      in case found of
           None \<Rightarrow> None
         | Some (index, start_ticks) \<Rightarrow>
             if u32_max < ds_start_number ds + index then None
             else Some \<lparr>sa_number = ds_start_number ds + index, sa_index = index,
                        sa_start = ticks_to_duration start_ticks (ds_timescale ds)\<rparr>)"

text \<open>
  The segments to download: an inclusive range. The sum is a \<^verbatim>\<open>u32\<close>, which wraps in a release build.
\<close>

definition segment_range_from :: "nat \<Rightarrow> dash_segments \<Rightarrow> (nat \<times> nat) option" where
  "segment_range_from first ds =
     map_option (\<lambda>n. (first, (ds_start_number ds + (n - 1)) mod (u32_max + 1)))
       (ds_segment_count ds)"

definition segment_range :: "dash_segments \<Rightarrow> (nat \<times> nat) option" where
  "segment_range ds = segment_range_from (ds_start_number ds) ds"

text \<open>\<^verbatim>\<open>str::replace\<close> for a non-empty pattern.\<close>

function replace_all :: "string \<Rightarrow> string \<Rightarrow> string \<Rightarrow> string" where
  "replace_all pat by0 s =
     (case s of
        [] \<Rightarrow> []
      | c # cs \<Rightarrow>
          if pat = [] then s
          else (case strip_prefix pat s of
                  Some rest \<Rightarrow> by0 @ replace_all pat by0 rest
                | None \<Rightarrow> c # replace_all pat by0 cs))"
  by pat_completeness auto
termination replace_all
  by (relation "measure (\<lambda>(p, b, s). length s)") (auto simp: strip_prefix_Some)

declare replace_all.simps [simp del]

definition segment_url :: "nat \<Rightarrow> dash_segments \<Rightarrow> string" where
  "segment_url number ds = replace_all ''$Number$'' (show_nat number) (ds_media_url_template ds)"

section \<open>Reading the manifest\<close>

fun repeat_entry :: "nat \<Rightarrow> nat \<Rightarrow> nat \<Rightarrow> nat list \<times> nat \<Rightarrow> nat list \<times> nat" where
  "repeat_entry 0 d offset (starts, cursor) = (starts, cursor)"
| "repeat_entry (Suc n) d offset (starts, cursor) =
     repeat_entry n d offset (starts @ [cursor - offset], min (cursor + d) u64_max)"

fun flatten_entries ::
    "timeline_entry list \<Rightarrow> nat \<Rightarrow> nat list \<times> nat \<Rightarrow> (nat list \<times> nat) option" where
  "flatten_entries [] offset (starts, cursor) = Some (starts, cursor - offset)"
| "flatten_entries (entry # entries) offset (starts, cursor) =
     (if te_r entry < 0 then None
      else let cursor = (case te_t entry of Some t \<Rightarrow> t | None \<Rightarrow> cursor)
           in flatten_entries entries offset
                (repeat_entry (nat (te_r entry) + 1) (te_d entry) offset (starts, cursor)))"

definition flatten_timeline :: "timeline_entry list \<Rightarrow> nat \<Rightarrow> (nat list \<times> nat) option" where
  "flatten_timeline entries offset = flatten_entries entries offset ([], 0)"

definition join_url :: "string option \<Rightarrow> string \<Rightarrow> string" where
  "join_url base url =
     (if starts_with url ''http://'' \<or> starts_with url ''https://'' then url
      else case base of
             Some base \<Rightarrow> if strip_suffix ''/'' base \<noteq> None then base @ url else base @ ''/'' @ url
           | None \<Rightarrow> url)"

definition parse_component :: "string \<Rightarrow> string \<Rightarrow> error + real" where
  "parse_component num whole =
     (case parse_decimal num of
        Some x \<Rightarrow> Inr x
      | None \<Rightarrow> Inl (with_context (''could not parse number '' @ [CHR 0x27] @ num @ [CHR 0x27] @
                    '' in ISO8601 duration: '' @ whole) (mk_error (Message ''invalid float literal''))))"

fun iso_seconds :: "string \<Rightarrow> string \<Rightarrow> string \<Rightarrow> real \<Rightarrow> error + real" where
  "iso_seconds whole [] num secs0 = Inr secs0"
| "iso_seconds whole (c # cs) num secs0 =
     (let component = (\<lambda>unit. case parse_component num whole of
            Inl e \<Rightarrow> Inl e
          | Inr x \<Rightarrow> iso_seconds whole cs [] (secs0 + x * unit))
      in if is_digit c \<or> c = CHR ''.'' then iso_seconds whole cs (num @ [c]) secs0
         else if c = CHR ''H'' then component 3600
         else if c = CHR ''M'' then component 60
         else if c = CHR ''S'' then component 1
         else Inl (mk_error (Message (''unexpected character '' @ [CHR 0x27, c, CHR 0x27] @
                '' in ISO8601 duration: '' @ whole))))"

definition parse_iso8601_duration_secs :: "string \<Rightarrow> error + real" where
  "parse_iso8601_duration_secs s =
     (case strip_prefix ''PT'' (trim s) of
        None \<Rightarrow> Inl (mk_error (Message (''invalid ISO8601 duration (missing the PT prefix): '' @ s)))
      | Some rest \<Rightarrow> iso_seconds s rest [] 0)"

text \<open>\<^verbatim>\<open>str::parse::<i64>\<close>: an optional sign and digits, within range.\<close>

definition parse_i64 :: "string \<Rightarrow> int option" where
  "parse_i64 s =
     (case s of
        [] \<Rightarrow> None
      | c # cs \<Rightarrow>
          if c = CHR ''-'' then
            (if cs \<noteq> [] \<and> list_all is_digit cs \<and> digits_value cs \<le> 9223372036854775808
             then Some (- int (digits_value cs)) else None)
          else map_option int (parse_nat_upto 9223372036854775807 s))"

text \<open>
  What the XML reader hands out. An attribute is its key and its unescaped value, or why it could
  not be unescaped; attributes that are malformed were skipped (\<^verbatim>\<open>flatten\<close>). A reference (\<^verbatim>\<open>&...;\<close>)
  comes as the character it stands for, if it is a character reference, and its name.
\<close>

type_synonym attr = "string \<times> (error + string)"

datatype xml_event =
    StartTag string "attr list"
  | TextNode "error + string"
  | GeneralRef "error + char option" "error + string"
  | EndTag string
  | OtherEvent
  | ReadError error

record manifest =
  mf_base_url :: "string option"
  mf_pending_base_url :: bool
  mf_init_url :: "string option"
  mf_media_url :: "string option"
  mf_start_number :: nat
  mf_timescale :: "nat option"
  mf_duration :: "nat option"
  mf_presentation :: "string option"
  mf_offset :: nat
  mf_in_timeline :: bool
  mf_has_timeline :: bool
  mf_timeline :: "timeline_entry list"
  mf_codecs :: "string option"

definition manifest_new :: manifest where
  "manifest_new =
     \<lparr>mf_base_url = None, mf_pending_base_url = False, mf_init_url = None, mf_media_url = None,
      mf_start_number = 1, mf_timescale = None, mf_duration = None, mf_presentation = None,
      mf_offset = 0, mf_in_timeline = False, mf_has_timeline = False, mf_timeline = [],
      mf_codecs = None\<rparr>"

definition parse_u64 :: "string \<Rightarrow> nat option" where
  "parse_u64 = parse_nat_upto u64_max"

text \<open>The loop over the attributes of a tag; only the values of the keys it knows are unescaped.\<close>

fun each_attr ::
    "(string \<Rightarrow> (string \<Rightarrow> 's \<Rightarrow> 's) option) \<Rightarrow> attr list \<Rightarrow> 's \<Rightarrow> error + 's" where
  "each_attr known [] s = Inr s"
| "each_attr known ((key, v) # rest) s =
     (case known key of
        None \<Rightarrow> each_attr known rest s
      | Some f \<Rightarrow> (case v of Inl e \<Rightarrow> Inl e | Inr x \<Rightarrow> each_attr known rest (f x s)))"

definition mpd_attr :: "string \<Rightarrow> (string \<Rightarrow> manifest \<Rightarrow> manifest) option" where
  "mpd_attr key =
     (if key = ''mediaPresentationDuration'' then Some (\<lambda>x m. m\<lparr>mf_presentation := Some x\<rparr>) else None)"

definition representation_attr :: "string \<Rightarrow> (string \<Rightarrow> manifest \<Rightarrow> manifest) option" where
  "representation_attr key =
     (if key = ''codecs'' then Some (\<lambda>x m. m\<lparr>mf_codecs := Some x\<rparr>) else None)"

definition template_attr :: "string \<Rightarrow> (string \<Rightarrow> manifest \<Rightarrow> manifest) option" where
  "template_attr key =
     (if key = ''initialization'' then Some (\<lambda>x m. m\<lparr>mf_init_url := Some x\<rparr>)
      else if key = ''media'' then Some (\<lambda>x m. m\<lparr>mf_media_url := Some x\<rparr>)
      else if key = ''timescale'' then Some (\<lambda>x m. m\<lparr>mf_timescale := parse_u64 x\<rparr>)
      else if key = ''duration'' then Some (\<lambda>x m. m\<lparr>mf_duration := parse_u64 x\<rparr>)
      else if key = ''startNumber'' then
        Some (\<lambda>x m. m\<lparr>mf_start_number := (case parse_u32 x of Some n \<Rightarrow> n | None \<Rightarrow> 1)\<rparr>)
      else if key = ''presentationTimeOffset'' then
        Some (\<lambda>x m. m\<lparr>mf_offset := (case parse_u64 x of Some n \<Rightarrow> n | None \<Rightarrow> 0)\<rparr>)
      else None)"

definition entry_attr :: "string \<Rightarrow> (string \<Rightarrow> timeline_entry \<Rightarrow> timeline_entry) option" where
  "entry_attr key =
     (if key = ''t'' then Some (\<lambda>x s. s\<lparr>te_t := parse_u64 x\<rparr>)
      else if key = ''d'' then Some (\<lambda>x s. s\<lparr>te_d := (case parse_u64 x of Some n \<Rightarrow> n | None \<Rightarrow> 0)\<rparr>)
      else if key = ''r'' then Some (\<lambda>x s. s\<lparr>te_r := (case parse_i64 x of Some n \<Rightarrow> n | None \<Rightarrow> 0)\<rparr>)
      else None)"

definition start_tag :: "string \<Rightarrow> attr list \<Rightarrow> manifest \<Rightarrow> error + manifest" where
  "start_tag name attrs m =
     (if name = ''MPD'' then each_attr mpd_attr attrs m
      else if name = ''Representation'' then each_attr representation_attr attrs m
      else if name = ''SegmentTemplate'' then each_attr template_attr attrs m
      else if name = ''SegmentTimeline'' then Inr (m\<lparr>mf_in_timeline := True, mf_has_timeline := True\<rparr>)
      else if name = ''S'' \<and> mf_in_timeline m then
        (case each_attr entry_attr attrs \<lparr>te_t = None, te_d = 0, te_r = 0\<rparr> of
           Inl e \<Rightarrow> Inl e
         | Inr s \<Rightarrow> Inr (m\<lparr>mf_timeline := mf_timeline m @ [s]\<rparr>))
      else if name = ''BaseURL'' then Inr (m\<lparr>mf_pending_base_url := True\<rparr>)
      else Inr m)"

definition push_base :: "string \<Rightarrow> manifest \<Rightarrow> manifest" where
  "push_base piece m =
     m\<lparr>mf_base_url := Some ((case mf_base_url m of Some b \<Rightarrow> b | None \<Rightarrow> []) @ piece)\<rparr>"

text \<open>\<open>entity\<close>: the five entities of XML itself (\<^verbatim>\<open>resolve_predefined_entity\<close>).\<close>

fun on_event :: "(string \<Rightarrow> string option) \<Rightarrow> xml_event \<Rightarrow> manifest \<Rightarrow> error + manifest" where
  "on_event entity (StartTag name attrs) m = start_tag name attrs m"
| "on_event entity (TextNode t) m =
     (if mf_pending_base_url m then
        (case t of
           Inl e \<Rightarrow> Inl (with_context ''error decoding <BaseURL> text'' e)
         | Inr piece \<Rightarrow> Inr (push_base piece m))
      else Inr m)"
| "on_event entity (GeneralRef ch name) m =
     (if mf_pending_base_url m then
        (case ch of
           Inl e \<Rightarrow> Inl (with_context ''resolving a character reference in <BaseURL>'' e)
         | Inr (Some c) \<Rightarrow> Inr (push_base [c] m)
         | Inr None \<Rightarrow>
             (case name of
                Inl e \<Rightarrow> Inl (with_context ''decoding an entity in <BaseURL>'' e)
              | Inr n \<Rightarrow>
                  (case entity n of
                     None \<Rightarrow> Inl (mk_error (Message (''unknown XML entity in <BaseURL>: &'' @ n @ '';'')))
                   | Some piece \<Rightarrow> Inr (push_base piece m))))
      else Inr m)"
| "on_event entity (EndTag name) m =
     (if name = ''BaseURL'' then Inr (m\<lparr>mf_pending_base_url := False\<rparr>)
      else if name = ''SegmentTimeline'' then Inr (m\<lparr>mf_in_timeline := False\<rparr>)
      else Inr m)"
| "on_event entity OtherEvent m = Inr m"
| "on_event entity (ReadError e) m = Inl (with_context ''error reading the MPD manifest XML'' e)"

text \<open>The events up to the end of the file.\<close>

fun read_manifest :: "(string \<Rightarrow> string option) \<Rightarrow> xml_event list \<Rightarrow> manifest \<Rightarrow> error + manifest" where
  "read_manifest entity [] m = Inr m"
| "read_manifest entity (ev # evs) m =
     (case on_event entity ev m of Inl e \<Rightarrow> Inl e | Inr m \<Rightarrow> read_manifest entity evs m)"

text \<open>\<^verbatim>\<open>as u32\<close> of a float saturates.\<close>

definition count_from_duration :: "manifest \<Rightarrow> nat \<Rightarrow> error + nat option" where
  "count_from_duration m segment_ticks =
     (case (mf_presentation m, mf_timescale m) of
        (Some mpd_duration, Some timescale) \<Rightarrow>
          (case parse_iso8601_duration_secs mpd_duration of
             Inl e \<Rightarrow> Inl e
           | Inr total_secs \<Rightarrow>
               Inr (Some (min u32_max
                 (nat \<lceil>total_secs * real timescale / real segment_ticks\<rceil>))))
      | _ \<Rightarrow> Inr None)"

definition constant_timing :: "manifest \<Rightarrow> nat option \<Rightarrow> error + nat option \<times> segment_timing" where
  "constant_timing m d =
     (case d of
        Some ticks \<Rightarrow>
          if 0 < ticks then
            (case count_from_duration m ticks of
               Inl e \<Rightarrow> Inl e
             | Inr n \<Rightarrow> Inr (n, Constant ticks))
          else Inr (None, Unknown)
      | None \<Rightarrow> Inr (None, Unknown))"

definition timing_of :: "manifest \<Rightarrow> error + nat option \<times> segment_timing" where
  "timing_of m =
     (if mf_has_timeline m then
        (case flatten_timeline (mf_timeline m) (mf_offset m) of
           Some (starts, fin) \<Rightarrow>
             if u32_max < length starts
             then Inl (with_context ''the <SegmentTimeline> segment count is too large''
                         (mk_error (Message ''out of range integral type conversion attempted'')))
             else Inr (Some (length starts), Explicit starts fin)
         | None \<Rightarrow> constant_timing m (map_option te_d (first_of (mf_timeline m))))
      else constant_timing m (mf_duration m))"

definition parse_mpd :: "(string \<Rightarrow> string option) \<Rightarrow> xml_event list \<Rightarrow> error + dash_segments" where
  "parse_mpd entity evs =
     (case read_manifest entity evs manifest_new of
        Inl e \<Rightarrow> Inl e
      | Inr m \<Rightarrow>
          (case mf_init_url m of
             None \<Rightarrow> Inl (mk_error (Message ''the MPD manifest has no <SegmentTemplate initialization=...>''))
           | Some init_url \<Rightarrow>
               (case mf_media_url m of
                  None \<Rightarrow> Inl (mk_error (Message ''the MPD manifest has no <SegmentTemplate media=...>''))
                | Some media_url \<Rightarrow>
                    (case timing_of m of
                       Inl e \<Rightarrow> Inl e
                     | Inr (n, timing) \<Rightarrow>
                         Inr \<lparr>ds_init_url = join_url (mf_base_url m) init_url,
                              ds_media_url_template = join_url (mf_base_url m) media_url,
                              ds_start_number = mf_start_number m,
                              ds_segment_count = n,
                              ds_codecs = mf_codecs m,
                              ds_timescale = (case mf_timescale m of Some ts \<Rightarrow> ts | None \<Rightarrow> 1),
                              ds_timing = timing,
                              ds_presentation_duration =
                                Option.bind (mf_presentation m)
                                  (\<lambda>text0. case parse_iso8601_duration_secs text0 of
                                     Inl _ \<Rightarrow> None | Inr x \<Rightarrow> duration_from_secs x)\<rparr>))))"

section \<open>Times and ticks are inverse to each other\<close>

lemma ticks_to_duration_div:
  "0 < timescale \<Longrightarrow> ticks_to_duration ticks timescale = ticks * 1000000000 div timescale"
  using div_mult1_eq [of 1000000000 ticks timescale]
  by (simp add: ticks_to_duration_def nanos_per_sec_def max_absorb1 Let_def mult.commute)

lemma ticks_round_trip:
  assumes "0 < timescale" and "timescale \<le> 500000000" and "ticks \<le> u64_max"
  shows "duration_to_ticks (ticks_to_duration ticks timescale) timescale = ticks"
proof -
  define q where "q = ticks * 1000000000 div timescale"
  have "q * timescale + ticks * 1000000000 mod timescale = ticks * 1000000000"
    by (simp add: q_def)
  moreover have "ticks * 1000000000 mod timescale < timescale" using assms(1) by simp
  ultimately have "(q * timescale + 500000000) div 1000000000 = ticks"
    using assms(2) by (intro div_nat_eqI) auto
  moreover have "max timescale 1 = timescale" using assms(1) by simp
  ultimately show ?thesis
    using assms by (simp add: duration_to_ticks_def ticks_to_duration_div q_def Let_def)
qed

section \<open>Timelines\<close>

lemma repeat_entry_starts:
  "cursor + n * d \<le> u64_max \<Longrightarrow>
     repeat_entry n d offset (starts, cursor) =
       (starts @ map (\<lambda>k. cursor + k * d - offset) [0..<n], cursor + n * d)"
proof (induction n arbitrary: starts cursor)
  case (Suc n)
  have "map (\<lambda>k. cursor + k * d - offset) [0..<Suc n]
      = (cursor - offset) # map (\<lambda>k. cursor + d + k * d - offset) [0..<n]"
    by (simp add: upt_conv_Cons map_Suc_upt [symmetric] add.assoc del: upt_Suc)
  then show ?case using Suc by (simp add: add.assoc del: upt_Suc)
qed simp

text \<open>A timeline that only goes forward, and whose ticks fit.\<close>

fun timeline_ok :: "nat \<Rightarrow> nat \<Rightarrow> timeline_entry list \<Rightarrow> bool" where
  "timeline_ok offset cursor [] \<longleftrightarrow> offset \<le> cursor"
| "timeline_ok offset cursor (entry # entries) \<longleftrightarrow>
     (let start = (case te_t entry of Some t \<Rightarrow> t | None \<Rightarrow> cursor);
          until = start + (nat (te_r entry) + 1) * te_d entry
      in 0 \<le> te_r entry \<and> 0 < te_d entry \<and> offset \<le> start \<and> cursor \<le> start \<and> until \<le> u64_max \<and>
         timeline_ok offset until entries)"

lemma sorted_steps:
  assumes "sorted_wrt (<) (starts @ [a - offset])" and "a \<le> b" and "offset \<le> b" and "0 < d"
  shows "sorted_wrt (<) (starts @ map (\<lambda>k. b + k * d - offset) [0..<n] @ [b + n * d - offset])"
proof -
  have s: "sorted_wrt (<) (map (\<lambda>k. b + k * d - offset) [0..<n])" if "0 < d" for n
    using that assms(3) by (auto simp: sorted_wrt_iff_nth_less intro!: diff_less_mono)
  have "\<forall>x \<in> set starts. x < b - offset"
    using assms(1,2) by (auto simp: sorted_wrt_append intro: less_le_trans diff_le_mono)
  moreover have "b - offset \<le> b + k * d - offset" for k by simp
  ultimately have "\<forall>x \<in> set starts. x < b + k * d - offset" for k by (meson less_le_trans)
  moreover have "k < n \<Longrightarrow> b + k * d - offset < b + n * d - offset" for k
    using assms(3,4) by (intro diff_less_mono) auto
  ultimately show ?thesis using s [OF assms(4)] assms(1) by (auto simp: sorted_wrt_append)
qed

lemma flatten_entries_sorted:
  "timeline_ok offset cursor entries \<Longrightarrow> sorted_wrt (<) (starts @ [cursor - offset]) \<Longrightarrow>
     cursor \<le> u64_max \<Longrightarrow>
     \<exists>starts' fin. flatten_entries entries offset (starts, cursor) = Some (starts', fin) \<and>
       sorted_wrt (<) (starts' @ [fin]) \<and> fin \<le> u64_max"
proof (induction entries arbitrary: starts cursor)
  case (Cons entry entries)
  define start where "start = (case te_t entry of Some t \<Rightarrow> t | None \<Rightarrow> cursor)"
  define n where "n = nat (te_r entry) + 1"
  have ok: "0 \<le> te_r entry" "0 < te_d entry" "offset \<le> start" "cursor \<le> start"
    "start + n * te_d entry \<le> u64_max" "timeline_ok offset (start + n * te_d entry) entries"
    using Cons.prems(1) by (simp_all add: start_def n_def Let_def)
  let ?starts = "starts @ map (\<lambda>k. start + k * te_d entry - offset) [0..<n]"
  have "sorted_wrt (<) (?starts @ [start + n * te_d entry - offset])"
    using sorted_steps [OF Cons.prems(2) ok(4,3,2)] by simp
  then have "\<exists>starts' fin. flatten_entries entries offset (?starts, start + n * te_d entry) = Some (starts', fin) \<and>
       sorted_wrt (<) (starts' @ [fin]) \<and> fin \<le> u64_max"
    using ok(5) by (rule Cons.IH [OF ok(6)])
  moreover have "flatten_entries (entry # entries) offset (starts, cursor)
      = flatten_entries entries offset (repeat_entry n (te_d entry) offset (starts, start))"
    using ok(1) by (simp add: start_def n_def Let_def not_less)
  ultimately show ?case using repeat_entry_starts [OF ok(5)] by simp
qed simp

section \<open>The segment that contains a point in time\<close>

lemma partition_point_sorted:
  assumes "sorted_wrt (<) (xs @ [e :: nat])" and "xs \<noteq> []" and "hd xs \<le> t" and "t < e"
  shows "\<exists>i < length xs. partition_point (\<lambda>x. x \<le> t) xs = i + 1 \<and> xs ! i \<le> t \<and> t < (xs @ [e]) ! (i + 1)"
proof -
  let ?n = "partition_point (\<lambda>x. x \<le> t) xs"
  have n: "?n \<le> length xs" by (simp add: partition_point_def length_takeWhile_le)
  have "0 < ?n" using assms(2,3) by (cases xs) (simp_all add: partition_point_def)
  then obtain i where i: "?n = i + 1" by (metis Suc_eq_plus1 gr0_implies_Suc)
  have "xs ! i \<le> t" using i nth_length_takeWhile set_takeWhileD
    by (metis (mono_tags, lifting) lessI nth_mem partition_point_def Suc_eq_plus1 takeWhile_nth)
  moreover have "t < (xs @ [e]) ! (i + 1)"
  proof (cases "i + 1 < length xs")
    case True
    then have "\<not> xs ! (i + 1) \<le> t"
      using i nth_length_takeWhile [of "\<lambda>x. x \<le> t" xs] by (simp add: partition_point_def)
    then show ?thesis using True by (simp add: nth_append)
  next
    case False
    then show ?thesis using i n assms(4) by (simp add: nth_append)
  qed
  ultimately show ?thesis using i n by (intro exI [of _ i]) auto
qed

lemma partition_point_unique:
  assumes "sorted_wrt (<) (xs @ [e :: nat])" and "i < length xs" and "xs ! i \<le> t" and "t < (xs @ [e]) ! (i + 1)"
  shows "partition_point (\<lambda>x. x \<le> t) xs = i + 1"
proof -
  have mono: "j < k \<Longrightarrow> k < length xs \<Longrightarrow> xs ! j < xs ! k" for j k
    using assms(1) by (simp add: sorted_wrt_append sorted_wrt_nth_less)
  have "\<forall>j < i + 1. xs ! j \<le> t"
    using assms(2,3) mono by (metis Suc_eq_plus1 less_imp_le_nat less_SucE order_trans)
  moreover have "i + 1 = length xs \<or> \<not> xs ! (i + 1) \<le> t" using assms(2,4) by (auto simp: nth_append)
  ultimately have "takeWhile (\<lambda>x. x \<le> t) xs = take (i + 1) xs"
    using assms(2) by (intro takeWhile_eq_take_P_nth) auto
  then show ?thesis using assms(2) by (simp add: partition_point_def)
qed

text \<open>When a time has reached a tick: half a tick before it.\<close>

lemma ticks_reached:
  assumes "0 < timescale" "ticks \<le> u64_max"
  shows "ticks \<le> duration_to_ticks d timescale \<longleftrightarrow> ticks * 1000000000 \<le> d * timescale + 500000000"
proof -
  have "max timescale 1 = timescale" using assms(1) by simp
  then show ?thesis
    using assms(2) less_eq_div_iff_mult_less_eq [of 1000000000 ticks "d * timescale + 500000000"]
    by (simp add: duration_to_ticks_def Let_def)
qed

text \<open>
  C20. For a manifest with a segment timeline that only goes forward, a time, taken half a tick later, lies in
  exactly the segment that is found for it, and nothing is found from half a tick before the end on;
  a segment starts at the number of ticks over the timescale seconds. The start of a segment, as it is reported,
  finds that very segment again. (Without the half tick it is not so: \<open>segment_may_start_after\<close>.)
\<close>

theorem segment_found_contains_time:
  assumes "read_manifest entity evs manifest_new = Inr m" and "parse_mpd entity evs = Inr ds"
    and "mf_has_timeline m" and "timeline_ok (mf_offset m) 0 (mf_timeline m)"
    and "ds_timing ds = Explicit starts fin" and "starts \<noteq> []"
    and "0 < ds_timescale ds" and "ds_timescale ds \<le> 500000000"
    and "ds_start_number ds + length starts \<le> u32_max"
    and "later = at0 * ds_timescale ds + 500000000" and "hd starts * 1000000000 \<le> later"
  shows "if fin * 1000000000 \<le> later then segment_for_time at0 ds = None
    else \<exists>i < length starts.
      segment_for_time at0 ds = Some \<lparr>sa_number = ds_start_number ds + i, sa_index = i,
        sa_start = ticks_to_duration (starts ! i) (ds_timescale ds)\<rparr> \<and>
      starts ! i * 1000000000 \<le> later \<and> later < (starts @ [fin]) ! (i + 1) * 1000000000 \<and>
      segment_for_time (ticks_to_duration (starts ! i) (ds_timescale ds)) ds = segment_for_time at0 ds"
proof -
  obtain starts' fin' where fl: "flatten_timeline (mf_timeline m) (mf_offset m) = Some (starts', fin')"
    "sorted_wrt (<) (starts' @ [fin'])" "fin' \<le> u64_max"
    using flatten_entries_sorted [OF assms(4), of "[]"] by (auto simp: flatten_timeline_def)
  moreover have "ds_timing ds = Explicit starts' fin'"
    using assms(1,2,3) fl(1)
    by (auto simp: parse_mpd_def timing_of_def split: option.splits sum.splits prod.splits if_splits)
  ultimately have sorted: "sorted_wrt (<) (starts @ [fin])" and fin: "fin \<le> u64_max" using assms(5) by auto
  have reached: "t \<le> duration_to_ticks at0 (ds_timescale ds) \<longleftrightarrow> t * 1000000000 \<le> later" if "t \<in> set (starts @ [fin])" for t
    using ticks_reached [OF assms(7), of t at0] that sorted fin unfolding assms(10)
    by (fastforce simp: sorted_wrt_append)
  have found: "segment_for_time at1 ds = Some \<lparr>sa_number = ds_start_number ds + i, sa_index = i,
        sa_start = ticks_to_duration (starts ! i) (ds_timescale ds)\<rparr>"
    if "i < length starts" "partition_point (\<lambda>x. x \<le> duration_to_ticks at1 (ds_timescale ds)) starts = i + 1"
      "\<not> fin \<le> duration_to_ticks at1 (ds_timescale ds)" for at1 i
    using that assms(5,9) by (simp add: segment_for_time_def get_at_def Let_def)
  show ?thesis
  proof (cases "fin \<le> duration_to_ticks at0 (ds_timescale ds)")
    case True
    then show ?thesis using assms(5) reached [of fin] by (simp add: segment_for_time_def)
  next
    case False
    then obtain i where i: "i < length starts"
      "partition_point (\<lambda>x. x \<le> duration_to_ticks at0 (ds_timescale ds)) starts = i + 1"
      "starts ! i \<le> duration_to_ticks at0 (ds_timescale ds)"
      "duration_to_ticks at0 (ds_timescale ds) < (starts @ [fin]) ! (i + 1)"
      using partition_point_sorted [OF sorted assms(6), of "duration_to_ticks at0 (ds_timescale ds)"]
        reached [of "hd starts"] assms(6,11) by auto
    have below: "starts ! i < fin" using sorted i(1) by (simp add: sorted_wrt_append)
    then have exact: "duration_to_ticks (ticks_to_duration (starts ! i) (ds_timescale ds)) (ds_timescale ds) = starts ! i"
      using ticks_round_trip [OF assms(7,8)] fin by simp
    have "partition_point (\<lambda>x. x \<le> starts ! i) starts = i + 1"
      using partition_point_unique [OF sorted i(1)] i(3,4) by (meson le_less_trans order_refl)
    moreover have "later < (starts @ [fin]) ! (i + 1) * 1000000000" "starts ! i * 1000000000 \<le> later"
      using reached [of "(starts @ [fin]) ! (i + 1)"] reached [of "starts ! i"] i(1,3,4) nth_mem [of "i + 1" "starts @ [fin]"]
      by (auto simp: not_le)
    moreover have "\<not> fin * 1000000000 \<le> later" using reached [of fin] False by simp
    ultimately show ?thesis using found [OF i(1,2) False] found [OF i(1)] exact below i False by (auto simp: not_le)
  qed
qed

text \<open>A small manifest: two segments of four seconds and a short one.\<close>

definition demo_manifest :: "xml_event list" where
  "demo_manifest =
     [StartTag ''MPD'' [(''mediaPresentationDuration'', Inr ''PT10S'')],
      StartTag ''SegmentTemplate''
        [(''initialization'', Inr ''https://a/i''), (''media'', Inr ''https://a/$Number$''),
         (''timescale'', Inr ''100''), (''startNumber'', Inr ''1'')],
      StartTag ''SegmentTimeline'' [],
      StartTag ''S'' [(''d'', Inr ''400''), (''r'', Inr ''1'')],
      StartTag ''S'' [(''d'', Inr ''200'')],
      EndTag ''SegmentTimeline'']"

definition demo_segments :: dash_segments where
  "demo_segments =
     \<lparr>ds_init_url = ''https://a/i'', ds_media_url_template = ''https://a/$Number$'', ds_start_number = 1,
      ds_segment_count = Some 3, ds_codecs = None, ds_timescale = 100,
      ds_timing = Explicit [0, 400, 800] 1000, ds_presentation_duration = Some (secs 10)\<rparr>"

definition demo_state :: manifest where
  "demo_state = manifest_new
     \<lparr>mf_presentation := Some ''PT10S'', mf_init_url := Some ''https://a/i'',
      mf_media_url := Some ''https://a/$Number$'', mf_timescale := Some 100, mf_start_number := 1,
      mf_has_timeline := True,
      mf_timeline := [\<lparr>te_t = None, te_d = 400, te_r = 1\<rparr>, \<lparr>te_t = None, te_d = 200, te_r = 0\<rparr>]\<rparr>"

lemma demo_read: "read_manifest (\<lambda>_. None) demo_manifest manifest_new = Inr demo_state"
  by (simp add: demo_state_def demo_manifest_def manifest_new_def start_tag_def mpd_attr_def template_attr_def
      entry_attr_def parse_u64_def parse_i64_def str_eval)

lemma demo_timing: "timing_of demo_state = Inr (Some 3, Explicit [0, 400, 800] 1000)"
  by (simp add: timing_of_def flatten_timeline_def numeral_2_eq_2 demo_state_def manifest_new_def u64_max_def u32_max_def)

lemma demo_fields:
  "mf_init_url demo_state = Some ''https://a/i''" "mf_media_url demo_state = Some ''https://a/$Number$''"
  "mf_base_url demo_state = None" "mf_start_number demo_state = 1" "mf_codecs demo_state = None"
  "mf_timescale demo_state = Some 100" "mf_presentation demo_state = Some ''PT10S''"
  by (simp_all add: demo_state_def manifest_new_def)

lemma demo_parse: "parse_mpd (\<lambda>_. None) demo_manifest = Inr demo_segments"
  unfolding parse_mpd_def demo_read
  by (simp add: demo_timing demo_fields demo_segments_def join_url_def
      starts_with_def parse_iso8601_duration_secs_def parse_component_def
      parse_decimal_def duration_from_secs_def secs_def nanos_per_sec_def str_eval)

lemma segment_found_contains_time_witness:
  "segment_for_time (secs 5) demo_segments
     = Some \<lparr>sa_number = 2, sa_index = 1, sa_start = secs 4\<rparr> \<and>
   segment_for_time (secs 4) demo_segments = segment_for_time (secs 5) demo_segments"
proof -
  have five: "secs 5 * ds_timescale demo_segments + 500000000 = 500500000000"
    by (simp add: demo_segments_def secs_def nanos_per_sec_def)
  have four: "ticks_to_duration 400 (ds_timescale demo_segments) = secs 4"
    by (simp add: demo_segments_def ticks_to_duration_def secs_def nanos_per_sec_def)
  have "timeline_ok (mf_offset demo_state) 0 (mf_timeline demo_state)"
    by (simp add: demo_state_def manifest_new_def u64_max_def)
  moreover have "mf_has_timeline demo_state" by (simp add: demo_state_def)
  moreover have "ds_timing demo_segments = Explicit [0, 400, 800] 1000" "0 < ds_timescale demo_segments"
    "ds_timescale demo_segments \<le> 500000000" "ds_start_number demo_segments + length [0, 400, 800 :: nat] \<le> u32_max"
    by (simp_all add: demo_segments_def u32_max_def)
  ultimately obtain i where i: "i < 3" "[0, 400, 800 :: nat] ! i * 1000000000 \<le> 500500000000"
      "500500000000 < [0, 400, 800, 1000 :: nat] ! (i + 1) * 1000000000"
    "segment_for_time (secs 5) demo_segments = Some \<lparr>sa_number = ds_start_number demo_segments + i, sa_index = i,
        sa_start = ticks_to_duration ([0, 400, 800] ! i) (ds_timescale demo_segments)\<rparr>"
    "segment_for_time (ticks_to_duration ([0, 400, 800] ! i) (ds_timescale demo_segments)) demo_segments
       = segment_for_time (secs 5) demo_segments"
    using segment_found_contains_time [OF demo_read demo_parse, of "[0, 400, 800]" 1000 500500000000 "secs 5"] five by auto
  have "i = 0 \<or> i = 1 \<or> i = 2" using i(1) by auto
  then have "i = 1" using i(2,3) by auto
  then show ?thesis using i(4,5) four by (simp add: demo_segments_def)
qed

text \<open>Rounding to the nearest tick can find a segment that only starts after the time asked for.\<close>

lemma segment_may_start_after:
  "map_option sa_start (segment_for_time 3999999999 demo_segments) = Some (secs 4) \<and> 3999999999 < secs 4"
  by (simp add: segment_for_time_def demo_segments_def duration_to_ticks_def ticks_to_duration_def secs_def
      nanos_per_sec_def u64_max_def u32_max_def partition_point_def get_at_def)

end
