(* ===== verification/Net_Stream.thy ===== *)
theory Net_Stream
  imports Dash
begin

text \<open>
  Playing while downloading (\<^verbatim>\<open>stream.rs\<close>): the task that downloads the segments of a track and sends
  them through a bounded channel, and the byte stream the decoder reads at the other end. The HTTP
  client is a function that answers a request; the file a copy goes to is a function that takes
  bytes. What is still to come through the channel is a list.
\<close>

definition max_segment_retries :: nat where
  "max_segment_retries = 3"

type_synonym byte = "8 word"
type_synonym chunk_result = "error + byte list"

section \<open>The reading end\<close>

record 'f segment_stream =
  sr_receiver :: "chunk_result list"
  sr_current :: "byte list"
  sr_position :: nat
  sr_finished :: bool
  sr_tee :: "'f option"

definition stream_new :: "chunk_result list \<Rightarrow> 'f option \<Rightarrow> 'f segment_stream" where
  "stream_new receiver tee =
     \<lparr>sr_receiver = receiver, sr_current = [], sr_position = 0, sr_finished = False, sr_tee = tee\<rparr>"

definition refill :: "'f segment_stream \<Rightarrow> (error + bool) \<times> 'f segment_stream" where
  "refill s =
     (if sr_finished s then (Inr False, s)
      else case sr_receiver s of
             Inr chunk # rest \<Rightarrow> (Inr True, s\<lparr>sr_receiver := rest, sr_current := chunk\<rparr>)
           | Inl e # rest \<Rightarrow> (Inl e, s\<lparr>sr_receiver := rest, sr_finished := True\<rparr>)
           | [] \<Rightarrow> (Inr False, s\<lparr>sr_finished := True\<rparr>))"

text \<open>Both loops begin with \<^verbatim>\<open>self.current.is_empty() && !self.refill()?\<close>.\<close>

definition has_bytes :: "'f segment_stream \<Rightarrow> (error + bool) \<times> 'f segment_stream" where
  "has_bytes s = (if sr_current s = [] then refill s else (Inr True, s))"

text \<open>\<^verbatim>\<open>split_to\<close> and the copy: the bytes leave \<open>current\<close> before they are written to the copy.\<close>

definition take_bytes ::
    "(byte list \<Rightarrow> 'f \<Rightarrow> error option \<times> 'f) \<Rightarrow> nat \<Rightarrow> 'f segment_stream \<Rightarrow> error option \<times> 'f segment_stream" where
  "take_bytes tee_write n s =
     (let chunk = take n (sr_current s);
          s = s\<lparr>sr_current := drop n (sr_current s)\<rparr>
      in case sr_tee s of
           None \<Rightarrow> (None, s\<lparr>sr_position := sr_position s + n\<rparr>)
         | Some f \<Rightarrow>
             (case tee_write chunk f of
                (Some e, f) \<Rightarrow> (Some e, s\<lparr>sr_tee := Some f\<rparr>)
              | (None, f) \<Rightarrow> (None, s\<lparr>sr_tee := Some f, sr_position := sr_position s + n\<rparr>)))"

definition stream_read ::
    "(byte list \<Rightarrow> 'f \<Rightarrow> error option \<times> 'f) \<Rightarrow> nat \<Rightarrow> 'f segment_stream \<Rightarrow>
     (error + byte list) \<times> 'f segment_stream" where
  "stream_read tee_write len s =
     (if len = 0 then (Inr [], s)
      else
        (case has_bytes s of
           (Inl e, s) \<Rightarrow> (Inl e, s)
         | (Inr False, s) \<Rightarrow> (Inr [], s)
         | (Inr True, s) \<Rightarrow>
             (case take_bytes tee_write (min len (length (sr_current s))) s of
                (Some e, s') \<Rightarrow> (Inl e, s')
              | (None, s') \<Rightarrow> (Inr (take (min len (length (sr_current s))) (sr_current s)), s'))))"

lemma take_bytes_frame:
  "take_bytes tee_write n s = (r, s') \<Longrightarrow>
     sr_receiver s' = sr_receiver s \<and> sr_finished s' = sr_finished s \<and>
     sr_current s' = drop n (sr_current s)"
  by (auto simp: take_bytes_def Let_def split: option.splits prod.splits)

text \<open>Every turn of the loop takes a chunk off the channel or bytes off the current one.\<close>

function discard ::
    "(byte list \<Rightarrow> 'f \<Rightarrow> error option \<times> 'f) \<Rightarrow> nat \<Rightarrow> 'f segment_stream \<Rightarrow>
     (error + nat) \<times> 'f segment_stream" where
  "discard tee_write n s =
     (if n = 0 then (Inr (sr_position s), s)
      else
        (case has_bytes s of
           (Inl e, s) \<Rightarrow> (Inl e, s)
         | (Inr False, s) \<Rightarrow> (Inr (sr_position s), s)
         | (Inr True, s) \<Rightarrow>
             (case take_bytes tee_write (min (length (sr_current s)) n) s of
                (Some e, s') \<Rightarrow> (Inl e, s')
              | (None, s') \<Rightarrow> discard tee_write (n - min (length (sr_current s)) n) s')))"
  by pat_completeness auto
termination discard
  by (relation "inv_image (less_than <*lex*> less_than)
        (\<lambda>(f, n, s). (length (sr_receiver s), length (sr_current s)))")
    (auto dest!: take_bytes_frame [OF sym] simp: has_bytes_def refill_def
      split: if_splits list.splits sum.splits)

declare discard.simps [simp del]

datatype seek_from = SeekStart nat | SeekEnd int | SeekCurrent int

definition stream_seek ::
    "(byte list \<Rightarrow> 'f \<Rightarrow> error option \<times> 'f) \<Rightarrow> seek_from \<Rightarrow> 'f segment_stream \<Rightarrow>
     (error + nat) \<times> 'f segment_stream" where
  "stream_seek tee_write pos s =
     (let refused = (Inl (mk_error (Message
            (''SegmentStream does not support seeking backwards yet (see issue #10); only '' @
             ''forward positioning over the live download is supported''))), s)
      in case pos of
           SeekCurrent n \<Rightarrow>
             if n = 0 then (Inr (sr_position s), s)
             else if 0 < n then discard tee_write (nat n) s
             else refused
         | SeekStart target \<Rightarrow>
             if sr_position s \<le> target then discard tee_write (target - sr_position s) s
             else refused
         | SeekEnd n \<Rightarrow> refused)"

section \<open>The downloading end\<close>

text \<open>What the HTTP client says to one request: an answer with a status, and its body, or an error.\<close>

datatype response =
    Answered nat "error + byte list"
  | NotSent error

text \<open>\<open>None\<close> in the result: the server says there is no such segment (404 or 403).\<close>

fun download_attempts ::
    "(string \<Rightarrow> 'h \<Rightarrow> response \<times> 'h) \<Rightarrow> string \<Rightarrow> nat \<Rightarrow> nat \<Rightarrow> error option \<Rightarrow> 'h \<Rightarrow>
     (error + byte list option) \<times> 'h" where
  "download_attempts get url attempt 0 last_err h =
     (Inl (case last_err of
             Some e \<Rightarrow> e
           | None \<Rightarrow> mk_error (Message ''unknown failure downloading segment'')), h)"
| "download_attempts get url attempt (Suc left) last_err h =
     (case get url h of
        (Answered code body, h) \<Rightarrow>
          if code = 404 \<or> code = 403 then (Inr None, h)
          else if \<not> (200 \<le> code \<and> code < 300) then
            download_attempts get url (attempt + 1) left
              (Some (mk_error (Message (''HTTP '' @ show_nat code @ '' downloading segment'')))) h
          else (case body of
                  Inr bytes \<Rightarrow> (Inr (Some bytes), h)
                | Inl e \<Rightarrow> download_attempts get url (attempt + 1) left
                             (Some (with_context ''reading segment bytes'' e)) h)
      | (NotSent e, h) \<Rightarrow>
          download_attempts get url (attempt + 1) left
            (Some (with_context (''attempt '' @ show_nat attempt @ ''/'' @ show_nat max_segment_retries) e)) h)"

definition download_segment ::
    "(string \<Rightarrow> 'h \<Rightarrow> response \<times> 'h) \<Rightarrow> string \<Rightarrow> 'h \<Rightarrow> (error + byte list option) \<times> 'h" where
  "download_segment get url h = download_attempts get url 1 max_segment_retries None h"

text \<open>
  What the task sends. The reader may be dropped at any moment, which the task notices when it sends:
  \<open>room\<close> is how many more sends go through. The sends are the result.
\<close>

fun send_segments ::
    "(string \<Rightarrow> 'h \<Rightarrow> response \<times> 'h) \<Rightarrow> dash_segments \<Rightarrow> (nat \<times> nat) option \<Rightarrow> nat \<Rightarrow> nat \<Rightarrow> nat \<Rightarrow> 'h \<Rightarrow>
     chunk_result list" where
  "send_segments get ds known number downloaded room h =
     (if (case known of Some (first, final) \<Rightarrow> final < number | None \<Rightarrow> False) then []
      else
        let url = segment_url number ds
        in case download_segment get url h of
             (Inr (Some bytes), h) \<Rightarrow>
               (case room of
                  0 \<Rightarrow> []
                | Suc room \<Rightarrow> Inr bytes # send_segments get ds known (number + 1) (downloaded + 1) room h)
           | (Inr None, h) \<Rightarrow>
               (case ds_segment_count ds of
                  Some n \<Rightarrow>
                    take room [Inl (mk_error (Message
                      (''segment '' @ show_nat number @ '' does not exist (HTTP 404/403) but the '' @
                       ''manifest expected '' @ show_nat n @ '' segments'')))]
                | None \<Rightarrow>
                    if downloaded = 0 then
                      take room [Inl (mk_error (Message
                        (''could not download any media segment (the first one already '' @
                         ''returned 404/403): '' @ url)))]
                    else [])
           | (Inl e, h) \<Rightarrow> take room [Inl e])"

declare send_segments.simps [simp del]

definition run_dash_download ::
    "(string \<Rightarrow> 'h \<Rightarrow> response \<times> 'h) \<Rightarrow> dash_segments \<Rightarrow> nat \<Rightarrow> nat \<Rightarrow> 'h \<Rightarrow> chunk_result list" where
  "run_dash_download get ds first room h =
     (case download_segment get (ds_init_url ds) h of
        (Inr (Some bytes), h) \<Rightarrow>
          (case room of
             0 \<Rightarrow> []
           | Suc room \<Rightarrow>
               Inr bytes # send_segments get ds (segment_range_from first ds) first 0 room h)
      | (Inr None, h) \<Rightarrow>
          take room [Inl (mk_error (Message
            (''the initialization segment does not exist (HTTP 404/403): '' @ ds_init_url ds)))]
      | (Inl e, h) \<Rightarrow> take room [Inl e])"

definition open_dash_from ::
    "(string \<Rightarrow> 'h \<Rightarrow> response \<times> 'h) \<Rightarrow> dash_segments \<Rightarrow> nat \<Rightarrow> 'f option \<Rightarrow> nat \<Rightarrow> 'h \<Rightarrow> 'f segment_stream" where
  "open_dash_from get ds first tee room h = stream_new (run_dash_download get ds first room h) tee"

definition open_dash ::
    "(string \<Rightarrow> 'h \<Rightarrow> response \<times> 'h) \<Rightarrow> dash_segments \<Rightarrow> 'f option \<Rightarrow> nat \<Rightarrow> 'h \<Rightarrow> 'f segment_stream" where
  "open_dash get ds tee room h = open_dash_from get ds (ds_start_number ds) tee room h"

text \<open>A single URL: the pieces of the body as they arrive.\<close>

fun send_pieces :: "chunk_result list \<Rightarrow> nat \<Rightarrow> chunk_result list" where
  "send_pieces [] room = []"
| "send_pieces (Inr bytes # pieces) room =
     (case room of 0 \<Rightarrow> [] | Suc room \<Rightarrow> Inr bytes # send_pieces pieces room)"
| "send_pieces (Inl e # pieces) room = take room [Inl (with_context ''reading the audio stream'' e)]"

datatype url_response =
    UrlAnswered nat "chunk_result list"
  | UrlNotSent error

definition open_url :: "url_response \<Rightarrow> string \<Rightarrow> string \<Rightarrow> 'f option \<Rightarrow> nat \<Rightarrow> 'f segment_stream" where
  "open_url answer url status_text tee room =
     stream_new
       (case answer of
          UrlNotSent e \<Rightarrow> take room [Inl (with_context ''requesting the audio (JSON manifest)'' e)]
        | UrlAnswered code pieces \<Rightarrow>
            if \<not> (200 \<le> code \<and> code < 300)
            then take room [Inl (mk_error (Message
                   (''HTTP '' @ status_text @ '' downloading '' @ url)))]
            else send_pieces pieces room) tee"

section \<open>The bytes that come through\<close>

text \<open>The bytes that arrive before the channel ends or breaks, and what it breaks with.\<close>

fun arrives :: "chunk_result list \<Rightarrow> byte list" where
  "arrives [] = []"
| "arrives (Inr chunk # rest) = chunk @ arrives rest"
| "arrives (Inl e # rest) = []"

fun breaks :: "chunk_result list \<Rightarrow> error option" where
  "breaks [] = None"
| "breaks (Inr chunk # rest) = breaks rest"
| "breaks (Inl e # rest) = Some e"

definition remaining :: "'f segment_stream \<Rightarrow> byte list" where
  "remaining s = sr_current s @ (if sr_finished s then [] else arrives (sr_receiver s))"

definition pieces_ok :: "'f segment_stream \<Rightarrow> bool" where
  "pieces_ok s \<longleftrightarrow> Inr [] \<notin> set (sr_receiver s)"

definition copies :: "(byte list \<Rightarrow> 'f \<Rightarrow> error option \<times> 'f) \<Rightarrow> bool" where
  "copies tee_write \<longleftrightarrow> (\<forall>bs f. fst (tee_write bs f) = None)"

lemma has_bytes_remaining:
  assumes "has_bytes s = (r, s')" and "pieces_ok s"
  shows "pieces_ok s'"
    and "r = Inr True \<Longrightarrow> remaining s' = remaining s \<and> sr_current s' \<noteq> [] \<and> sr_position s' = sr_position s"
    and "r = Inr False \<Longrightarrow> remaining s = [] \<and> remaining s' = [] \<and> sr_position s' = sr_position s"
    and "r = Inl e \<Longrightarrow> remaining s = [] \<and> breaks (sr_receiver s) = Some e"
  using assms
  by (auto simp: has_bytes_def refill_def remaining_def pieces_ok_def split: if_splits list.splits sum.splits)

lemma take_bytes_remaining:
  assumes "copies tee_write" and "n \<le> length (sr_current s)" and "take_bytes tee_write n s = (r, s')"
  shows "r = None" "remaining s = take n (sr_current s) @ remaining s'" "sr_position s' = sr_position s + n"
    "pieces_ok s' = pieces_ok s"
  using assms
  by (auto simp: take_bytes_def remaining_def copies_def pieces_ok_def Let_def split: option.splits prod.splits)
    (metis fst_conv option.distinct(1))+

lemma stream_read_remaining:
  assumes "copies tee_write" and "pieces_ok s" and "stream_read tee_write len s = (r, s')"
  shows "case r of
      Inr bs \<Rightarrow> remaining s = bs @ remaining s' \<and> length bs \<le> len \<and> pieces_ok s' \<and>
        sr_position s' = sr_position s + length bs \<and> (bs = [] \<longrightarrow> len = 0 \<or> remaining s = [])
    | Inl e \<Rightarrow> remaining s = [] \<and> breaks (sr_receiver s) = Some e"
proof (cases "len = 0")
  case True
  then show ?thesis using assms by (auto simp: stream_read_def)
next
  case False
  obtain m s1 where m: "has_bytes s = (m, s1)" by fastforce
  note hb = has_bytes_remaining [OF m assms(2)]
  show ?thesis
  proof (cases "m = Inr True")
    case True
    define k where "k = min len (length (sr_current s1))"
    have k: "k \<noteq> 0" "k \<le> len" "k \<le> length (sr_current s1)"
      using False hb(2) [OF True] by (auto simp: k_def)
    obtain q s2 where t: "take_bytes tee_write k s1 = (q, s2)" by fastforce
    note tb = take_bytes_remaining [OF assms(1) k(3) t]
    show ?thesis using assms(3) m True t tb hb False k by (auto simp: stream_read_def simp flip: k_def)
  next
    case none: False
    then show ?thesis using assms(3) m hb False by (auto simp: stream_read_def split: sum.splits bool.splits)
  qed
qed

text \<open>Reading on with buffers of any sizes, up to an error.\<close>

fun read_all ::
    "(byte list \<Rightarrow> 'f \<Rightarrow> error option \<times> 'f) \<Rightarrow> nat list \<Rightarrow> 'f segment_stream \<Rightarrow>
     error option \<times> byte list \<times> 'f segment_stream" where
  "read_all tee_write [] s = (None, [], s)"
| "read_all tee_write (len # lens) s =
     (case stream_read tee_write len s of
        (Inl e, s) \<Rightarrow> (Some e, [], s)
      | (Inr bs, s) \<Rightarrow> (case read_all tee_write lens s of (e, rest, s) \<Rightarrow> (e, bs @ rest, s)))"

lemma stream_read_unbroken:
  "breaks (sr_receiver s) = None \<Longrightarrow> stream_read tee_write len s = (r, s') \<Longrightarrow> breaks (sr_receiver s') = None"
  by (auto simp: stream_read_def has_bytes_def refill_def dest!: take_bytes_frame
      split: if_splits list.splits sum.splits prod.splits bool.splits option.splits)

lemma read_all_remaining:
  assumes "copies tee_write"
  shows "pieces_ok s \<Longrightarrow> breaks (sr_receiver s) = None \<Longrightarrow> read_all tee_write lens s = (e, bs, s') \<Longrightarrow>
    e = None \<and> remaining s = bs @ remaining s' \<and> sr_position s' = sr_position s + length bs \<and>
    pieces_ok s' \<and> breaks (sr_receiver s') = None"
proof (induction lens arbitrary: s bs)
  case (Cons len lens)
  obtain r s1 where r: "stream_read tee_write len s = (r, s1)" by fastforce
  note step = stream_read_remaining [OF assms Cons.prems(1) r]
  obtain cs where cs: "r = Inr cs" using step Cons.prems(2) by (cases r) auto
  then obtain rest where "read_all tee_write lens s1 = (e, rest, s')" "bs = cs @ rest"
    using Cons.prems(3) r by (auto split: prod.splits)
  then show ?case using Cons.IH step cs stream_read_unbroken [OF Cons.prems(2) r] by fastforce
qed simp

text \<open>Skipping goes over exactly the bytes asked for, or to the end of what arrives.\<close>

lemma discard_remaining:
  "pieces_ok s \<Longrightarrow> discard tee_write n s = (Inr p, s') \<Longrightarrow> copies tee_write \<Longrightarrow>
    remaining s' = drop n (remaining s) \<and> p = sr_position s' \<and>
    sr_position s' = sr_position s + min n (length (remaining s))"
proof (induction tee_write n s rule: discard.induct)
  case (1 tee_write n s)
  show ?case
  proof (cases "n = 0")
    case True
    then show ?thesis using "1.prems" by (auto simp: discard.simps)
  next
    case n: False
    obtain m s1 where m: "has_bytes s = (m, s1)" by fastforce
    note hb = has_bytes_remaining [OF m "1.prems"(1)]
    show ?thesis
    proof (cases "m = Inr True")
      case True
      let ?k = "min (length (sr_current s1)) n"
      obtain q s2 where t: "take_bytes tee_write ?k s1 = (q, s2)" by fastforce
      have tb: "q = None" "remaining s1 = take ?k (sr_current s1) @ remaining s2"
        "sr_position s2 = sr_position s1 + ?k" "pieces_ok s2"
        using take_bytes_remaining [OF "1.prems"(3) _ t] hb(1) by auto
      have d: "discard tee_write (n - ?k) s2 = (Inr p, s')"
        using "1.prems"(2) m True n t tb(1) by (simp add: discard.simps [of tee_write n s])
      have "remaining s' = drop (n - ?k) (remaining s2) \<and> p = sr_position s' \<and>
          sr_position s' = sr_position s2 + min (n - ?k) (length (remaining s2))"
        using "1.IH" [OF n m [symmetric] True] t tb(1,4) d "1.prems"(3) by auto
      moreover have "remaining s = take ?k (sr_current s1) @ remaining s2" "?k \<le> n"
        "length (take ?k (sr_current s1)) = ?k" using hb(2) [OF True] tb(2) by auto
      ultimately show ?thesis using tb(3) hb(2) [OF True] by auto
    next
      case False
      then show ?thesis using "1.prems"(2) m hb n by (auto simp: discard.simps split: sum.splits bool.splits)
    qed
  qed
qed

section \<open>From the manifest to the decoder\<close>

text \<open>The server has a segment, however often it is asked and whatever was asked before.\<close>

definition serves :: "(string \<Rightarrow> 'h \<Rightarrow> response \<times> 'h) \<Rightarrow> string \<Rightarrow> byte list \<Rightarrow> bool" where
  "serves get url bytes \<longleftrightarrow> (\<forall>h. fst (download_segment get url h) = Inr (Some bytes))"

lemma send_segments_all:
  assumes "segment_range_from first ds = Some (first, final)"
    and "\<And>i. number \<le> i \<Longrightarrow> i \<le> final \<Longrightarrow> serves get (segment_url i ds) (body i)"
    and "number \<le> final + 1" and "final + 1 - number \<le> room"
  shows "send_segments get ds (Some (first, final)) number n room h
    = map (\<lambda>i. Inr (body i)) [number..<final + 1]"
  using assms(2-4)
proof (induction "final + 1 - number" arbitrary: number n room h)
  case 0
  then show ?case by (simp add: send_segments.simps)
next
  case (Suc k)
  then have le: "number \<le> final" by simp
  then have "fst (download_segment get (segment_url number ds) h) = Inr (Some (body number))"
    using Suc.prems(1) by (simp add: serves_def)
  then obtain h' where d: "download_segment get (segment_url number ds) h = (Inr (Some (body number)), h')"
    by (metis prod.collapse)
  obtain room' where r: "room = Suc room'" using Suc.prems le by (cases room) auto
  have "send_segments get ds (Some (first, final)) (number + 1) (n + 1) room' h'
      = map (\<lambda>i. Inr (body i)) [number + 1..<final + 1]"
    using Suc.hyps(2) Suc.prems r le by (intro Suc.hyps(1)) auto
  then show ?case using d r le by (simp add: send_segments.simps [of _ _ _ number] upt_conv_Cons del: upt_Suc)
qed

lemma arrives_all: "arrives (map (\<lambda>i. Inr (body i)) is) = concat (map body is)"
  by (induction "is") auto

text \<open>
  C21. A track none of whose segments is empty is played as it is downloaded: whatever buffers the decoder
  reads with, it gets the bytes of the initialization segment and of every media segment from the
  first one asked for, in order, without a gap, and an end of file only where they end. (An empty
  segment reads as the end of the file: \<open>empty_piece_reads_as_end\<close>.)
\<close>

theorem downloads_as_one_file:
  assumes "segment_range_from first ds = Some (first, final)" and "first \<le> final + 1"
    and "serves get (ds_init_url ds) init"
    and "\<And>i. first \<le> i \<Longrightarrow> i \<le> final \<Longrightarrow> serves get (segment_url i ds) (body i)"
    and "init \<noteq> []" and "\<And>i. first \<le> i \<Longrightarrow> i \<le> final \<Longrightarrow> body i \<noteq> []"
    and "final + 2 - first \<le> room" and "copies tee_write"
    and "whole = init @ concat (map body [first..<final + 1])"
    and "read_all tee_write lens (open_dash_from get ds first tee room h) = (e, bs, s)"
  shows "e = None \<and> (\<exists>rest. whole = bs @ rest \<and> sr_position s = length bs \<and>
    (0 < len \<longrightarrow> fst (stream_read tee_write len s) = Inr [] \<longrightarrow> rest = []))"
proof -
  obtain h' where i: "download_segment get (ds_init_url ds) h = (Inr (Some init), h')"
    using assms(3) by (metis prod.collapse serves_def)
  obtain room' where r: "room = Suc room'" "final + 1 - first \<le> room'"
    using assms(2,7) by (cases room) auto
  let ?chunks = "Inr init # map (\<lambda>i. Inr (body i)) [first..<final + 1] :: chunk_result list"
  have run: "open_dash_from get ds first tee room h = stream_new ?chunks tee"
    using i r(1) send_segments_all [OF assms(1,4) _ r(2)] assms(1,2)
    by (simp add: open_dash_from_def run_dash_download_def)
  let ?s = "stream_new ?chunks tee"
  have "[] \<noteq> body i" if "first \<le> i" "i \<le> final" for i using assms(6) [OF that] by simp
  then have ok: "pieces_ok ?s" using assms(5) by (auto simp: pieces_ok_def stream_new_def)
  have rem: "remaining ?s = whole"
    by (simp add: remaining_def stream_new_def arrives_all assms(9) del: upt_Suc)
  have none: "breaks (map (\<lambda>i. Inr (body i)) is) = None" for "is" by (induction "is") auto
  have "e = None \<and> remaining ?s = bs @ remaining s \<and> sr_position s = sr_position ?s + length bs \<and>
      pieces_ok s \<and> breaks (sr_receiver s) = None"
    using assms(10) run ok none by (intro read_all_remaining [OF assms(8)]) (simp_all add: stream_new_def)
  moreover have "rest = []"
    if at_end: "fst (stream_read tee_write len s) = Inr []" "0 < len" "pieces_ok s" "remaining s = rest" for rest
  proof -
    obtain s2 where "stream_read tee_write len s = (Inr [], s2)"
      using at_end(1) by (cases "stream_read tee_write len s") auto
    then show ?thesis using stream_read_remaining [OF assms(8) at_end(3)] at_end(2,4) by fastforce
  qed
  ultimately show ?thesis using rem by (auto simp: stream_new_def)
qed

text \<open>A server with an initialization segment and two media segments, and a copy that only grows.\<close>

definition demo_get :: "string \<Rightarrow> unit \<Rightarrow> response \<times> unit" where
  "demo_get url h =
     (if url = ''https://a/i'' then Answered 200 (Inr [1, 2])
      else if url = ''https://a/2'' then Answered 200 (Inr [3, 4, 5])
      else if url = ''https://a/3'' then Answered 200 (Inr [6])
      else Answered 404 (Inr []), h)"

lemma demo_urls: "segment_url 2 demo_segments = ''https://a/2''" "segment_url 3 demo_segments = ''https://a/3''"
  by (simp_all add: segment_url_def demo_segments_def replace_all.simps str_eval)

lemma demo_serves:
  "serves demo_get (ds_init_url demo_segments) [1, 2]" "serves demo_get (segment_url 2 demo_segments) [3, 4, 5]"
  "serves demo_get (segment_url 3 demo_segments) [6]"
  unfolding demo_urls
  by (simp_all add: serves_def download_segment_def max_segment_retries_def numeral_3_eq_3 demo_get_def demo_segments_def)

lemma downloads_as_one_file_witness:
  "\<exists>rest. [1, 2, 3, 4, 5, 6] = fst (snd (read_all (\<lambda>bs f. (None, f @ bs)) [1, 5, 2]
       (open_dash_from demo_get demo_segments 2 (Some []) 3 ()))) @ rest"
proof -
  let ?body = "\<lambda>i :: nat. if i = 2 then [3, 4, 5] else [6] :: byte list"
  obtain e bs s where r: "read_all (\<lambda>bs f. (None, f @ bs)) [1, 5, 2]
       (open_dash_from demo_get demo_segments 2 (Some []) 3 ()) = (e, bs, s)"
    using prod_cases3 by blast
  have two: "2 \<le> i \<Longrightarrow> i \<le> 3 \<Longrightarrow> i = 2 \<or> i = (3 :: nat)" for i by auto
  have b: "serves demo_get (segment_url i demo_segments) (?body i)" if "2 \<le> i" "i \<le> 3" for i
    using two [OF that] demo_serves by auto
  have range: "segment_range_from 2 demo_segments = Some (2, 3)"
    by (simp add: segment_range_from_def demo_segments_def u32_max_def)
  have "copies (\<lambda>bs f :: byte list. (None, f @ bs))" by (simp add: copies_def)
  moreover have "[1, 2, 3, 4, 5, 6] = [1, 2] @ concat (map ?body [2..<3 + 1])"
    by (simp add: upt_rec)
  moreover have "?body i \<noteq> []" for i by simp
  ultimately have "e = None \<and> (\<exists>rest. [1, 2, 3, 4, 5, 6] = bs @ rest \<and> sr_position s = length bs \<and>
      (0 < (1 :: nat) \<longrightarrow> fst (stream_read (\<lambda>bs f. (None, f @ bs)) 1 s) = Inr [] \<longrightarrow> rest = []))"
    by (intro downloads_as_one_file [OF range _ demo_serves(1) b _ _ _ _ _ r]) simp_all
  then show ?thesis unfolding r by auto
qed

text \<open>Why no piece may be empty: one that is reads as the end of the file.\<close>

lemma empty_piece_reads_as_end:
  "fst (stream_read tee_write 4 (stream_new [Inr [], Inr [7]] None)) = Inr [] \<and>
   remaining (snd (stream_read tee_write 4 (stream_new [Inr [], Inr [7]] None))) = [7]"
  by (simp add: stream_read_def has_bytes_def refill_def stream_new_def take_bytes_def remaining_def)

end
