(* ===== verification/Tidal_Api.thy ===== *)
theory Tidal_Api
  imports Quality
begin

text \<open>The names of the quality tiers in TIDAL's API (\<^verbatim>\<open>phonia-core/src/tidal.rs\<close>).\<close>

fun api_quality :: "quality \<Rightarrow> string" where
  "api_quality Low = ''LOW''"
| "api_quality High = ''HIGH''"
| "api_quality Lossless = ''LOSSLESS''"
| "api_quality Hires = ''HI_RES_LOSSLESS''"

definition quality_from_api :: "string \<Rightarrow> quality option" where
  "quality_from_api text0 =
     (if text0 = ''HI_RES_LOSSLESS'' then Some Hires
      else if text0 = ''LOSSLESS'' \<or> text0 = ''HI_RES'' then Some Lossless
      else if text0 = ''HIGH'' then Some High
      else if text0 = ''LOW'' then Some Low
      else None)"

text \<open>A tier asked for by name is understood when the answer names it.\<close>

lemma quality_api_round_trip: "quality_from_api (api_quality q) = Some q"
  by (cases q) (simp_all add: quality_from_api_def)

end
