(* ===== verification/Play_Log.thy ===== *)
theory Play_Log
  imports Engine_Types Tidal_Api Strings
begin

text \<open>
  Reporting plays (\<^verbatim>\<open>play_log.rs\<close>) and remembering them (\<^verbatim>\<open>recent.rs\<close>): two state machines over the
  engine's events, the document sent to TIDAL for a finished play, and the list of recent tracks.
  The clock, random ids and the decoding of tokens are arguments; sending a form and reading or
  writing the file of the list are not modelled.
\<close>

section \<open>Documents\<close>

text \<open>A JSON value, as \<^verbatim>\<open>serde_json\<close> builds it; the order of the keys of an object means nothing.\<close>

datatype json =
    JNum real
  | JBool bool
  | JStr string
  | JArr "json list"
  | JObj "(string \<times> json) list"

fun json_get :: "string \<Rightarrow> json \<Rightarrow> json option" where
  "json_get key (JObj kvs) = map_of kvs key"
| "json_get key _ = None"

section \<open>A finished play\<close>

definition max_batch :: nat where
  "max_batch = 10"

definition min_heard :: duration where
  "min_heard = secs 30"

record claims =
  cl_uid :: "nat option"
  cl_cid :: "nat option"
  cl_sid :: "string option"

definition no_claims :: claims where
  "no_claims = \<lparr>cl_uid = None, cl_cid = None, cl_sid = None\<rparr>"

fun json_u64 :: "json \<Rightarrow> nat option" where
  "json_u64 (JNum x) = (if x = of_int \<lfloor>x\<rfloor> \<and> 0 \<le> x \<and> x \<le> real u64_max then Some (nat \<lfloor>x\<rfloor>) else None)"
| "json_u64 (JStr s) = parse_nat_upto u64_max s"
| "json_u64 _ = None"

text \<open>\<open>decode\<close>: the base64 segment of the token, read as JSON.\<close>

definition claims_of :: "(string \<Rightarrow> json option) \<Rightarrow> string \<Rightarrow> claims" where
  "claims_of decode access_token =
     (case get_at (split_char (CHR ''.'') access_token) 1 of
        None \<Rightarrow> no_claims
      | Some segment \<Rightarrow>
          (case decode segment of
             None \<Rightarrow> no_claims
           | Some v \<Rightarrow>
               \<lparr>cl_uid = Option.bind (json_get ''uid'' v) json_u64,
                cl_cid = Option.bind (json_get ''cid'' v) json_u64,
                cl_sid = (case json_get ''sid'' v of Some (JStr s) \<Rightarrow> Some s | _ \<Rightarrow> None)\<rparr>))"

datatype action_type = PlaybackStart | PlaybackStop

fun as_api :: "action_type \<Rightarrow> string" where
  "as_api PlaybackStart = ''PLAYBACK_START''"
| "as_api PlaybackStop = ''PLAYBACK_STOP''"

record action =
  ac_kind :: action_type
  ac_position :: duration
  ac_at_ms :: int

record playback_session =
  ps_id :: string
  ps_product_id :: string
  ps_quality :: "quality option"
  ps_audio_mode :: "string option"
  ps_start_position :: duration
  ps_start_ms :: int
  ps_end_position :: duration
  ps_end_ms :: int
  ps_actions :: "action list"

definition as_secs :: "duration \<Rightarrow> real" where
  "as_secs d = real d / real nanos_per_sec"

definition payload :: "playback_session \<Rightarrow> json" where
  "payload s =
     JObj
       ([(''actions'', JArr (map (\<lambda>a. JObj
            [(''actionType'', JStr (as_api (ac_kind a))),
             (''assetPosition'', JNum (as_secs (ac_position a))),
             (''timestamp'', JNum (of_int (ac_at_ms a)))]) (ps_actions s))),
         (''actualAssetPresentation'', JStr ''FULL''),
         (''actualProductId'', JStr (ps_product_id s)),
         (''endAssetPosition'', JNum (as_secs (ps_end_position s))),
         (''endTimestamp'', JNum (of_int (ps_end_ms s))),
         (''isPostPaywall'', JBool True),
         (''playbackSessionId'', JStr (ps_id s)),
         (''productType'', JStr ''TRACK''),
         (''requestedProductId'', JStr (ps_product_id s)),
         (''sourceId'', JStr (ps_product_id s)),
         (''sourceType'', JStr ''ITEM''),
         (''startAssetPosition'', JNum (as_secs (ps_start_position s))),
         (''startTimestamp'', JNum (of_int (ps_start_ms s)))]
        @ (case ps_quality s of Some q \<Rightarrow> [(''actualQuality'', JStr (api_quality q))] | None \<Rightarrow> [])
        @ (case ps_audio_mode s of Some m \<Rightarrow> [(''actualAudioMode'', JStr m)] | None \<Rightarrow> []))"

definition message_body :: "playback_session \<Rightarrow> claims \<Rightarrow> string \<Rightarrow> json" where
  "message_body s cl uuid =
     (let user = (case cl_uid cl of Some uid \<Rightarrow> [(''id'', JNum (real uid))] | None \<Rightarrow> [])
               @ (case cl_cid cl of Some cid \<Rightarrow> [(''clientId'', JStr (show_nat cid))] | None \<Rightarrow> [])
               @ (case cl_sid cl of Some sid \<Rightarrow> [(''sessionId'', JStr sid)] | None \<Rightarrow> [])
      in JObj
        ([(''group'', JStr ''play_log''), (''name'', JStr ''playback_session''), (''version'', JNum 2),
          (''ts'', JNum (of_int (ps_end_ms s))), (''uuid'', JStr uuid),
          (''client'', JObj
             ([(''deviceType'', JStr ''mobile''), (''platform'', JStr ''android''),
               (''version'', JStr ''2.145.0'')]
              @ (case cl_cid cl of Some cid \<Rightarrow> [(''token'', JStr (show_nat cid))] | None \<Rightarrow> []))),
          (''payload'', payload s)]
         @ (if user \<noteq> [] then [(''user'', JObj user)] else [])))"

text \<open>The form of a batch: eight fields for each entry. \<open>uuids\<close> are the random ids drawn.\<close>

definition entry_key :: "nat \<Rightarrow> string \<Rightarrow> string" where
  "entry_key n suffix = ''SendMessageBatchRequestEntry.'' @ show_nat n @ ''.'' @ suffix"

definition entry_form :: "nat \<Rightarrow> string \<Rightarrow> string \<times> string \<Rightarrow> (string \<times> string) list" where
  "entry_form n uuid entry =
     [(entry_key n ''Id'', uuid),
      (entry_key n ''MessageBody'', fst entry),
      (entry_key n ''MessageAttribute.1.Name'', ''Name''),
      (entry_key n ''MessageAttribute.1.Value.StringValue'', ''playback_session''),
      (entry_key n ''MessageAttribute.1.Value.DataType'', ''String''),
      (entry_key n ''MessageAttribute.2.Name'', ''Headers''),
      (entry_key n ''MessageAttribute.2.Value.StringValue'', snd entry),
      (entry_key n ''MessageAttribute.2.Value.DataType'', ''String'')]"

fun batch_form_from :: "nat \<Rightarrow> (nat \<Rightarrow> string) \<Rightarrow> (string \<times> string) list \<Rightarrow> (string \<times> string) list" where
  "batch_form_from i uuids [] = []"
| "batch_form_from i uuids (entry # entries) =
     entry_form (i + 1) (uuids i) entry @ batch_form_from (i + 1) uuids entries"

definition batch_form :: "(nat \<Rightarrow> string) \<Rightarrow> (string \<times> string) list \<Rightarrow> (string \<times> string) list" where
  "batch_form uuids entries = batch_form_from 0 uuids entries"

section \<open>From events to finished plays\<close>

record open_session =
  op_id :: string
  op_product_id :: string
  op_quality :: "quality option"
  op_audio_mode :: "string option"
  op_start_position :: duration
  op_start_ms :: int
  op_last_position :: duration
  op_actions :: "action list"
  op_heard :: duration
  op_playing_since_ms :: "int option"

definition since :: "int \<Rightarrow> int \<Rightarrow> duration" where
  "since start now = millis (nat (max (now - start) 0))"

definition fold_playing_time :: "int \<Rightarrow> open_session \<Rightarrow> open_session" where
  "fold_playing_time now s =
     (case op_playing_since_ms s of
        Some start \<Rightarrow> s\<lparr>op_playing_since_ms := None, op_heard := op_heard s + since start now\<rparr>
      | None \<Rightarrow> s)"

definition heard_through :: "int \<Rightarrow> open_session \<Rightarrow> duration" where
  "heard_through now s =
     op_heard s + (case op_playing_since_ms s of Some start \<Rightarrow> since start now | None \<Rightarrow> 0)"

definition push_action :: "action_type \<Rightarrow> duration \<Rightarrow> int \<Rightarrow> open_session \<Rightarrow> open_session" where
  "push_action kind at0 now s =
     s\<lparr>op_actions := op_actions s @ [\<lparr>ac_kind = kind, ac_position = at0, ac_at_ms = now\<rparr>]\<rparr>"

definition finish_session :: "open_session \<Rightarrow> duration \<Rightarrow> int \<Rightarrow> playback_session option" where
  "finish_session s end_position now =
     (if heard_through now s < min_heard then None
      else let s = push_action PlaybackStop end_position now s
           in Some \<lparr>ps_id = op_id s, ps_product_id = op_product_id s, ps_quality = op_quality s,
                    ps_audio_mode = op_audio_mode s, ps_start_position = op_start_position s,
                    ps_start_ms = op_start_ms s, ps_end_position = end_position, ps_end_ms = now,
                    ps_actions = op_actions s\<rparr>)"

type_synonym session_tracker = "open_session option"

definition close_open :: "int \<Rightarrow> session_tracker \<Rightarrow> playback_session option \<times> session_tracker" where
  "close_open now t =
     (case t of
        None \<Rightarrow> (None, None)
      | Some s \<Rightarrow>
          let s = fold_playing_time now s
          in (finish_session s (op_last_position s) now, None))"

definition log_started ::
    "string \<Rightarrow> string option \<Rightarrow> quality option \<Rightarrow> string option \<Rightarrow> int \<Rightarrow> session_tracker \<Rightarrow>
     playback_session option \<times> session_tracker" where
  "log_started fresh product q mode now t =
     (let (displaced, t) = close_open now t
      in (displaced,
          map_option (\<lambda>pid.
            \<lparr>op_id = fresh, op_product_id = pid, op_quality = q, op_audio_mode = mode,
             op_start_position = 0, op_start_ms = now, op_last_position = 0,
             op_actions = [\<lparr>ac_kind = PlaybackStart, ac_position = 0, ac_at_ms = now\<rparr>],
             op_heard = 0, op_playing_since_ms = Some now\<rparr>) product))"

definition log_position :: "duration \<Rightarrow> session_tracker \<Rightarrow> session_tracker" where
  "log_position at0 t = map_option (\<lambda>s. s\<lparr>op_last_position := at0\<rparr>) t"

definition log_paused :: "int \<Rightarrow> session_tracker \<Rightarrow> session_tracker" where
  "log_paused now t = map_option (\<lambda>s.
     if op_playing_since_ms s \<noteq> None
     then let s = fold_playing_time now s in push_action PlaybackStop (op_last_position s) now s
     else s) t"

definition log_resumed :: "int \<Rightarrow> session_tracker \<Rightarrow> session_tracker" where
  "log_resumed now t = map_option (\<lambda>s.
     if op_playing_since_ms s = None
     then push_action PlaybackStart (op_last_position s) now (s\<lparr>op_playing_since_ms := Some now\<rparr>)
     else s) t"

definition log_seeked :: "duration \<Rightarrow> int \<Rightarrow> session_tracker \<Rightarrow> session_tracker" where
  "log_seeked to now t = map_option (\<lambda>s.
     let was_playing = op_playing_since_ms s \<noteq> None;
         s = fold_playing_time now s;
         s = push_action PlaybackStop (op_last_position s) now s;
         s = s\<lparr>op_last_position := to\<rparr>;
         s = push_action PlaybackStart to now s
     in if was_playing then s\<lparr>op_playing_since_ms := Some now\<rparr> else s) t"

definition log_ended ::
    "end_reason \<Rightarrow> duration option \<Rightarrow> int \<Rightarrow> session_tracker \<Rightarrow> playback_session option \<times> session_tracker" where
  "log_ended reason len now t =
     (case t of
        None \<Rightarrow> (None, None)
      | Some s \<Rightarrow>
          let s = fold_playing_time now s;
              end_position = (case reason of
                 Completed \<Rightarrow> (case len of Some d \<Rightarrow> d | None \<Rightarrow> op_last_position s)
               | _ \<Rightarrow> op_last_position s)
          in (finish_session s end_position now, None))"

section \<open>The recent tracks\<close>

definition max_recent :: nat where
  "max_recent = 50"

definition min_heard_ms :: nat where
  "min_heard_ms = 30000"

record played_track =
  pt_source :: string
  pt_title :: "string option"
  pt_artist :: "string option"
  pt_duration_ms :: "nat option"
  pt_cover :: "string option"
  pt_played_at_ms :: nat
  pt_artist_id :: "string option"
  pt_album_id :: "string option"
  pt_album :: "string option"

type_synonym recently_played = "played_track list"

definition record_played :: "played_track \<Rightarrow> recently_played \<Rightarrow> recently_played" where
  "record_played track items =
     take max_recent (track # filter (\<lambda>item. pt_source item \<noteq> pt_source track) items)"

record pending_play =
  pd_entry :: played_track
  pd_recorded :: bool

record tracker =
  tk_recent :: recently_played
  tk_current :: "pending_play option"

definition tracker_seeded :: "recently_played \<Rightarrow> tracker" where
  "tracker_seeded recent = \<lparr>tk_recent = recent, tk_current = None\<rparr>"

definition tracker_started :: "played_track option \<Rightarrow> tracker \<Rightarrow> tracker" where
  "tracker_started entry t =
     t\<lparr>tk_current := map_option (\<lambda>e. \<lparr>pd_entry = e, pd_recorded = False\<rparr>) entry\<rparr>"

definition tracker_position :: "nat \<Rightarrow> tracker \<Rightarrow> bool \<times> tracker" where
  "tracker_position position_ms t =
     (case tk_current t of
        None \<Rightarrow> (False, t)
      | Some p \<Rightarrow>
          if pd_recorded p \<or> position_ms < min_heard_ms then (False, t)
          else (True, t\<lparr>tk_recent := record_played (pd_entry p) (tk_recent t),
                        tk_current := Some (p\<lparr>pd_recorded := True\<rparr>)\<rparr>))"

definition tracker_ended :: "end_reason \<Rightarrow> tracker \<Rightarrow> bool \<times> tracker" where
  "tracker_ended reason t =
     (case tk_current t of
        None \<Rightarrow> (False, t)
      | Some p \<Rightarrow>
          let t = t\<lparr>tk_current := None\<rparr>
          in if pd_recorded p \<or> reason \<noteq> Completed then (False, t)
             else (True, t\<lparr>tk_recent := record_played (pd_entry p) (tk_recent t)\<rparr>))"

section \<open>What counts as a play\<close>

text \<open>What is told while a track is open, and how long it was heard up to \<open>until\<close>, by the clock.\<close>

datatype told =
    AtPosition duration
  | PausedAt int
  | ResumedAt int
  | SeekedTo duration int

fun hear :: "told \<Rightarrow> session_tracker \<Rightarrow> session_tracker" where
  "hear (AtPosition p) t = log_position p t"
| "hear (PausedAt now) t = log_paused now t"
| "hear (ResumedAt now) t = log_resumed now t"
| "hear (SeekedTo p now) t = log_seeked p now t"

definition hear_all :: "told list \<Rightarrow> session_tracker \<Rightarrow> session_tracker" where
  "hear_all tolds t = fold hear tolds t"

fun told_at :: "int \<Rightarrow> told \<Rightarrow> int" where
  "told_at before (AtPosition p) = before"
| "told_at before (PausedAt now) = now"
| "told_at before (ResumedAt now) = now"
| "told_at before (SeekedTo p now) = now"

fun plays_after :: "bool \<Rightarrow> told \<Rightarrow> bool" where
  "plays_after playing (AtPosition p) = playing"
| "plays_after playing (PausedAt now) = False"
| "plays_after playing (ResumedAt now) = True"
| "plays_after playing (SeekedTo p now) = playing"

fun in_order :: "int \<Rightarrow> told list \<Rightarrow> int \<Rightarrow> bool" where
  "in_order before [] until \<longleftrightarrow> before \<le> until"
| "in_order before (x # xs) until \<longleftrightarrow> before \<le> told_at before x \<and> in_order (told_at before x) xs until"

fun heard_ms :: "bool \<Rightarrow> int \<Rightarrow> told list \<Rightarrow> int \<Rightarrow> nat" where
  "heard_ms playing before [] until = (if playing then nat (until - before) else 0)"
| "heard_ms playing before (x # xs) until =
     (if playing then nat (told_at before x - before) else 0)
       + heard_ms (plays_after playing x) (told_at before x) xs until"

lemma since_le: "a \<le> b \<Longrightarrow> since a b = millis (nat (b - a))"
  by (simp add: since_def max_def)

lemma since_split: "a \<le> b \<Longrightarrow> b \<le> c \<Longrightarrow> since a c = since a b + since b c"
proof -
  assume "a \<le> b" "b \<le> c"
  then have "nat (c - a) = nat (b - a) + nat (c - b)" by arith
  then show ?thesis using \<open>a \<le> b\<close> \<open>b \<le> c\<close> by (simp add: since_le millis_def distrib_right)
qed

lemma since_self [simp]: "since a a = 0"
  by (simp add: since_le millis_def)

lemma heard_fold: "heard_through now (fold_playing_time now s) = heard_through now s"
  by (simp add: heard_through_def fold_playing_time_def split: option.split)

lemma fold_playing_time_frame [simp]:
  "op_product_id (fold_playing_time now s) = op_product_id s" "op_start_ms (fold_playing_time now s) = op_start_ms s"
  "op_id (fold_playing_time now s) = op_id s" "op_last_position (fold_playing_time now s) = op_last_position s"
  "op_actions (fold_playing_time now s) = op_actions s"
  "op_playing_since_ms (fold_playing_time now s) = None"
  by (simp_all add: fold_playing_time_def split: option.split)

lemma heard_later:
  "case op_playing_since_ms s of Some start \<Rightarrow> start \<le> a | None \<Rightarrow> True \<Longrightarrow> a \<le> b \<Longrightarrow>
     heard_through b s = heard_through a s + (if op_playing_since_ms s \<noteq> None then since a b else 0)"
proof (cases "op_playing_since_ms s")
  case (Some start)
  moreover assume "case op_playing_since_ms s of Some start \<Rightarrow> start \<le> a | None \<Rightarrow> True" "a \<le> b"
  ultimately show ?thesis using since_split [of start a b] by (simp add: heard_through_def)
qed (simp add: heard_through_def)

lemma hear_step:
  assumes "before \<le> told_at before x"
    and "case op_playing_since_ms s of Some start \<Rightarrow> start \<le> before | None \<Rightarrow> True"
  shows "\<exists>s'. hear x (Some s) = Some s' \<and>
    (op_playing_since_ms s' \<noteq> None) = plays_after (op_playing_since_ms s \<noteq> None) x \<and>
    (case op_playing_since_ms s' of Some start \<Rightarrow> start \<le> told_at before x | None \<Rightarrow> True) \<and>
    heard_through (told_at before x) s' = heard_through (told_at before x) s \<and>
    op_product_id s' = op_product_id s \<and> op_start_ms s' = op_start_ms s \<and> op_id s' = op_id s"
proof (cases x)
  case (AtPosition p)
  then show ?thesis using assms by (auto simp: log_position_def heard_through_def split: option.splits)
next
  case (PausedAt now)
  then show ?thesis using assms heard_fold [of now s]
    by (auto simp: log_paused_def push_action_def heard_through_def Let_def)
next
  case (ResumedAt now)
  then show ?thesis using assms
    by (auto simp: log_resumed_def push_action_def heard_through_def split: option.splits)
next
  case (SeekedTo p now)
  then show ?thesis using assms heard_fold [of now s]
    by (auto simp: log_seeked_def push_action_def heard_through_def Let_def)
qed

lemma hear_all_heard:
  "in_order before xs until \<Longrightarrow>
   (case op_playing_since_ms s of Some start \<Rightarrow> start \<le> before | None \<Rightarrow> True) \<Longrightarrow>
   \<exists>s'. hear_all xs (Some s) = Some s' \<and>
     heard_through until s' = heard_through before s
       + millis (heard_ms (op_playing_since_ms s \<noteq> None) before xs until) \<and>
     op_product_id s' = op_product_id s \<and> op_start_ms s' = op_start_ms s \<and> op_id s' = op_id s"
proof (induction xs arbitrary: before s)
  case Nil
  then show ?case using heard_later [where s = s and a = before and b = until] since_le [of before until]
    by (auto simp: hear_all_def millis_def)
next
  case (Cons x xs)
  let ?n = "told_at before x"
  obtain s1 where s1: "hear x (Some s) = Some s1"
    "(op_playing_since_ms s1 \<noteq> None) = plays_after (op_playing_since_ms s \<noteq> None) x"
    "case op_playing_since_ms s1 of Some start \<Rightarrow> start \<le> ?n | None \<Rightarrow> True"
    "heard_through ?n s1 = heard_through ?n s"
    "op_product_id s1 = op_product_id s" "op_start_ms s1 = op_start_ms s" "op_id s1 = op_id s"
    using hear_step [where before = before and x = x and s = s] Cons.prems by auto
  have "heard_through ?n s = heard_through before s
      + millis (if op_playing_since_ms s \<noteq> None then nat (?n - before) else 0)"
    using heard_later [OF Cons.prems(2), where b = ?n] since_le [of before ?n] Cons.prems(1) by (simp add: millis_def)
  moreover obtain s2 where s2: "hear_all xs (Some s1) = Some s2"
    "heard_through until s2 = heard_through ?n s1
       + millis (heard_ms (op_playing_since_ms s1 \<noteq> None) ?n xs until)"
    "op_product_id s2 = op_product_id s1" "op_start_ms s2 = op_start_ms s1" "op_id s2 = op_id s1"
    using Cons.IH [of ?n s1] Cons.prems(1) s1(3) by auto
  moreover have "hear_all (x # xs) (Some s) = Some s2" using s1(1) s2(1) by (simp add: hear_all_def)
  ultimately show ?case using s1 by (auto simp: millis_def distrib_right)
qed

text \<open>
  C22. A track is reported exactly when it was heard for thirty seconds by the clock, pauses not counted,
  whatever seeks and pauses there were and however it ended; the report names it, from when it
  started to when it ended.
\<close>

theorem reported_iff_heard:
  assumes "in_order start xs until"
  shows "let (r, t) = log_ended reason len until
                        (hear_all xs (snd (log_started fresh (Some pid) q mode start None)))
    in t = None \<and> (r = None \<longleftrightarrow> heard_ms True start xs until < 30000) \<and>
       (case r of None \<Rightarrow> True | Some p \<Rightarrow> ps_id p = fresh \<and> ps_product_id p = pid \<and>
          ps_start_ms p = start \<and> ps_end_ms p = until \<and> ac_kind (last (ps_actions p)) = PlaybackStop)"
proof -
  let ?s = "\<lparr>op_id = fresh, op_product_id = pid, op_quality = q, op_audio_mode = mode,
             op_start_position = 0, op_start_ms = start, op_last_position = 0,
             op_actions = [\<lparr>ac_kind = PlaybackStart, ac_position = 0, ac_at_ms = start\<rparr>],
             op_heard = 0, op_playing_since_ms = Some start\<rparr>"
  have s: "snd (log_started fresh (Some pid) q mode start None) = Some ?s"
    by (simp add: log_started_def close_open_def)
  obtain s' where s': "hear_all xs (Some ?s) = Some s'"
    "heard_through until s' = heard_through start ?s + millis (heard_ms True start xs until)"
    "op_product_id s' = pid" "op_start_ms s' = start" "op_id s' = fresh"
    using hear_all_heard [OF assms, of ?s] by auto
  have h: "heard_through until (fold_playing_time until s') = millis (heard_ms True start xs until)"
    using s'(2) by (simp only: heard_fold) (simp add: heard_through_def)
  have m: "millis n < min_heard \<longleftrightarrow> n < 30000" for n
    by (simp add: millis_def min_heard_def secs_def nanos_per_sec_def)
  show ?thesis
    using s s' h by (auto simp: log_ended_def finish_session_def m push_action_def Let_def)
qed

lemma reported_iff_heard_witness:
  "fst (log_ended Interrupted None 50000
     (hear_all [PausedAt 20000, ResumedAt 30000, SeekedTo 5 35000]
        (snd (log_started ''id'' (Some ''t'') None None 0 None)))) \<noteq> None"
  using reported_iff_heard [of 0 "[PausedAt 20000, ResumedAt 30000, SeekedTo 5 35000]" 50000
      Interrupted None "''id''" "''t''" None None]
  by (simp add: Let_def split_def)

text \<open>
  The actions of a report are starts and stops in turn, except that a seek while paused reports a start
  although nothing plays, and the resume after it a second one.
\<close>

lemma seek_while_paused_reports_start:
  "map_option (\<lambda>s. map ac_kind (op_actions s))
     (hear_all [PausedAt 1, SeekedTo 5 2, ResumedAt 3]
        (snd (log_started ''id'' (Some ''t'') None None 0 None)))
   = Some [PlaybackStart, PlaybackStop, PlaybackStop, PlaybackStart, PlaybackStart]"
  by (simp add: hear_all_def log_started_def close_open_def log_paused_def log_seeked_def log_resumed_def
      push_action_def fold_playing_time_def since_def Let_def)

section \<open>The list of recent tracks\<close>

definition recent_ok :: "recently_played \<Rightarrow> bool" where
  "recent_ok items \<longleftrightarrow> distinct (map pt_source items) \<and> length items \<le> max_recent"

lemma recent_ok_record: "recent_ok items \<Longrightarrow> recent_ok (record_played track items)"
proof -
  assume ok: "recent_ok items"
  have "distinct (map pt_source (track # filter (\<lambda>item. pt_source item \<noteq> pt_source track) items))"
    using ok by (auto simp: recent_ok_def distinct_map_filter)
  then have "distinct (map pt_source (record_played track items))"
    unfolding record_played_def take_map [symmetric] by (rule distinct_take)
  then show ?thesis by (simp add: recent_ok_def record_played_def)
qed

lemma recent_head: "\<exists>rest. record_played track items = track # rest"
  by (simp add: record_played_def max_recent_def numeral_eq_Suc)

lemma recent_ok_tracker:
  assumes "recent_ok (tk_recent t)"
  shows "recent_ok (tk_recent (tracker_started entry t))" "recent_ok (tk_recent (snd (tracker_position ms t)))"
    "recent_ok (tk_recent (snd (tracker_ended reason t)))"
  using assms
  by (auto simp: tracker_started_def tracker_position_def tracker_ended_def recent_ok_record Let_def
      split: option.splits)

end
