(* ===== verification/Lyrics.thy ===== *)
theory Lyrics
  imports Strings
begin

text \<open>
  Lyrics: reading the LRC format (\<^verbatim>\<open>catalog/lrc.rs\<close>), what the daemon hands on of them
  (\<^verbatim>\<open>lyrics\<close> of \<^verbatim>\<open>convert.rs\<close>), and the panel that follows the line being sung
  (\<^verbatim>\<open>phonia-tui/src/lyrics.rs\<close>). Seconds in \<^verbatim>\<open>f64\<close> are read as the reals; a conversion or an addition
  that does not fit a \<^verbatim>\<open>Duration\<close> panics, which is \<open>None\<close>.
\<close>

section \<open>Reading LRC\<close>

record lyric_line =
  ly_at :: duration
  ly_text :: string

text \<open>
  \<^verbatim>\<open>str::parse::<f64>\<close> where only a finite result counts: an optional sign, digits with at most one
  point, an optional exponent. What is at least \<open>2 ^ 1024\<close> is read as infinite.
\<close>

definition parse_sign :: "string \<Rightarrow> bool \<times> string" where
  "parse_sign s =
     (case s of c # cs \<Rightarrow> if c = CHR ''-'' then (True, cs) else if c = CHR ''+'' then (False, cs) else (False, s)
      | [] \<Rightarrow> (False, s))"

definition is_exponent_mark :: "char \<Rightarrow> bool" where
  "is_exponent_mark c \<longleftrightarrow> c = CHR ''e'' \<or> c = CHR ''E''"

definition parse_exponent :: "string \<Rightarrow> real option" where
  "parse_exponent s =
     (case s of
        [] \<Rightarrow> Some 1
      | c # cs \<Rightarrow>
          let (negative, ds) = parse_sign cs
          in if ds = [] \<or> \<not> list_all is_digit ds then None
             else Some (if negative then 1 / 10 ^ digits_value ds else 10 ^ digits_value ds))"

definition parse_finite :: "string \<Rightarrow> real option" where
  "parse_finite s =
     (let (negative, u) = parse_sign s;
          mantissa = takeWhile (\<lambda>c. \<not> is_exponent_mark c) u;
          rest = dropWhile (\<lambda>c. \<not> is_exponent_mark c) u
      in case (parse_decimal mantissa, parse_exponent rest) of
           (Some m, Some e) \<Rightarrow>
             if 2 ^ 1024 \<le> m * e then None else Some (if negative then - (m * e) else m * e)
         | _ \<Rightarrow> None)"

datatype timestamp = NoTimestamp | At duration | TimestampPanics

definition parse_timestamp :: "string \<Rightarrow> timestamp" where
  "parse_timestamp tag =
     (case split_once '':'' tag of
        None \<Rightarrow> NoTimestamp
      | Some (minutes, seconds) \<Rightarrow>
          (case (parse_nat_upto u64_max minutes, parse_finite seconds) of
             (Some m, Some s) \<Rightarrow>
               if s < 0 then NoTimestamp
               else (case duration_from_secs (real m * 60 + s) of
                       Some d \<Rightarrow> At d
                     | None \<Rightarrow> TimestampPanics)
           | _ \<Rightarrow> NoTimestamp))"

text \<open>The tags a line starts with, and the rest.\<close>

function leading_tags :: "string \<Rightarrow> string list \<times> string" where
  "leading_tags s =
     (case strip_prefix ''['' s of
        None \<Rightarrow> ([], s)
      | Some after \<Rightarrow>
          (case split_once '']'' after of
             None \<Rightarrow> ([], s)
           | Some (tag, rest) \<Rightarrow> (let (tags, rest) = leading_tags rest in (tag # tags, rest))))"
  by pat_completeness auto
termination leading_tags
  by (relation "measure length") (auto simp: strip_prefix_Some dest!: split_once_Some)

declare leading_tags.simps [simp del]

text \<open>\<^verbatim>\<open>i64\<close> of the offset tag, as a sign and a number of milliseconds.\<close>

definition parse_offset :: "string \<Rightarrow> (bool \<times> nat) option" where
  "parse_offset s =
     (let (negative, ds) = parse_sign s
      in if ds \<noteq> [] \<and> list_all is_digit ds \<and>
            digits_value ds \<le> (if negative then 9223372036854775808 else 9223372036854775807)
         then Some (negative \<and> 0 < digits_value ds, digits_value ds) else None)"

record lrc_state =
  lr_offset :: duration
  lr_negative :: bool
  lr_lines :: "lyric_line list"

fun read_tags :: "string list \<Rightarrow> lrc_state \<Rightarrow> (duration list \<times> lrc_state) option" where
  "read_tags [] s = Some ([], s)"
| "read_tags (tag # tags) s =
     (case strip_prefix ''offset:'' tag of
        Some v \<Rightarrow>
          (case parse_offset v of
             Some (negative, ms) \<Rightarrow> read_tags tags (s\<lparr>lr_negative := negative, lr_offset := millis ms\<rparr>)
           | None \<Rightarrow> read_tags tags s)
      | None \<Rightarrow>
          (case parse_timestamp tag of
             NoTimestamp \<Rightarrow> read_tags tags s
           | At d \<Rightarrow> map_option (\<lambda>(ds, s). (d # ds, s)) (read_tags tags s)
           | TimestampPanics \<Rightarrow> None))"

fun push_lines :: "string \<Rightarrow> duration list \<Rightarrow> lrc_state \<Rightarrow> lrc_state option" where
  "push_lines words [] s = Some s"
| "push_lines words (d # ds) s =
     (let at0 = (if lr_negative s then d - lr_offset s else d + lr_offset s)
      in if duration_max < at0 then None
         else push_lines words ds (s\<lparr>lr_lines := lr_lines s @ [\<lparr>ly_at = at0, ly_text = words\<rparr>]\<rparr>))"

definition trim_cr :: "string \<Rightarrow> string" where
  "trim_cr s = rev (dropWhile (\<lambda>c. c = CHR 0x0D) (rev s))"

definition read_line :: "string \<Rightarrow> lrc_state \<Rightarrow> lrc_state option" where
  "read_line raw s =
     (let (tags, rest) = leading_tags (trim_cr raw)
      in if tags = [] then Some s
         else Option.bind (read_tags tags s)
                (\<lambda>(ds, s). if ds = [] then Some s else push_lines (trim rest) ds s))"

fun read_lines :: "string list \<Rightarrow> lrc_state \<Rightarrow> lrc_state option" where
  "read_lines [] s = Some s"
| "read_lines (l # ls) s = Option.bind (read_line l s) (read_lines ls)"

definition parse_lrc :: "string \<Rightarrow> lyric_line list option" where
  "parse_lrc source =
     map_option (\<lambda>s. sort_key ly_at (lr_lines s))
       (read_lines (lines source) \<lparr>lr_offset = 0, lr_negative = False, lr_lines = []\<rparr>)"

section \<open>The panel\<close>

record ipc_lyric_line =
  il_at_ms :: nat
  il_text :: string

record lyrics =
  lx_lines :: "ipc_lyric_line list"
  lx_plain :: "string option"
  lx_right_to_left :: bool
  lx_provider :: "string option"

record catalog_lyrics =
  cy_lines :: "lyric_line list"
  cy_plain :: "string option"
  cy_right_to_left :: bool
  cy_provider :: "string option"

text \<open>\<^verbatim>\<open>ms\<close> of \<^verbatim>\<open>convert.rs\<close>: milliseconds, as many as fit.\<close>

definition convert_ms :: "duration \<Rightarrow> nat" where
  "convert_ms d = min (d div 1000000) u64_max"

definition convert_line :: "lyric_line \<Rightarrow> ipc_lyric_line" where
  "convert_line l = \<lparr>il_at_ms = convert_ms (ly_at l), il_text = ly_text l\<rparr>"

definition convert_lyrics :: "catalog_lyrics \<Rightarrow> lyrics" where
  "convert_lyrics l =
     \<lparr>lx_lines = map convert_line (cy_lines l), lx_plain = cy_plain l,
      lx_right_to_left = cy_right_to_left l, lx_provider = cy_provider l\<rparr>"

datatype phase = PhaseLoading | PhaseFailed string | PhaseDone

record lyrics_state =
  ls_id :: string
  ls_generation :: nat
  ls_phase :: phase
  ls_lyrics :: "lyrics option"
  ls_scroll :: "nat option"

text \<open>The state, and the id the request asks for.\<close>

definition lyrics_begin :: "string \<Rightarrow> nat \<Rightarrow> lyrics_state \<times> string" where
  "lyrics_begin i generation =
     (\<lparr>ls_id = i, ls_generation = generation, ls_phase = PhaseLoading, ls_lyrics = None, ls_scroll = None\<rparr>, i)"

definition lyrics_fail :: "string \<Rightarrow> lyrics_state \<Rightarrow> lyrics_state" where
  "lyrics_fail reason s = s\<lparr>ls_phase := PhaseFailed reason\<rparr>"

text \<open>The answer: \<open>None\<close> is a payload of another kind.\<close>

definition lyrics_finish :: "lyrics option option \<Rightarrow> lyrics_state \<Rightarrow> bool \<times> lyrics_state" where
  "lyrics_finish answer s =
     (case answer of
        None \<Rightarrow> (False, lyrics_fail ''the daemon answered something unexpected'' s)
      | Some l \<Rightarrow> (True, s\<lparr>ls_lyrics := l, ls_phase := PhaseDone\<rparr>))"

definition lyrics_connection_lost :: "lyrics_state \<Rightarrow> lyrics_state" where
  "lyrics_connection_lost s =
     (if ls_phase s = PhaseLoading
      then s\<lparr>ls_generation := ls_generation s + 1,
             ls_phase := PhaseFailed ''the connection to the daemon was lost''\<rparr>
      else s)"

definition tidal_id :: "string option \<Rightarrow> string option" where
  "tidal_id source = Option.bind source (strip_prefix ''tidal:'')"

text \<open>\<^verbatim>\<open>partition_point\<close> by binary search; on lines in order it is the length of what has passed.\<close>

definition current_line :: "ipc_lyric_line list \<Rightarrow> nat \<Rightarrow> nat option" where
  "current_line ls position_ms =
     (let n = length (takeWhile (\<lambda>l. il_at_ms l \<le> position_ms) ls)
      in if n = 0 then None else Some (n - 1))"

definition centered_first :: "nat option \<Rightarrow> nat \<Rightarrow> nat \<Rightarrow> nat" where
  "centered_first current len rows =
     (case current of
        None \<Rightarrow> 0
      | Some i \<Rightarrow> min (i - rows div 2) (len - rows))"

definition plain_lines :: "string \<Rightarrow> string list" where
  "plain_lines s = lines s"

definition shows_notice :: "lyrics \<Rightarrow> bool" where
  "shows_notice l \<longleftrightarrow> lx_lines l = [] \<and> lx_plain l \<noteq> None"

definition shows_footer :: "lyrics \<Rightarrow> bool" where
  "shows_footer l \<longleftrightarrow> lx_provider l \<noteq> None"

definition body_rows :: "lyrics \<Rightarrow> nat \<Rightarrow> nat" where
  "body_rows l panel_rows = panel_rows - (of_bool (shows_notice l) + of_bool (shows_footer l))"

definition auto_offset :: "lyrics \<Rightarrow> nat \<Rightarrow> nat \<Rightarrow> nat" where
  "auto_offset l position_ms rows =
     (if lx_lines l = [] then 0
      else centered_first (current_line (lx_lines l) position_ms) (length (lx_lines l)) rows)"

definition max_scroll :: "lyrics \<Rightarrow> nat \<Rightarrow> nat" where
  "max_scroll l rows =
     (let len = (if lx_lines l = []
                 then length (plain_lines (case lx_plain l of Some s \<Rightarrow> s | None \<Rightarrow> []))
                 else length (lx_lines l))
      in len - rows)"

section \<open>Lemmas\<close>

lemma parse_lrc_sorted: "parse_lrc source = Some ls \<Longrightarrow> sorted (map ly_at ls)"
  by (auto simp: parse_lrc_def)

lemma passed_prefix:
  assumes "sorted (map f xs)"
  shows "i < length xs \<Longrightarrow> i < length (takeWhile (\<lambda>x. f x \<le> (p :: nat)) xs) \<longleftrightarrow> f (xs ! i) \<le> p"
proof
  assume "i < length (takeWhile (\<lambda>x. f x \<le> p) xs)"
  then have "xs ! i \<in> set (takeWhile (\<lambda>x. f x \<le> p) xs)"
    using takeWhile_nth nth_mem by metis
  then show "f (xs ! i) \<le> p" by (auto dest: set_takeWhileD)
next
  assume i: "i < length xs" "f (xs ! i) \<le> p"
  show "i < length (takeWhile (\<lambda>x. f x \<le> p) xs)"
  proof (rule ccontr)
    let ?n = "length (takeWhile (\<lambda>x. f x \<le> p) xs)"
    assume "\<not> i < ?n"
    then have "?n < length xs" "?n \<le> i" using i by auto
    then have "\<not> f (xs ! ?n) \<le> p" "f (xs ! ?n) \<le> f (xs ! i)"
      using nth_length_takeWhile [of "\<lambda>x. f x \<le> p" xs] sorted_nth_mono [OF assms, of ?n i] i by auto
    then show False using i(2) by simp
  qed
qed

text \<open>
  For lyrics read from LRC, the line being sung is the last one whose time has passed, none
  before the first; and the offset the panel scrolls to by itself keeps that line on screen and
  does not scroll past the end.
\<close>

theorem sung_line_on_screen:
  assumes "parse_lrc source = Some ls" and "cy_lines found = ls" and "\<And>l. l \<in> set ls \<Longrightarrow> ly_at l div 1000000 \<le> u64_max"
    and "0 < rows"
  defines "shown \<equiv> convert_lyrics found"
  shows "auto_offset shown position_ms rows \<le> max_scroll shown rows \<and>
    (case current_line (lx_lines shown) position_ms of
       None \<Rightarrow> ls = [] \<or> position_ms < ly_at (ls ! 0) div 1000000
     | Some i \<Rightarrow>
         i < length ls \<and> ly_at (ls ! i) div 1000000 \<le> position_ms \<and>
         (i + 1 = length ls \<or> position_ms < ly_at (ls ! (i + 1)) div 1000000) \<and>
         auto_offset shown position_ms rows \<le> i \<and> i < auto_offset shown position_ms rows + rows)"
proof -
  let ?ls = "lx_lines shown"
  have ls: "?ls = map convert_line ls" by (simp add: shown_def convert_lyrics_def assms(2))
  have at_: "il_at_ms (?ls ! i) = ly_at (ls ! i) div 1000000" if "i < length ls" for i
    using that assms(3) [of "ls ! i"] by (simp add: ls convert_line_def convert_ms_def)
  have "sorted (map (\<lambda>l. ly_at l div 1000000) ls)"
    using parse_lrc_sorted [OF assms(1)] by (auto simp: sorted_iff_nth_mono intro: div_le_mono)
  moreover have "map il_at_ms ?ls = map (\<lambda>l. ly_at l div 1000000) ls"
    by (rule nth_equalityI) (use ls at_ in \<open>auto simp: ls\<close>)
  ultimately have sorted: "sorted (map il_at_ms ?ls)" by simp
  note passed = passed_prefix [OF sorted, where p = position_ms]
  have len: "length ?ls = length ls" by (simp add: ls)
  let ?n = "length (takeWhile (\<lambda>l. il_at_ms l \<le> position_ms) ?ls)"
  have n: "?n \<le> length ls" using length_takeWhile_le [of _ ?ls] len by metis
  show ?thesis
  proof (cases "?n = 0")
    case True
    then have "ls = [] \<or> position_ms < ly_at (ls ! 0) div 1000000"
      using passed [of 0] at_ [of 0] len by (cases ls) auto
    then show ?thesis using True by (simp add: current_line_def auto_offset_def centered_first_def)
  next
    case False
    then obtain i where i: "?n = Suc i" by (metis not0_implies_Suc)
    then have c: "current_line ?ls position_ms = Some i" by (simp add: current_line_def)
    have "i < length ls" "ly_at (ls ! i) div 1000000 \<le> position_ms"
      using i n passed [of i] at_ [of i] len by auto
    moreover have "i + 1 = length ls \<or> position_ms < ly_at (ls ! (i + 1)) div 1000000"
    proof (cases "i + 1 < length ls")
      case True
      then show ?thesis using i passed [of "i + 1"] at_ [of "i + 1"] len by simp
    next
      case False
      then show ?thesis using i n by simp
    qed
    moreover have "?ls \<noteq> []" using \<open>i < length ls\<close> len by auto
    ultimately show ?thesis
      using c assms(4) len by (auto simp: auto_offset_def centered_first_def max_scroll_def min_def)
  qed
qed

lemma demo_lrc:
  "parse_lrc ''[00:02]b[ar:x]'' = Some [\<lparr>ly_at = 2000000000, ly_text = ''b[ar:x]''\<rparr>]"
  by (simp add: parse_lrc_def read_line_def trim_cr_def leading_tags.simps parse_timestamp_def parse_finite_def
      parse_sign_def parse_exponent_def parse_decimal_def is_exponent_mark_def duration_from_secs_def
      duration_max_def nanos_per_sec_def str_eval)

lemma sung_line_on_screen_witness:
  "current_line (lx_lines (convert_lyrics \<lparr>cy_lines = [\<lparr>ly_at = 2000000000, ly_text = ''b[ar:x]''\<rparr>],
     cy_plain = None, cy_right_to_left = False, cy_provider = None\<rparr>)) 2500 = Some 0"
proof -
  let ?l = "\<lparr>cy_lines = [\<lparr>ly_at = 2000000000, ly_text = ''b[ar:x]''\<rparr>],
     cy_plain = None, cy_right_to_left = False, cy_provider = None\<rparr>"
  show ?thesis
    using sung_line_on_screen [OF demo_lrc, of ?l 5 2500]
    by (auto simp: u64_max_def split: option.splits)
qed

end
