(* ===== verification/Wire.thy ===== *)
theory Wire
  imports Lyrics
begin

text \<open>
  What travels between the daemon and its clients (\<^verbatim>\<open>phonia-ipc/src/dto.rs\<close> and \<^verbatim>\<open>proto.rs\<close>): the data of
  playback, the queue and the catalog, and the messages. Times are milliseconds. The lyrics' types
  are in \<open>Lyrics\<close>.
\<close>

section \<open>Playback and the queue\<close>

datatype ipc_state = Ipc_Stopped | Ipc_Loading | Ipc_Playing | Ipc_Paused | Ipc_Seeking

record ipc_spec =
  is_sample_rate :: nat
  is_channels :: nat
  is_bits_per_sample :: nat

datatype ipc_quality = Ipc_Low | Ipc_High | Ipc_Lossless | Ipc_Hires | Ipc_QualityUnknown

text \<open>The derived order, in which \<^verbatim>\<open>Unknown\<close> is the greatest.\<close>

fun ipc_quality_rank :: "ipc_quality \<Rightarrow> nat" where
  "ipc_quality_rank Ipc_Low = 0"
| "ipc_quality_rank Ipc_High = 1"
| "ipc_quality_rank Ipc_Lossless = 2"
| "ipc_quality_rank Ipc_Hires = 3"
| "ipc_quality_rank Ipc_QualityUnknown = 4"

lemma ipc_quality_rank_inject [simp]: "ipc_quality_rank a = ipc_quality_rank b \<longleftrightarrow> a = b"
  by (cases a; cases b) simp_all

instantiation ipc_quality :: linorder
begin

definition less_eq_ipc_quality :: "ipc_quality \<Rightarrow> ipc_quality \<Rightarrow> bool" where
  "less_eq_ipc_quality a b \<longleftrightarrow> ipc_quality_rank a \<le> ipc_quality_rank b"

definition less_ipc_quality :: "ipc_quality \<Rightarrow> ipc_quality \<Rightarrow> bool" where
  "less_ipc_quality a b \<longleftrightarrow> ipc_quality_rank a < ipc_quality_rank b"

instance
proof
  fix a b c :: ipc_quality
  show "a < b \<longleftrightarrow> a \<le> b \<and> \<not> b \<le> a" by (auto simp: less_eq_ipc_quality_def less_ipc_quality_def)
  show "a \<le> a" by (simp add: less_eq_ipc_quality_def)
  show "a \<le> b \<Longrightarrow> b \<le> c \<Longrightarrow> a \<le> c" by (simp add: less_eq_ipc_quality_def)
  show "a \<le> b \<Longrightarrow> b \<le> a \<Longrightarrow> a = b" by (simp add: less_eq_ipc_quality_def)
  show "a \<le> b \<or> b \<le> a" by (auto simp: less_eq_ipc_quality_def)
qed

end

fun show_ipc_quality :: "ipc_quality \<Rightarrow> string" where
  "show_ipc_quality Ipc_Hires = ''hires''"
| "show_ipc_quality Ipc_Lossless = ''lossless''"
| "show_ipc_quality Ipc_High = ''high''"
| "show_ipc_quality Ipc_Low = ''low''"
| "show_ipc_quality Ipc_QualityUnknown = ''unknown''"

definition parse_ipc_quality :: "string \<Rightarrow> string + ipc_quality" where
  "parse_ipc_quality text0 =
     (if text0 = ''hires'' then Inr Ipc_Hires
      else if text0 = ''lossless'' then Inr Ipc_Lossless
      else if text0 = ''high'' then Inr Ipc_High
      else if text0 = ''low'' then Inr Ipc_Low
      else Inl (''unknown quality '' @ debug_str text0 @ '': expected hires, lossless, high or low''))"

record stream_quality =
  sq_requested :: ipc_quality
  sq_delivered :: ipc_quality

definition stream_fell_back :: "stream_quality \<Rightarrow> bool" where
  "stream_fell_back q \<longleftrightarrow>
     sq_delivered q \<noteq> Ipc_QualityUnknown \<and> sq_requested q \<noteq> Ipc_QualityUnknown \<and>
     sq_delivered q < sq_requested q"

record quality_range =
  qr_max :: ipc_quality
  qr_min :: ipc_quality

datatype ipc_gain_kind = Ipc_GainTrack | Ipc_GainAlbum

record ipc_replay_gain =
  ig_kind :: ipc_gain_kind
  ig_millibels :: int

record ipc_track =
  it_item_id :: "nat option"
  it_source :: "string option"
  it_title :: "string option"
  it_artist :: "string option"
  it_duration_ms :: "nat option"
  it_quality :: "stream_quality option"
  it_cover :: "string option"
  it_replay_gain :: "ipc_replay_gain option"

record ipc_volume =
  iv_percent :: nat
  iv_muted :: bool

datatype ipc_output_mode = Ipc_Exclusive | Ipc_Shared | Ipc_ModeUnknown

record route =
  ro_id :: string
  ro_mode :: ipc_output_mode
  ro_description :: string

record output_info =
  oi_id :: string
  oi_mode :: ipc_output_mode
  oi_name :: string
  oi_detail :: "string option"
  oi_bit_perfect :: bool
  oi_lossy :: bool
  oi_codec :: "string option"
  oi_is_default :: bool

datatype ipc_output = Ipc_Closed | Ipc_Open | Ipc_Released "string option"

datatype ipc_release_reason = Ipc_Idle | Ipc_Command | Ipc_Requested | Ipc_Lost | Ipc_ReasonUnknown

record ipc_sink_report =
  ir_device :: string
  ir_source :: ipc_spec
  ir_format :: string
  ir_bit_perfect :: bool
  ir_problem :: "string option"
  ir_hw_params :: "string option"
  ir_mode :: "ipc_output_mode option"
  ir_resampled_to :: "nat option"
  ir_codec :: "string option"
  ir_lossy :: bool
  ir_output :: "string option"

record ipc_status =
  iu_state :: ipc_state
  iu_track :: "ipc_track option"
  iu_spec :: "ipc_spec option"
  iu_position_ms :: nat
  iu_duration_ms :: "nat option"
  iu_output :: ipc_output
  iu_route :: "route option"
  iu_volume :: "ipc_volume option"
  iu_quality_range :: "quality_range option"
  iu_sink_report :: "ipc_sink_report option"

definition applies_to :: "ipc_status \<Rightarrow> ipc_sink_report \<Rightarrow> bool" where
  "applies_to status r \<longleftrightarrow>
     iu_spec status = Some (ir_source r) \<and>
     (case (ir_output r, iu_route status) of
        (Some report_output, Some route) \<Rightarrow> report_output = ro_id route
      | _ \<Rightarrow> True)"

record ipc_queue_item =
  iq_id :: nat
  iq_source :: string
  iq_title :: "string option"
  iq_artist :: "string option"
  iq_duration_ms :: "nat option"
  iq_cover :: "string option"
  iq_album_id :: "string option"
  iq_artist_id :: "string option"
  iq_album :: "string option"

record ipc_played_track =
  ip_source :: string
  ip_title :: "string option"
  ip_artist :: "string option"
  ip_duration_ms :: "nat option"
  ip_cover :: "string option"
  ip_played_at_ms :: nat
  ip_artist_id :: "string option"
  ip_album_id :: "string option"
  ip_album :: "string option"

datatype ipc_repeat = Ipc_RepeatOff | Ipc_RepeatOne | Ipc_RepeatAll

record ipc_queue =
  ix_version :: nat
  ix_items :: "ipc_queue_item list"
  ix_order :: "nat list"
  ix_current :: "nat option"
  ix_shuffle :: bool
  ix_repeat :: ipc_repeat
  ix_autoplay :: bool

datatype ipc_end_reason = Ipc_Completed | Ipc_Interrupted | Ipc_Failed

section \<open>The catalog\<close>

datatype catalog_kind = Ipc_Tracks | Ipc_Albums | Ipc_Artists | Ipc_Playlists | Ipc_KindUnknown

record ipc_artist_ref =
  ia_id :: string
  ia_name :: string

record ipc_album_ref =
  ib_id :: string
  ib_title :: string
  ib_cover :: "string option"

record track_summary =
  su_id :: string
  su_title :: string
  su_version :: "string option"
  su_artists :: "ipc_artist_ref list"
  su_album :: "ipc_album_ref option"
  su_duration_ms :: "nat option"
  su_explicit :: bool
  su_track_number :: "nat option"
  su_volume_number :: "nat option"
  su_quality :: "ipc_quality option"
  su_streamable :: bool

datatype ipc_album_kind = Ipc_Album | Ipc_Ep | Ipc_Single | Ipc_AlbumKindUnknown

record album_summary =
  sa_id :: string
  sa_title :: string
  sa_version :: "string option"
  sa_artists :: "ipc_artist_ref list"
  sa_release_date :: "string option"
  sa_track_count :: "nat option"
  sa_duration_ms :: "nat option"
  sa_explicit :: bool
  sa_quality :: "ipc_quality option"
  sa_kind :: "ipc_album_kind option"
  sa_copyright :: "string option"
  sa_cover :: "string option"

record artist_summary =
  sm_id :: string
  sm_name :: string
  sm_picture :: "string option"

record playlist_summary =
  sp_id :: string
  sp_title :: string
  sp_creator :: "string option"
  sp_description :: "string option"
  sp_track_count :: "nat option"
  sp_duration_ms :: "nat option"
  sp_cover :: "string option"

record 'a page =
  pg_items :: "'a list"
  pg_total :: nat
  pg_offset :: nat

datatype catalog_ref =
    RefAlbum string
  | RefPlaylist string
  | RefArtistTopTracks string
  | RefFavoriteTracks
  | RefTrackRadio string
  | RefUnknown

datatype album_list_ref =
    ListArtistAlbums string
  | ListArtistSingles string
  | ListFavoriteAlbums
  | ListRecommendedAlbums
  | ListAlbumsUnknown

datatype artist_list_ref = ListFavoriteArtists | ListArtistsUnknown

datatype playlist_list_ref = ListMine | ListPlaylistsUnknown

datatype folder_entry = EntryFolder string string nat | EntryPlaylist playlist_summary | EntryUnknown

section \<open>The messages\<close>

record protocol_version =
  pv_major :: nat
  pv_minor :: nat

definition protocol :: protocol_version where
  "protocol = \<lparr>pv_major = 1, pv_minor = 22\<rparr>"

definition compatible_with :: "protocol_version \<Rightarrow> protocol_version \<Rightarrow> bool" where
  "compatible_with a b \<longleftrightarrow> pv_major a = pv_major b"

record server_hello =
  sh_protocol :: protocol_version
  sh_server :: "string \<times> string \<times> nat"
  sh_capabilities :: "string list"

datatype ipc_seek_target = Ipc_Absolute nat | Ipc_Forward nat | Ipc_Backward nat

datatype add_at = AddEnd | AddNext | AddIndex nat

datatype request =
    ReqHello protocol_version "string \<times> string"
  | ReqStatus
  | ReqQueue
  | ReqSubscribe
  | ReqUnsubscribe
  | ReqPlay "nat option"
  | ReqStop
  | ReqPause
  | ReqResume
  | ReqTogglePause
  | ReqNext
  | ReqPrevious
  | ReqSeek ipc_seek_target
  | ReqRelease
  | ReqOutputs
  | ReqSetOutput string
  | ReqSetVolume nat
  | ReqSetMute bool
  | ReqSetMaxQuality ipc_quality
  | ReqSearch string "catalog_kind list" nat "nat option"
  | ReqAlbum string "nat option"
  | ReqArtist string "nat option"
  | ReqTracks catalog_ref nat "nat option"
  | ReqAlbums album_list_ref nat "nat option"
  | ReqArtists artist_list_ref nat "nat option"
  | ReqPlaylists playlist_list_ref nat "nat option"
  | ReqLibrary "nat option"
  | ReqRecentlyPlayed
  | ReqLyrics string
  | ReqPlaylistFolder "string option" nat "nat option"
  | ReqQueueAddFrom catalog_ref add_at
  | ReqQueueAdd "string list" add_at
  | ReqQueueRemove "nat list"
  | ReqQueueMove nat nat
  | ReqQueueClear
  | ReqSetShuffle bool
  | ReqSetRepeat ipc_repeat
  | ReqSetAutoplay bool
  | ReqSetFavorite catalog_kind string bool
  | ReqShutdown
  | ReqUnknown

datatype error_code =
    ErrUnsupportedVersion
  | ErrHandshakeRequired
  | ErrUnknownRequest
  | ErrBadRequest
  | ErrBadSource
  | ErrNotFound
  | ErrUnsupported
  | ErrNotLoggedIn
  | ErrUnavailable
  | ErrRateLimited
  | ErrEngineGone
  | ErrInternal
  | ErrUnknown

record protocol_error =
  pe_code :: error_code
  pe_message :: string

record rejected =
  rj_source :: string
  rj_reason :: string

record unresolved =
  un_id :: nat
  un_reason :: string

datatype reply_payload =
    PayAck
  | PayStatus ipc_status
  | PayQueue ipc_queue
  | PayAdded "nat list" "rejected list" "unresolved list"
  | PayRemoved nat
  | PayOutputs "output_info list" "string option"
  | PaySearchResults string "track_summary page option" "album_summary page option"
      "artist_summary page option" "playlist_summary page option"
  | PayAlbum album_summary "track_summary page"
  | PayArtist artist_summary "string option" "track_summary page" "album_summary page"
      "album_summary page" "artist_summary page option"
  | PayTracks catalog_ref "track_summary page"
  | PayAlbums album_list_ref "album_summary page"
  | PayArtists artist_list_ref "artist_summary page"
  | PayPlaylists playlist_list_ref "playlist_summary page"
  | PayLibrary "track_summary page" "album_summary page" "playlist_summary page"
  | PayRecentlyPlayed "ipc_played_track list"
  | PayLyrics string "lyrics option"
  | PayPlaylistFolder "string option" "folder_entry page"
  | PaySnapshot nat ipc_status ipc_queue
  | PayUnknown

datatype reply = ReplyOk reply_payload | ReplyErr protocol_error

record ipc_started =
  ie_item_id :: "nat option"
  ie_source :: "string option"
  ie_title :: "string option"
  ie_artist :: "string option"
  ie_duration_ms :: "nat option"
  ie_spec :: ipc_spec
  ie_gapless :: bool
  ie_quality :: "stream_quality option"
  ie_cover :: "string option"
  ie_replay_gain :: "ipc_replay_gain option"

datatype ipc_event =
    Ev_StateChanged ipc_state
  | Ev_TrackStarted ipc_started
  | Ev_TrackEnded "nat option" ipc_end_reason
  | Ev_Position nat "nat option"
  | Ev_Seeked nat
  | Ev_SeekRejected string
  | Ev_QueueChanged ipc_queue
  | Ev_RecentlyPlayedChanged "ipc_played_track list"
  | Ev_QueueExhausted
  | Ev_OutputReleased "string option" ipc_release_reason
  | Ev_OutputAcquired
  | Ev_OutputChanged route
  | Ev_OutputsChanged
  | Ev_VolumeChanged nat bool
  | Ev_MaxQualityChanged ipc_quality
  | Ev_SinkReport ipc_sink_report
  | Ev_Error string
  | Ev_ShuttingDown
  | Ev_Resync nat nat ipc_status ipc_queue
  | Ev_Unknown

datatype server_message =
    MsgHello server_hello
  | MsgResponse nat reply
  | MsgEvent nat ipc_event

end
