(* ===== verification/Tui_Lists.thy ===== *)
theory Tui_Lists
  imports Wire
begin

text \<open>
  What the terminal interface moves about in: the selected row of a list (\<^verbatim>\<open>cursor.rs\<close>), a list loaded
  a page at a time (\<^verbatim>\<open>list.rs\<close>) and a line of text being typed (\<^verbatim>\<open>input.rs\<close>). A character is its code
  point; a Rust string is indexed by bytes, and an index that is not between two characters panics,
  which is \<open>None\<close> here.
\<close>

section \<open>The cursor\<close>

record cursor =
  cu_selected :: nat
  cu_scroll :: nat
  cu_anchor :: "nat option"

definition cursor_new :: cursor where
  "cursor_new = \<lparr>cu_selected = 0, cu_scroll = 0, cu_anchor = None\<rparr>"

definition cursor_set_scroll :: "nat \<Rightarrow> cursor \<Rightarrow> cursor" where
  "cursor_set_scroll n c = c\<lparr>cu_scroll := n\<rparr>"

definition cursor_down :: "nat \<Rightarrow> cursor \<Rightarrow> cursor" where
  "cursor_down len c = c\<lparr>cu_selected := min (cu_selected c + 1) (len - 1)\<rparr>"

definition cursor_up :: "cursor \<Rightarrow> cursor" where
  "cursor_up c = c\<lparr>cu_selected := cu_selected c - 1\<rparr>"

definition cursor_first :: "cursor \<Rightarrow> cursor" where
  "cursor_first c = c\<lparr>cu_selected := 0\<rparr>"

definition cursor_last :: "nat \<Rightarrow> cursor \<Rightarrow> cursor" where
  "cursor_last len c = c\<lparr>cu_selected := len - 1\<rparr>"

definition cursor_page_down :: "nat \<Rightarrow> nat \<Rightarrow> cursor \<Rightarrow> cursor" where
  "cursor_page_down len rows c = c\<lparr>cu_selected := min (cu_selected c + rows) (len - 1)\<rparr>"

definition cursor_page_up :: "nat \<Rightarrow> cursor \<Rightarrow> cursor" where
  "cursor_page_up rows c = c\<lparr>cu_selected := cu_selected c - rows\<rparr>"

definition cursor_select :: "nat \<Rightarrow> nat \<Rightarrow> cursor \<Rightarrow> cursor" where
  "cursor_select index len c = c\<lparr>cu_selected := min index (len - 1)\<rparr>"

definition cursor_clamp :: "nat \<Rightarrow> cursor \<Rightarrow> cursor" where
  "cursor_clamp len c =
     c\<lparr>cu_selected := min (cu_selected c) (len - 1),
       cu_anchor := (if 0 < len then map_option (\<lambda>a. min a (len - 1)) (cu_anchor c) else None)\<rparr>"

definition cursor_toggle_visual :: "cursor \<Rightarrow> cursor" where
  "cursor_toggle_visual c =
     c\<lparr>cu_anchor := (case cu_anchor c of Some _ \<Rightarrow> None | None \<Rightarrow> Some (cu_selected c))\<rparr>"

definition cursor_end_visual :: "cursor \<Rightarrow> cursor" where
  "cursor_end_visual c = c\<lparr>cu_anchor := None\<rparr>"

definition cursor_visual :: "cursor \<Rightarrow> bool" where
  "cursor_visual c \<longleftrightarrow> cu_anchor c \<noteq> None"

text \<open>The first and the last of the marked rows.\<close>

definition cursor_marked :: "cursor \<Rightarrow> nat \<times> nat" where
  "cursor_marked c =
     (let anchor = (case cu_anchor c of Some a \<Rightarrow> a | None \<Rightarrow> cu_selected c)
      in (min anchor (cu_selected c), max anchor (cu_selected c)))"

definition shift_row :: "nat \<Rightarrow> bool \<Rightarrow> nat" where
  "shift_row row down = (if down then row + 1 else row - 1)"

definition cursor_slide :: "bool \<Rightarrow> cursor \<Rightarrow> cursor" where
  "cursor_slide down c =
     c\<lparr>cu_selected := shift_row (cu_selected c) down,
       cu_anchor := map_option (\<lambda>row. shift_row row down) (cu_anchor c)\<rparr>"

definition cursor_in :: "nat \<Rightarrow> cursor \<Rightarrow> bool" where
  "cursor_in len c \<longleftrightarrow> cu_selected c \<le> len - 1 \<and> (\<forall>a \<in> set_option (cu_anchor c). a < len)"

lemma cursor_in_moves [simp]:
  "cursor_in len cursor_new"
  "cursor_in len c \<Longrightarrow> cursor_in len (cursor_down len c)" "cursor_in len c \<Longrightarrow> cursor_in len (cursor_up c)"
  "cursor_in len c \<Longrightarrow> cursor_in len (cursor_first c)" "cursor_in len c \<Longrightarrow> cursor_in len (cursor_last len c)"
  "cursor_in len c \<Longrightarrow> cursor_in len (cursor_page_down len rows c)"
  "cursor_in len c \<Longrightarrow> cursor_in len (cursor_page_up rows c)"
  "cursor_in len c \<Longrightarrow> cursor_in len (cursor_select index len c)" "cursor_in len (cursor_clamp len c)"
  "cursor_in len c \<Longrightarrow> cursor_in len (cursor_end_visual c)" "cursor_in len c \<Longrightarrow> cursor_in len (cursor_set_scroll n c)"
  "cursor_in len c \<Longrightarrow> 0 < len \<Longrightarrow> cursor_in len (cursor_toggle_visual c)"
  by (auto simp: cursor_in_def cursor_new_def cursor_down_def cursor_up_def cursor_first_def cursor_last_def
      cursor_page_down_def cursor_page_up_def cursor_select_def cursor_clamp_def cursor_end_visual_def
      cursor_set_scroll_def cursor_toggle_visual_def split: option.splits)

text \<open>Sliding keeps the size of the block when neither end is at an edge.\<close>

lemma slide_block:
  assumes "down \<or> 0 < fst (cursor_marked c)"
  shows "cursor_marked (cursor_slide down c)
    = (shift_row (fst (cursor_marked c)) down, shift_row (snd (cursor_marked c)) down)"
  using assms
  by (auto simp: cursor_marked_def cursor_slide_def shift_row_def Let_def min_def max_def split: option.splits)

section \<open>A list that grows\<close>

definition list_prefetch :: nat where
  "list_prefetch = 10"

record 'a found =
  fd_items :: "'a list"
  fd_total :: nat
  fd_cursor :: cursor
  fd_loading :: bool

definition found_new :: "'a found" where
  "found_new = \<lparr>fd_items = [], fd_total = 0, fd_cursor = cursor_new, fd_loading = False\<rparr>"

definition from_page :: "'a page \<Rightarrow> 'a found" where
  "from_page p = \<lparr>fd_items = pg_items p, fd_total = pg_total p, fd_cursor = cursor_new, fd_loading = False\<rparr>"

definition next_offset :: "'a found \<Rightarrow> nat option \<times> 'a found" where
  "next_offset f =
     (let loaded = length (fd_items f);
          near_the_end = (loaded \<le> cu_selected (fd_cursor f) + list_prefetch)
      in if fd_loading f \<or> \<not> near_the_end \<or> fd_total f \<le> loaded then (None, f)
         else (Some (loaded mod (u32_max + 1)), f\<lparr>fd_loading := True\<rparr>))"

definition append_page :: "'a page option \<Rightarrow> 'a found \<Rightarrow> 'a found" where
  "append_page page f =
     (let f = f\<lparr>fd_loading := False\<rparr>
      in case page of
           Some p \<Rightarrow>
             if pg_items p \<noteq> []
             then f\<lparr>fd_items := fd_items f @ pg_items p, fd_total := max (fd_total f) (pg_total p)\<rparr>
             else f\<lparr>fd_total := length (fd_items f)\<rparr>
         | None \<Rightarrow> f\<lparr>fd_total := length (fd_items f)\<rparr>)"

text \<open>A page is asked for once at a time; one with nothing in it is the last.\<close>

lemma asks_once: "next_offset f = (Some offset, f') \<Longrightarrow> fst (next_offset f') = None"
  by (auto simp: next_offset_def Let_def split: if_splits)

lemma empty_page_ends: "page = None \<or> (\<exists>p. page = Some p \<and> pg_items p = []) \<Longrightarrow>
    fst (next_offset ((append_page page f)\<lparr>fd_cursor := c\<rparr>)) = None"
  by (auto simp: next_offset_def append_page_def Let_def)

lemma found_grows:
  "cursor_in (length (fd_items f)) (fd_cursor f) \<Longrightarrow>
     cursor_in (length (fd_items (append_page page f))) (fd_cursor (append_page page f)) \<and>
     take (length (fd_items f)) (fd_items (append_page page f)) = fd_items f"
  by (auto simp: append_page_def cursor_in_def Let_def split: option.splits)

section \<open>A line being typed\<close>

type_synonym ucs = nat

definition utf8_len :: "ucs \<Rightarrow> nat" where
  "utf8_len c = (if c < 128 then 1 else if c < 2048 then 2 else if c < 65536 then 3 else 4)"

definition is_whitespace :: "ucs \<Rightarrow> bool" where
  "is_whitespace c \<longleftrightarrow>
     (9 \<le> c \<and> c \<le> 13) \<or> c = 32 \<or> c = 133 \<or> c = 160 \<or> c = 5760 \<or> (8192 \<le> c \<and> c \<le> 8202) \<or>
     c = 8232 \<or> c = 8233 \<or> c = 8239 \<or> c = 8287 \<or> c = 12288"

record text_input =
  ti_text :: "ucs list"
  ti_cursor :: nat

definition input_new :: text_input where
  "input_new = \<lparr>ti_text = [], ti_cursor = 0\<rparr>"

definition byte_len :: "ucs list \<Rightarrow> nat" where
  "byte_len s = sum_list (map utf8_len s)"

text \<open>The offset of the character at \<open>n\<close>; the length of the text when there is none.\<close>

definition byte_at :: "nat \<Rightarrow> text_input \<Rightarrow> nat" where
  "byte_at n t = byte_len (take n (ti_text t))"

text \<open>The character that starts at a byte offset, as an index; \<open>None\<close> inside a character or out of range.\<close>

fun char_index :: "nat \<Rightarrow> ucs list \<Rightarrow> nat option" where
  "char_index 0 s = Some 0"
| "char_index (Suc b) [] = None"
| "char_index (Suc b) (c # s) =
     (if Suc b < utf8_len c then None else map_option Suc (char_index (Suc b - utf8_len c) s))"

definition str_insert :: "nat \<Rightarrow> ucs \<Rightarrow> ucs list \<Rightarrow> ucs list option" where
  "str_insert b c s = map_option (\<lambda>i. take i s @ c # drop i s) (char_index b s)"

text \<open>\<^verbatim>\<open>String::remove\<close> also panics at the end of the text.\<close>

definition str_remove :: "nat \<Rightarrow> ucs list \<Rightarrow> ucs list option" where
  "str_remove b s =
     Option.bind (char_index b s)
       (\<lambda>i. if i < length s then Some (take i s @ drop (Suc i) s) else None)"

definition str_remove_range :: "nat \<Rightarrow> nat \<Rightarrow> ucs list \<Rightarrow> ucs list option" where
  "str_remove_range a b s =
     Option.bind (char_index a s)
       (\<lambda>i. Option.bind (char_index b s)
         (\<lambda>j. if i \<le> j then Some (take i s @ drop j s) else None))"

definition input_insert :: "ucs \<Rightarrow> text_input \<Rightarrow> text_input option" where
  "input_insert c t =
     map_option (\<lambda>s. t\<lparr>ti_text := s, ti_cursor := ti_cursor t + 1\<rparr>)
       (str_insert (byte_at (ti_cursor t) t) c (ti_text t))"

definition input_backspace :: "text_input \<Rightarrow> text_input option" where
  "input_backspace t =
     (if ti_cursor t = 0 then Some t
      else let t = t\<lparr>ti_cursor := ti_cursor t - 1\<rparr>
           in map_option (\<lambda>s. t\<lparr>ti_text := s\<rparr>) (str_remove (byte_at (ti_cursor t) t) (ti_text t)))"

definition input_delete :: "text_input \<Rightarrow> text_input option" where
  "input_delete t =
     (if ti_cursor t < length (ti_text t)
      then map_option (\<lambda>s. t\<lparr>ti_text := s\<rparr>) (str_remove (byte_at (ti_cursor t) t) (ti_text t))
      else Some t)"

definition input_left :: "text_input \<Rightarrow> text_input" where
  "input_left t = t\<lparr>ti_cursor := ti_cursor t - 1\<rparr>"

definition input_right :: "text_input \<Rightarrow> text_input" where
  "input_right t = t\<lparr>ti_cursor := min (ti_cursor t + 1) (length (ti_text t))\<rparr>"

definition input_home :: "text_input \<Rightarrow> text_input" where
  "input_home t = t\<lparr>ti_cursor := 0\<rparr>"

definition input_end :: "text_input \<Rightarrow> text_input" where
  "input_end t = t\<lparr>ti_cursor := length (ti_text t)\<rparr>"

definition remove_range :: "nat \<Rightarrow> nat \<Rightarrow> text_input \<Rightarrow> text_input option" where
  "remove_range a b t =
     map_option (\<lambda>s. t\<lparr>ti_text := s, ti_cursor := a\<rparr>)
       (str_remove_range (byte_at a t) (byte_at b t) (ti_text t))"

text \<open>The loops of \<^verbatim>\<open>delete_word_back\<close>; \<^verbatim>\<open>chars[start - 1]\<close> is in range as the cursor is.\<close>

fun back_while :: "(ucs \<Rightarrow> bool) \<Rightarrow> ucs list \<Rightarrow> nat \<Rightarrow> nat" where
  "back_while P chars 0 = 0"
| "back_while P chars (Suc start) = (if P (chars ! start) then back_while P chars start else Suc start)"

definition input_delete_word_back :: "text_input \<Rightarrow> text_input option" where
  "input_delete_word_back t =
     (let start = back_while is_whitespace (ti_text t) (ti_cursor t);
          start = back_while (\<lambda>c. \<not> is_whitespace c) (ti_text t) start
      in remove_range start (ti_cursor t) t)"

definition input_delete_to_start :: "text_input \<Rightarrow> text_input option" where
  "input_delete_to_start t = remove_range 0 (ti_cursor t) t"

definition input_clear :: "text_input \<Rightarrow> text_input" where
  "input_clear t = t\<lparr>ti_text := [], ti_cursor := 0\<rparr>"

definition input_window :: "nat \<Rightarrow> text_input \<Rightarrow> ucs list \<times> nat" where
  "input_window width t =
     (if width = 0 then ([], 0)
      else let start = ti_cursor t + 1 - width
           in (take width (drop start (ti_text t)), ti_cursor t - start))"

section \<open>A line is what is before the cursor and what is after it\<close>

lemma utf8_len_pos [simp]: "0 < utf8_len c"
  by (simp add: utf8_len_def)

lemma char_index_boundary: "char_index (byte_len (take n s)) s = Some (min n (length s))"
proof (induction s arbitrary: n)
  case Nil
  then show ?case by (simp add: byte_len_def)
next
  case (Cons c s)
  show ?case
  proof (cases n)
    case 0
    then show ?thesis by (simp add: byte_len_def)
  next
    case (Suc m)
    obtain k where k: "utf8_len c = Suc k" using utf8_len_pos [of c] by (metis gr0_implies_Suc)
    have "char_index (byte_len (take n (c # s))) (c # s) = map_option Suc (char_index (byte_len (take m s)) s)"
      by (simp add: Suc byte_len_def k)
    then show ?thesis using Cons Suc by simp
  qed
qed

lemma char_index_byte_at [simp]: "n \<le> length (ti_text t) \<Longrightarrow> char_index (byte_at n t) (ti_text t) = Some n"
  by (simp add: byte_at_def char_index_boundary)

lemma byte_at_cursor [simp]: "byte_at n (t\<lparr>ti_cursor := c\<rparr>) = byte_at n t"
  by (simp add: byte_at_def)

datatype edit =
    Insert ucs | Backspace | Delete | Left | Right | Home | End | DeleteWordBack | DeleteToStart | Clear

fun edit_step :: "edit \<Rightarrow> text_input \<Rightarrow> text_input option" where
  "edit_step (Insert c) t = input_insert c t"
| "edit_step Backspace t = input_backspace t"
| "edit_step Delete t = input_delete t"
| "edit_step Left t = Some (input_left t)"
| "edit_step Right t = Some (input_right t)"
| "edit_step Home t = Some (input_home t)"
| "edit_step End t = Some (input_end t)"
| "edit_step DeleteWordBack t = input_delete_word_back t"
| "edit_step DeleteToStart t = input_delete_to_start t"
| "edit_step Clear t = Some (input_clear t)"

fun edit_all :: "edit list \<Rightarrow> text_input \<Rightarrow> text_input option" where
  "edit_all [] t = Some t"
| "edit_all (e # es) t = Option.bind (edit_step e t) (edit_all es)"

text \<open>The same on two lists.\<close>

type_synonym halves = "ucs list \<times> ucs list"

definition word_cut :: "ucs list \<Rightarrow> ucs list" where
  "word_cut b = rev (dropWhile (\<lambda>c. \<not> is_whitespace c) (dropWhile is_whitespace (rev b)))"

fun edit_halves :: "edit \<Rightarrow> halves \<Rightarrow> halves" where
  "edit_halves (Insert c) (b, a) = (b @ [c], a)"
| "edit_halves Backspace (b, a) = (butlast b, a)"
| "edit_halves Delete (b, a) = (b, tl a)"
| "edit_halves Left (b, a) = (if b = [] then (b, a) else (butlast b, last b # a))"
| "edit_halves Right (b, a) = (if a = [] then (b, a) else (b @ [hd a], tl a))"
| "edit_halves Home (b, a) = ([], b @ a)"
| "edit_halves End (b, a) = (b @ a, [])"
| "edit_halves DeleteWordBack (b, a) = (word_cut b, a)"
| "edit_halves DeleteToStart (b, a) = ([], a)"
| "edit_halves Clear (b, a) = ([], [])"

definition halves_of :: "text_input \<Rightarrow> halves" where
  "halves_of t = (take (ti_cursor t) (ti_text t), drop (ti_cursor t) (ti_text t))"

definition input_ok :: "text_input \<Rightarrow> bool" where
  "input_ok t \<longleftrightarrow> ti_cursor t \<le> length (ti_text t)"

lemma back_while_le: "back_while P chars n \<le> n"
  by (induction n) (auto intro: le_SucI)

lemma take_back_while:
  "n \<le> length s \<Longrightarrow> take (back_while P s n) s = rev (dropWhile P (rev (take n s)))"
  by (induction n) (simp_all add: take_Suc_conv_app_nth)

lemma remove_range_ok:
  "input_ok t \<Longrightarrow> a \<le> ti_cursor t \<Longrightarrow>
     \<exists>t'. remove_range a (ti_cursor t) t = Some t' \<and> input_ok t' \<and>
       halves_of t' = (take a (ti_text t), drop (ti_cursor t) (ti_text t))"
  by (auto simp: remove_range_def str_remove_range_def input_ok_def halves_of_def min_def)

lemma edit_step_halves:
  assumes "input_ok t"
  shows "\<exists>t'. edit_step e t = Some t' \<and> input_ok t' \<and> halves_of t' = edit_halves e (halves_of t)"
proof (cases e)
  case (Insert c)
  then show ?thesis using assms
    by (simp add: input_insert_def str_insert_def input_ok_def halves_of_def take_Suc_conv_app_nth nth_append)
next
  case Backspace
  then show ?thesis using assms
    by (auto simp: input_backspace_def str_remove_def input_ok_def halves_of_def butlast_take Suc_diff_1 Let_def min_def)
next
  case Delete
  then show ?thesis using assms
    by (auto simp: input_delete_def str_remove_def input_ok_def halves_of_def tl_drop drop_Suc)
next
  case Left
  show ?thesis
  proof (cases "ti_cursor t")
    case 0
    then show ?thesis using Left by (simp add: input_left_def input_ok_def halves_of_def)
  next
    case (Suc n)
    then have "n < length (ti_text t)" using assms by (simp add: input_ok_def)
    then show ?thesis using Left Suc
      by (auto simp: input_left_def input_ok_def halves_of_def take_Suc_conv_app_nth Cons_nth_drop_Suc)
  qed
next
  case Right
  then show ?thesis using assms
    by (auto simp: input_right_def input_ok_def halves_of_def take_Suc_conv_app_nth hd_drop_conv_nth
        tl_drop drop_Suc min_def)
next
  case DeleteWordBack
  let ?s = "back_while is_whitespace (ti_text t) (ti_cursor t)"
  let ?u = "back_while (\<lambda>c. \<not> is_whitespace c) (ti_text t) ?s"
  have le: "?u \<le> ti_cursor t" "?s \<le> length (ti_text t)"
    using assms back_while_le [of is_whitespace "ti_text t" "ti_cursor t"]
      back_while_le [of "\<lambda>c. \<not> is_whitespace c" "ti_text t" ?s] by (auto simp: input_ok_def)
  then have "take ?u (ti_text t) = word_cut (take (ti_cursor t) (ti_text t))"
    using assms by (simp add: take_back_while word_cut_def input_ok_def)
  then show ?thesis using DeleteWordBack remove_range_ok [OF assms le(1)]
    by (simp add: input_delete_word_back_def halves_of_def)
next
  case DeleteToStart
  then show ?thesis using remove_range_ok [OF assms, of 0]
    by (simp add: input_delete_to_start_def halves_of_def)
qed (use assms in \<open>simp_all add: input_home_def input_end_def input_clear_def input_ok_def halves_of_def\<close>)

text \<open>
  Typing never panics, whatever characters the line holds: the cursor is always between two
  characters, every key does to the text before and after it what its name says, and the part shown
  in a window holds the cursor.
\<close>

theorem typing_keeps_line:
  "\<exists>t. edit_all es input_new = Some t \<and> ti_cursor t \<le> length (ti_text t) \<and>
     halves_of t = fold edit_halves es ([], []) \<and>
     fst (halves_of t) @ snd (halves_of t) = ti_text t \<and>
     (width = 0 \<or> (snd (input_window width t) < width \<and>
        take (snd (input_window width t)) (fst (input_window width t))
          = drop (ti_cursor t + 1 - width) (fst (halves_of t))))"
proof -
  have "input_ok t \<Longrightarrow> \<exists>t'. edit_all es t = Some t' \<and> input_ok t' \<and>
      halves_of t' = fold edit_halves es (halves_of t)" for t
  proof (induction es arbitrary: t)
    case (Cons e es)
    then show ?case using edit_step_halves [OF Cons.prems, of e] by fastforce
  qed simp
  moreover have "input_ok input_new" "halves_of input_new = ([], [])"
    by (simp_all add: input_ok_def input_new_def halves_of_def)
  ultimately obtain t where t: "edit_all es input_new = Some t" "input_ok t"
    "halves_of t = fold edit_halves es ([], [])" by fastforce
  have "0 < width \<Longrightarrow> take (ti_cursor t - (ti_cursor t + 1 - width)) (take width (drop (ti_cursor t + 1 - width) (ti_text t)))
      = drop (ti_cursor t + 1 - width) (take (ti_cursor t) (ti_text t))"
    by (simp add: drop_take min_def)
  then show ?thesis using t by (auto simp: input_ok_def input_window_def Let_def halves_of_def)
qed

end
