(* ===== verification/Framing.thy ===== *)
theory Framing
  imports Strings
begin

text \<open>
  Messages between the daemon and its clients, one to a line (\<^verbatim>\<open>phonia-ipc/src/framing.rs\<close>). The peer's
  bytes come in pieces of any size, as the buffered reader hands them out; a piece with nothing in
  it is the end of the stream.
\<close>

section \<open>Reading and writing a frame\<close>

definition max_frame_bytes :: nat where
  "max_frame_bytes = 8 * 1024 * 1024"

definition newline :: octet where
  "newline = 10"

definition carriage_return :: octet where
  "carriage_return = 13"

datatype frame_error = TooLarge | FrameIo error

definition show_frame_error :: "frame_error \<Rightarrow> string" where
  "show_frame_error e =
     (case e of
        TooLarge \<Rightarrow> ''a message is larger than '' @ show_nat max_frame_bytes @ '' bytes''
      | FrameIo e \<Rightarrow> show_error e)"

type_synonym reader = "(error + octet list) list"

text \<open>\<^verbatim>\<open>consume\<close> of bytes of the piece at the front.\<close>

definition consume :: "nat \<Rightarrow> octet list \<Rightarrow> reader \<Rightarrow> reader" where
  "consume n piece rest = (if drop n piece = [] then rest else Inr (drop n piece) # rest)"

text \<open>The inner loop: up to a newline, or the end. The flag is \<^verbatim>\<open>ended_with_newline\<close>.\<close>

fun read_line :: "octet list \<Rightarrow> reader \<Rightarrow> (frame_error + octet list \<times> bool) \<times> reader" where
  "read_line buf [] = (Inr (buf, False), [])"
| "read_line buf (Inl e # rest) = (Inl (FrameIo e), rest)"
| "read_line buf (Inr available # rest) =
     (if available = [] then (Inr (buf, False), Inr available # rest)
      else case position_of (\<lambda>byte. byte = newline) available of
             Some n \<Rightarrow>
               if max_frame_bytes < length buf + n then (Inl TooLarge, Inr available # rest)
               else (Inr (buf @ take n available, True), consume (n + 1) available rest)
           | None \<Rightarrow>
               if max_frame_bytes < length buf + length available
               then (Inl TooLarge, Inr available # rest)
               else read_line (buf @ available) rest)"

definition drop_return :: "octet list \<Rightarrow> octet list" where
  "drop_return buf = (if last_of buf = Some carriage_return then butlast buf else buf)"

fun reader_size :: "reader \<Rightarrow> nat" where
  "reader_size [] = 0"
| "reader_size (Inl e # r) = 1 + reader_size r"
| "reader_size (Inr bs # r) = length bs + reader_size r"

lemma read_line_shrinks: "read_line buf r = (Inr (line, True), r') \<Longrightarrow> reader_size r' < reader_size r"
proof (induction buf r rule: read_line.induct)
  case (3 buf available rest)
  show ?case
  proof (cases "position_of (\<lambda>byte. byte = newline) available")
    case None
    then show ?thesis using 3 by (fastforce split: if_splits)
  next
    case (Some n)
    then have "available \<noteq> []" by auto
    then show ?thesis using 3 Some by (auto simp: consume_def split: if_splits)
  qed
qed auto

function read_frame :: "reader \<Rightarrow> (frame_error + octet list option) \<times> reader" where
  "read_frame r =
     (case read_line [] r of
        (Inl e, r') \<Rightarrow> (Inl e, r')
      | (Inr (buf, ended_with_newline), r') \<Rightarrow>
          if drop_return buf \<noteq> [] then (Inr (Some (drop_return buf)), r')
          else if \<not> ended_with_newline then (Inr None, r')
          else read_frame r')"
  by pat_completeness auto
termination read_frame
  by (relation "measure reader_size") (auto dest: read_line_shrinks [OF sym])

declare read_frame.simps [simp del]

definition write_frame :: "octet list \<Rightarrow> octet list" where
  "write_frame bytes = bytes @ [newline]"

section \<open>What is written is what is read\<close>

text \<open>Reading to the end of the stream, for at most \<open>n\<close> messages.\<close>

fun read_frames :: "nat \<Rightarrow> reader \<Rightarrow> (frame_error + octet list list) \<times> reader" where
  "read_frames 0 r = (Inr [], r)"
| "read_frames (Suc n) r =
     (case read_frame r of
        (Inl e, r) \<Rightarrow> (Inl e, r)
      | (Inr None, r) \<Rightarrow> (Inr [], r)
      | (Inr (Some m), r) \<Rightarrow>
          (case read_frames n r of
             (Inl e, r) \<Rightarrow> (Inl e, r)
           | (Inr ms, r) \<Rightarrow> (Inr (m # ms), r)))"

definition pieces :: "octet list list \<Rightarrow> reader" where
  "pieces cs = map Inr (filter (\<lambda>c. c \<noteq> []) cs)"

lemma pieces_simps [simp]:
  "pieces [] = []" "pieces ([] # cs) = pieces cs" "c \<noteq> [] \<Longrightarrow> pieces (c # cs) = Inr c # pieces cs"
  by (simp_all add: pieces_def)

lemma position_newline: "newline \<notin> set line \<Longrightarrow> position_of (\<lambda>byte. byte = newline) (line @ newline # rest) = Some (length line)"
  by (induction line) auto

lemma consume_pieces: "consume n c (pieces cs) = pieces (drop n c # cs)"
  by (simp add: consume_def)

lemma read_line_newline:
  "concat cs = line @ newline # rest \<Longrightarrow> newline \<notin> set line \<Longrightarrow> length buf + length line \<le> max_frame_bytes \<Longrightarrow>
     \<exists>cs'. read_line buf (pieces cs) = (Inr (buf @ line, True), pieces cs') \<and> concat cs' = rest"
proof (induction cs arbitrary: buf line)
  case (Cons c cs)
  show ?case
  proof (cases "c = []")
    case True
    then show ?thesis using Cons by simp
  next
    case False
    show ?thesis
    proof (cases "newline \<in> set c")
      case True
      then obtain a b where c: "c = a @ newline # b" "newline \<notin> set a" by (meson split_list_first)
      then have "a @ newline # (b @ concat cs) = line @ newline # rest" using Cons.prems(1) by simp
      then have "a = line" "b @ concat cs = rest" using c(2) Cons.prems(2)
        by (auto simp: append_eq_append_conv2 append_eq_Cons_conv Cons_eq_append_conv)
      then show ?thesis
        using c Cons.prems(3) False position_newline [OF c(2), of b]
        by (auto simp: consume_pieces intro!: exI [of _ "b # cs"])
    next
      case no: False
      obtain us where us: "line = c @ us" "concat cs = us @ newline # rest"
      proof -
        have "c @ concat cs = line @ newline # rest" using Cons.prems(1) by simp
        then obtain us where "(c = line @ us \<and> us @ concat cs = newline # rest) \<or>
            (line = c @ us \<and> concat cs = us @ newline # rest)"
          unfolding append_eq_append_conv2 by blast
        then show ?thesis using that no by (cases us) auto
      qed
      have "position_of (\<lambda>byte. byte = newline) c = None" using no by (auto simp: position_of_None)
      then show ?thesis using Cons.IH [of us "buf @ c"] Cons.prems us False by auto
    qed
  qed
qed simp

lemma read_line_rest:
  "newline \<notin> set (concat cs) \<Longrightarrow> length buf + length (concat cs) \<le> max_frame_bytes \<Longrightarrow>
     read_line buf (pieces cs) = (Inr (buf @ concat cs, False), [])"
proof (induction cs arbitrary: buf)
  case (Cons c cs)
  have "position_of (\<lambda>byte. byte = newline) c = None" using Cons.prems(1) by (auto simp: position_of_None)
  then show ?case using Cons by (cases "c = []") auto
qed simp

definition is_message :: "octet list \<Rightarrow> bool" where
  "is_message m \<longleftrightarrow> m \<noteq> [] \<and> newline \<notin> set m \<and> last m \<noteq> carriage_return \<and> length m \<le> max_frame_bytes"

lemma drop_return_message: "is_message m \<Longrightarrow> drop_return m = m"
  by (cases m rule: rev_cases) (auto simp: is_message_def drop_return_def last_of_def)

lemma read_frame_message:
  assumes "is_message m" and "concat cs = write_frame m @ rest"
  shows "\<exists>cs'. read_frame (pieces cs) = (Inr (Some m), pieces cs') \<and> concat cs' = rest"
proof -
  obtain cs' where "read_line [] (pieces cs) = (Inr (m, True), pieces cs')" "concat cs' = rest"
    using read_line_newline [of cs m rest "[]"] assms by (auto simp: is_message_def write_frame_def)
  then show ?thesis using assms(1) drop_return_message [OF assms(1)]
    by (auto simp: read_frame.simps [of "pieces cs"] is_message_def)
qed

lemma read_frame_blank:
  assumes "concat cs = newline # rest"
  shows "\<exists>cs'. read_frame (pieces cs) = read_frame (pieces cs') \<and> concat cs' = rest"
proof -
  obtain cs' where "read_line [] (pieces cs) = (Inr ([], True), pieces cs')" "concat cs' = rest"
    using read_line_newline [of cs "[]" rest "[]"] assms by (auto simp: max_frame_bytes_def)
  then show ?thesis by (auto simp: read_frame.simps [of "pieces cs"] drop_return_def last_of_def)
qed

text \<open>
  C23. However the bytes of a connection are cut into pieces, the messages written to it are read back,
  each one once and in order, and then the end of the stream.
\<close>

theorem frames_round_trip:
  assumes "\<And>m. m \<in> set ms \<Longrightarrow> is_message m" and "concat cs = concat (map write_frame ms)"
  shows "read_frames (length ms + 1) (pieces cs) = (Inr ms, [])"
  using assms
proof (induction ms arbitrary: cs)
  case Nil
  then have "pieces cs = []" by (auto simp: pieces_def filter_empty_conv)
  then show ?case by (simp add: read_frame.simps drop_return_def last_of_def)
next
  case (Cons m ms)
  then obtain cs' where "read_frame (pieces cs) = (Inr (Some m), pieces cs')"
    "concat cs' = concat (map write_frame ms)"
    using read_frame_message [of m cs "concat (map write_frame ms)"] by auto
  moreover have "read_frames (length ms + 1) (pieces cs') = (Inr ms, [])"
    using Cons calculation(2) by simp
  ultimately show ?case by simp
qed

lemma frames_round_trip_witness:
  "read_frames 3 [Inr [1], Inr [2, newline, 3, 4], Inr [newline]] = (Inr [[1, 2], [3, 4]], [])"
proof -
  have "is_message m" if "m \<in> set [[1, 2], [3, 4]]" for m
    using that by (auto simp: is_message_def newline_def carriage_return_def max_frame_bytes_def)
  then have "read_frames (length [[1, 2], [3, 4 :: octet]] + 1) (pieces [[1], [2, newline, 3, 4], [newline]])
      = (Inr [[1, 2], [3, 4]], [])"
    by (rule frames_round_trip) (simp_all add: write_frame_def)
  then show ?thesis by (simp del: read_frames.simps add: numeral_3_eq_3)
qed

text \<open>A longer line is refused before it is taken.\<close>

lemma too_large_refused:
  "c \<noteq> [] \<Longrightarrow> newline \<notin> set c \<Longrightarrow> max_frame_bytes < length buf + length c \<Longrightarrow>
     read_line buf (Inr c # rest) = (Inl TooLarge, Inr c # rest)"
proof -
  assume "newline \<notin> set c"
  then have "position_of (\<lambda>byte. byte = newline) c = None" by (auto simp: position_of_None)
  then show "c \<noteq> [] \<Longrightarrow> max_frame_bytes < length buf + length c \<Longrightarrow>
     read_line buf (Inr c # rest) = (Inl TooLarge, Inr c # rest)" by simp
qed

end
