(* ===== verification/Catalog.thy ===== *)
theory Catalog
  imports Lyrics Quality
begin

text \<open>
  TIDAL's catalog as phonia sees it (\<^verbatim>\<open>phonia-core/src/catalog/mod.rs\<close>): its types, its failures, and
  the \<^verbatim>\<open>Catalog\<close> trait as a record of functions on a world \<open>'x\<close>, each of which is one request.
\<close>

definition max_search_limit :: nat where
  "max_search_limit = 300"

definition max_items_limit :: nat where
  "max_items_limit = 100"

datatype cat_kind = KindTracks | KindAlbums | KindArtists | KindPlaylists

definition all_kinds :: "cat_kind list" where
  "all_kinds = [KindTracks, KindAlbums, KindArtists, KindPlaylists]"

record artist_ref =
  ar_id :: string
  ar_name :: string

record album_ref =
  al_id :: string
  al_title :: string
  al_cover :: "string option"

record cat_track =
  ct_id :: string
  ct_title :: string
  ct_version :: "string option"
  ct_artists :: "artist_ref list"
  ct_album :: "album_ref option"
  ct_duration :: "duration option"
  ct_explicit :: bool
  ct_track_number :: "nat option"
  ct_volume_number :: "nat option"
  ct_quality :: "quality option"
  ct_streamable :: bool

datatype cat_album_kind = AlbumRelease | EpRelease | SingleRelease

record cat_album =
  ca_id :: string
  ca_title :: string
  ca_version :: "string option"
  ca_artists :: "artist_ref list"
  ca_release_date :: "string option"
  ca_track_count :: "nat option"
  ca_duration :: "duration option"
  ca_explicit :: bool
  ca_quality :: "quality option"
  ca_kind :: "cat_album_kind option"
  ca_copyright :: "string option"
  ca_cover :: "string option"

record cat_artist =
  ci_id :: string
  ci_name :: string
  ci_picture :: "string option"

record cat_playlist =
  cp_id :: string
  cp_title :: string
  cp_creator :: "string option"
  cp_description :: "string option"
  cp_track_count :: "nat option"
  cp_duration :: "duration option"
  cp_cover :: "string option"

datatype cat_folder_entry = CatFolder string string nat | CatPlaylist cat_playlist

record 'a cat_page =
  cg_items :: "'a list"
  cg_total :: nat
  cg_offset :: nat

definition empty_page :: "'a cat_page" where
  "empty_page = \<lparr>cg_items = [], cg_total = 0, cg_offset = 0\<rparr>"

record search_results =
  sr_tracks :: "cat_track cat_page option"
  sr_albums :: "cat_album cat_page option"
  sr_artists :: "cat_artist cat_page option"
  sr_playlists :: "cat_playlist cat_page option"

datatype album_filter = OnlyAlbums | EpsAndSingles

datatype catalog_error =
    NotLoggedIn string
  | Unavailable string
  | RateLimited
  | NotFound
  | Invalid string

definition show_catalog_error :: "catalog_error \<Rightarrow> string" where
  "show_catalog_error e =
     (case e of
        NotLoggedIn why \<Rightarrow> ''not logged in to TIDAL ('' @ why @ ''): run `phonia login`''
      | Unavailable why \<Rightarrow> ''TIDAL could not be reached: '' @ why
      | RateLimited \<Rightarrow> ''TIDAL says there were too many requests: wait a moment and try again''
      | NotFound \<Rightarrow> ''TIDAL has no such item''
      | Invalid why \<Rightarrow> why)"

type_synonym ('a, 'x) cat_answer = "'x \<Rightarrow> (catalog_error + 'a) \<times> 'x"

record 'x catalog =
  cat_search :: "string \<Rightarrow> cat_kind list \<Rightarrow> nat \<Rightarrow> nat \<Rightarrow> (search_results, 'x) cat_answer"
  cat_album_tracks :: "string \<Rightarrow> nat \<Rightarrow> nat \<Rightarrow> (cat_track cat_page, 'x) cat_answer"
  cat_playlist_tracks :: "string \<Rightarrow> nat \<Rightarrow> nat \<Rightarrow> (cat_track cat_page, 'x) cat_answer"
  cat_track_radio :: "string \<Rightarrow> nat \<Rightarrow> nat \<Rightarrow> (cat_track cat_page, 'x) cat_answer"
  cat_album_of :: "string \<Rightarrow> (cat_album, 'x) cat_answer"
  cat_artist_of :: "string \<Rightarrow> (cat_artist, 'x) cat_answer"
  cat_artist_bio :: "string \<Rightarrow> (string option, 'x) cat_answer"
  cat_artist_top_tracks :: "string \<Rightarrow> nat \<Rightarrow> nat \<Rightarrow> (cat_track cat_page, 'x) cat_answer"
  cat_artist_albums :: "string \<Rightarrow> album_filter \<Rightarrow> nat \<Rightarrow> nat \<Rightarrow> (cat_album cat_page, 'x) cat_answer"
  cat_similar_artists :: "string \<Rightarrow> nat \<Rightarrow> (cat_artist cat_page, 'x) cat_answer"
  cat_favorite_tracks :: "nat \<Rightarrow> nat \<Rightarrow> (cat_track cat_page, 'x) cat_answer"
  cat_favorite_albums :: "nat \<Rightarrow> nat \<Rightarrow> (cat_album cat_page, 'x) cat_answer"
  cat_recommended_albums :: "nat \<Rightarrow> nat \<Rightarrow> (cat_album cat_page, 'x) cat_answer"
  cat_favorite_artists :: "nat \<Rightarrow> nat \<Rightarrow> (cat_artist cat_page, 'x) cat_answer"
  cat_my_playlists :: "nat \<Rightarrow> nat \<Rightarrow> (cat_playlist cat_page, 'x) cat_answer"
  cat_playlist_folder :: "string option \<Rightarrow> nat \<Rightarrow> nat \<Rightarrow> (cat_folder_entry cat_page, 'x) cat_answer"
  cat_track_lyrics :: "string \<Rightarrow> (catalog_lyrics option, 'x) cat_answer"
  cat_set_favorite :: "cat_kind \<Rightarrow> string \<Rightarrow> bool \<Rightarrow> (unit, 'x) cat_answer"

end
