(* ===== verification/Convert.thy ===== *)
theory Convert
  imports Wire Catalog Queue_Facade Sink_Report Play_Log
begin

text \<open>
  From the daemon's own types to what travels (\<^verbatim>\<open>phoniad/src/convert.rs\<close>); with the two types of
  \<^verbatim>\<open>output/mod.rs\<close> and \<^verbatim>\<open>output/catalog.rs\<close> that are converted. \<^verbatim>\<open>ms\<close> and the lyrics are in \<open>Lyrics\<close>.
\<close>

record volume =
  vo_percent :: nat
  vo_muted :: bool

definition default_volume :: volume where
  "default_volume = \<lparr>vo_percent = 100, vo_muted = False\<rparr>"

datatype entry_mode = EntryExclusive | EntryShared

record entry =
  en_id :: string
  en_mode :: entry_mode
  en_name :: string
  en_detail :: "string option"
  en_bit_perfect :: bool
  en_lossy :: bool
  en_codec :: "string option"
  en_is_default :: bool

section \<open>Playback\<close>

fun convert_state :: "state \<Rightarrow> ipc_state" where
  "convert_state Stopped = Ipc_Stopped"
| "convert_state Loading = Ipc_Loading"
| "convert_state Playing = Ipc_Playing"
| "convert_state Paused = Ipc_Paused"
| "convert_state Seeking = Ipc_Seeking"

definition convert_spec :: "source_spec \<Rightarrow> ipc_spec" where
  "convert_spec s =
     \<lparr>is_sample_rate = sample_rate s, is_channels = channels s, is_bits_per_sample = bits_per_sample s\<rparr>"

fun convert_repeat :: "repeat \<Rightarrow> ipc_repeat" where
  "convert_repeat RepeatOff = Ipc_RepeatOff"
| "convert_repeat RepeatOne = Ipc_RepeatOne"
| "convert_repeat RepeatAll = Ipc_RepeatAll"

fun repeat_from_wire :: "ipc_repeat \<Rightarrow> repeat" where
  "repeat_from_wire Ipc_RepeatOff = RepeatOff"
| "repeat_from_wire Ipc_RepeatOne = RepeatOne"
| "repeat_from_wire Ipc_RepeatAll = RepeatAll"

fun convert_seek_target :: "ipc_seek_target \<Rightarrow> seek_target" where
  "convert_seek_target (Ipc_Absolute n) = Absolute (millis n)"
| "convert_seek_target (Ipc_Forward n) = Forward (millis n)"
| "convert_seek_target (Ipc_Backward n) = Backward (millis n)"

fun convert_end_reason :: "end_reason \<Rightarrow> ipc_end_reason" where
  "convert_end_reason Completed = Ipc_Completed"
| "convert_end_reason Interrupted = Ipc_Interrupted"
| "convert_end_reason Failed = Ipc_Failed"

fun convert_release_reason :: "release_reason \<Rightarrow> ipc_release_reason" where
  "convert_release_reason Idle = Ipc_Idle"
| "convert_release_reason ByCommand = Ipc_Command"
| "convert_release_reason Requested = Ipc_Requested"
| "convert_release_reason Lost = Ipc_Lost"

definition convert_item :: "queue_item \<Rightarrow> ipc_queue_item" where
  "convert_item item =
     (let t = qi_track item in
      \<lparr>iq_id = qi_id item, iq_source = qt_source t, iq_title = qt_title t, iq_artist = qt_artist t,
       iq_duration_ms = map_option convert_ms (qt_duration t), iq_cover = qt_cover t,
       iq_album_id = qt_album_id t, iq_artist_id = qt_artist_id t, iq_album = qt_album t\<rparr>)"

definition queue_dto :: "queue_snapshot \<Rightarrow> ipc_queue" where
  "queue_dto q =
     \<lparr>ix_version = snap_version q, ix_items = map convert_item (snap_items q), ix_order = snap_order q,
      ix_current = snap_current q, ix_shuffle = snap_shuffle q, ix_repeat = convert_repeat (snap_repeat q),
      ix_autoplay = snap_autoplay q\<rparr>"

definition snapshot_item :: "item_id \<Rightarrow> queue_snapshot \<Rightarrow> queue_item option" where
  "snapshot_item i q = find (\<lambda>item. qi_id item = i) (snap_items q)"

definition entry_of :: "track_ref \<Rightarrow> queue_snapshot \<Rightarrow> nat option \<times> string option" where
  "entry_of track q =
     (case id_from_ref track of
        None \<Rightarrow> (None, None)
      | Some i \<Rightarrow> (Some i, map_option (\<lambda>item. qt_source (qi_track item)) (snapshot_item i q)))"

definition artist_and_album_id ::
    "track_ref \<Rightarrow> queue_snapshot \<Rightarrow> string option \<times> string option \<times> string option" where
  "artist_and_album_id track q =
     (case id_from_ref track of
        None \<Rightarrow> (None, None, None)
      | Some i \<Rightarrow>
          (case snapshot_item i q of
             None \<Rightarrow> (None, None, None)
           | Some item \<Rightarrow>
               (qt_artist_id (qi_track item), qt_album_id (qi_track item), qt_album (qi_track item))))"

fun convert_quality :: "quality \<Rightarrow> ipc_quality" where
  "convert_quality Hires = Ipc_Hires"
| "convert_quality Lossless = Ipc_Lossless"
| "convert_quality High = Ipc_High"
| "convert_quality Low = Ipc_Low"

fun core_quality :: "ipc_quality \<Rightarrow> quality option" where
  "core_quality Ipc_Hires = Some Hires"
| "core_quality Ipc_Lossless = Some Lossless"
| "core_quality Ipc_High = Some High"
| "core_quality Ipc_Low = Some Low"
| "core_quality Ipc_QualityUnknown = None"

definition convert_stream_quality :: "delivered \<Rightarrow> stream_quality" where
  "convert_stream_quality d =
     \<lparr>sq_requested = convert_quality (requested_quality d), sq_delivered = convert_quality (delivered_quality d)\<rparr>"

text \<open>\<^verbatim>\<open>as i32\<close> of a float saturates.\<close>

definition convert_replay_gain :: "applied_gain \<Rightarrow> ipc_replay_gain" where
  "convert_replay_gain g =
     \<lparr>ig_kind = (case gain_kind_of g of KindTrack \<Rightarrow> Ipc_GainTrack | KindAlbum \<Rightarrow> Ipc_GainAlbum),
      ig_millibels = max (- (2 ^ 31)) (min (2 ^ 31 - 1) (round_away (gain_db g * 100)))\<rparr>"

definition convert_track :: "queue_snapshot \<Rightarrow> track_meta \<Rightarrow> ipc_track" where
  "convert_track q m =
     (let (item_id, source) = entry_of (tm_track m) q in
      \<lparr>it_item_id = item_id, it_source = source, it_title = tm_title m, it_artist = tm_artist m,
       it_duration_ms = map_option convert_ms (tm_duration m),
       it_quality = map_option convert_stream_quality (tm_quality m), it_cover = tm_cover m,
       it_replay_gain = map_option convert_replay_gain (tm_gain m)\<rparr>)"

fun convert_output :: "output_state \<Rightarrow> ipc_output" where
  "convert_output Out_Closed = Ipc_Closed"
| "convert_output Out_Open = Ipc_Open"
| "convert_output (Out_Released by0) = Ipc_Released by0"

definition convert_volume :: "volume \<Rightarrow> ipc_volume" where
  "convert_volume v = \<lparr>iv_percent = vo_percent v, iv_muted = vo_muted v\<rparr>"

definition status_dto ::
    "status \<Rightarrow> queue_snapshot \<Rightarrow> route option \<Rightarrow> volume option \<Rightarrow> quality_range option \<Rightarrow> ipc_status" where
  "status_dto st q rt v range0 =
     \<lparr>iu_state = convert_state (st_state st), iu_track = map_option (convert_track q) (st_track st),
      iu_spec = map_option convert_spec (st_spec st), iu_position_ms = convert_ms (st_position st),
      iu_duration_ms = map_option convert_ms (st_duration st), iu_output = convert_output (st_output st),
      iu_route = rt, iu_volume = map_option convert_volume v, iu_quality_range = range0,
      iu_sink_report = None\<rparr>"

definition convert_output_info :: "entry \<Rightarrow> output_info" where
  "convert_output_info e =
     \<lparr>oi_id = en_id e, oi_mode = (case en_mode e of EntryExclusive \<Rightarrow> Ipc_Exclusive | EntryShared \<Rightarrow> Ipc_Shared),
      oi_name = en_name e, oi_detail = en_detail e, oi_bit_perfect = en_bit_perfect e, oi_lossy = en_lossy e,
      oi_codec = en_codec e, oi_is_default = en_is_default e\<rparr>"

definition convert_sink_report :: "sink_report \<Rightarrow> string \<Rightarrow> ipc_sink_report" where
  "convert_sink_report r output =
     \<lparr>ir_device = rp_device r, ir_source = convert_spec (rp_source r), ir_format = rp_format r,
      ir_bit_perfect = bit_perfect r, ir_problem = report_problem r,
      ir_hw_params = (case rp_proc r of ReadProc _ contents \<Rightarrow> Some contents | _ \<Rightarrow> None),
      ir_mode = Some (if rp_shared r \<noteq> None then Ipc_Shared else Ipc_Exclusive),
      ir_resampled_to =
        (case rp_shared r of
           None \<Rightarrow> None
         | Some rt \<Rightarrow> if sr_rate rt \<noteq> sample_rate (rp_source r) then Some (sr_rate rt) else None),
      ir_codec = Option.bind (rp_shared r) sr_codec,
      ir_lossy = (case rp_shared r of None \<Rightarrow> False | Some rt \<Rightarrow> sr_lossy rt),
      ir_output = Some output\<rparr>"

definition convert_played :: "played_track \<Rightarrow> ipc_played_track" where
  "convert_played e =
     \<lparr>ip_source = pt_source e, ip_title = pt_title e, ip_artist = pt_artist e,
      ip_duration_ms = pt_duration_ms e, ip_cover = pt_cover e, ip_played_at_ms = pt_played_at_ms e,
      ip_artist_id = pt_artist_id e, ip_album_id = pt_album_id e, ip_album = pt_album e\<rparr>"

fun convert_event :: "queue_snapshot \<Rightarrow> event \<Rightarrow> ipc_event" where
  "convert_event q (StateChanged new) = Ev_StateChanged (convert_state new)"
| "convert_event q (TrackStarted m format gapless) =
     (let (item_id, source) = entry_of (tm_track m) q in
      Ev_TrackStarted
        \<lparr>ie_item_id = item_id, ie_source = source, ie_title = tm_title m, ie_artist = tm_artist m,
         ie_duration_ms = map_option convert_ms (tm_duration m), ie_spec = convert_spec format,
         ie_gapless = gapless, ie_quality = map_option convert_stream_quality (tm_quality m),
         ie_cover = tm_cover m, ie_replay_gain = map_option convert_replay_gain (tm_gain m)\<rparr>)"
| "convert_event q (TrackEnded m reason) =
     Ev_TrackEnded (fst (entry_of (tm_track m) q)) (convert_end_reason reason)"
| "convert_event q (PositionAt p d) = Ev_Position (convert_ms p) (map_option convert_ms d)"
| "convert_event q (Seeked p) = Ev_Seeked (convert_ms p)"
| "convert_event q (SeekRejected reason) = Ev_SeekRejected reason"
| "convert_event q QueueExhausted = Ev_QueueExhausted"
| "convert_event q (OutputReleased by0 reason) = Ev_OutputReleased by0 (convert_release_reason reason)"
| "convert_event q OutputAcquired = Ev_OutputAcquired"
| "convert_event q (ErrorEvent text0) = Ev_Error text0"

section \<open>The catalog\<close>

fun convert_kind :: "catalog_kind \<Rightarrow> cat_kind option" where
  "convert_kind Ipc_Tracks = Some KindTracks"
| "convert_kind Ipc_Albums = Some KindAlbums"
| "convert_kind Ipc_Artists = Some KindArtists"
| "convert_kind Ipc_Playlists = Some KindPlaylists"
| "convert_kind Ipc_KindUnknown = None"

definition convert_artist_ref :: "artist_ref \<Rightarrow> ipc_artist_ref" where
  "convert_artist_ref a = \<lparr>ia_id = ar_id a, ia_name = ar_name a\<rparr>"

definition convert_track_summary :: "cat_track \<Rightarrow> track_summary" where
  "convert_track_summary t =
     \<lparr>su_id = ct_id t, su_title = ct_title t, su_version = ct_version t,
      su_artists = map convert_artist_ref (ct_artists t),
      su_album = map_option (\<lambda>a. \<lparr>ib_id = al_id a, ib_title = al_title a, ib_cover = al_cover a\<rparr>) (ct_album t),
      su_duration_ms = map_option convert_ms (ct_duration t), su_explicit = ct_explicit t,
      su_track_number = ct_track_number t, su_volume_number = ct_volume_number t,
      su_quality = map_option convert_quality (ct_quality t), su_streamable = ct_streamable t\<rparr>"

fun convert_album_kind :: "cat_album_kind \<Rightarrow> ipc_album_kind" where
  "convert_album_kind AlbumRelease = Ipc_Album"
| "convert_album_kind EpRelease = Ipc_Ep"
| "convert_album_kind SingleRelease = Ipc_Single"

definition convert_album_summary :: "cat_album \<Rightarrow> album_summary" where
  "convert_album_summary a =
     \<lparr>sa_id = ca_id a, sa_title = ca_title a, sa_version = ca_version a,
      sa_artists = map convert_artist_ref (ca_artists a), sa_release_date = ca_release_date a,
      sa_track_count = ca_track_count a, sa_duration_ms = map_option convert_ms (ca_duration a),
      sa_explicit = ca_explicit a, sa_quality = map_option convert_quality (ca_quality a),
      sa_kind = map_option convert_album_kind (ca_kind a), sa_copyright = ca_copyright a,
      sa_cover = ca_cover a\<rparr>"

definition convert_artist_summary :: "cat_artist \<Rightarrow> artist_summary" where
  "convert_artist_summary a = \<lparr>sm_id = ci_id a, sm_name = ci_name a, sm_picture = ci_picture a\<rparr>"

definition convert_playlist_summary :: "cat_playlist \<Rightarrow> playlist_summary" where
  "convert_playlist_summary p =
     \<lparr>sp_id = cp_id p, sp_title = cp_title p, sp_creator = cp_creator p, sp_description = cp_description p,
      sp_track_count = cp_track_count p, sp_duration_ms = map_option convert_ms (cp_duration p),
      sp_cover = cp_cover p\<rparr>"

fun convert_folder_entry :: "cat_folder_entry \<Rightarrow> folder_entry" where
  "convert_folder_entry (CatFolder i name n) = EntryFolder i name n"
| "convert_folder_entry (CatPlaylist p) = EntryPlaylist (convert_playlist_summary p)"

definition convert_page :: "('a \<Rightarrow> 'b) \<Rightarrow> 'a cat_page \<Rightarrow> 'b page" where
  "convert_page each p = \<lparr>pg_items = map each (cg_items p), pg_total = cg_total p, pg_offset = cg_offset p\<rparr>"

definition convert_catalog_error :: "catalog_error \<Rightarrow> error_code \<times> string" where
  "convert_catalog_error e =
     ((case e of NotLoggedIn _ \<Rightarrow> ErrNotLoggedIn | Unavailable _ \<Rightarrow> ErrUnavailable | RateLimited \<Rightarrow> ErrRateLimited
       | NotFound \<Rightarrow> ErrNotFound | Invalid _ \<Rightarrow> ErrBadRequest), show_catalog_error e)"

section \<open>What the conversions keep\<close>

lemma repeat_round_trip [simp]: "repeat_from_wire (convert_repeat r) = r"
  by (cases r) simp_all

lemma quality_round_trip [simp]: "core_quality (convert_quality q) = Some q"
  by (cases q) simp_all

lemma convert_quality_mono: "convert_quality a < convert_quality b \<longleftrightarrow> a < b"
  by (cases a; cases b) (simp_all add: less_ipc_quality_def quality_order)

lemma stream_fell_back_converted: "stream_fell_back (convert_stream_quality d) = fell_back d"
proof -
  have "convert_quality q \<noteq> Ipc_QualityUnknown" for q by (cases q) simp_all
  then show ?thesis
    by (simp add: stream_fell_back_def convert_stream_quality_def fell_back_def convert_quality_mono)
qed

lemma entry_of_item:
  "i \<le> u64_max \<Longrightarrow> distinct (map qi_id (snap_items q)) \<Longrightarrow> item \<in> set (snap_items q) \<Longrightarrow> qi_id item = i \<Longrightarrow>
     entry_of (id_track_ref i) q = (Some i, Some (qt_source (qi_track item)))"
proof -
  have "find (\<lambda>it. qi_id it = qi_id item) its = Some item" if "distinct (map qi_id its)" "item \<in> set its" for its
    using that by (induction its) auto
  then show "i \<le> u64_max \<Longrightarrow> distinct (map qi_id (snap_items q)) \<Longrightarrow> item \<in> set (snap_items q) \<Longrightarrow> qi_id item = i \<Longrightarrow>
     entry_of (id_track_ref i) q = (Some i, Some (qt_source (qi_track item)))"
    by (auto simp: entry_of_def snapshot_item_def)
qed

end
