(* ===== verification/Control.thy ===== *)
theory Control
  imports Queue_Run
begin

text \<open>
  Driving an engine from a queue (\<^verbatim>\<open>phonia-core/src/control.rs\<close>). The handle of the engine is a record
  of functions on the engine's world \<open>'e\<close>: sending a command fails once the engine has shut down, and
  the status is what it last published.
\<close>

section \<open>The controller\<close>

record 'e engine_handle =
  eh_send :: "command \<Rightarrow> 'e \<Rightarrow> (error + unit) \<times> 'e"
  eh_status :: "'e \<Rightarrow> status"

record ('g, 'e) controller =
  ct_engine :: 'e
  ct_queue :: "'g queue"

definition control_send ::
    "'e engine_handle \<Rightarrow> command \<Rightarrow> ('g, 'e) controller \<Rightarrow> (error + unit) \<times> ('g, 'e) controller" where
  "control_send h command c =
     (let (r, e) = eh_send h command (ct_engine c) in (r, c\<lparr>ct_engine := e\<rparr>))"

definition control_snapshot :: "('g, 'e) controller \<Rightarrow> queue_snapshot" where
  "control_snapshot c = queue_snapshot_of (ct_queue c)"

definition play_item ::
    "'e engine_handle \<Rightarrow> item_id \<Rightarrow> ('g, 'e) controller \<Rightarrow> (error + unit) \<times> ('g, 'e) controller" where
  "play_item h i c =
     (if \<not> list_ex (\<lambda>item. qi_id item = i) (snap_items (control_snapshot c))
      then (Inl (mk_error (Message (''there is no queue entry '' @ show_nat i))), c)
      else control_send h (Play (Some (id_track_ref i))) c)"

definition playing_entry :: "'e engine_handle \<Rightarrow> ('g, 'e) controller \<Rightarrow> item_id option" where
  "playing_entry h c =
     (if st_state (eh_status h (ct_engine c)) \<noteq> Stopped then snap_current (control_snapshot c) else None)"

definition control_remove ::
    "'e engine_handle \<Rightarrow> item_id list \<Rightarrow> ('g, 'e) controller \<Rightarrow> nat \<times> ('g, 'e) controller" where
  "control_remove h ids c =
     (let playing = playing_entry h c;
          (removed, qu) = queue_remove ids (ct_queue c);
          c = c\<lparr>ct_queue := qu\<rparr>;
          c = (if 0 < removed \<and> (case playing of Some i \<Rightarrow> i \<in> set ids | None \<Rightarrow> False)
               then snd (control_send h Next c) else c)
      in (removed, c))"

definition control_clear :: "'e engine_handle \<Rightarrow> ('g, 'e) controller \<Rightarrow> ('g, 'e) controller" where
  "control_clear h c =
     (let c = c\<lparr>ct_queue := snd (queue_clear (ct_queue c))\<rparr> in snd (control_send h Stop c))"

section \<open>What is still to come\<close>

text \<open>The entries after the place playback has reached, in the order they will play.\<close>

definition upcoming :: "'g inner \<Rightarrow> item_id list" where
  "upcoming q = drop (next_slot (base_of q (current q))) (order q)"

lemma upcoming_current:
  assumes "current q = Some c" and "c \<in> set (order q)"
  shows "upcoming q = tl (dropWhile (\<lambda>j. j \<noteq> c) (order q))"
proof -
  have "position_of (\<lambda>j. j = c) xs = Some (length (takeWhile (\<lambda>j. j \<noteq> c) xs)) \<and>
      drop (Suc (length (takeWhile (\<lambda>j. j \<noteq> c) xs))) xs = tl (dropWhile (\<lambda>j. j \<noteq> c) xs)" if "c \<in> set xs" for xs
    using that by (induction xs) auto
  from this [OF assms(2)] show ?thesis using assms(1) by (simp add: upcoming_def base_of_def position_def)
qed

lemma tl_dropWhile_filter:
  "c \<noteq> i \<Longrightarrow> tl (dropWhile (\<lambda>j. j \<noteq> c) (filter (\<lambda>j. j \<noteq> i) xs)) = filter (\<lambda>j. j \<noteq> i) (tl (dropWhile (\<lambda>j. j \<noteq> c) xs))"
  by (induction xs) auto

lemma drop_filter_others:
  assumes "distinct xs" and "v \<le> length xs" and "s < length xs"
  shows "drop (if s < v then v - 1 else v) (filter (\<lambda>j. j \<noteq> xs ! s) xs) = filter (\<lambda>j. j \<noteq> xs ! s) (drop v xs)"
proof -
  let ?f = "filter (\<lambda>j. j \<noteq> xs ! s)"
  have one: "length (filter (\<lambda>j. j \<noteq> y) ys) = length ys - (if y \<in> set ys then 1 else 0)" if "distinct ys" for y ys
    using that by (induction ys) (auto simp: le_Suc_eq, metis One_nat_def Suc_pred length_pos_if_in_set)
  have "xs ! s \<in> set (take v xs) \<longleftrightarrow> s < v"
    using assms by (auto simp: in_set_conv_nth nth_eq_iff_index_eq intro!: exI [of _ s])
  then have "length (?f (take v xs)) = (if s < v then v - 1 else v)"
    using one [of "take v xs" "xs ! s"] assms(1,2) by (simp add: min_def)
  moreover have "?f xs = ?f (take v xs) @ ?f (drop v xs)"
    by (simp flip: filter_append)
  ultimately show ?thesis by simp
qed

lemma upcoming_remove_one:
  assumes wf: "queue_wf q" and r: "remove_one i q = Some q'"
  shows "upcoming q' = filter (\<lambda>j. j \<noteq> i) (upcoming q)"
proof -
  note order' = remove_one_items(2) [OF r wf]
  have mem: "i \<in> set (order q)" using remove_one_items(3) [OF r wf] wf_set_order [OF wf] by simp
  then obtain s where s: "position q i = Some s" using position_mem by blast
  have sl: "s < length (order q)" "order q ! s = i" using position_Some [OF s] by auto
  note d = drop_filter_others [OF wf_distinct_order [OF wf] _ sl(1), unfolded sl(2)]
  have pos': "position (q\<lparr>items := xs\<rparr>) i = Some s" for xs using s by (simp add: position_def)
  show ?thesis
  proof (cases "current q")
    case None
    have cur: "current q' = None" using remove_one_frame(6) [OF r] None by simp
    show ?thesis
    proof (cases "vacated q")
      case n: None
      have "vacated q' = None"
        using r None n by (auto simp: remove_one_def Let_def pos' split: option.splits if_splits)
      then show ?thesis using cur n None order' by (simp add: upcoming_def base_of_def)
    next
      case (Some v)
      have "vacated q' = Some (if s < v then v - 1 else v)"
        using r None Some by (auto simp: remove_one_def Let_def pos' split: option.splits if_splits)
      moreover have "v \<le> length (order q)" using wf Some by (simp add: queue_wf_def)
      ultimately show ?thesis using d [of v] cur Some None order' by (simp add: upcoming_def base_of_def)
    qed
  next
    case (Some c)
    show ?thesis
    proof (cases "c = i")
      case True
      have v: "vacated q' = Some s" "current q' = None"
        using remove_one_slot(1) [OF r] remove_one_frame(6) [OF r] Some True s by auto
      have "upcoming q = drop (Suc s) (order q)" using Some True s by (simp add: upcoming_def base_of_def)
      moreover have "upcoming q' = drop s (filter (\<lambda>j. j \<noteq> i) (order q))"
        using v order' by (simp add: upcoming_def base_of_def)
      ultimately show ?thesis using d [of "Suc s"] sl(1) by simp
    next
      case False
      have c: "c \<in> set (order q)" using wf Some wf_set_order [OF wf] by (simp add: queue_wf_def)
      have "current q' = Some c" using remove_one_frame(6) [OF r] Some False by simp
      then have "upcoming q' = tl (dropWhile (\<lambda>j. j \<noteq> c) (order q'))"
        by (rule upcoming_current) (use c False order' in simp)
      then show ?thesis using upcoming_current [OF Some c] tl_dropWhile_filter [OF False] order' by simp
    qed
  qed
qed

lemma remove_loop_upcoming:
  "queue_wf q \<Longrightarrow> remove_loop ids n q = (m, q') \<Longrightarrow>
     upcoming q' = filter (\<lambda>j. j \<notin> set ids) (upcoming q) \<and>
     item_ids q' = filter (\<lambda>j. j \<notin> set ids) (item_ids q) \<and>
     m = n + card (set ids \<inter> set (item_ids q)) \<and>
     current q' = (case current q of Some c \<Rightarrow> if c \<in> set ids then None else Some c | None \<Rightarrow> None) \<and>
     repeat_mode q' = repeat_mode q \<and> (pending q = None \<longrightarrow> pending q' = None)"
proof (induction ids n q rule: remove_loop.induct)
  case (1 removed q)
  then show ?case by (auto split: option.split)
next
  case (2 i ids removed q)
  show ?case
  proof (cases "remove_one i q")
    case None
    then have no: "i \<notin> set (item_ids q)" by (simp add: remove_one_None)
    have up: "i \<notin> set (upcoming q)"
      using no wf_set_order [OF 2(3)] set_drop_subset by (fastforce simp: upcoming_def)
    have cur: "current q \<noteq> Some i" using no 2(3) by (auto simp: queue_wf_def)
    from 2(1) [OF None 2(3)] 2(4) None
    have ih: "upcoming q' = filter (\<lambda>j. j \<notin> set ids) (upcoming q)"
      "item_ids q' = filter (\<lambda>j. j \<notin> set ids) (item_ids q)"
      "m = removed + card (set ids \<inter> set (item_ids q))"
      "current q' = (case current q of Some c \<Rightarrow> if c \<in> set ids then None else Some c | None \<Rightarrow> None)"
      "repeat_mode q' = repeat_mode q" "pending q = None \<longrightarrow> pending q' = None" by simp_all
    have "filter (\<lambda>j. j \<notin> set (i # ids)) xs = filter (\<lambda>j. j \<notin> set ids) xs" if "i \<notin> set xs" for xs
      using that by (intro filter_cong) auto
    moreover have "set (i # ids) \<inter> set (item_ids q) = set ids \<inter> set (item_ids q)" using no by auto
    ultimately show ?thesis using ih up no cur by (auto split: option.split)
  next
    case (Some q1)
    note it = remove_one_items [OF Some 2(3)]
    from 2(2) [OF Some wf_remove_one [OF Some 2(3)]] 2(4) Some
    have ih: "upcoming q' = filter (\<lambda>j. j \<notin> set ids) (upcoming q1)"
      "item_ids q' = filter (\<lambda>j. j \<notin> set ids) (item_ids q1)"
      "m = removed + 1 + card (set ids \<inter> set (item_ids q1))"
      "current q' = (case current q1 of Some c \<Rightarrow> if c \<in> set ids then None else Some c | None \<Rightarrow> None)"
      "repeat_mode q' = repeat_mode q1" "pending q1 = None \<longrightarrow> pending q' = None" by simp_all
    have s: "set (i # ids) \<inter> set (item_ids q) = insert i (set ids \<inter> set (item_ids q1))" "i \<notin> set ids \<inter> set (item_ids q1)"
      using it by auto
    then have "card (set (i # ids) \<inter> set (item_ids q)) = Suc (card (set ids \<inter> set (item_ids q1)))"
      by (metis s card_insert_disjoint finite_Int List.finite_set)
    moreover have "filter (\<lambda>j. j \<notin> set ids) (filter (\<lambda>j. j \<noteq> i) xs) = filter (\<lambda>j. j \<notin> set (i # ids)) xs" for xs
      by (simp add: conj_commute)
    ultimately show ?thesis
      using ih upcoming_remove_one [OF 2(3) Some] it(1) remove_one_frame [OF Some]
      by (auto split: option.split)
  qed
qed

lemma peek_upcoming: "peek_forward q False = (case upcoming q of [] \<Rightarrow> Peeked_End | i # _ \<Rightarrow> Peeked_Next i)"
proof (cases "next_slot (base_of q (current q)) < length (order q)")
  case True
  then show ?thesis by (simp add: peek_forward_def upcoming_def Cons_nth_drop_Suc [symmetric] get_at_def)
qed (simp add: peek_forward_def upcoming_def get_at_def)

lemma upcoming_bump [simp]: "upcoming (bump_version q) = upcoming q"
proof -
  have "position (bump_version q) = position q" by (rule ext) (simp add: position_def bump_version_def)
  moreover have "vacated (bump_version q) = vacated q" by (simp add: bump_version_def)
  ultimately show ?thesis by (simp add: upcoming_def base_of_def cong: option.case_cong)
qed

lemma advance_upcoming:
  assumes "pending q = None" and "repeat_mode q = RepeatOff"
  shows "fst (q_advance shuf Adv_Next q) = first_of (upcoming q)"
proof -
  have "base q = base_of q (current q)" using assms(1) by (simp add: base_def base_id_def)
  then show ?thesis using assms(2)
    by (cases "next_slot (base_of q (current q)) < length (order q)")
       (simp_all add: q_advance_def advance_target_def forward_def upcoming_def get_at_def first_of_def
          case_prod_beta hd_drop_conv_nth)
qed

lemma q_remove_upcoming:
  assumes "queue_wf q" and "q_remove ids q = (n, q')"
  shows "upcoming q' = filter (\<lambda>j. j \<notin> set ids) (upcoming q)"
    and "item_ids q' = filter (\<lambda>j. j \<notin> set ids) (item_ids q)"
    and "n = card (set ids \<inter> set (item_ids q))"
    and "repeat_mode q' = repeat_mode q" and "pending q = None \<Longrightarrow> pending q' = None"
proof -
  obtain q1 where q1: "remove_loop ids 0 q = (n, q1)" "q' = (if n > 0 then bump_version q1 else q1)"
    using assms(2) by (auto simp: q_remove_def split: prod.splits)
  note l = remove_loop_upcoming [OF assms(1) q1(1)]
  show "upcoming q' = filter (\<lambda>j. j \<notin> set ids) (upcoming q)" using l q1(2) by auto
  show "item_ids q' = filter (\<lambda>j. j \<notin> set ids) (item_ids q)" using l q1(2) by (auto simp: bump_version_def)
  show "n = card (set ids \<inter> set (item_ids q))" using l by simp
  show "repeat_mode q' = repeat_mode q" using l q1(2) by (auto simp: bump_version_def)
  show "pending q = None \<Longrightarrow> pending q' = None" using l q1(2) by (auto simp: bump_version_def)
qed

text \<open>
  C26. Removing entries takes exactly the ones that exist, whatever is asked for twice or not there, and
  leaves the rest in order. The engine is told to go on to the next track exactly if the one it has
  loaded was among them, and what it is then given is the first entry still to come that was not
  removed; a stopped engine is told nothing.
\<close>

theorem removing_playing_entry_skips:
  assumes wf: "queue_wf (qu_inner (ct_queue c))"
    and pub: "qu_published (ct_queue c) = snapshot (qu_inner (ct_queue c))"
    and cmd: "control_remove h ids c = (n, c')"
  shows "n = card (set ids \<inter> set (item_ids (qu_inner (ct_queue c)))) \<and>
    item_ids (qu_inner (ct_queue c')) = filter (\<lambda>j. j \<notin> set ids) (item_ids (qu_inner (ct_queue c))) \<and>
    ct_engine c' =
      (if st_state (eh_status h (ct_engine c)) \<noteq> Stopped \<and>
          (\<exists>i \<in> set ids. current (qu_inner (ct_queue c)) = Some i)
       then snd (eh_send h Next (ct_engine c)) else ct_engine c) \<and>
    (pending (qu_inner (ct_queue c)) = None \<longrightarrow> repeat_mode (qu_inner (ct_queue c)) = RepeatOff \<longrightarrow>
      fst (queue_advance shuf Adv_Next (ct_queue c')) =
        map_option id_track_ref
          (first_of (filter (\<lambda>j. j \<notin> set ids) (upcoming (qu_inner (ct_queue c))))))"
proof -
  let ?q = "qu_inner (ct_queue c)"
  obtain q' where r: "q_remove ids ?q = (n, q')" and q': "qu_inner (ct_queue c') = q'"
    and e: "ct_engine c' = (if 0 < n \<and> (case playing_entry h c of Some i \<Rightarrow> i \<in> set ids | None \<Rightarrow> False)
              then snd (eh_send h Next (ct_engine c)) else ct_engine c)"
    using cmd by (auto simp: control_remove_def queue_remove_def mutate_def control_send_def Let_def
        split: prod.splits if_splits)
  note u = q_remove_upcoming [OF wf r]
  have play: "playing_entry h c = (if st_state (eh_status h (ct_engine c)) \<noteq> Stopped then current ?q else None)"
    by (simp add: playing_entry_def control_snapshot_def queue_snapshot_of_def pub snapshot_def)
  have "0 < n" if "i \<in> set ids" "current ?q = Some i" for i
    using that wf u(3) by (auto simp: queue_wf_def card_gt_0_iff)
  then have "ct_engine c' =
      (if st_state (eh_status h (ct_engine c)) \<noteq> Stopped \<and> (\<exists>i \<in> set ids. current ?q = Some i)
       then snd (eh_send h Next (ct_engine c)) else ct_engine c)"
    using e play by (auto split: option.splits)
  moreover have "fst (queue_advance shuf Adv_Next (ct_queue c')) =
      map_option id_track_ref (first_of (filter (\<lambda>j. j \<notin> set ids) (upcoming ?q)))"
    if "pending ?q = None" "repeat_mode ?q = RepeatOff"
  proof -
    have "fst (q_advance shuf Adv_Next q') = first_of (upcoming q')"
      using advance_upcoming u(4,5) that by metis
    then show ?thesis using u(1) q'
      by (simp add: queue_advance_def mutate_def case_prod_beta Let_def)
  qed
  ultimately show ?thesis using u(2,3) q' by simp
qed

definition log_handle :: "(status \<times> command list) engine_handle" where
  "log_handle = \<lparr>eh_send = (\<lambda>command (s, log). (Inr (), s, log @ [command])), eh_status = fst\<rparr>"

definition playing_status :: status where
  "playing_status = \<lparr>st_state = Playing, st_track = None, st_spec = None, st_position = 0,
     st_duration = None, st_output = Out_Open\<rparr>"

definition demo_track :: "string \<Rightarrow> queue_track" where
  "demo_track source = \<lparr>qt_source = source, qt_title = None, qt_artist = None, qt_duration = None,
     qt_cover = None, qt_album_id = None, qt_artist_id = None, qt_album = None\<rparr>"

definition demo_queue :: "nat queue" where
  "demo_queue =
     snd (mutate (q_commit 1) (snd (queue_add (map demo_track [''file:/a'', ''file:/b'', ''file:/c'']) (with_seed 0))))"

lemma removing_playing_entry_skips_witness:
  "ct_engine (snd (control_remove log_handle [1, 2, 9] \<lparr>ct_engine = (playing_status, []), ct_queue = demo_queue\<rparr>))
     = (playing_status, [Next])"
proof -
  let ?c = "\<lparr>ct_engine = (playing_status, []), ct_queue = demo_queue\<rparr>"
  have wf: "queue_wf (qu_inner demo_queue)"
    by (simp add: demo_queue_def mutate_def queue_add_def with_seed_def case_prod_beta Let_def wf_commit wf_add wf_new)
  have pub: "qu_published demo_queue = snapshot (qu_inner demo_queue)" by code_simp
  have cur: "current (qu_inner demo_queue) = Some 1" by code_simp
  obtain n c' where r: "control_remove log_handle [1, 2, 9] ?c = (n, c')" by fastforce
  have "ct_engine c' = (if st_state (eh_status log_handle (ct_engine ?c)) \<noteq> Stopped \<and>
          (\<exists>i \<in> set [1, 2, 9]. current (qu_inner (ct_queue ?c)) = Some i)
       then snd (eh_send log_handle Next (ct_engine ?c)) else ct_engine ?c)"
    using removing_playing_entry_skips [of ?c log_handle "[1, 2, 9]" n c' undefined] wf pub r by (simp only: ) simp
  then show ?thesis using r cur by (simp add: log_handle_def playing_status_def)
qed

end
