(* ===== verification/Sources.thy ===== *)
theory Sources
  imports Strings Queue_Inner
begin

text \<open>
  Where a track's audio comes from (\<^verbatim>\<open>Source\<close> of \<^verbatim>\<open>phonia-core/src/openers.rs\<close>), the names of files
  (\<^verbatim>\<open>std::path\<close> on Unix, a path being its text), and the bytes of a text that is valid UTF-8.
\<close>

section \<open>Paths\<close>

definition is_absolute :: "string \<Rightarrow> bool" where
  "is_absolute path \<longleftrightarrow> starts_with path ''/''"

text \<open>\<^verbatim>\<open>Path::file_name\<close>: the last component, if it is a name.\<close>

definition path_file_name :: "string \<Rightarrow> string option" where
  "path_file_name path =
     (case last_of (filter (\<lambda>c. c \<noteq> [] \<and> c \<noteq> ''.'') (split_char (CHR ''/'') path)) of
        None \<Rightarrow> None
      | Some c \<Rightarrow> if c = ''..'' then None else Some c)"

text \<open>\<^verbatim>\<open>Path::extension\<close>: what follows the last point of the name, unless the name begins there.\<close>

definition path_extension :: "string \<Rightarrow> string option" where
  "path_extension path =
     (case path_file_name path of
        None \<Rightarrow> None
      | Some name \<Rightarrow>
          (case position_of (\<lambda>c. c = CHR ''.'') (rev name) of
             None \<Rightarrow> None
           | Some n \<Rightarrow> if n + 1 = length name then None else Some (drop (length name - n) name)))"

section \<open>Sources\<close>

datatype track_source = SourceFile string | SourceTidal string

definition source_file :: "string \<Rightarrow> error + track_source" where
  "source_file path =
     (if \<not> is_absolute path
      then Inl (mk_error (Message (''a file source needs an absolute path, got '' @ debug_str path)))
      else if CHR 0x00 \<in> set path
      then Inl (mk_error (Message (debug_str path @ '' can'' @ [CHR 0x27]
             @ ''t be used as a source: it is not valid text'')))
      else Inr (SourceFile path))"

definition source_parse :: "string \<Rightarrow> error + track_source" where
  "source_parse text0 =
     (case strip_prefix ''file:'' text0 of
        Some path \<Rightarrow> source_file path
      | None \<Rightarrow>
          (case strip_prefix ''tidal:'' text0 of
             Some i \<Rightarrow>
               if i = [] \<or> \<not> list_all is_digit i
               then Inl (mk_error (Message (''a TIDAL track id is a number, got '' @ debug_str i)))
               else Inr (SourceTidal i)
           | None \<Rightarrow>
               Inl (mk_error (Message (''unknown source '' @ debug_str text0
                 @ '': expected file:/absolute/path or tidal:<track id>'')))))"

definition source_to_wire :: "track_source \<Rightarrow> string" where
  "source_to_wire s =
     (case s of SourceFile path \<Rightarrow> ''file:'' @ path | SourceTidal i \<Rightarrow> ''tidal:'' @ i)"

definition source_ok :: "track_source \<Rightarrow> bool" where
  "source_ok s =
     (case s of
        SourceFile path \<Rightarrow> is_absolute path \<and> CHR 0x00 \<notin> set path
      | SourceTidal i \<Rightarrow> i \<noteq> [] \<and> list_all is_digit i)"

lemma source_file_Inr [simp]:
  "source_file path = Inr s \<longleftrightarrow> s = SourceFile path \<and> source_ok s"
  by (auto simp: source_file_def source_ok_def)

lemma source_parse_Inr: "source_parse text0 = Inr s \<longleftrightarrow> source_ok s \<and> source_to_wire s = text0"
proof
  assume "source_parse text0 = Inr s"
  then show "source_ok s \<and> source_to_wire s = text0"
    by (auto simp: source_parse_def source_to_wire_def source_ok_def strip_prefix_Some
        split: option.splits if_splits)
next
  assume ok: "source_ok s \<and> source_to_wire s = text0"
  show "source_parse text0 = Inr s"
  proof (cases s)
    case (SourceFile path)
    then show ?thesis using ok by (auto simp: source_parse_def source_to_wire_def)
  next
    case (SourceTidal i)
    then have "strip_prefix ''file:'' text0 = None" using ok by (auto simp: source_to_wire_def)
    moreover have "strip_prefix ''tidal:'' text0 = Some i" using ok SourceTidal by (auto simp: source_to_wire_def)
    ultimately show ?thesis using ok SourceTidal by (auto simp: source_parse_def source_ok_def)
  qed
qed

text \<open>
  A source survives the wire: what can be opened is written as a text that reads back as the same
  source, and a text that is understood is the one its source is written as.
\<close>

theorem source_round_trip:
  "(source_parse (source_to_wire s) = Inr s) = source_ok s \<and>
   (source_parse t = Inr s) = (source_ok s \<and> t = source_to_wire s)"
  by (auto simp: source_parse_Inr)

lemma source_round_trip_witness:
  "source_parse ''file:/m/a.flac'' = Inr (SourceFile ''/m/a.flac'')"
  using source_round_trip [of "SourceFile ''/m/a.flac''" "''file:/m/a.flac''"]
  by (simp add: source_ok_def source_to_wire_def is_absolute_def starts_with_def)

section \<open>What is known about a source\<close>

record source_info =
  si_title :: "string option"
  si_artist :: "string option"
  si_duration :: "duration option"
  si_cover :: "string option"
  si_album_id :: "string option"
  si_artist_id :: "string option"
  si_album :: "string option"

datatype describe_error = DescribeInvalid string | DescribeUnavailable string

definition show_describe_error :: "describe_error \<Rightarrow> string" where
  "show_describe_error e = (case e of DescribeInvalid reason \<Rightarrow> reason | DescribeUnavailable reason \<Rightarrow> reason)"

section \<open>UTF-8\<close>

text \<open>The text a list of bytes is, one character per byte, if \<^verbatim>\<open>String::from_utf8\<close> takes it.\<close>

definition continuation :: "nat \<Rightarrow> bool" where
  "continuation b \<longleftrightarrow> 0x80 \<le> b \<and> b \<le> 0xBF"

fun valid_utf8 :: "nat list \<Rightarrow> bool" where
  "valid_utf8 [] \<longleftrightarrow> True"
| "valid_utf8 (a # rest) \<longleftrightarrow>
     (if a < 0x80 then valid_utf8 rest
      else case rest of
        [] \<Rightarrow> False
      | b # rest \<Rightarrow>
          if 0xC2 \<le> a \<and> a \<le> 0xDF then continuation b \<and> valid_utf8 rest
          else case rest of
            [] \<Rightarrow> False
          | c # rest \<Rightarrow>
              if 0xE0 \<le> a \<and> a \<le> 0xEF
              then continuation b \<and> (a = 0xE0 \<longrightarrow> 0xA0 \<le> b) \<and> (a = 0xED \<longrightarrow> b \<le> 0x9F) \<and>
                   continuation c \<and> valid_utf8 rest
              else case rest of
                [] \<Rightarrow> False
              | d # rest \<Rightarrow>
                  0xF0 \<le> a \<and> a \<le> 0xF4 \<and>
                  continuation b \<and> (a = 0xF0 \<longrightarrow> 0x90 \<le> b) \<and> (a = 0xF4 \<longrightarrow> b \<le> 0x8F) \<and>
                  continuation c \<and> continuation d \<and> valid_utf8 rest)"

definition from_utf8 :: "octet list \<Rightarrow> string option" where
  "from_utf8 bytes = (if valid_utf8 (map unat bytes) then Some (map (\<lambda>b. char_of (unat b)) bytes) else None)"

end
