(* ===== verification/Openers.thy ===== *)
theory Openers
  imports Sources Dash Tidal_Api "HOL-Library.AList"
begin

text \<open>
  How a track is opened (\<^verbatim>\<open>openers.rs\<close>), with the request for a TIDAL track that it makes
  (\<^verbatim>\<open>tidal.rs\<close>) and the login it makes it with (\<^verbatim>\<open>session.rs\<close>). The HTTP client, the JSON, base64 and
  XML readers and the container reader are the fields of a record of functions on a world \<open>'x\<close>.
\<close>

section \<open>Quality limits\<close>

record quality_limits =
  ql_max :: quality
  ql_min :: quality

definition limits_set_max :: "quality \<Rightarrow> quality_limits \<Rightarrow> (error + unit) \<times> quality_limits" where
  "limits_set_max best l =
     (if best < ql_min l
      then (Inl (mk_error (Message (show_quality best @ '' is below the minimum quality (''
              @ show_quality (ql_min l) @ ''): lower tidal.min_quality to allow it''))), l)
      else (Inr (), l\<lparr>ql_max := best\<rparr>))"

section \<open>The answer to a request for a track\<close>

datatype manifest_kind = JsonManifest string string | DashManifest dash_segments

record playback_info = playback_gain +
  pi_track_id :: nat
  pi_audio_mode :: string
  pi_audio_quality :: string
  pi_mime_type :: string
  pi_bit_depth :: "nat option"
  pi_sample_rate :: "nat option"
  pi_manifest :: manifest_kind

definition info_codecs :: "playback_info \<Rightarrow> string option" where
  "info_codecs info =
     (case pi_manifest info of JsonManifest _ codecs \<Rightarrow> Some codecs | DashManifest dash \<Rightarrow> ds_codecs dash)"

record raw_playback_info = playback_gain +
  raw_track_id :: nat
  raw_audio_mode :: string
  raw_audio_quality :: string
  raw_mime_type :: string
  raw_bit_depth :: "nat option"
  raw_sample_rate :: "nat option"
  raw_manifest :: string

record raw_json_manifest =
  rj_codecs :: string
  rj_urls :: "string list"

text \<open>An HTTP status: its code, and how the library shows it.\<close>

record http_status =
  hs_code :: nat
  hs_text :: string

text \<open>The failures \<^verbatim>\<open>downcast_ref\<close> tells apart, and all the others.\<close>

datatype fetch_failure = StatusError http_status string | BadManifest string | FetchError error

definition failure_error :: "fetch_failure \<Rightarrow> error" where
  "failure_error f =
     (case f of
        StatusError status body \<Rightarrow>
          mk_error (Message (''TIDAL responded '' @ hs_text status @ '' to playbackinfopostpaywall:''
            @ [CHR 0x0A] @ body))
      | BadManifest why \<Rightarrow> mk_error (Message (''the manifest could not be read: '' @ why))
      | FetchError e \<Rightarrow> e)"

definition worth_a_lower_tier :: "fetch_failure \<Rightarrow> bool" where
  "worth_a_lower_tier f =
     (case f of
        BadManifest _ \<Rightarrow> True
      | StatusError status _ \<Rightarrow>
          400 \<le> hs_code status \<and> hs_code status < 500 \<and>
          hs_code status \<noteq> 401 \<and> hs_code status \<noteq> 408 \<and> hs_code status \<noteq> 429
      | FetchError _ \<Rightarrow> False)"

record tidal_client =
  tc_access_token :: "string option"
  tc_user :: "(nat \<times> string) option"

definition credentials :: "tidal_client \<Rightarrow> error + string \<times> string" where
  "credentials client =
     (case tc_access_token client of
        None \<Rightarrow> Inl (mk_error (Message ''no access token; run `phonia login` first''))
      | Some token \<Rightarrow>
          (case tc_user client of
             None \<Rightarrow> Inl (mk_error (Message ''no user info loaded; run `phonia login` first''))
           | Some (_, country) \<Rightarrow> Inr (token, country)))"

definition user_id :: "tidal_client \<Rightarrow> error + string" where
  "user_id client =
     (case tc_user client of
        None \<Rightarrow> Inl (mk_error (Message ''no user info loaded; run `phonia login` first''))
      | Some (i, _) \<Rightarrow> Inr (show_nat i))"

text \<open>
  A stream to be decoded: the segments from a number on or the body of a URL, with the file a copy
  goes to, or a file.
\<close>

datatype 'f stream_source =
    DashStream dash_segments nat "'f option"
  | UrlStream string "'f option"
  | FileStream string

text \<open>What \<^verbatim>\<open>tidlers\<close> tells of a track, and how it fails.\<close>

record tidlers_album =
  ta_id :: nat
  ta_title :: string
  ta_cover :: "string option"

record tidlers_track =
  tt_title :: string
  tt_artist :: string
  tt_artists :: "(nat \<times> string) list"
  tt_duration :: nat
  tt_album :: "tidlers_album option"

datatype tidlers_error = TeNotFound string | TeStatus nat string | TeOther string

record ('x, 'f) tidal_env =
  te_api :: string
  te_get :: "string \<Rightarrow> string \<Rightarrow> (string \<times> string) list \<Rightarrow> 'x \<Rightarrow>
             (error + http_status \<times> (error + string)) \<times> 'x"
  te_info_json :: "string \<Rightarrow> error + raw_playback_info"
  te_base64 :: "string \<Rightarrow> error + octet list"
  te_utf8_why :: "octet list \<Rightarrow> string"
  te_manifest_json :: "string \<Rightarrow> raw_json_manifest option"
  te_xml :: "string \<Rightarrow> xml_event list"
  te_entity :: "string \<Rightarrow> string option"
  te_probe :: "'f stream_source \<Rightarrow> string option \<Rightarrow> error + decoder"
  te_duration :: "decoder \<Rightarrow> duration option"
  te_open_file :: "string \<Rightarrow> 'x \<Rightarrow> (error + unit) \<times> 'x"
  te_load_client :: "'x \<Rightarrow> (error + tidal_client) \<times> 'x"
  te_refresh :: "tidal_client \<Rightarrow> 'x \<Rightarrow> (string + unit) \<times> tidal_client \<times> 'x"
  te_track :: "tidal_client \<Rightarrow> string \<Rightarrow> 'x \<Rightarrow> (tidlers_error + tidlers_track) \<times> 'x"

definition decode_manifest :: "('x, 'f) tidal_env \<Rightarrow> string \<Rightarrow> error + manifest_kind" where
  "decode_manifest env encoded =
     (case te_base64 env encoded of
        Inl e \<Rightarrow> Inl (with_context ''decoding the manifest field (base64)'' e)
      | Inr bytes \<Rightarrow>
          (case from_utf8 bytes of
             None \<Rightarrow> Inl (with_context ''the decoded manifest is not valid UTF-8''
                            (mk_error (Message (te_utf8_why env bytes))))
           | Some text0 \<Rightarrow>
               (case te_manifest_json env text0 of
                  Some json \<Rightarrow>
                    (case rj_urls json of
                       [] \<Rightarrow> Inl (mk_error (Message ''the JSON manifest contains no URL''))
                     | url # _ \<Rightarrow> Inr (JsonManifest url (rj_codecs json)))
                | None \<Rightarrow>
                    (case parse_mpd (te_entity env) (te_xml env text0) of
                       Inl e \<Rightarrow> Inl (with_context ''parsing the DASH (MPD) manifest'' e)
                     | Inr dash \<Rightarrow> Inr (DashManifest dash)))))"

record account =
  ac_base :: string
  ac_token :: string
  ac_country :: string

definition fetch_at ::
    "('x, 'f) tidal_env \<Rightarrow> account \<Rightarrow> string \<Rightarrow> quality \<Rightarrow> 'x \<Rightarrow> (fetch_failure + playback_info) \<times> 'x" where
  "fetch_at env account track tier x =
     (let url = ac_base account @ ''/tracks/'' @ track @ ''/playbackinfopostpaywall'';
          query = [(''countryCode'', ac_country account), (''audioquality'', api_quality tier),
                   (''playbackmode'', ''STREAM''), (''assetpresentation'', ''FULL'')];
          (response, x) = te_get env url (ac_token account) query x
      in (case response of
            Inl e \<Rightarrow> Inl (FetchError (with_context ''requesting playbackinfopostpaywall from TIDAL'' e))
          | Inr (status, body) \<Rightarrow>
              (case body of
                 Inl e \<Rightarrow> Inl (FetchError (with_context ''reading the playbackinfopostpaywall response'' e))
               | Inr body \<Rightarrow>
                   if \<not> (200 \<le> hs_code status \<and> hs_code status < 300) then Inl (StatusError status body)
                   else case te_info_json env body of
                     Inl e \<Rightarrow> Inl (FetchError (with_context
                       (''parsing the playbackinfopostpaywall JSON response:'' @ [CHR 0x0A] @ body) e))
                   | Inr raw \<Rightarrow>
                       (case decode_manifest env (raw_manifest raw) of
                          Inl e \<Rightarrow> Inl (BadManifest (show_error e))
                        | Inr manifest \<Rightarrow>
                            Inr (playback_gain.extend (playback_gain.truncate raw)
                              (playback_info.fields (raw_track_id raw) (raw_audio_mode raw)
                                (raw_audio_quality raw) (raw_mime_type raw) (raw_bit_depth raw)
                                (raw_sample_rate raw) manifest)))), x))"

text \<open>The next tier to try, if there is one above the floor.\<close>

definition tier_below :: "quality \<Rightarrow> quality \<Rightarrow> quality option" where
  "tier_below min_tier tier =
     (case lower tier of None \<Rightarrow> None | Some l \<Rightarrow> if min_tier \<le> l then Some l else None)"

function fetch_with_fallback ::
    "('x, 'f) tidal_env \<Rightarrow> account \<Rightarrow> string \<Rightarrow> quality \<Rightarrow> quality \<Rightarrow> 'x \<Rightarrow>
     (fetch_failure + playback_info) \<times> 'x" where
  "fetch_with_fallback env account track tier min_tier x =
     (case fetch_at env account track tier x of
        (Inr info, x) \<Rightarrow> (Inr info, x)
      | (Inl failure, x) \<Rightarrow>
          (case tier_below min_tier tier of
             Some l \<Rightarrow> if worth_a_lower_tier failure then fetch_with_fallback env account track l min_tier x
                       else (Inl failure, x)
           | None \<Rightarrow> (Inl failure, x)))"
  by pat_completeness auto
termination fetch_with_fallback
  by (relation "measure (\<lambda>(_, _, _, tier, _, _). quality_rank tier)")
     (auto simp: tier_below_def quality_order dest!: lower_less split: option.splits if_splits)

declare fetch_with_fallback.simps [simp del]

definition fetch_playback_info ::
    "('x, 'f) tidal_env \<Rightarrow> tidal_client \<Rightarrow> string \<Rightarrow> quality \<Rightarrow> quality \<Rightarrow> 'x \<Rightarrow>
     (error + playback_info) \<times> 'x" where
  "fetch_playback_info env client track best min_tier x =
     (case credentials client of
        Inl e \<Rightarrow> (Inl e, x)
      | Inr (token, country) \<Rightarrow>
          (case fetch_with_fallback env \<lparr>ac_base = te_api env, ac_token = token, ac_country = country\<rparr>
                  track best min_tier x of
             (Inl failure, x) \<Rightarrow> (Inl (failure_error failure), x)
           | (Inr info, x) \<Rightarrow> (Inr info, x)))"

section \<open>The login\<close>

record tidal_session =
  ts_client :: "tidal_client option"
  ts_store :: bool

definition session_fresh ::
    "('x, 'f) tidal_env \<Rightarrow> tidal_session \<Rightarrow> 'x \<Rightarrow> (error + tidal_client) \<times> tidal_session \<times> 'x" where
  "session_fresh env s x =
     (let (loaded, x) =
        (case ts_client s of
           Some client \<Rightarrow> (Inr client, x)
         | None \<Rightarrow> if ts_store s then te_load_client env x
                   else (Inl (mk_error (Message ''there is no TIDAL session'')), x))
      in case loaded of
           Inl e \<Rightarrow> (Inl e, s, x)
         | Inr client \<Rightarrow>
             (case te_refresh env client x of
                (Inl why, client, x) \<Rightarrow>
                  (Inl (mk_error (Message (''refreshing the TIDAL access token: '' @ why))),
                   s\<lparr>ts_client := Some client\<rparr>, x)
              | (Inr _, client, x) \<Rightarrow> (Inr client, s\<lparr>ts_client := Some client\<rparr>, x)))"

section \<open>Opening a TIDAL track\<close>

definition max_remembered_tiers :: nat where
  "max_remembered_tiers = 64"

definition tier_to_ask :: "quality \<Rightarrow> duration \<Rightarrow> quality option \<Rightarrow> quality" where
  "tier_to_ask best at0 known =
     (if at0 = 0 then best else case known of Some q \<Rightarrow> q | None \<Rightarrow> best)"

definition check_delivered :: "string \<Rightarrow> quality \<Rightarrow> quality \<Rightarrow> string \<Rightarrow> error + delivered" where
  "check_delivered track requested min_tier audio_quality =
     (case quality_from_api audio_quality of
        None \<Rightarrow> Inl (mk_error (Message (''TIDAL answered track '' @ track
                    @ '' with a quality phonia doesn'' @ [CHR 0x27] @ ''t know: '' @ audio_quality)))
      | Some got \<Rightarrow>
          if got < min_tier
          then Inl (mk_error (Message (''track '' @ track @ '' is only available in '' @ show_quality got
                 @ '' quality, below the '' @ show_quality min_tier
                 @ '' that tidal.min_quality allows: lower it to play the track at that quality'')))
          else Inr \<lparr>requested_quality = requested, delivered_quality = got\<rparr>)"

record dash_start =
  do_first_segment :: nat
  do_start :: duration
  do_seek :: seek_mode

definition dash_opening :: "dash_segments \<Rightarrow> duration \<Rightarrow> dash_start" where
  "dash_opening dash at0 =
     (if ds_timing dash = Unknown
      then \<lparr>do_first_segment = ds_start_number dash, do_start = 0, do_seek = ForwardOnly\<rparr>
      else case (if at0 = 0 then None else segment_for_time at0 dash) of
             Some segment \<Rightarrow>
               \<lparr>do_first_segment = sa_number segment, do_start = sa_start segment, do_seek = Reopen\<rparr>
           | None \<Rightarrow> \<lparr>do_first_segment = ds_start_number dash, do_start = 0, do_seek = Reopen\<rparr>)"

record 'f tidal_opener =
  to_session :: tidal_session
  to_limits :: quality_limits
  to_delivered :: "(string \<times> quality) list"
  to_save :: "'f option"

definition tidal_opener_new :: "tidal_session \<Rightarrow> quality \<Rightarrow> 'f tidal_opener" where
  "tidal_opener_new session best =
     \<lparr>to_session = session, to_limits = \<lparr>ql_max = best, ql_min = Lossless\<rparr>, to_delivered = [],
      to_save = None\<rparr>"

definition with_min_quality :: "quality \<Rightarrow> 'f tidal_opener \<Rightarrow> 'f tidal_opener" where
  "with_min_quality min_tier o0 = o0\<lparr>to_limits := \<lparr>ql_max = ql_max (to_limits o0), ql_min = min_tier\<rparr>\<rparr>"

definition remember_tier :: "string \<Rightarrow> quality \<Rightarrow> (string \<times> quality) list \<Rightarrow> (string \<times> quality) list" where
  "remember_tier track q tiers =
     AList.update track q (if max_remembered_tiers \<le> length tiers then [] else tiers)"

text \<open>What \<^verbatim>\<open>open\<close> reads at the call; the future that does the rest runs later.\<close>

record 'f open_request =
  or_track :: string
  or_at :: duration
  or_best :: quality
  or_min :: quality
  or_ask :: quality
  or_tee :: "'f option"

definition tidal_open_begin :: "track_ref \<Rightarrow> duration \<Rightarrow> 'f tidal_opener \<Rightarrow> 'f open_request \<times> 'f tidal_opener" where
  "tidal_open_begin track at0 o0 =
     (\<lparr>or_track = track, or_at = at0, or_best = ql_max (to_limits o0), or_min = ql_min (to_limits o0),
       or_ask = tier_to_ask (ql_max (to_limits o0)) at0 (map_of (to_delivered o0) track),
       or_tee = (if at0 = 0 then to_save o0 else None)\<rparr>,
      if at0 = 0 then o0\<lparr>to_save := None\<rparr> else o0)"

definition tidal_loaded ::
    "('x, 'f) tidal_env \<Rightarrow> 'f open_request \<Rightarrow> delivered \<Rightarrow> playback_info \<Rightarrow> loaded_track" where
  "tidal_loaded env r q info =
     (let m = \<lparr>tm_track = or_track r, tm_title = None, tm_artist = None, tm_duration = None,
               tm_quality = Some q, tm_cover = None,
               tm_loudness = from_playback_info (playback_gain.truncate info), tm_gain = None\<rparr>
      in case pi_manifest info of
           DashManifest dash \<Rightarrow>
             let m = m\<lparr>tm_duration := total_duration dash\<rparr>;
                 opening = dash_opening dash (or_at r);
                 source = DashStream dash (do_first_segment opening) (or_tee r);
                 t = new_loaded m (Encoded (te_probe env source (Some ''mp4'')))
             in starting_at (do_start opening) (t\<lparr>lt_seek := do_seek opening\<rparr>)
         | JsonManifest url _ \<Rightarrow>
             forward_only (new_loaded m (Encoded (te_probe env (UrlStream url (or_tee r)) None))))"

definition tidal_open_finish ::
    "('x, 'f) tidal_env \<Rightarrow> 'f open_request \<Rightarrow> 'f tidal_opener \<Rightarrow> 'x \<Rightarrow>
     (error + loaded_track) \<times> 'f tidal_opener \<times> 'x" where
  "tidal_open_finish env r o0 x =
     (case session_fresh env (to_session o0) x of
        (Inl e, s, x) \<Rightarrow> (Inl e, o0\<lparr>to_session := s\<rparr>, x)
      | (Inr client, s, x) \<Rightarrow>
          let o0 = o0\<lparr>to_session := s\<rparr>
          in case fetch_playback_info env client (or_track r) (or_ask r) (or_min r) x of
               (Inl e, x) \<Rightarrow> (Inl e, o0, x)
             | (Inr info, x) \<Rightarrow>
                 (case check_delivered (or_track r) (or_best r) (or_min r) (pi_audio_quality info) of
                    Inl e \<Rightarrow> (Inl e, o0, x)
                  | Inr q \<Rightarrow>
                      (Inr (tidal_loaded env r q info),
                       if or_at r = 0
                       then o0\<lparr>to_delivered := remember_tier (or_track r) (delivered_quality q) (to_delivered o0)\<rparr>
                       else o0, x)))"

definition tidal_open ::
    "('x, 'f) tidal_env \<Rightarrow> track_ref \<Rightarrow> duration \<Rightarrow> 'f tidal_opener \<times> 'x \<Rightarrow>
     (error + loaded_track) \<times> 'f tidal_opener \<times> 'x" where
  "tidal_open env track at0 s =
     (let (r, o0) = tidal_open_begin track at0 (fst s) in tidal_open_finish env r o0 (snd s))"

definition classify_track_error :: "string \<Rightarrow> tidlers_error \<Rightarrow> describe_error" where
  "classify_track_error track e =
     (let (missing, shown) = (case e of TeNotFound shown \<Rightarrow> (True, shown)
                              | TeStatus status shown \<Rightarrow> (status = 404, shown)
                              | TeOther shown \<Rightarrow> (False, shown))
      in if missing then DescribeInvalid (''TIDAL has no track '' @ track)
         else DescribeUnavailable (''asking TIDAL about track '' @ track @ '': '' @ shown))"

definition tidal_describe ::
    "('x, 'f) tidal_env \<Rightarrow> string \<Rightarrow> 'f tidal_opener \<times> 'x \<Rightarrow>
     (describe_error + source_info) \<times> 'f tidal_opener \<times> 'x" where
  "tidal_describe env track s =
     (case session_fresh env (to_session (fst s)) (snd s) of
        (Inl e, t, x) \<Rightarrow> (Inl (DescribeUnavailable (show_error e)), (fst s)\<lparr>to_session := t\<rparr>, x)
      | (Inr client, t, x) \<Rightarrow>
          (case te_track env client track x of
             (Inl e, x) \<Rightarrow> (Inl (classify_track_error track e), (fst s)\<lparr>to_session := t\<rparr>, x)
           | (Inr found, x) \<Rightarrow>
               (Inr \<lparr>si_title = Some (tt_title found),
                     si_artist = Some (if tt_artists found = [] then tt_artist found
                                       else join '', '' (map snd (tt_artists found))),
                     si_duration = Some (secs (tt_duration found)),
                     si_cover = Option.bind (tt_album found) ta_cover,
                     si_album_id = map_option (\<lambda>a. show_nat (ta_id a)) (tt_album found),
                     si_artist_id = map_option (\<lambda>a. show_nat (fst a)) (first_of (tt_artists found)),
                     si_album = map_option ta_title (tt_album found)\<rparr>,
                (fst s)\<lparr>to_session := t\<rparr>, x)))"

section \<open>Files, and either\<close>

definition file_open ::
    "('x, 'f) tidal_env \<Rightarrow> track_ref \<Rightarrow> duration \<Rightarrow> 'x \<Rightarrow> (error + loaded_track) \<times> 'x" where
  "file_open env track at0 x =
     (case te_open_file env track x of
        (Inl e, x) \<Rightarrow> (Inl (with_context (''opening '' @ debug_str track) e), x)
      | (Inr _, x) \<Rightarrow>
          (Inr (seekable_in_place (new_loaded
             \<lparr>tm_track = track, tm_title = path_file_name track, tm_artist = None, tm_duration = None,
              tm_quality = None, tm_cover = None, tm_loudness = None, tm_gain = None\<rparr>
             (Encoded (te_probe env (FileStream track) (path_extension track))))), x))"

definition file_describe ::
    "('x, 'f) tidal_env \<Rightarrow> string \<Rightarrow> 'x \<Rightarrow> (describe_error + source_info) \<times> 'x" where
  "file_describe env path x =
     (case te_open_file env path x of
        (Inl e, x) \<Rightarrow>
          (Inl (DescribeInvalid (''opening '' @ debug_str path @ '': '' @ show_cause (err_cause e))), x)
      | (Inr _, x) \<Rightarrow>
          (case te_probe env (FileStream path) (path_extension path) of
             Inl e \<Rightarrow> (Inl (DescribeInvalid (debug_str path @ '' can'' @ [CHR 0x27] @ ''t be played: ''
                            @ show_error e)), x)
           | Inr dec \<Rightarrow>
               (Inr \<lparr>si_title = path_file_name path, si_artist = None, si_duration = te_duration env dec,
                     si_cover = None, si_album_id = None, si_artist_id = None, si_album = None\<rparr>, x)))"

definition tidal_unavailable :: string where
  "tidal_unavailable = ''TIDAL is not available: run `phonia login` first''"

definition dispatch_open ::
    "('x, 'f) tidal_env \<Rightarrow> track_ref \<Rightarrow> duration \<Rightarrow> 'f tidal_opener option \<times> 'x \<Rightarrow>
     (error + loaded_track) \<times> 'f tidal_opener option \<times> 'x" where
  "dispatch_open env track at0 s =
     (case source_parse track of
        Inl e \<Rightarrow> (Inl e, s)
      | Inr (SourceFile path) \<Rightarrow> let (t, x) = file_open env path at0 (snd s) in (t, fst s, x)
      | Inr (SourceTidal i) \<Rightarrow>
          (case fst s of
             None \<Rightarrow> (Inl (mk_error (Message tidal_unavailable)), s)
           | Some o0 \<Rightarrow> let (t, o0, x) = tidal_open env i at0 (o0, snd s) in (t, Some o0, x)))"

definition dispatch_describe ::
    "('x, 'f) tidal_env \<Rightarrow> track_source \<Rightarrow> 'f tidal_opener option \<times> 'x \<Rightarrow>
     (describe_error + source_info) \<times> 'f tidal_opener option \<times> 'x" where
  "dispatch_describe env source s =
     (case source of
        SourceFile path \<Rightarrow> let (d, x) = file_describe env path (snd s) in (d, fst s, x)
      | SourceTidal i \<Rightarrow>
          (case fst s of
             None \<Rightarrow> (Inl (DescribeUnavailable tidal_unavailable), s)
           | Some o0 \<Rightarrow> let (d, o0, x) = tidal_describe env i (o0, snd s) in (d, Some o0, x)))"

end
