(* ===== verification/Openers_Props.thy ===== *)
theory Openers_Props
  imports Openers
begin

text \<open>
  What opening a TIDAL track promises: the tiers are asked for one by one and never below the floor,
  what plays is never below it either, and a track reopened for a seek keeps the tier it has.
\<close>

section \<open>The tiers asked for\<close>

text \<open>Every request \<open>fetch_with_fallback\<close> makes, with its answer.\<close>

function tiers_tried ::
    "('x, 'f) tidal_env \<Rightarrow> account \<Rightarrow> string \<Rightarrow> quality \<Rightarrow> quality \<Rightarrow> 'x \<Rightarrow>
     (quality \<times> (fetch_failure + playback_info)) list" where
  "tiers_tried env account track tier min_tier x =
     (case fetch_at env account track tier x of
        (Inr info, x) \<Rightarrow> [(tier, Inr info)]
      | (Inl failure, x) \<Rightarrow>
          (tier, Inl failure) #
          (case tier_below min_tier tier of
             Some l \<Rightarrow> if worth_a_lower_tier failure then tiers_tried env account track l min_tier x else []
           | None \<Rightarrow> []))"
  by pat_completeness auto
termination tiers_tried
  by (relation "measure (\<lambda>(_, _, _, tier, _, _). quality_rank tier)")
     (auto simp: tier_below_def quality_order dest!: lower_less split: option.splits if_splits)

declare tiers_tried.simps [simp del]

definition tiers_between :: "quality \<Rightarrow> quality \<Rightarrow> quality list" where
  "tiers_between min_tier best = filter (\<lambda>q. min_tier \<le> q \<and> q \<le> best) [Hires, Lossless, High, Low]"

lemma tiers_between_below:
  "min_tier \<le> tier \<Longrightarrow>
     tiers_between min_tier tier =
       tier # (case tier_below min_tier tier of Some l \<Rightarrow> tiers_between min_tier l | None \<Rightarrow> [])"
  by (cases tier; cases min_tier) (simp_all add: tiers_between_def tier_below_def quality_order)

lemma tier_below_floor: "tier_below min_tier tier = Some l \<Longrightarrow> min_tier \<le> l"
  by (auto simp: tier_below_def split: option.splits if_splits)

lemma tiers_tried_prefix:
  "min_tier \<le> tier \<Longrightarrow>
     \<exists>rest. map fst (tiers_tried env account track tier min_tier x) @ rest = tiers_between min_tier tier"
proof (induction env account track tier min_tier x rule: tiers_tried.induct)
  case (1 env account track tier min_tier x)
  obtain r x' where r: "fetch_at env account track tier x = (r, x')" by fastforce
  note b = tiers_between_below [OF 1(2)]
  show ?case
  proof (cases r)
    case (Inr info)
    then show ?thesis using r b by (subst tiers_tried.simps) simp
  next
    case (Inl failure)
    show ?thesis
    proof (cases "tier_below min_tier tier")
      case None
      then show ?thesis using r Inl b by (subst tiers_tried.simps) simp
    next
      case (Some l)
      show ?thesis
      proof (cases "worth_a_lower_tier failure")
        case True
        with 1(1) [OF r [symmetric] Inl Some True tier_below_floor [OF Some]]
        show ?thesis using r Inl b Some by (subst tiers_tried.simps) simp
      next
        case False
        then show ?thesis using r Inl b Some by (subst tiers_tried.simps) simp
      qed
    qed
  qed
qed

lemma tiers_tried_not_Nil [simp]: "tiers_tried env account track tier min_tier x \<noteq> []"
  by (subst tiers_tried.simps) (auto split: prod.splits sum.splits)

lemma tiers_tried_result:
  "fst (fetch_with_fallback env account track tier min_tier x) =
     snd (last (tiers_tried env account track tier min_tier x)) \<and>
   (\<forall>a \<in> set (butlast (tiers_tried env account track tier min_tier x)).
      \<exists>f. snd a = Inl f \<and> worth_a_lower_tier f)"
proof (induction env account track tier min_tier x rule: tiers_tried.induct)
  case (1 env account track tier min_tier x)
  obtain r x' where r: "fetch_at env account track tier x = (r, x')" by fastforce
  show ?case
  proof (cases r)
    case (Inr info)
    then show ?thesis using r by (simp add: tiers_tried.simps [of _ _ _ tier] fetch_with_fallback.simps [of _ _ _ tier])
  next
    case (Inl failure)
    show ?thesis
    proof (cases "tier_below min_tier tier")
      case None
      then show ?thesis using r Inl
        by (simp add: tiers_tried.simps [of _ _ _ tier] fetch_with_fallback.simps [of _ _ _ tier])
    next
      case (Some l)
      show ?thesis
      proof (cases "worth_a_lower_tier failure")
        case True
        with 1 [OF r [symmetric] Inl Some True]
        show ?thesis using r Inl Some
          by (simp add: tiers_tried.simps [of _ _ _ tier] fetch_with_fallback.simps [of _ _ _ tier])
      next
        case False
        then show ?thesis using r Inl Some
          by (simp add: tiers_tried.simps [of _ _ _ tier] fetch_with_fallback.simps [of _ _ _ tier])
      qed
    qed
  qed
qed

lemma fetch_with_fallback_result:
  "\<exists>t x'. fst (fetch_with_fallback env account track tier min_tier x) = fst (fetch_at env account track t x')"
proof (induction env account track tier min_tier x rule: fetch_with_fallback.induct)
  case (1 env account track tier min_tier x)
  show ?case
  proof (cases "fetch_at env account track tier x")
    case (Pair r x')
    show ?thesis
    proof (cases r)
      case (Inr info)
      then show ?thesis using Pair by (subst fetch_with_fallback.simps) (auto intro!: exI [of _ tier] exI [of _ x])
    next
      case (Inl f)
      then show ?thesis using Pair 1 [OF Pair [symmetric] Inl]
        by (subst (1) fetch_with_fallback.simps)
           (auto split: option.splits intro!: exI [of _ tier] exI [of _ x])
    qed
  qed
qed

section \<open>Properties\<close>

text \<open>
  C24. A track is asked for at the best tier, and then at each lower one in turn, each because the one
  before was refused for a reason that is about the tier; never below the floor, so at most four
  requests are made, and the answer to the last is the answer.
\<close>

theorem tiers_asked_in_turn:
  assumes "min_tier \<le> best"
  shows "\<exists>n. 0 < n \<and> n \<le> 4 \<and>
    map fst (tiers_tried env account track best min_tier x) =
      take n (filter (\<lambda>q. min_tier \<le> q \<and> q \<le> best) [Hires, Lossless, High, Low]) \<and>
    hd (map fst (tiers_tried env account track best min_tier x)) = best \<and>
    fst (fetch_with_fallback env account track best min_tier x) =
      snd (last (tiers_tried env account track best min_tier x)) \<and>
    (\<forall>a \<in> set (butlast (tiers_tried env account track best min_tier x)).
       \<exists>f. snd a = Inl f \<and> worth_a_lower_tier f)"
proof -
  let ?tried = "tiers_tried env account track best min_tier x"
  obtain rest where rest: "map fst ?tried @ rest = tiers_between min_tier best"
    using tiers_tried_prefix [OF assms, of env account track x] by blast
  have "map fst ?tried = take (length ?tried) (tiers_between min_tier best)"
    unfolding rest [symmetric] by simp
  moreover have "length ?tried \<le> 4"
    using arg_cong [OF rest, of length] length_filter_le [of "\<lambda>q. min_tier \<le> q \<and> q \<le> best" "[Hires, Lossless, High, Low]"]
    by (simp add: tiers_between_def)
  moreover have "hd (map fst ?tried) = best"
    using arg_cong [OF rest, of hd] tiers_between_below [OF assms] by simp
  ultimately show ?thesis
    using tiers_tried_result [of env account track best min_tier x]
    by (intro exI [of _ "length ?tried"]) (simp add: tiers_between_def)
qed

definition demo_info :: raw_playback_info where
  "demo_info = \<lparr>track_replay_gain = None, track_peak_amplitude = None, album_replay_gain = None,
     album_peak_amplitude = None, raw_track_id = 7, raw_audio_mode = ''STEREO'',
     raw_audio_quality = ''LOSSLESS'', raw_mime_type = ''json'', raw_bit_depth = Some 16,
     raw_sample_rate = Some 44100, raw_manifest = ''m''\<rparr>"

definition demo_decoder :: "error + decoder" where
  "demo_decoder = Inl (mk_error (Message ''not decoded here''))"

text \<open>An environment that does not have the track as hires.\<close>

definition demo_env :: "(unit, unit) tidal_env" where
  "demo_env =
     \<lparr>te_api = ''https://a'',
      te_get = (\<lambda>url token query x.
        (Inr (if (''audioquality'', ''HI_RES_LOSSLESS'') \<in> set query
              then (\<lparr>hs_code = 404, hs_text = ''404 Not Found''\<rparr>, Inr ''no'')
              else (\<lparr>hs_code = 200, hs_text = ''200 OK''\<rparr>, Inr ''yes'')), x)),
      te_info_json = (\<lambda>body. Inr demo_info),
      te_base64 = (\<lambda>encoded. Inr [0x7B]),
      te_utf8_why = (\<lambda>bytes. []),
      te_manifest_json = (\<lambda>text0. Some \<lparr>rj_codecs = ''flac'', rj_urls = [''https://a/t'']\<rparr>),
      te_xml = (\<lambda>text0. []),
      te_entity = (\<lambda>e. None),
      te_probe = (\<lambda>source ext. demo_decoder),
      te_duration = (\<lambda>d. None),
      te_open_file = (\<lambda>path x. (Inr (), x)),
      te_load_client = (\<lambda>x. (Inr \<lparr>tc_access_token = Some ''t'', tc_user = Some (1, ''DE'')\<rparr>, x)),
      te_refresh = (\<lambda>c x. (Inr (), c, x)),
      te_track = (\<lambda>c i x. (Inl (TeNotFound ''none''), x))\<rparr>"

lemma demo_utf8: "from_utf8 [0x7B] = Some ''{''"
  by (simp add: from_utf8_def char_of_def) code_simp

lemma demo_fetch:
  "fetch_at demo_env account track Hires () =
     (Inl (StatusError \<lparr>hs_code = 404, hs_text = ''404 Not Found''\<rparr> ''no''), ())"
  "\<exists>info. fetch_at demo_env account track Lossless () = (Inr info, ()) \<and> pi_audio_quality info = ''LOSSLESS'' \<and>
     pi_manifest info = JsonManifest ''https://a/t'' ''flac''"
  by (simp_all add: fetch_at_def demo_env_def decode_manifest_def demo_utf8 Let_def demo_info_def
      playback_gain.defs playback_info.defs)

lemma tiers_asked_in_turn_witness:
  "\<exists>n. 0 < n \<and> n \<le> 4 \<and>
    map fst (tiers_tried demo_env \<lparr>ac_base = ''b'', ac_token = ''t'', ac_country = ''DE''\<rparr> ''7'' Hires High ()) =
      take n [Hires, Lossless, High]"
  using tiers_asked_in_turn [of High Hires demo_env "\<lparr>ac_base = ''b'', ac_token = ''t'', ac_country = ''DE''\<rparr>" "''7''" "()"]
  by (auto simp: quality_order)

lemma remember_tier_lookup: "map_of (remember_tier track q tiers) track = Some q"
  by (simp add: remember_tier_def update_conv' del: AList.update.simps)

lemma remember_tier_bounded:
  "length tiers \<le> max_remembered_tiers \<Longrightarrow> length (remember_tier track q tiers) \<le> max_remembered_tiers"
proof -
  have "length (AList.update k v xs) \<le> length xs + 1" for k :: string and v :: quality and xs
    by (induction xs) auto
  from this [of track q tiers] show "length tiers \<le> max_remembered_tiers \<Longrightarrow> length (remember_tier track q tiers) \<le> max_remembered_tiers"
    by (auto simp: remember_tier_def max_remembered_tiers_def)
qed

text \<open>The tier of the track that is playing is forgotten when the memory is full and another is opened.\<close>

lemma full_memory_forgets_playing:
  "max_remembered_tiers \<le> length tiers \<Longrightarrow> track \<noteq> other \<Longrightarrow>
     map_of (remember_tier other q tiers) track = None"
  by (simp add: remember_tier_def)

text \<open>
  What can happen to the opener after a track was opened: other tracks are asked for, answers to
  requests arrive (each request runs on its own, so they arrive in any order), the best tier changes.
\<close>

datatype 'f opener_use = Asked track_ref duration | Answered "'f open_request" | Best_Changed quality

fun use_opener ::
    "('x, 'f) tidal_env \<Rightarrow> 'f opener_use \<Rightarrow> 'f tidal_opener \<times> 'x \<Rightarrow> 'f tidal_opener \<times> 'x" where
  "use_opener env (Asked track at0) s = (snd (tidal_open_begin track at0 (fst s)), snd s)"
| "use_opener env (Answered r) s = snd (tidal_open_finish env r (fst s) (snd s))"
| "use_opener env (Best_Changed best) s =
     ((fst s)\<lparr>to_limits := snd (limits_set_max best (to_limits (fst s)))\<rparr>, snd s)"

text \<open>The tracks whose opening from the start is answered, which are what the memory of tiers fills with.\<close>

fun opened_from_start :: "'f opener_use list \<Rightarrow> string list" where
  "opened_from_start [] = []"
| "opened_from_start (Answered r # us) =
     (if or_at r = 0 then [or_track r] else []) @ opened_from_start us"
| "opened_from_start (_ # us) = opened_from_start us"

lemma remember_tier_other:
  assumes "length tiers < max_remembered_tiers" and "track \<noteq> other"
  shows "map_of (remember_tier other q tiers) track = map_of tiers track"
    "length (remember_tier other q tiers) \<le> length tiers + 1"
proof -
  show "map_of (remember_tier other q tiers) track = map_of tiers track"
    using assms by (simp add: remember_tier_def update_conv' del: AList.update.simps)
  have "length (AList.update other q xs) \<le> length xs + 1" for xs by (induction xs) auto
  then show "length (remember_tier other q tiers) \<le> length tiers + 1"
    using assms(1) by (simp add: remember_tier_def)
qed

lemma answer_remembers:
  "to_delivered (fst (use_opener env (Answered r) s)) = to_delivered (fst s) \<or>
   or_at r = 0 \<and> (\<exists>q. to_delivered (fst (use_opener env (Answered r) s))
                     = remember_tier (or_track r) q (to_delivered (fst s)))"
  by (auto simp: tidal_open_finish_def Let_def split: prod.splits sum.splits)

lemma tier_stays_remembered:
  assumes "map_of (to_delivered (fst s)) track = Some q"
    and "length (to_delivered (fst s)) + length (opened_from_start us) \<le> max_remembered_tiers"
    and "track \<notin> set (opened_from_start us)"
  shows "map_of (to_delivered (fst (fold (use_opener env) us s))) track = Some q"
  using assms
proof (induction us arbitrary: s)
  case Nil
  then show ?case by simp
next
  case (Cons u us)
  show ?case
  proof (cases u)
    case (Asked other at0)
    then have "to_delivered (fst (use_opener env u s)) = to_delivered (fst s)"
      by (simp add: tidal_open_begin_def)
    then show ?thesis using Cons.IH [of "use_opener env u s"] Cons.prems Asked by simp
  next
    case (Best_Changed best)
    then show ?thesis using Cons.IH [of "use_opener env u s"] Cons.prems by simp
  next
    case (Answered r)
    show ?thesis
    proof (cases "to_delivered (fst (use_opener env u s)) = to_delivered (fst s)")
      case True
      then show ?thesis
        using Cons.IH [of "use_opener env u s"] Cons.prems Answered by (simp split: if_splits)
    next
      case False
      then obtain k where k: "or_at r = 0"
        "to_delivered (fst (use_opener env u s)) = remember_tier (or_track r) k (to_delivered (fst s))"
        using answer_remembers [of env r s] Answered by auto
      have "length (to_delivered (fst s)) < max_remembered_tiers" "track \<noteq> or_track r"
        using Cons.prems Answered k(1) by auto
      from remember_tier_other [OF this, of k] show ?thesis
        using Cons.IH [of "use_opener env u s"] Cons.prems Answered k by simp
    qed
  qed
qed

text \<open>
  C25. What plays is never below the floor: a track that opens was delivered in a tier of at least the
  minimum, and its entry says which was asked for and which was given. Opening a track from the start
  asks for the best tier. Reopening it for a seek asks for the very tier it was delivered in, whatever
  other openings and changes of the best tier happen in between, in any order, as long as the tiers of
  the tracks opened from the start fit into the memory of 64 (the next one clears it,
  \<open>full_memory_forgets_playing\<close>).
\<close>

theorem opened_within_limits:
  assumes "tidal_open env track at0 (o0, x) = (Inr t, o1, x')"
  shows "\<exists>q. tm_quality (lt_meta t) = Some q \<and> ql_min (to_limits o0) \<le> delivered_quality q \<and>
    requested_quality q = ql_max (to_limits o0) \<and>
    (at0 = 0 \<longrightarrow>
      (\<forall>us seek_at. 0 < seek_at \<longrightarrow> track \<notin> set (opened_from_start us) \<longrightarrow>
         length (to_delivered o1) + length (opened_from_start us) \<le> max_remembered_tiers \<longrightarrow>
         or_ask (fst (tidal_open_begin track seek_at (fst (fold (use_opener env) us (o1, x')))))
           = delivered_quality q)) \<and>
    (\<forall>o2 :: 'f tidal_opener. or_ask (fst (tidal_open_begin track 0 o2)) = ql_max (to_limits o2))"
proof -
  define r where "r = fst (tidal_open_begin track at0 o0)"
  have r: "or_track r = track" "or_at r = at0" "or_best r = ql_max (to_limits o0)" "or_min r = ql_min (to_limits o0)"
    by (simp_all add: r_def tidal_open_begin_def)
  have "tidal_open_finish env r (snd (tidal_open_begin track at0 o0)) x = (Inr t, o1, x')"
    using assms by (simp add: tidal_open_def r_def case_prod_beta)
  then obtain info q tiers where q: "check_delivered track (or_best r) (or_min r) (pi_audio_quality info) = Inr q"
    and t: "t = tidal_loaded env r q info"
    and o1: "at0 = 0 \<Longrightarrow> to_delivered o1 = remember_tier track (delivered_quality q) tiers"
    by (auto simp: tidal_open_finish_def r Let_def split: prod.splits sum.splits if_splits)
  have "tm_quality (lt_meta t) = Some q"
    by (simp add: t tidal_loaded_def Let_def starting_at_def forward_only_def new_loaded_def split: manifest_kind.split)
  moreover have "ql_min (to_limits o0) \<le> delivered_quality q \<and> requested_quality q = ql_max (to_limits o0)"
    using q by (auto simp: check_delivered_def r split: option.splits if_splits)
  moreover have "or_ask (fst (tidal_open_begin track seek_at (fst (fold (use_opener env) us (o1, x')))))
      = delivered_quality q"
    if "at0 = 0" "0 < seek_at" "track \<notin> set (opened_from_start us)"
      "length (to_delivered o1) + length (opened_from_start us) \<le> max_remembered_tiers" for us seek_at
    using tier_stays_remembered [of "(o1, x')" track "delivered_quality q" us env] that o1
    by (simp add: tidal_open_begin_def tier_to_ask_def remember_tier_lookup)
  ultimately show ?thesis by (auto simp: tidal_open_begin_def [of _ 0] tier_to_ask_def)
qed

definition demo_opener :: "unit tidal_opener" where
  "demo_opener = with_min_quality High (tidal_opener_new \<lparr>ts_client = None, ts_store = True\<rparr> Hires)"

definition demo_request :: "unit open_request" where
  "demo_request = \<lparr>or_track = ''8'', or_at = 0, or_best = High, or_min = High, or_ask = High, or_tee = None\<rparr>"

lemma opened_within_limits_witness:
  "\<exists>t o1. tidal_open demo_env ''7'' 0 (demo_opener, ()) = (Inr t, o1, ()) \<and>
     or_ask (fst (tidal_open_begin ''7'' 5
       (fst (fold (use_opener demo_env) [Best_Changed High, Answered demo_request] (o1, ()))))) = Lossless"
proof -
  let ?acc = "\<lparr>ac_base = ''https://a'', ac_token = ''t'', ac_country = ''DE''\<rparr>"
  obtain info where info: "fetch_at demo_env ?acc ''7'' Lossless () = (Inr info, ())"
    "pi_audio_quality info = ''LOSSLESS''" using demo_fetch(2) by blast
  have "fetch_with_fallback demo_env ?acc ''7'' Hires High () = (Inr info, ())"
    using info(1) by (simp add: fetch_with_fallback.simps demo_fetch(1) tier_below_def quality_order worth_a_lower_tier_def)
  then have f: "fetch_playback_info demo_env \<lparr>tc_access_token = Some ''t'', tc_user = Some (1, ''DE'')\<rparr> ''7'' Hires High ()
      = (Inr info, ())"
    by (simp add: fetch_playback_info_def credentials_def demo_env_def)
  have s: "session_fresh demo_env \<lparr>ts_client = None, ts_store = True\<rparr> () =
      (Inr \<lparr>tc_access_token = Some ''t'', tc_user = Some (1, ''DE'')\<rparr>,
       \<lparr>ts_client = Some \<lparr>tc_access_token = Some ''t'', tc_user = Some (1, ''DE'')\<rparr>, ts_store = True\<rparr>, ())"
    by (simp add: session_fresh_def demo_env_def)
  have c: "check_delivered ''7'' Hires High ''LOSSLESS'' = Inr \<lparr>requested_quality = Hires, delivered_quality = Lossless\<rparr>"
    by (simp add: check_delivered_def quality_from_api_def quality_order)
  obtain t o1 where o: "tidal_open demo_env ''7'' 0 (demo_opener, ()) = (Inr t, o1, ())"
      "lt_meta t = tm_quality_update (\<lambda>_. Some \<lparr>requested_quality = Hires, delivered_quality = Lossless\<rparr>) (lt_meta t)"
      "to_delivered o1 = [(''7'', Lossless)]"
    using f s c info(2)
    by (simp add: tidal_open_def remember_tier_def max_remembered_tiers_def tidal_open_begin_def tidal_open_finish_def demo_opener_def with_min_quality_def
        tidal_opener_new_def tier_to_ask_def Let_def)
       (simp add: tidal_loaded_def Let_def new_loaded_def starting_at_def forward_only_def split: manifest_kind.split)
  have qual: "tm_quality (lt_meta t) = Some \<lparr>requested_quality = Hires, delivered_quality = Lossless\<rparr>"
    by (subst o(2)) simp
  from o(3) opened_within_limits [OF o(1)] qual have
    "or_ask (fst (tidal_open_begin ''7'' 5
       (fst (fold (use_opener demo_env) [Best_Changed High, Answered demo_request] (o1, ()))))) = Lossless"
    by (auto simp: demo_request_def max_remembered_tiers_def simp del: fst_conv fold_simps
        dest: spec [of _ "[Best_Changed High, Answered demo_request]"])
  then show ?thesis using o(1) by auto
qed

end
