(* ===== verification/Autoplay.thy ===== *)
theory Autoplay
  imports Control Sources Catalog
begin

text \<open>
  Autoplay: when the queue is about to run dry, more tracks are fetched from a radio and appended
  (\<^verbatim>\<open>phoniad/src/autoplay.rs\<close>, with \<^verbatim>\<open>consider_autoplay\<close> and \<^verbatim>\<open>run_autoplay\<close> of \<^verbatim>\<open>daemon.rs\<close>). A fetch is
  a task: it is begun at one moment and its answer is dealt with at another, and anything may happen
  in between.
\<close>

section \<open>The bookkeeping\<close>

definition autoplay_batch :: nat where
  "autoplay_batch = 10"

record auto =
  au_generation :: nat
  au_entry :: "item_id option"
  au_fetching :: bool
  au_resume :: bool
  au_last_tidal :: "string option"

definition auto_new :: auto where
  "auto_new = \<lparr>au_generation = 0, au_entry = None, au_fetching = False, au_resume = False, au_last_tidal = None\<rparr>"

definition note_started :: "string option \<Rightarrow> auto \<Rightarrow> auto" where
  "note_started tidal a = (case tidal of Some i \<Rightarrow> a\<lparr>au_last_tidal := Some i\<rparr> | None \<Rightarrow> a)"

definition auto_begin :: "item_id \<Rightarrow> auto \<Rightarrow> nat option \<times> auto" where
  "auto_begin entry0 a =
     (if au_fetching a \<and> au_entry a = Some entry0 then (None, a)
      else (Some (au_generation a + 1),
            a\<lparr>au_generation := au_generation a + 1, au_entry := Some entry0, au_fetching := True,
              au_resume := False\<rparr>))"

definition auto_queue_exhausted :: "item_id option \<Rightarrow> auto \<Rightarrow> auto" where
  "auto_queue_exhausted cur a = (if au_fetching a \<and> au_entry a = cur then a\<lparr>au_resume := True\<rparr> else a)"

definition auto_finish :: "nat \<Rightarrow> auto \<Rightarrow> bool option \<times> auto" where
  "auto_finish g a =
     (if \<not> au_fetching a \<or> g \<noteq> au_generation a then (None, a)
      else (Some (au_resume a), a\<lparr>au_fetching := False, au_resume := False\<rparr>))"

definition auto_cancel :: "auto \<Rightarrow> auto" where
  "auto_cancel a = a\<lparr>au_generation := au_generation a + 1, au_entry := None, au_fetching := False, au_resume := False\<rparr>"

definition auto_seed :: "queue_snapshot \<Rightarrow> item_id \<Rightarrow> auto \<Rightarrow> string option" where
  "auto_seed q entry0 a =
     or_else
       (case find (\<lambda>item. qi_id item = entry0) (snap_items q) of
          None \<Rightarrow> None
        | Some item \<Rightarrow>
            (case source_parse (qt_source (qi_track item)) of
               Inr (SourceTidal i) \<Rightarrow> Some i
             | _ \<Rightarrow> None))
       (au_last_tidal a)"

fun pick_loop :: "nat \<Rightarrow> track_ref list \<Rightarrow> queue_track list \<Rightarrow> queue_track list \<Rightarrow> queue_track list" where
  "pick_loop n seen picked [] = picked"
| "pick_loop n seen picked (track # candidates) =
     (if n \<le> length picked then picked
      else if qt_source track \<in> set seen then pick_loop n seen picked candidates
      else pick_loop n (qt_source track # seen) (picked @ [track]) candidates)"

definition pick :: "queue_track list \<Rightarrow> queue_snapshot \<Rightarrow> nat \<Rightarrow> queue_track list" where
  "pick candidates q n = pick_loop n (map (\<lambda>item. qt_source (qi_track item)) (snap_items q)) [] candidates"

section \<open>A track of the catalog as an entry of the queue\<close>

record accepted =
  ac_source :: track_source
  ac_title :: "string option"
  ac_artist :: "string option"
  ac_duration :: "duration option"
  ac_cover :: "string option"
  ac_album_id :: "string option"
  ac_artist_id :: "string option"
  ac_album :: "string option"
  ac_reason :: "string option"

text \<open>The error is the source and the reason of an \<^verbatim>\<open>ipc::Rejected\<close>.\<close>

definition accepted_from_catalog :: "cat_track \<Rightarrow> (string \<times> string) + accepted" where
  "accepted_from_catalog t =
     (let source = SourceTidal (ct_id t) in
      if \<not> ct_streamable t
      then Inl (source_to_wire source, ct_title t @ '' is listed by TIDAL but cannot be streamed here'')
      else Inr
        \<lparr>ac_source = source, ac_title = Some (ct_title t),
         ac_artist = (if ct_artists t \<noteq> [] then Some (join '', '' (map ar_name (ct_artists t))) else None),
         ac_duration = ct_duration t, ac_cover = Option.bind (ct_album t) al_cover,
         ac_album_id = map_option al_id (ct_album t), ac_artist_id = map_option ar_id (first_of (ct_artists t)),
         ac_album = map_option al_title (ct_album t), ac_reason = None\<rparr>)"

definition accepted_track :: "accepted \<Rightarrow> queue_track" where
  "accepted_track a =
     \<lparr>qt_source = source_to_wire (ac_source a), qt_title = ac_title a, qt_artist = ac_artist a,
      qt_duration = ac_duration a, qt_cover = ac_cover a, qt_album_id = ac_album_id a,
      qt_artist_id = ac_artist_id a, qt_album = ac_album a\<rparr>"

section \<open>The fetch\<close>

record fetch =
  fe_entry :: item_id
  fe_seed :: string
  fe_generation :: nat

text \<open>The fetch to spawn, if any. The catalog is there or not.\<close>

definition consider_autoplay ::
    "'e engine_handle \<Rightarrow> bool \<Rightarrow> ('g, 'e) controller \<Rightarrow> auto \<Rightarrow> fetch option \<times> auto" where
  "consider_autoplay h has_catalog c a =
     (if \<not> has_catalog then (None, a)
      else case queue_autoplay_due (ct_queue c) of
        None \<Rightarrow> (None, a)
      | Some entry0 \<Rightarrow>
          if st_state (eh_status h (ct_engine c)) = Stopped then (None, a)
          else (case auto_begin entry0 a of
                  (None, a) \<Rightarrow> (None, a)
                | (Some g, a) \<Rightarrow>
                    (case auto_seed (control_snapshot c) entry0 a of
                       None \<Rightarrow> (None, snd (auto_finish g a))
                     | Some seed \<Rightarrow> (Some \<lparr>fe_entry = entry0, fe_seed = seed, fe_generation = g\<rparr>, a))))"

datatype radio_answer = RadioPage "cat_track cat_page" | RadioFailed catalog_error | RadioTimedOut

definition radio_tracks :: "cat_track cat_page \<Rightarrow> queue_track list" where
  "radio_tracks radio =
     concat (map (\<lambda>t. case accepted_from_catalog t of Inr a \<Rightarrow> [accepted_track a] | Inl _ \<Rightarrow> []) (cg_items radio))"

text \<open>What \<^verbatim>\<open>run_autoplay\<close> does when its fetch has been answered, holding the control lock.\<close>

definition run_autoplay ::
    "'e engine_handle \<Rightarrow> fetch \<Rightarrow> radio_answer \<Rightarrow> ('g, 'e) controller \<times> auto \<Rightarrow> ('g, 'e) controller \<times> auto" where
  "run_autoplay h f fetched s =
     (case auto_finish (fe_generation f) (snd s) of
        (None, a) \<Rightarrow> (fst s, a)
      | (Some resume, a) \<Rightarrow>
          (case fetched of
             RadioFailed _ \<Rightarrow> (fst s, a)
           | RadioTimedOut \<Rightarrow> (fst s, a)
           | RadioPage radio \<Rightarrow>
               let c = fst s in
               if queue_autoplay_due (ct_queue c) \<noteq> Some (fe_entry f) then (c, a)
               else if st_state (eh_status h (ct_engine c)) = Stopped \<and> \<not> resume then (c, a)
               else
                 let tracks = pick (radio_tracks radio) (control_snapshot c) autoplay_batch in
                 if tracks = [] then (c, a)
                 else
                   let (ids, qu) = queue_add tracks (ct_queue c);
                       c = c\<lparr>ct_queue := qu\<rparr>
                   in (if resume \<and> st_state (eh_status h (ct_engine c)) = Stopped
                       then snd (play_item h (hd ids) c) else c, a)))"

section \<open>What is picked\<close>

lemma pick_loop_spec:
  assumes "length picked \<le> n"
  shows "\<exists>new. pick_loop n seen picked candidates = picked @ new \<and> length (picked @ new) \<le> n \<and>
    set new \<subseteq> set candidates \<and> distinct (map qt_source new) \<and>
    set (map qt_source new) \<inter> set seen = {} \<and>
    (length (picked @ new) < n \<longrightarrow> (\<forall>t \<in> set candidates. qt_source t \<in> set seen \<union> set (map qt_source new)))"
  using assms
proof (induction n seen picked candidates rule: pick_loop.induct)
  case (2 n seen picked track candidates)
  show ?case
  proof (cases "n \<le> length picked")
    case True
    then show ?thesis using 2(3) by simp
  next
    case less: False
    show ?thesis
    proof (cases "qt_source track \<in> set seen")
      case True
      then show ?thesis using 2(1) [OF less True] 2(3) less by fastforce
    next
      case False
      have "length (picked @ [track]) \<le> n" using less by simp
      from 2(2) [OF less False this] obtain new where new:
        "pick_loop n (qt_source track # seen) (picked @ [track]) candidates = (picked @ [track]) @ new"
        "length ((picked @ [track]) @ new) \<le> n" "set new \<subseteq> set candidates" "distinct (map qt_source new)"
        "set (map qt_source new) \<inter> set (qt_source track # seen) = {}"
        "length ((picked @ [track]) @ new) < n \<longrightarrow>
          (\<forall>t \<in> set candidates. qt_source t \<in> set (qt_source track # seen) \<union> set (map qt_source new))" by blast
      show ?thesis
        using new less False by (intro exI [of _ "track # new"]) auto
    qed
  qed
qed simp

lemma pick_spec:
  "length (pick candidates q n) \<le> n" "set (pick candidates q n) \<subseteq> set candidates"
  "distinct (map qt_source (pick candidates q n))"
  "set (map qt_source (pick candidates q n)) \<inter> set (map (\<lambda>item. qt_source (qi_track item)) (snap_items q)) = {}"
  "length (pick candidates q n) < n \<Longrightarrow> t \<in> set candidates \<Longrightarrow>
     qt_source t \<in> set (map (\<lambda>item. qt_source (qi_track item)) (snap_items q)) \<union>
       set (map qt_source (pick candidates q n))"
  using pick_loop_spec [of "[]" n "map (\<lambda>item. qt_source (qi_track item)) (snap_items q)" candidates]
  by (auto simp: pick_def)

section \<open>Runs\<close>

text \<open>
  Everything that touches the bookkeeping, in any order, with any change to the queue and the engine
  in between. A request to stop and one to clear the queue cancel.
\<close>

datatype ('g, 'e) auto_op =
    Considered
  | Started "string option"
  | Exhausted
  | Answered nat radio_answer
  | StopAsked
  | ClearAsked
  | Meanwhile "('g, 'e) controller \<Rightarrow> ('g, 'e) controller"

record ('g, 'e) auto_run =
  ar_control :: "('g, 'e) controller"
  ar_auto :: auto
  ar_fetches :: "fetch list"

fun auto_step :: "'e engine_handle \<Rightarrow> bool \<Rightarrow> ('g, 'e) auto_op \<Rightarrow> ('g, 'e) auto_run \<Rightarrow> ('g, 'e) auto_run" where
  "auto_step h has_catalog Considered s =
     (case consider_autoplay h has_catalog (ar_control s) (ar_auto s) of
        (None, a) \<Rightarrow> s\<lparr>ar_auto := a\<rparr>
      | (Some f, a) \<Rightarrow> s\<lparr>ar_auto := a, ar_fetches := f # ar_fetches s\<rparr>)"
| "auto_step h has_catalog (Started tidal) s = s\<lparr>ar_auto := note_started tidal (ar_auto s)\<rparr>"
| "auto_step h has_catalog Exhausted s =
     s\<lparr>ar_auto := auto_queue_exhausted (snap_current (control_snapshot (ar_control s))) (ar_auto s)\<rparr>"
| "auto_step h has_catalog (Answered k fetched) s =
     (case get_at (ar_fetches s) k of
        None \<Rightarrow> s
      | Some f \<Rightarrow>
          let (c, a) = run_autoplay h f fetched (ar_control s, ar_auto s)
          in s\<lparr>ar_control := c, ar_auto := a, ar_fetches := remove_at k (ar_fetches s)\<rparr>)"
| "auto_step h has_catalog StopAsked s =
     s\<lparr>ar_auto := auto_cancel (ar_auto s), ar_control := snd (control_send h Stop (ar_control s))\<rparr>"
| "auto_step h has_catalog ClearAsked s =
     s\<lparr>ar_auto := auto_cancel (ar_auto s), ar_control := control_clear h (ar_control s)\<rparr>"
| "auto_step h has_catalog (Meanwhile change) s = s\<lparr>ar_control := change (ar_control s)\<rparr>"

definition auto_run_all ::
    "'e engine_handle \<Rightarrow> bool \<Rightarrow> ('g, 'e) auto_op list \<Rightarrow> ('g, 'e) auto_run \<Rightarrow> ('g, 'e) auto_run" where
  "auto_run_all h has_catalog ops s = fold (auto_step h has_catalog) ops s"

definition auto_started :: "('g, 'e) controller \<Rightarrow> ('g, 'e) auto_run" where
  "auto_started c = \<lparr>ar_control = c, ar_auto = auto_new, ar_fetches = []\<rparr>"

text \<open>Every fetch under way has its own generation, none later than the present one.\<close>

definition auto_ok :: "('g, 'e) auto_run \<Rightarrow> bool" where
  "auto_ok s \<longleftrightarrow>
     distinct (map fe_generation (ar_fetches s)) \<and>
     (\<forall>f \<in> set (ar_fetches s). fe_generation f \<le> au_generation (ar_auto s)) \<and>
     (\<forall>f \<in> set (ar_fetches s). fe_generation f = au_generation (ar_auto s) \<longrightarrow>
        au_fetching (ar_auto s) \<and> au_entry (ar_auto s) = Some (fe_entry f))"

lemma run_autoplay_auto:
  "snd (run_autoplay h f fetched s) = snd (auto_finish (fe_generation f) (snd s))"
  by (auto simp: run_autoplay_def Let_def split: prod.splits option.splits radio_answer.splits)

lemma auto_finish_generation [simp]: "au_generation (snd (auto_finish g a)) = au_generation a"
  by (simp add: auto_finish_def)

lemma auto_frame [simp]:
  "au_generation (note_started tidal a) = au_generation a" "au_fetching (note_started tidal a) = au_fetching a"
  "au_entry (note_started tidal a) = au_entry a"
  "au_generation (auto_queue_exhausted cur a) = au_generation a"
  "au_fetching (auto_queue_exhausted cur a) = au_fetching a" "au_entry (auto_queue_exhausted cur a) = au_entry a"
  "au_generation (auto_cancel a) = au_generation a + 1"
  by (simp_all add: note_started_def auto_queue_exhausted_def auto_cancel_def split: option.split)

lemma consider_autoplay_cases:
  "consider_autoplay h has_catalog c a = (None, a) \<or>
   (\<exists>e. consider_autoplay h has_catalog c a =
      (None, a\<lparr>au_generation := au_generation a + 1, au_entry := Some e, au_fetching := False, au_resume := False\<rparr>)) \<or>
   (\<exists>e seed. consider_autoplay h has_catalog c a =
      (Some \<lparr>fe_entry = e, fe_seed = seed, fe_generation = au_generation a + 1\<rparr>,
       a\<lparr>au_generation := au_generation a + 1, au_entry := Some e, au_fetching := True, au_resume := False\<rparr>))"
proof (cases "queue_autoplay_due (ct_queue c)")
  case (Some e)
  show ?thesis
    by (cases "auto_seed (control_snapshot c) e
          (a\<lparr>au_generation := au_generation a + 1, au_entry := Some e, au_fetching := True, au_resume := False\<rparr>)")
       (auto simp: consider_autoplay_def Some auto_begin_def auto_finish_def)
qed (simp add: consider_autoplay_def)

lemma auto_step_ok: "auto_ok s \<Longrightarrow> auto_ok (auto_step h has_catalog op s)"
proof (cases op)
  case Considered
  assume ok: "auto_ok s"
  show "auto_ok (auto_step h has_catalog op s)"
    using consider_autoplay_cases [of h has_catalog "ar_control s" "ar_auto s"] ok Considered
    by (elim disjE exE) (fastforce simp: auto_ok_def)+
next
  case (Answered k fetched)
  assume ok: "auto_ok s"
  show "auto_ok (auto_step h has_catalog op s)"
  proof (cases "get_at (ar_fetches s) k")
    case (Some f)
    then have k: "k < length (ar_fetches s)" "ar_fetches s ! k = f" by auto
    have d: "distinct (map fe_generation (remove_at k (ar_fetches s)))"
      using ok distinct_remove_at [of "map fe_generation (ar_fetches s)" k] by (simp add: map_remove_at auto_ok_def)
    have other: "fe_generation g \<noteq> fe_generation f" if "g \<in> set (remove_at k (ar_fetches s))" for g
    proof -
      have "distinct (map fe_generation (take k (ar_fetches s) @ f # drop (Suc k) (ar_fetches s)))"
        using ok k id_take_nth_drop [OF k(1)] by (simp add: auto_ok_def)
      then show ?thesis using that by (auto simp: remove_at_def image_iff)
    qed
    obtain c' a' where r: "run_autoplay h f fetched (ar_control s, ar_auto s) = (c', a')" by fastforce
    then have a': "a' = snd (auto_finish (fe_generation f) (ar_auto s))"
      using run_autoplay_auto [of h f fetched "(ar_control s, ar_auto s)"] by simp
    have "auto_step h has_catalog op s =
        s\<lparr>ar_control := c', ar_auto := a', ar_fetches := remove_at k (ar_fetches s)\<rparr>"
      unfolding Answered auto_step.simps Some by (simp add: r)
    then show ?thesis
      using ok d other set_remove_at_subset [of k "ar_fetches s"] unfolding a'
      by (auto simp: auto_ok_def auto_finish_def)
  next
    case None
    then show ?thesis using ok unfolding Answered auto_step.simps None by simp
  qed
next
  case (Started tidal)
  then show "auto_ok s \<Longrightarrow> auto_ok (auto_step h has_catalog op s)" by (simp add: auto_ok_def)
next
  case Exhausted
  then show "auto_ok s \<Longrightarrow> auto_ok (auto_step h has_catalog op s)" by (simp add: auto_ok_def)
next
  case StopAsked
  then show "auto_ok s \<Longrightarrow> auto_ok (auto_step h has_catalog op s)" by (simp add: auto_ok_def) fastforce
next
  case ClearAsked
  then show "auto_ok s \<Longrightarrow> auto_ok (auto_step h has_catalog op s)" by (simp add: auto_ok_def) fastforce
next
  case (Meanwhile change)
  then show "auto_ok s \<Longrightarrow> auto_ok (auto_step h has_catalog op s)" by (simp add: auto_ok_def)
qed

lemma auto_run_all_ok: "auto_ok s \<Longrightarrow> auto_ok (auto_run_all h has_catalog ops s)"
  by (induction ops arbitrary: s) (auto simp: auto_run_all_def auto_step_ok)

lemma auto_step_generation:
  "au_generation (ar_auto s) \<le> au_generation (ar_auto (auto_step h has_catalog op s))"
proof (cases op)
  case Considered
  show ?thesis
    using consider_autoplay_cases [of h has_catalog "ar_control s" "ar_auto s"] Considered by auto
next
  case (Answered k fetched)
  then show ?thesis
    using run_autoplay_auto [of h _ fetched "(ar_control s, ar_auto s)"]
    by (auto simp: case_prod_beta Let_def split: option.split)
qed simp_all

lemma auto_run_all_generation:
  "au_generation (ar_auto s) \<le> au_generation (ar_auto (auto_run_all h has_catalog ops s))"
  by (induction ops arbitrary: s) (auto simp: auto_run_all_def intro: order_trans auto_step_generation)

lemma stale_fetch_ignored:
  "fe_generation f \<noteq> au_generation a \<Longrightarrow> run_autoplay h f fetched (c, a) = (c, a)"
  by (simp add: run_autoplay_def auto_finish_def)

lemma q_add_tracks: "map qi_track (items (snd (q_add ts q))) = map qi_track (items q) @ ts"
proof -
  have n: "map qi_track (number_items n ts) = ts" for n by (induction ts arbitrary: n) simp_all
  have o: "items (insert_in_order a ids q) = items q" for a ids and q :: "'b inner"
    by (simp add: insert_in_order_def Let_def split: option.split)
  show ?thesis
    by (cases "ts = []") (simp_all add: q_add_def q_insert_def new_items_def Let_def insert_at_def n o bump_version_def)
qed

section \<open>Properties\<close>

text \<open>
  C27. Only the latest fetch counts. Whatever happens meanwhile, at most one of the fetches under way can
  still act, and one that was begun before a request to stop, or before the queue was cleared, changes
  neither the queue nor the engine when it is answered.
\<close>

theorem cancelled_fetch_adds_nothing:
  assumes "f \<in> set (ar_fetches (auto_run_all h has_catalog before (auto_started c)))"
    and "cancel = StopAsked \<or> cancel = ClearAsked"
    and "s = auto_run_all h has_catalog (before @ [cancel] @ later) (auto_started c)"
  shows "run_autoplay h f fetched (ar_control s, ar_auto s) = (ar_control s, ar_auto s) \<and>
    (\<forall>f1 \<in> set (ar_fetches s). \<forall>f2 \<in> set (ar_fetches s).
       run_autoplay h f1 fetched (ar_control s, ar_auto s) \<noteq> (ar_control s, ar_auto s) \<longrightarrow>
       run_autoplay h f2 fetched (ar_control s, ar_auto s) \<noteq> (ar_control s, ar_auto s) \<longrightarrow> f1 = f2)"
proof -
  let ?s0 = "auto_run_all h has_catalog before (auto_started c)"
  let ?s1 = "auto_step h has_catalog cancel ?s0"
  have start: "auto_ok (auto_started c)" by (simp add: auto_ok_def auto_started_def)
  have s: "s = auto_run_all h has_catalog later ?s1" using assms(3) by (simp add: auto_run_all_def)
  have "fe_generation f \<le> au_generation (ar_auto ?s0)"
    using auto_run_all_ok [OF start] assms(1) by (auto simp: auto_ok_def)
  also have "au_generation (ar_auto ?s0) < au_generation (ar_auto ?s1)"
    using assms(2) by auto
  also have "\<dots> \<le> au_generation (ar_auto s)" unfolding s by (rule auto_run_all_generation)
  finally have stale: "run_autoplay h f fetched (ar_control s, ar_auto s) = (ar_control s, ar_auto s)"
    by (intro stale_fetch_ignored) simp
  have ok: "auto_ok s" using auto_run_all_ok [OF start] assms(3) by simp
  have "f1 = f2" if "f1 \<in> set (ar_fetches s)" "f2 \<in> set (ar_fetches s)"
      "run_autoplay h f1 fetched (ar_control s, ar_auto s) \<noteq> (ar_control s, ar_auto s)"
      "run_autoplay h f2 fetched (ar_control s, ar_auto s) \<noteq> (ar_control s, ar_auto s)" for f1 f2
  proof -
    have "fe_generation f1 = fe_generation f2" using stale_fetch_ignored that(3,4) by metis
    then show ?thesis using ok that(1,2) by (auto simp: auto_ok_def distinct_map dest: inj_onD)
  qed
  then show ?thesis using stale by blast
qed

definition demo_control :: "(nat, status \<times> command list) controller" where
  "demo_control = \<lparr>ct_engine = (playing_status, []),
     ct_queue = snd (queue_set_autoplay True (snd (mutate (q_commit 1)
       (snd (queue_add [demo_track ''tidal:7''] (with_seed 0))))))\<rparr>"

lemma demo_due: "queue_autoplay_due (ct_queue demo_control) = Some 1"
  by code_simp

lemma demo_seed: "auto_seed (control_snapshot demo_control) 1 a = Some ''7''"
proof -
  have "snap_items (control_snapshot demo_control) = [\<lparr>qi_id = 1, qi_track = demo_track ''tidal:7''\<rparr>]" by code_simp
  moreover have "source_parse ''tidal:7'' = Inr (SourceTidal ''7'')" by (simp add: source_parse_def str_eval)
  ultimately show ?thesis by (simp add: auto_seed_def demo_track_def)
qed

lemma demo_considered:
  "ar_fetches (auto_run_all log_handle True [Considered] (auto_started demo_control)) =
     [\<lparr>fe_entry = 1, fe_seed = ''7'', fe_generation = 1\<rparr>]"
proof -
  have "st_state (eh_status log_handle (ct_engine demo_control)) \<noteq> Stopped"
    by (simp add: demo_control_def log_handle_def playing_status_def)
  then have "consider_autoplay log_handle True demo_control auto_new =
      (Some \<lparr>fe_entry = 1, fe_seed = ''7'', fe_generation = 1\<rparr>,
       \<lparr>au_generation = 1, au_entry = Some 1, au_fetching = True, au_resume = False, au_last_tidal = None\<rparr>)"
    by (simp add: consider_autoplay_def demo_due demo_seed auto_begin_def auto_new_def del: One_nat_def)
  then show ?thesis by (simp add: auto_run_all_def auto_started_def del: One_nat_def)
qed

lemma cancelled_fetch_adds_nothing_witness:
  "\<exists>s. s = auto_run_all log_handle True ([Considered] @ [StopAsked] @ []) (auto_started demo_control) \<and>
     run_autoplay log_handle \<lparr>fe_entry = 1, fe_seed = ''7'', fe_generation = 1\<rparr>
       (RadioPage empty_page) (ar_control s, ar_auto s) = (ar_control s, ar_auto s)"
  using cancelled_fetch_adds_nothing
    [of "\<lparr>fe_entry = 1, fe_seed = ''7'', fe_generation = 1\<rparr>" log_handle True "[Considered]" demo_control
        StopAsked _ "[]" "RadioPage empty_page"] demo_considered
  by simp

text \<open>
  C28. An answer adds to the end of the queue, at most ten tracks and only if the queue still ends with
  the entry it was fetched for; what it adds are streamable tracks of the radio, none that the queue
  holds already and none twice. Anything else leaves the queue as it is, and an engine that was
  stopped is only started on what was added if the queue ran dry waiting for it.
\<close>

theorem autoplay_appends_new_tracks:
  assumes "run_autoplay h f (RadioPage radio) (c, a) = (c', a')"
    and "qu_published (ct_queue c) = snapshot (qu_inner (ct_queue c))"
  shows "c' = c \<or>
    (queue_autoplay_due (ct_queue c) = Some (fe_entry f) \<and> au_fetching a \<and> fe_generation f = au_generation a \<and>
     (\<exists>tracks. tracks \<noteq> [] \<and> length tracks \<le> 10 \<and> distinct (map qt_source tracks) \<and>
        (\<forall>t \<in> set tracks. qt_source t \<notin> (\<lambda>item. qt_source (qi_track item)) ` set (items (qu_inner (ct_queue c))) \<and>
           (\<exists>r \<in> set (cg_items radio). ct_streamable r \<and> qt_source t = ''tidal:'' @ ct_id r)) \<and>
        map qi_track (items (qu_inner (ct_queue c'))) = map qi_track (items (qu_inner (ct_queue c))) @ tracks) \<and>
     (ct_engine c' = ct_engine c \<or>
        (au_resume a \<and> st_state (eh_status h (ct_engine c)) = Stopped)))"
proof (cases "c' = c")
  case False
  let ?tracks = "pick (radio_tracks radio) (control_snapshot c) autoplay_batch"
  obtain ids qu where add: "queue_add ?tracks (ct_queue c) = (ids, qu)" by fastforce
  from assms(1) False have due: "queue_autoplay_due (ct_queue c) = Some (fe_entry f)"
    and fetching: "au_fetching a" "fe_generation f = au_generation a" and some: "?tracks \<noteq> []"
    and c': "c' = (if au_resume a \<and> st_state (eh_status h (ct_engine c)) = Stopped
                   then snd (play_item h (hd ids) (c\<lparr>ct_queue := qu\<rparr>)) else c\<lparr>ct_queue := qu\<rparr>)"
    by (auto simp: run_autoplay_def auto_finish_def Let_def add split: if_splits prod.splits)
  have queue': "ct_queue c' = qu"
    by (auto simp: c' play_item_def control_send_def split: prod.splits)
  have tracks': "map qi_track (items (qu_inner (ct_queue c'))) = map qi_track (items (qu_inner (ct_queue c))) @ ?tracks"
    using q_add_tracks [of ?tracks "qu_inner (ct_queue c)"] add queue' mutate_inner [of "q_add ?tracks" "ct_queue c"]
    by (simp add: queue_add_def)
  have snap: "snap_items (control_snapshot c) = items (qu_inner (ct_queue c))"
    by (simp add: control_snapshot_def queue_snapshot_of_def assms(2) snapshot_def)
  note p = pick_spec(1-4) [of "radio_tracks radio" "control_snapshot c" autoplay_batch]
  have from_radio: "\<exists>r \<in> set (cg_items radio). ct_streamable r \<and> qt_source t = ''tidal:'' @ ct_id r" if "t \<in> set ?tracks" for t
  proof -
    have "t \<in> set (radio_tracks radio)" using p(2) that by blast
    then obtain r where "r \<in> set (cg_items radio)"
        "t \<in> set (case accepted_from_catalog r of Inr a \<Rightarrow> [accepted_track a] | Inl _ \<Rightarrow> [])"
      by (auto simp: radio_tracks_def)
    then show ?thesis
      by (auto simp: accepted_from_catalog_def accepted_track_def source_to_wire_def Let_def split: if_splits)
  qed
  have new: "qt_source t \<notin> (\<lambda>item. qt_source (qi_track item)) ` set (items (qu_inner (ct_queue c)))"
    if "t \<in> set ?tracks" for t
    using p(4) that by (auto simp: snap)
  have "ct_engine c' = ct_engine c \<or> (au_resume a \<and> st_state (eh_status h (ct_engine c)) = Stopped)"
    by (auto simp: c')
  then show ?thesis
    using due fetching some p(1,3) from_radio new tracks' by (auto simp: autoplay_batch_def intro!: exI [of _ ?tracks])
qed simp

definition demo_radio :: "cat_track cat_page" where
  "demo_radio =
     (let t = (\<lambda>i. \<lparr>ct_id = i, ct_title = ''t'', ct_version = None, ct_artists = [], ct_album = None,
        ct_duration = None, ct_explicit = False, ct_track_number = None, ct_volume_number = None,
        ct_quality = None, ct_streamable = True\<rparr>)
      in \<lparr>cg_items = [t ''7'', t ''8'', t ''8''], cg_total = 3, cg_offset = 0\<rparr>)"

definition demo_fetching :: auto where
  "demo_fetching = \<lparr>au_generation = 1, au_entry = Some 1, au_fetching = True, au_resume = False, au_last_tidal = None\<rparr>"

lemma autoplay_appends_new_tracks_witness:
  "\<exists>c'. fst (run_autoplay log_handle \<lparr>fe_entry = 1, fe_seed = ''7'', fe_generation = 1\<rparr> (RadioPage demo_radio)
      (demo_control, demo_fetching)) = c' \<and> ct_engine c' = ct_engine demo_control"
proof -
  obtain c' a' where r: "run_autoplay log_handle \<lparr>fe_entry = 1, fe_seed = ''7'', fe_generation = 1\<rparr>
      (RadioPage demo_radio) (demo_control, demo_fetching) = (c', a')" by fastforce
  have "qu_published (ct_queue demo_control) = snapshot (qu_inner (ct_queue demo_control))" by code_simp
  from autoplay_appends_new_tracks [OF r this] have "ct_engine c' = ct_engine demo_control"
    by (auto simp: demo_fetching_def)
  then show ?thesis using r by simp
qed

end
