(* ===== verification/Volumes.thy ===== *)
theory Volumes
  imports Convert Device
begin

text \<open>
  The volumes that an output can have: the hardware control of a sound card (\<^verbatim>\<open>output/mixer.rs\<close>), the
  volume of the stream on the sound server (\<^verbatim>\<open>SharedVolume\<close> of \<^verbatim>\<open>output/shared/pulse.rs\<close>) and the one
  of the test output (\<^verbatim>\<open>FakeVolume\<close> of \<^verbatim>\<open>output/fake.rs\<close>), behind the contract of \<^verbatim>\<open>VolumeControl\<close>.
  Floating point is read as real arithmetic. The mixer of the \<^verbatim>\<open>alsa\<close> crate and the connection to
  the sound server are functions.
\<close>

section \<open>The contract\<close>

text \<open>What is set is what is read afterwards.\<close>

locale volume_control =
  fixes get_volume :: "'w \<Rightarrow> volume"
    and set_volume :: "volume \<Rightarrow> 'w \<Rightarrow> error option \<times> 'w"
  assumes set_get: "vo_percent v \<le> 100 \<Longrightarrow> set_volume v w = (None, w') \<Longrightarrow> get_volume w' = v"
begin

definition changed :: "(volume \<Rightarrow> volume) \<Rightarrow> 'w \<Rightarrow> (error + volume) \<times> 'w" where
  "changed f w =
     (let v = f (get_volume w); v = v\<lparr>vo_percent := min 100 (vo_percent v)\<rparr>
      in case set_volume v w of (Some e, w) \<Rightarrow> (Inl e, w) | (None, w) \<Rightarrow> (Inr v, w))"

lemma changed_reads_back: "changed f w = (Inr v, w') \<Longrightarrow> get_volume w' = v \<and> vo_percent v \<le> 100"
  by (auto simp: changed_def Let_def split: prod.splits option.splits dest!: set_get [rotated])

end

section \<open>The curve of a hardware control\<close>

text \<open>\<^verbatim>\<open>f64::clamp\<close> and \<^verbatim>\<open>i32::clamp\<close> panic when the bounds are the wrong way round.\<close>

definition percent_to_millibel :: "nat \<Rightarrow> int" where
  "percent_to_millibel p = round_away ((60 * log 10 (real (max 1 (min p 100))) - 120) * 100)"

definition millibel_to_percent :: "int \<Rightarrow> nat" where
  "millibel_to_percent m =
     nat (max 0 (min 100 (round_away (100 * (10 powr (real_of_int m / 100 / 60))))))"

definition target_millibel :: "nat \<Rightarrow> int \<times> int \<Rightarrow> int option" where
  "target_millibel p range0 =
     (case range0 of (lo, hi) \<Rightarrow>
        if p = 0 then Some lo
        else if lo \<le> min hi 0 then Some (max lo (min (percent_to_millibel p) (min hi 0)))
        else None)"

definition millibel_to_percent_in :: "int \<Rightarrow> int \<times> int \<Rightarrow> nat" where
  "millibel_to_percent_in m range0 =
     (case range0 of (lo, hi) \<Rightarrow>
        if m \<le> lo then 0 else if min hi 0 \<le> m then 100 else millibel_to_percent m)"

definition target_raw_linear :: "nat \<Rightarrow> int \<times> int \<Rightarrow> int" where
  "target_raw_linear p range0 =
     (case range0 of (lo, hi) \<Rightarrow>
        if hi \<le> lo then lo else lo + round_away (real_of_int (hi - lo) * real (min p 100) / 100))"

definition raw_to_percent_linear :: "int \<Rightarrow> int \<times> int \<Rightarrow> nat" where
  "raw_to_percent_linear raw range0 =
     (case range0 of (lo, hi) \<Rightarrow>
        if hi \<le> lo then 0
        else nat (max 0 (min 100 (round_away (real_of_int (raw - lo) * 100 / real_of_int (hi - lo))))))"

section \<open>Finding and driving the control\<close>

definition choose_control :: "(string \<times> bool) list \<Rightarrow> string option" where
  "choose_control controls =
     (let has_volume = (\<lambda>name. \<exists>(n, v) \<in> set controls. n = name \<and> v) in
      if has_volume ''Master'' then Some ''Master''
      else if has_volume ''PCM'' then Some ''PCM''
      else (case filter snd controls of [only] \<Rightarrow> Some (fst only) | _ \<Rightarrow> None))"

record control_info =
  co_name :: string
  co_db_range :: "(int \<times> int) option"
  co_has_switch :: bool

text \<open>
  What is asked of the \<^verbatim>\<open>alsa\<close> crate. A mixer is opened by the number of a card; a control of it is
  found again by its name each time. A level in dB is set with the direction in which it is rounded to
  a step that the control has (\<^verbatim>\<open>alsa::Round\<close>).
\<close>

datatype db_round = Round_Ceil | Round_Floor

record ('m, 'w) mixer_api =
  mx_open :: "nat \<Rightarrow> 'w \<Rightarrow> error + 'm"
  mx_controls :: "'m \<Rightarrow> 'w \<Rightarrow> (string \<times> bool) list"
  mx_db_range :: "'m \<Rightarrow> string \<Rightarrow> 'w \<Rightarrow> int \<times> int"
  mx_has_switch :: "'m \<Rightarrow> string \<Rightarrow> 'w \<Rightarrow> bool"
  mx_vol_db :: "'m \<Rightarrow> string \<Rightarrow> 'w \<Rightarrow> error + int"
  mx_raw_range :: "'m \<Rightarrow> string \<Rightarrow> 'w \<Rightarrow> int \<times> int"
  mx_raw_volume :: "'m \<Rightarrow> string \<Rightarrow> 'w \<Rightarrow> error + int"
  mx_switch :: "'m \<Rightarrow> string \<Rightarrow> 'w \<Rightarrow> error + int"
  mx_set_db :: "'m \<Rightarrow> string \<Rightarrow> int \<Rightarrow> db_round \<Rightarrow> 'w \<Rightarrow> error option \<times> 'w"
  mx_set_raw :: "'m \<Rightarrow> string \<Rightarrow> int \<Rightarrow> 'w \<Rightarrow> error option \<times> 'w"
  mx_set_switch :: "'m \<Rightarrow> string \<Rightarrow> int \<Rightarrow> 'w \<Rightarrow> error option \<times> 'w"

definition has_selem :: "('m, 'w) mixer_api \<Rightarrow> 'm \<Rightarrow> string \<Rightarrow> 'w \<Rightarrow> bool" where
  "has_selem api m name w \<longleftrightarrow> (\<exists>(n, v) \<in> set (mx_controls api m w). n = name)"

definition disappeared :: "string \<Rightarrow> error" where
  "disappeared name = mk_error (Message (''the '' @ name @ '' control disappeared''))"

definition db_range_of :: "('m, 'w) mixer_api \<Rightarrow> 'm \<Rightarrow> string \<Rightarrow> 'w \<Rightarrow> (int \<times> int) option" where
  "db_range_of api m name w =
     (case mx_db_range api m name w of (lo, hi) \<Rightarrow> if lo < hi then Some (lo, hi) else None)"

definition open_control_by_index ::
    "('m, 'w) mixer_api \<Rightarrow> nat \<Rightarrow> 'w \<Rightarrow> error + 'm \<times> control_info" where
  "open_control_by_index api c w =
     (case mx_open api c w of
        Inl e \<Rightarrow> Inl e
      | Inr m \<Rightarrow>
          (case choose_control (mx_controls api m w) of
             None \<Rightarrow> Inl (mk_error (Message (''card '' @ show_nat c @ '' has no usable hardware volume control'')))
           | Some name \<Rightarrow>
               if has_selem api m name w
               then Inr (m, \<lparr>co_name = name, co_db_range = db_range_of api m name w,
                             co_has_switch = mx_has_switch api m name w\<rparr>)
               else Inl (disappeared name)))"

definition open_control ::
    "('m, 'w) mixer_api \<Rightarrow> asound \<Rightarrow> string \<Rightarrow> 'w \<Rightarrow> error + 'm \<times> control_info" where
  "open_control api sound dev w =
     (case resolve_device dev sound of
        Inl e \<Rightarrow> Inl e
      | Inr (Hw c d s) \<Rightarrow> open_control_by_index api c w
      | Inr (Other _) \<Rightarrow> Inl (mk_error (Message (dev @ '' is not a hardware device''))))"

definition mixer_probe ::
    "('m, 'w) mixer_api \<Rightarrow> asound \<Rightarrow> string \<Rightarrow> 'w \<Rightarrow> control_info option" where
  "mixer_probe api sound dev w =
     (case open_control api sound dev w of Inl _ \<Rightarrow> None | Inr (m, info) \<Rightarrow> Some info)"

definition read_control :: "('m, 'w) mixer_api \<Rightarrow> 'm \<Rightarrow> control_info \<Rightarrow> 'w \<Rightarrow> error + volume" where
  "read_control api m info w =
     (if \<not> has_selem api m (co_name info) w then Inl (disappeared (co_name info))
      else
        let percent =
          (case co_db_range info of
             Some range0 \<Rightarrow>
               (case mx_vol_db api m (co_name info) w of
                  Inl e \<Rightarrow> Inl e | Inr mb \<Rightarrow> Inr (millibel_to_percent_in mb range0))
           | None \<Rightarrow>
               (case mx_raw_volume api m (co_name info) w of
                  Inl e \<Rightarrow> Inl e
                | Inr raw \<Rightarrow> Inr (raw_to_percent_linear raw (mx_raw_range api m (co_name info) w))))
        in case percent of
             Inl e \<Rightarrow> Inl e
           | Inr p \<Rightarrow>
               if \<not> co_has_switch info then Inr \<lparr>vo_percent = p, vo_muted = False\<rparr>
               else (case mx_switch api m (co_name info) w of
                       Inl e \<Rightarrow> Inl e | Inr on \<Rightarrow> Inr \<lparr>vo_percent = p, vo_muted = (on = 0)\<rparr>))"



text \<open>
  One look of the watcher at a control that it has open: what it takes as the last volume then, and
  what it tells its handler. It gives the control up when it cannot be read.
\<close>

definition watch_look ::
    "('m, 'w) mixer_api \<Rightarrow> 'm \<Rightarrow> control_info \<Rightarrow> 'w \<Rightarrow> volume option \<Rightarrow> (volume option \<times> volume option) option" where
  "watch_look api m info w last0 =
     (case read_control api m info w of
        Inl _ \<Rightarrow> None
      | Inr now0 \<Rightarrow>
          if last0 \<noteq> Some now0 then Some (Some now0, Some now0) else Some (last0, None))"

section \<open>The curve there and back\<close>

lemma round_away_near: "real_of_int (round_away x) \<le> x + 1 / 2" "x - 1 / 2 \<le> real_of_int (round_away x)"
proof -
  show "real_of_int (round_away x) \<le> x + 1 / 2"
    using floor_correct [of "- x + 1 / 2"] of_int_floor_le [of "x + 1 / 2"]
    by (cases "0 \<le> x") (simp_all add: round_away_def, linarith+)
  show "x - 1 / 2 \<le> real_of_int (round_away x)"
    using floor_correct [of "x + 1 / 2"] of_int_floor_le [of "- x + 1 / 2"]
    by (cases "0 \<le> x") (simp_all add: round_away_def, linarith+)
qed

lemma round_away_unique:
  assumes "x - real_of_int n < 1 / 2" "real_of_int n - x < 1 / 2"
  shows "round_away x = n"
  using round_away_near [of x] assms by linarith





lemma linear_round_trip:
  assumes "p \<le> 100" "lo + 100 \<le> hi"
  shows "raw_to_percent_linear (target_raw_linear p (lo, hi)) (lo, hi) = p"
proof (cases "hi = lo + 100")
  case True
  have "round_away (real p) = int p" by (intro round_away_unique) simp_all
  then show ?thesis using True assms by (simp add: raw_to_percent_linear_def target_raw_linear_def)
next
  case False
  define n where "n = real_of_int (hi - lo)"
  define r where "r = real_of_int (round_away (n * real p / 100))"
  have n: "100 < n" using assms(2) False by (simp add: n_def)
  have "r \<le> n * real p / 100 + 1 / 2" "n * real p / 100 - 1 / 2 \<le> r"
    using round_away_near [of "n * real p / 100"] by (simp_all add: r_def)
  then have "r * 100 \<le> real p * n + 50" "real p * n - 50 \<le> r * 100" by (simp_all add: field_simps)
  then have "r * 100 < real p * n + n / 2" "real p * n - n / 2 < r * 100" using n by linarith+
  then have "r * 100 / n - real p < 1 / 2" "real p - r * 100 / n < 1 / 2"
    using n by (simp_all add: field_simps)
  then have "round_away (r * 100 / n) = int p" by (intro round_away_unique) simp_all
  then show ?thesis
    using assms n_def by (simp add: raw_to_percent_linear_def target_raw_linear_def r_def)
qed

section \<open>The volume of the stream\<close>

definition volume_norm :: nat where
  "volume_norm = 65536"

definition own_change_echo :: duration where
  "own_change_echo = millis 600"

definition raw_from_percent :: "nat \<Rightarrow> nat" where
  "raw_from_percent p = (min p 100 * volume_norm + 50) div 100"

definition percent_from_raw :: "nat \<Rightarrow> nat" where
  "percent_from_raw raw = min 255 ((raw * 100 + volume_norm div 2) div volume_norm)"

record attached_stream =
  as_index :: nat
  as_channels :: nat
  as_generation :: nat

text \<open>\<open>sv_told\<close> is what the handler was given, latest first.\<close>

record 'l shared_volume =
  sv_volume :: volume
  sv_last_set :: "instant option"
  sv_stream :: "attached_stream option"
  sv_link :: "'l option"
  sv_next_generation :: nat
  sv_handler :: bool
  sv_told :: "volume list"

definition shared_volume_new :: "'l shared_volume" where
  "shared_volume_new =
     \<lparr>sv_volume = default_volume, sv_last_set = None, sv_stream = None, sv_link = None,
      sv_next_generation = 1, sv_handler = False, sv_told = []\<rparr>"

definition channel_volume :: "nat \<Rightarrow> 'l shared_volume \<Rightarrow> nat list \<times> bool" where
  "channel_volume chs sv =
     (replicate chs (raw_from_percent (vo_percent (sv_volume sv))), vo_muted (sv_volume sv))"

definition shared_attach :: "nat \<Rightarrow> nat \<Rightarrow> 'l shared_volume \<Rightarrow> nat \<times> 'l shared_volume" where
  "shared_attach index chs sv =
     (sv_next_generation sv,
      sv\<lparr>sv_next_generation := sv_next_generation sv + 1,
         sv_stream := Some \<lparr>as_index = index, as_channels = chs,
           as_generation = sv_next_generation sv\<rparr>\<rparr>)"

definition shared_detach :: "nat \<Rightarrow> 'l shared_volume \<Rightarrow> 'l shared_volume" where
  "shared_detach g sv =
     (case sv_stream sv of
        Some s \<Rightarrow> if as_generation s = g then sv\<lparr>sv_stream := None\<rparr> else sv
      | None \<Rightarrow> sv)"

text \<open>The connection to the sound server that the commands go over.\<close>

record ('l, 'w) volume_server =
  vs_connect :: "'w \<Rightarrow> (error + 'l) \<times> 'w"
  vs_set_volume :: "'l \<Rightarrow> nat \<Rightarrow> nat list \<Rightarrow> 'w \<Rightarrow> error option \<times> 'w"
  vs_set_mute :: "'l \<Rightarrow> nat \<Rightarrow> bool \<Rightarrow> 'w \<Rightarrow> error option \<times> 'w"

definition send_volume ::
    "('l, 'w) volume_server \<Rightarrow> 'l \<Rightarrow> attached_stream \<Rightarrow> volume \<Rightarrow> 'w \<Rightarrow> error option \<times> 'w" where
  "send_volume srv l s v w =
     (case vs_set_volume srv l (as_index s)
             (replicate (as_channels s) (raw_from_percent (vo_percent v))) w of
        (Some e, w) \<Rightarrow> (Some e, w)
      | (None, w) \<Rightarrow> vs_set_mute srv l (as_index s) (vo_muted v) w)"

text \<open>One attempt of \<^verbatim>\<open>apply\<close>: no connection, or what sending answered.\<close>

definition apply_attempt ::
    "('l, 'w) volume_server \<Rightarrow> attached_stream \<Rightarrow> 'l shared_volume \<times> 'w \<Rightarrow>
     (error + error option) \<times> 'l shared_volume \<times> 'w" where
  "apply_attempt srv s svw =
     (case svw of (sv, w) \<Rightarrow>
        (case sv_link sv of
           Some l \<Rightarrow> (case send_volume srv l s (sv_volume sv) w of (r, w) \<Rightarrow> (Inr r, sv, w))
         | None \<Rightarrow>
             (case vs_connect srv w of
                (Inl e, w) \<Rightarrow> (Inl e, sv, w)
              | (Inr l, w) \<Rightarrow>
                  (case send_volume srv l s (sv_volume sv) w of
                     (r, w) \<Rightarrow> (Inr r, sv\<lparr>sv_link := Some l\<rparr>, w)))))"

definition shared_apply ::
    "('l, 'w) volume_server \<Rightarrow> 'l shared_volume \<times> 'w \<Rightarrow> error option \<times> 'l shared_volume \<times> 'w" where
  "shared_apply srv svw =
     (case sv_stream (fst svw) of
        None \<Rightarrow> (None, svw)
      | Some s \<Rightarrow>
          (case apply_attempt srv s svw of
             (Inl e, svw) \<Rightarrow> (Some e, svw)
           | (Inr None, svw) \<Rightarrow> (None, svw)
           | (Inr (Some _), sv, w) \<Rightarrow>
               (case apply_attempt srv s (sv\<lparr>sv_link := None\<rparr>, w) of
                  (Inl e, svw) \<Rightarrow> (Some e, svw)
                | (Inr None, svw) \<Rightarrow> (None, svw)
                | (Inr (Some e), svw) \<Rightarrow> (Some (with_context (''setting the stream'' @ [CHR 0x27] @ ''s volume'') e), svw))))"

definition shared_set ::
    "('l, 'w) volume_server \<Rightarrow> instant \<Rightarrow> volume \<Rightarrow> 'l shared_volume \<times> 'w \<Rightarrow>
     error option \<times> 'l shared_volume \<times> 'w" where
  "shared_set srv now v svw =
     (case svw of (sv, w) \<Rightarrow>
        shared_apply srv
          (sv\<lparr>sv_volume := \<lparr>vo_percent = min (vo_percent v) 100, vo_muted = vo_muted v\<rparr>,
              sv_last_set := Some now\<rparr>, w))"

definition shared_changed_outside ::
    "instant \<Rightarrow> nat \<Rightarrow> volume \<Rightarrow> 'l shared_volume \<Rightarrow> 'l shared_volume" where
  "shared_changed_outside now index v sv =
     (let ours = (case sv_last_set sv of Some at0 \<Rightarrow> now - at0 < own_change_echo | None \<Rightarrow> False) in
      if ours \<or> map_option as_index (sv_stream sv) \<noteq> Some index \<or> sv_volume sv = v then sv
      else sv\<lparr>sv_volume := v, sv_told := (if sv_handler sv then v # sv_told sv else sv_told sv)\<rparr>)"

definition shared_on_change :: "'l shared_volume \<Rightarrow> 'l shared_volume" where
  "shared_on_change sv = sv\<lparr>sv_handler := True\<rparr>"

text \<open>What \<^verbatim>\<open>read_stream_volume\<close> makes of what the server has for a stream.\<close>

definition stream_volume :: "nat list \<Rightarrow> bool \<Rightarrow> volume" where
  "stream_volume chs muted =
     \<lparr>vo_percent = percent_from_raw (sum_list chs div max (length chs) 1), vo_muted = muted\<rparr>"

lemma raw_percent_round_trip: "p \<le> 100 \<Longrightarrow> percent_from_raw (raw_from_percent p) = p"
proof -
  assume p: "p \<le> 100"
  define r where "r = (p * 65536 + 50) div 100"
  have "r * 100 \<le> p * 65536 + 50" "p * 65536 + 50 < r * 100 + 100" by (simp_all add: r_def)
  then have "(r * 100 + 32768) div 65536 = p" by (intro div_nat_eqI) simp_all
  then show ?thesis using p by (simp add: percent_from_raw_def raw_from_percent_def volume_norm_def r_def)
qed

lemma apply_attempt_frame:
  "apply_attempt srv s (sv, w) = (r, sv', w') \<Longrightarrow>
     sv_volume sv' = sv_volume sv \<and> sv_stream sv' = sv_stream sv"
  by (auto simp: apply_attempt_def split: option.splits prod.splits sum.splits)

lemma apply_attempt_sent:
  "apply_attempt srv s (sv, w) = (Inr None, sv', w') \<Longrightarrow>
     \<exists>l w0. send_volume srv l s (sv_volume sv) w0 = (None, w')"
  by (auto simp: apply_attempt_def split: option.splits prod.splits sum.splits)

lemma shared_apply_frame:
  "shared_apply srv (sv, w) = (r, sv', w') \<Longrightarrow> sv_volume sv' = sv_volume sv \<and> sv_stream sv' = sv_stream sv"
  by (auto simp: shared_apply_def split: option.splits prod.splits sum.splits dest!: apply_attempt_frame)

lemma shared_apply_sent:
  assumes "shared_apply srv (sv, w) = (None, sv', w')" "sv_stream sv = Some s"
  shows "\<exists>l w0. send_volume srv l s (sv_volume sv) w0 = (None, w')"
  using assms
  by (auto simp: shared_apply_def split: option.splits prod.splits sum.splits
      dest!: apply_attempt_sent) (metis apply_attempt_frame)

interpretation shared_control:
  volume_control "\<lambda>svw. sv_volume (fst svw)" "shared_set srv now"
proof
  fix v :: volume and w w' :: "'a shared_volume \<times> 'b"
  assume v: "vo_percent v \<le> 100" and set0: "shared_set srv now v w = (None, w')"
  show "sv_volume (fst w') = v"
    using set0 v
    by (cases w; cases w') (auto simp: shared_set_def min_absorb1 dest!: shared_apply_frame)
qed

section \<open>The volume of the test output\<close>

record fake_volume =
  fv_state :: volume
  fv_handler :: bool
  fv_fail :: bool
  fv_told :: "volume list"

definition fake_change_from_outside :: "volume \<Rightarrow> fake_volume \<Rightarrow> fake_volume" where
  "fake_change_from_outside v f = f\<lparr>fv_state := v, fv_told := (if fv_handler f then v # fv_told f else fv_told f)\<rparr>"

definition fake_set :: "volume \<Rightarrow> fake_volume \<Rightarrow> error option \<times> fake_volume" where
  "fake_set v f =
     (if fv_fail f then (Some (mk_error (Message ''the sound server did not answer'')), f)
      else (None, f\<lparr>fv_state := v\<rparr>))"

interpretation fake_control: volume_control fv_state fake_set
  by unfold_locales (auto simp: fake_set_def split: if_splits)

section \<open>What is read back from a card\<close>

text \<open>A control whose quietest level is above unity cannot be set at all: \<^verbatim>\<open>clamp\<close> panics.\<close>

lemma target_millibel_panics:
  "target_millibel p (lo, hi) = None \<longleftrightarrow> p \<noteq> 0 \<and> min hi 0 < lo"
  by (auto simp: target_millibel_def)





























section \<open>What reaches the stream\<close>

text \<open>
  C30. A volume that was set reaches the stream that plays: the sound server is given one level for each
  channel and the mute, and what it then has reads back as the volume that was set. Even when that
  fails, the next stream is created with it. What the server reports within 0.6 seconds is taken as
  an echo and changes nothing.
\<close>

theorem set_volume_reaches_stream:
  assumes "sv_stream sv = Some s" and "0 < as_channels s"
    and "shared_set srv now v (sv, w) = (r, sv', w')"
  shows "(r = None \<longrightarrow> (\<exists>l w0 w1 levels.
             vs_set_volume srv l (as_index s) levels w0 = (None, w1) \<and>
             vs_set_mute srv l (as_index s) (vo_muted v) w1 = (None, w') \<and>
             length levels = as_channels s \<and>
             stream_volume levels (vo_muted v) = \<lparr>vo_percent = min (vo_percent v) 100, vo_muted = vo_muted v\<rparr>))
    \<and> channel_volume chs sv' = (replicate chs (raw_from_percent (vo_percent v)), vo_muted v)
    \<and> (now' - now < own_change_echo \<longrightarrow> shared_changed_outside now' index v0 sv' = sv')"
proof -
  let ?v = "\<lparr>vo_percent = min (vo_percent v) 100, vo_muted = vo_muted v\<rparr>"
  let ?sv = "sv\<lparr>sv_volume := ?v, sv_last_set := Some now\<rparr>"
  have applied: "shared_apply srv (?sv, w) = (r, sv', w')" using assms(3) by (simp add: shared_set_def)
  have vol: "sv_volume sv' = ?v" using shared_apply_frame [OF applied] by simp
  have last0: "sv_last_set sv' = Some now"
    using applied
    by (auto simp: shared_apply_def apply_attempt_def split: option.splits prod.splits sum.splits)
  have raw: "raw_from_percent (min p 100) = raw_from_percent p" for p by (simp add: raw_from_percent_def)
  have sent: "\<exists>l w0 w1 levels.
      vs_set_volume srv l (as_index s) levels w0 = (None, w1) \<and> vs_set_mute srv l (as_index s) (vo_muted v) w1 = (None, w') \<and>
      length levels = as_channels s \<and> stream_volume levels (vo_muted v) = ?v" if "r = None"
  proof -
    from shared_apply_sent [of srv ?sv w sv' w' s] applied that assms(1) obtain l w0
      where l: "send_volume srv l s ?v w0 = (None, w')" by auto
    let ?levels = "replicate (as_channels s) (raw_from_percent (min (vo_percent v) 100))"
    have "stream_volume ?levels (vo_muted v) = ?v"
      using assms(2) raw_percent_round_trip [of "min (vo_percent v) 100"]
      by (simp add: stream_volume_def sum_list_replicate max_absorb1 Suc_le_eq del: One_nat_def)
    moreover from l obtain w1 where "vs_set_volume srv l (as_index s) ?levels w0 = (None, w1)"
        "vs_set_mute srv l (as_index s) (vo_muted v) w1 = (None, w')"
      by (auto simp: send_volume_def split: prod.splits option.splits)
    ultimately show ?thesis
      by - (intro exI conjI, assumption+, rule length_replicate)
  qed
  show ?thesis
    using sent by (simp add: channel_volume_def vol raw shared_changed_outside_def last0)
qed

definition demo_server :: "(nat, (nat list \<times> bool)) volume_server" where
  "demo_server =
     \<lparr>vs_connect = (\<lambda>w. (Inr 1, w)), vs_set_volume = (\<lambda>l i levels w. (None, (levels, snd w))),
      vs_set_mute = (\<lambda>l i m w. (None, (fst w, m)))\<rparr>"

lemma set_volume_reaches_stream_witness:
  "\<exists>sv' w'. shared_set demo_server 7 \<lparr>vo_percent = 30, vo_muted = False\<rparr>
       (snd (shared_attach 5 2 shared_volume_new), ([], True)) = (None, sv', w') \<and>
     channel_volume 1 sv' = (replicate 1 (raw_from_percent 30), False)"
proof -
  let ?sv = "snd (shared_attach 5 2 (shared_volume_new :: nat shared_volume))"
  obtain r sv' w' where s: "shared_set demo_server 7 \<lparr>vo_percent = 30, vo_muted = False\<rparr> (?sv, ([], True)) = (r, sv', w')"
    by (cases "shared_set demo_server 7 \<lparr>vo_percent = 30, vo_muted = False\<rparr> (?sv, ([], True))") auto
  then have "r = None"
    by (auto simp: shared_set_def shared_apply_def apply_attempt_def send_volume_def demo_server_def shared_attach_def
        shared_volume_new_def)
  moreover have "channel_volume 1 sv' = (replicate 1 (raw_from_percent 30), False)"
    using set_volume_reaches_stream [OF _ _ s, of "\<lparr>as_index = 5, as_channels = 2, as_generation = 1\<rparr>" 1]
    by (simp add: shared_attach_def shared_volume_new_def)
  ultimately show ?thesis using s by blast
qed

end
