(* ===== verification/Outputs.thy ===== *)
theory Outputs
  imports Volumes Config
begin

text \<open>
  The outputs there are, and the one the daemon plays on: the outputs of the sound server as
  \<^verbatim>\<open>output/shared/pulse.rs\<close> describes them, the list of all outputs (\<^verbatim>\<open>output/catalog.rs\<close>) and the
  daemon's own bookkeeping of its output and volume (\<^verbatim>\<open>phoniad/src/outputs.rs\<close>). The factories of
  sinks are functions; every one has the volume it offers, if any, behind it.
\<close>

section \<open>Outputs of the sound server\<close>

datatype target = DefaultTarget | NamedTarget string

definition target_parse :: "string option \<Rightarrow> target" where
  "target_parse sink =
     (case sink of None \<Rightarrow> DefaultTarget
      | Some name \<Rightarrow> if name = ''default'' then DefaultTarget else NamedTarget name)"

datatype output_kind = KindUsb | KindBluetooth | KindHdmi | KindInternal | KindOther

fun kind_label :: "output_kind \<Rightarrow> string" where
  "kind_label KindUsb = ''USB''"
| "kind_label KindBluetooth = ''Bluetooth''"
| "kind_label KindHdmi = ''HDMI''"
| "kind_label KindInternal = ''built-in''"
| "kind_label KindOther = ''output''"

record pulse_output =
  po_name :: string
  po_description :: string
  po_kind :: output_kind
  po_codec :: "string option"
  po_lossy :: bool
  po_rate :: nat
  po_index :: nat
  po_is_default :: bool

definition has_part :: "string \<Rightarrow> string \<Rightarrow> bool" where
  "has_part part s \<longleftrightarrow> list_ex (\<lambda>k. starts_with (drop k s) part) [0..<Suc (length s)]"

definition to_upper :: "char \<Rightarrow> char" where
  "to_upper c =
     (let n = (of_char c :: nat) in if 97 \<le> n \<and> n \<le> 122 then char_of (n - 32) else c)"

type_synonym props = "(string \<times> string) list"

definition classify :: "string \<Rightarrow> props \<Rightarrow> output_kind \<times> string option \<times> bool" where
  "classify name ps =
     (let prop = map_of ps; lower = map to_lower name in
      if prop ''device.api'' = Some ''bluez5'' \<or> starts_with name ''bluez_''
      then (KindBluetooth, map_option (map to_upper) (prop ''api.bluez5.codec''), True)
      else
        (if prop ''device.bus'' = Some ''usb'' \<or> has_part ''.usb-'' lower \<or> has_part ''_usb-'' lower then KindUsb
         else if has_part ''hdmi'' lower \<or>
           (case prop ''device.profile.description'' of Some d \<Rightarrow> has_part ''HDMI'' d | None \<Rightarrow> False) then KindHdmi
         else if prop ''device.bus'' = Some ''pci'' \<or> has_part ''pci-'' lower then KindInternal
         else KindOther, None, False))"

text \<open>What the server says of a sink, as text.\<close>

record sink_info =
  si_name :: string
  si_description :: "string option"
  si_rate :: nat
  si_index :: nat
  si_props :: props

definition output_of_sink :: "sink_info \<Rightarrow> string option \<Rightarrow> pulse_output" where
  "output_of_sink info default_name =
     (let (kind, codec, lossy) = classify (si_name info) (si_props info) in
      \<lparr>po_name = si_name info,
       po_description = (case si_description info of Some d \<Rightarrow> d | None \<Rightarrow> si_name info),
       po_kind = kind, po_codec = codec, po_lossy = lossy, po_rate = si_rate info, po_index = si_index info,
       po_is_default = (default_name = Some (si_name info))\<rparr>)"

definition list_outputs :: "error + string option \<Rightarrow> error + sink_info list \<Rightarrow> error + pulse_output list" where
  "list_outputs server sinks =
     (case server of
        Inl e \<Rightarrow> Inl (with_context ''asking the sound server about itself'' e)
      | Inr default_name \<Rightarrow>
          (case sinks of
             Inl e \<Rightarrow> Inl (with_context (''listing the sound server'' @ [CHR 0x27] @ ''s outputs'') e)
           | Inr infos \<Rightarrow> Inr (map (\<lambda>info. output_of_sink info default_name) infos)))"

definition format_output_line :: "nat \<Rightarrow> pulse_output \<Rightarrow> string" where
  "format_output_line width out =
     ''    '' @ pad_right width (po_name out) @ ''  '' @ po_description out @ ''  ('' @
     join '', '' (kind_label (po_kind out) # (case po_codec out of Some c \<Rightarrow> [c] | None \<Rightarrow> []) @
       (if po_lossy out then [''lossy''] else [])) @ '')''"

definition format_outputs :: "pulse_output list \<Rightarrow> string" where
  "format_outputs outs =
     (let header = ''PipeWire outputs, shared and NOT bit-perfect (set mode = '' @ debug_str ''shared'' @
            '' and sink = '' @ debug_str ''<name>'' @ '' under [output]):'' in
      if outs = [] then join [CHR 0x0A] [header, ''  (the sound server has no outputs)'']
      else
        let width = fold max (map (length \<circ> po_name) outs) (length ''default'');
            default = find po_is_default outs
        in join [CHR 0x0A]
             ([header,
               ''  '' @ (if default \<noteq> None then ''*'' else '' '') @ '' '' @ pad_right width ''default'' @ ''  '' @
               (case default of
                  Some d \<Rightarrow> ''the desktop'' @ [CHR 0x27] @ ''s default output, now '' @ po_description d
                | None \<Rightarrow> ''the desktop'' @ [CHR 0x27] @ ''s default output'')] @
              map (format_output_line width) outs @
              [''A named output is never swapped for another if it goes away; '' @ debug_str ''default'' @
               '' follows the desktop.'']))"

section \<open>The list of all outputs\<close>

definition card_entry :: "card_info \<Rightarrow> nat \<Rightarrow> entry" where
  "card_entry c playback =
     \<lparr>en_id = ''exclusive:hw:'' @ ci_id c @ '','' @ show_nat playback, en_mode = EntryExclusive,
      en_name = (if 1 < length (ci_playback c)
                 then ci_name c @ '' (device '' @ show_nat playback @ '')'' else ci_name c),
      en_detail = Some (if ci_usb c then ''USB, card '' @ show_nat (ci_index c) else ''card '' @ show_nat (ci_index c)),
      en_bit_perfect = True, en_lossy = False, en_codec = None, en_is_default = False\<rparr>"

definition catalog_cards :: "asound \<Rightarrow> entry list" where
  "catalog_cards t =
     (case cards t of
        Inl _ \<Rightarrow> []
      | Inr cs \<Rightarrow> concat (map (\<lambda>c. map (card_entry c) (ci_playback c)) (filter (\<lambda>c. ci_playback c \<noteq> []) cs)))"

definition shared_entry :: "pulse_output \<Rightarrow> entry" where
  "shared_entry out =
     \<lparr>en_id = ''shared:'' @ po_name out, en_mode = EntryShared, en_name = po_description out,
      en_detail = Some (kind_label (po_kind out)), en_bit_perfect = False, en_lossy = po_lossy out,
      en_codec = po_codec out, en_is_default = False\<rparr>"

definition catalog_shared :: "pulse_output list \<Rightarrow> entry list" where
  "catalog_shared outs =
     (let default = find po_is_default outs in
      \<lparr>en_id = ''shared:default'', en_mode = EntryShared,
       en_name = (case default of
                    Some d \<Rightarrow> ''The desktop'' @ [CHR 0x27] @ ''s default output ('' @ po_description d @ '')''
                  | None \<Rightarrow> ''The desktop'' @ [CHR 0x27] @ ''s default output''),
       en_detail = map_option (\<lambda>d. kind_label (po_kind d)) default, en_bit_perfect = False,
       en_lossy = (case default of Some d \<Rightarrow> po_lossy d | None \<Rightarrow> False),
       en_codec = Option.bind default po_codec, en_is_default = True\<rparr> # map shared_entry outs)"

definition catalog_list :: "asound \<Rightarrow> error + pulse_output list \<Rightarrow> entry list" where
  "catalog_list t outs =
     catalog_cards t @ (case outs of Inr os \<Rightarrow> catalog_shared os | Inl _ \<Rightarrow> [])"

definition describe_entry :: "output_spec \<Rightarrow> entry list \<Rightarrow> string" where
  "describe_entry spec entries =
     (case find (\<lambda>e. en_id e = output_id spec) entries of
        Some e \<Rightarrow> en_name e | None \<Rightarrow> describe_output spec)"

section \<open>The output the daemon is on\<close>

text \<open>
  A factory offers a volume at the moment or not; its volume is read, set and listened to through it.
\<close>

record ('f, 'w) factories =
  fa_build :: "output_spec \<Rightarrow> 'w \<Rightarrow> 'f \<times> 'w"
  fa_has_volume :: "'f \<Rightarrow> 'w \<Rightarrow> bool"
  fa_get :: "'f \<Rightarrow> 'w \<Rightarrow> volume"
  fa_set :: "'f \<Rightarrow> volume \<Rightarrow> 'w \<Rightarrow> error option \<times> 'w"
  fa_on_change :: "'f \<Rightarrow> 'w \<Rightarrow> 'w"

datatype volume_error = VolumeUnsupported | VolumeFailed string

record 'f outputs =
  ou_spec :: output_spec
  ou_description :: string
  ou_factory :: "'f option"
  ou_level :: volume
  ou_handler :: bool
  ou_fallback :: "output_spec option"

definition outputs_new :: "output_spec \<Rightarrow> 'f outputs" where
  "outputs_new initial =
     \<lparr>ou_spec = initial, ou_description = describe_output initial, ou_factory = None,
      ou_level = default_volume, ou_handler = False, ou_fallback = None\<rparr>"

definition with_fallback :: "output_spec option \<Rightarrow> 'f outputs \<Rightarrow> 'f outputs" where
  "with_fallback fb ou = ou\<lparr>ou_fallback := fb\<rparr>"

definition on_volume_change :: "'f outputs \<Rightarrow> 'f outputs" where
  "on_volume_change ou = ou\<lparr>ou_handler := True\<rparr>"

definition outputs_attach ::
    "('f, 'w) factories \<Rightarrow> 'f \<Rightarrow> bool \<Rightarrow> 'f outputs \<times> 'w \<Rightarrow> 'f outputs \<times> 'w" where
  "outputs_attach fs f carry_volume s =
     (let (ou, w) = s;
          w = (if fa_has_volume fs f w
               then let w = (if carry_volume then snd (fa_set fs f (ou_level ou) w) else w)
                    in if ou_handler ou then fa_on_change fs f w else w
               else w)
      in (ou\<lparr>ou_factory := Some f\<rparr>, w))"

definition volume_control_of :: "('f, 'w) factories \<Rightarrow> 'f outputs \<times> 'w \<Rightarrow> 'f option" where
  "volume_control_of fs s =
     (case ou_factory (fst s) of
        Some f \<Rightarrow> if fa_has_volume fs f (snd s) then Some f else None
      | None \<Rightarrow> None)"

definition outputs_volume :: "('f, 'w) factories \<Rightarrow> 'f outputs \<times> 'w \<Rightarrow> volume option" where
  "outputs_volume fs s = map_option (\<lambda>f. fa_get fs f (snd s)) (volume_control_of fs s)"

definition outputs_set_volume ::
    "('f, 'w) factories \<Rightarrow> (volume \<Rightarrow> volume) \<Rightarrow> 'f outputs \<times> 'w \<Rightarrow>
     (volume_error + volume) \<times> 'f outputs \<times> 'w" where
  "outputs_set_volume fs change s =
     (case volume_control_of fs s of
        None \<Rightarrow> (Inl VolumeUnsupported, s)
      | Some f \<Rightarrow>
          let (ou, w) = s;
              level = change (fa_get fs f w);
              level = level\<lparr>vo_percent := min (vo_percent level) 100\<rparr>
          in case fa_set fs f level w of
               (Some e, w) \<Rightarrow> (Inl (VolumeFailed (show_error e)), ou, w)
             | (None, w) \<Rightarrow> (Inr level, ou\<lparr>ou_level := level\<rparr>, w))"

definition outputs_changed_outside :: "volume \<Rightarrow> 'f outputs \<Rightarrow> 'f outputs" where
  "outputs_changed_outside v ou = ou\<lparr>ou_level := v\<rparr>"

definition outputs_route :: "'f outputs \<Rightarrow> route" where
  "outputs_route ou =
     \<lparr>ro_id = output_id (ou_spec ou),
      ro_mode = (case ou_spec ou of Exclusive _ \<Rightarrow> Ipc_Exclusive | Shared _ \<Rightarrow> Ipc_Shared),
      ro_description = ou_description ou\<rparr>"

definition fallback_for_lost :: "'f outputs \<Rightarrow> string option" where
  "fallback_for_lost ou =
     (case ou_spec ou of Exclusive _ \<Rightarrow> map_option output_id (ou_fallback ou) | Shared _ \<Rightarrow> None)"

definition outputs_prepare ::
    "('f, 'w) factories \<Rightarrow> string \<Rightarrow> 'w \<Rightarrow> (error + output_spec \<times> 'f) \<times> 'w" where
  "outputs_prepare fs i w =
     (case output_from_id i of
        Inl e \<Rightarrow> (Inl e, w)
      | Inr spec \<Rightarrow> (case fa_build fs spec w of (f, w) \<Rightarrow> (Inr (spec, f), w)))"

definition outputs_refresh :: "entry list \<Rightarrow> 'f outputs \<Rightarrow> 'f outputs" where
  "outputs_refresh entries ou = ou\<lparr>ou_description := describe_entry (ou_spec ou) entries\<rparr>"

definition is_shared_spec :: "output_spec \<Rightarrow> bool" where
  "is_shared_spec spec = (case spec of Shared _ \<Rightarrow> True | Exclusive _ \<Rightarrow> False)"

definition switched_to ::
    "('f, 'w) factories \<Rightarrow> output_spec \<Rightarrow> entry list \<Rightarrow> 'f \<Rightarrow> 'f outputs \<times> 'w \<Rightarrow> 'f outputs \<times> 'w" where
  "switched_to fs spec entries f s =
     (let (ou, w) = s;
          both_shared = is_shared_spec (ou_spec ou) \<and> is_shared_spec spec
      in outputs_attach fs f both_shared
           (ou\<lparr>ou_spec := spec, ou_description := describe_entry spec entries\<rparr>, w))"

section \<open>Factories whose volumes keep what they are set to\<close>

locale output_volumes =
  fixes fs :: "('f, 'w) factories"
  assumes each_control: "volume_control (fa_get fs f) (fa_set fs f)"
    and set_offers: "fa_has_volume fs g (snd (fa_set fs f v w)) = fa_has_volume fs g w"
    and listen_keeps: "fa_get fs g (fa_on_change fs f w) = fa_get fs g w"
    and listen_offers: "fa_has_volume fs g (fa_on_change fs f w) = fa_has_volume fs g w"

sublocale output_volumes \<subseteq> control: volume_control "fa_get fs f" "fa_set fs f" for f
  by (rule each_control)

context output_volumes begin

lemma set_volume_shown:
  assumes "outputs_set_volume fs change s = (Inr v, s')"
  shows "outputs_volume fs s' = Some v \<and> vo_percent v \<le> 100 \<and> ou_level (fst s') = v \<and>
    ou_spec (fst s') = ou_spec (fst s)"
proof -
  obtain ou w where s: "s = (ou, w)" by fastforce
  obtain f where f: "ou_factory ou = Some f" "fa_has_volume fs f w" and
      v: "vo_percent v \<le> 100" "fst (fa_set fs f v w) = None" and s': "s' = (ou\<lparr>ou_level := v\<rparr>, snd (fa_set fs f v w))"
    using assms s
    by (auto simp: outputs_set_volume_def volume_control_of_def Let_def split: option.splits if_splits prod.splits)
  have "fa_get fs f (snd (fa_set fs f v w)) = v"
    using v by (intro control.set_get [of v f w]) (simp_all add: prod_eq_iff)
  moreover have "fa_has_volume fs f (snd (fa_set fs f v w))" using f(2) by (simp add: set_offers)
  ultimately show ?thesis using v(1) f(1) by (simp add: s' s outputs_volume_def volume_control_of_def)
qed

lemma level_carried:
  assumes "is_shared_spec (ou_spec ou)" "is_shared_spec spec" "fa_has_volume fs f w"
    and "fst (fa_set fs f (ou_level ou) w) = None" "vo_percent (ou_level ou) \<le> 100"
  shows "outputs_volume fs (switched_to fs spec entries f (ou, w)) = Some (ou_level ou)"
proof -
  have "fa_get fs f (snd (fa_set fs f (ou_level ou) w)) = ou_level ou"
    using assms(4,5) by (intro control.set_get [of _ f w]) (simp_all add: prod_eq_iff)
  then show ?thesis
    using assms(1-3)
    by (simp add: switched_to_def outputs_attach_def Let_def outputs_volume_def volume_control_of_def
        set_offers listen_keeps listen_offers)
qed

end

text \<open>
  For any factories, those of cards with a control in hardware among them, whose volume moves in steps
  and so need not keep exactly what it is set to: unless it goes from one output of the sound server to
  another, a switch sets no volume, it only listens to the one of the new output.
\<close>

lemma switch_only_listens:
  assumes "\<not> (is_shared_spec (ou_spec ou) \<and> is_shared_spec spec)"
  shows "snd (switched_to fs spec entries f (ou, w)) = w \<or>
    snd (switched_to fs spec entries f (ou, w)) = fa_on_change fs f w"
  using assms by (auto simp: switched_to_def outputs_attach_def Let_def)

text \<open>
  The factories of the sound server: each has the volume of its own streams, whatever it plays. Cards
  are not among them: what a card's control keeps of what it is set to is in the theory of the volumes.
\<close>

definition shared_factories ::
    "('l, 'w) volume_server \<Rightarrow> instant \<Rightarrow> (nat, (nat \<Rightarrow> 'l shared_volume) \<times> nat \<times> 'w) factories" where
  "shared_factories srv now =
     \<lparr>fa_build = (\<lambda>spec w. (fst (snd w), ((fst w)(fst (snd w) := shared_volume_new), Suc (fst (snd w)), snd (snd w)))),
      fa_has_volume = (\<lambda>f w. True),
      fa_get = (\<lambda>f w. sv_volume (fst w f)),
      fa_set = (\<lambda>f v w. case shared_set srv now v (fst w f, snd (snd w)) of
                  (r, sv, u) \<Rightarrow> (r, ((fst w)(f := sv), fst (snd w), u))),
      fa_on_change = (\<lambda>f w. ((fst w)(f := shared_on_change (fst w f)), snd w))\<rparr>"

interpretation shared_outputs: output_volumes "shared_factories srv now"
proof
  fix f and v :: volume and w w' :: "(nat \<Rightarrow> 'a shared_volume) \<times> nat \<times> 'b"
  assume "vo_percent v \<le> 100" "fa_set (shared_factories srv now) f v w = (None, w')"
  then show "fa_get (shared_factories srv now) f w' = v"
    using shared_control.set_get [of v srv now "(fst w f, snd (snd w))"]
    by (auto simp: shared_factories_def split: prod.splits)
qed (auto simp: shared_factories_def shared_on_change_def split: prod.splits)

text \<open>The factories of the tests.\<close>

definition fake_factories :: "(nat, nat \<Rightarrow> fake_volume) factories" where
  "fake_factories =
     \<lparr>fa_build = (\<lambda>spec w. (0, w)), fa_has_volume = (\<lambda>f w. True), fa_get = (\<lambda>f w. fv_state (w f)),
      fa_set = (\<lambda>f v w. case fake_set v (w f) of (r, x) \<Rightarrow> (r, w(f := x))),
      fa_on_change = (\<lambda>f w. w(f := (w f)\<lparr>fv_handler := True\<rparr>))\<rparr>"

interpretation fake_outputs: output_volumes fake_factories
proof
  fix f and v :: volume and w w' :: "nat \<Rightarrow> fake_volume"
  assume "vo_percent v \<le> 100" "fa_set fake_factories f v w = (None, w')"
  then show "fa_get fake_factories f w' = v"
    using fake_control.set_get [of v "w f"] by (auto simp: fake_factories_def split: prod.splits)
qed (auto simp: fake_factories_def split: prod.splits)

lemma find_key: "x \<in> set xs \<Longrightarrow> distinct (map k xs) \<Longrightarrow> find (\<lambda>y. k y = k x) xs = Some x"
  by (induction xs) (auto simp: image_iff)

section \<open>Properties\<close>

text \<open>
  C31. A volume that was set on an output of the sound server is the volume of the next one of its
  outputs as well; the very value is shown. Moving to or from a sound card writes no volume at all.
\<close>

theorem volume_follows_shared_outputs:
  assumes "outputs_set_volume (shared_factories srv now) change (ou, w) = (Inr v, ou1, w1)"
  shows "(is_shared_spec (ou_spec ou) \<and> is_shared_spec spec \<and>
          fst (fa_set (shared_factories srv now) f v w1) = None \<longrightarrow>
            outputs_volume (shared_factories srv now)
              (switched_to (shared_factories srv now) spec entries f (ou1, w1)) = Some v)
    \<and> (\<not> (is_shared_spec (ou_spec ou) \<and> is_shared_spec spec) \<longrightarrow>
          (\<forall>g. fa_get (shared_factories srv now) g
                 (snd (switched_to (shared_factories srv now) spec entries f (ou1, w1))) =
               fa_get (shared_factories srv now) g w1))
    \<and> ro_id (outputs_route (fst (switched_to (shared_factories srv now) spec entries f (ou1, w1)))) = output_id spec"
proof -
  note shown = shared_outputs.set_volume_shown [OF assms, simplified]
  have all: "fa_has_volume (shared_factories srv now) f w1" by (simp add: shared_factories_def)
  have "outputs_volume (shared_factories srv now) (switched_to (shared_factories srv now) spec entries f (ou1, w1)) = Some v"
    if "is_shared_spec (ou_spec ou)" "is_shared_spec spec" "fst (fa_set (shared_factories srv now) f v w1) = None"
    using shared_outputs.level_carried [of ou1 spec srv now f w1 entries] that shown all by simp
  moreover have "fa_get (shared_factories srv now) g (snd (switched_to (shared_factories srv now) spec entries f (ou1, w1))) =
      fa_get (shared_factories srv now) g w1"
    if "\<not> (is_shared_spec (ou_spec ou) \<and> is_shared_spec spec)" for g
    using that shown by (auto simp: switched_to_def outputs_attach_def Let_def shared_outputs.listen_keeps)
  ultimately show ?thesis
    by (auto simp: switched_to_def outputs_attach_def Let_def outputs_route_def)
qed

definition demo_server :: "(nat, unit) volume_server" where
  "demo_server =
     \<lparr>vs_connect = (\<lambda>w. (Inr 1, w)), vs_set_volume = (\<lambda>l i levels w. (None, w)),
      vs_set_mute = (\<lambda>l i m w. (None, w))\<rparr>"

definition demo_outputs :: "nat outputs" where
  "demo_outputs = (outputs_new (Shared None))\<lparr>ou_factory := Some 0\<rparr>"

lemma volume_follows_shared_outputs_witness:
  "\<exists>s. snd (outputs_set_volume (shared_factories demo_server 0) (\<lambda>v. v\<lparr>vo_percent := 35\<rparr>)
         (demo_outputs, (\<lambda>_. shared_volume_new), 2, ())) = s \<and>
     outputs_volume (shared_factories demo_server 0)
       (switched_to (shared_factories demo_server 0) (Shared (Some ''bluez'')) [] 1 s) =
     Some \<lparr>vo_percent = 35, vo_muted = False\<rparr>"
proof -
  let ?fs = "shared_factories demo_server 0" and ?change = "\<lambda>v :: volume. v\<lparr>vo_percent := 35\<rparr>"
  obtain r ou1 w1 where r: "outputs_set_volume ?fs ?change (demo_outputs, (\<lambda>_. shared_volume_new), 2, ()) = (r, ou1, w1)"
    by (metis prod_cases3)
  then have rv: "r = Inr \<lparr>vo_percent = 35, vo_muted = False\<rparr>"
    by (auto simp: outputs_set_volume_def volume_control_of_def shared_factories_def demo_outputs_def outputs_new_def
        shared_set_def shared_apply_def shared_volume_new_def default_volume_def Let_def)
  have "fst (fa_set ?fs 1 v w1) = None" for v
    using r by (auto simp: outputs_set_volume_def volume_control_of_def shared_factories_def demo_outputs_def
        outputs_new_def shared_set_def shared_apply_def shared_volume_new_def Let_def)
  then have "outputs_volume ?fs (switched_to ?fs (Shared (Some ''bluez'')) [] 1 (ou1, w1)) =
      Some \<lparr>vo_percent = 35, vo_muted = False\<rparr>"
    using volume_follows_shared_outputs [OF r [unfolded rv], of "Shared (Some ''bluez'')" 1 "[]"]
    by (simp add: is_shared_spec_def demo_outputs_def outputs_new_def)
  then show ?thesis using r by auto
qed

text \<open>
  The level asked of a card is remembered as the level asked for, so it reaches the sound server after
  all, one output later: from the card at 20% to one output, which starts at its own 100%, and on
  to another, which is set to 20%.
\<close>

lemma hardware_level_reaches_shared:
  fixes s0 s1 s2 s3 :: "nat outputs \<times> (nat \<Rightarrow> fake_volume)"
  assumes "s0 = ((outputs_new (Exclusive ''hw:1,0''))\<lparr>ou_factory := Some 0\<rparr>,
                 \<lambda>_. \<lparr>fv_state = default_volume, fv_handler = False, fv_fail = False, fv_told = []\<rparr>)"
    and "s1 = snd (outputs_set_volume fake_factories (\<lambda>v. v\<lparr>vo_percent := 20\<rparr>) s0)"
    and "s2 = switched_to fake_factories (Shared None) [] 1 s1"
    and "s3 = switched_to fake_factories (Shared (Some ''speaker'')) [] 2 s2"
  shows "map_option vo_percent (outputs_volume fake_factories s2) = Some 100 \<and>
    map_option vo_percent (outputs_volume fake_factories s3) = Some 20"
  by (simp add: assms outputs_new_def outputs_set_volume_def volume_control_of_def fake_factories_def fake_set_def
      switched_to_def outputs_attach_def outputs_volume_def is_shared_spec_def default_volume_def Let_def)

text \<open>
  Every output that is listed can be chosen by its id: the id is read as an output of the kind that
  is listed, which is written as that id again, and the output is then called what the list calls
  it. The id of a card opens the very playback device of the card that is listed.
\<close>

theorem listed_outputs_can_be_chosen:
  assumes "cards t = Inr cs" and "distinct (map ci_id cs)"
    and "\<forall>c \<in> set cs. plain_id (ci_id c) \<and> parse_u32 (ci_id c) = None"
    and "\<forall>p \<in> set outs. po_name p \<noteq> [] \<and> po_name p \<noteq> ''default''"
    and "e \<in> set (catalog_list t (Inr outs))" and "distinct (map en_id (catalog_list t (Inr outs)))"
  shows "\<exists>spec. output_from_id (en_id e) = Inr spec \<and> output_id spec = en_id e \<and>
    (en_mode e = EntryShared \<longleftrightarrow> is_shared_spec spec) \<and>
    describe_entry spec (catalog_list t (Inr outs)) = en_name e \<and>
    (\<forall>dev. spec = Exclusive dev \<longrightarrow>
       (\<exists>c \<in> set cs. \<exists>d \<in> set (ci_playback c). resolve_device dev t = Inr (Hw (ci_index c) d (Some (ci_id c)))))"
proof -
  let ?es = "catalog_list t (Inr outs)"
  have named: "describe_entry spec ?es = en_name e" if "output_id spec = en_id e" for spec
  proof -
    have "find (\<lambda>x. en_id x = en_id e) ?es = Some e"
      by (rule find_key [OF assms(5,6)])
    then show ?thesis using that by (simp add: describe_entry_def)
  qed
  consider (card) c d where "c \<in> set cs" "d \<in> set (ci_playback c)" "e = card_entry c d"
    | (default) "en_id e = ''shared:default''" "en_mode e = EntryShared"
    | (shared) p where "p \<in> set outs" "e = shared_entry p"
    using assms(1,5) by (auto simp: catalog_list_def catalog_cards_def catalog_shared_def Let_def)
  then show ?thesis
  proof cases
    case card
    let ?dev = "''hw:'' @ ci_id c @ '','' @ show_nat d"
    have i: "en_id e = ''exclusive:'' @ ?dev" "en_mode e = EntryExclusive" by (simp_all add: card(3) card_entry_def)
    have "output_from_id (en_id e) = Inr (Exclusive ?dev)"
      unfolding i by (simp add: output_from_id_def after_prefix_def)
    moreover have "resolve_device ?dev t = Inr (Hw (ci_index c) d (Some (ci_id c)))"
      using listed_name_resolves [OF assms(1) card(1,2) assms(2)] assms(3) card(1) by simp
    ultimately show ?thesis
      using i card(1,2) named [of "Exclusive ?dev"] by (intro exI [of _ "Exclusive ?dev"]) (auto simp: is_shared_spec_def)
  next
    case default
    then show ?thesis
      using named [of "Shared None"]
      by (intro exI [of _ "Shared None"]) (simp add: output_from_id_def after_prefix_def is_shared_spec_def)
  next
    case shared
    then have i: "en_id e = ''shared:'' @ po_name p" "en_mode e = EntryShared"
      and n: "po_name p \<noteq> []" "po_name p \<noteq> ''default''"
      using assms(4) by (auto simp: shared_entry_def)
    show ?thesis
      using i n named [of "Shared (Some (po_name p))"]
      by (intro exI [of _ "Shared (Some (po_name p))"]) (simp add: output_from_id_def after_prefix_def is_shared_spec_def)
  qed
qed

lemma listed_outputs_can_be_chosen_witness:
  "\<exists>spec. output_from_id ''exclusive:hw:DS2,0'' = Inr spec \<and> output_id spec = ''exclusive:hw:DS2,0''"
proof -
  let ?e = "card_entry \<lparr>ci_index = 1, ci_id = ''DS2'', ci_name = ''DS2'', ci_usb = True, ci_playback = [0]\<rparr> 0"
  have ids: "map en_id (catalog_list demo_asound (Inr [])) =
      [''exclusive:hw:NVidia,3'', ''exclusive:hw:DS2,0'', ''shared:default'']"
    by (simp add: catalog_list_def catalog_cards_def demo_cards card_entry_def catalog_shared_def str_eval show_nat.simps)
  have e: "?e \<in> set (catalog_list demo_asound (Inr []))"
    by (simp add: catalog_list_def catalog_cards_def demo_cards)
  have "\<exists>spec. output_from_id (en_id ?e) = Inr spec \<and> output_id spec = en_id ?e"
    using listed_outputs_can_be_chosen [OF demo_cards _ _ _ e] by (auto simp: ids plain_id_def str_eval)
  then show ?thesis by (simp add: card_entry_def str_eval show_nat.simps)
qed

end
