(* ===== verification/Daemon.thy ===== *)
theory Daemon
  imports Autoplay Outputs Openers
begin

text \<open>
  The daemon (\<^verbatim>\<open>phoniad/src/daemon.rs\<close>): it answers requests on the engine, the queue, the outputs and
  the catalog, and turns everything that happens into one numbered sequence of events. A request
  that waits for TIDAL is modelled in the parts that its waiting separates where these matter: what
  is looked up without a lock, and what is then done at once under \<^verbatim>\<open>control_lock\<close>.
\<close>

section \<open>Lyrics that were fetched\<close>

definition lyrics_cache_capacity :: nat where
  "lyrics_cache_capacity = 64"

record lyrics_cache =
  lc_order :: "string list"
  lc_entries :: "(string \<times> lyrics option) list"

definition lyrics_cache_new :: lyrics_cache where
  "lyrics_cache_new = \<lparr>lc_order = [], lc_entries = []\<rparr>"

definition lyrics_get :: "string \<Rightarrow> lyrics_cache \<Rightarrow> lyrics option option" where
  "lyrics_get i c = map_of (lc_entries c) i"

definition lyrics_insert :: "string \<Rightarrow> lyrics option \<Rightarrow> lyrics_cache \<Rightarrow> lyrics_cache" where
  "lyrics_insert i found c =
     (let c = (if map_of (lc_entries c) i = None
               then let c = c\<lparr>lc_order := lc_order c @ [i]\<rparr>
                    in if lyrics_cache_capacity < length (lc_order c)
                       then (case lc_order c of
                               oldest # rest \<Rightarrow> c\<lparr>lc_order := rest, lc_entries := AList.delete oldest (lc_entries c)\<rparr>
                             | [] \<Rightarrow> c)
                       else c
               else c)
      in c\<lparr>lc_entries := AList.update i found (lc_entries c)\<rparr>)"

section \<open>The state\<close>

definition default_search_limit :: nat where
  "default_search_limit = 50"

definition max_add :: nat where
  "max_add = 1000"

text \<open>What the daemon is made of and relies on. The catalog is there only with a login.\<close>

record ('g, 'e, 'f, 'w, 'x) daemon_env =
  de_handle :: "'e engine_handle"
  de_set_output :: "'f \<Rightarrow> 'e \<Rightarrow> (error + unit) \<times> 'e"
  de_shuffler :: "'g shuffler"
  de_factories :: "('f, 'w) factories"
  de_catalog :: "'x catalog option"
  de_describe :: "nat \<Rightarrow> track_source \<Rightarrow> describe_error + source_info"
  de_info :: "string \<times> string \<times> nat"
  de_debug :: "request \<Rightarrow> string"

text \<open>
  The events that were published, latest first, with their numbers. \<open>dm_reports\<close> are the finished
  plays that were handed to be sent, \<open>dm_saved\<close> the logs of recent tracks handed to be written.
\<close>

record ('g, 'e, 'f, 'w, 'x) daemon =
  dm_control :: "('g, 'e) controller"
  dm_outputs :: "'f outputs"
  dm_volumes :: 'w
  dm_tidal :: 'x
  dm_quality :: "quality_limits option"
  dm_play_log :: "session_tracker option"
  dm_reports :: "playback_session list"
  dm_seq :: nat
  dm_events :: "(nat \<times> ipc_event) list"
  dm_stopping :: bool
  dm_last_report :: "ipc_sink_report option"
  dm_lyrics :: lyrics_cache
  dm_auto :: auto
  dm_fetches :: "fetch list"
  dm_fallbacks :: "string list"
  dm_recent :: tracker
  dm_saved :: "recently_played list"

definition publish :: "(nat \<Rightarrow> ipc_event) \<Rightarrow> ('g, 'e, 'f, 'w, 'x) daemon \<Rightarrow> ('g, 'e, 'f, 'w, 'x) daemon" where
  "publish mk d =
     (let n = dm_seq d + 1 in d\<lparr>dm_seq := n, dm_events := (n, mk n) # dm_events d\<rparr>)"

definition convert_quality_range :: "quality_limits \<Rightarrow> quality_range" where
  "convert_quality_range l = \<lparr>qr_max = convert_quality (ql_max l), qr_min = convert_quality (ql_min l)\<rparr>"

definition daemon_route :: "('g, 'e, 'f, 'w, 'x) daemon \<Rightarrow> route" where
  "daemon_route d = outputs_route (dm_outputs d)"

definition daemon_volume ::
    "('g, 'e, 'f, 'w, 'x) daemon_env \<Rightarrow> ('g, 'e, 'f, 'w, 'x) daemon \<Rightarrow> volume option" where
  "daemon_volume en d = outputs_volume (de_factories en) (dm_outputs d, dm_volumes d)"

definition daemon_state ::
    "('g, 'e, 'f, 'w, 'x) daemon_env \<Rightarrow> ('g, 'e, 'f, 'w, 'x) daemon \<Rightarrow> ipc_status \<times> ipc_queue" where
  "daemon_state en d =
     (let q = control_snapshot (dm_control d);
          st = status_dto (eh_status (de_handle en) (ct_engine (dm_control d))) q (Some (daemon_route d))
                 (daemon_volume en d) (map_option convert_quality_range (dm_quality d));
          st = st\<lparr>iu_sink_report :=
                 (case dm_last_report d of
                    Some r \<Rightarrow> if applies_to st r then Some r else None
                  | None \<Rightarrow> None)\<rparr>
      in (st, queue_dto q))"

definition daemon_snapshot ::
    "('g, 'e, 'f, 'w, 'x) daemon_env \<Rightarrow> ('g, 'e, 'f, 'w, 'x) daemon \<Rightarrow> nat \<times> ipc_status \<times> ipc_queue" where
  "daemon_snapshot en d = (dm_seq d, daemon_state en d)"

definition daemon_hello :: "('g, 'e, 'f, 'w, 'x) daemon_env \<Rightarrow> server_hello" where
  "daemon_hello en =
     \<lparr>sh_protocol = protocol, sh_server = de_info en,
      sh_capabilities =
        [''output_release'', ''output_select'', ''volume'', ''gapless'', ''quality'', ''recently_played''] @
        (if de_catalog en \<noteq> None then [''catalog'', ''lyrics'', ''autoplay''] else [])\<rparr>"

section \<open>Requests to the catalog\<close>

definition reply_error :: "error_code \<Rightarrow> string \<Rightarrow> reply" where
  "reply_error code message = ReplyErr \<lparr>pe_code = code, pe_message = message\<rparr>"

definition catalog_failure :: "catalog_error \<Rightarrow> reply" where
  "catalog_failure e = (case convert_catalog_error e of (code, message) \<Rightarrow> reply_error code message)"

definition no_catalog :: "string \<Rightarrow> reply" where
  "no_catalog what = reply_error ErrUnsupported (''this daemon has no TIDAL catalog to '' @ what)"

definition list_limit :: "nat option \<Rightarrow> nat \<Rightarrow> reply + nat" where
  "list_limit limit dflt =
     (let n = (case limit of Some n \<Rightarrow> n | None \<Rightarrow> dflt) in
      if n = 0 then Inl (reply_error ErrBadRequest ''the limit must be at least 1'')
      else if max_items_limit < n
      then Inl (reply_error ErrBadRequest (''the limit must be at most '' @ show_nat max_items_limit))
      else Inr n)"

text \<open>A request that is only made with a catalog and a proper limit.\<close>

definition with_catalog ::
    "'x catalog option \<Rightarrow> string \<Rightarrow> ('x catalog \<Rightarrow> 'x \<Rightarrow> reply \<times> 'x) \<Rightarrow> 'x \<Rightarrow> reply \<times> 'x" where
  "with_catalog cat what f x = (case cat of None \<Rightarrow> (no_catalog what, x) | Some c \<Rightarrow> f c x)"

definition with_limit :: "nat option \<Rightarrow> nat \<Rightarrow> (nat \<Rightarrow> 'x \<Rightarrow> reply \<times> 'x) \<Rightarrow> 'x \<Rightarrow> reply \<times> 'x" where
  "with_limit limit dflt f x = (case list_limit limit dflt of Inl r \<Rightarrow> (r, x) | Inr n \<Rightarrow> f n x)"

definition answered :: "('a \<Rightarrow> reply_payload) \<Rightarrow> (catalog_error + 'a) \<times> 'x \<Rightarrow> reply \<times> 'x" where
  "answered payload0 r =
     (case r of (Inl e, x) \<Rightarrow> (catalog_failure e, x) | (Inr a, x) \<Rightarrow> (ReplyOk (payload0 a), x))"

definition req_search ::
    "'x catalog option \<Rightarrow> string \<Rightarrow> catalog_kind list \<Rightarrow> nat \<Rightarrow> nat option \<Rightarrow> 'x \<Rightarrow> reply \<times> 'x" where
  "req_search cat query0 kinds offset limit x =
     (case cat of
        None \<Rightarrow> (no_catalog ''search'', x)
      | Some c \<Rightarrow>
          let query = trim query0;
              n = (case limit of Some n \<Rightarrow> n | None \<Rightarrow> default_search_limit);
              wanted = fold (\<lambda>k ws. case convert_kind k of
                                Some k \<Rightarrow> if k \<in> set ws then ws else ws @ [k]
                              | None \<Rightarrow> ws) kinds []
          in if query = [] then (reply_error ErrBadRequest ''there is nothing to search for'', x)
             else if n = 0 \<or> max_search_limit < n
             then (reply_error ErrBadRequest (''the limit must be between 1 and '' @ show_nat max_search_limit), x)
             else if kinds \<noteq> [] \<and> wanted = []
             then (reply_error ErrBadRequest ''this daemon knows none of those kinds'', x)
             else answered (\<lambda>found. PaySearchResults query
                      (map_option (convert_page convert_track_summary) (sr_tracks found))
                      (map_option (convert_page convert_album_summary) (sr_albums found))
                      (map_option (convert_page convert_artist_summary) (sr_artists found))
                      (map_option (convert_page convert_playlist_summary) (sr_playlists found)))
                    (cat_search c query wanted offset n x))"

definition req_lyrics ::
    "'x catalog option \<Rightarrow> string \<Rightarrow> lyrics_cache \<times> 'x \<Rightarrow> reply \<times> lyrics_cache \<times> 'x" where
  "req_lyrics cat i s =
     (case cat of
        None \<Rightarrow> (no_catalog ''show lyrics from'', s)
      | Some c \<Rightarrow>
          (case lyrics_get i (fst s) of
             Some cached \<Rightarrow> (ReplyOk (PayLyrics i cached), s)
           | None \<Rightarrow>
               (case cat_track_lyrics c i (snd s) of
                  (Inl e, x) \<Rightarrow> (catalog_failure e, fst s, x)
                | (Inr found, x) \<Rightarrow>
                    let dto = map_option convert_lyrics found
                    in (ReplyOk (PayLyrics i dto), lyrics_insert i dto (fst s), x))))"

definition req_set_favorite ::
    "'x catalog option \<Rightarrow> catalog_kind \<Rightarrow> string \<Rightarrow> bool \<Rightarrow> 'x \<Rightarrow> reply \<times> 'x" where
  "req_set_favorite cat kind i favorite =
     with_catalog cat ''change favorites in'' (\<lambda>c x.
       case convert_kind kind of
         None \<Rightarrow> (reply_error ErrBadRequest ''unknown kind'', x)
       | Some k \<Rightarrow> answered (\<lambda>_. PayAck) (cat_set_favorite c k i favorite x))"

text \<open>Requests made at the same time are made one after the other here; the first failure is told.\<close>

definition req_album :: "'x catalog option \<Rightarrow> string \<Rightarrow> nat option \<Rightarrow> 'x \<Rightarrow> reply \<times> 'x" where
  "req_album cat i limit =
     with_catalog cat ''show albums from'' (\<lambda>c. with_limit limit max_items_limit (\<lambda>n x.
       let (album, x) = cat_album_of c i x;
           (tracks, x) = cat_album_tracks c i 0 n x
       in (case (album, tracks) of
             (Inr a, Inr ts) \<Rightarrow>
               ReplyOk (PayAlbum (convert_album_summary a) (convert_page convert_track_summary ts))
           | (Inl e, _) \<Rightarrow> catalog_failure e
           | (Inr _, Inl e) \<Rightarrow> catalog_failure e, x)))"

definition req_artist :: "'x catalog option \<Rightarrow> string \<Rightarrow> nat option \<Rightarrow> 'x \<Rightarrow> reply \<times> 'x" where
  "req_artist cat i limit =
     with_catalog cat ''show artists from'' (\<lambda>c. with_limit limit default_search_limit (\<lambda>n x.
       let (artist, x) = cat_artist_of c i x;
           (bio, x) = cat_artist_bio c i x;
           (tops, x) = cat_artist_top_tracks c i 0 n x;
           (albums, x) = cat_artist_albums c i OnlyAlbums 0 n x;
           (singles, x) = cat_artist_albums c i EpsAndSingles 0 n x;
           (similar, x) = cat_similar_artists c i n x
       in (case artist of
             Inl e \<Rightarrow> catalog_failure e
           | Inr a \<Rightarrow>
               (case tops of
                  Inl e \<Rightarrow> catalog_failure e
                | Inr best \<Rightarrow>
                    (case albums of
                       Inl e \<Rightarrow> catalog_failure e
                     | Inr albums \<Rightarrow>
                         (case singles of
                            Inl e \<Rightarrow> catalog_failure e
                          | Inr singles \<Rightarrow>
                              ReplyOk (PayArtist (convert_artist_summary a)
                                (case bio of Inr b \<Rightarrow> b | Inl _ \<Rightarrow> None)
                                (convert_page convert_track_summary best)
                                (convert_page convert_album_summary albums)
                                (convert_page convert_album_summary singles)
                                (case similar of
                                   Inr p \<Rightarrow> Some (convert_page convert_artist_summary p)
                                 | Inl _ \<Rightarrow> None))))), x)))"

definition track_page :: "'x catalog \<Rightarrow> catalog_ref \<Rightarrow> nat \<Rightarrow> nat \<Rightarrow> reply + (cat_track cat_page, 'x) cat_answer" where
  "track_page c from0 offset limit =
     (case from0 of
        RefAlbum i \<Rightarrow> Inr (cat_album_tracks c i offset limit)
      | RefPlaylist i \<Rightarrow> Inr (cat_playlist_tracks c i offset limit)
      | RefArtistTopTracks i \<Rightarrow> Inr (cat_artist_top_tracks c i offset limit)
      | RefFavoriteTracks \<Rightarrow> Inr (cat_favorite_tracks c offset limit)
      | RefTrackRadio i \<Rightarrow> Inr (cat_track_radio c i offset limit)
      | RefUnknown \<Rightarrow> Inl (reply_error ErrBadRequest ''this daemon does not know how to list that''))"

definition req_tracks :: "'x catalog option \<Rightarrow> catalog_ref \<Rightarrow> nat \<Rightarrow> nat option \<Rightarrow> 'x \<Rightarrow> reply \<times> 'x" where
  "req_tracks cat from0 offset limit =
     with_catalog cat ''list tracks from'' (\<lambda>c. with_limit limit default_search_limit (\<lambda>n x.
       case track_page c from0 offset n of
         Inl r \<Rightarrow> (r, x)
       | Inr ask \<Rightarrow> answered (\<lambda>p. PayTracks from0 (convert_page convert_track_summary p)) (ask x)))"

definition req_albums :: "'x catalog option \<Rightarrow> album_list_ref \<Rightarrow> nat \<Rightarrow> nat option \<Rightarrow> 'x \<Rightarrow> reply \<times> 'x" where
  "req_albums cat from0 offset limit =
     with_catalog cat ''list albums from'' (\<lambda>c. with_limit limit default_search_limit (\<lambda>n x.
       let answer = answered (\<lambda>p. PayAlbums from0 (convert_page convert_album_summary p)) in
       case from0 of
         ListArtistAlbums i \<Rightarrow> answer (cat_artist_albums c i OnlyAlbums offset n x)
       | ListArtistSingles i \<Rightarrow> answer (cat_artist_albums c i EpsAndSingles offset n x)
       | ListFavoriteAlbums \<Rightarrow> answer (cat_favorite_albums c offset n x)
       | ListRecommendedAlbums \<Rightarrow> answer (cat_recommended_albums c offset n x)
       | ListAlbumsUnknown \<Rightarrow> (reply_error ErrBadRequest ''this daemon does not know that list of albums'', x)))"

definition req_artists :: "'x catalog option \<Rightarrow> artist_list_ref \<Rightarrow> nat \<Rightarrow> nat option \<Rightarrow> 'x \<Rightarrow> reply \<times> 'x" where
  "req_artists cat from0 offset limit =
     with_catalog cat ''list artists from'' (\<lambda>c. with_limit limit default_search_limit (\<lambda>n x.
       case from0 of
         ListFavoriteArtists \<Rightarrow>
           answered (\<lambda>p. PayArtists from0 (convert_page convert_artist_summary p)) (cat_favorite_artists c offset n x)
       | ListArtistsUnknown \<Rightarrow>
           (reply_error ErrBadRequest ''this daemon does not know that list of artists'', x)))"

definition req_playlists :: "'x catalog option \<Rightarrow> playlist_list_ref \<Rightarrow> nat \<Rightarrow> nat option \<Rightarrow> 'x \<Rightarrow> reply \<times> 'x" where
  "req_playlists cat from0 offset limit =
     with_catalog cat ''list playlists from'' (\<lambda>c. with_limit limit default_search_limit (\<lambda>n x.
       case from0 of
         ListMine \<Rightarrow>
           answered (\<lambda>p. PayPlaylists from0 (convert_page convert_playlist_summary p)) (cat_my_playlists c offset n x)
       | ListPlaylistsUnknown \<Rightarrow>
           (reply_error ErrBadRequest ''this daemon does not know that list of playlists'', x)))"

definition req_playlist_folder :: "'x catalog option \<Rightarrow> string option \<Rightarrow> nat \<Rightarrow> nat option \<Rightarrow> 'x \<Rightarrow> reply \<times> 'x" where
  "req_playlist_folder cat folder offset limit =
     with_catalog cat ''list a playlist folder from'' (\<lambda>c. with_limit limit default_search_limit (\<lambda>n x.
       answered (\<lambda>p. PayPlaylistFolder folder (convert_page convert_folder_entry p))
         (cat_playlist_folder c folder offset n x)))"

definition req_library :: "'x catalog option \<Rightarrow> nat option \<Rightarrow> 'x \<Rightarrow> reply \<times> 'x" where
  "req_library cat limit =
     with_catalog cat ''show a library from'' (\<lambda>c. with_limit limit default_search_limit (\<lambda>n x.
       let (tracks, x) = cat_favorite_tracks c 0 n x;
           (albums, x) = cat_favorite_albums c 0 n x;
           (playlists, x) = cat_my_playlists c 0 n x
       in (case tracks of
             Inl e \<Rightarrow> catalog_failure e
           | Inr ts \<Rightarrow>
               (case albums of
                  Inl e \<Rightarrow> catalog_failure e
                | Inr als \<Rightarrow>
                    (case playlists of
                       Inl e \<Rightarrow> catalog_failure e
                     | Inr ps \<Rightarrow>
                         ReplyOk (PayLibrary (convert_page convert_track_summary ts)
                           (convert_page convert_album_summary als)
                           (convert_page convert_playlist_summary ps)))), x)))"

end
