(* ===== verification/Daemon_Steps.thy ===== *)
theory Daemon_Steps
  imports Daemon
begin

text \<open>
  What changes the daemon (\<^verbatim>\<open>phoniad/src/daemon.rs\<close>): its answer to every request, and what it does about
  everything it hears of (\<^verbatim>\<open>fan_in\<close>).
\<close>

type_synonym ('g, 'e, 'f, 'w, 'x) acts = "('g, 'e, 'f, 'w, 'x) daemon \<Rightarrow> reply \<times> ('g, 'e, 'f, 'w, 'x) daemon"

section \<open>Outputs and volume\<close>

definition announce_output ::
    "('g, 'e, 'f, 'w, 'x) daemon_env \<Rightarrow> output_spec \<Rightarrow> 'f \<Rightarrow> entry list \<Rightarrow>
     ('g, 'e, 'f, 'w, 'x) daemon \<Rightarrow> ('g, 'e, 'f, 'w, 'x) daemon" where
  "announce_output en spec f entries d =
     (let (ou, w) = switched_to (de_factories en) spec entries f (dm_outputs d, dm_volumes d);
          d = d\<lparr>dm_outputs := ou, dm_volumes := w\<rparr>;
          d = publish (\<lambda>_. Ev_OutputChanged (daemon_route d)) d
      in case daemon_volume en d of
           Some v \<Rightarrow> publish (\<lambda>_. Ev_VolumeChanged (vo_percent v) (vo_muted v)) d
         | None \<Rightarrow> d)"

definition daemon_set_output ::
    "('g, 'e, 'f, 'w, 'x) daemon_env \<Rightarrow> entry list \<Rightarrow> string \<Rightarrow> ('g, 'e, 'f, 'w, 'x) acts" where
  "daemon_set_output en entries i d =
     (case outputs_prepare (de_factories en) i (dm_volumes d) of
        (Inl e, w) \<Rightarrow> (reply_error ErrBadRequest (show_error e), d\<lparr>dm_volumes := w\<rparr>)
      | (Inr (spec, f), w) \<Rightarrow>
          let (switched, engine) = de_set_output en f (ct_engine (dm_control d));
              d = d\<lparr>dm_volumes := w, dm_control := (dm_control d)\<lparr>ct_engine := engine\<rparr>\<rparr>;
              d = announce_output en spec f entries d
          in (case switched of
                Inr _ \<Rightarrow> (ReplyOk PayAck, d)
              | Inl e \<Rightarrow> (reply_error ErrInternal (show_error e), d)))"

text \<open>
  \<^verbatim>\<open>note_fallback_switch\<close>: the check, and what follows once the outputs have been listed. Nothing
  keeps a request out in between.
\<close>

definition fallback_switch_wanted ::
    "output_spec \<Rightarrow> ('g, 'e, 'f, 'w, 'x) daemon \<Rightarrow> 'f option" where
  "fallback_switch_wanted from0 d =
     (if ro_id (daemon_route d) \<noteq> output_id from0 then None else ou_factory (dm_outputs d))"

definition note_fallback_switch ::
    "('g, 'e, 'f, 'w, 'x) daemon_env \<Rightarrow> entry list \<Rightarrow> output_spec \<Rightarrow> output_spec \<Rightarrow>
     ('g, 'e, 'f, 'w, 'x) daemon \<Rightarrow> ('g, 'e, 'f, 'w, 'x) daemon" where
  "note_fallback_switch en entries from0 to d =
     (case fallback_switch_wanted from0 d of None \<Rightarrow> d | Some f \<Rightarrow> announce_output en to f entries d)"

definition change_volume ::
    "('g, 'e, 'f, 'w, 'x) daemon_env \<Rightarrow> (volume \<Rightarrow> volume) \<Rightarrow> ('g, 'e, 'f, 'w, 'x) acts" where
  "change_volume en change d =
     (case outputs_set_volume (de_factories en) change (dm_outputs d, dm_volumes d) of
        (Inr v, ou, w) \<Rightarrow>
          (ReplyOk PayAck,
           publish (\<lambda>_. Ev_VolumeChanged (vo_percent v) (vo_muted v)) (d\<lparr>dm_outputs := ou, dm_volumes := w\<rparr>))
      | (Inl VolumeUnsupported, ou, w) \<Rightarrow>
          (reply_error ErrUnsupported
             (''this output has no volume to set: it'' @ [CHR 0x27] @ ''s an exclusive card with no hardware mixer '' @
              ''control of its own. Use the DAC'' @ [CHR 0x27] @ ''s own knob, or switch to a shared output''),
           d\<lparr>dm_outputs := ou, dm_volumes := w\<rparr>)
      | (Inl (VolumeFailed why), ou, w) \<Rightarrow>
          (reply_error ErrInternal why, d\<lparr>dm_outputs := ou, dm_volumes := w\<rparr>))"

definition volume_changed_outside ::
    "volume \<Rightarrow> ('g, 'e, 'f, 'w, 'x) daemon \<Rightarrow> ('g, 'e, 'f, 'w, 'x) daemon" where
  "volume_changed_outside v d =
     publish (\<lambda>_. Ev_VolumeChanged (vo_percent v) (vo_muted v))
       (d\<lparr>dm_outputs := outputs_changed_outside v (dm_outputs d)\<rparr>)"

definition outputs_changed :: "('g, 'e, 'f, 'w, 'x) daemon \<Rightarrow> ('g, 'e, 'f, 'w, 'x) daemon" where
  "outputs_changed d = publish (\<lambda>_. Ev_OutputsChanged) d"

definition request_shutdown :: "('g, 'e, 'f, 'w, 'x) daemon \<Rightarrow> ('g, 'e, 'f, 'w, 'x) daemon" where
  "request_shutdown d = (publish (\<lambda>_. Ev_ShuttingDown) d)\<lparr>dm_stopping := True\<rparr>"

definition set_max_quality :: "ipc_quality \<Rightarrow> ('g, 'e, 'f, 'w, 'x) acts" where
  "set_max_quality q d =
     (case dm_quality d of
        None \<Rightarrow> (reply_error ErrUnsupported ''this daemon does not play from TIDAL'', d)
      | Some limits \<Rightarrow>
          (case core_quality q of
             None \<Rightarrow> (reply_error ErrBadRequest ''that quality is not known'', d)
           | Some tier \<Rightarrow>
               (case limits_set_max tier limits of
                  (Inr _, limits) \<Rightarrow>
                    (ReplyOk PayAck, publish (\<lambda>_. Ev_MaxQualityChanged q) (d\<lparr>dm_quality := Some limits\<rparr>))
                | (Inl e, _) \<Rightarrow> (reply_error ErrBadRequest (show_error e), d))))"

section \<open>Requests that change something\<close>

definition daemon_send ::
    "('g, 'e, 'f, 'w, 'x) daemon_env \<Rightarrow> command \<Rightarrow> ('g, 'e, 'f, 'w, 'x) acts" where
  "daemon_send en c d =
     (case control_send (de_handle en) c (dm_control d) of
        (Inr _, ctl) \<Rightarrow> (ReplyOk PayAck, d\<lparr>dm_control := ctl\<rparr>)
      | (Inl e, ctl) \<Rightarrow> (reply_error ErrEngineGone (show_error e), d\<lparr>dm_control := ctl\<rparr>))"

definition on_queue ::
    "('g queue \<Rightarrow> 'r \<times> 'g queue) \<Rightarrow> ('g, 'e, 'f, 'w, 'x) daemon \<Rightarrow> 'r \<times> ('g, 'e, 'f, 'w, 'x) daemon" where
  "on_queue f d =
     (let (r, qu) = f (ct_queue (dm_control d)) in (r, d\<lparr>dm_control := (dm_control d)\<lparr>ct_queue := qu\<rparr>\<rparr>))"

fun daemon_change :: "('g, 'e, 'f, 'w, 'x) daemon_env \<Rightarrow> request \<Rightarrow> ('g, 'e, 'f, 'w, 'x) acts" where
  "daemon_change en (ReqPlay None) d = daemon_send en (Play None) d"
| "daemon_change en (ReqPlay (Some i)) d =
     (case play_item (de_handle en) i (dm_control d) of
        (Inr _, ctl) \<Rightarrow> (ReplyOk PayAck, d\<lparr>dm_control := ctl\<rparr>)
      | (Inl e, ctl) \<Rightarrow> (reply_error ErrNotFound (show_error e), d\<lparr>dm_control := ctl\<rparr>))"
| "daemon_change en ReqStop d = daemon_send en Stop (d\<lparr>dm_auto := auto_cancel (dm_auto d)\<rparr>)"
| "daemon_change en ReqPause d = daemon_send en Pause d"
| "daemon_change en ReqResume d = daemon_send en Resume d"
| "daemon_change en ReqTogglePause d = daemon_send en TogglePause d"
| "daemon_change en ReqNext d = daemon_send en Next d"
| "daemon_change en ReqPrevious d = daemon_send en Previous d"
| "daemon_change en ReqRelease d = daemon_send en ReleaseCmd d"
| "daemon_change en (ReqSetVolume percent) d = change_volume en (\<lambda>v. v\<lparr>vo_percent := percent\<rparr>) d"
| "daemon_change en (ReqSetMute mute) d = change_volume en (\<lambda>v. v\<lparr>vo_muted := mute\<rparr>) d"
| "daemon_change en (ReqSetMaxQuality q) d = set_max_quality q d"
| "daemon_change en (ReqSeek t) d = daemon_send en (Seek (convert_seek_target t)) d"
| "daemon_change en (ReqQueueRemove ids) d =
     (case control_remove (de_handle en) ids (dm_control d) of
        (n, ctl) \<Rightarrow> (ReplyOk (PayRemoved n), d\<lparr>dm_control := ctl\<rparr>))"
| "daemon_change en (ReqQueueMove i to) d =
     (case on_queue (queue_move_to i to) d of
        (True, d) \<Rightarrow> (ReplyOk PayAck, d)
      | (False, d) \<Rightarrow> (reply_error ErrNotFound (''there is no queue entry '' @ show_nat i), d))"
| "daemon_change en ReqQueueClear d =
     (let d = d\<lparr>dm_auto := auto_cancel (dm_auto d)\<rparr>
      in (ReplyOk PayAck, d\<lparr>dm_control := control_clear (de_handle en) (dm_control d)\<rparr>))"
| "daemon_change en (ReqSetShuffle on) d =
     (ReplyOk PayAck, snd (on_queue (queue_set_shuffle (de_shuffler en) on) d))"
| "daemon_change en (ReqSetRepeat r) d = (ReplyOk PayAck, snd (on_queue (queue_set_repeat (repeat_from_wire r)) d))"
| "daemon_change en (ReqSetAutoplay on) d = (ReplyOk PayAck, snd (on_queue (queue_set_autoplay on) d))"
| "daemon_change en ReqShutdown d = (ReplyOk PayAck, request_shutdown d)"
| "daemon_change en other d =
     (reply_error ErrInternal (de_debug en other @ '' reached the wrong handler''), d)"

section \<open>Adding to the queue\<close>

definition add_to_queue ::
    "accepted list \<Rightarrow> rejected list \<Rightarrow> add_at \<Rightarrow> ('g, 'e, 'f, 'w, 'x) acts" where
  "add_to_queue accepted rejected at0 d =
     (let tracks = map accepted_track accepted;
          (ids, d) = on_queue (case at0 of
                         AddEnd \<Rightarrow> queue_add tracks
                       | AddNext \<Rightarrow> queue_play_next tracks
                       | AddIndex index \<Rightarrow> queue_insert index tracks) d;
          unresolved = List.map_filter (\<lambda>(i, a). map_option (\<lambda>why. \<lparr>un_id = i, un_reason = why\<rparr>) (ac_reason a))
                         (zip ids accepted)
      in (ReplyOk (PayAdded ids rejected unresolved), d))"

datatype add_outcome =
    Ready track_source source_info
  | Unresolved track_source string
  | Refused string string

definition add_outcome_of :: "(track_source \<Rightarrow> describe_error + source_info) \<Rightarrow> string \<Rightarrow> add_outcome" where
  "add_outcome_of describe text0 =
     (case source_parse text0 of
        Inl e \<Rightarrow> Refused text0 (show_error e)
      | Inr source \<Rightarrow>
          (case describe source of
             Inr info \<Rightarrow> Ready source info
           | Inl (DescribeInvalid reason) \<Rightarrow> Refused text0 reason
           | Inl (DescribeUnavailable reason) \<Rightarrow> Unresolved source reason))"

fun accepted_of :: "add_outcome \<Rightarrow> accepted option" where
  "accepted_of (Ready source info) =
     Some \<lparr>ac_source = source, ac_title = si_title info, ac_artist = si_artist info, ac_duration = si_duration info,
       ac_cover = si_cover info, ac_album_id = si_album_id info, ac_artist_id = si_artist_id info,
       ac_album = si_album info, ac_reason = None\<rparr>"
| "accepted_of (Unresolved source reason) =
     Some \<lparr>ac_source = source, ac_title = None, ac_artist = None, ac_duration = None, ac_cover = None,
       ac_album_id = None, ac_artist_id = None, ac_album = None, ac_reason = Some reason\<rparr>"
| "accepted_of (Refused source reason) = None"

fun rejected_of :: "add_outcome \<Rightarrow> rejected option" where
  "rejected_of (Refused source reason) = Some \<lparr>rj_source = source, rj_reason = reason\<rparr>"
| "rejected_of _ = None"

text \<open>\<open>de_describe\<close> is asked once for each track, by its place.\<close>

definition daemon_queue_add ::
    "('g, 'e, 'f, 'w, 'x) daemon_env \<Rightarrow> string list \<Rightarrow> add_at \<Rightarrow> ('g, 'e, 'f, 'w, 'x) acts" where
  "daemon_queue_add en tracks at0 d =
     (if max_add < length tracks
      then (reply_error ErrBadRequest (''at most '' @ show_nat max_add @ '' tracks can be added at once''), d)
      else
        let outcomes = map (\<lambda>(k, text0). add_outcome_of (de_describe en k) text0) (enumerate 0 tracks)
        in add_to_queue (List.map_filter accepted_of outcomes) (List.map_filter rejected_of outcomes) at0 d)"

text \<open>The pages of a listing, until an empty one or as many tracks as it says there are.\<close>

function list_tracks ::
    "'x catalog \<Rightarrow> catalog_ref \<Rightarrow> cat_track list \<Rightarrow> 'x \<Rightarrow> (reply + cat_track list) \<times> 'x" where
  "list_tracks c from0 tracks x =
     (case track_page c from0 (length tracks mod 2 ^ 32) max_items_limit of
        Inl r \<Rightarrow> (Inl r, x)
      | Inr ask \<Rightarrow>
          (case ask x of
             (Inl e, x) \<Rightarrow> (Inl (catalog_failure e), x)
           | (Inr p, x) \<Rightarrow>
               if max_add < cg_total p
               then (Inl (reply_error ErrBadRequest
                       (''that has '' @ show_nat (cg_total p) @ '' tracks and at most '' @ show_nat max_add @
                        '' can be added at once'')), x)
               else if cg_items p = [] \<or> cg_total p \<le> length (tracks @ cg_items p)
               then (Inr (tracks @ cg_items p), x)
               else list_tracks c from0 (tracks @ cg_items p) x))"
  by pat_completeness auto

termination
  by (relation "measure (\<lambda>(c, from0, tracks, x). max_add - length tracks)") (auto simp: neq_Nil_conv)

declare list_tracks.simps [simp del]

fun accepted_only :: "(string \<times> string) + accepted \<Rightarrow> accepted option" where
  "accepted_only (Inr a) = Some a"
| "accepted_only (Inl _) = None"

fun rejected_only :: "(string \<times> string) + accepted \<Rightarrow> rejected option" where
  "rejected_only (Inl (source, reason)) = Some \<lparr>rj_source = source, rj_reason = reason\<rparr>"
| "rejected_only (Inr _) = None"

definition daemon_queue_add_from ::
    "('g, 'e, 'f, 'w, 'x) daemon_env \<Rightarrow> catalog_ref \<Rightarrow> add_at \<Rightarrow> ('g, 'e, 'f, 'w, 'x) acts" where
  "daemon_queue_add_from en from0 at0 d =
     (case de_catalog en of
        None \<Rightarrow> (no_catalog ''add from'', d)
      | Some c \<Rightarrow>
          (case list_tracks c from0 [] (dm_tidal d) of
             (Inl r, x) \<Rightarrow> (r, d\<lparr>dm_tidal := x\<rparr>)
           | (Inr tracks, x) \<Rightarrow>
               let entries = map accepted_from_catalog tracks
               in add_to_queue (List.map_filter accepted_only entries) (List.map_filter rejected_only entries) at0
                    (d\<lparr>dm_tidal := x\<rparr>)))"

section \<open>Every request\<close>

definition on_tidal :: "('x \<Rightarrow> reply \<times> 'x) \<Rightarrow> ('g, 'e, 'f, 'w, 'x) acts" where
  "on_tidal f d = (case f (dm_tidal d) of (r, x) \<Rightarrow> (r, d\<lparr>dm_tidal := x\<rparr>))"

fun daemon_handle ::
    "('g, 'e, 'f, 'w, 'x) daemon_env \<Rightarrow> entry list \<Rightarrow> request \<Rightarrow> ('g, 'e, 'f, 'w, 'x) acts" where
  "daemon_handle en entries ReqStatus d = (ReplyOk (PayStatus (fst (daemon_state en d))), d)"
| "daemon_handle en entries ReqQueue d = (ReplyOk (PayQueue (snd (daemon_state en d))), d)"
| "daemon_handle en entries (ReqQueueAdd tracks at0) d = daemon_queue_add en tracks at0 d"
| "daemon_handle en entries (ReqQueueAddFrom from0 at0) d = daemon_queue_add_from en from0 at0 d"
| "daemon_handle en entries (ReqAlbum i limit) d = on_tidal (req_album (de_catalog en) i limit) d"
| "daemon_handle en entries (ReqArtist i limit) d = on_tidal (req_artist (de_catalog en) i limit) d"
| "daemon_handle en entries (ReqTracks from0 offset limit) d = on_tidal (req_tracks (de_catalog en) from0 offset limit) d"
| "daemon_handle en entries (ReqAlbums from0 offset limit) d = on_tidal (req_albums (de_catalog en) from0 offset limit) d"
| "daemon_handle en entries (ReqArtists from0 offset limit) d = on_tidal (req_artists (de_catalog en) from0 offset limit) d"
| "daemon_handle en entries (ReqPlaylists from0 offset limit) d =
     on_tidal (req_playlists (de_catalog en) from0 offset limit) d"
| "daemon_handle en entries (ReqLibrary limit) d = on_tidal (req_library (de_catalog en) limit) d"
| "daemon_handle en entries (ReqSetFavorite kind i favorite) d =
     on_tidal (req_set_favorite (de_catalog en) kind i favorite) d"
| "daemon_handle en entries ReqRecentlyPlayed d =
     (ReplyOk (PayRecentlyPlayed (map convert_played (tk_recent (dm_recent d)))), d)"
| "daemon_handle en entries (ReqPlaylistFolder folder offset limit) d =
     on_tidal (req_playlist_folder (de_catalog en) folder offset limit) d"
| "daemon_handle en entries (ReqLyrics i) d =
     (case req_lyrics (de_catalog en) i (dm_lyrics d, dm_tidal d) of
        (r, cache, x) \<Rightarrow> (r, d\<lparr>dm_lyrics := cache, dm_tidal := x\<rparr>))"
| "daemon_handle en entries (ReqSearch query kinds offset limit) d =
     on_tidal (req_search (de_catalog en) query kinds offset limit) d"
| "daemon_handle en entries ReqOutputs d =
     (ReplyOk (PayOutputs (map convert_output_info entries) (Some (ro_id (daemon_route d)))), d)"
| "daemon_handle en entries (ReqSetOutput i) d = daemon_set_output en entries i d"
| "daemon_handle en entries (ReqHello p c) d =
     (reply_error ErrBadRequest ''this request is handled by the connection'', d)"
| "daemon_handle en entries ReqSubscribe d =
     (reply_error ErrBadRequest ''this request is handled by the connection'', d)"
| "daemon_handle en entries ReqUnsubscribe d =
     (reply_error ErrBadRequest ''this request is handled by the connection'', d)"
| "daemon_handle en entries ReqUnknown d =
     (reply_error ErrUnknownRequest ''this daemon does not know that request'', d)"
| "daemon_handle en entries mutating d = daemon_change en mutating d"

end
