(* ===== verification/Daemon_Events.thy ===== *)
theory Daemon_Events
  imports Daemon_Steps
begin

text \<open>
  Everything the daemon hears of, in one place (\<^verbatim>\<open>fan_in\<close> of \<^verbatim>\<open>phoniad/src/daemon.rs\<close>), and the daemon
  as a sequence of steps: requests, what is heard of, and the tasks it started itself.
\<close>

section \<open>Plays\<close>

definition resolve_tidal_track :: "track_meta \<Rightarrow> queue_snapshot \<Rightarrow> string option \<times> quality option" where
  "resolve_tidal_track m q =
     ((case snd (entry_of (tm_track m) q) of
         None \<Rightarrow> None
       | Some source \<Rightarrow>
           (case source_parse source of Inr (SourceTidal i) \<Rightarrow> Some i | _ \<Rightarrow> None)),
      map_option delivered_quality (tm_quality m))"

text \<open>\<open>fresh\<close> is the identifier of a new session, \<open>now\<close> the time in milliseconds.\<close>

fun hear_play ::
    "int \<Rightarrow> string \<Rightarrow> queue_snapshot \<Rightarrow> event \<Rightarrow> session_tracker \<Rightarrow> playback_session option \<times> session_tracker" where
  "hear_play now fresh q (TrackStarted m format gapless) t =
     (let (product, quality0) = resolve_tidal_track m q in log_started fresh product quality0 None now t)"
| "hear_play now fresh q (PositionAt p len) t = (None, log_position p t)"
| "hear_play now fresh q (Seeked p) t = (None, log_seeked p now t)"
| "hear_play now fresh q (StateChanged Paused) t = (None, log_paused now t)"
| "hear_play now fresh q (StateChanged Playing) t = (None, log_resumed now t)"
| "hear_play now fresh q (TrackEnded m reason) t = log_ended reason (tm_duration m) now t"
| "hear_play now fresh q _ t = (None, t)"

definition note_play_log ::
    "int \<Rightarrow> string \<Rightarrow> event \<Rightarrow> queue_snapshot \<Rightarrow> ('g, 'e, 'f, 'w, 'x) daemon \<Rightarrow> ('g, 'e, 'f, 'w, 'x) daemon" where
  "note_play_log now fresh ev q d =
     (case dm_play_log d of
        None \<Rightarrow> d
      | Some t \<Rightarrow>
          let (finished, t) = hear_play now fresh q ev t;
              d = d\<lparr>dm_play_log := Some t\<rparr>
          in (case finished of Some s \<Rightarrow> d\<lparr>dm_reports := s # dm_reports d\<rparr> | None \<Rightarrow> d))"

fun hear_recent :: "nat \<Rightarrow> queue_snapshot \<Rightarrow> event \<Rightarrow> tracker \<Rightarrow> bool \<times> tracker" where
  "hear_recent now q (TrackStarted m format gapless) t =
     (let (_, source) = entry_of (tm_track m) q;
          (artist_id, album_id, album) = artist_and_album_id (tm_track m) q
      in (False,
          tracker_started
            (map_option (\<lambda>s.
               \<lparr>pt_source = s, pt_title = tm_title m, pt_artist = tm_artist m,
                pt_duration_ms = map_option convert_ms (tm_duration m), pt_cover = tm_cover m,
                pt_played_at_ms = now, pt_artist_id = artist_id, pt_album_id = album_id, pt_album = album\<rparr>) source) t))"
| "hear_recent now q (PositionAt p len) t = tracker_position (convert_ms p) t"
| "hear_recent now q (TrackEnded m reason) t = tracker_ended reason t"
| "hear_recent now q _ t = (False, t)"

text \<open>Without a place to keep the log it is not saved.\<close>

definition note_recently_played ::
    "bool \<Rightarrow> int \<Rightarrow> event \<Rightarrow> queue_snapshot \<Rightarrow> ('g, 'e, 'f, 'w, 'x) daemon \<Rightarrow> ('g, 'e, 'f, 'w, 'x) daemon" where
  "note_recently_played saves now ev q d =
     (let (changed, t) = hear_recent (nat (max now 0)) q ev (dm_recent d);
          d = d\<lparr>dm_recent := t\<rparr>
      in if changed
         then let d = publish (\<lambda>_. Ev_RecentlyPlayedChanged (map convert_played (tk_recent t))) d
              in if saves then d\<lparr>dm_saved := tk_recent t # dm_saved d\<rparr> else d
         else d)"

section \<open>Autoplay\<close>

definition daemon_consider ::
    "('g, 'e, 'f, 'w, 'x) daemon_env \<Rightarrow> ('g, 'e, 'f, 'w, 'x) daemon \<Rightarrow> ('g, 'e, 'f, 'w, 'x) daemon" where
  "daemon_consider en d =
     (case consider_autoplay (de_handle en) (de_catalog en \<noteq> None) (dm_control d) (dm_auto d) of
        (None, a) \<Rightarrow> d\<lparr>dm_auto := a\<rparr>
      | (Some f, a) \<Rightarrow> d\<lparr>dm_auto := a, dm_fetches := dm_fetches d @ [f]\<rparr>)"

definition daemon_radio ::
    "('g, 'e, 'f, 'w, 'x) daemon_env \<Rightarrow> nat \<Rightarrow> radio_answer \<Rightarrow> ('g, 'e, 'f, 'w, 'x) daemon \<Rightarrow>
     ('g, 'e, 'f, 'w, 'x) daemon" where
  "daemon_radio en k fetched d =
     (if length (dm_fetches d) \<le> k then d
      else case run_autoplay (de_handle en) (dm_fetches d ! k) fetched (dm_control d, dm_auto d) of
             (ctl, a) \<Rightarrow> d\<lparr>dm_control := ctl, dm_auto := a, dm_fetches := remove_at k (dm_fetches d)\<rparr>)"

section \<open>What is heard of\<close>

fun forgets_report :: "event \<Rightarrow> bool" where
  "forgets_report (OutputReleased by0 reason) = True"
| "forgets_report (StateChanged new) = (new = Stopped)"
| "forgets_report _ = False"

fun after_event ::
    "('g, 'e, 'f, 'w, 'x) daemon_env \<Rightarrow> queue_snapshot \<Rightarrow> event \<Rightarrow> ('g, 'e, 'f, 'w, 'x) daemon \<Rightarrow>
     ('g, 'e, 'f, 'w, 'x) daemon" where
  "after_event en q (TrackStarted m format gapless) d =
     daemon_consider en (d\<lparr>dm_auto := note_started (fst (resolve_tidal_track m q)) (dm_auto d)\<rparr>)"
| "after_event en q QueueExhausted d = d\<lparr>dm_auto := auto_queue_exhausted (snap_current q) (dm_auto d)\<rparr>"
| "after_event en q (OutputReleased by0 Lost) d =
     (case fallback_for_lost (dm_outputs d) of
        Some i \<Rightarrow> d\<lparr>dm_fallbacks := dm_fallbacks d @ [i]\<rparr> | None \<Rightarrow> d)"
| "after_event en q _ d = d"

datatype fan =
    FanEvent event
  | FanLagged nat
  | FanQueue
  | FanReport string sink_report
  | FanSwitch output_spec output_spec

text \<open>The clock, a fresh identifier, whether recent tracks are saved, and the outputs there are.\<close>

record moment =
  mo_now :: int
  mo_fresh :: string
  mo_saves :: bool
  mo_entries :: "entry list"

fun fan_in ::
    "('g, 'e, 'f, 'w, 'x) daemon_env \<Rightarrow> moment \<Rightarrow> fan \<Rightarrow> ('g, 'e, 'f, 'w, 'x) daemon \<Rightarrow>
     ('g, 'e, 'f, 'w, 'x) daemon" where
  "fan_in en mo (FanEvent ev) d =
     (let d = (if forgets_report ev then d\<lparr>dm_last_report := None\<rparr> else d);
          q = control_snapshot (dm_control d);
          d = note_play_log (mo_now mo) (mo_fresh mo) ev q d;
          d = note_recently_played (mo_saves mo) (mo_now mo) ev q d;
          d = publish (\<lambda>_. convert_event q ev) d
      in after_event en q ev d)"
| "fan_in en mo (FanLagged skipped) d =
     publish (\<lambda>n. case daemon_state en d of (st, q) \<Rightarrow> Ev_Resync skipped n st q) d"
| "fan_in en mo FanQueue d =
     daemon_consider en (publish (\<lambda>_. Ev_QueueChanged (queue_dto (qu_published (ct_queue (dm_control d))))) d)"
| "fan_in en mo (FanReport output report) d =
     (let dto = convert_sink_report report output
      in publish (\<lambda>_. Ev_SinkReport dto) (d\<lparr>dm_last_report := Some dto\<rparr>))"
| "fan_in en mo (FanSwitch from0 to) d = note_fallback_switch en (mo_entries mo) from0 to d"

section \<open>The daemon as a sequence of steps\<close>

text \<open>
  \<open>World\<close> is what happens elsewhere: the engine goes on, takes entries from the queue, a volume is
  changed on a card.
\<close>

datatype ('g, 'e, 'w) daemon_act =
    Request "entry list" request
  | Heard moment fan
  | Radio nat radio_answer
  | FallBack "entry list" nat
  | VolumeOutside volume
  | OutputsChanged
  | World "('g, 'e) controller \<Rightarrow> ('g, 'e) controller" "'w \<Rightarrow> 'w"

fun daemon_step ::
    "('g, 'e, 'f, 'w, 'x) daemon_env \<Rightarrow> ('g, 'e, 'w) daemon_act \<Rightarrow> ('g, 'e, 'f, 'w, 'x) daemon \<Rightarrow>
     ('g, 'e, 'f, 'w, 'x) daemon" where
  "daemon_step en (Request entries req) d = snd (daemon_handle en entries req d)"
| "daemon_step en (Heard mo f) d = fan_in en mo f d"
| "daemon_step en (Radio k fetched) d = daemon_radio en k fetched d"
| "daemon_step en (FallBack entries k) d =
     (if length (dm_fallbacks d) \<le> k then d
      else snd (daemon_set_output en entries (dm_fallbacks d ! k)
                 (d\<lparr>dm_fallbacks := remove_at k (dm_fallbacks d)\<rparr>)))"
| "daemon_step en (VolumeOutside v) d = volume_changed_outside v d"
| "daemon_step en OutputsChanged d = outputs_changed d"
| "daemon_step en (World f g) d = d\<lparr>dm_control := f (dm_control d), dm_volumes := g (dm_volumes d)\<rparr>"

definition daemon_run ::
    "('g, 'e, 'f, 'w, 'x) daemon_env \<Rightarrow> ('g, 'e, 'w) daemon_act list \<Rightarrow> ('g, 'e, 'f, 'w, 'x) daemon \<Rightarrow>
     ('g, 'e, 'f, 'w, 'x) daemon" where
  "daemon_run en steps d = fold (daemon_step en) steps d"

definition daemon_started ::
    "('g, 'e) controller \<Rightarrow> 'f outputs \<Rightarrow> 'w \<Rightarrow> 'x \<Rightarrow> quality_limits option \<Rightarrow> bool \<Rightarrow> recently_played \<Rightarrow>
     ('g, 'e, 'f, 'w, 'x) daemon" where
  "daemon_started ctl ou w x limits reports recent =
     \<lparr>dm_control = ctl, dm_outputs = ou, dm_volumes = w, dm_tidal = x, dm_quality = limits,
      dm_play_log = (if reports then Some None else None), dm_reports = [], dm_seq = 0, dm_events = [],
      dm_stopping = False, dm_last_report = None, dm_lyrics = lyrics_cache_new, dm_auto = auto_new,
      dm_fetches = [], dm_fallbacks = [], dm_recent = tracker_seeded recent, dm_saved = []\<rparr>"

text \<open>\<^verbatim>\<open>Daemon::start\<close>: the queue is set up, and the first output attached.\<close>

definition daemon_start ::
    "('g, 'e, 'f, 'w, 'x) daemon_env \<Rightarrow> gain_mode \<Rightarrow> bool \<Rightarrow> 'f \<Rightarrow> bool \<Rightarrow> recently_played \<Rightarrow>
     quality_limits option \<Rightarrow> 'g queue \<Rightarrow> 'e \<Rightarrow> 'f outputs \<Rightarrow> 'w \<Rightarrow> 'x \<Rightarrow> ('g, 'e, 'f, 'w, 'x) daemon" where
  "daemon_start en gain autoplay0 first_sinks reports recent limits qu engine ou w x =
     (let qu = snd (queue_set_replay_gain gain qu);
          qu = snd (queue_set_autoplay autoplay0 qu);
          (ou, w) = outputs_attach (de_factories en) first_sinks False (on_volume_change ou, w)
      in daemon_started \<lparr>ct_engine = engine, ct_queue = qu\<rparr> ou w x limits reports recent)"

end
