(* ===== verification/Daemon_Props.thy ===== *)
theory Daemon_Props
  imports Daemon_Events
begin

text \<open>
  Properties of the daemon. What every step keeps is shown once, for any invariant that publishing an
  event, remembering lyrics and changing any other field keep.
\<close>

section \<open>What every step keeps\<close>

locale daemon_invariant =
  fixes I :: "('g, 'e, 'f, 'w, 'x) daemon \<Rightarrow> bool"
  assumes published [simp]: "I d \<Longrightarrow> I (publish mk d)"
    and remembered [simp]: "I d \<Longrightarrow> I (d\<lparr>dm_lyrics := lyrics_insert i found (dm_lyrics d)\<rparr>)"
    and same_lyrics [simp]: "I d \<Longrightarrow> I (d\<lparr>dm_lyrics := dm_lyrics d\<rparr>)"
    and fields [simp]:
      "I d \<Longrightarrow> I (d\<lparr>dm_control := a1\<rparr>)" "I d \<Longrightarrow> I (d\<lparr>dm_outputs := a2\<rparr>)"
      "I d \<Longrightarrow> I (d\<lparr>dm_volumes := a3\<rparr>)" "I d \<Longrightarrow> I (d\<lparr>dm_tidal := a4\<rparr>)"
      "I d \<Longrightarrow> I (d\<lparr>dm_quality := a5\<rparr>)" "I d \<Longrightarrow> I (d\<lparr>dm_play_log := a6\<rparr>)"
      "I d \<Longrightarrow> I (d\<lparr>dm_reports := a7\<rparr>)" "I d \<Longrightarrow> I (d\<lparr>dm_stopping := a8\<rparr>)"
      "I d \<Longrightarrow> I (d\<lparr>dm_last_report := a9\<rparr>)" "I d \<Longrightarrow> I (d\<lparr>dm_auto := b2\<rparr>)"
      "I d \<Longrightarrow> I (d\<lparr>dm_fetches := b3\<rparr>)" "I d \<Longrightarrow> I (d\<lparr>dm_fallbacks := b4\<rparr>)"
      "I d \<Longrightarrow> I (d\<lparr>dm_recent := b5\<rparr>)" "I d \<Longrightarrow> I (d\<lparr>dm_saved := b6\<rparr>)"
begin

lemma announce [simp]: "I d \<Longrightarrow> I (announce_output en spec f entries d)"
  by (auto simp: announce_output_def Let_def split: prod.split option.split)

lemma set_output [simp]: "I d \<Longrightarrow> I (snd (daemon_set_output en entries i d))"
  by (auto simp: daemon_set_output_def Let_def split: prod.split sum.split)

lemma send [simp]: "I d \<Longrightarrow> I (snd (daemon_send en c d))"
  by (auto simp: daemon_send_def split: prod.split sum.split)

lemma volume [simp]: "I d \<Longrightarrow> I (snd (change_volume en change d))"
  by (auto simp: change_volume_def split: prod.split sum.split volume_error.split)

lemma quality [simp]: "I d \<Longrightarrow> I (snd (set_max_quality q d))"
  by (auto simp: set_max_quality_def split: prod.split sum.split option.split)

lemma queue [simp]: "I d \<Longrightarrow> I (snd (on_queue f d))"
  by (auto simp: on_queue_def split: prod.split)

lemma add [simp]: "I d \<Longrightarrow> I (snd (add_to_queue acc rej at0 d))"
  using queue [of d] by (auto simp: add_to_queue_def Let_def split_def)

lemma move [simp]: "I d \<Longrightarrow> I (snd (daemon_change en (ReqQueueMove i to) d))"
  using queue [of d "queue_move_to i to"]
  by (cases "on_queue (queue_move_to i to) d") (auto split: bool.split)

lemma shutdown [simp]: "I d \<Longrightarrow> I (request_shutdown d)"
  by (simp add: request_shutdown_def)

lemma change [simp]: "I d \<Longrightarrow> I (snd (daemon_change en req d))"
proof (cases "\<exists>i to. req = ReqQueueMove i to")
  case True
  then show "I d \<Longrightarrow> I (snd (daemon_change en req d))" using move by blast
next
  case False
  then show "I d \<Longrightarrow> I (snd (daemon_change en req d))"
    by (cases "(en, req, d)" rule: daemon_change.cases) (auto simp: Let_def split: prod.split sum.split)
qed

lemma tidal [simp]: "I d \<Longrightarrow> I (snd (on_tidal f d))"
  by (simp add: on_tidal_def split: prod.split)

lemma lyrics [simp]: "I d \<Longrightarrow> I (snd (daemon_handle en entries (ReqLyrics i) d))"
  by (auto simp: req_lyrics_def Let_def split: prod.split option.split sum.split)

lemma handled [simp]: "I d \<Longrightarrow> I (snd (daemon_handle en entries req d))"
proof (cases "\<exists>i. req = ReqLyrics i")
  case True
  then show "I d \<Longrightarrow> I (snd (daemon_handle en entries req d))" using lyrics by blast
next
  case False
  then show "I d \<Longrightarrow> I (snd (daemon_handle en entries req d))"
    by (cases "(en, entries, req, d)" rule: daemon_handle.cases)
      (auto simp: daemon_queue_add_def daemon_queue_add_from_def Let_def simp del: daemon_change.simps
        split: prod.split sum.split option.split)
qed

lemma considered [simp]: "I d \<Longrightarrow> I (daemon_consider en d)"
  by (auto simp: daemon_consider_def split: prod.split option.split)

lemma heard [simp]: "I d \<Longrightarrow> I (fan_in en mo f d)"
proof (cases f)
  case (FanEvent ev)
  have log0: "I d \<Longrightarrow> I (note_play_log now fresh ev q d)" for d now fresh q
    by (auto simp: note_play_log_def Let_def split: prod.split option.split)
  have recent: "I d \<Longrightarrow> I (note_recently_played saves now ev q d)" for d now saves q
    by (auto simp: note_recently_played_def Let_def split: prod.split)
  have after: "I d \<Longrightarrow> I (after_event en q ev d)" for d q
    by (cases "(en, q, ev, d)" rule: after_event.cases) (auto split: option.split)
  show "I d \<Longrightarrow> I (fan_in en mo f d)"
    unfolding FanEvent by (simp add: Let_def log0 recent after)
qed (auto simp: note_fallback_switch_def Let_def split: option.split)

lemma step_keeps [simp]: "I d \<Longrightarrow> I (daemon_step en a d)"
  by (cases a) (auto simp: daemon_radio_def volume_changed_outside_def outputs_changed_def
      simp del: daemon_handle.simps fan_in.simps split: prod.split)

lemma run_keeps: "I d \<Longrightarrow> I (daemon_run en acts0 d)"
  by (induction acts0 arbitrary: d) (simp_all add: daemon_run_def del: daemon_step.simps)

end

section \<open>The numbers of events\<close>

definition numbered :: "('g, 'e, 'f, 'w, 'x) daemon \<Rightarrow> bool" where
  "numbered d \<longleftrightarrow> map fst (dm_events d) = rev [1..<Suc (dm_seq d)]"

interpretation events_numbered: daemon_invariant numbered
  by unfold_locales (simp_all add: numbered_def publish_def Let_def)

section \<open>The lyrics that are kept\<close>

definition lyrics_ok :: "lyrics_cache \<Rightarrow> bool" where
  "lyrics_ok c \<longleftrightarrow>
     distinct (lc_order c) \<and> distinct (map fst (lc_entries c)) \<and>
     set (lc_order c) = fst ` set (lc_entries c) \<and> length (lc_order c) \<le> lyrics_cache_capacity"

lemma lyrics_insert_ok:
  assumes "lyrics_ok c"
  shows "lyrics_ok (lyrics_insert i found c)"
proof (cases "map_of (lc_entries c) i")
  case (Some old)
  then have "i \<in> fst ` set (lc_entries c)" by (metis map_of_SomeD fst_conv image_eqI)
  then show ?thesis
    using assms Some distinct_update [of "lc_entries c" i found]
    by (simp add: lyrics_insert_def lyrics_ok_def dom_update Let_def insert_absorb)
next
  case None
  then have new: "i \<notin> set (lc_order c)"
    using assms by (auto simp: lyrics_ok_def map_of_eq_None_iff)
  show ?thesis
  proof (cases "lc_order c")
    case Nil
    then show ?thesis
      using assms None by (auto simp: lyrics_insert_def lyrics_ok_def lyrics_cache_capacity_def dom_update Let_def)
  next
    case (Cons oldest rest)
    let ?es = "AList.delete oldest (lc_entries c)"
    have keys: "map fst ?es = removeAll oldest (map fst (lc_entries c))" by (rule AList.delete_keys)
    have "distinct (map fst ?es)"
      unfolding keys using assms by (simp add: lyrics_ok_def distinct_removeAll)
    moreover have "set (map fst ?es) = set (map fst (lc_entries c)) - {oldest}"
      unfolding keys by (rule set_removeAll)
    ultimately have es: "distinct (map fst ?es)" "fst ` set ?es = fst ` set (lc_entries c) - {oldest}"
      by (simp_all only: set_map)
    have order0: "oldest \<notin> set rest" "distinct rest" "fst ` set (lc_entries c) = insert oldest (set rest)"
      "length rest < lyrics_cache_capacity"
      using assms Cons by (auto simp: lyrics_ok_def)
    show ?thesis
      using assms None new Cons es order0 distinct_update [OF es(1), of i found]
        distinct_update [of "lc_entries c" i found]
      by (auto simp: lyrics_insert_def lyrics_ok_def dom_update Let_def)
  qed
qed

lemma lyrics_insert_get [simp]: "lyrics_get i (lyrics_insert i found c) = Some found"
  by (simp add: lyrics_get_def lyrics_insert_def Let_def update_conv' split: list.split)

definition remembers_ok :: "('g, 'e, 'f, 'w, 'x) daemon \<Rightarrow> bool" where
  "remembers_ok d \<longleftrightarrow> lyrics_ok (dm_lyrics d)"

interpretation lyrics_kept: daemon_invariant remembers_ok
  by unfold_locales (simp_all add: remembers_ok_def publish_def Let_def lyrics_insert_ok)

section \<open>Requests that are refused\<close>

lemma queue_unmoved: "queue_move_to i to qu = (False, qu') \<Longrightarrow> qu' = qu"
  by (auto simp: queue_move_to_def mutate_def q_move_to_def Let_def split: option.splits if_splits prod.splits)

lemma outputs_prepare_refused: "outputs_prepare fs i w = (Inl e, w') \<Longrightarrow> w' = w"
  by (auto simp: outputs_prepare_def split: sum.splits prod.splits)

lemma set_volume_unsupported: "outputs_set_volume fs change s = (Inl VolumeUnsupported, s') \<Longrightarrow> s' = s"
  by (auto simp: outputs_set_volume_def Let_def split: option.splits prod.splits)

lemma add_to_queue_ok: "fst (add_to_queue acc rej at0 d) \<noteq> ReplyErr e"
  by (simp add: add_to_queue_def Let_def split: prod.split)

lemma on_tidal_only: "snd (on_tidal f d) = d\<lparr>dm_tidal := dm_tidal (snd (on_tidal f d))\<rparr>"
  by (simp add: on_tidal_def split: prod.split)

lemma req_lyrics_refused: "req_lyrics cat i (cache, x) = (ReplyErr e, cache', x') \<Longrightarrow> cache' = cache"
  by (auto simp: req_lyrics_def Let_def split: option.splits sum.splits prod.splits)

lemma set_max_quality_refused: "set_max_quality q d = (ReplyErr e, d') \<Longrightarrow> d' = d"
  by (auto simp: set_max_quality_def split: option.splits sum.splits prod.splits)

lemma daemon_change_refused:
  assumes "daemon_change en req d = (ReplyErr e, d')" and "pe_code e \<noteq> ErrInternal" "pe_code e \<noteq> ErrEngineGone"
    and gone: "\<And>c u err u'. eh_send (de_handle en) c u = (Inl err, u') \<Longrightarrow> u' = u"
  shows "d' = d"
proof -
  have send: "daemon_send en c d0 \<noteq> (ReplyErr e, d')" for c d0
    using assms(3) by (auto simp: daemon_send_def reply_error_def split: prod.split sum.split)
  have vol: "d' = d" if "change_volume en change d = (ReplyErr e, d')" for change
    using that assms(2) set_volume_unsupported [of "de_factories en" change "(dm_outputs d, dm_volumes d)"]
    by (auto simp: change_volume_def reply_error_def split: prod.splits sum.splits volume_error.splits)
  have move: "d' = d" if "daemon_change en (ReqQueueMove i to) d = (ReplyErr e, d')" for i to
    using that queue_unmoved [of i to "ct_queue (dm_control d)"]
    by (auto simp: on_queue_def Let_def split: prod.splits bool.splits)
  have play: "c' = c" if "play_item (de_handle en) i c = (Inl err, c')" for i err c c'
    using that gone by (auto simp: play_item_def control_send_def split: if_splits prod.splits)
  show ?thesis
  proof (cases req)
    case (ReqQueueMove i to)
    then show ?thesis using assms(1) move by blast
  next
    case (ReqPlay item)
    then show ?thesis
      using assms(1) send by (cases item) (auto split: prod.splits sum.splits dest: play)
  next
    case (ReqSetMaxQuality q)
    then show ?thesis using assms(1) set_max_quality_refused [of q d e d'] by simp
  qed (use assms(1,2) send vol in \<open>auto simp: reply_error_def Let_def split: prod.splits\<close>)
qed

text \<open>
  C32. A request that is refused changes nothing: not the queue, the output, the volume, what is
  remembered or what clients are told. Only what was asked of TIDAL may have had an effect there,
  and only a failure of the engine or of the output itself is excepted.
\<close>

theorem refused_request_changes_nothing:
  assumes "daemon_handle en entries req d = (ReplyErr e, d')"
    and "pe_code e \<noteq> ErrInternal" and "pe_code e \<noteq> ErrEngineGone"
    and "\<forall>c u err u'. eh_send (de_handle en) c u = (Inl err, u') \<longrightarrow> u' = u"
  shows "d' = d\<lparr>dm_tidal := dm_tidal d'\<rparr>"
proof -
  have tidal: "d' = d\<lparr>dm_tidal := dm_tidal d'\<rparr>" if "on_tidal f d = (ReplyErr e, d')" for f
    using that on_tidal_only [of f d] by simp
  have out: "d' = d\<lparr>dm_tidal := dm_tidal d'\<rparr>" if "daemon_set_output en entries i d = (ReplyErr e, d')" for i
    using that assms(2) outputs_prepare_refused [of "de_factories en" i "dm_volumes d"]
    by (auto simp: daemon_set_output_def reply_error_def Let_def split: prod.splits sum.splits)
  have added: "\<not> add_to_queue acc rej at0 d0 = (ReplyErr e, d')" for acc rej at0 d0
    using add_to_queue_ok [of acc rej at0 d0 e] by auto
  have change: "d' = d\<lparr>dm_tidal := dm_tidal d'\<rparr>" if "daemon_change en req d = (ReplyErr e, d')"
    using daemon_change_refused [OF that assms(2,3)] assms(4) by auto
  show ?thesis
  proof (cases req)
    case (ReqLyrics i)
    then show ?thesis
      using assms(1) req_lyrics_refused [of "de_catalog en" i "dm_lyrics d" "dm_tidal d"]
      by (auto split: prod.splits)
  next
    case (ReqQueueAdd tracks at0)
    then show ?thesis using assms(1) added by (auto simp: daemon_queue_add_def Let_def split: if_splits)
  next
    case (ReqQueueAddFrom from0 at0)
    then show ?thesis
      using assms(1) added
      by (auto simp: daemon_queue_add_from_def no_catalog_def Let_def split: option.splits prod.splits sum.splits)
  qed (use assms(1) tidal out change in \<open>auto simp del: daemon_change.simps\<close>)
qed

section \<open>Adding a whole listing\<close>

text \<open>What a catalog that pages through a fixed listing answers.\<close>

definition lists :: "'x catalog \<Rightarrow> catalog_ref \<Rightarrow> cat_track list \<Rightarrow> bool" where
  "lists c from0 whole \<longleftrightarrow>
     (\<forall>offset limit. \<exists>ask. track_page c from0 offset limit = Inr ask \<and>
        (\<forall>x. fst (ask x) = Inr \<lparr>cg_items = take limit (drop offset whole), cg_total = length whole, cg_offset = offset\<rparr>))"

lemma list_tracks_whole:
  assumes "lists c from0 whole" "length whole \<le> max_add" "k \<le> length whole"
  shows "fst (list_tracks c from0 (take k whole) x) = Inr whole"
  using assms(3)
proof (induction "length whole - k" arbitrary: k x rule: less_induct)
  case less
  let ?p = "\<lparr>cg_items = take max_items_limit (drop k whole), cg_total = length whole, cg_offset = k\<rparr>"
  have k: "min (length whole) k = k" "k mod 4294967296 = k" using less(2) assms(2) by (simp_all add: max_add_def)
  obtain ask where ask: "track_page c from0 k max_items_limit = Inr ask" "\<And>x. fst (ask x) = Inr ?p"
    using assms(1) unfolding lists_def by blast
  obtain x' where x': "ask x = (Inr ?p, x')" using ask(2) [of x] by (cases "ask x") auto
  have joined: "take k whole @ take max_items_limit (drop k whole) = take (k + max_items_limit) whole"
    by (simp add: take_add)
  show ?case
  proof (cases "length whole \<le> k + max_items_limit")
    case True
    then have "cg_items ?p = [] \<or> cg_total ?p \<le> length (take k whole @ cg_items ?p)" by (simp add: joined)
    then show ?thesis
      using True assms(2) by (subst list_tracks.simps) (simp add: k ask(1) x' joined)
  next
    case False
    then have more: "cg_items ?p \<noteq> []" "\<not> cg_total ?p \<le> length (take k whole @ cg_items ?p)"
      by (auto simp: joined max_items_limit_def)
    have "list_tracks c from0 (take k whole) x = list_tracks c from0 (take (k + max_items_limit) whole) x'"
      using more assms(2) by (subst list_tracks.simps) (simp add: k ask(1) x' joined)
    then show ?thesis
      using less(1) [of "k + max_items_limit" x'] False by (simp add: max_items_limit_def)
  qed
qed

lemma list_tracks_too_long:
  assumes "lists c from0 whole" "max_add < length whole"
  shows "\<exists>message x'. list_tracks c from0 [] x = (Inl (reply_error ErrBadRequest message), x')"
proof -
  let ?p = "\<lparr>cg_items = take max_items_limit (drop 0 whole), cg_total = length whole, cg_offset = 0\<rparr>"
  obtain ask where ask: "track_page c from0 0 max_items_limit = Inr ask" "\<And>x. fst (ask x) = Inr ?p"
    using assms(1) unfolding lists_def by blast
  obtain x' where x': "ask x = (Inr ?p, x')" using ask(2) [of x] by (cases "ask x") auto
  show ?thesis
    using assms(2) by (subst list_tracks.simps) (auto simp: ask(1) x')
qed

lemma queue_add_end:
  "add_to_queue acc rej AddEnd d = (r, d') \<Longrightarrow>
     map qi_track (items (qu_inner (ct_queue (dm_control d')))) =
     map qi_track (items (qu_inner (ct_queue (dm_control d)))) @ map accepted_track acc"
  using q_add_tracks [of "map accepted_track acc" "qu_inner (ct_queue (dm_control d))"]
    mutate_inner [of "q_add (map accepted_track acc)" "ct_queue (dm_control d)"]
  by (auto simp: add_to_queue_def on_queue_def queue_add_def Let_def split: prod.splits)

lemma map_filter_of_map: "List.map_filter f (map g xs) = List.map_filter (f \<circ> g) xs"
  by (induction xs) (simp_all add: List.map_filter_def)

lemma none_unresolved:
  "\<forall>a \<in> set acc. ac_reason a = None \<Longrightarrow>
     List.map_filter (\<lambda>(i, a). map_option (\<lambda>why. \<lparr>un_id = i, un_reason = why\<rparr>) (ac_reason a)) (zip ids acc) = []"
  by (auto simp: List.map_filter_def filter_empty_conv dest: set_zip_rightD)

text \<open>The ids of what is added are those of the entries that come after the others.\<close>

lemma q_add_ids:
  "map qi_id (items (snd (q_add ts q))) = map qi_id (items q) @ fst (q_add ts q)"
  "length (fst (q_add ts q)) = length ts"
  by (simp_all add: q_add_def q_insert_def new_items_def Let_def insert_at_def bump_version_def)

lemma queue_add_ids:
  assumes "queue_add ts qu = (ids, qu')"
  shows "length ids = length ts"
    and "map qi_id (items (qu_inner qu')) = map qi_id (items (qu_inner qu)) @ ids"
  using q_add_ids [of ts "qu_inner qu"] mutate_inner [of "q_add ts" qu] mutate_result [of "q_add ts" qu] assms
  by (simp_all add: queue_add_def)

lemma listing_added:
  assumes "de_catalog en = Some c" "lists c from0 whole" "length whole \<le> 1000"
    and "daemon_queue_add_from en from0 AddEnd d = (r, d')"
  shows "\<exists>ids. r = ReplyOk (PayAdded ids (List.map_filter (rejected_only \<circ> accepted_from_catalog) whole) []) \<and>
      length ids = length (filter ct_streamable whole) \<and>
      map qi_id (items (qu_inner (ct_queue (dm_control d')))) =
        map qi_id (items (qu_inner (ct_queue (dm_control d)))) @ ids \<and>
      map (qt_source \<circ> qi_track) (items (qu_inner (ct_queue (dm_control d')))) =
        map (qt_source \<circ> qi_track) (items (qu_inner (ct_queue (dm_control d)))) @
        map (\<lambda>t. ''tidal:'' @ ct_id t) (filter ct_streamable whole)"
proof -
  let ?entries = "map accepted_from_catalog whole"
  let ?acc = "List.map_filter accepted_only ?entries" and ?rej = "List.map_filter rejected_only ?entries"
  have "fst (list_tracks c from0 [] (dm_tidal d)) = Inr whole"
    using list_tracks_whole [OF assms(2), of 0 "dm_tidal d"] assms(3) by (simp add: max_add_def)
  then obtain x where "list_tracks c from0 [] (dm_tidal d) = (Inr whole, x)" by (cases "list_tracks c from0 [] (dm_tidal d)") auto
  then have add: "add_to_queue ?acc ?rej AddEnd (d\<lparr>dm_tidal := x\<rparr>) = (r, d')"
    using assms(1,4) by (simp add: daemon_queue_add_from_def Let_def)
  have acc: "map (qt_source \<circ> accepted_track) ?acc = map (\<lambda>t. ''tidal:'' @ ct_id t) (filter ct_streamable whole)"
    "\<forall>a \<in> set ?acc. ac_reason a = None" "length ?acc = length (filter ct_streamable whole)"
    by (induction whole)
      (auto simp: List.map_filter_def accepted_from_catalog_def accepted_track_def source_to_wire_def Let_def)
  obtain ids qu where ids: "queue_add (map accepted_track ?acc) (ct_queue (dm_control d)) = (ids, qu)" by fastforce
  note sources = queue_add_end [OF add, THEN arg_cong [where f = "map qt_source"]]
  show ?thesis
    using add ids acc(1,3) sources none_unresolved [OF acc(2)] queue_add_ids [OF ids]
    by (auto simp: add_to_queue_def on_queue_def Let_def map_filter_of_map comp_def)
qed

text \<open>
  C33. Adding an album, a playlist or another listing always ends, and adds all of it: every track of
  the listing that can be streamed, once each and in the order of the listing, after what the queue
  held, the others being named in the answer. A listing of more than a thousand tracks is refused
  and nothing of it added.
\<close>

theorem whole_listing_added:
  assumes "de_catalog en = Some c" and "lists c from0 whole"
    and "daemon_queue_add_from en from0 AddEnd d = (r, d')"
  shows "(length whole \<le> 1000 \<longrightarrow>
           (\<exists>ids. r = ReplyOk (PayAdded ids (List.map_filter (rejected_only \<circ> accepted_from_catalog) whole) []) \<and>
              length ids = length (filter ct_streamable whole)) \<and>
           map qt_source (map qi_track (items (qu_inner (ct_queue (dm_control d'))))) =
             map qt_source (map qi_track (items (qu_inner (ct_queue (dm_control d))))) @
             map (\<lambda>t. ''tidal:'' @ ct_id t) (filter ct_streamable whole))
    \<and> (1000 < length whole \<longrightarrow>
           (\<exists>message. r = reply_error ErrBadRequest message) \<and> dm_control d' = dm_control d)"
proof (cases "length whole \<le> 1000")
  case True
  then show ?thesis using listing_added [OF assms(1,2) True assms(3)] by (auto simp: comp_def)
next
  case False
  then show ?thesis
    using assms(1,3) list_tracks_too_long [OF assms(2), of "dm_tidal d"]
    by (auto simp: daemon_queue_add_from_def max_add_def)
qed

section \<open>A daemon to try them on\<close>

definition demo_listing :: "cat_track list" where
  "demo_listing =
     (let t = (\<lambda>i ok. \<lparr>ct_id = i, ct_title = ''t'', ct_version = None, ct_artists = [], ct_album = None,
        ct_duration = None, ct_explicit = False, ct_track_number = None, ct_volume_number = None,
        ct_quality = None, ct_streamable = ok\<rparr>)
      in [t ''7'' True, t ''8'' False, t ''9'' True])"

definition paged :: "'a list \<Rightarrow> nat \<Rightarrow> nat \<Rightarrow> ('a cat_page, unit) cat_answer" where
  "paged xs offset limit x =
     (Inr \<lparr>cg_items = take limit (drop offset xs), cg_total = length xs, cg_offset = offset\<rparr>, x)"

definition demo_catalog :: "unit catalog" where
  "demo_catalog =
     \<lparr>cat_search = (\<lambda>q ks o0 n x. (Inl RateLimited, x)),
      cat_album_tracks = (\<lambda>i. paged demo_listing), cat_playlist_tracks = (\<lambda>i. paged []),
      cat_track_radio = (\<lambda>i. paged []), cat_album_of = (\<lambda>i x. (Inl Catalog.NotFound, x)),
      cat_artist_of = (\<lambda>i x. (Inl Catalog.NotFound, x)), cat_artist_bio = (\<lambda>i x. (Inr None, x)),
      cat_artist_top_tracks = (\<lambda>i. paged []), cat_artist_albums = (\<lambda>i f. paged []),
      cat_similar_artists = (\<lambda>i. paged [] 0), cat_favorite_tracks = paged [], cat_favorite_albums = paged [],
      cat_recommended_albums = paged [], cat_favorite_artists = paged [], cat_my_playlists = paged [],
      cat_playlist_folder = (\<lambda>f. paged []), cat_track_lyrics = (\<lambda>i x. (Inr None, x)),
      cat_set_favorite = (\<lambda>k i on x. (Inr (), x))\<rparr>"

definition demo_env :: "(nat, status \<times> command list, nat, nat \<Rightarrow> fake_volume, unit) daemon_env" where
  "demo_env =
     \<lparr>de_handle = log_handle, de_set_output = (\<lambda>f e. (Inr (), e)), de_shuffler = (\<lambda>ids g. (ids, g)),
      de_factories = fake_factories, de_catalog = Some demo_catalog,
      de_describe = (\<lambda>k s. Inl (DescribeUnavailable ''offline'')), de_info = (''phoniad'', ''0'', 1),
      de_debug = (\<lambda>r. ''request'')\<rparr>"

definition demo_daemon :: "(nat, status \<times> command list, nat, nat \<Rightarrow> fake_volume, unit) daemon" where
  "demo_daemon =
     daemon_started demo_control ((outputs_new (Shared None))\<lparr>ou_factory := Some 0\<rparr>)
       (\<lambda>_. \<lparr>fv_state = default_volume, fv_handler = False, fv_fail = False, fv_told = []\<rparr>) () None False []"

lemma demo_lists: "lists demo_catalog (RefAlbum i) demo_listing"
  by (simp add: lists_def track_page_def demo_catalog_def paged_def)

lemma whole_listing_added_witness:
  "\<exists>r d' ids. daemon_queue_add_from demo_env (RefAlbum ''1'') AddEnd demo_daemon = (r, d') \<and>
     map qt_source (map qi_track (items (qu_inner (ct_queue (dm_control d'))))) =
       map qt_source (map qi_track (items (qu_inner (ct_queue (dm_control demo_daemon))))) @ [''tidal:7'', ''tidal:9'']"
proof -
  obtain r d' where r: "daemon_queue_add_from demo_env (RefAlbum ''1'') AddEnd demo_daemon = (r, d')" by fastforce
  have "de_catalog demo_env = Some demo_catalog" by (simp add: demo_env_def)
  from whole_listing_added [OF this demo_lists r] show ?thesis
    using r by (simp add: demo_listing_def)
qed

lemma refused_request_changes_nothing_witness:
  "\<exists>e d'. daemon_handle demo_env [] (ReqQueueMove 9 0) demo_daemon = (ReplyErr e, d') \<and>
     d' = demo_daemon\<lparr>dm_tidal := dm_tidal d'\<rparr>"
proof -
  have "fst (queue_move_to 9 0 (ct_queue demo_control)) = False" by code_simp
  then obtain qu where "queue_move_to 9 0 (ct_queue demo_control) = (False, qu)"
    by (cases "queue_move_to 9 0 (ct_queue demo_control)") auto
  then obtain e d' where r: "daemon_handle demo_env [] (ReqQueueMove 9 0) demo_daemon = (ReplyErr e, d')"
      and e: "pe_code e = ErrNotFound"
    by (auto simp: on_queue_def demo_daemon_def daemon_started_def reply_error_def Let_def)
  have "\<forall>c u err u'. eh_send (de_handle demo_env) c u = (Inl err, u') \<longrightarrow> u' = u"
    by (simp add: demo_env_def log_handle_def)
  then show ?thesis using refused_request_changes_nothing [OF r] r e by auto
qed

text \<open>
  A slow listing of the outputs lets a stale switch through: the daemon checks that it still plays
  where the switch came from, lists the outputs, and takes the switch over although a client moved it
  to another output meanwhile. It then says that it plays where it does not.
\<close>

lemma stale_switch_taken_over:
  assumes "fallback_switch_wanted from0 d = Some f"
    and "daemon_set_output en entries i d = (ReplyOk PayAck, d1)"
    and "output_from_id i = Inr chosen"
    and "d2 = announce_output en to f entries d1"
  shows "ro_id (daemon_route d1) = output_id chosen \<and> ro_id (daemon_route d2) = output_id to \<and>
    ct_engine (dm_control d2) = ct_engine (dm_control d1)"
proof -
  have route: "ro_id (daemon_route (announce_output en spec f entries d)) = output_id spec" for spec f d
    by (auto simp: announce_output_def switched_to_def outputs_attach_def publish_def daemon_route_def
        outputs_route_def Let_def split: option.split)
  have engine: "dm_control (announce_output en spec f entries d) = dm_control d" for spec f d
    by (auto simp: announce_output_def publish_def Let_def split: option.split prod.split)
  show ?thesis
    using assms(2,3) unfolding assms(4) route engine
    by (auto simp: daemon_set_output_def outputs_prepare_def reply_error_def Let_def route
        split: prod.splits sum.splits)
qed

section \<open>Lyrics\<close>

text \<open>
  C34. The daemon keeps the lyrics of at most 64 tracks, whatever it is asked, and asks TIDAL once for
  those it keeps: the lyrics just answered are answered again, the same, without a request.
\<close>

theorem lyrics_asked_once:
  assumes "d = daemon_run en acts0 (daemon_started ctl ou w x limits reports recent)"
    and "daemon_handle en entries (ReqLyrics i) d = (ReplyOk p, d1)"
  shows "length (lc_entries (dm_lyrics d1)) \<le> 64 \<and> distinct (map fst (lc_entries (dm_lyrics d1))) \<and>
    daemon_handle en entries' (ReqLyrics i) d1 = (ReplyOk p, d1)"
proof -
  have "remembers_ok (daemon_started ctl ou w x limits reports recent)"
    by (simp add: remembers_ok_def daemon_started_def lyrics_ok_def lyrics_cache_new_def)
  then have "remembers_ok d" unfolding assms(1) by (rule lyrics_kept.run_keeps)
  then have ok: "lyrics_ok (dm_lyrics d1)"
    using lyrics_kept.lyrics [of d en entries i] assms(2) by (simp add: remembers_ok_def)
  then have "length (lc_entries (dm_lyrics d1)) = length (lc_order (dm_lyrics d1))"
    by (metis lyrics_ok_def distinct_card length_map list.set_map)
  moreover obtain c where c: "de_catalog en = Some c"
    using assms(2) by (cases "de_catalog en") (auto simp: req_lyrics_def no_catalog_def reply_error_def)
  moreover have "\<exists>found. lyrics_get i (dm_lyrics d1) = Some found \<and> p = PayLyrics i found"
    using assms(2) c
    by (cases "lyrics_get i (dm_lyrics d)")
      (auto simp: req_lyrics_def catalog_failure_def reply_error_def Let_def split: prod.splits sum.splits)
  ultimately show ?thesis
    using ok by (auto simp: req_lyrics_def lyrics_ok_def lyrics_cache_capacity_def)
qed

lemma lyrics_asked_once_witness:
  "\<exists>p d1. daemon_handle demo_env [] (ReqLyrics ''7'') demo_daemon = (ReplyOk p, d1) \<and>
     daemon_handle demo_env [] (ReqLyrics ''7'') d1 = (ReplyOk p, d1)"
proof -
  have start: "demo_daemon = daemon_run demo_env [] (daemon_started demo_control
      ((outputs_new (Shared None))\<lparr>ou_factory := Some 0\<rparr>)
      (\<lambda>_. \<lparr>fv_state = default_volume, fv_handler = False, fv_fail = False, fv_told = []\<rparr>) () None False [])"
    by (simp add: daemon_run_def demo_daemon_def)
  have "\<exists>p d1. daemon_handle demo_env [] (ReqLyrics ''7'') demo_daemon = (ReplyOk p, d1)"
    by (simp add: demo_env_def demo_catalog_def demo_daemon_def daemon_started_def req_lyrics_def lyrics_get_def
        lyrics_cache_new_def Let_def)
  then show ?thesis using lyrics_asked_once [OF start] by blast
qed

end
