(* ===== verification/Server.thy ===== *)
theory Server
  imports Daemon_Props Framing
begin

text \<open>
  One connection of a client (\<^verbatim>\<open>phoniad/src/server.rs\<close>): the handshake, the answers, the slow requests
  that run beside the others, and the events it subscribed to. What is sent goes through a bounded
  queue to the writer; the order in which it was put there is the order of the messages below.
\<close>

definition slow_at_once :: nat where
  "slow_at_once = 4"

text \<open>
  \<open>cn_slow\<close> are the slow requests under way. The forwarder is the number of the last event its
  client has seen.
\<close>

record connection =
  cn_handshaken :: bool
  cn_forwarder :: "nat option"
  cn_slow :: "(nat \<times> request) list"
  cn_open :: bool

definition connection_new :: connection where
  "connection_new = \<lparr>cn_handshaken = False, cn_forwarder = None, cn_slow = [], cn_open = True\<rparr>"

text \<open>A connection that ends drops its forwarder and the slow requests under way.\<close>

definition connection_closed :: "connection \<Rightarrow> connection" where
  "connection_closed cn = cn\<lparr>cn_open := False, cn_forwarder := None, cn_slow := []\<rparr>"

fun is_slow :: "request \<Rightarrow> bool" where
  "is_slow (ReqSearch q ks o0 l) = True"
| "is_slow (ReqQueueAddFrom f a) = True"
| "is_slow (ReqAlbum i l) = True"
| "is_slow (ReqArtist i l) = True"
| "is_slow (ReqTracks f o0 l) = True"
| "is_slow (ReqAlbums f o0 l) = True"
| "is_slow (ReqLyrics i) = True"
| "is_slow (ReqSetFavorite k i on) = True"
| "is_slow _ = False"

type_synonym ('g, 'e, 'f, 'w, 'x) served =
  "server_message list \<times> connection \<times> ('g, 'e, 'f, 'w, 'x) daemon"

definition run_beside ::
    "nat \<Rightarrow> request \<Rightarrow> connection \<Rightarrow> ('g, 'e, 'f, 'w, 'x) daemon \<Rightarrow> ('g, 'e, 'f, 'w, 'x) served" where
  "run_beside i req cn d =
     (if slow_at_once \<le> length (cn_slow cn)
      then ([MsgResponse i (reply_error ErrRateLimited
               (''too many searches and additions are under way on this connection: '' @
                ''wait for one to finish''))], cn, d)
      else ([], cn\<lparr>cn_slow := cn_slow cn @ [(i, req)]\<rparr>, d))"

definition subscribe ::
    "('g, 'e, 'f, 'w, 'x) daemon_env \<Rightarrow> nat \<Rightarrow> connection \<Rightarrow> ('g, 'e, 'f, 'w, 'x) daemon \<Rightarrow>
     ('g, 'e, 'f, 'w, 'x) served" where
  "subscribe en i cn d =
     (case daemon_snapshot en d of
        (n, st, q) \<Rightarrow> ([MsgResponse i (ReplyOk (PaySnapshot n st q))], cn\<lparr>cn_forwarder := Some n\<rparr>, d))"

definition version_refusal :: "protocol_version \<Rightarrow> string" where
  "version_refusal p =
     ''this daemon speaks protocol '' @ show_nat (pv_major protocol) @ ''.'' @ show_nat (pv_minor protocol) @
     '', the client '' @ show_nat (pv_major p) @ ''.'' @ show_nat (pv_minor p)"

definition serve_request ::
    "('g, 'e, 'f, 'w, 'x) daemon_env \<Rightarrow> entry list \<Rightarrow> nat \<Rightarrow> request \<Rightarrow> connection \<Rightarrow>
     ('g, 'e, 'f, 'w, 'x) daemon \<Rightarrow> ('g, 'e, 'f, 'w, 'x) served" where
  "serve_request en entries i req cn d =
     (case req of
        ReqHello p c \<Rightarrow>
          if \<not> compatible_with protocol p
          then ([MsgResponse i (reply_error ErrUnsupportedVersion (version_refusal p))], connection_closed cn, d)
          else ([MsgResponse i (ReplyOk PayAck)], cn\<lparr>cn_handshaken := True\<rparr>, d)
      | _ \<Rightarrow>
          if \<not> cn_handshaken cn
          then ([MsgResponse i (reply_error ErrHandshakeRequired ''send a hello request first'')], cn, d)
          else if req = ReqSubscribe then subscribe en i cn d
          else if req = ReqUnsubscribe then ([MsgResponse i (ReplyOk PayAck)], cn\<lparr>cn_forwarder := None\<rparr>, d)
          else if is_slow req then run_beside i req cn d
          else (case daemon_handle en entries req d of (r, d) \<Rightarrow> ([MsgResponse i r], cn, d)))"

text \<open>
  What the connection's reader comes to: a request, or text that is none, with the number that could
  be made out (0 if none); the end of it. After \<open>Stopping\<close> nothing more is read, and what is left is
  sent until \<open>ClientLeaves\<close>. \<open>SlowDone\<close> is a slow request that has been answered,
  \<open>Received\<close> what the forwarder gets from the daemon's channel. Anything else that moves the daemon
  is \<open>Elsewhere\<close>.
\<close>

datatype received = Got nat ipc_event | Lagged nat | ChannelClosed

datatype ('g, 'e, 'w) served_step =
    ClientAsks "entry list" nat request
  | ClientGarbles nat string
  | ClientTooLarge
  | ClientLeaves
  | Stopping
  | SlowDone "entry list" nat
  | Received received
  | Elsewhere "('g, 'e, 'w) daemon_act"

definition forward_event ::
    "('g, 'e, 'f, 'w, 'x) daemon_env \<Rightarrow> received \<Rightarrow> nat \<Rightarrow> ('g, 'e, 'f, 'w, 'x) daemon \<Rightarrow>
     server_message list \<times> nat option" where
  "forward_event en r seen d =
     (case r of
        Got n ev \<Rightarrow>
          if n \<le> seen then ([], Some seen)
          else ([MsgEvent n ev], if ev = Ev_ShuttingDown then None else Some n)
      | Lagged skipped \<Rightarrow>
          (case daemon_snapshot en d of
             (n, st, q) \<Rightarrow> ([MsgEvent n (Ev_Resync skipped n st q)], Some n))
      | ChannelClosed \<Rightarrow> ([], None))"

fun serve_step ::
    "('g, 'e, 'f, 'w, 'x) daemon_env \<Rightarrow> ('g, 'e, 'w) served_step \<Rightarrow> connection \<times> ('g, 'e, 'f, 'w, 'x) daemon \<Rightarrow>
     ('g, 'e, 'f, 'w, 'x) served" where
  "serve_step en (ClientAsks entries i req) (cn, d) =
     (if cn_open cn then serve_request en entries i req cn d else ([], cn, d))"
| "serve_step en (ClientGarbles i why) (cn, d) =
     (if cn_open cn
      then ([MsgResponse i (reply_error ErrBadRequest (''malformed request: '' @ why))], cn, d) else ([], cn, d))"
| "serve_step en ClientTooLarge (cn, d) =
     (if cn_open cn
      then ([MsgResponse 0 (reply_error ErrBadRequest ''message too large'')], connection_closed cn, d)
      else ([], cn, d))"
| "serve_step en ClientLeaves (cn, d) = ([], connection_closed cn, d)"
| "serve_step en Stopping (cn, d) = ([], cn\<lparr>cn_open := False\<rparr>, d)"
| "serve_step en (SlowDone entries k) (cn, d) =
     (if length (cn_slow cn) \<le> k then ([], cn, d)
      else case daemon_handle en entries (snd (cn_slow cn ! k)) d of
             (r, d) \<Rightarrow> ([MsgResponse (fst (cn_slow cn ! k)) r], cn\<lparr>cn_slow := remove_at k (cn_slow cn)\<rparr>, d))"
| "serve_step en (Received r) (cn, d) =
     (case cn_forwarder cn of
        None \<Rightarrow> ([], cn, d)
      | Some seen \<Rightarrow> (case forward_event en r seen d of (ms, f) \<Rightarrow> (ms, cn\<lparr>cn_forwarder := f\<rparr>, d)))"
| "serve_step en (Elsewhere a) (cn, d) = ([], cn, daemon_step en a d)"

fun serve ::
    "('g, 'e, 'f, 'w, 'x) daemon_env \<Rightarrow> ('g, 'e, 'w) served_step list \<Rightarrow> connection \<times> ('g, 'e, 'f, 'w, 'x) daemon \<Rightarrow>
     ('g, 'e, 'f, 'w, 'x) served" where
  "serve en [] (cn, d) = ([], cn, d)"
| "serve en (s # ss) (cn, d) =
     (case serve_step en s (cn, d) of
        (ms, cn, d) \<Rightarrow> (case serve en ss (cn, d) of (ms', cn, d) \<Rightarrow> (ms @ ms', cn, d)))"

definition greeting :: "('g, 'e, 'f, 'w, 'x) daemon_env \<Rightarrow> server_message" where
  "greeting en = MsgHello (daemon_hello en)"

section \<open>One answer to each request\<close>

definition response_ids :: "server_message list \<Rightarrow> nat list" where
  "response_ids ms = List.map_filter (\<lambda>m. case m of MsgResponse i r \<Rightarrow> Some i | _ \<Rightarrow> None) ms"

lemma response_ids_simps [simp]:
  "response_ids [] = []" "response_ids (MsgResponse i r # ms) = i # response_ids ms"
  "response_ids (MsgEvent n ev # ms) = response_ids ms" "response_ids (MsgHello h # ms) = response_ids ms"
  "response_ids (a @ b) = response_ids a @ response_ids b"
  by (simp_all add: response_ids_def List.map_filter_def)

fun asked_id :: "('g, 'e, 'w) served_step \<Rightarrow> nat list" where
  "asked_id (ClientAsks entries i req) = [i]"
| "asked_id (ClientGarbles i why) = [i]"
| "asked_id _ = []"

text \<open>Nothing closes the connection.\<close>

fun stays_open :: "('g, 'e, 'w) served_step \<Rightarrow> bool" where
  "stays_open (ClientAsks entries i (ReqHello p c)) = compatible_with protocol p"
| "stays_open ClientTooLarge = False"
| "stays_open ClientLeaves = False"
| "stays_open Stopping = False"
| "stays_open _ = True"

text \<open>
  Anything but a hello in a version whose major number is the daemon's; hellos in other versions are
  among what can come before.
\<close>

definition before_hello :: "('g, 'e, 'w) served_step \<Rightarrow> bool" where
  "before_hello s =
     (case s of
        ClientAsks entries i (ReqHello p c) \<Rightarrow> pv_major p \<noteq> pv_major protocol
      | Elsewhere a \<Rightarrow> False
      | _ \<Rightarrow> True)"

lemma serve_request_answers:
  assumes "serve_request en entries i req cn d = (ms, cn', d')"
  shows "stays_open (ClientAsks es i req :: ('a, 'b, 'c) served_step) \<Longrightarrow>
      mset (response_ids ms) + mset (map fst (cn_slow cn')) = mset (map fst (cn_slow cn)) + {#i#}"
    and "length (cn_slow cn) \<le> slow_at_once \<Longrightarrow> length (cn_slow cn') \<le> slow_at_once"
    and "\<not> cn_handshaken cn \<Longrightarrow> d' = d"
    and "stays_open (ClientAsks es i req :: ('a, 'b, 'c) served_step) \<Longrightarrow> cn_open cn' = cn_open cn"
  using assms
  by (auto simp: serve_request_def subscribe_def run_beside_def connection_closed_def
      split: request.splits if_splits prod.splits)

lemma serve_step_answers:
  assumes "serve_step en s (cn, d) = (ms, cn', d')" "stays_open s" "cn_open cn"
  shows "mset (response_ids ms) + mset (map fst (cn_slow cn')) = mset (map fst (cn_slow cn)) + mset (asked_id s)"
    and "cn_open cn'"
proof -
  have removed: "mset (map fst (remove_at k xs)) + {#fst (xs ! k)#} = mset (map fst xs)" if "k < length xs" for k and xs :: "('z \<times> 'y) list"
    using that mset_remove_at [of k "map fst xs"] by (simp add: map_remove_at)
  have "(mset (response_ids ms) + mset (map fst (cn_slow cn')) = mset (map fst (cn_slow cn)) + mset (asked_id s)) \<and> cn_open cn'"
  proof (cases s)
    case (ClientAsks entries i req)
    then show ?thesis
      using assms serve_request_answers(1,4) [of en entries i req cn d ms cn' d'] by auto
  next
    case (SlowDone entries k)
    then show ?thesis
      using assms removed [of k "cn_slow cn"] by (auto split: if_splits prod.splits simp: add.commute)
  next
    case (Received r)
    then show ?thesis
      using assms
      by (cases r) (auto simp: forward_event_def split: option.splits prod.splits if_splits)
  qed (use assms in auto)
  then show "mset (response_ids ms) + mset (map fst (cn_slow cn')) = mset (map fst (cn_slow cn)) + mset (asked_id s)"
    and "cn_open cn'" by blast+
qed

lemma serve_step_slow:
  "serve_step en s (cn, d) = (ms, cn', d') \<Longrightarrow> length (cn_slow cn) \<le> slow_at_once \<Longrightarrow> length (cn_slow cn') \<le> slow_at_once"
proof (cases s)
  case (ClientAsks entries i req)
  then show "serve_step en s (cn, d) = (ms, cn', d') \<Longrightarrow> length (cn_slow cn) \<le> slow_at_once \<Longrightarrow> length (cn_slow cn') \<le> slow_at_once"
    using serve_request_answers(2) by (auto split: if_splits)
qed (auto simp: connection_closed_def split: if_splits prod.splits option.splits)

text \<open>
  C35. Every request is answered once, under its own number, also one that could not be read: after any
  exchange on a connection that stays open, the numbers answered and those of the slow requests
  still under way are together the numbers asked, each as often as it was asked; and never are more
  than four of them under way.
\<close>

theorem every_request_answered_once:
  assumes "\<forall>s \<in> set ss. stays_open s"
    and "serve en ss (connection_new, d) = (ms, cn, d')"
  shows "mset (response_ids ms) + mset (map fst (cn_slow cn)) = mset (concat (map asked_id ss)) \<and>
    length (cn_slow cn) \<le> 4"
proof -
  have "mset (response_ids ms) + mset (map fst (cn_slow cn)) =
      mset (map fst (cn_slow cn0)) + mset (concat (map asked_id ss)) \<and> length (cn_slow cn) \<le> slow_at_once"
    if "serve en ss (cn0, d) = (ms, cn, d')" "\<forall>s \<in> set ss. stays_open s" "cn_open cn0"
      "length (cn_slow cn0) \<le> slow_at_once" for cn0
    using that
  proof (induction ss arbitrary: cn0 d ms)
    case (Cons s ss)
    obtain ms1 cn1 d1 where one: "serve_step en s (cn0, d) = (ms1, cn1, d1)" by (metis prod_cases3)
    obtain ms2 where rest: "serve en ss (cn1, d1) = (ms2, cn, d')" "ms = ms1 @ ms2"
      using Cons.prems(1) one by (auto split: prod.splits)
    show ?case
      using Cons.IH [OF rest(1)] Cons.prems serve_step_answers [OF one] serve_step_slow [OF one]
      by (simp add: rest(2) ac_simps)
  qed simp
  from this [OF assms(2,1)] show ?thesis by (simp add: connection_new_def slow_at_once_def)
qed

lemma every_request_answered_once_witness:
  "\<exists>ms cn d'. serve demo_env [ClientAsks [] 5 (ReqHello protocol (''c'', ''1'')), ClientGarbles 6 ''eof'',
      ClientAsks [] 7 (ReqLyrics ''1'')] (connection_new, demo_daemon) = (ms, cn, d') \<and>
     mset (response_ids ms) + mset (map fst (cn_slow cn)) = {#5, 6, 7#}"
proof -
  let ?ss = "[ClientAsks [] 5 (ReqHello protocol (''c'', ''1'')), ClientGarbles 6 ''eof'', ClientAsks [] 7 (ReqLyrics ''1'')]
    :: (nat, status \<times> command list, nat \<Rightarrow> fake_volume) served_step list"
  obtain ms cn d' where r: "serve demo_env ?ss (connection_new, demo_daemon) = (ms, cn, d')" by (metis prod_cases3)
  have "\<forall>s \<in> set ?ss. stays_open s" by (simp add: compatible_with_def protocol_def)
  from every_request_answered_once [OF this r] show ?thesis using r by (auto simp: add.commute)
qed

section \<open>Nothing before the handshake\<close>

fun elsewhere :: "('g, 'e, 'w) served_step \<Rightarrow> ('g, 'e, 'w) daemon_act option" where
  "elsewhere (Elsewhere a) = Some a"
| "elsewhere _ = None"

definition quiet :: "connection \<Rightarrow> bool" where
  "quiet cn \<longleftrightarrow> \<not> cn_handshaken cn \<and> cn_slow cn = [] \<and> cn_forwarder cn = None"

lemma serve_step_before_hello:
  assumes "serve_step en s (cn, d) = (ms, cn', d')" "before_hello s \<or> elsewhere s \<noteq> None" "quiet cn"
  shows "d' = (case elsewhere s of Some a \<Rightarrow> daemon_step en a d | None \<Rightarrow> d)" "quiet cn'"
    "\<forall>m \<in> set ms. \<exists>i e. m = MsgResponse i (ReplyErr e)"
  using assms
  by (cases s;
      auto simp: quiet_def connection_closed_def before_hello_def serve_request_def reply_error_def
        compatible_with_def
        split: request.splits if_splits prod.splits option.splits)+

text \<open>
  C36. Whatever a client sends before it has said hello in a version of the protocol that fits, hellos in
  versions that do not among it, the daemon is the one it would be without that client, all it is told
  are refusals, and the connection counts as one that has not said hello.
\<close>

theorem nothing_before_hello:
  assumes "\<forall>s \<in> set ss. before_hello s \<or> elsewhere s \<noteq> None"
    and "serve en ss (connection_new, d) = (ms, cn, d')"
  shows "d' = daemon_run en (List.map_filter elsewhere ss) d \<and>
    (\<forall>m \<in> set ms. \<exists>i e. m = MsgResponse i (ReplyErr e)) \<and> \<not> cn_handshaken cn"
proof -
  have "d' = daemon_run en (List.map_filter elsewhere ss) d \<and>
      (\<forall>m \<in> set ms. \<exists>i e. m = MsgResponse i (ReplyErr e)) \<and> \<not> cn_handshaken cn"
    if "serve en ss (cn0, d) = (ms, cn, d')" "\<forall>s \<in> set ss. before_hello s \<or> elsewhere s \<noteq> None" "quiet cn0" for cn0
    using that
  proof (induction ss arbitrary: cn0 d ms)
    case Nil
    then show ?case by (simp add: daemon_run_def List.map_filter_def quiet_def)
  next
    case (Cons s ss)
    obtain ms1 cn1 d1 where one: "serve_step en s (cn0, d) = (ms1, cn1, d1)" by (metis prod_cases3)
    obtain ms2 where rest: "serve en ss (cn1, d1) = (ms2, cn, d')" "ms = ms1 @ ms2"
      using Cons.prems(1) one by (auto split: prod.splits)
    have s: "before_hello s \<or> elsewhere s \<noteq> None" using Cons.prems(2) by simp
    note f = serve_step_before_hello [OF one s Cons.prems(3)]
    show ?case
      using Cons.IH [OF rest(1) _ f(2)] Cons.prems(2) f(1,3)
      by (auto simp: rest(2) daemon_run_def List.map_filter_def split: option.splits)
  qed
  from this [OF assms(2,1)] show ?thesis by (simp add: quiet_def connection_new_def)
qed

lemma nothing_before_hello_witness:
  "\<exists>ms cn d'. serve demo_env [ClientAsks [] 1 ReqShutdown, ClientAsks [] 2 ReqSubscribe,
      ClientAsks [] 3 (ReqHello \<lparr>pv_major = 2, pv_minor = 0\<rparr> (''c'', ''1'')), ClientAsks [] 4 ReqShutdown]
      (connection_new, demo_daemon) = (ms, cn, d') \<and>
      d' = demo_daemon \<and> \<not> cn_handshaken cn"
proof -
  let ?ss = "[ClientAsks [] 1 ReqShutdown, ClientAsks [] 2 ReqSubscribe,
      ClientAsks [] 3 (ReqHello \<lparr>pv_major = 2, pv_minor = 0\<rparr> (''c'', ''1'')), ClientAsks [] 4 ReqShutdown]
    :: (nat, status \<times> command list, nat \<Rightarrow> fake_volume) served_step list"
  obtain ms cn d' where r: "serve demo_env ?ss (connection_new, demo_daemon) = (ms, cn, d')" by (metis prod_cases3)
  have "\<forall>s \<in> set ?ss. before_hello s \<or> elsewhere s \<noteq> None" by (simp add: before_hello_def protocol_def)
  from nothing_before_hello [OF this r] show ?thesis
    using r by (auto simp: daemon_run_def List.map_filter_def)
qed

section \<open>A subscriber misses nothing\<close>

text \<open>
  What the forwarder gets from the daemon's channel: the next event, in order, or, when it has fallen
  behind, the number of events it lost. \<open>cur\<close> is the last event received or lost.
\<close>

fun channel ::
    "('g, 'e, 'f, 'w, 'x) daemon_env \<Rightarrow> ('g, 'e, 'w) served_step list \<Rightarrow> nat \<Rightarrow>
     connection \<times> ('g, 'e, 'f, 'w, 'x) daemon \<Rightarrow> nat option" where
  "channel en [] cur s = Some cur"
| "channel en (st # ss) cur (cn, d) =
     (let next0 = snd (serve_step en st (cn, d)) in
      case st of
        Received (Got n ev) \<Rightarrow>
          if n = cur + 1 \<and> (n, ev) \<in> set (dm_events d) then channel en ss n next0 else None
      | Received (Lagged k) \<Rightarrow>
          if 0 < k \<and> cur + k \<le> dm_seq d then channel en ss (cur + k) next0 else None
      | _ \<Rightarrow> channel en ss cur next0)"

fun keeps_subscription :: "('g, 'e, 'w) served_step \<Rightarrow> bool" where
  "keeps_subscription (ClientAsks entries i (ReqHello p c)) = compatible_with protocol p"
| "keeps_subscription (ClientAsks entries i ReqSubscribe) = False"
| "keeps_subscription (ClientAsks entries i ReqUnsubscribe) = False"
| "keeps_subscription ClientLeaves = False"
| "keeps_subscription ClientTooLarge = False"
| "keeps_subscription _ = True"

definition event_numbers :: "server_message list \<Rightarrow> nat list" where
  "event_numbers ms = List.map_filter (\<lambda>m. case m of MsgEvent n ev \<Rightarrow> Some n | _ \<Rightarrow> None) ms"

lemma event_numbers_simps [simp]:
  "event_numbers [] = []" "event_numbers (MsgResponse i r # ms) = event_numbers ms"
  "event_numbers (MsgEvent n ev # ms) = n # event_numbers ms" "event_numbers (MsgHello h # ms) = event_numbers ms"
  "event_numbers (a @ b) = event_numbers a @ event_numbers b"
  by (simp_all add: event_numbers_def List.map_filter_def)

interpretation numbers_grow: daemon_invariant "\<lambda>d. n \<le> dm_seq d" for n
  by unfold_locales (simp_all add: publish_def Let_def)

interpretation events_stay: daemon_invariant "\<lambda>d. e \<in> set (dm_events d)" for e
  by unfold_locales (simp_all add: publish_def Let_def)

lemma serve_request_other:
  assumes "\<forall>p c. req \<noteq> ReqHello p c"
  shows "serve_request en entries i req cn d =
     (if \<not> cn_handshaken cn
      then ([MsgResponse i (reply_error ErrHandshakeRequired ''send a hello request first'')], cn, d)
      else if req = ReqSubscribe then subscribe en i cn d
      else if req = ReqUnsubscribe then ([MsgResponse i (ReplyOk PayAck)], cn\<lparr>cn_forwarder := None\<rparr>, d)
      else if is_slow req then run_beside i req cn d
      else (case daemon_handle en entries req d of (r, d) \<Rightarrow> ([MsgResponse i r], cn, d)))"
  unfolding serve_request_def by (rule request.exhaust [of req]) (use assms in \<open>simp_all only: request.case simp_thms\<close>)

lemma serve_request_parts:
  assumes "serve_request en entries i req cn d = (ms, cn', d')"
  shows "d' = d \<or> d' = snd (daemon_handle en entries req d)"
    and "ms = [] \<or> (\<exists>r. ms = [MsgResponse i r])"
    and "keeps_subscription (ClientAsks es i req :: ('a, 'b, 'c) served_step) \<Longrightarrow> cn_forwarder cn' = cn_forwarder cn"
proof -
  have "(d' = d \<or> d' = snd (daemon_handle en entries req d)) \<and> (ms = [] \<or> (\<exists>r. ms = [MsgResponse i r])) \<and>
    (keeps_subscription (ClientAsks es i req :: ('a, 'b, 'c) served_step) \<longrightarrow> cn_forwarder cn' = cn_forwarder cn)"
  proof (cases "\<exists>p c. req = ReqHello p c")
    case True
    then show ?thesis using assms by (auto simp: serve_request_def simp del: daemon_handle.simps split: if_splits)
  next
    case False
    then have other: "\<forall>p c. req \<noteq> ReqHello p c" by blast
    show ?thesis
      using assms unfolding serve_request_other [OF other]
      by (cases "daemon_handle en entries req d")
        (simp add: subscribe_def run_beside_def del: daemon_handle.simps split: if_splits prod.splits, fastforce+)
  qed
  then show "d' = d \<or> d' = snd (daemon_handle en entries req d)"
    and "ms = [] \<or> (\<exists>r. ms = [MsgResponse i r])"
    and "keeps_subscription (ClientAsks es i req :: ('a, 'b, 'c) served_step) \<Longrightarrow> cn_forwarder cn' = cn_forwarder cn"
    by blast+
qed

lemma handle_events:
  "dm_seq d \<le> dm_seq (snd (daemon_handle en entries req d))"
  "set (dm_events d) \<subseteq> set (dm_events (snd (daemon_handle en entries req d)))"
  by (rule numbers_grow.handled, simp) (use events_stay.handled in blast)

lemma handled_events:
  "daemon_handle en entries req d = (r, d') \<Longrightarrow> dm_seq d \<le> dm_seq d' \<and> set (dm_events d) \<subseteq> set (dm_events d')"
  using handle_events [of d en entries req] by (simp only: snd_conv simp_thms)

lemma serve_step_events:
  assumes "serve_step en s (cn, d) = (ms, cn', d')"
  shows "dm_seq d \<le> dm_seq d'" "set (dm_events d) \<subseteq> set (dm_events d')"
    "(\<forall>r. s \<noteq> Received r) \<Longrightarrow> keeps_subscription s \<Longrightarrow> event_numbers ms = [] \<and> cn_forwarder cn' = cn_forwarder cn"
    "(\<forall>a. s \<noteq> Elsewhere a) \<Longrightarrow> s = Received r \<Longrightarrow> d' = d"
proof -
  have step: "dm_seq d \<le> dm_seq (daemon_step en a d)" "set (dm_events d) \<subseteq> set (dm_events (daemon_step en a d))" for a
    by (rule numbers_grow.step_keeps, simp) (use events_stay.step_keeps in blast)
  have "dm_seq d \<le> dm_seq d' \<and> set (dm_events d) \<subseteq> set (dm_events d') \<and>
    ((\<forall>r. s \<noteq> Received r) \<longrightarrow> keeps_subscription s \<longrightarrow> event_numbers ms = [] \<and> cn_forwarder cn' = cn_forwarder cn)"
  proof (cases s)
    case (ClientAsks entries i req)
    show ?thesis
    proof (cases "cn_open cn")
      case True
      then have r: "serve_request en entries i req cn d = (ms, cn', d')" using assms ClientAsks by simp
      note parts = serve_request_parts [OF r]
      from parts(1) have "dm_seq d \<le> dm_seq d' \<and> set (dm_events d) \<subseteq> set (dm_events d')"
      proof
        assume "d' = snd (daemon_handle en entries req d)"
        then show ?thesis using handle_events [of d en entries req] by (simp only: simp_thms)
      qed simp
      moreover have "event_numbers ms = []" using parts(2) by auto
      ultimately show ?thesis using parts(3) ClientAsks by blast
    qed (use assms ClientAsks in simp)
  next
    case (SlowDone entries k)
    then show ?thesis
      using assms handled_events [of en entries "snd (cn_slow cn ! k)" d]
      by (auto simp del: daemon_handle.simps split: if_splits prod.splits)
  next
    case (Elsewhere a)
    then show ?thesis using assms step [of a] by (simp del: daemon_step.simps)
  qed (use assms in \<open>auto split: if_splits option.splits prod.splits\<close>)
  then show "dm_seq d \<le> dm_seq d'" "set (dm_events d) \<subseteq> set (dm_events d')"
    "(\<forall>r. s \<noteq> Received r) \<Longrightarrow> keeps_subscription s \<Longrightarrow> event_numbers ms = [] \<and> cn_forwarder cn' = cn_forwarder cn"
    by blast+
  show "(\<forall>a. s \<noteq> Elsewhere a) \<Longrightarrow> s = Received r \<Longrightarrow> d' = d"
    using assms by (auto split: option.splits prod.splits)
qed

definition covered :: "server_message list \<Rightarrow> ('g, 'e, 'f, 'w, 'x) daemon \<Rightarrow> nat \<Rightarrow> bool" where
  "covered ms d n \<longleftrightarrow>
     (\<exists>ev. MsgEvent n ev \<in> set ms \<and> (n, ev) \<in> set (dm_events d)) \<or>
     (\<exists>m k st q. MsgEvent m (Ev_Resync k m st q) \<in> set ms \<and> n \<le> m)"

lemma covered_later:
  "covered ms d n \<Longrightarrow> set ms \<subseteq> set ms' \<Longrightarrow> set (dm_events d) \<subseteq> set (dm_events d') \<Longrightarrow> covered ms' d' n"
  unfolding covered_def by blast

text \<open>
  What has been told to the subscriber: all from \<open>n0\<close> up to what it has seen and up to what its
  forwarder got, in order.
\<close>

definition told :: "nat \<Rightarrow> server_message list \<Rightarrow> nat \<Rightarrow> nat \<Rightarrow> ('g, 'e, 'f, 'w, 'x) daemon \<Rightarrow> bool" where
  "told n0 ms cur seen d \<longleftrightarrow>
     (\<forall>n. n0 < n \<and> n \<le> max cur seen \<longrightarrow> covered ms d n) \<and> cur \<le> dm_seq d \<and> seen \<le> dm_seq d \<and>
     sorted (event_numbers ms) \<and> (\<forall>n \<in> set (event_numbers ms). n \<le> seen)"

lemma told_later:
  "told n0 ms cur seen d \<Longrightarrow> dm_seq d \<le> dm_seq d' \<Longrightarrow> set (dm_events d) \<subseteq> set (dm_events d') \<Longrightarrow>
   event_numbers ms' = [] \<Longrightarrow> told n0 (ms @ ms') cur seen d'"
  unfolding told_def using covered_later [of ms d _ "ms @ ms'" d'] by auto

lemma told_event:
  assumes "told n0 ms cur seen d" "n = cur + 1" "(n, ev) \<in> set (dm_events d)" "n \<le> dm_seq d"
  shows "n \<le> seen \<Longrightarrow> told n0 ms n seen d"
    and "seen < n \<Longrightarrow> told n0 (ms @ [MsgEvent n ev]) n n d"
proof -
  show "n \<le> seen \<Longrightarrow> told n0 ms n seen d" using assms by (simp add: told_def max_def)
  assume later: "seen < n"
  have "covered (ms @ [MsgEvent n ev]) d m" if "n0 < m" "m \<le> n" for m
  proof (cases "m = n")
    case True
    then show ?thesis using assms(3) by (auto simp: covered_def)
  next
    case False
    then have "covered ms d m" using assms(1,2) that later by (simp add: told_def max_def)
    then show ?thesis by (rule covered_later) auto
  qed
  then show "told n0 (ms @ [MsgEvent n ev]) n n d"
    using assms(1,4) later by (auto simp: told_def sorted_append)
qed

lemma told_resync:
  assumes "told n0 ms cur seen d" "cur + k \<le> dm_seq d"
  shows "told n0 (ms @ [MsgEvent (dm_seq d) (Ev_Resync k (dm_seq d) st q)]) (cur + k) (dm_seq d) d"
  using assms by (fastforce simp: told_def covered_def sorted_append)

lemma numbered_bound:
  "numbered d \<Longrightarrow> (n, ev) \<in> set (dm_events d) \<Longrightarrow> n \<le> dm_seq d"
proof -
  assume "numbered d" "(n, ev) \<in> set (dm_events d)"
  then have "n \<in> set (rev [1..<Suc (dm_seq d)])" unfolding numbered_def by (metis fst_conv in_set_zipE zip_map_fst_snd)
  then show ?thesis by auto
qed

lemma serve_step_numbered:
  assumes "serve_step en s (cn, d) = (ms, cn', d')" "numbered d"
  shows "numbered d'"
proof (cases "(\<exists>entries i req. s = ClientAsks entries i req) \<or> (\<exists>entries k. s = SlowDone entries k)")
  case True
  have h: "numbered (snd (daemon_handle en entries req d))" for entries req
    using assms(2) by (rule events_numbered.handled)
  from True show ?thesis
  proof (elim disjE exE)
    fix entries i req assume "s = ClientAsks entries i req"
    then show ?thesis
      using assms h serve_request_parts(1) [of en entries i req cn d ms cn' d'] by (auto split: if_splits)
  next
    fix entries k assume "s = SlowDone entries k"
    then show ?thesis
      using assms h [of entries "snd (cn_slow cn ! k)"]
      by (cases "daemon_handle en entries (snd (cn_slow cn ! k)) d")
        (auto simp del: daemon_handle.simps split: if_splits)
  qed
next
  case False
  have e: "numbered (daemon_step en a d)" for a using assms(2) by (rule events_numbered.step_keeps)
  from False show ?thesis
    using assms e by (cases s) (auto simp del: daemon_step.simps split: if_splits option.splits prod.splits)
qed

lemma no_forwarder_stays:
  assumes "serve en ss (cn, d) = (ms, cn', d')" "\<forall>s \<in> set ss. keeps_subscription s" "cn_forwarder cn = None"
  shows "cn_forwarder cn' = None"
  using assms
proof (induction ss arbitrary: ms cn d)
  case (Cons s ss)
  obtain ms1 cn1 d1 where one: "serve_step en s (cn, d) = (ms1, cn1, d1)" by (metis prod_cases3)
  obtain ms2 where rest: "serve en ss (cn1, d1) = (ms2, cn', d')"
    using Cons.prems(1) one by (auto split: prod.splits)
  have "cn_forwarder cn1 = None"
    using serve_step_events(3) [OF one] Cons.prems(2,3) one by (cases "\<exists>r. s = Received r") auto
  then show ?case using Cons.IH [OF rest] Cons.prems(2) by simp
qed simp

lemma channel_told:
  assumes "serve en ss (cn, d) = (ms, cn', d')" "\<forall>s \<in> set ss. keeps_subscription s"
    and "channel en ss cur (cn, d) = Some cur'" "cn_forwarder cn' = Some seen'"
    and "told n0 ms0 cur seen d" "cn_forwarder cn = Some seen" "numbered d"
  shows "told n0 (ms0 @ ms) cur' seen' d'"
  using assms
proof (induction ss arbitrary: ms0 ms cn d cur seen)
  case Nil
  then show ?case by simp
next
  case (Cons s ss)
  obtain ms1 cn1 d1 where one: "serve_step en s (cn, d) = (ms1, cn1, d1)" by (metis prod_cases3)
  obtain ms2 where rest: "serve en ss (cn1, d1) = (ms2, cn', d')" and ms: "ms = ms1 @ ms2"
    using Cons.prems(1) one by (auto split: prod.splits)
  note later = serve_step_events [OF one]
  have IH: "told n0 (ms0 @ ms1 @ ms2) cur' seen' d'"
    if "channel en ss c (cn1, d1) = Some cur'" "told n0 (ms0 @ ms1) c x d1" "cn_forwarder cn1 = Some x" for c x
    using Cons.IH [OF rest _ that(1) Cons.prems(4) that(2,3) serve_step_numbered [OF one Cons.prems(7)]]
      Cons.prems(2) by simp
  have still: "cn_forwarder cn1 \<noteq> None"
    using no_forwarder_stays [OF rest] Cons.prems(2,4) by auto
  note published = numbered_bound [OF Cons.prems(7)]
  show ?case
  proof (cases "\<exists>r. s = Received r")
    case False
    then have quiet0: "event_numbers ms1 = []" "cn_forwarder cn1 = Some seen"
      using later(3) Cons.prems(2,6) by auto
    have "channel en ss cur (cn1, d1) = Some cur'"
      using Cons.prems(3) one False by (cases s) (simp_all add: Let_def del: serve_step.simps)
    with quiet0 show ?thesis using IH told_later [OF Cons.prems(5) later(1,2) quiet0(1)] ms by simp
  next
    case True
    then obtain r where r: "s = Received r" by blast
    have d1: "d1 = d" and f: "forward_event en r seen d = (ms1, cn_forwarder cn1)"
      using one r Cons.prems(6) by (auto split: prod.splits)
    show ?thesis
    proof (cases r)
      case (Got n ev)
      then have n: "n = cur + 1" "(n, ev) \<in> set (dm_events d)" and c: "channel en ss n (cn1, d1) = Some cur'"
        using Cons.prems(3) one r by (simp_all add: Let_def del: serve_step.simps split: if_splits)
      note event = told_event [OF Cons.prems(5) n published [OF n(2)]]
      show ?thesis
      proof (cases "n \<le> seen")
        case True
        then show ?thesis using f Got IH [OF c, of seen] event(1) ms d1 by (auto simp: forward_event_def)
      next
        case False
        with f Got have "ms1 = [MsgEvent n ev]" by (simp add: forward_event_def)
        moreover have "cn_forwarder cn1 = Some n"
          using f Got False still by (auto simp: forward_event_def split: if_splits)
        ultimately show ?thesis using IH [OF c, of n] event(2) False ms d1 by simp
      qed
    next
      case (Lagged k)
      then have k: "cur + k \<le> dm_seq d" and c: "channel en ss (cur + k) (cn1, d1) = Some cur'"
        using Cons.prems(3) one r by (simp_all add: Let_def del: serve_step.simps split: if_splits)
      obtain st q where snap: "daemon_snapshot en d = (dm_seq d, st, q)" by (metis daemon_snapshot_def prod.exhaust)
      then have "ms1 = [MsgEvent (dm_seq d) (Ev_Resync k (dm_seq d) st q)]" "cn_forwarder cn1 = Some (dm_seq d)"
        using f Lagged by (auto simp: forward_event_def)
      then show ?thesis
        using IH [OF c, of "dm_seq d"] told_resync [OF Cons.prems(5) k, of st q] ms d1 by simp
    qed (use f still in \<open>simp add: forward_event_def\<close>)
  qed
qed

text \<open>
  C37. A client that subscribes misses nothing: every event after the snapshot it is answered, up to the last
  its forwarder got or lost, is sent to it as it is, or is made up for by a later snapshot; and the
  numbers it sees never go back.
\<close>

theorem subscriber_misses_nothing:
  assumes "d = daemon_run en acts (daemon_started ctl ou w x limits reports recent)"
    and "cn_open cn" "cn_handshaken cn" "\<forall>s \<in> set ss. keeps_subscription s"
    and "subscribed = cn\<lparr>cn_forwarder := Some (dm_seq d)\<rparr>"
    and "serve en (ClientAsks entries i ReqSubscribe # ss) (cn, d) = (ms, cn', d')"
    and "channel en ss (dm_seq d) (subscribed, d) = Some cur" "cn_forwarder cn' = Some seen"
  shows "(\<forall>n \<in> {dm_seq d <.. max cur seen}. covered ms d' n) \<and> sorted (event_numbers ms)"
proof -
  have "numbered (daemon_started ctl ou w x limits reports recent)" by (simp add: numbered_def daemon_started_def)
  then have numbered: "numbered d" unfolding assms(1) by (rule events_numbered.run_keeps)
  obtain st q where snap: "daemon_snapshot en d = (dm_seq d, st, q)" by (metis daemon_snapshot_def prod.exhaust)
  define ms0 where "ms0 = [MsgResponse i (ReplyOk (PaySnapshot (dm_seq d) st q))]"
  have first: "serve_step en (ClientAsks entries i ReqSubscribe) (cn, d) = (ms0, subscribed, d)"
    using assms(2,3,5) by (simp add: serve_request_def subscribe_def snap ms0_def)
  obtain ms1 where rest: "serve en ss (subscribed, d) = (ms1, cn', d')" and ms: "ms = ms0 @ ms1"
    using assms(6) first by (auto split: prod.splits)
  have "told (dm_seq d) ms0 (dm_seq d) (dm_seq d) d" by (auto simp: told_def ms0_def)
  from channel_told [OF rest assms(4,7,8) this _ numbered] show ?thesis
    using assms(5) ms by (simp add: told_def)
qed

lemma subscriber_misses_nothing_witness:
  "\<exists>ms cn' d'. serve demo_env [ClientAsks [] 2 ReqSubscribe, Elsewhere OutputsChanged, Elsewhere OutputsChanged,
      Received (Lagged 1), Received (Got 2 Ev_OutputsChanged)]
      (connection_new\<lparr>cn_handshaken := True\<rparr>, demo_daemon) = (ms, cn', d') \<and>
     covered ms d' 1 \<and> covered ms d' 2"
proof -
  let ?cn = "connection_new\<lparr>cn_handshaken := True\<rparr>"
  let ?ss = "[Elsewhere OutputsChanged, Elsewhere OutputsChanged, Received (Lagged 1), Received (Got 2 Ev_OutputsChanged)]
    :: (nat, status \<times> command list, nat \<Rightarrow> fake_volume) served_step list"
  have start: "demo_daemon = daemon_run demo_env [] (daemon_started demo_control
      ((outputs_new (Shared None))\<lparr>ou_factory := Some 0\<rparr>)
      (\<lambda>_. \<lparr>fv_state = default_volume, fv_handler = False, fv_fail = False, fv_told = []\<rparr>) () None False [])"
    by (simp add: daemon_run_def demo_daemon_def)
  obtain ms cn' d' where r: "serve demo_env (ClientAsks [] 2 ReqSubscribe # ?ss) (?cn, demo_daemon) = (ms, cn', d')"
    by (metis prod_cases3)
  have "cn_forwarder cn' = Some 2 \<and>
      channel demo_env ?ss (dm_seq demo_daemon) (?cn\<lparr>cn_forwarder := Some (dm_seq demo_daemon)\<rparr>, demo_daemon) = Some 2"
    using r
    by (auto simp: serve_request_def subscribe_def forward_event_def daemon_snapshot_def connection_new_def demo_daemon_def
        daemon_started_def outputs_changed_def publish_def Let_def split: prod.splits)
  then have "(\<forall>n \<in> {dm_seq demo_daemon <.. max 2 2}. covered ms d' n) \<and> sorted (event_numbers ms)"
    by (intro subscriber_misses_nothing [OF start _ _ _ refl r]) (simp_all add: connection_new_def)
  then show ?thesis using r by (auto simp: demo_daemon_def daemon_started_def)
qed

end
