(* ===== verification/Tui_Views.thy ===== *)
theory Tui_Views
  imports Tui_Lists
begin

text \<open>
  What the terminal interface shows of the catalog: the albums, playlists, artists and folders opened
  one from another (\<^verbatim>\<open>browse.rs\<close>), the search (\<^verbatim>\<open>search.rs\<close>) and the library (\<^verbatim>\<open>library.rs\<close>). A
  reference into one of these is here the value and a way to put a new one in its place.
\<close>

section \<open>What is opened\<close>

datatype header = HeadAlbum album_summary | HeadPlaylist playlist_summary | HeadRadio string

definition header_title :: "header \<Rightarrow> string" where
  "header_title h =
     (case h of HeadAlbum a \<Rightarrow> sa_title a | HeadPlaylist p \<Rightarrow> sp_title p | HeadRadio title \<Rightarrow> title)"

definition header_cover :: "header \<Rightarrow> string option" where
  "header_cover h = (case h of HeadAlbum a \<Rightarrow> sa_cover a | HeadPlaylist p \<Rightarrow> sp_cover p | HeadRadio _ \<Rightarrow> None)"

record track_list_view =
  tl_of :: catalog_ref
  tl_header :: header
  tl_phase :: phase
  tl_tracks :: "track_summary found"

definition track_list_new :: "catalog_ref \<Rightarrow> header \<Rightarrow> track_list_view" where
  "track_list_new from0 h = \<lparr>tl_of = from0, tl_header = h, tl_phase = PhaseLoading, tl_tracks = found_new\<rparr>"

datatype artist_tab = TabTopTracks | TabArtistAlbums | TabSingles | TabSimilar

definition artist_tabs :: "artist_tab list" where
  "artist_tabs = [TabTopTracks, TabArtistAlbums, TabSingles, TabSimilar]"

definition artist_tab_title :: "artist_tab \<Rightarrow> string" where
  "artist_tab_title t =
     (case t of TabTopTracks \<Rightarrow> ''Top tracks'' | TabArtistAlbums \<Rightarrow> ''Albums'' | TabSingles \<Rightarrow> ''EPs & singles''
      | TabSimilar \<Rightarrow> ''Fans also like'')"

text \<open>The tabs to the right and to the left, as all the interface's tabs have them.\<close>

definition tab_index :: "'t list \<Rightarrow> 't \<Rightarrow> nat" where
  "tab_index tabs t = (case position_of (\<lambda>u. u = t) tabs of Some i \<Rightarrow> i | None \<Rightarrow> 0)"

definition tab_next :: "'t list \<Rightarrow> 't \<Rightarrow> 't" where
  "tab_next tabs t = tabs ! min (tab_index tabs t + 1) (length tabs - 1)"

definition tab_previous :: "'t list \<Rightarrow> 't \<Rightarrow> 't" where
  "tab_previous tabs t = tabs ! (tab_index tabs t - 1)"

record artist_view =
  av_id :: string
  av_name :: string
  av_picture :: "string option"
  av_bio :: "string option"
  av_phase :: phase
  av_tab :: artist_tab
  av_top_tracks :: "track_summary found"
  av_albums :: "album_summary found"
  av_singles :: "album_summary found"
  av_similar :: "artist_summary found"
  av_similar_failed :: bool

definition artist_view_new :: "string \<Rightarrow> string \<Rightarrow> string option \<Rightarrow> artist_view" where
  "artist_view_new i name picture =
     \<lparr>av_id = i, av_name = name, av_picture = picture, av_bio = None, av_phase = PhaseLoading,
      av_tab = TabTopTracks, av_top_tracks = found_new, av_albums = found_new, av_singles = found_new,
      av_similar = found_new, av_similar_failed = False\<rparr>"

record folder_view =
  fw_folder :: "string option"
  fw_name :: string
  fw_phase :: phase
  fw_entries :: "folder_entry found"

definition folder_view_new :: "string option \<Rightarrow> string \<Rightarrow> folder_view" where
  "folder_view_new folder name =
     \<lparr>fw_folder = folder, fw_name = name, fw_phase = PhaseLoading, fw_entries = found_new\<rparr>"

datatype view = ViewTracks track_list_view | ViewArtist artist_view | ViewFolder folder_view

definition view_title :: "view \<Rightarrow> string" where
  "view_title v =
     (case v of ViewTracks t \<Rightarrow> header_title (tl_header t) | ViewArtist a \<Rightarrow> av_name a | ViewFolder f \<Rightarrow> fw_name f)"

definition view_phase :: "view \<Rightarrow> phase" where
  "view_phase v = (case v of ViewTracks t \<Rightarrow> tl_phase t | ViewArtist a \<Rightarrow> av_phase a | ViewFolder f \<Rightarrow> fw_phase f)"

text \<open>The list a view shows: how long it is, its cursor, and the view with another cursor.\<close>

definition view_len :: "view \<Rightarrow> nat" where
  "view_len v =
     (case v of
        ViewTracks t \<Rightarrow> length (fd_items (tl_tracks t))
      | ViewArtist a \<Rightarrow>
          (case av_tab a of
             TabTopTracks \<Rightarrow> length (fd_items (av_top_tracks a))
           | TabArtistAlbums \<Rightarrow> length (fd_items (av_albums a))
           | TabSingles \<Rightarrow> length (fd_items (av_singles a))
           | TabSimilar \<Rightarrow> length (fd_items (av_similar a)))
      | ViewFolder f \<Rightarrow> length (fd_items (fw_entries f)))"

definition view_cursor :: "view \<Rightarrow> cursor" where
  "view_cursor v =
     (case v of
        ViewTracks t \<Rightarrow> fd_cursor (tl_tracks t)
      | ViewArtist a \<Rightarrow>
          (case av_tab a of
             TabTopTracks \<Rightarrow> fd_cursor (av_top_tracks a)
           | TabArtistAlbums \<Rightarrow> fd_cursor (av_albums a)
           | TabSingles \<Rightarrow> fd_cursor (av_singles a)
           | TabSimilar \<Rightarrow> fd_cursor (av_similar a))
      | ViewFolder f \<Rightarrow> fd_cursor (fw_entries f))"

definition with_cursor :: "cursor \<Rightarrow> 'a found \<Rightarrow> 'a found" where
  "with_cursor c f = f\<lparr>fd_cursor := c\<rparr>"

definition set_view_cursor :: "cursor \<Rightarrow> view \<Rightarrow> view" where
  "set_view_cursor c v =
     (case v of
        ViewTracks t \<Rightarrow> ViewTracks (t\<lparr>tl_tracks := with_cursor c (tl_tracks t)\<rparr>)
      | ViewArtist a \<Rightarrow> ViewArtist
          (case av_tab a of
             TabTopTracks \<Rightarrow> a\<lparr>av_top_tracks := with_cursor c (av_top_tracks a)\<rparr>
           | TabArtistAlbums \<Rightarrow> a\<lparr>av_albums := with_cursor c (av_albums a)\<rparr>
           | TabSingles \<Rightarrow> a\<lparr>av_singles := with_cursor c (av_singles a)\<rparr>
           | TabSimilar \<Rightarrow> a\<lparr>av_similar := with_cursor c (av_similar a)\<rparr>)
      | ViewFolder f \<Rightarrow> ViewFolder (f\<lparr>fw_entries := with_cursor c (fw_entries f)\<rparr>))"

section \<open>The stack of what is opened\<close>

type_synonym stack = "(nat \<times> view) list"

definition stack_push :: "nat \<Rightarrow> view \<Rightarrow> stack \<Rightarrow> stack" where
  "stack_push serial v s = s @ [(serial, v)]"

definition stack_pop :: "stack \<Rightarrow> bool \<times> stack" where
  "stack_pop s = (s \<noteq> [], butlast s)"

definition stack_top :: "stack \<Rightarrow> view option" where
  "stack_top s = map_option snd (last_of s)"

definition stack_top_serial :: "stack \<Rightarrow> nat option" where
  "stack_top_serial s = map_option fst (last_of s)"

definition set_stack_top :: "view \<Rightarrow> stack \<Rightarrow> stack" where
  "set_stack_top v s = (if s = [] then [] else butlast s @ [(fst (last s), v)])"

definition stack_titles :: "stack \<Rightarrow> string list" where
  "stack_titles s = map (view_title \<circ> snd) s"

fun stack_find :: "nat \<Rightarrow> stack \<Rightarrow> view option" where
  "stack_find serial [] = None"
| "stack_find serial ((n, v) # s) = (if n = serial then Some v else stack_find serial s)"

fun stack_put :: "nat \<Rightarrow> view \<Rightarrow> stack \<Rightarrow> stack" where
  "stack_put serial w [] = []"
| "stack_put serial w ((n, v) # s) = (if n = serial then (n, w) # s else (n, v) # stack_put serial w s)"

definition lost :: string where
  "lost = ''the connection to the daemon was lost''"

definition phase_lost :: "phase \<Rightarrow> phase" where
  "phase_lost p = (if p = PhaseLoading then PhaseFailed lost else p)"

definition view_lost :: "view \<Rightarrow> view" where
  "view_lost v =
     (case v of
        ViewTracks t \<Rightarrow> ViewTracks (t\<lparr>tl_phase := phase_lost (tl_phase t)\<rparr>)
      | ViewArtist a \<Rightarrow> ViewArtist (a\<lparr>av_phase := phase_lost (av_phase a)\<rparr>)
      | ViewFolder f \<Rightarrow> ViewFolder (f\<lparr>fw_phase := phase_lost (fw_phase f)\<rparr>))"

definition stack_lost :: "stack \<Rightarrow> stack" where
  "stack_lost s = map (\<lambda>(n, v). (n, view_lost v)) s"

section \<open>The search\<close>

definition page_size :: nat where
  "page_size = 50"

datatype search_tab = TabTracks | TabAlbums | TabArtists | TabPlaylists

definition search_tabs :: "search_tab list" where
  "search_tabs = [TabTracks, TabAlbums, TabArtists, TabPlaylists]"

definition search_tab_title :: "search_tab \<Rightarrow> string" where
  "search_tab_title t =
     (case t of TabTracks \<Rightarrow> ''Tracks'' | TabAlbums \<Rightarrow> ''Albums'' | TabArtists \<Rightarrow> ''Artists'' | TabPlaylists \<Rightarrow> ''Playlists'')"

fun tab_kind :: "search_tab \<Rightarrow> catalog_kind" where
  "tab_kind TabTracks = Ipc_Tracks"
| "tab_kind TabAlbums = Ipc_Albums"
| "tab_kind TabArtists = Ipc_Artists"
| "tab_kind TabPlaylists = Ipc_Playlists"

datatype search_row =
    SelTrack track_summary
  | SelAlbum album_summary
  | SelArtist artist_summary
  | SelPlaylist playlist_summary

datatype search_phase = SearchIdle | Searching | SearchFailed string | SearchDone

record search_state =
  se_query :: string
  se_generation :: nat
  se_phase :: search_phase
  se_tab :: search_tab
  se_tracks :: "track_summary found"
  se_albums :: "album_summary found"
  se_artists :: "artist_summary found"
  se_playlists :: "playlist_summary found"
  se_input :: text_input
  se_editing :: bool

definition search_new :: search_state where
  "search_new =
     \<lparr>se_query = [], se_generation = 0, se_phase = SearchIdle, se_tab = TabTracks, se_tracks = found_new,
      se_albums = found_new, se_artists = found_new, se_playlists = found_new, se_input = input_new,
      se_editing = False\<rparr>"

definition search_cursors :: "search_state \<Rightarrow> cursor list" where
  "search_cursors s =
     [fd_cursor (se_tracks s), fd_cursor (se_albums s), fd_cursor (se_artists s), fd_cursor (se_playlists s)]"

definition search_list_len :: "search_state \<Rightarrow> nat" where
  "search_list_len s =
     (case se_tab s of
        TabTracks \<Rightarrow> length (fd_items (se_tracks s))
      | TabAlbums \<Rightarrow> length (fd_items (se_albums s))
      | TabArtists \<Rightarrow> length (fd_items (se_artists s))
      | TabPlaylists \<Rightarrow> length (fd_items (se_playlists s)))"

definition search_list_cursor :: "search_state \<Rightarrow> cursor" where
  "search_list_cursor s =
     (case se_tab s of
        TabTracks \<Rightarrow> fd_cursor (se_tracks s)
      | TabAlbums \<Rightarrow> fd_cursor (se_albums s)
      | TabArtists \<Rightarrow> fd_cursor (se_artists s)
      | TabPlaylists \<Rightarrow> fd_cursor (se_playlists s))"

definition set_search_cursor :: "cursor \<Rightarrow> search_state \<Rightarrow> search_state" where
  "set_search_cursor c s =
     (case se_tab s of
        TabTracks \<Rightarrow> s\<lparr>se_tracks := with_cursor c (se_tracks s)\<rparr>
      | TabAlbums \<Rightarrow> s\<lparr>se_albums := with_cursor c (se_albums s)\<rparr>
      | TabArtists \<Rightarrow> s\<lparr>se_artists := with_cursor c (se_artists s)\<rparr>
      | TabPlaylists \<Rightarrow> s\<lparr>se_playlists := with_cursor c (se_playlists s)\<rparr>)"

definition search_begin :: "string \<Rightarrow> search_state \<Rightarrow> request \<times> search_state" where
  "search_begin query s =
     (ReqSearch query [] 0 (Some page_size),
      s\<lparr>se_generation := se_generation s + 1, se_query := query, se_phase := Searching, se_tracks := found_new,
        se_albums := found_new, se_artists := found_new, se_playlists := found_new\<rparr>)"

definition search_fail :: "string \<Rightarrow> search_state \<Rightarrow> search_state" where
  "search_fail reason s = s\<lparr>se_phase := SearchFailed reason\<rparr>"

definition found_of :: "'a page option \<Rightarrow> 'a found" where
  "found_of p = (case p of Some p \<Rightarrow> from_page p | None \<Rightarrow> found_new)"

definition search_finish :: "reply_payload \<Rightarrow> search_state \<Rightarrow> bool \<times> search_state" where
  "search_finish p s =
     (case p of
        PaySearchResults _ tracks albums artists playlists \<Rightarrow>
          (True, s\<lparr>se_tracks := found_of tracks, se_albums := found_of albums, se_artists := found_of artists,
                   se_playlists := found_of playlists, se_phase := SearchDone\<rparr>)
      | _ \<Rightarrow> (False, search_fail ''the daemon answered something other than search results'' s))"

definition search_next_offset :: "search_tab \<Rightarrow> search_state \<Rightarrow> nat option \<times> search_state" where
  "search_next_offset t s =
     (case t of
        TabTracks \<Rightarrow> (case next_offset (se_tracks s) of (n, f) \<Rightarrow> (n, s\<lparr>se_tracks := f\<rparr>))
      | TabAlbums \<Rightarrow> (case next_offset (se_albums s) of (n, f) \<Rightarrow> (n, s\<lparr>se_albums := f\<rparr>))
      | TabArtists \<Rightarrow> (case next_offset (se_artists s) of (n, f) \<Rightarrow> (n, s\<lparr>se_artists := f\<rparr>))
      | TabPlaylists \<Rightarrow> (case next_offset (se_playlists s) of (n, f) \<Rightarrow> (n, s\<lparr>se_playlists := f\<rparr>)))"

definition search_next_page :: "search_tab \<Rightarrow> search_state \<Rightarrow> request option \<times> search_state" where
  "search_next_page t s =
     (if se_phase s \<noteq> SearchDone then (None, s)
      else case search_next_offset t s of
             (None, s) \<Rightarrow> (None, s)
           | (Some offset, s) \<Rightarrow> (Some (ReqSearch (se_query s) [tab_kind t] offset (Some page_size)), s))"

definition not_loading :: "'a found \<Rightarrow> 'a found" where
  "not_loading f = f\<lparr>fd_loading := False\<rparr>"

definition search_page_failed :: "search_tab \<Rightarrow> search_state \<Rightarrow> search_state" where
  "search_page_failed t s =
     (case t of
        TabTracks \<Rightarrow> s\<lparr>se_tracks := not_loading (se_tracks s)\<rparr>
      | TabAlbums \<Rightarrow> s\<lparr>se_albums := not_loading (se_albums s)\<rparr>
      | TabArtists \<Rightarrow> s\<lparr>se_artists := not_loading (se_artists s)\<rparr>
      | TabPlaylists \<Rightarrow> s\<lparr>se_playlists := not_loading (se_playlists s)\<rparr>)"

definition search_add_page :: "search_tab \<Rightarrow> reply_payload \<Rightarrow> search_state \<Rightarrow> search_state" where
  "search_add_page t p s =
     (case p of
        PaySearchResults _ tracks albums artists playlists \<Rightarrow>
          (case t of
             TabTracks \<Rightarrow> s\<lparr>se_tracks := append_page tracks (se_tracks s)\<rparr>
           | TabAlbums \<Rightarrow> s\<lparr>se_albums := append_page albums (se_albums s)\<rparr>
           | TabArtists \<Rightarrow> s\<lparr>se_artists := append_page artists (se_artists s)\<rparr>
           | TabPlaylists \<Rightarrow> s\<lparr>se_playlists := append_page playlists (se_playlists s)\<rparr>)
      | _ \<Rightarrow> search_page_failed t s)"

definition selected_of :: "'a found \<Rightarrow> 'a option" where
  "selected_of f = get_at (fd_items f) (cu_selected (fd_cursor f))"

definition search_selected :: "search_state \<Rightarrow> search_row option" where
  "search_selected s =
     (case se_tab s of
        TabTracks \<Rightarrow> map_option SelTrack (selected_of (se_tracks s))
      | TabAlbums \<Rightarrow> map_option SelAlbum (selected_of (se_albums s))
      | TabArtists \<Rightarrow> map_option SelArtist (selected_of (se_artists s))
      | TabPlaylists \<Rightarrow> map_option SelPlaylist (selected_of (se_playlists s)))"

definition search_lost :: "search_state \<Rightarrow> search_state" where
  "search_lost s =
     (if se_phase s = Searching
      then s\<lparr>se_generation := se_generation s + 1, se_phase := SearchFailed lost\<rparr> else s)"

definition search_total :: "search_tab \<Rightarrow> search_state \<Rightarrow> nat" where
  "search_total t s =
     (case t of
        TabTracks \<Rightarrow> fd_total (se_tracks s)
      | TabAlbums \<Rightarrow> fd_total (se_albums s)
      | TabArtists \<Rightarrow> fd_total (se_artists s)
      | TabPlaylists \<Rightarrow> fd_total (se_playlists s))"

section \<open>The library\<close>

datatype library_tab = TabFavoriteTracks | TabFavoriteAlbums | TabFavoriteArtists | TabFolders

definition library_tabs :: "library_tab list" where
  "library_tabs = [TabFavoriteTracks, TabFavoriteAlbums, TabFavoriteArtists, TabFolders]"

definition library_tab_title :: "library_tab \<Rightarrow> string" where
  "library_tab_title t =
     (case t of TabFavoriteTracks \<Rightarrow> ''Favorite tracks'' | TabFavoriteAlbums \<Rightarrow> ''Favorite albums''
      | TabFavoriteArtists \<Rightarrow> ''Favorite artists'' | TabFolders \<Rightarrow> ''Your playlists'')"

datatype library_row =
    LibTrack track_summary
  | LibAlbum album_summary
  | LibArtist artist_summary
  | LibEntry folder_entry

record library_state =
  li_generation :: nat
  li_phase :: phase
  li_tab :: library_tab
  li_favorite_tracks :: "track_summary found"
  li_favorite_albums :: "album_summary found"
  li_favorite_artists :: "artist_summary found"
  li_artists_phase :: phase
  li_playlists :: "folder_entry found"
  li_playlists_phase :: phase

definition library_request :: request where
  "library_request = ReqLibrary (Some page_size)"

definition library_new :: "library_state \<times> request" where
  "library_new =
     (\<lparr>li_generation = 0, li_phase = PhaseLoading, li_tab = TabFavoriteTracks, li_favorite_tracks = found_new,
       li_favorite_albums = found_new, li_favorite_artists = found_new, li_artists_phase = PhaseLoading,
       li_playlists = found_new, li_playlists_phase = PhaseLoading\<rparr>, library_request)"

definition playlist_request :: request where
  "playlist_request = ReqPlaylistFolder None 0 (Some page_size)"

definition artists_request :: request where
  "artists_request = ReqArtists ListFavoriteArtists 0 (Some page_size)"

definition library_cursors :: "library_state \<Rightarrow> cursor list" where
  "library_cursors l =
     [fd_cursor (li_favorite_tracks l), fd_cursor (li_favorite_albums l), fd_cursor (li_favorite_artists l),
      fd_cursor (li_playlists l)]"

definition library_list_len :: "library_state \<Rightarrow> nat" where
  "library_list_len l =
     (case li_tab l of
        TabFavoriteTracks \<Rightarrow> length (fd_items (li_favorite_tracks l))
      | TabFavoriteAlbums \<Rightarrow> length (fd_items (li_favorite_albums l))
      | TabFavoriteArtists \<Rightarrow> length (fd_items (li_favorite_artists l))
      | TabFolders \<Rightarrow> length (fd_items (li_playlists l)))"

definition library_list_cursor :: "library_state \<Rightarrow> cursor" where
  "library_list_cursor l =
     (case li_tab l of
        TabFavoriteTracks \<Rightarrow> fd_cursor (li_favorite_tracks l)
      | TabFavoriteAlbums \<Rightarrow> fd_cursor (li_favorite_albums l)
      | TabFavoriteArtists \<Rightarrow> fd_cursor (li_favorite_artists l)
      | TabFolders \<Rightarrow> fd_cursor (li_playlists l))"

definition set_library_cursor :: "cursor \<Rightarrow> library_state \<Rightarrow> library_state" where
  "set_library_cursor c l =
     (case li_tab l of
        TabFavoriteTracks \<Rightarrow> l\<lparr>li_favorite_tracks := with_cursor c (li_favorite_tracks l)\<rparr>
      | TabFavoriteAlbums \<Rightarrow> l\<lparr>li_favorite_albums := with_cursor c (li_favorite_albums l)\<rparr>
      | TabFavoriteArtists \<Rightarrow> l\<lparr>li_favorite_artists := with_cursor c (li_favorite_artists l)\<rparr>
      | TabFolders \<Rightarrow> l\<lparr>li_playlists := with_cursor c (li_playlists l)\<rparr>)"

definition library_fail :: "string \<Rightarrow> library_state \<Rightarrow> library_state" where
  "library_fail reason l = l\<lparr>li_phase := PhaseFailed reason\<rparr>"

definition library_finish :: "reply_payload \<Rightarrow> library_state \<Rightarrow> bool \<times> library_state" where
  "library_finish p l =
     (case p of
        PayLibrary tracks albums _ \<Rightarrow>
          (True, l\<lparr>li_favorite_tracks := from_page tracks, li_favorite_albums := from_page albums,
                   li_phase := PhaseDone\<rparr>)
      | _ \<Rightarrow> (False, library_fail ''the daemon answered something other than a library'' l))"

definition library_fail_playlists :: "string \<Rightarrow> library_state \<Rightarrow> library_state" where
  "library_fail_playlists reason l = l\<lparr>li_playlists_phase := PhaseFailed reason\<rparr>"

definition library_finish_playlists :: "reply_payload \<Rightarrow> library_state \<Rightarrow> bool \<times> library_state" where
  "library_finish_playlists p l =
     (case p of
        PayPlaylistFolder _ page \<Rightarrow> (True, l\<lparr>li_playlists := from_page page, li_playlists_phase := PhaseDone\<rparr>)
      | _ \<Rightarrow> (False, library_fail_playlists ''the daemon answered something other than a playlist folder'' l))"

definition library_fail_artists :: "string \<Rightarrow> library_state \<Rightarrow> library_state" where
  "library_fail_artists reason l = l\<lparr>li_artists_phase := PhaseFailed reason\<rparr>"

definition library_finish_artists :: "reply_payload \<Rightarrow> library_state \<Rightarrow> bool \<times> library_state" where
  "library_finish_artists p l =
     (case p of
        PayArtists _ page \<Rightarrow> (True, l\<lparr>li_favorite_artists := from_page page, li_artists_phase := PhaseDone\<rparr>)
      | _ \<Rightarrow> (False, library_fail_artists ''the daemon answered something other than a list of artists'' l))"

definition tab_ready :: "library_tab \<Rightarrow> library_state \<Rightarrow> bool" where
  "tab_ready t l \<longleftrightarrow>
     (case t of
        TabFolders \<Rightarrow> li_playlists_phase l = PhaseDone
      | TabFavoriteArtists \<Rightarrow> li_artists_phase l = PhaseDone
      | _ \<Rightarrow> li_phase l = PhaseDone)"

definition library_next_page :: "library_tab \<Rightarrow> library_state \<Rightarrow> request option \<times> library_state" where
  "library_next_page t l =
     (if \<not> tab_ready t l then (None, l)
      else case t of
        TabFavoriteTracks \<Rightarrow>
          (case next_offset (li_favorite_tracks l) of
             (n, f) \<Rightarrow> (map_option (\<lambda>n. ReqTracks RefFavoriteTracks n (Some page_size)) n, l\<lparr>li_favorite_tracks := f\<rparr>))
      | TabFavoriteAlbums \<Rightarrow>
          (case next_offset (li_favorite_albums l) of
             (n, f) \<Rightarrow> (map_option (\<lambda>n. ReqAlbums ListFavoriteAlbums n (Some page_size)) n, l\<lparr>li_favorite_albums := f\<rparr>))
      | TabFavoriteArtists \<Rightarrow>
          (case next_offset (li_favorite_artists l) of
             (n, f) \<Rightarrow> (map_option (\<lambda>n. ReqArtists ListFavoriteArtists n (Some page_size)) n, l\<lparr>li_favorite_artists := f\<rparr>))
      | TabFolders \<Rightarrow>
          (case next_offset (li_playlists l) of
             (n, f) \<Rightarrow> (map_option (\<lambda>n. ReqPlaylistFolder None n (Some page_size)) n, l\<lparr>li_playlists := f\<rparr>)))"

definition library_page_failed :: "library_tab \<Rightarrow> library_state \<Rightarrow> library_state" where
  "library_page_failed t l =
     (case t of
        TabFavoriteTracks \<Rightarrow> l\<lparr>li_favorite_tracks := not_loading (li_favorite_tracks l)\<rparr>
      | TabFavoriteAlbums \<Rightarrow> l\<lparr>li_favorite_albums := not_loading (li_favorite_albums l)\<rparr>
      | TabFavoriteArtists \<Rightarrow> l\<lparr>li_favorite_artists := not_loading (li_favorite_artists l)\<rparr>
      | TabFolders \<Rightarrow> l\<lparr>li_playlists := not_loading (li_playlists l)\<rparr>)"

definition library_add_page :: "library_tab \<Rightarrow> reply_payload \<Rightarrow> library_state \<Rightarrow> library_state" where
  "library_add_page t p l =
     (case (t, p) of
        (TabFavoriteTracks, PayTracks _ page) \<Rightarrow>
          l\<lparr>li_favorite_tracks := append_page (Some page) (li_favorite_tracks l)\<rparr>
      | (TabFavoriteAlbums, PayAlbums _ page) \<Rightarrow>
          l\<lparr>li_favorite_albums := append_page (Some page) (li_favorite_albums l)\<rparr>
      | (TabFavoriteArtists, PayArtists _ page) \<Rightarrow>
          l\<lparr>li_favorite_artists := append_page (Some page) (li_favorite_artists l)\<rparr>
      | (TabFolders, PayPlaylistFolder _ page) \<Rightarrow> l\<lparr>li_playlists := append_page (Some page) (li_playlists l)\<rparr>
      | _ \<Rightarrow> library_page_failed t l)"

definition library_selected :: "library_state \<Rightarrow> library_row option" where
  "library_selected l =
     (case li_tab l of
        TabFavoriteTracks \<Rightarrow> map_option LibTrack (selected_of (li_favorite_tracks l))
      | TabFavoriteAlbums \<Rightarrow> map_option LibAlbum (selected_of (li_favorite_albums l))
      | TabFavoriteArtists \<Rightarrow> map_option LibArtist (selected_of (li_favorite_artists l))
      | TabFolders \<Rightarrow> map_option LibEntry (selected_of (li_playlists l)))"

definition library_lost :: "library_state \<Rightarrow> library_state" where
  "library_lost l =
     (let was_loading =
            (li_phase l = PhaseLoading \<or> li_playlists_phase l = PhaseLoading \<or> li_artists_phase l = PhaseLoading)
      in l\<lparr>li_phase := phase_lost (li_phase l), li_playlists_phase := phase_lost (li_playlists_phase l),
           li_artists_phase := phase_lost (li_artists_phase l),
           li_generation := li_generation l + (if was_loading then 1 else 0)\<rparr>)"

definition library_total :: "library_tab \<Rightarrow> library_state \<Rightarrow> nat" where
  "library_total t l =
     (case t of
        TabFavoriteTracks \<Rightarrow> fd_total (li_favorite_tracks l)
      | TabFavoriteAlbums \<Rightarrow> fd_total (li_favorite_albums l)
      | TabFavoriteArtists \<Rightarrow> fd_total (li_favorite_artists l)
      | TabFolders \<Rightarrow> fd_total (li_playlists l))"

end
