(* ===== verification/Tui_Keys.thy ===== *)
theory Tui_Keys
  imports Tui_Lists
begin

text \<open>
  The keys of the terminal interface (\<^verbatim>\<open>keymap.rs\<close>): one table, in which they are looked up and from
  which the help is made (\<^verbatim>\<open>view/help.rs\<close>). The key codes are those of the terminal library that the
  program uses; any other is \<open>KeyOther\<close>.
\<close>

datatype tui_action =
    ActQuit
  | ActToggleHelp
  | ActCloseHelp
  | ActVisual
  | ActReconnect
  | ActDown
  | ActUp
  | ActFirst
  | ActLast
  | ActHalfPageDown
  | ActHalfPageUp
  | ActFocusNext
  | ActFocusSidebar
  | ActFocusMain
  | ActSection nat
  | ActTogglePause
  | ActNext
  | ActPrevious
  | ActSeekBack
  | ActSeekForward
  | ActVolumeUp
  | ActVolumeDown
  | ActToggleMute
  | ActToggleShuffle
  | ActCycleRepeat
  | ActToggleAutoplay
  | ActActivate
  | ActRemoveEntry
  | ActMoveEntryDown
  | ActMoveEntryUp
  | ActClearQueue
  | ActStartSearch
  | ActTabNext
  | ActTabPrevious
  | ActAddToQueue
  | ActAddNext
  | ActOpenRadio
  | ActOpenArtist
  | ActOpenAlbum
  | ActFavorite catalog_kind bool
  | ActBack

datatype key_code =
    KeyChar ucs | KeyEnter | KeyEsc | KeyTab | KeyBackspace | KeyDelete | KeyLeft | KeyRight | KeyUp | KeyDown
  | KeyHome | KeyEnd | KeyOther nat

record key_event =
  ke_code :: key_code
  ke_control :: bool
  ke_alt :: bool

record key =
  ky_code :: key_code
  ky_control :: bool

definition plain_key :: "key_code \<Rightarrow> key" where
  "plain_key code = \<lparr>ky_code = code, ky_control = False\<rparr>"

definition key_char :: "char \<Rightarrow> key_code" where
  "key_char c = KeyChar (of_char c)"

definition ctrl_key :: "char \<Rightarrow> key" where
  "ctrl_key c = \<lparr>ky_code = key_char c, ky_control = True\<rparr>"

definition from_event :: "key_event \<Rightarrow> key" where
  "from_event e = \<lparr>ky_code = ke_code e, ky_control = ke_control e\<rparr>"

datatype key_group = GroupGeneral | GroupMovement | GroupPanels | GroupPlayback | GroupQueue | GroupSearch

definition group_title :: "key_group \<Rightarrow> string" where
  "group_title g =
     (case g of GroupGeneral \<Rightarrow> ''General'' | GroupMovement \<Rightarrow> ''Movement'' | GroupPanels \<Rightarrow> ''Panels''
      | GroupPlayback \<Rightarrow> ''Playback'' | GroupQueue \<Rightarrow> ''Queue'' | GroupSearch \<Rightarrow> ''Search'')"

record binding =
  bi_keys :: "key list"
  bi_label :: string
  bi_action :: tui_action
  bi_help :: string
  bi_group :: key_group

definition bind :: "key list \<Rightarrow> string \<Rightarrow> tui_action \<Rightarrow> string \<Rightarrow> key_group \<Rightarrow> binding" where
  "bind keys label a help g =
     \<lparr>bi_keys = keys, bi_label = label, bi_action = a, bi_help = help, bi_group = g\<rparr>"

definition bindings :: "binding list" where
  "bindings =
     [bind [plain_key (key_char (CHR ''q''))] ''q'' ActQuit
       ''quit'' GroupGeneral,
      bind [ctrl_key (CHR ''c'')] ''Ctrl-c'' ActQuit
       ''quit'' GroupGeneral,
      bind [plain_key (key_char (CHR ''?''))] ''?'' ActToggleHelp
       ''show or hide this help'' GroupGeneral,
      bind [plain_key KeyEsc] ''Esc'' ActCloseHelp
       ''close the help, or leave a block selection'' GroupGeneral,
      bind [plain_key (key_char (CHR ''R''))] ''R'' ActReconnect
       ''connect to the daemon now'' GroupGeneral,
      bind [plain_key (key_char (CHR ''j''))] ''j'' ActDown
       ''down'' GroupMovement,
      bind [plain_key KeyDown] ''Down'' ActDown
       ''down'' GroupMovement,
      bind [plain_key (key_char (CHR ''k''))] ''k'' ActUp
       ''up'' GroupMovement,
      bind [plain_key KeyUp] ''Up'' ActUp
       ''up'' GroupMovement,
      bind [plain_key (key_char (CHR ''g'')), plain_key (key_char (CHR ''g''))] ''gg'' ActFirst
       ''first row'' GroupMovement,
      bind [plain_key (key_char (CHR ''G''))] ''G'' ActLast
       ''last row'' GroupMovement,
      bind [plain_key (key_char (CHR ''V''))] ''V'' ActVisual
       ''mark a block of rows (queue, search tracks); Esc leaves'' GroupMovement,
      bind [ctrl_key (CHR ''d'')] ''Ctrl-d'' ActHalfPageDown
       ''half a page down'' GroupMovement,
      bind [ctrl_key (CHR ''u'')] ''Ctrl-u'' ActHalfPageUp
       ''half a page up'' GroupMovement,
      bind [plain_key KeyTab] ''Tab'' ActFocusNext
       ''next panel'' GroupPanels,
      bind [plain_key (key_char (CHR ''h''))] ''h'' ActFocusSidebar
       ''go to the sidebar'' GroupPanels,
      bind [plain_key KeyLeft] ''Left'' ActFocusSidebar
       ''go to the sidebar'' GroupPanels,
      bind [plain_key (key_char (CHR ''l''))] ''l'' ActFocusMain
       ''go to the list'' GroupPanels,
      bind [plain_key KeyRight] ''Right'' ActFocusMain
       ''go to the list'' GroupPanels,
      bind [plain_key KeyEnter] ''Enter'' ActActivate
       ''open the section, or play the selected track'' GroupPanels,
      bind [plain_key (key_char (CHR ''1''))] ''1'' (ActSection 0)
       ''Home'' GroupPanels,
      bind [plain_key (key_char (CHR ''2''))] ''2'' (ActSection 1)
       ''Queue'' GroupPanels,
      bind [plain_key (key_char (CHR ''3''))] ''3'' (ActSection 2)
       ''Search'' GroupPanels,
      bind [plain_key (key_char (CHR ''4''))] ''4'' (ActSection 3)
       ''Library'' GroupPanels,
      bind [plain_key (key_char (CHR ''5''))] ''5'' (ActSection 4)
       ''Lyrics'' GroupPanels,
      bind [plain_key (key_char (CHR '' ''))] ''Space'' ActTogglePause
       ''play or pause'' GroupPlayback,
      bind [plain_key (key_char (CHR ''n''))] ''n'' ActNext
       ''next track'' GroupPlayback,
      bind [plain_key (key_char (CHR ''p''))] ''p'' ActPrevious
       ''previous track'' GroupPlayback,
      bind [plain_key (key_char (CHR ''<''))] ''<'' ActSeekBack
       ''back 10 s'' GroupPlayback,
      bind [plain_key (key_char (CHR ''>''))] ''>'' ActSeekForward
       ''forward 10 s'' GroupPlayback,
      bind [plain_key (key_char (CHR ''+''))] ''+'' ActVolumeUp
       ''volume up'' GroupPlayback,
      bind [plain_key (key_char (CHR ''=''))] ''='' ActVolumeUp
       ''volume up'' GroupPlayback,
      bind [plain_key (key_char (CHR ''-''))] ''-'' ActVolumeDown
       ''volume down'' GroupPlayback,
      bind [plain_key (key_char (CHR ''m''))] ''m'' ActToggleMute
       ''mute or unmute'' GroupPlayback,
      bind [plain_key (key_char (CHR ''s''))] ''s'' ActToggleShuffle
       ''shuffle on or off'' GroupPlayback,
      bind [plain_key (key_char (CHR ''/''))] ''/'' ActStartSearch
       ''search TIDAL'' GroupSearch,
      bind [plain_key (key_char (CHR '']''))] '']'' ActTabNext
       ''next list of results'' GroupSearch,
      bind [plain_key (key_char (CHR ''[''))] ''['' ActTabPrevious
       ''previous list of results'' GroupSearch,
      bind [plain_key (key_char (CHR ''a''))] ''a'' ActAddToQueue
       ''add the result to the end of the queue'' GroupSearch,
      bind [plain_key (key_char (CHR ''A''))] ''A'' ActAddNext
       ''add the result after the track playing'' GroupSearch,
      bind [plain_key (key_char (CHR ''o''))] ''o'' ActOpenRadio
       (''open the track'' @ [CHR 0x27] @ ''s radio'') GroupSearch,
      bind [plain_key (key_char (CHR ''g'')), plain_key (key_char (CHR ''a''))] ''ga'' ActOpenArtist
       ''open the artist of the track under the cursor'' GroupSearch,
      bind [plain_key (key_char (CHR ''g'')), plain_key (key_char (CHR ''r''))] ''gr'' ActOpenAlbum
       ''open the album of the track under the cursor'' GroupSearch,
      bind [plain_key (key_char (CHR ''f'')), plain_key (key_char (CHR ''a'')), plain_key (key_char (CHR ''s''))] ''fas'' (ActFavorite Ipc_Tracks True)
       ''add the track to favorites'' GroupSearch,
      bind [plain_key (key_char (CHR ''f'')), plain_key (key_char (CHR ''a'')), plain_key (key_char (CHR ''r''))] ''far'' (ActFavorite Ipc_Albums True)
       ''add the album to favorites'' GroupSearch,
      bind [plain_key (key_char (CHR ''f'')), plain_key (key_char (CHR ''a'')), plain_key (key_char (CHR ''a''))] ''faa'' (ActFavorite Ipc_Artists True)
       ''add the artist to favorites'' GroupSearch,
      bind [plain_key (key_char (CHR ''f'')), plain_key (key_char (CHR ''a'')), plain_key (key_char (CHR ''l''))] ''fal'' (ActFavorite Ipc_Playlists True)
       ''add the playlist to favorites'' GroupSearch,
      bind [plain_key (key_char (CHR ''f'')), plain_key (key_char (CHR ''d'')), plain_key (key_char (CHR ''s''))] ''fds'' (ActFavorite Ipc_Tracks False)
       ''remove the track from favorites'' GroupSearch,
      bind [plain_key (key_char (CHR ''f'')), plain_key (key_char (CHR ''d'')), plain_key (key_char (CHR ''r''))] ''fdr'' (ActFavorite Ipc_Albums False)
       ''remove the album from favorites'' GroupSearch,
      bind [plain_key (key_char (CHR ''f'')), plain_key (key_char (CHR ''d'')), plain_key (key_char (CHR ''a''))] ''fda'' (ActFavorite Ipc_Artists False)
       ''remove the artist from favorites'' GroupSearch,
      bind [plain_key (key_char (CHR ''f'')), plain_key (key_char (CHR ''d'')), plain_key (key_char (CHR ''l''))] ''fdl'' (ActFavorite Ipc_Playlists False)
       ''remove the playlist from favorites'' GroupSearch,
      bind [plain_key KeyBackspace] ''Backspace'' ActBack
       ''close an album or a playlist that is open (h does the same)'' GroupSearch,
      bind [plain_key (key_char (CHR ''d''))] ''d'' ActRemoveEntry
       ''remove the selected track'' GroupQueue,
      bind [plain_key (key_char (CHR ''J''))] ''J'' ActMoveEntryDown
       ''move the selected track down'' GroupQueue,
      bind [plain_key (key_char (CHR ''K''))] ''K'' ActMoveEntryUp
       ''move the selected track up'' GroupQueue,
      bind [plain_key (key_char (CHR ''c'')), plain_key (key_char (CHR ''c''))] ''cc'' ActClearQueue
       ''clear the queue'' GroupQueue,
      bind [plain_key (key_char (CHR ''r''))] ''r'' ActCycleRepeat
       ''repeat: off, all, one'' GroupPlayback,
      bind [plain_key (key_char (CHR ''O''))] ''O'' ActToggleAutoplay
       ''autoplay on or off: fetch more from TIDAL when the queue runs dry'' GroupPlayback]"

definition typing_keys :: "(string \<times> string) list" where
  "typing_keys =
     [(''Enter'', ''search''), (''Esc'', ''stop typing, keeping the text''), (''Left / Right'', ''move the cursor''),
      (''Home / Ctrl-a'', ''start of the line''), (''End / Ctrl-e'', ''end of the line''),
      (''Backspace / Delete'', ''delete a character''), (''Ctrl-w'', ''delete the word before the cursor''),
      (''Ctrl-u'', ''delete everything before the cursor''), (''Ctrl-c'', ''quit'')]"

datatype resolution = ResAction tui_action | ResPending | ResNone

fun is_prefix :: "'a list \<Rightarrow> 'a list \<Rightarrow> bool" where
  "is_prefix [] ys = True"
| "is_prefix (x # xs) [] = False"
| "is_prefix (x # xs) (y # ys) = (x = y \<and> is_prefix xs ys)"

fun resolve_in :: "key list \<Rightarrow> bool \<Rightarrow> binding list \<Rightarrow> resolution" where
  "resolve_in typed longer [] = (if longer then ResPending else ResNone)"
| "resolve_in typed longer (b # bs) =
     (if bi_keys b = typed then ResAction (bi_action b)
      else resolve_in typed (longer \<or> is_prefix typed (bi_keys b)) bs)"

definition resolve :: "key list \<Rightarrow> key \<Rightarrow> resolution" where
  "resolve pending k = resolve_in (pending @ [k]) False bindings"

section \<open>The help\<close>

record help_row =
  hr_group :: key_group
  hr_keys :: string
  hr_help :: string

fun add_help_row :: "binding \<Rightarrow> (tui_action \<times> help_row) list \<Rightarrow> (tui_action \<times> help_row) list" where
  "add_help_row b [] = [(bi_action b, \<lparr>hr_group = bi_group b, hr_keys = bi_label b, hr_help = bi_help b\<rparr>)]"
| "add_help_row b ((a, r) # rs) =
     (if a = bi_action b \<and> hr_group r = bi_group b
      then (a, r\<lparr>hr_keys := hr_keys r @ '' / '' @ bi_label b\<rparr>) # rs
      else (a, r) # add_help_row b rs)"

definition help_rows :: "help_row list" where
  "help_rows = map snd (fold add_help_row bindings [])"

section \<open>The table is consistent\<close>

text \<open>
  No binding hides another: no binding's keys begin another's, and none are the same. So every key of
  the table works as it says, and while it is pressed one key at a time the others wait.
\<close>

lemma is_prefix_take: "is_prefix xs ys \<longleftrightarrow> length xs \<le> length ys \<and> take (length xs) ys = xs"
  by (induction xs ys rule: is_prefix.induct) auto

fun prefix_free :: "key list list \<Rightarrow> bool" where
  "prefix_free [] = True"
| "prefix_free (k # ks) = (list_all (\<lambda>l. \<not> is_prefix k l \<and> \<not> is_prefix l k) ks \<and> prefix_free ks)"

lemma bindings_prefix_free: "prefix_free (map bi_keys bindings)"
  by code_simp

end
