(* ===== verification/Ipc_Fmt.thy ===== *)
theory Ipc_Fmt
  imports Wire
begin

text \<open>
  Wire values as short text (\<^verbatim>\<open>phonia-ipc/src/fmt.rs\<close>) and the text form of a source
  (\<^verbatim>\<open>phonia-ipc/src/source.rs\<close>). Lower case, which for most scripts is a table of Unicode, is an
  argument. \<^verbatim>\<open>replay_gain\<close>, which prints a binary fraction, is not here.
\<close>

section \<open>Sources\<close>

definition source_tidal :: "string \<Rightarrow> string + string" where
  "source_tidal i =
     (if i = [] \<or> \<not> (\<forall>c \<in> set i. is_digit c)
      then Inl (''a TIDAL track id is a number, got '' @ debug_str i)
      else Inr (''tidal:'' @ i))"

section \<open>Text\<close>

definition pad2 :: "nat \<Rightarrow> string" where
  "pad2 n = (if n < 10 then ''0'' @ show_nat n else show_nat n)"

definition fmt_ms :: "nat \<Rightarrow> string" where
  "fmt_ms ms =
     (let seconds = ms div 1000
      in if 3600 \<le> seconds
         then show_nat (seconds div 3600) @ '':'' @ pad2 (seconds mod 3600 div 60) @ '':'' @ pad2 (seconds mod 60)
         else show_nat (seconds div 60) @ '':'' @ pad2 (seconds mod 60))"

fun track_name :: "string option \<Rightarrow> string option \<Rightarrow> string option \<Rightarrow> string" where
  "track_name (Some title) (Some artist) source = artist @ '' - '' @ title"
| "track_name (Some title) None source = title"
| "track_name None artist source = (case source of Some s \<Rightarrow> s | None \<Rightarrow> ''?'')"

definition track_name_and_album ::
    "string option \<Rightarrow> string option \<Rightarrow> string option \<Rightarrow> string option \<Rightarrow> string" where
  "track_name_and_album title artist album source =
     (let name = track_name title artist source
      in case (title, album) of
           (Some _, Some album) \<Rightarrow> if album \<noteq> [] then name @ '' - '' @ album else name
         | _ \<Rightarrow> name)"

definition fmt_stream_quality :: "stream_quality \<Rightarrow> string" where
  "fmt_stream_quality q =
     (if stream_fell_back q
      then show_ipc_quality (sq_delivered q) @ '' (asked for '' @ show_ipc_quality (sq_requested q) @ '')''
      else show_ipc_quality (sq_delivered q))"

definition verdict :: "ipc_sink_report \<Rightarrow> string" where
  "verdict r =
     (if ir_bit_perfect r then ''BIT-PERFECT''
      else if ir_mode r = Some Ipc_Shared
      then (case (ir_codec r, ir_lossy r) of
              (Some codec, True) \<Rightarrow> ''SHARED, LOSSY CODEC ('' @ codec @ '')''
            | (None, True) \<Rightarrow> ''SHARED, LOSSY''
            | _ \<Rightarrow>
                (case ir_resampled_to r of
                   Some rate \<Rightarrow> ''SHARED (not bit-perfect, resampled to '' @ show_nat rate @ '' Hz)''
                 | None \<Rightarrow> ''SHARED (not bit-perfect)''))
      else ''CONVERTED ('' @ (case ir_problem r of Some p \<Rightarrow> p | None \<Rightarrow> ''?'') @ '')'')"

definition fmt_sample_rate :: "nat \<Rightarrow> string" where
  "fmt_sample_rate hz =
     (let khz = hz div 1000; rest = hz mod 1000
      in if rest = 0 then show_nat khz @ '' kHz''
         else if rest mod 100 = 0 then show_nat khz @ ''.'' @ show_nat (rest div 100) @ '' kHz''
         else show_nat hz @ '' Hz'')"

definition fmt_artists :: "ipc_artist_ref list \<Rightarrow> string" where
  "fmt_artists as = join '', '' (map ia_name as)"

fun contains_text :: "string \<Rightarrow> string \<Rightarrow> bool" where
  "contains_text part [] \<longleftrightarrow> part = []"
| "contains_text part (c # s) \<longleftrightarrow> starts_with (c # s) part \<or> contains_text part s"

definition titled :: "(string \<Rightarrow> string) \<Rightarrow> string \<Rightarrow> string option \<Rightarrow> string" where
  "titled lower title version =
     (case version of
        Some v \<Rightarrow>
          if v \<noteq> [] \<and> \<not> contains_text (lower v) (lower title) then title @ '' ('' @ v @ '')'' else title
      | None \<Rightarrow> title)"

definition count_of_tracks :: "nat \<Rightarrow> string" where
  "count_of_tracks n = (if n = 1 then ''1 track'' else show_nat n @ '' tracks'')"

definition opt_part :: "('a \<Rightarrow> string) \<Rightarrow> 'a option \<Rightarrow> string list" where
  "opt_part f x = (case x of Some a \<Rightarrow> [f a] | None \<Rightarrow> [])"

definition with_artists :: "ipc_artist_ref list \<Rightarrow> string \<Rightarrow> string" where
  "with_artists as title =
     (let artists = fmt_artists as in if artists = [] then title else artists @ '' - '' @ title)"

definition track_short_parts :: "track_summary \<Rightarrow> string list" where
  "track_short_parts t =
     opt_part fmt_ms (su_duration_ms t) @ opt_part show_ipc_quality (su_quality t) @
     (if su_explicit t then [''explicit''] else []) @ (if su_streamable t then [] else [''not available''])"

definition fmt_track :: "(string \<Rightarrow> string) \<Rightarrow> track_summary \<Rightarrow> string" where
  "fmt_track lower t =
     join '' - ''
       (with_artists (su_artists t) (titled lower (su_title t) (su_version t)) #
        opt_part ib_title (su_album t) @ track_short_parts t)"

definition fmt_track_short :: "(string \<Rightarrow> string) \<Rightarrow> track_summary \<Rightarrow> string" where
  "fmt_track_short lower t = join '' - '' (titled lower (su_title t) (su_version t) # track_short_parts t)"

text \<open>\<^verbatim>\<open>date.get(..4)\<close>: nothing when the text is shorter, or a character goes on past the fourth byte.\<close>

definition first_bytes :: "nat \<Rightarrow> string \<Rightarrow> string option" where
  "first_bytes n s =
     (if length s < n \<or> (n < length s \<and> (of_char (s ! n) :: nat) div 64 = 2) then None else Some (take n s))"

definition fmt_album :: "(string \<Rightarrow> string) \<Rightarrow> album_summary \<Rightarrow> string" where
  "fmt_album lower a =
     join '' - ''
       (with_artists (sa_artists a) (titled lower (sa_title a) (sa_version a)) #
        opt_part id (Option.bind (sa_release_date a) (first_bytes 4)) @
        (case sa_kind a of Some Ipc_Ep \<Rightarrow> [''EP''] | Some Ipc_Single \<Rightarrow> [''single''] | _ \<Rightarrow> []) @
        opt_part count_of_tracks (sa_track_count a) @ opt_part show_ipc_quality (sa_quality a) @
        (if sa_explicit a then [''explicit''] else []))"

definition fmt_artist :: "artist_summary \<Rightarrow> string" where
  "fmt_artist a = sm_name a"

definition fmt_playlist :: "playlist_summary \<Rightarrow> string" where
  "fmt_playlist p =
     join '' - '' (sp_title p # opt_part id (sp_creator p) @ opt_part count_of_tracks (sp_track_count p))"

end
