(* ===== verification/Tui_State.thy ===== *)
theory Tui_State
  imports Tui_Views Tui_Keys Ipc_Fmt
begin

text \<open>
  What the terminal interface remembers, what can happen to it and what it asks for (\<^verbatim>\<open>app.rs\<close>), and the
  Home section, which is a view of that state (\<^verbatim>\<open>home.rs\<close>). How many rows the panels have is decided by
  the layout library: \<open>tui_env\<close> holds the two numbers that are asked of it.
\<close>

datatype focus = OnSidebar | OnMain

datatype tui_section = SecHome | SecQueue | SecSearch | SecLibrary | SecLyrics

definition sections :: "tui_section list" where
  "sections = [SecHome, SecQueue, SecSearch, SecLibrary, SecLyrics]"

definition section_title :: "tui_section \<Rightarrow> string" where
  "section_title s =
     (case s of SecHome \<Rightarrow> ''Home'' | SecQueue \<Rightarrow> ''Queue'' | SecSearch \<Rightarrow> ''Search'' | SecLibrary \<Rightarrow> ''Library''
      | SecLyrics \<Rightarrow> ''Lyrics'')"

text \<open>The wait is in milliseconds.\<close>

datatype tui_connection = Connecting | Connected | Disconnected string nat | Refused string

record server =
  sv_info :: "string \<times> string \<times> nat"
  sv_protocol :: protocol_version
  sv_capabilities :: "string list"

record tui =
  tu_quit :: bool
  tu_focus :: focus
  tu_sidebar :: cursor
  tu_queue_cursor :: cursor
  tu_home_cursor :: cursor
  tu_help :: bool
  tu_help_scroll :: nat
  tu_pending :: "key list"
  tu_size :: "nat \<times> nat"
  tu_connection :: tui_connection
  tu_server :: "server option"
  tu_status :: "ipc_status option"
  tu_queue :: "ipc_queue option"
  tu_recently_played :: "ipc_played_track list option"
  tu_recommended :: "album_summary list option"
  tu_last_error :: "string option"
  tu_playback_error :: "string option"
  tu_notice :: "string option"
  tu_search :: search_state
  tu_search_views :: stack
  tu_library :: "library_state option"
  tu_library_views :: stack
  tu_home_views :: stack
  tu_lyrics :: "lyrics_state option"
  tu_lyrics_generation :: nat
  tu_next_serial :: nat

definition tui_new :: tui where
  "tui_new =
     \<lparr>tu_quit = False, tu_focus = OnSidebar, tu_sidebar = cursor_new, tu_queue_cursor = cursor_new,
      tu_home_cursor = cursor_new, tu_help = False, tu_help_scroll = 0, tu_pending = [], tu_size = (0, 0),
      tu_connection = Connecting, tu_server = None, tu_status = None, tu_queue = None,
      tu_recently_played = None, tu_recommended = None, tu_last_error = None, tu_playback_error = None,
      tu_notice = None, tu_search = search_new, tu_search_views = [], tu_library = None,
      tu_library_views = [], tu_home_views = [], tu_lyrics = None, tu_lyrics_generation = 0,
      tu_next_serial = 0\<rparr>"

text \<open>The height of the main panel inside its border on a screen of a size, and how far the help scrolls.\<close>

record tui_env =
  tv_content_height :: "nat \<times> nat \<Rightarrow> nat"
  tv_help_overflow :: "nat \<Rightarrow> nat"

definition narrow_columns :: nat where
  "narrow_columns = 60"

definition sidebar_shown :: "tui \<Rightarrow> bool" where
  "sidebar_shown s \<longleftrightarrow> fst (tu_size s) = 0 \<or> narrow_columns \<le> fst (tu_size s)"

definition section_of :: "tui \<Rightarrow> tui_section" where
  "section_of s = sections ! min (cu_selected (tu_sidebar s)) (length sections - 1)"

definition has_capability :: "string \<Rightarrow> tui \<Rightarrow> bool" where
  "has_capability c s \<longleftrightarrow>
     tu_connection s = Connected \<and> (case tu_server s of Some v \<Rightarrow> c \<in> set (sv_capabilities v) | None \<Rightarrow> False)"

definition half_page :: "tui_env \<Rightarrow> tui \<Rightarrow> nat" where
  "half_page en s = max (tv_content_height en (tu_size s) div 2) 1"

text \<open>The stack of the section shown, if it has one, and the state with another in its place.\<close>

definition active_stack :: "tui \<Rightarrow> stack option" where
  "active_stack s =
     (case section_of s of
        SecSearch \<Rightarrow> Some (tu_search_views s)
      | SecLibrary \<Rightarrow> Some (tu_library_views s)
      | SecHome \<Rightarrow> Some (tu_home_views s)
      | _ \<Rightarrow> None)"

definition put_stack :: "stack \<Rightarrow> tui \<Rightarrow> tui" where
  "put_stack st s =
     (case section_of s of
        SecSearch \<Rightarrow> s\<lparr>tu_search_views := st\<rparr>
      | SecLibrary \<Rightarrow> s\<lparr>tu_library_views := st\<rparr>
      | SecHome \<Rightarrow> s\<lparr>tu_home_views := st\<rparr>
      | _ \<Rightarrow> s)"

definition active_view :: "tui \<Rightarrow> view option" where
  "active_view s = Option.bind (active_stack s) stack_top"

definition put_view :: "view \<Rightarrow> tui \<Rightarrow> tui" where
  "put_view v s = (case active_stack s of Some st \<Rightarrow> put_stack (set_stack_top v st) s | None \<Rightarrow> s)"

definition queue_len :: "tui \<Rightarrow> nat" where
  "queue_len s = (case tu_queue s of Some q \<Rightarrow> length (ix_items q) | None \<Rightarrow> 0)"

definition in_queue :: "tui \<Rightarrow> bool" where
  "in_queue s \<longleftrightarrow> tu_focus s = OnMain \<and> section_of s = SecQueue"

definition clamp_queue_cursor :: "tui \<Rightarrow> tui" where
  "clamp_queue_cursor s = s\<lparr>tu_queue_cursor := cursor_clamp (queue_len s) (tu_queue_cursor s)\<rparr>"

datatype image_kind = AlbumCover | PlaylistCover | ArtistPicture

definition now_playing_cover :: "tui \<Rightarrow> (image_kind \<times> string) option" where
  "now_playing_cover s =
     map_option (Pair AlbumCover) (Option.bind (Option.bind (tu_status s) iu_track) it_cover)"

definition open_cover :: "tui \<Rightarrow> (image_kind \<times> string) option" where
  "open_cover s =
     (if section_of s = SecQueue \<or> (section_of s = SecHome \<and> tu_home_views s = []) then now_playing_cover s
      else case active_view s of
             None \<Rightarrow> None
           | Some (ViewTracks v) \<Rightarrow>
               map_option (Pair (case tl_header v of HeadPlaylist _ \<Rightarrow> PlaylistCover | _ \<Rightarrow> AlbumCover))
                 (header_cover (tl_header v))
           | Some (ViewArtist a) \<Rightarrow> map_option (Pair ArtistPicture) (av_picture a)
           | Some (ViewFolder _) \<Rightarrow> None)"

section \<open>What happens and what is asked for\<close>

datatype tag =
    TagSearch nat
  | TagSearchMore search_tab nat
  | TagAdd bool
  | TagAddFrom "nat option"
  | TagView nat
  | TagLibrary nat
  | TagLibraryPlaylists nat
  | TagLibraryArtists nat
  | TagLibraryMore library_tab nat
  | TagLyrics nat
  | TagRecentlyPlayed
  | TagRecommendedAlbums
  | TagFavorite bool

datatype cmd = CmdQuit | CmdRetryNow | CmdSend request | CmdRequest tag request

datatype tui_msg =
    TuiKey key_event
  | TuiResize nat nat
  | TuiTick
  | TuiConnected "string \<times> string \<times> nat" protocol_version "string list" ipc_status ipc_queue
  | TuiDisconnected string nat
  | TuiRefused string
  | TuiDaemon ipc_event
  | TuiRequestFailed string
  | TuiResponse tag "string + reply_payload"

record effects =
  ef_redraw :: bool
  ef_commands :: "cmd list"

definition fx_none :: effects where
  "fx_none = \<lparr>ef_redraw = False, ef_commands = []\<rparr>"

definition fx_redraw :: effects where
  "fx_redraw = \<lparr>ef_redraw = True, ef_commands = []\<rparr>"

definition fx_command :: "cmd \<Rightarrow> effects" where
  "fx_command c = \<lparr>ef_redraw = False, ef_commands = [c]\<rparr>"

definition fx_redraw_with :: "cmd list \<Rightarrow> effects" where
  "fx_redraw_with cs = \<lparr>ef_redraw = True, ef_commands = cs\<rparr>"

section \<open>Home\<close>

definition block_size :: nat where
  "block_size = 6"

datatype home_block =
    BlockRecentlyPlayed | BlockRecommended | BlockFavoriteAlbums | BlockFavoriteArtists | BlockPlaylists
  | BlockFavoriteTracks

fun block_of_tab :: "library_tab \<Rightarrow> home_block" where
  "block_of_tab TabFavoriteAlbums = BlockFavoriteAlbums"
| "block_of_tab TabFavoriteArtists = BlockFavoriteArtists"
| "block_of_tab TabFolders = BlockPlaylists"
| "block_of_tab TabFavoriteTracks = BlockFavoriteTracks"

definition block_title :: "home_block \<Rightarrow> string" where
  "block_title b =
     (case b of
        BlockRecentlyPlayed \<Rightarrow> ''Recently played''
      | BlockRecommended \<Rightarrow> ''Albums you'' @ [CHR 0x27] @ ''ll enjoy''
      | BlockFavoriteAlbums \<Rightarrow> library_tab_title TabFavoriteAlbums
      | BlockFavoriteArtists \<Rightarrow> library_tab_title TabFavoriteArtists
      | BlockPlaylists \<Rightarrow> library_tab_title TabFolders
      | BlockFavoriteTracks \<Rightarrow> library_tab_title TabFavoriteTracks)"

datatype home_continue = ContResume string | ContReplay nat string | ContStart string | ContEmpty

definition continue_text :: "home_continue \<Rightarrow> string" where
  "continue_text c =
     (case c of ContResume t \<Rightarrow> t | ContReplay _ t \<Rightarrow> t | ContStart t \<Rightarrow> t | ContEmpty \<Rightarrow> ''Nothing to continue yet.'')"

definition continue_request :: "home_continue \<Rightarrow> request option" where
  "continue_request c =
     (case c of
        ContResume _ \<Rightarrow> Some ReqResume
      | ContReplay i _ \<Rightarrow> Some (ReqPlay (Some i))
      | ContStart _ \<Rightarrow> Some (ReqPlay None)
      | ContEmpty \<Rightarrow> None)"

definition when_word :: "ipc_state \<Rightarrow> string" where
  "when_word st =
     (case st of Ipc_Paused \<Rightarrow> ''paused'' | Ipc_Seeking \<Rightarrow> ''seeking'' | Ipc_Loading \<Rightarrow> ''loading'' | _ \<Rightarrow> ''playing'')"

definition continue_playing :: "ipc_status \<Rightarrow> ipc_track \<Rightarrow> string" where
  "continue_playing st t =
     ''Continue: '' @ track_name (it_title t) (it_artist t) (it_source t) @ ''  ('' @ when_word (iu_state st) @
     '' at '' @ fmt_ms (iu_position_ms st) @
     (case iu_duration_ms st of Some n \<Rightarrow> ''/'' @ fmt_ms n | None \<Rightarrow> []) @ '')''"

definition tui_continuation :: "tui \<Rightarrow> home_continue" where
  "tui_continuation s =
     (case Option.bind (tu_status s) (\<lambda>st. map_option (Pair st) (iu_track st)) of
        Some (st, t) \<Rightarrow> ContResume (continue_playing st t)
      | None \<Rightarrow>
          (case tu_queue s of
             None \<Rightarrow> ContEmpty
           | Some q \<Rightarrow>
               (case ix_current q of
                  Some i \<Rightarrow>
                    ContReplay i (''Play again: '' @
                      (case find (\<lambda>x. iq_id x = i) (ix_items q) of
                         Some x \<Rightarrow> track_name (iq_title x) (iq_artist x) (Some (iq_source x))
                       | None \<Rightarrow> ''?''))
                | None \<Rightarrow>
                    if ix_items q = [] then ContEmpty
                    else ContStart (''Start the queue ('' @ show_nat (length (ix_items q)) @ '' '' @
                           (if length (ix_items q) = 1 then ''track'' else ''tracks'') @ '')''))))"

datatype home_row =
    RowContinue home_continue
  | RowSpacer
  | RowHeader home_block
  | RowAlbum album_summary
  | RowArtist artist_summary
  | RowEntry folder_entry
  | RowTrack track_summary
  | RowPlayed ipc_played_track
  | RowSeeAll library_tab nat

fun selectable :: "home_row \<Rightarrow> bool" where
  "selectable (RowHeader b) = False"
| "selectable RowSpacer = False"
| "selectable _ = True"

definition push_block :: "library_tab \<Rightarrow> nat \<Rightarrow> ('a \<Rightarrow> home_row) \<Rightarrow> 'a list \<Rightarrow> home_row list" where
  "push_block tab n row xs =
     (if xs = [] then []
      else RowSpacer # RowHeader (block_of_tab tab) # map row (take block_size xs) @ [RowSeeAll tab n])"

definition plain_block :: "home_block \<Rightarrow> ('a \<Rightarrow> home_row) \<Rightarrow> 'a list option \<Rightarrow> home_row list" where
  "plain_block b row xs =
     (case xs of
        Some xs \<Rightarrow> if xs = [] then [] else RowSpacer # RowHeader b # map row (take block_size xs)
      | None \<Rightarrow> [])"

definition library_blocks :: "library_state \<Rightarrow> home_row list" where
  "library_blocks l =
     (if li_phase l = PhaseDone
      then push_block TabFavoriteAlbums (fd_total (li_favorite_albums l)) RowAlbum (fd_items (li_favorite_albums l))
      else []) @
     (if li_artists_phase l = PhaseDone
      then push_block TabFavoriteArtists (fd_total (li_favorite_artists l)) RowArtist (fd_items (li_favorite_artists l))
      else []) @
     (if li_playlists_phase l = PhaseDone
      then push_block TabFolders (fd_total (li_playlists l)) RowEntry (fd_items (li_playlists l)) else []) @
     (if li_phase l = PhaseDone
      then push_block TabFavoriteTracks (fd_total (li_favorite_tracks l)) RowTrack (fd_items (li_favorite_tracks l))
      else [])"

definition home_rows :: "tui \<Rightarrow> home_row list" where
  "home_rows s =
     [RowContinue (tui_continuation s)] @ plain_block BlockRecentlyPlayed RowPlayed (tu_recently_played s) @
     plain_block BlockRecommended RowAlbum (tu_recommended s) @
     (case tu_library s of Some l \<Rightarrow> library_blocks l | None \<Rightarrow> [])"

definition selectable_count :: "home_row list \<Rightarrow> nat" where
  "selectable_count rows = length (filter selectable rows)"

text \<open>Where the row that is the \<open>n\<close>th to be selected is shown.\<close>

definition display_index_of :: "home_row list \<Rightarrow> nat \<Rightarrow> nat option" where
  "display_index_of rows n =
     get_at (map fst (filter (selectable \<circ> snd) (zip [0..<length rows] rows))) n"

definition home_selected :: "tui \<Rightarrow> nat \<Rightarrow> home_row option" where
  "home_selected s n = get_at (filter selectable (home_rows s)) n"

end
