(* ===== verification/Tui_Answers.thy ===== *)
theory Tui_Answers
  imports Tui_State
begin

text \<open>
  What the interface makes of what it is told (\<^verbatim>\<open>app.rs\<close>): the answers to its requests, each put where its
  tag says, and the events of the daemon.
\<close>

section \<open>Answers to what was asked for a view\<close>

definition unexpected :: string where
  "unexpected = ''the daemon answered something unexpected''"

definition no_more_results :: "string \<Rightarrow> string" where
  "no_more_results reason = ''could not load more results: '' @ reason"

text \<open>The view, and the line about what did not work, if there is one.\<close>

definition track_list_answer ::
    "(string + reply_payload) \<Rightarrow> track_list_view \<Rightarrow> track_list_view \<times> string option" where
  "track_list_answer result v =
     (let opening = (tl_phase v = PhaseLoading);
          failed = (\<lambda>why line.
            if opening then (v\<lparr>tl_phase := PhaseFailed why\<rparr>, None)
            else (v\<lparr>tl_tracks := not_loading (tl_tracks v)\<rparr>, Some line))
      in case result of
           Inl reason \<Rightarrow> failed reason (no_more_results reason)
         | Inr (PayAlbum album tracks) \<Rightarrow>
             if opening
             then (v\<lparr>tl_header := HeadAlbum album, tl_tracks := from_page tracks, tl_phase := PhaseDone\<rparr>, None)
             else failed unexpected unexpected
         | Inr (PayTracks _ page) \<Rightarrow>
             if opening then (v\<lparr>tl_tracks := from_page page, tl_phase := PhaseDone\<rparr>, None)
             else (v\<lparr>tl_tracks := append_page (Some page) (tl_tracks v)\<rparr>, None)
         | Inr _ \<Rightarrow> failed unexpected unexpected)"

definition clear_pending :: "artist_view \<Rightarrow> artist_view" where
  "clear_pending a =
     a\<lparr>av_top_tracks := not_loading (av_top_tracks a), av_albums := not_loading (av_albums a),
       av_singles := not_loading (av_singles a)\<rparr>"

definition artist_opened ::
    "artist_summary \<Rightarrow> string option \<Rightarrow> track_summary page \<Rightarrow> album_summary page \<Rightarrow> album_summary page \<Rightarrow>
     artist_summary page option \<Rightarrow> artist_view \<Rightarrow> artist_view" where
  "artist_opened summary bio top_tracks albums singles similar a =
     a\<lparr>av_name := sm_name summary, av_picture := sm_picture summary, av_bio := bio,
       av_top_tracks := from_page top_tracks, av_albums := from_page albums, av_singles := from_page singles,
       av_similar := found_of similar, av_similar_failed := (similar = None), av_phase := PhaseDone\<rparr>"

definition artist_answer :: "(string + reply_payload) \<Rightarrow> artist_view \<Rightarrow> artist_view \<times> string option" where
  "artist_answer result a =
     (let opening = (av_phase a = PhaseLoading);
          failed = (\<lambda>why line.
            if opening then (a\<lparr>av_phase := PhaseFailed why\<rparr>, None) else (clear_pending a, Some line))
      in case result of
           Inl reason \<Rightarrow> failed reason (no_more_results reason)
         | Inr (PayArtist summary bio top_tracks albums singles similar) \<Rightarrow>
             if opening then (artist_opened summary bio top_tracks albums singles similar a, None)
             else failed unexpected unexpected
         | Inr (PayTracks _ page) \<Rightarrow> (a\<lparr>av_top_tracks := append_page (Some page) (av_top_tracks a)\<rparr>, None)
         | Inr (PayAlbums (ListArtistAlbums _) page) \<Rightarrow>
             (a\<lparr>av_albums := append_page (Some page) (av_albums a)\<rparr>, None)
         | Inr (PayAlbums (ListArtistSingles _) page) \<Rightarrow>
             (a\<lparr>av_singles := append_page (Some page) (av_singles a)\<rparr>, None)
         | Inr _ \<Rightarrow> failed unexpected unexpected)"

definition folder_answer :: "(string + reply_payload) \<Rightarrow> folder_view \<Rightarrow> folder_view \<times> string option" where
  "folder_answer result f =
     (let opening = (fw_phase f = PhaseLoading);
          failed = (\<lambda>why line.
            if opening then (f\<lparr>fw_phase := PhaseFailed why\<rparr>, None)
            else (f\<lparr>fw_entries := not_loading (fw_entries f)\<rparr>, Some line))
      in case result of
           Inl reason \<Rightarrow> failed reason (no_more_results reason)
         | Inr (PayPlaylistFolder _ page) \<Rightarrow>
             if opening then (f\<lparr>fw_entries := from_page page, fw_phase := PhaseDone\<rparr>, None)
             else (f\<lparr>fw_entries := append_page (Some page) (fw_entries f)\<rparr>, None)
         | Inr _ \<Rightarrow> failed unexpected unexpected)"

definition view_answer :: "(string + reply_payload) \<Rightarrow> view \<Rightarrow> view \<times> string option" where
  "view_answer result v =
     (case v of
        ViewTracks t \<Rightarrow> map_prod ViewTracks id (track_list_answer result t)
      | ViewArtist a \<Rightarrow> map_prod ViewArtist id (artist_answer result a)
      | ViewFolder f \<Rightarrow> map_prod ViewFolder id (folder_answer result f))"

definition find_view :: "nat \<Rightarrow> tui \<Rightarrow> view option" where
  "find_view serial s =
     (case stack_find serial (tu_search_views s) of
        Some v \<Rightarrow> Some v
      | None \<Rightarrow>
          (case stack_find serial (tu_library_views s) of
             Some v \<Rightarrow> Some v
           | None \<Rightarrow> stack_find serial (tu_home_views s)))"

definition put_found_view :: "nat \<Rightarrow> view \<Rightarrow> tui \<Rightarrow> tui" where
  "put_found_view serial v s =
     (if stack_find serial (tu_search_views s) \<noteq> None
      then s\<lparr>tu_search_views := stack_put serial v (tu_search_views s)\<rparr>
      else if stack_find serial (tu_library_views s) \<noteq> None
      then s\<lparr>tu_library_views := stack_put serial v (tu_library_views s)\<rparr>
      else s\<lparr>tu_home_views := stack_put serial v (tu_home_views s)\<rparr>)"

definition complain :: "string option \<Rightarrow> tui \<Rightarrow> tui" where
  "complain line s = (case line of Some why \<Rightarrow> s\<lparr>tu_last_error := Some why\<rparr> | None \<Rightarrow> s)"

definition on_view_response :: "nat \<Rightarrow> (string + reply_payload) \<Rightarrow> tui \<Rightarrow> effects \<times> tui" where
  "on_view_response serial result s =
     (case find_view serial s of
        None \<Rightarrow> (fx_none, s)
      | Some v \<Rightarrow>
          (case view_answer result v of
             (v, line) \<Rightarrow> (fx_redraw, complain line (put_found_view serial v s))))"

section \<open>Answers to additions and favorites\<close>

definition tracks_word :: "nat \<Rightarrow> string" where
  "tracks_word n = (if n = 1 then ''1 track'' else show_nat n @ '' tracks'')"

definition added_notice :: "nat \<Rightarrow> rejected option \<Rightarrow> string" where
  "added_notice n first_refused =
     (case first_refused of
        None \<Rightarrow> if n = 0 then ''There was nothing to add'' else ''Added '' @ tracks_word n
      | Some r \<Rightarrow>
          if n = 0 then ''Not added: '' @ rj_reason r
          else ''Added '' @ tracks_word n @ '' (not added: '' @ rj_reason r @ '')'')"

definition on_added :: "(string + reply_payload) \<Rightarrow> nat option \<Rightarrow> tui \<Rightarrow> effects \<times> tui" where
  "on_added result play_at s =
     (case result of
        Inr (PayAdded ids refused _) \<Rightarrow>
          (case Option.bind play_at (get_at ids) of
             Some i \<Rightarrow> fx_redraw_with [CmdSend (ReqPlay (Some i))]
           | None \<Rightarrow> fx_redraw,
           s\<lparr>tu_notice := Some (added_notice (length ids) (first_of refused))\<rparr>)
      | Inr _ \<Rightarrow> (fx_redraw, s\<lparr>tu_last_error := Some unexpected\<rparr>)
      | Inl reason \<Rightarrow> (fx_redraw, s\<lparr>tu_last_error := Some reason\<rparr>))"

definition library_commands :: "nat \<Rightarrow> request \<Rightarrow> cmd list" where
  "library_commands generation req =
     [CmdRequest (TagLibrary generation) req, CmdRequest (TagLibraryPlaylists generation) playlist_request,
      CmdRequest (TagLibraryArtists generation) artists_request]"

definition on_favorited :: "bool \<Rightarrow> (string + reply_payload) \<Rightarrow> tui \<Rightarrow> effects \<times> tui" where
  "on_favorited favorite result s =
     (case result of
        Inl reason \<Rightarrow> (fx_redraw, s\<lparr>tu_last_error := Some reason\<rparr>)
      | Inr _ \<Rightarrow>
          let s = s\<lparr>tu_notice := Some (if favorite then ''Added to favorites'' else ''Removed from favorites'')\<rparr>
          in case tu_library s of
               None \<Rightarrow> (fx_redraw, s)
             | Some l \<Rightarrow>
                 let l = l\<lparr>li_generation := li_generation l + 1, li_phase := PhaseLoading,
                           li_playlists_phase := PhaseLoading, li_artists_phase := PhaseLoading\<rparr>
                 in (fx_redraw_with (library_commands (li_generation l) library_request),
                     s\<lparr>tu_library := Some l\<rparr>))"

section \<open>Any answer\<close>

text \<open>The library, if the answer is for the load it is at.\<close>

definition on_library ::
    "nat \<Rightarrow> (library_state \<Rightarrow> library_state \<times> string option) \<Rightarrow> tui \<Rightarrow> effects \<times> tui" where
  "on_library generation f s =
     (case tu_library s of
        None \<Rightarrow> (fx_none, s)
      | Some l \<Rightarrow>
          if generation \<noteq> li_generation l then (fx_none, s)
          else case f l of (l, line) \<Rightarrow> (fx_redraw, complain line (s\<lparr>tu_library := Some l\<rparr>)))"

definition lyrics_payload :: "reply_payload \<Rightarrow> lyrics option option" where
  "lyrics_payload p = (case p of PayLyrics _ l \<Rightarrow> Some l | _ \<Rightarrow> None)"

fun on_response :: "tag \<Rightarrow> (string + reply_payload) \<Rightarrow> tui \<Rightarrow> effects \<times> tui" where
  "on_response (TagSearch generation) result s =
     (if generation \<noteq> se_generation (tu_search s) then (fx_none, s)
      else (fx_redraw, s\<lparr>tu_search := (case result of
              Inr p \<Rightarrow> snd (search_finish p (tu_search s))
            | Inl reason \<Rightarrow> search_fail reason (tu_search s))\<rparr>))"
| "on_response (TagSearchMore t generation) result s =
     (if generation \<noteq> se_generation (tu_search s) then (fx_none, s)
      else (fx_redraw,
        case result of
          Inr p \<Rightarrow> s\<lparr>tu_search := search_add_page t p (tu_search s)\<rparr>
        | Inl reason \<Rightarrow>
            s\<lparr>tu_search := search_page_failed t (tu_search s), tu_last_error := Some (no_more_results reason)\<rparr>))"
| "on_response (TagAdd play) result s = on_added result (if play then Some 0 else None) s"
| "on_response (TagAddFrom play_at) result s = on_added result play_at s"
| "on_response (TagView serial) result s = on_view_response serial result s"
| "on_response (TagLibrary generation) result s =
     on_library generation (\<lambda>l. (case result of
         Inr p \<Rightarrow> snd (library_finish p l) | Inl reason \<Rightarrow> library_fail reason l, None)) s"
| "on_response (TagLibraryPlaylists generation) result s =
     on_library generation (\<lambda>l. (case result of
         Inr p \<Rightarrow> snd (library_finish_playlists p l) | Inl reason \<Rightarrow> library_fail_playlists reason l, None)) s"
| "on_response (TagLibraryArtists generation) result s =
     on_library generation (\<lambda>l. (case result of
         Inr p \<Rightarrow> snd (library_finish_artists p l) | Inl reason \<Rightarrow> library_fail_artists reason l, None)) s"
| "on_response (TagLibraryMore t generation) result s =
     on_library generation (\<lambda>l. case result of
         Inr p \<Rightarrow> (library_add_page t p l, None)
       | Inl reason \<Rightarrow>
           (library_page_failed t l, Some (''could not load more of the library: '' @ reason))) s"
| "on_response (TagLyrics generation) result s =
     (case tu_lyrics s of
        None \<Rightarrow> (fx_none, s)
      | Some l \<Rightarrow>
          if generation \<noteq> ls_generation l then (fx_none, s)
          else (fx_redraw, s\<lparr>tu_lyrics := Some (case result of
                  Inr p \<Rightarrow> snd (lyrics_finish (lyrics_payload p) l)
                | Inl reason \<Rightarrow> lyrics_fail reason l)\<rparr>))"
| "on_response TagRecentlyPlayed result s =
     (fx_redraw, case result of Inr (PayRecentlyPlayed items) \<Rightarrow> s\<lparr>tu_recently_played := Some items\<rparr> | _ \<Rightarrow> s)"
| "on_response TagRecommendedAlbums result s =
     (fx_redraw, case result of Inr (PayAlbums _ page) \<Rightarrow> s\<lparr>tu_recommended := Some (pg_items page)\<rparr> | _ \<Rightarrow> s)"
| "on_response (TagFavorite favorite) result s = on_favorited favorite result s"

section \<open>Events of the daemon\<close>

definition set_status :: "(ipc_status \<Rightarrow> ipc_status) \<Rightarrow> tui \<Rightarrow> tui" where
  "set_status f s = s\<lparr>tu_status := map_option f (tu_status s)\<rparr>"

text \<open>What an event changes of the status, where it says something about it.\<close>

fun status_after :: "ipc_event \<Rightarrow> ipc_status \<Rightarrow> ipc_status" where
  "status_after (Ev_StateChanged new) st =
     (let st = st\<lparr>iu_state := new\<rparr>
      in if new = Ipc_Stopped then st\<lparr>iu_output := Ipc_Closed, iu_sink_report := None\<rparr> else st)"
| "status_after (Ev_Position position duration) st = st\<lparr>iu_position_ms := position, iu_duration_ms := duration\<rparr>"
| "status_after (Ev_TrackStarted t) st =
     st\<lparr>iu_track := Some \<lparr>it_item_id = ie_item_id t, it_source = ie_source t, it_title = ie_title t,
                          it_artist = ie_artist t, it_duration_ms = ie_duration_ms t, it_quality = ie_quality t,
                          it_cover = ie_cover t, it_replay_gain = ie_replay_gain t\<rparr>,
        iu_spec := Some (ie_spec t), iu_output := Ipc_Open\<rparr>"
| "status_after (Ev_VolumeChanged percent muted) st =
     st\<lparr>iu_volume := Some \<lparr>iv_percent = percent, iv_muted = muted\<rparr>\<rparr>"
| "status_after (Ev_OutputChanged route) st =
     (let st = (if ro_mode route = Ipc_Exclusive then st\<lparr>iu_volume := None\<rparr> else st)
      in st\<lparr>iu_route := Some route\<rparr>)"
| "status_after (Ev_Seeked position) st = st\<lparr>iu_position_ms := position\<rparr>"
| "status_after (Ev_TrackEnded i reason) st = st\<lparr>iu_track := None, iu_spec := None\<rparr>"
| "status_after (Ev_SinkReport r) st = st\<lparr>iu_sink_report := Some r\<rparr>"
| "status_after (Ev_OutputReleased by0 reason) st = st\<lparr>iu_output := Ipc_Released by0, iu_sink_report := None\<rparr>"
| "status_after Ev_OutputAcquired st = st\<lparr>iu_output := Ipc_Open\<rparr>"
| "status_after _ st = st"

fun on_daemon_event :: "ipc_event \<Rightarrow> tui \<Rightarrow> effects \<times> tui" where
  "on_daemon_event (Ev_Resync skipped n st q) s =
     (fx_redraw, clamp_queue_cursor (s\<lparr>tu_status := Some st, tu_queue := Some q\<rparr>))"
| "on_daemon_event (Ev_QueueChanged q) s = (fx_redraw, clamp_queue_cursor (s\<lparr>tu_queue := Some q\<rparr>))"
| "on_daemon_event (Ev_RecentlyPlayedChanged items) s = (fx_redraw, s\<lparr>tu_recently_played := Some items\<rparr>)"
| "on_daemon_event (Ev_TrackStarted t) s =
     (fx_redraw, (set_status (status_after (Ev_TrackStarted t)) s)\<lparr>tu_playback_error := None\<rparr>)"
| "on_daemon_event (Ev_SinkReport r) s =
     (fx_redraw, (set_status (status_after (Ev_SinkReport r)) s)\<lparr>tu_playback_error := None\<rparr>)"
| "on_daemon_event (Ev_SeekRejected reason) s = (fx_redraw, s\<lparr>tu_last_error := Some (''seek rejected: '' @ reason)\<rparr>)"
| "on_daemon_event (Ev_Error message) s = (fx_redraw, s\<lparr>tu_playback_error := Some message\<rparr>)"
| "on_daemon_event Ev_QueueExhausted s = (fx_none, s)"
| "on_daemon_event Ev_OutputsChanged s = (fx_none, s)"
| "on_daemon_event (Ev_MaxQualityChanged q) s = (fx_none, s)"
| "on_daemon_event Ev_ShuttingDown s = (fx_none, s)"
| "on_daemon_event Ev_Unknown s = (fx_none, s)"
| "on_daemon_event ev s = (fx_redraw, set_status (status_after ev) s)"

section \<open>Waiting\<close>

definition tick_ms :: nat where
  "tick_ms = 250"

definition seconds_left :: "nat \<Rightarrow> nat" where
  "seconds_left ms = (ms + 999) div 1000"

definition tui_tick :: "tui \<Rightarrow> effects \<times> tui" where
  "tui_tick s =
     (case tu_connection s of
        Disconnected reason retry_in \<Rightarrow>
          let left = retry_in - tick_ms
          in (if seconds_left left = seconds_left retry_in then fx_none else fx_redraw,
              s\<lparr>tu_connection := Disconnected reason left\<rparr>)
      | _ \<Rightarrow> (fx_none, s))"

end
