(* ===== verification/Tui_Acts.thy ===== *)
theory Tui_Acts
  imports Tui_Answers
begin

text \<open>
  What a key does to what is shown (\<^verbatim>\<open>app.rs\<close>): opening views, adding to the queue, favorites, and moving
  about. Where the code takes a slice of a list, which panics out of range, the result is an option,
  and \<open>None\<close> is the panic.
\<close>

section \<open>Text being typed\<close>

text \<open>The bytes of a character, as text.\<close>

definition utf8_encode :: "ucs \<Rightarrow> string" where
  "utf8_encode c =
     map char_of
       (if c < 128 then [c]
        else if c < 2048 then [192 + c div 64, 128 + c mod 64]
        else if c < 65536 then [224 + c div 4096, 128 + c div 64 mod 64, 128 + c mod 64]
        else [240 + c div 262144, 128 + c div 4096 mod 64, 128 + c div 64 mod 64, 128 + c mod 64])"

definition trim_ucs :: "ucs list \<Rightarrow> ucs list" where
  "trim_ucs s = rev (dropWhile is_whitespace (rev (dropWhile is_whitespace s)))"

section \<open>What is needed first\<close>

definition not_connected :: string where
  "not_connected = ''not connected to phoniad''"

definition cap_catalog :: string where "cap_catalog = ''catalog''"
definition cap_lyrics :: string where "cap_lyrics = ''lyrics''"
definition cap_volume :: string where "cap_volume = ''volume''"
definition cap_autoplay :: string where "cap_autoplay = ''autoplay''"
definition cap_recently_played :: string where "cap_recently_played = ''recently_played''"

definition require_browsable :: "string \<Rightarrow> tui \<Rightarrow> bool \<times> tui" where
  "require_browsable what s =
     (if tu_connection s \<noteq> Connected then (False, s\<lparr>tu_last_error := Some not_connected\<rparr>)
      else if \<not> has_capability cap_catalog s
      then (False, s\<lparr>tu_last_error := Some (''this phoniad cannot show '' @ what @ '': it needs protocol 1.6'')\<rparr>)
      else (True, s))"

text \<open>Opening a view on the stack of the section shown, in the state of loading, and asking for it.\<close>

definition open_view :: "string \<Rightarrow> view \<Rightarrow> request \<Rightarrow> tui \<Rightarrow> effects \<times> tui" where
  "open_view what v req s =
     (case require_browsable what s of
        (False, s) \<Rightarrow> (fx_redraw, s)
      | (True, s) \<Rightarrow>
          let serial = tu_next_serial s;
              s = s\<lparr>tu_next_serial := serial + 1\<rparr>
          in case active_stack s of
               None \<Rightarrow> (fx_none, s)
             | Some st \<Rightarrow> (fx_redraw_with [CmdRequest (TagView serial) req], put_stack (stack_push serial v st) s))"

definition open_artist_view :: "string \<Rightarrow> string \<Rightarrow> string option \<Rightarrow> tui \<Rightarrow> effects \<times> tui" where
  "open_artist_view i name picture =
     open_view ''artists'' (ViewArtist (artist_view_new i name picture)) (ReqArtist i None)"

definition album_known_by :: "string \<Rightarrow> string \<Rightarrow> string option \<Rightarrow> album_summary" where
  "album_known_by i title cover =
     \<lparr>sa_id = i, sa_title = title, sa_version = None, sa_artists = [], sa_release_date = None,
      sa_track_count = None, sa_duration_ms = None, sa_explicit = False, sa_quality = None, sa_kind = None,
      sa_copyright = None, sa_cover = cover\<rparr>"

definition open_album_view :: "string \<Rightarrow> string \<Rightarrow> string option \<Rightarrow> tui \<Rightarrow> effects \<times> tui" where
  "open_album_view i title cover =
     open_view ''albums'' (ViewTracks (track_list_new (RefAlbum i) (HeadAlbum (album_known_by i title cover))))
       (ReqAlbum i (Some page_size))"

definition open_track_list :: "catalog_ref \<Rightarrow> header \<Rightarrow> tui \<Rightarrow> effects \<times> tui" where
  "open_track_list from0 h =
     open_view (''albums, playlists or a track'' @ [CHR 0x27] @ ''s radio'') (ViewTracks (track_list_new from0 h))
       (ReqTracks from0 0 (Some page_size))"

definition open_track_radio :: "string \<Rightarrow> string \<Rightarrow> tui \<Rightarrow> effects \<times> tui" where
  "open_track_radio i seed_title = open_track_list (RefTrackRadio i) (HeadRadio (''Radio: '' @ seed_title))"

definition open_folder_view :: "string option \<Rightarrow> string \<Rightarrow> tui \<Rightarrow> effects \<times> tui" where
  "open_folder_view folder name =
     open_view ''a playlist folder'' (ViewFolder (folder_view_new folder name))
       (ReqPlaylistFolder folder 0 (Some page_size))"

definition open_artist_or_album ::
    "tui_action \<Rightarrow> ipc_artist_ref option \<Rightarrow> ipc_album_ref option \<Rightarrow> tui \<Rightarrow> effects \<times> tui" where
  "open_artist_or_album act artist album s =
     (if act = ActOpenAlbum
      then (case album of
              Some b \<Rightarrow> open_album_view (ib_id b) (ib_title b) (ib_cover b) s
            | None \<Rightarrow> (fx_none, s))
      else (case artist of
              Some a \<Rightarrow> open_artist_view (ia_id a) (ia_name a) None s
            | None \<Rightarrow> (fx_none, s)))"

section \<open>Adding and favorites\<close>

definition is_add_from :: "request \<Rightarrow> bool" where
  "is_add_from req = (case req of ReqQueueAddFrom f a \<Rightarrow> True | _ \<Rightarrow> False)"

definition send_add :: "request \<Rightarrow> bool \<Rightarrow> tui \<Rightarrow> effects \<times> tui" where
  "send_add req play s =
     (if tu_connection s \<noteq> Connected then (fx_redraw, s\<lparr>tu_last_error := Some not_connected\<rparr>)
      else if is_add_from req \<and> \<not> has_capability cap_catalog s
      then (fx_redraw, s\<lparr>tu_last_error :=
              Some ''this phoniad cannot add albums or playlists: it needs protocol 1.6''\<rparr>)
      else (fx_redraw_with [CmdRequest (TagAdd play) req], s\<lparr>tu_last_error := None\<rparr>))"

definition send_add_from :: "catalog_ref \<Rightarrow> nat option \<Rightarrow> tui \<Rightarrow> effects \<times> tui" where
  "send_add_from from0 play_at s =
     (case require_browsable ''albums, playlists or artists'' s of
        (False, s) \<Rightarrow> (fx_redraw, s)
      | (True, s) \<Rightarrow>
          (fx_redraw_with [CmdRequest (TagAddFrom play_at) (ReqQueueAddFrom from0 AddEnd)],
           s\<lparr>tu_last_error := None\<rparr>))"

definition send_favorite :: "catalog_kind \<Rightarrow> string option \<Rightarrow> bool \<Rightarrow> tui \<Rightarrow> effects \<times> tui" where
  "send_favorite kind i favorite s =
     (case i of
        None \<Rightarrow> (fx_none, s)
      | Some i \<Rightarrow>
          (case require_browsable ''favorites'' s of
             (False, s) \<Rightarrow> (fx_redraw, s)
           | (True, s) \<Rightarrow>
               (fx_redraw_with [CmdRequest (TagFavorite favorite) (ReqSetFavorite kind i favorite)],
                s\<lparr>tu_last_error := None\<rparr>)))"

definition track_target :: "catalog_kind \<Rightarrow> track_summary \<Rightarrow> string option" where
  "track_target kind t =
     (case kind of
        Ipc_Tracks \<Rightarrow> Some (su_id t)
      | Ipc_Albums \<Rightarrow> map_option ib_id (su_album t)
      | Ipc_Artists \<Rightarrow> map_option ia_id (first_of (su_artists t))
      | _ \<Rightarrow> None)"

definition album_target :: "catalog_kind \<Rightarrow> album_summary \<Rightarrow> string option" where
  "album_target kind a =
     (case kind of
        Ipc_Albums \<Rightarrow> Some (sa_id a)
      | Ipc_Artists \<Rightarrow> map_option ia_id (first_of (sa_artists a))
      | _ \<Rightarrow> None)"

text \<open>Where \<open>a\<close> and \<open>A\<close> add; with \<open>at_end\<close> the key that adds at the end, any other adds next.\<close>

definition add_after :: "tui_action \<Rightarrow> add_at" where
  "add_after act = (if act = ActAddNext then AddNext else AddEnd)"

definition add_unless :: "tui_action \<Rightarrow> add_at" where
  "add_unless act = (if act = ActAddToQueue then AddEnd else AddNext)"

definition not_available :: "track_summary \<Rightarrow> string" where
  "not_available t = su_title t @ '' is not available where you are''"

definition add_track :: "add_at \<Rightarrow> bool \<Rightarrow> track_summary \<Rightarrow> tui \<Rightarrow> effects \<times> tui" where
  "add_track at0 play t s =
     (case source_tidal (su_id t) of
        Inr source \<Rightarrow> send_add (ReqQueueAdd [source] at0) play s
      | Inl reason \<Rightarrow> (fx_redraw, s\<lparr>tu_last_error := Some reason\<rparr>))"

definition add_streamable_track :: "add_at \<Rightarrow> bool \<Rightarrow> track_summary \<Rightarrow> tui \<Rightarrow> effects \<times> tui" where
  "add_streamable_track at0 play t s =
     (if \<not> su_streamable t then (fx_redraw, s\<lparr>tu_last_error := Some (not_available t)\<rparr>)
      else add_track at0 play t s)"

text \<open>\<^verbatim>\<open>items[start..=end]\<close>, which panics out of range.\<close>

definition slice_incl :: "nat \<Rightarrow> nat \<Rightarrow> 'a list \<Rightarrow> 'a list option" where
  "slice_incl first end xs =
     (if first \<le> end + 1 \<and> end < length xs then Some (take (end + 1 - first) (drop first xs)) else None)"

definition streamable_sources :: "track_summary list \<Rightarrow> string list" where
  "streamable_sources ts =
     List.map_filter (\<lambda>t. case source_tidal (su_id t) of Inr source \<Rightarrow> Some source | Inl _ \<Rightarrow> None)
       (filter su_streamable ts)"

definition take_marked_tracks :: "track_summary found \<Rightarrow> (string list \<times> track_summary found) option" where
  "take_marked_tracks f =
     (case cursor_marked (fd_cursor f) of
        (first, end) \<Rightarrow>
          map_option (\<lambda>ts. (streamable_sources ts, with_cursor (cursor_end_visual (fd_cursor f)) f))
            (slice_incl first end (fd_items f)))"

definition none_marked :: string where
  "none_marked = ''none of the marked tracks are available where you are''"

definition add_marked :: "tui_action \<Rightarrow> string list \<Rightarrow> tui \<Rightarrow> effects \<times> tui" where
  "add_marked act sources s =
     (if sources = [] then (fx_redraw, s\<lparr>tu_last_error := Some none_marked\<rparr>)
      else send_add (ReqQueueAdd sources (add_after act)) False s)"

section \<open>A result of the search\<close>

definition act_on_folder_entry :: "tui_action \<Rightarrow> folder_entry \<Rightarrow> tui \<Rightarrow> effects \<times> tui" where
  "act_on_folder_entry act e s =
     (case e of
        EntryFolder i name n \<Rightarrow> if act = ActActivate then open_folder_view (Some i) name s else (fx_none, s)
      | EntryPlaylist p \<Rightarrow>
          if act = ActActivate then open_track_list (RefPlaylist (sp_id p)) (HeadPlaylist p) s
          else if act = ActAddToQueue \<or> act = ActAddNext
          then send_add (ReqQueueAddFrom (RefPlaylist (sp_id p)) (add_unless act)) False s
          else (fx_none, s)
      | EntryUnknown \<Rightarrow> (fx_none, s))"

definition favorite_of_search :: "catalog_kind \<Rightarrow> search_row \<Rightarrow> string option" where
  "favorite_of_search kind x =
     (case x of
        SelTrack t \<Rightarrow> track_target kind t
      | SelAlbum a \<Rightarrow> album_target kind a
      | SelArtist a \<Rightarrow> if kind = Ipc_Artists then Some (sm_id a) else None
      | SelPlaylist p \<Rightarrow> if kind = Ipc_Playlists then Some (sp_id p) else None)"

definition opens_artist_or_album :: "tui_action \<Rightarrow> bool" where
  "opens_artist_or_album act \<longleftrightarrow> act = ActOpenArtist \<or> act = ActOpenAlbum"

definition adds :: "tui_action \<Rightarrow> bool" where
  "adds act \<longleftrightarrow> act = ActAddToQueue \<or> act = ActAddNext"

text \<open>Enter opens what is not a track; all else adds what is under the cursor.\<close>

definition add_search_selected :: "tui_action \<Rightarrow> search_row \<Rightarrow> tui \<Rightarrow> effects \<times> tui" where
  "add_search_selected act x s =
     (let play = (act = ActActivate); at0 = add_after act
      in case x of
           SelTrack t \<Rightarrow> add_streamable_track at0 play t s
         | SelAlbum a \<Rightarrow>
             if act = ActActivate then open_track_list (RefAlbum (sa_id a)) (HeadAlbum a) s
             else send_add (ReqQueueAddFrom (RefAlbum (sa_id a)) at0) play s
         | SelPlaylist p \<Rightarrow>
             if act = ActActivate then open_track_list (RefPlaylist (sp_id p)) (HeadPlaylist p) s
             else send_add (ReqQueueAddFrom (RefPlaylist (sp_id p)) at0) play s
         | SelArtist a \<Rightarrow>
             if act = ActActivate then open_artist_view (sm_id a) (sm_name a) (sm_picture a) s
             else send_add (ReqQueueAddFrom (RefArtistTopTracks (sm_id a)) at0) play s)"

definition act_on_result :: "tui_action \<Rightarrow> tui \<Rightarrow> (effects \<times> tui) option" where
  "act_on_result act s =
     (if section_of s \<noteq> SecSearch \<or> tu_focus s \<noteq> OnMain \<or> se_editing (tu_search s) \<or>
         se_phase (tu_search s) \<noteq> SearchDone
      then Some (fx_none, s)
      else case search_selected (tu_search s) of
        None \<Rightarrow> Some (fx_none, s)
      | Some x \<Rightarrow>
          if opens_artist_or_album act
          then Some (case x of
                 SelTrack t \<Rightarrow> open_artist_or_album act (first_of (su_artists t)) (su_album t) s
               | _ \<Rightarrow> (fx_none, s))
          else case act of
            ActFavorite kind favorite \<Rightarrow> Some (send_favorite kind (favorite_of_search kind x) favorite s)
          | ActOpenRadio \<Rightarrow>
              Some (case x of SelTrack t \<Rightarrow> open_track_radio (su_id t) (su_title t) s | _ \<Rightarrow> (fx_none, s))
          | _ \<Rightarrow>
              if adds act \<and> se_tab (tu_search s) = TabTracks \<and> cursor_visual (fd_cursor (se_tracks (tu_search s)))
              then (case take_marked_tracks (se_tracks (tu_search s)) of
                      None \<Rightarrow> None
                    | Some (sources, f) \<Rightarrow>
                        Some (add_marked act sources (s\<lparr>tu_search := (tu_search s)\<lparr>se_tracks := f\<rparr>\<rparr>)))
              else Some (add_search_selected act x s))"

section \<open>A row of the library\<close>

definition favorite_of_library :: "catalog_kind \<Rightarrow> library_row \<Rightarrow> string option" where
  "favorite_of_library kind x =
     (case x of
        LibTrack t \<Rightarrow> track_target kind t
      | LibAlbum a \<Rightarrow> album_target kind a
      | LibArtist a \<Rightarrow> if kind = Ipc_Artists then Some (sm_id a) else None
      | LibEntry e \<Rightarrow> None)"

definition add_library_selected :: "tui_action \<Rightarrow> library_row \<Rightarrow> tui \<Rightarrow> effects \<times> tui" where
  "add_library_selected act x s =
     (let play = (act = ActActivate); at0 = add_unless act
      in case x of
           LibEntry e \<Rightarrow> act_on_folder_entry act e s
         | LibTrack t \<Rightarrow> add_streamable_track at0 play t s
         | LibAlbum a \<Rightarrow>
             if act = ActActivate then open_track_list (RefAlbum (sa_id a)) (HeadAlbum a) s
             else send_add (ReqQueueAddFrom (RefAlbum (sa_id a)) at0) play s
         | LibArtist a \<Rightarrow>
             if act = ActActivate then open_artist_view (sm_id a) (sm_name a) (sm_picture a) s
             else send_add (ReqQueueAddFrom (RefArtistTopTracks (sm_id a)) at0) play s)"

definition act_on_library_result :: "tui_action \<Rightarrow> tui \<Rightarrow> effects \<times> tui" where
  "act_on_library_result act s =
     (if section_of s \<noteq> SecLibrary \<or> tu_focus s \<noteq> OnMain then (fx_none, s)
      else case tu_library s of
        None \<Rightarrow> (fx_none, s)
      | Some l \<Rightarrow>
          if \<not> tab_ready (li_tab l) l then (fx_none, s)
          else case library_selected l of
            None \<Rightarrow> (fx_none, s)
          | Some x \<Rightarrow>
              if opens_artist_or_album act
              then (case x of
                      LibTrack t \<Rightarrow> open_artist_or_album act (first_of (su_artists t)) (su_album t) s
                    | LibAlbum a \<Rightarrow> open_artist_or_album act (first_of (sa_artists a)) None s
                    | _ \<Rightarrow> (fx_none, s))
              else case act of
                ActOpenRadio \<Rightarrow>
                  (case x of LibTrack t \<Rightarrow> open_track_radio (su_id t) (su_title t) s | _ \<Rightarrow> (fx_none, s))
              | ActFavorite kind favorite \<Rightarrow> send_favorite kind (favorite_of_library kind x) favorite s
              | _ \<Rightarrow> add_library_selected act x s)"

end
