(* ===== verification/Tui_Rows.thy ===== *)
theory Tui_Rows
  imports Tui_Acts
begin

text \<open>
  The keys on a row of an opened view, of Home and of the queue, and the playback keys (\<^verbatim>\<open>app.rs\<close>).
\<close>

section \<open>An opened view\<close>

text \<open>The track list an open view shows, and the view with another in its place.\<close>

definition view_tracks :: "view \<Rightarrow> track_summary found option" where
  "view_tracks v =
     (case v of
        ViewTracks t \<Rightarrow> if tl_phase t = PhaseDone then Some (tl_tracks t) else None
      | ViewArtist a \<Rightarrow> if av_phase a = PhaseDone \<and> av_tab a = TabTopTracks then Some (av_top_tracks a) else None
      | ViewFolder _ \<Rightarrow> None)"

definition set_view_tracks :: "track_summary found \<Rightarrow> view \<Rightarrow> view" where
  "set_view_tracks f v =
     (case v of
        ViewTracks t \<Rightarrow> ViewTracks (t\<lparr>tl_tracks := f\<rparr>)
      | ViewArtist a \<Rightarrow> ViewArtist (a\<lparr>av_top_tracks := f\<rparr>)
      | ViewFolder w \<Rightarrow> ViewFolder w)"

definition open_tracks :: "tui \<Rightarrow> track_summary found option" where
  "open_tracks s = Option.bind (active_view s) view_tracks"

definition put_open_tracks :: "track_summary found \<Rightarrow> tui \<Rightarrow> tui" where
  "put_open_tracks f s = (case active_view s of Some v \<Rightarrow> put_view (set_view_tracks f v) s | None \<Rightarrow> s)"

datatype view_row =
    RowOfTrack catalog_ref track_summary nat
  | RowOfAlbum album_summary
  | RowOfArtist artist_summary

definition track_row_of :: "catalog_ref \<Rightarrow> track_summary found \<Rightarrow> view_row option" where
  "track_row_of from0 f =
     map_option (\<lambda>t. RowOfTrack from0 t (cu_selected (fd_cursor f))) (selected_of f)"

definition browsed_row :: "tui \<Rightarrow> view_row option" where
  "browsed_row s =
     (case active_view s of
        Some (ViewTracks v) \<Rightarrow> if tl_phase v = PhaseDone then track_row_of (tl_of v) (tl_tracks v) else None
      | Some (ViewArtist a) \<Rightarrow>
          if av_phase a \<noteq> PhaseDone then None
          else (case av_tab a of
                  TabTopTracks \<Rightarrow> track_row_of (RefArtistTopTracks (av_id a)) (av_top_tracks a)
                | TabArtistAlbums \<Rightarrow> map_option RowOfAlbum (selected_of (av_albums a))
                | TabSingles \<Rightarrow> map_option RowOfAlbum (selected_of (av_singles a))
                | TabSimilar \<Rightarrow> map_option RowOfArtist (selected_of (av_similar a)))
      | _ \<Rightarrow> None)"

text \<open>\<^verbatim>\<open>tracks[..index]\<close> panics past the end.\<close>

definition count_streamable_before :: "track_summary list \<Rightarrow> nat \<Rightarrow> nat option" where
  "count_streamable_before tracks index =
     (if index \<le> length tracks then Some (length (filter su_streamable (take index tracks))) else None)"

definition play_in_view :: "catalog_ref \<Rightarrow> nat \<Rightarrow> tui \<Rightarrow> (effects \<times> tui) option" where
  "play_in_view from0 index s =
     (case active_view s of
        Some (ViewTracks v) \<Rightarrow>
          map_option (\<lambda>n. send_add_from from0 (Some n) s) (count_streamable_before (fd_items (tl_tracks v)) index)
      | Some (ViewArtist a) \<Rightarrow>
          map_option (\<lambda>n. send_add_from from0 (Some n) s) (count_streamable_before (fd_items (av_top_tracks a)) index)
      | _ \<Rightarrow> Some (fx_none, s))"

definition another_album :: "catalog_ref \<Rightarrow> ipc_album_ref option \<Rightarrow> ipc_album_ref option" where
  "another_album from0 album =
     (case album of Some b \<Rightarrow> if from0 = RefAlbum (ib_id b) then None else Some b | None \<Rightarrow> None)"

definition act_on_track_row ::
    "tui_action \<Rightarrow> catalog_ref \<Rightarrow> track_summary \<Rightarrow> nat \<Rightarrow> tui \<Rightarrow> (effects \<times> tui) option" where
  "act_on_track_row act from0 t index s =
     (if \<not> su_streamable t \<and> (act = ActActivate \<or> adds act)
      then Some (fx_redraw, s\<lparr>tu_last_error := Some (not_available t)\<rparr>)
      else case act of
        ActActivate \<Rightarrow> play_in_view from0 index s
      | ActAddToQueue \<Rightarrow> Some (add_track AddEnd False t s)
      | ActAddNext \<Rightarrow> Some (add_track AddNext False t s)
      | ActOpenRadio \<Rightarrow> Some (open_track_radio (su_id t) (su_title t) s)
      | ActOpenArtist \<Rightarrow> Some (open_artist_or_album act (first_of (su_artists t)) (another_album from0 (su_album t)) s)
      | ActOpenAlbum \<Rightarrow> Some (open_artist_or_album act (first_of (su_artists t)) (another_album from0 (su_album t)) s)
      | ActFavorite kind favorite \<Rightarrow> Some (send_favorite kind (track_target kind t) favorite s)
      | _ \<Rightarrow> Some (fx_none, s))"

definition act_on_album_row :: "tui_action \<Rightarrow> album_summary \<Rightarrow> tui \<Rightarrow> effects \<times> tui" where
  "act_on_album_row act a s =
     (case act of
        ActActivate \<Rightarrow> open_track_list (RefAlbum (sa_id a)) (HeadAlbum a) s
      | ActAddToQueue \<Rightarrow> send_add (ReqQueueAddFrom (RefAlbum (sa_id a)) AddEnd) False s
      | ActAddNext \<Rightarrow> send_add (ReqQueueAddFrom (RefAlbum (sa_id a)) AddNext) False s
      | ActFavorite kind favorite \<Rightarrow> send_favorite kind (album_target kind a) favorite s
      | _ \<Rightarrow> (fx_none, s))"

definition act_on_artist_row :: "tui_action \<Rightarrow> artist_summary \<Rightarrow> tui \<Rightarrow> effects \<times> tui" where
  "act_on_artist_row act a s =
     (case act of
        ActActivate \<Rightarrow> open_artist_view (sm_id a) (sm_name a) (sm_picture a) s
      | ActFavorite kind favorite \<Rightarrow>
          if kind = Ipc_Artists then send_favorite kind (Some (sm_id a)) favorite s else (fx_none, s)
      | _ \<Rightarrow> (fx_none, s))"

definition act_on_row :: "tui_action \<Rightarrow> view_row option \<Rightarrow> tui \<Rightarrow> (effects \<times> tui) option" where
  "act_on_row act row s =
     (case row of
        Some (RowOfTrack from0 t index) \<Rightarrow> act_on_track_row act from0 t index s
      | Some (RowOfAlbum a) \<Rightarrow> Some (act_on_album_row act a s)
      | Some (RowOfArtist a) \<Rightarrow> Some (act_on_artist_row act a s)
      | None \<Rightarrow> Some (fx_none, s))"

text \<open>The folder that is open and loaded.\<close>

definition open_folder :: "tui \<Rightarrow> folder_view option" where
  "open_folder s =
     (case active_view s of
        Some (ViewFolder f) \<Rightarrow> if fw_phase f = PhaseDone then Some f else None
      | _ \<Rightarrow> None)"

definition act_in_view :: "tui_action \<Rightarrow> tui \<Rightarrow> (effects \<times> tui) option" where
  "act_in_view act s =
     (case open_folder s of
        Some f \<Rightarrow>
          Some (case selected_of (fw_entries f) of
                  None \<Rightarrow> (fx_none, s)
                | Some e \<Rightarrow> act_on_folder_entry act e s)
      | None \<Rightarrow>
          (case open_tracks s of
             Some f \<Rightarrow>
               if adds act \<and> cursor_visual (fd_cursor f)
               then map_option (\<lambda>(sources, f). add_marked act sources (put_open_tracks f s)) (take_marked_tracks f)
               else act_on_row act (browsed_row s) s
           | None \<Rightarrow> act_on_row act (browsed_row s) s))"

section \<open>Home\<close>

definition select_section :: "nat \<Rightarrow> tui \<Rightarrow> tui" where
  "select_section i s = s\<lparr>tu_sidebar := cursor_select i (length sections) (tu_sidebar s)\<rparr>"

definition section_position :: "tui_section \<Rightarrow> nat" where
  "section_position x = (case position_of (\<lambda>y. y = x) sections of Some i \<Rightarrow> i | None \<Rightarrow> 0)"

definition jump_to_library :: "library_tab \<Rightarrow> tui \<Rightarrow> effects \<times> tui" where
  "jump_to_library tab s =
     (let s = s\<lparr>tu_library := map_option (\<lambda>l. l\<lparr>li_tab := tab\<rparr>) (tu_library s)\<rparr>
      in (fx_redraw, (select_section (section_position SecLibrary) s)\<lparr>tu_focus := OnMain\<rparr>))"

definition played_artist :: "ipc_played_track \<Rightarrow> ipc_artist_ref option" where
  "played_artist p =
     map_option (\<lambda>i. \<lparr>ia_id = i, ia_name = (case ip_artist p of Some n \<Rightarrow> n | None \<Rightarrow> [])\<rparr>) (ip_artist_id p)"

definition played_album :: "ipc_played_track \<Rightarrow> ipc_album_ref option" where
  "played_album p = map_option (\<lambda>i. \<lparr>ib_id = i, ib_title = ''Album'', ib_cover = ip_cover p\<rparr>) (ip_album_id p)"

definition favorite_of_home :: "catalog_kind \<Rightarrow> home_row \<Rightarrow> string option" where
  "favorite_of_home kind x =
     (case x of
        RowTrack t \<Rightarrow> track_target kind t
      | RowAlbum a \<Rightarrow> album_target kind a
      | RowArtist a \<Rightarrow> if kind = Ipc_Artists then Some (sm_id a) else None
      | RowPlayed p \<Rightarrow>
          (case kind of
             Ipc_Tracks \<Rightarrow> strip_prefix ''tidal:'' (ip_source p)
           | Ipc_Albums \<Rightarrow> ip_album_id p
           | Ipc_Artists \<Rightarrow> ip_artist_id p
           | _ \<Rightarrow> None)
      | _ \<Rightarrow> None)"

definition open_from_home :: "tui_action \<Rightarrow> home_row \<Rightarrow> tui \<Rightarrow> effects \<times> tui" where
  "open_from_home act x s =
     (case x of
        RowTrack t \<Rightarrow> open_artist_or_album act (first_of (su_artists t)) (su_album t) s
      | RowPlayed p \<Rightarrow> open_artist_or_album act (played_artist p) (played_album p) s
      | _ \<Rightarrow> (fx_none, s))"

definition radio_from_home :: "home_row \<Rightarrow> tui \<Rightarrow> effects \<times> tui" where
  "radio_from_home x s =
     (case x of
        RowTrack t \<Rightarrow> open_track_radio (su_id t) (su_title t) s
      | RowPlayed p \<Rightarrow>
          (case strip_prefix ''tidal:'' (ip_source p) of
             Some i \<Rightarrow> open_track_radio i (case ip_title p of Some t \<Rightarrow> t | None \<Rightarrow> ip_source p) s
           | None \<Rightarrow> (fx_none, s))
      | _ \<Rightarrow> (fx_none, s))"

definition add_home_selected :: "tui_action \<Rightarrow> home_row \<Rightarrow> tui \<Rightarrow> effects \<times> tui" where
  "add_home_selected act x s =
     (let play = (act = ActActivate); at0 = add_unless act
      in case x of
           RowEntry e \<Rightarrow> act_on_folder_entry act e s
         | RowContinue c \<Rightarrow>
             if act \<noteq> ActActivate then (fx_none, s)
             else (case continue_request c of
                     None \<Rightarrow> (fx_none, s)
                   | Some req \<Rightarrow> (fx_command (CmdSend req), s\<lparr>tu_last_error := None\<rparr>))
         | RowSeeAll tab n \<Rightarrow> if act \<noteq> ActActivate then (fx_none, s) else jump_to_library tab s
         | RowTrack t \<Rightarrow> add_streamable_track at0 play t s
         | RowAlbum a \<Rightarrow>
             if act = ActActivate then open_track_list (RefAlbum (sa_id a)) (HeadAlbum a) s
             else send_add (ReqQueueAddFrom (RefAlbum (sa_id a)) at0) False s
         | RowArtist a \<Rightarrow>
             if act = ActActivate then open_artist_view (sm_id a) (sm_name a) (sm_picture a) s
             else send_add (ReqQueueAddFrom (RefArtistTopTracks (sm_id a)) at0) False s
         | RowPlayed p \<Rightarrow> send_add (ReqQueueAdd [ip_source p] at0) play s
         | _ \<Rightarrow> (fx_none, s))"

definition act_on_home_result :: "tui_action \<Rightarrow> tui \<Rightarrow> effects \<times> tui" where
  "act_on_home_result act s =
     (if section_of s \<noteq> SecHome \<or> tu_focus s \<noteq> OnMain then (fx_none, s)
      else case home_selected s (cu_selected (tu_home_cursor s)) of
        None \<Rightarrow> (fx_none, s)
      | Some x \<Rightarrow>
          if opens_artist_or_album act then open_from_home act x s
          else case act of
            ActFavorite kind favorite \<Rightarrow> send_favorite kind (favorite_of_home kind x) favorite s
          | ActOpenRadio \<Rightarrow> radio_from_home x s
          | _ \<Rightarrow> add_home_selected act x s)"

section \<open>The queue\<close>

definition queue_entry :: "tui \<Rightarrow> ipc_queue_item option" where
  "queue_entry s = Option.bind (tu_queue s) (\<lambda>q. get_at (ix_items q) (cu_selected (tu_queue_cursor s)))"

text \<open>An entry's page opens in the library, which comes to the front.\<close>

definition open_queue_artist :: "tui \<Rightarrow> effects \<times> tui" where
  "open_queue_artist s =
     (if \<not> in_queue s then (fx_none, s)
      else case queue_entry s of
        None \<Rightarrow> (fx_none, s)
      | Some x \<Rightarrow>
          (case iq_artist_id x of
             None \<Rightarrow> (fx_redraw, s\<lparr>tu_last_error := Some ''this track has no artist page to open''\<rparr>)
           | Some i \<Rightarrow>
               (case require_browsable ''artists'' s of
                  (False, s) \<Rightarrow> (fx_redraw, s)
                | (True, s) \<Rightarrow>
                    open_artist_view i (case iq_artist x of Some n \<Rightarrow> n | None \<Rightarrow> []) None
                      (select_section (section_position SecLibrary) s))))"

definition open_queue_album :: "tui \<Rightarrow> effects \<times> tui" where
  "open_queue_album s =
     (if \<not> in_queue s then (fx_none, s)
      else case queue_entry s of
        None \<Rightarrow> (fx_none, s)
      | Some x \<Rightarrow>
          (case iq_album_id x of
             None \<Rightarrow> (fx_redraw, s\<lparr>tu_last_error := Some ''this track has no album page to open''\<rparr>)
           | Some i \<Rightarrow>
               (case require_browsable ''albums'' s of
                  (False, s) \<Rightarrow> (fx_redraw, s)
                | (True, s) \<Rightarrow>
                    open_album_view i ''Album'' (iq_cover x) (select_section (section_position SecLibrary) s))))"

definition favorite_queue_entry :: "catalog_kind \<Rightarrow> bool \<Rightarrow> tui \<Rightarrow> effects \<times> tui" where
  "favorite_queue_entry kind favorite s =
     (if \<not> in_queue s then (fx_none, s)
      else case queue_entry s of
        None \<Rightarrow> (fx_none, s)
      | Some x \<Rightarrow>
          send_favorite kind
            (case kind of
               Ipc_Tracks \<Rightarrow> strip_prefix ''tidal:'' (iq_source x)
             | Ipc_Albums \<Rightarrow> iq_album_id x
             | Ipc_Artists \<Rightarrow> iq_artist_id x
             | _ \<Rightarrow> None) favorite s)"

definition queue_request :: "tui_action \<Rightarrow> cursor \<Rightarrow> ipc_queue_item list \<Rightarrow> request option" where
  "queue_request act c items =
     (case cursor_marked c of
        (first, end) \<Rightarrow>
          (case act of
             ActActivate \<Rightarrow> map_option (\<lambda>x. ReqPlay (Some (iq_id x))) (get_at items (cu_selected c))
           | ActRemoveEntry \<Rightarrow> map_option (\<lambda>xs. ReqQueueRemove (map iq_id xs)) (slice_incl first end items)
           | ActClearQueue \<Rightarrow> if items \<noteq> [] then Some ReqQueueClear else None
           | ActMoveEntryDown \<Rightarrow> map_option (\<lambda>x. ReqQueueMove (iq_id x) first) (get_at items (end + 1))
           | ActMoveEntryUp \<Rightarrow>
               if first = 0 then None
               else map_option (\<lambda>x. ReqQueueMove (iq_id x) end) (get_at items (first - 1))
           | _ \<Rightarrow> None))"

definition queue_cursor_after :: "tui_action \<Rightarrow> nat \<Rightarrow> cursor \<Rightarrow> cursor" where
  "queue_cursor_after act len c =
     (case act of
        ActMoveEntryDown \<Rightarrow> cursor_slide True c
      | ActMoveEntryUp \<Rightarrow> cursor_slide False c
      | ActClearQueue \<Rightarrow> cursor_first c
      | ActRemoveEntry \<Rightarrow> cursor_end_visual (cursor_select (fst (cursor_marked c)) len c)
      | _ \<Rightarrow> c)"

definition edit_queue :: "tui_action \<Rightarrow> tui \<Rightarrow> effects \<times> tui" where
  "edit_queue act s =
     (if tu_connection s \<noteq> Connected \<or> \<not> in_queue s then (fx_none, s)
      else case tu_queue s of
        None \<Rightarrow> (fx_none, s)
      | Some q \<Rightarrow>
          (case queue_request act (tu_queue_cursor s) (ix_items q) of
             None \<Rightarrow> (fx_none, s)
           | Some req \<Rightarrow>
               let c = queue_cursor_after act (length (ix_items q)) (tu_queue_cursor s)
               in (\<lparr>ef_redraw = tu_last_error s \<noteq> None \<or> c \<noteq> tu_queue_cursor s, ef_commands = [CmdSend req]\<rparr>,
                   s\<lparr>tu_last_error := None, tu_queue_cursor := c\<rparr>)))"

section \<open>Playback\<close>

definition seek_step_ms :: nat where
  "seek_step_ms = 10000"

definition volume_step :: int where
  "volume_step = 5"

definition volume_of :: "tui \<Rightarrow> string + ipc_volume" where
  "volume_of s =
     (if \<not> has_capability cap_volume s
      then Inl ''this phoniad is too old to set the volume: restart it after updating''
      else case Option.bind (tu_status s) iu_volume of
             Some v \<Rightarrow> Inr v
           | None \<Rightarrow>
               Inl (''this output has no volume to set: it'' @ [CHR 0x27] @
                 ''s an exclusive card with no hardware mixer control of its own. Use the DAC'' @ [CHR 0x27] @
                 ''s own knob, or switch to a shared output''))"

definition step_volume :: "int \<Rightarrow> ipc_volume \<Rightarrow> request" where
  "step_volume change v = ReqSetVolume (nat (max 0 (min 100 (int (iv_percent v) + change))))"

definition with_volume :: "(ipc_volume \<Rightarrow> request) \<Rightarrow> tui \<Rightarrow> string + request" where
  "with_volume f s = (case volume_of s of Inl why \<Rightarrow> Inl why | Inr v \<Rightarrow> Inr (f v))"

text \<open>No answer at all is the panic of \<^verbatim>\<open>unreachable!\<close>.\<close>

definition request_for :: "tui_action \<Rightarrow> tui \<Rightarrow> (string + request) option" where
  "request_for act s =
     (case act of
        ActTogglePause \<Rightarrow> Some (Inr ReqTogglePause)
      | ActNext \<Rightarrow> Some (Inr ReqNext)
      | ActPrevious \<Rightarrow> Some (Inr ReqPrevious)
      | ActSeekBack \<Rightarrow> Some (Inr (ReqSeek (Ipc_Backward seek_step_ms)))
      | ActSeekForward \<Rightarrow> Some (Inr (ReqSeek (Ipc_Forward seek_step_ms)))
      | ActVolumeUp \<Rightarrow> Some (with_volume (step_volume volume_step) s)
      | ActVolumeDown \<Rightarrow> Some (with_volume (step_volume (- volume_step)) s)
      | ActToggleMute \<Rightarrow> Some (with_volume (\<lambda>v. ReqSetMute (\<not> iv_muted v)) s)
      | ActToggleShuffle \<Rightarrow> Some (Inr (ReqSetShuffle (\<not> (case tu_queue s of Some q \<Rightarrow> ix_shuffle q | None \<Rightarrow> False))))
      | ActCycleRepeat \<Rightarrow>
          Some (Inr (ReqSetRepeat (case map_option ix_repeat (tu_queue s) of
                 Some Ipc_RepeatAll \<Rightarrow> Ipc_RepeatOne
               | Some Ipc_RepeatOne \<Rightarrow> Ipc_RepeatOff
               | _ \<Rightarrow> Ipc_RepeatAll)))
      | ActToggleAutoplay \<Rightarrow>
          if \<not> has_capability cap_autoplay s
          then Some (Inl ''this phoniad cannot autoplay: it needs protocol 1.13 and a TIDAL login'')
          else Some (Inr (ReqSetAutoplay (\<not> (case tu_queue s of Some q \<Rightarrow> ix_autoplay q | None \<Rightarrow> False))))
      | _ \<Rightarrow> None)"

definition send_playback :: "tui_action \<Rightarrow> tui \<Rightarrow> (effects \<times> tui) option" where
  "send_playback act s =
     (if tu_connection s \<noteq> Connected then Some (fx_none, s)
      else case request_for act s of
        None \<Rightarrow> None
      | Some (Inr req) \<Rightarrow>
          Some (\<lparr>ef_redraw = tu_last_error s \<noteq> None, ef_commands = [CmdSend req]\<rparr>, s\<lparr>tu_last_error := None\<rparr>)
      | Some (Inl reason) \<Rightarrow> Some (fx_redraw, s\<lparr>tu_last_error := Some reason\<rparr>))"

definition reconnect :: "tui \<Rightarrow> effects \<times> tui" where
  "reconnect s =
     (case tu_connection s of
        Disconnected _ _ \<Rightarrow> (fx_redraw_with [CmdRetryNow], s\<lparr>tu_connection := Connecting\<rparr>)
      | Refused _ \<Rightarrow> (fx_redraw_with [CmdRetryNow], s\<lparr>tu_connection := Connecting\<rparr>)
      | _ \<Rightarrow> (fx_none, s))"

end
