(* ===== verification/Tui_Update.thy ===== *)
theory Tui_Update
  imports Tui_Rows
begin

text \<open>
  Moving about, the keys, and one message at a time (\<^verbatim>\<open>app.rs\<close>: \<^verbatim>\<open>apply\<close>, \<^verbatim>\<open>on_key\<close>, \<^verbatim>\<open>update\<close>).
\<close>

section \<open>Moving about\<close>

text \<open>The cursor a block is marked on, and the state with another in its place.\<close>

datatype visual_place = InQueueList | InSearchTracks | InOpenTracks

definition visual_place_of :: "tui \<Rightarrow> visual_place option" where
  "visual_place_of s =
     (if in_queue s \<and> 0 < queue_len s then Some InQueueList
      else if tu_focus s = OnMain \<and> section_of s = SecSearch \<and> tu_search_views s = [] \<and>
              se_tab (tu_search s) = TabTracks \<and> se_phase (tu_search s) = SearchDone \<and>
              fd_items (se_tracks (tu_search s)) \<noteq> []
      then Some InSearchTracks
      else if tu_focus s = OnMain \<and> (\<exists>f \<in> set_option (open_tracks s). fd_items f \<noteq> []) then Some InOpenTracks
      else None)"

definition on_search_tracks :: "(cursor \<Rightarrow> cursor) \<Rightarrow> tui \<Rightarrow> tui" where
  "on_search_tracks f s =
     s\<lparr>tu_search := (tu_search s)\<lparr>se_tracks :=
         with_cursor (f (fd_cursor (se_tracks (tu_search s)))) (se_tracks (tu_search s))\<rparr>\<rparr>"

definition on_open_tracks :: "(cursor \<Rightarrow> cursor) \<Rightarrow> tui \<Rightarrow> tui" where
  "on_open_tracks f s =
     (case open_tracks s of Some x \<Rightarrow> put_open_tracks (with_cursor (f (fd_cursor x)) x) s | None \<Rightarrow> s)"

definition toggle_visual :: "tui \<Rightarrow> tui" where
  "toggle_visual s =
     (case visual_place_of s of
        Some InQueueList \<Rightarrow> s\<lparr>tu_queue_cursor := cursor_toggle_visual (tu_queue_cursor s)\<rparr>
      | Some InSearchTracks \<Rightarrow> on_search_tracks cursor_toggle_visual s
      | Some InOpenTracks \<Rightarrow> on_open_tracks cursor_toggle_visual s
      | None \<Rightarrow> s)"

definition leave_visual :: "tui \<Rightarrow> tui" where
  "leave_visual s =
     (let s = s\<lparr>tu_queue_cursor := cursor_end_visual (tu_queue_cursor s)\<rparr>
      in on_open_tracks cursor_end_visual (on_search_tracks cursor_end_visual s))"

fun move_by :: "tui_action \<Rightarrow> nat \<Rightarrow> nat \<Rightarrow> cursor \<Rightarrow> cursor" where
  "move_by ActDown page len c = cursor_down len c"
| "move_by ActUp page len c = cursor_up c"
| "move_by ActFirst page len c = cursor_first c"
| "move_by ActLast page len c = cursor_last len c"
| "move_by ActHalfPageDown page len c = cursor_page_down len page c"
| "move_by ActHalfPageUp page len c = cursor_page_up page c"
| "move_by _ page len c = c"

definition move_cursor :: "tui_env \<Rightarrow> tui_action \<Rightarrow> tui \<Rightarrow> tui" where
  "move_cursor en act s =
     (let move = move_by act (half_page en s)
      in case (if tu_focus s = OnMain then active_view s else None) of
           Some v \<Rightarrow> put_view (set_view_cursor (move (view_len v) (view_cursor v)) v) s
         | None \<Rightarrow>
             if tu_focus s = OnSidebar then s\<lparr>tu_sidebar := move (length sections) (tu_sidebar s)\<rparr>
             else (case section_of s of
                SecQueue \<Rightarrow> s\<lparr>tu_queue_cursor := move (queue_len s) (tu_queue_cursor s)\<rparr>
              | SecSearch \<Rightarrow>
                  s\<lparr>tu_search := set_search_cursor
                      (move (search_list_len (tu_search s)) (search_list_cursor (tu_search s))) (tu_search s)\<rparr>
              | SecLibrary \<Rightarrow>
                  s\<lparr>tu_library := map_option (\<lambda>l. set_library_cursor
                      (move (library_list_len l) (library_list_cursor l)) l) (tu_library s)\<rparr>
              | SecLyrics \<Rightarrow> s
              | SecHome \<Rightarrow>
                  s\<lparr>tu_home_cursor := move (selectable_count (home_rows s)) (tu_home_cursor s)\<rparr>))"

text \<open>The next page of what an opened view shows, and the view waiting for it.\<close>

definition view_next_page :: "view \<Rightarrow> request option \<times> view" where
  "view_next_page v =
     (case v of
        ViewTracks t \<Rightarrow>
          if tl_phase t \<noteq> PhaseDone then (None, v)
          else (case next_offset (tl_tracks t) of
                  (n, f) \<Rightarrow> (map_option (\<lambda>n. ReqTracks (tl_of t) n (Some page_size)) n, ViewTracks (t\<lparr>tl_tracks := f\<rparr>)))
      | ViewArtist a \<Rightarrow>
          if av_phase a \<noteq> PhaseDone then (None, v)
          else (case av_tab a of
                  TabTopTracks \<Rightarrow>
                    (case next_offset (av_top_tracks a) of
                       (n, f) \<Rightarrow> (map_option (\<lambda>n. ReqTracks (RefArtistTopTracks (av_id a)) n (Some page_size)) n,
                                  ViewArtist (a\<lparr>av_top_tracks := f\<rparr>)))
                | TabArtistAlbums \<Rightarrow>
                    (case next_offset (av_albums a) of
                       (n, f) \<Rightarrow> (map_option (\<lambda>n. ReqAlbums (ListArtistAlbums (av_id a)) n (Some page_size)) n,
                                  ViewArtist (a\<lparr>av_albums := f\<rparr>)))
                | TabSingles \<Rightarrow>
                    (case next_offset (av_singles a) of
                       (n, f) \<Rightarrow> (map_option (\<lambda>n. ReqAlbums (ListArtistSingles (av_id a)) n (Some page_size)) n,
                                  ViewArtist (a\<lparr>av_singles := f\<rparr>)))
                | TabSimilar \<Rightarrow> (None, v))
      | ViewFolder w \<Rightarrow>
          if fw_phase w \<noteq> PhaseDone then (None, v)
          else (case next_offset (fw_entries w) of
                  (n, f) \<Rightarrow> (map_option (\<lambda>n. ReqPlaylistFolder (fw_folder w) n (Some page_size)) n,
                             ViewFolder (w\<lparr>fw_entries := f\<rparr>))))"

definition load_more_results :: "tui \<Rightarrow> cmd list \<times> tui" where
  "load_more_results s =
     (if tu_focus s \<noteq> OnMain \<or> se_editing (tu_search s) then ([], s)
      else if section_of s \<noteq> SecSearch \<and> section_of s \<noteq> SecLibrary then ([], s)
      else case (Option.bind (active_stack s) stack_top_serial, active_view s) of
        (Some serial, Some v) \<Rightarrow>
          (case view_next_page v of
             (Some req, v) \<Rightarrow> ([CmdRequest (TagView serial) req], put_view v s)
           | (None, v) \<Rightarrow> ([], put_view v s))
      | _ \<Rightarrow>
          (case section_of s of
             SecSearch \<Rightarrow>
               (case search_next_page (se_tab (tu_search s)) (tu_search s) of
                  (Some req, x) \<Rightarrow>
                    ([CmdRequest (TagSearchMore (se_tab x) (se_generation x)) req], s\<lparr>tu_search := x\<rparr>)
                | (None, x) \<Rightarrow> ([], s\<lparr>tu_search := x\<rparr>))
           | SecLibrary \<Rightarrow>
               (case tu_library s of
                  None \<Rightarrow> ([], s)
                | Some l \<Rightarrow>
                    (case library_next_page (li_tab l) l of
                       (Some req, l) \<Rightarrow>
                         ([CmdRequest (TagLibraryMore (li_tab l) (li_generation l)) req], s\<lparr>tu_library := Some l\<rparr>)
                     | (None, l) \<Rightarrow> ([], s\<lparr>tu_library := Some l\<rparr>)))
           | _ \<Rightarrow> ([], s)))"

fun scroll_by :: "tui_action \<Rightarrow> nat \<Rightarrow> nat \<Rightarrow> nat \<Rightarrow> nat" where
  "scroll_by ActDown page max0 before = min (before + 1) max0"
| "scroll_by ActUp page max0 before = min (before - 1) max0"
| "scroll_by ActFirst page max0 before = 0"
| "scroll_by ActLast page max0 before = max0"
| "scroll_by ActHalfPageDown page max0 before = min (before + page) max0"
| "scroll_by ActHalfPageUp page max0 before = min (before - page) max0"
| "scroll_by _ page max0 before = min before max0"

definition scroll_help :: "tui_env \<Rightarrow> tui_action \<Rightarrow> tui \<Rightarrow> effects \<times> tui" where
  "scroll_help en act s =
     (let new = scroll_by act (half_page en s) (tv_help_overflow en (snd (tu_size s))) (tu_help_scroll s)
      in (if new = tu_help_scroll s then fx_none else fx_redraw, s\<lparr>tu_help_scroll := new\<rparr>))"

definition scroll_lyrics :: "tui_env \<Rightarrow> tui_action \<Rightarrow> tui \<Rightarrow> effects \<times> tui" where
  "scroll_lyrics en act s =
     (case tu_lyrics s of
        None \<Rightarrow> (fx_none, s)
      | Some current \<Rightarrow>
          (case ls_lyrics current of
             None \<Rightarrow> (fx_none, s)
           | Some l \<Rightarrow>
               let rows = body_rows l (tv_content_height en (tu_size s));
                   position = (case tu_status s of Some st \<Rightarrow> iu_position_ms st | None \<Rightarrow> 0);
                   auto = auto_offset l position rows;
                   before = (case ls_scroll current of Some n \<Rightarrow> n | None \<Rightarrow> auto);
                   new = scroll_by act (half_page en s) (max_scroll l rows) before
               in if ls_scroll current = None \<and> new = auto then (fx_none, s)
                  else (if ls_scroll current = Some new then fx_none else fx_redraw,
                        s\<lparr>tu_lyrics := Some (current\<lparr>ls_scroll := Some new\<rparr>)\<rparr>)))"

section \<open>One action\<close>

text \<open>What might have changed visibly.\<close>

definition visible :: "tui \<Rightarrow> (focus \<times> bool \<times> cursor \<times> cursor \<times> search_tab \<times> cursor list \<times> nat option) \<times>
    (library_tab option \<times> cursor list option \<times> nat option \<times> cursor \<times> nat option \<times> cursor option)" where
  "visible s =
     ((tu_focus s, tu_help s, tu_sidebar s, tu_queue_cursor s, se_tab (tu_search s), search_cursors (tu_search s),
       stack_top_serial (tu_search_views s)),
      (map_option li_tab (tu_library s), map_option library_cursors (tu_library s),
       stack_top_serial (tu_library_views s), tu_home_cursor s, stack_top_serial (tu_home_views s),
       map_option view_cursor (active_view s)))"

definition redraw_if_moved :: "tui \<Rightarrow> tui \<Rightarrow> effects \<times> tui" where
  "redraw_if_moved before s = (if visible s = visible before then fx_none else fx_redraw, s)"

definition pop_view_if_browsing :: "tui \<Rightarrow> bool \<times> tui" where
  "pop_view_if_browsing s =
     (if tu_focus s \<noteq> OnMain then (False, s)
      else case active_stack s of
        None \<Rightarrow> (False, s)
      | Some st \<Rightarrow> (case stack_pop st of (popped, st) \<Rightarrow> (popped, put_stack st s)))"

text \<open>A key on a row: what is open, or the section's own list.\<close>

definition act_on_section :: "tui_action \<Rightarrow> tui \<Rightarrow> (effects \<times> tui) option" where
  "act_on_section act s =
     (case section_of s of
        SecSearch \<Rightarrow> if tu_search_views s = [] then act_on_result act s else act_in_view act s
      | SecLibrary \<Rightarrow> if tu_library_views s = [] then Some (act_on_library_result act s) else act_in_view act s
      | SecHome \<Rightarrow> if tu_home_views s = [] then Some (act_on_home_result act s) else act_in_view act s
      | _ \<Rightarrow> Some (fx_none, s))"

definition activate :: "tui \<Rightarrow> (effects \<times> tui) option" where
  "activate s =
     (if tu_focus s = OnSidebar then Some (redraw_if_moved s (s\<lparr>tu_focus := OnMain\<rparr>))
      else case section_of s of
        SecSearch \<Rightarrow>
          if tu_search_views s = [] \<and> search_selected (tu_search s) = None
          then Some (fx_redraw, s\<lparr>tu_search := (tu_search s)\<lparr>se_editing := True\<rparr>\<rparr>)
          else act_on_section ActActivate s
      | SecQueue \<Rightarrow> Some (edit_queue ActActivate s)
      | _ \<Rightarrow> act_on_section ActActivate s)"

definition on_queue_row :: "tui_action \<Rightarrow> tui \<Rightarrow> effects \<times> tui" where
  "on_queue_row act s =
     (case act of
        ActFavorite kind favorite \<Rightarrow> favorite_queue_entry kind favorite s
      | ActOpenArtist \<Rightarrow> open_queue_artist s
      | _ \<Rightarrow> open_queue_album s)"

definition start_search :: "tui \<Rightarrow> effects \<times> tui" where
  "start_search s =
     (fx_redraw,
      (select_section (section_position SecSearch) (s\<lparr>tu_search_views := []\<rparr>))
        \<lparr>tu_focus := OnMain, tu_search := (tu_search s)\<lparr>se_editing := True\<rparr>\<rparr>)"

definition turn :: "tui_action \<Rightarrow> 't list \<Rightarrow> 't \<Rightarrow> 't" where
  "turn act tabs t = (if act = ActTabNext then tab_next tabs t else tab_previous tabs t)"

definition switch_tab :: "tui_action \<Rightarrow> tui \<Rightarrow> effects \<times> tui" where
  "switch_tab act s =
     (case active_view s of
        Some (ViewArtist a) \<Rightarrow>
          let t = turn act artist_tabs (av_tab a)
          in (if t = av_tab a then fx_none else fx_redraw, put_view (ViewArtist (a\<lparr>av_tab := t\<rparr>)) s)
      | _ \<Rightarrow>
          (case section_of s of
             SecSearch \<Rightarrow>
               if tu_search_views s \<noteq> [] then (fx_none, s)
               else let t = turn act search_tabs (se_tab (tu_search s))
                    in (if t = se_tab (tu_search s) then fx_none else fx_redraw,
                        s\<lparr>tu_search := (tu_search s)\<lparr>se_tab := t\<rparr>\<rparr>)
           | SecLibrary \<Rightarrow>
               if tu_library_views s \<noteq> [] then (fx_none, s)
               else (case tu_library s of
                       None \<Rightarrow> (fx_none, s)
                     | Some l \<Rightarrow>
                         let t = turn act library_tabs (li_tab l)
                         in (if t = li_tab l then fx_none else fx_redraw, s\<lparr>tu_library := Some (l\<lparr>li_tab := t\<rparr>)\<rparr>))
           | _ \<Rightarrow> (fx_none, s)))"

definition move_or_scroll :: "tui_env \<Rightarrow> tui_action \<Rightarrow> tui \<Rightarrow> effects \<times> tui" where
  "move_or_scroll en act s =
     (if tu_focus s = OnMain \<and> section_of s = SecLyrics then scroll_lyrics en act s
      else case load_more_results (move_cursor en act s) of
        (commands, s') \<Rightarrow> if commands \<noteq> [] then (fx_redraw_with commands, s') else redraw_if_moved s s')"

definition next_focus :: "tui \<Rightarrow> focus" where
  "next_focus s = (if tu_focus s = OnMain \<and> sidebar_shown s then OnSidebar else OnMain)"

definition apply_action :: "tui_env \<Rightarrow> tui_action \<Rightarrow> tui \<Rightarrow> (effects \<times> tui) option" where
  "apply_action en act s =
     (case act of
        ActQuit \<Rightarrow> Some (fx_command CmdQuit, s)
      | ActReconnect \<Rightarrow> Some (reconnect s)
      | ActToggleHelp \<Rightarrow> Some (redraw_if_moved s (s\<lparr>tu_help := \<not> tu_help s, tu_help_scroll := 0\<rparr>))
      | ActCloseHelp \<Rightarrow> Some (redraw_if_moved s (leave_visual s))
      | ActVisual \<Rightarrow> Some (redraw_if_moved s (toggle_visual s))
      | ActFocusNext \<Rightarrow> Some (redraw_if_moved s (s\<lparr>tu_focus := next_focus s\<rparr>))
      | ActFocusSidebar \<Rightarrow>
          Some (redraw_if_moved s (case pop_view_if_browsing s of
                  (popped, s') \<Rightarrow> if \<not> popped \<and> sidebar_shown s' then s'\<lparr>tu_focus := OnSidebar\<rparr> else s'))
      | ActBack \<Rightarrow> Some (redraw_if_moved s (snd (pop_view_if_browsing s)))
      | ActFocusMain \<Rightarrow> Some (redraw_if_moved s (s\<lparr>tu_focus := OnMain\<rparr>))
      | ActSection i \<Rightarrow> Some (redraw_if_moved s (select_section i s))
      | ActActivate \<Rightarrow> activate s
      | ActRemoveEntry \<Rightarrow> Some (edit_queue act s)
      | ActMoveEntryDown \<Rightarrow> Some (edit_queue act s)
      | ActMoveEntryUp \<Rightarrow> Some (edit_queue act s)
      | ActClearQueue \<Rightarrow> Some (edit_queue act s)
      | ActOpenArtist \<Rightarrow> if section_of s = SecQueue then Some (on_queue_row act s) else act_on_section act s
      | ActOpenAlbum \<Rightarrow> if section_of s = SecQueue then Some (on_queue_row act s) else act_on_section act s
      | ActFavorite kind favorite \<Rightarrow>
          if section_of s = SecQueue then Some (on_queue_row act s) else act_on_section act s
      | ActAddToQueue \<Rightarrow> act_on_section act s
      | ActAddNext \<Rightarrow> act_on_section act s
      | ActOpenRadio \<Rightarrow> act_on_section act s
      | ActStartSearch \<Rightarrow> Some (start_search s)
      | ActTabNext \<Rightarrow> Some (switch_tab act s)
      | ActTabPrevious \<Rightarrow> Some (switch_tab act s)
      | ActTogglePause \<Rightarrow> send_playback act s
      | ActNext \<Rightarrow> send_playback act s
      | ActPrevious \<Rightarrow> send_playback act s
      | ActSeekBack \<Rightarrow> send_playback act s
      | ActSeekForward \<Rightarrow> send_playback act s
      | ActVolumeUp \<Rightarrow> send_playback act s
      | ActVolumeDown \<Rightarrow> send_playback act s
      | ActToggleMute \<Rightarrow> send_playback act s
      | ActToggleShuffle \<Rightarrow> send_playback act s
      | ActCycleRepeat \<Rightarrow> send_playback act s
      | ActToggleAutoplay \<Rightarrow> send_playback act s
      | ActDown \<Rightarrow> Some (move_or_scroll en act s)
      | ActUp \<Rightarrow> Some (move_or_scroll en act s)
      | ActFirst \<Rightarrow> Some (move_or_scroll en act s)
      | ActLast \<Rightarrow> Some (move_or_scroll en act s)
      | ActHalfPageDown \<Rightarrow> Some (move_or_scroll en act s)
      | ActHalfPageUp \<Rightarrow> Some (move_or_scroll en act s))"

section \<open>The keys\<close>

definition submit_search :: "string \<Rightarrow> tui \<Rightarrow> effects \<times> tui" where
  "submit_search query s =
     (if query = [] then (fx_none, s)
      else if tu_connection s \<noteq> Connected
      then (fx_redraw, s\<lparr>tu_search := search_fail not_connected (tu_search s)\<rparr>)
      else if \<not> has_capability cap_catalog s
      then (fx_redraw, s\<lparr>tu_search := search_fail
              (''this phoniad cannot search TIDAL: it needs protocol 1.6 and a TIDAL login (run '' @
               ''`phonia login`, then restart it)'') (tu_search s)\<rparr>)
      else case search_begin query (tu_search s) of
             (req, x) \<Rightarrow> (fx_redraw_with [CmdRequest (TagSearch (se_generation x)) req], s\<lparr>tu_search := x\<rparr>))"

definition set_input :: "text_input \<Rightarrow> tui \<Rightarrow> tui" where
  "set_input t s = s\<lparr>tu_search := (tu_search s)\<lparr>se_input := t\<rparr>\<rparr>"

definition stop_typing :: "tui \<Rightarrow> tui" where
  "stop_typing s = s\<lparr>tu_search := (tu_search s)\<lparr>se_editing := False\<rparr>\<rparr>"

definition enter_search :: "tui \<Rightarrow> effects \<times> tui" where
  "enter_search s =
     (let query = concat (map utf8_encode (trim_ucs (ti_text (se_input (tu_search s)))));
          s = (stop_typing s)\<lparr>tu_focus := OnMain\<rparr>
      in case submit_search query s of (fx, s) \<Rightarrow> (fx\<lparr>ef_redraw := True\<rparr>, s))"

text \<open>What a key does to the line: \<open>None\<close> is a key that does nothing there.\<close>

definition edit_of :: "key_event \<Rightarrow> edit option" where
  "edit_of e =
     (case ke_code e of
        KeyLeft \<Rightarrow> Some Left
      | KeyRight \<Rightarrow> Some Right
      | KeyHome \<Rightarrow> Some Home
      | KeyEnd \<Rightarrow> Some End
      | KeyBackspace \<Rightarrow> Some Backspace
      | KeyDelete \<Rightarrow> Some Delete
      | KeyChar c \<Rightarrow>
          if ke_control e \<and> c = of_char (CHR ''a'') then Some Home
          else if ke_control e \<and> c = of_char (CHR ''e'') then Some End
          else if ke_control e \<and> c = of_char (CHR ''w'') then Some DeleteWordBack
          else if ke_control e \<and> c = of_char (CHR ''u'') then Some DeleteToStart
          else if \<not> ke_control e \<and> \<not> ke_alt e then Some (Insert c) else None
      | _ \<Rightarrow> None)"

definition on_key_typing :: "key_event \<Rightarrow> tui \<Rightarrow> (effects \<times> tui) option" where
  "on_key_typing e s =
     (if from_event e = ctrl_key (CHR ''c'') then Some (fx_command CmdQuit, s)
      else if ke_code e = KeyEsc then Some (fx_redraw, stop_typing s)
      else if ke_code e = KeyEnter then Some (enter_search s)
      else case edit_of e of
        None \<Rightarrow> Some (fx_none, s)
      | Some ed \<Rightarrow> map_option (\<lambda>t. (fx_redraw, set_input t s)) (edit_step ed (se_input (tu_search s))))"

definition scrolls :: "tui_action \<Rightarrow> bool" where
  "scrolls act \<longleftrightarrow> act \<in> {ActDown, ActUp, ActFirst, ActLast, ActHalfPageDown, ActHalfPageUp}"

definition on_key_in_help :: "tui_env \<Rightarrow> key \<Rightarrow> tui \<Rightarrow> effects \<times> tui" where
  "on_key_in_help en k s =
     (case resolve [] k of
        ResAction act \<Rightarrow>
          if act = ActQuit \<and> k = ctrl_key (CHR ''c'') then (fx_command CmdQuit, s)
          else if act \<in> {ActQuit, ActToggleHelp, ActCloseHelp} then (fx_redraw, s\<lparr>tu_help := False\<rparr>)
          else if scrolls act then scroll_help en act s
          else (fx_none, s)
      | _ \<Rightarrow> (fx_none, s))"

definition on_key_now :: "tui_env \<Rightarrow> key_event \<Rightarrow> tui \<Rightarrow> (effects \<times> tui) option" where
  "on_key_now en e s =
     (let k = from_event e
      in if tu_help s then Some (on_key_in_help en k s)
         else if se_editing (tu_search s) then on_key_typing e s
         else case resolve (tu_pending s) k of
           ResPending \<Rightarrow> Some (fx_none, s\<lparr>tu_pending := tu_pending s @ [k]\<rparr>)
         | ResNone \<Rightarrow> Some (fx_none, s\<lparr>tu_pending := []\<rparr>)
         | ResAction act \<Rightarrow> apply_action en act (s\<lparr>tu_pending := []\<rparr>))"

definition on_key :: "tui_env \<Rightarrow> key_event \<Rightarrow> tui \<Rightarrow> (effects \<times> tui) option" where
  "on_key en e s =
     map_option (\<lambda>(fx, s'). (fx\<lparr>ef_redraw := ef_redraw fx \<or> tu_notice s \<noteq> None\<rparr>, s'))
       (on_key_now en e (s\<lparr>tu_notice := None\<rparr>))"

section \<open>One message\<close>

definition connection_lost :: "string \<Rightarrow> nat \<Rightarrow> tui \<Rightarrow> tui" where
  "connection_lost reason retry_in s =
     s\<lparr>tu_connection := Disconnected reason retry_in, tu_search := search_lost (tu_search s),
       tu_search_views := stack_lost (tu_search_views s), tu_library := map_option library_lost (tu_library s),
       tu_library_views := stack_lost (tu_library_views s), tu_home_views := stack_lost (tu_home_views s),
       tu_lyrics := map_option lyrics_connection_lost (tu_lyrics s)\<rparr>"

fun update_now :: "tui_env \<Rightarrow> tui_msg \<Rightarrow> tui \<Rightarrow> (effects \<times> tui) option" where
  "update_now en (TuiKey e) s = on_key en e s"
| "update_now en (TuiResize columns rows) s =
     (let s = s\<lparr>tu_size := (columns, rows)\<rparr>
      in Some (fx_redraw, if sidebar_shown s then s else s\<lparr>tu_focus := OnMain\<rparr>))"
| "update_now en TuiTick s = Some (tui_tick s)"
| "update_now en (TuiConnected info protocol0 caps st q) s =
     Some (fx_redraw, clamp_queue_cursor
       (s\<lparr>tu_connection := Connected,
          tu_server := Some \<lparr>sv_info = info, sv_protocol = protocol0, sv_capabilities = caps\<rparr>,
          tu_status := Some st, tu_queue := Some q\<rparr>))"
| "update_now en (TuiDisconnected reason retry_in) s = Some (fx_redraw, connection_lost reason retry_in s)"
| "update_now en (TuiRefused reason) s = Some (fx_redraw, s\<lparr>tu_connection := Refused reason\<rparr>)"
| "update_now en (TuiDaemon ev) s = Some (on_daemon_event ev s)"
| "update_now en (TuiRequestFailed reason) s = Some (fx_redraw, s\<lparr>tu_last_error := Some reason\<rparr>)"
| "update_now en (TuiResponse tag result) s = Some (on_response tag result s)"

text \<open>What is asked for by itself, the moment it is first needed.\<close>

definition maybe_load_library :: "tui \<Rightarrow> cmd list \<times> tui" where
  "maybe_load_library s =
     (if (section_of s = SecLibrary \<or> section_of s = SecHome) \<and> tu_library s = None \<and>
         tu_connection s = Connected \<and> has_capability cap_catalog s
      then (library_commands 0 (snd library_new), s\<lparr>tu_library := Some (fst library_new)\<rparr>)
      else ([], s))"

definition maybe_load_recently_played :: "tui \<Rightarrow> cmd list \<times> tui" where
  "maybe_load_recently_played s =
     (if tu_recently_played s = None \<and> tu_connection s = Connected \<and> has_capability cap_recently_played s
      then ([CmdRequest TagRecentlyPlayed ReqRecentlyPlayed], s\<lparr>tu_recently_played := Some []\<rparr>)
      else ([], s))"

definition maybe_load_recommended :: "tui \<Rightarrow> cmd list \<times> tui" where
  "maybe_load_recommended s =
     (if tu_recommended s = None \<and> tu_connection s = Connected \<and> has_capability cap_catalog s
      then ([CmdRequest TagRecommendedAlbums (ReqAlbums ListRecommendedAlbums 0 None)],
            s\<lparr>tu_recommended := Some []\<rparr>)
      else ([], s))"

definition lyrics_wanted :: "bool \<Rightarrow> string \<Rightarrow> lyrics_state option \<Rightarrow> bool" where
  "lyrics_wanted retry i current =
     (case current of
        None \<Rightarrow> True
      | Some l \<Rightarrow> ls_id l \<noteq> i \<or> (retry \<and> (case ls_phase l of PhaseFailed _ \<Rightarrow> True | _ \<Rightarrow> False)))"

definition maybe_load_lyrics :: "bool \<Rightarrow> tui \<Rightarrow> cmd list \<times> tui" where
  "maybe_load_lyrics retry s =
     (if section_of s \<noteq> SecLyrics \<or> tu_connection s \<noteq> Connected \<or> \<not> has_capability cap_catalog s \<or>
         \<not> has_capability cap_lyrics s
      then ([], s)
      else case Option.bind (Option.bind (tu_status s) iu_track) (\<lambda>t. tidal_id (it_source t)) of
        None \<Rightarrow> ([], s)
      | Some i \<Rightarrow>
          if \<not> lyrics_wanted retry i (tu_lyrics s) then ([], s)
          else let generation = tu_lyrics_generation s + 1
               in case lyrics_begin i generation of
                    (l, asked) \<Rightarrow>
                      ([CmdRequest (TagLyrics generation) (ReqLyrics asked)],
                       s\<lparr>tu_lyrics_generation := generation, tu_lyrics := Some l\<rparr>))"

definition loads :: "bool \<Rightarrow> tui \<Rightarrow> cmd list \<times> tui" where
  "loads retry s =
     (let (a, s) = maybe_load_library s;
          (b, s) = maybe_load_recently_played s;
          (c, s) = maybe_load_recommended s;
          (d, s) = maybe_load_lyrics retry s
      in (a @ b @ c @ d, s))"

definition tui_update :: "tui_env \<Rightarrow> tui_msg \<Rightarrow> tui \<Rightarrow> (effects \<times> tui) option" where
  "tui_update en m s =
     (case update_now en m s of
        None \<Rightarrow> None
      | Some (fx, s') \<Rightarrow>
          let retry = (section_of s \<noteq> SecLyrics \<and> section_of s' = SecLyrics \<or>
                       tu_connection s \<noteq> Connected \<and> tu_connection s' = Connected)
          in case loads retry s' of
               (cs, s'') \<Rightarrow>
                 Some (\<lparr>ef_redraw = ef_redraw fx \<or> cs \<noteq> [], ef_commands = ef_commands fx @ cs\<rparr>, s''))"

text \<open>After a frame is drawn: where the list shown is scrolled to.\<close>

definition remember_scroll :: "nat \<Rightarrow> tui \<Rightarrow> tui" where
  "remember_scroll scroll s =
     (case active_view s of
        Some v \<Rightarrow> put_view (set_view_cursor (cursor_set_scroll scroll (view_cursor v)) v) s
      | None \<Rightarrow>
          (case section_of s of
             SecLyrics \<Rightarrow> s
           | SecQueue \<Rightarrow> s\<lparr>tu_queue_cursor := cursor_set_scroll scroll (tu_queue_cursor s)\<rparr>
           | SecHome \<Rightarrow> s\<lparr>tu_home_cursor := cursor_set_scroll scroll (tu_home_cursor s)\<rparr>
           | SecSearch \<Rightarrow>
               s\<lparr>tu_search := set_search_cursor
                   (cursor_set_scroll scroll (search_list_cursor (tu_search s))) (tu_search s)\<rparr>
           | SecLibrary \<Rightarrow>
               s\<lparr>tu_library := map_option (\<lambda>l. set_library_cursor
                   (cursor_set_scroll scroll (library_list_cursor l)) l) (tu_library s)\<rparr>))"

text \<open>The interface over a sequence of messages and frames: all it asked for, and where it is left.\<close>

datatype tui_act = Hears tui_msg | Drawn nat

fun tui_step :: "tui_env \<Rightarrow> tui_act \<Rightarrow> tui \<Rightarrow> (cmd list \<times> tui) option" where
  "tui_step en (Hears m) s = map_option (\<lambda>(fx, s). (ef_commands fx, s)) (tui_update en m s)"
| "tui_step en (Drawn scroll) s = Some ([], remember_scroll scroll s)"

fun tui_run :: "tui_env \<Rightarrow> tui_act list \<Rightarrow> tui \<Rightarrow> (cmd list \<times> tui) option" where
  "tui_run en [] s = Some ([], s)"
| "tui_run en (m # ms) s =
     (case tui_step en m s of
        None \<Rightarrow> None
      | Some (cs, s) \<Rightarrow> map_option (\<lambda>(cs', s). (cs @ cs', s)) (tui_run en ms s))"

end
