(* ===== verification/Tui_Inv.thy ===== *)
theory Tui_Inv
  imports Tui_Update
begin

text \<open>
  Every cursor of the interface stays in its list, whatever happens, so none of its slices panics.
\<close>

section \<open>Lists, views, the search and the library\<close>

definition found_ok :: "'a found \<Rightarrow> bool" where
  "found_ok f \<longleftrightarrow> cursor_in (length (fd_items f)) (fd_cursor f)"

lemma found_ok_ops [simp]:
  "found_ok found_new" "found_ok (from_page p)" "found_ok (found_of q)"
  "found_ok f \<Longrightarrow> found_ok (append_page page f)" "found_ok f \<Longrightarrow> found_ok (not_loading f)"
  "found_ok f \<Longrightarrow> found_ok (snd (next_offset f))"
  "found_ok (with_cursor c f) \<longleftrightarrow> cursor_in (length (fd_items f)) c"
  by (auto simp: found_ok_def found_new_def from_page_def found_of_def not_loading_def next_offset_def Let_def
      found_grows with_cursor_def split: option.splits)

lemma found_ok_next: "next_offset f = (n, f') \<Longrightarrow> found_ok f \<Longrightarrow> found_ok f'"
  by (metis found_ok_ops(6) snd_conv)

fun view_ok :: "view \<Rightarrow> bool" where
  "view_ok (ViewTracks t) = found_ok (tl_tracks t)"
| "view_ok (ViewArtist a) =
     (found_ok (av_top_tracks a) \<and> found_ok (av_albums a) \<and> found_ok (av_singles a) \<and> found_ok (av_similar a))"
| "view_ok (ViewFolder f) = found_ok (fw_entries f)"

definition stack_ok :: "stack \<Rightarrow> bool" where
  "stack_ok st \<longleftrightarrow> (\<forall>x \<in> set st. view_ok (snd x))"

definition search_ok :: "search_state \<Rightarrow> bool" where
  "search_ok x \<longleftrightarrow>
     found_ok (se_tracks x) \<and> found_ok (se_albums x) \<and> found_ok (se_artists x) \<and> found_ok (se_playlists x) \<and>
     input_ok (se_input x)"

definition library_ok :: "library_state \<Rightarrow> bool" where
  "library_ok l \<longleftrightarrow>
     found_ok (li_favorite_tracks l) \<and> found_ok (li_favorite_albums l) \<and> found_ok (li_favorite_artists l) \<and>
     found_ok (li_playlists l)"

lemma view_len_cursor:
  "view_ok v \<Longrightarrow> cursor_in (view_len v) (view_cursor v)"
  by (cases v) (auto simp: view_len_def view_cursor_def found_ok_def split: artist_tab.splits)

lemma set_view_cursor_ok:
  "view_ok v \<Longrightarrow> cursor_in (view_len v) c \<Longrightarrow> view_ok (set_view_cursor c v)"
  by (cases v) (auto simp: view_len_def set_view_cursor_def split: artist_tab.splits)

lemma new_views_ok [simp]:
  "view_ok (ViewTracks (track_list_new from0 h))" "view_ok (ViewArtist (artist_view_new i name picture))"
  "view_ok (ViewFolder (folder_view_new folder n))"
  by (simp_all add: track_list_new_def artist_view_new_def folder_view_new_def)

lemma view_lost_ok [simp]: "view_ok (view_lost v) = view_ok v"
  by (cases v) (simp_all add: view_lost_def)

lemma view_answer_ok:
  assumes "view_ok v"
  shows "view_ok (fst (view_answer result v))"
proof (cases v)
  case (ViewTracks t)
  then show ?thesis using assms
    by (auto simp: view_answer_def track_list_answer_def Let_def split: sum.splits reply_payload.splits)
next
  case (ViewArtist a)
  then show ?thesis using assms
    by (auto simp: view_answer_def artist_answer_def artist_opened_def clear_pending_def Let_def
        split: sum.splits reply_payload.splits album_list_ref.splits)
next
  case (ViewFolder f)
  then show ?thesis using assms
    by (auto simp: view_answer_def folder_answer_def Let_def split: sum.splits reply_payload.splits)
qed

lemma stack_ok_ops [simp]:
  "stack_ok []" "stack_ok st \<Longrightarrow> view_ok v \<Longrightarrow> stack_ok (stack_push n v st)"
  "stack_ok st \<Longrightarrow> stack_ok (snd (stack_pop st))" "stack_ok st \<Longrightarrow> view_ok v \<Longrightarrow> stack_ok (set_stack_top v st)"
  "stack_ok st \<Longrightarrow> stack_ok (stack_lost st)"
  by (auto simp: stack_ok_def stack_push_def stack_pop_def set_stack_top_def stack_lost_def dest: in_set_butlastD)

lemma stack_ok_top: "stack_ok st \<Longrightarrow> stack_top st = Some v \<Longrightarrow> view_ok v"
  by (auto simp: stack_ok_def stack_top_def last_of_def split: if_splits) (metis last_in_set snd_conv)

lemma stack_ok_find: "stack_ok st \<Longrightarrow> stack_find n st = Some v \<Longrightarrow> view_ok v"
  by (induction n st rule: stack_find.induct) (auto simp: stack_ok_def split: if_splits)

lemma stack_ok_put [simp]: "stack_ok st \<Longrightarrow> view_ok w \<Longrightarrow> stack_ok (stack_put n w st)"
  by (induction n w st rule: stack_put.induct) (auto simp: stack_ok_def)

lemma search_ok_ops [simp]:
  "search_ok x \<Longrightarrow> search_ok (snd (search_begin q x))" "search_ok x \<Longrightarrow> search_ok (search_fail reason x)"
  "search_ok x \<Longrightarrow> search_ok (snd (search_finish p x))" "search_ok x \<Longrightarrow> search_ok (snd (search_next_page t x))"
  "search_ok x \<Longrightarrow> search_ok (search_page_failed t x)" "search_ok x \<Longrightarrow> search_ok (search_add_page t p x)"
  "search_ok x \<Longrightarrow> search_ok (search_lost x)" "search_ok search_new"
  by (auto simp: search_ok_def search_begin_def search_fail_def search_finish_def search_next_page_def
      search_next_offset_def search_page_failed_def search_add_page_def search_lost_def search_new_def
      input_ok_def input_new_def dest: found_ok_next
      split: reply_payload.splits search_tab.splits prod.splits option.splits)

lemma search_ok_fields [simp]:
  "search_ok (x\<lparr>se_editing := b\<rparr>) = search_ok x" "search_ok (x\<lparr>se_tab := t\<rparr>) = search_ok x"
  "search_ok x \<Longrightarrow> search_ok (x\<lparr>se_input := i\<rparr>) = input_ok i"
  "search_ok x \<Longrightarrow> search_ok (x\<lparr>se_tracks := f\<rparr>) = found_ok f"
  by (auto simp: search_ok_def)

lemma search_cursor_ok:
  "search_ok x \<Longrightarrow> cursor_in (search_list_len x) (search_list_cursor x)"
  "search_ok x \<Longrightarrow> cursor_in (search_list_len x) c \<Longrightarrow> search_ok (set_search_cursor c x)"
  by (auto simp: search_ok_def search_list_len_def search_list_cursor_def set_search_cursor_def found_ok_def
      with_cursor_def split: search_tab.splits)

lemma library_ok_ops [simp]:
  "library_ok (fst library_new)" "library_ok l \<Longrightarrow> library_ok (library_fail reason l)"
  "library_ok l \<Longrightarrow> library_ok (snd (library_finish p l))"
  "library_ok l \<Longrightarrow> library_ok (library_fail_playlists reason l)"
  "library_ok l \<Longrightarrow> library_ok (snd (library_finish_playlists p l))"
  "library_ok l \<Longrightarrow> library_ok (library_fail_artists reason l)"
  "library_ok l \<Longrightarrow> library_ok (snd (library_finish_artists p l))"
  "library_ok l \<Longrightarrow> library_ok (snd (library_next_page t l))" "library_ok l \<Longrightarrow> library_ok (library_page_failed t l)"
  "library_ok l \<Longrightarrow> library_ok (library_lost l)"
  by (auto simp: library_ok_def library_new_def library_fail_def library_finish_def library_fail_playlists_def
      library_finish_playlists_def library_fail_artists_def library_finish_artists_def library_next_page_def
      library_page_failed_def library_lost_def Let_def dest: found_ok_next
      split: reply_payload.splits library_tab.splits prod.splits)

lemma library_add_page_ok [simp]: "library_ok l \<Longrightarrow> library_ok (library_add_page t p l)"
  by (cases t; cases p) (simp_all add: library_add_page_def library_page_failed_def library_ok_def)

lemma library_ok_fields [simp]:
  "library_ok (l\<lparr>li_tab := t\<rparr>) = library_ok l" "library_ok (l\<lparr>li_generation := n\<rparr>) = library_ok l"
  "library_ok (l\<lparr>li_phase := p\<rparr>) = library_ok l" "library_ok (l\<lparr>li_playlists_phase := p\<rparr>) = library_ok l"
  "library_ok (l\<lparr>li_artists_phase := p\<rparr>) = library_ok l"
  by (simp_all add: library_ok_def)

lemma library_cursor_ok:
  "library_ok l \<Longrightarrow> cursor_in (library_list_len l) (library_list_cursor l)"
  "library_ok l \<Longrightarrow> cursor_in (library_list_len l) c \<Longrightarrow> library_ok (set_library_cursor c l)"
  by (auto simp: library_ok_def library_list_len_def library_list_cursor_def set_library_cursor_def found_ok_def
      with_cursor_def split: library_tab.splits)

section \<open>The interface\<close>

definition tui_ok :: "tui \<Rightarrow> bool" where
  "tui_ok s \<longleftrightarrow>
     cursor_in (length sections) (tu_sidebar s) \<and> cursor_in (queue_len s) (tu_queue_cursor s) \<and>
     search_ok (tu_search s) \<and> stack_ok (tu_search_views s) \<and> stack_ok (tu_library_views s) \<and>
     stack_ok (tu_home_views s) \<and> pred_option library_ok (tu_library s)"

lemma tui_ok_other [simp]:
  "tui_ok (s\<lparr>tu_focus := a\<rparr>) = tui_ok s" "tui_ok (s\<lparr>tu_home_cursor := b\<rparr>) = tui_ok s"
  "tui_ok (s\<lparr>tu_help := d\<rparr>) = tui_ok s" "tui_ok (s\<lparr>tu_help_scroll := e\<rparr>) = tui_ok s"
  "tui_ok (s\<lparr>tu_pending := f\<rparr>) = tui_ok s" "tui_ok (s\<lparr>tu_size := g\<rparr>) = tui_ok s"
  "tui_ok (s\<lparr>tu_connection := h\<rparr>) = tui_ok s" "tui_ok (s\<lparr>tu_server := i\<rparr>) = tui_ok s"
  "tui_ok (s\<lparr>tu_status := j\<rparr>) = tui_ok s" "tui_ok (s\<lparr>tu_recently_played := k\<rparr>) = tui_ok s"
  "tui_ok (s\<lparr>tu_recommended := l\<rparr>) = tui_ok s" "tui_ok (s\<lparr>tu_last_error := m\<rparr>) = tui_ok s"
  "tui_ok (s\<lparr>tu_playback_error := n\<rparr>) = tui_ok s" "tui_ok (s\<lparr>tu_notice := o1\<rparr>) = tui_ok s"
  "tui_ok (s\<lparr>tu_lyrics := p\<rparr>) = tui_ok s" "tui_ok (s\<lparr>tu_lyrics_generation := q\<rparr>) = tui_ok s"
  "tui_ok (s\<lparr>tu_next_serial := r\<rparr>) = tui_ok s"
  by (simp_all add: tui_ok_def queue_len_def)

lemma tui_ok_parts:
  "tui_ok s \<Longrightarrow> tui_ok (s\<lparr>tu_search := x\<rparr>) = search_ok x"
  "tui_ok s \<Longrightarrow> tui_ok (s\<lparr>tu_search_views := st\<rparr>) = stack_ok st"
  "tui_ok s \<Longrightarrow> tui_ok (s\<lparr>tu_library_views := st\<rparr>) = stack_ok st"
  "tui_ok s \<Longrightarrow> tui_ok (s\<lparr>tu_home_views := st\<rparr>) = stack_ok st"
  "tui_ok s \<Longrightarrow> tui_ok (s\<lparr>tu_library := lib\<rparr>) = pred_option library_ok lib"
  "tui_ok s \<Longrightarrow> tui_ok (s\<lparr>tu_sidebar := c\<rparr>) = cursor_in (length sections) c"
  "tui_ok s \<Longrightarrow> tui_ok (s\<lparr>tu_queue_cursor := c\<rparr>) = cursor_in (queue_len s) c"
  by (auto simp: tui_ok_def queue_len_def)

lemma tui_ok_has:
  "tui_ok s \<Longrightarrow> search_ok (tu_search s)" "tui_ok s \<Longrightarrow> stack_ok (tu_search_views s)"
  "tui_ok s \<Longrightarrow> stack_ok (tu_library_views s)" "tui_ok s \<Longrightarrow> stack_ok (tu_home_views s)"
  "tui_ok s \<Longrightarrow> tu_library s = Some l \<Longrightarrow> library_ok l" "tui_ok s \<Longrightarrow> pred_option library_ok (tu_library s)"
  "tui_ok s \<Longrightarrow> cursor_in (queue_len s) (tu_queue_cursor s)"
  "tui_ok s \<Longrightarrow> cursor_in (length sections) (tu_sidebar s)"
  by (auto simp: tui_ok_def)

lemma active_stack_ok: "tui_ok s \<Longrightarrow> active_stack s = Some st \<Longrightarrow> stack_ok st"
  by (auto simp: active_stack_def tui_ok_has split: tui_section.splits)

lemma active_view_ok: "tui_ok s \<Longrightarrow> active_view s = Some v \<Longrightarrow> view_ok v"
  by (auto simp: active_view_def bind_eq_Some_conv dest: active_stack_ok stack_ok_top)

lemma put_stack_ok [simp]: "tui_ok s \<Longrightarrow> stack_ok st \<Longrightarrow> tui_ok (put_stack st s)"
  by (auto simp: put_stack_def tui_ok_parts split: tui_section.splits)

lemma put_view_ok [simp]: "tui_ok s \<Longrightarrow> view_ok v \<Longrightarrow> tui_ok (put_view v s)"
  by (auto simp: put_view_def active_stack_ok split: option.splits)

lemma clamped_ok [simp]: "tui_ok s \<Longrightarrow> tui_ok (clamp_queue_cursor (s\<lparr>tu_queue := q\<rparr>))"
  by (auto simp: clamp_queue_cursor_def tui_ok_def queue_len_def)

lemma select_section_ok [simp]: "tui_ok s \<Longrightarrow> tui_ok (select_section i s)"
  by (simp add: select_section_def tui_ok_parts tui_ok_has)

section \<open>Answers and events\<close>

lemma answers_ok:
  "tui_ok s \<Longrightarrow> tui_ok (complain line s)"
  "tui_ok s \<Longrightarrow> tui_ok (snd (on_added result play_at s))"
  "tui_ok s \<Longrightarrow> tui_ok (snd (on_favorited favorite result s))"
  by (auto simp: complain_def on_added_def on_favorited_def Let_def tui_ok_parts tui_ok_has
      split: option.splits sum.splits reply_payload.splits)

lemma on_view_response_ok: "tui_ok s \<Longrightarrow> tui_ok (snd (on_view_response serial result s))"
proof -
  assume ok: "tui_ok s"
  have "tui_ok (put_found_view serial (fst (view_answer result v)) s)" if "find_view serial s = Some v" for v
  proof -
    have "view_ok v"
      using that ok by (auto simp: find_view_def dest: stack_ok_find tui_ok_has split: option.splits)
    then show ?thesis
      using ok view_answer_ok [of v result] by (auto simp: put_found_view_def tui_ok_parts tui_ok_has)
  qed
  then show ?thesis
    using ok by (auto simp: on_view_response_def answers_ok split: option.splits prod.splits)
qed

lemma on_library_ok:
  "tui_ok s \<Longrightarrow> (\<And>l. library_ok l \<Longrightarrow> library_ok (fst (f l))) \<Longrightarrow> tui_ok (snd (on_library n f s))"
  by (auto simp: on_library_def intro!: answers_ok simp: tui_ok_parts split: option.splits prod.splits)
    (metis fst_conv tui_ok_has(5))

lemma on_response_ok: "tui_ok s \<Longrightarrow> tui_ok (snd (on_response t result s))"
proof (cases t)
  case (TagSearch n)
  then show "tui_ok s \<Longrightarrow> ?thesis" by (auto simp: tui_ok_parts tui_ok_has split: sum.splits)
next
  case (TagSearchMore tab n)
  then show "tui_ok s \<Longrightarrow> ?thesis" by (auto simp: tui_ok_parts tui_ok_has split: sum.splits)
next
  case (TagLyrics n)
  then show "tui_ok s \<Longrightarrow> ?thesis" by (auto split: option.splits)
next
  case TagRecentlyPlayed
  then show "tui_ok s \<Longrightarrow> ?thesis" by (auto split: sum.splits reply_payload.splits)
next
  case TagRecommendedAlbums
  then show "tui_ok s \<Longrightarrow> ?thesis" by (auto split: sum.splits reply_payload.splits)
qed (auto simp: answers_ok on_view_response_ok intro!: on_library_ok split: sum.splits)

lemma on_daemon_event_ok: "tui_ok s \<Longrightarrow> tui_ok (snd (on_daemon_event ev s))"
  by (cases ev) (simp_all add: set_status_def)

section \<open>Keys\<close>

text \<open>No panic, and a good state.\<close>

fun fine :: "(effects \<times> tui) option \<Rightarrow> bool" where
  "fine None = False"
| "fine (Some x) = tui_ok (snd x)"

lemma fine_map: "(\<And>x. r = Some x \<Longrightarrow> tui_ok (snd x) \<Longrightarrow> tui_ok (snd (f x))) \<Longrightarrow> fine r \<Longrightarrow> fine (map_option f r)"
  by (cases r) auto

named_theorems acts_ok

lemma require_browsable_ok: "tui_ok s \<Longrightarrow> require_browsable what s = (b, s') \<Longrightarrow> tui_ok s'"
  by (auto simp: require_browsable_def split: if_splits)

lemma open_view_ok [acts_ok]: "tui_ok s \<Longrightarrow> view_ok v \<Longrightarrow> tui_ok (snd (open_view what v req s))"
proof -
  assume ok: "tui_ok s" "view_ok v"
  obtain b s' where r: "require_browsable what s = (b, s')" by fastforce
  have good: "tui_ok (s'\<lparr>tu_next_serial := n\<rparr>)" for n using require_browsable_ok [OF ok(1) r] by simp
  have "tui_ok (put_stack (stack_push m v st) (s'\<lparr>tu_next_serial := n\<rparr>))"
    if "active_stack (s'\<lparr>tu_next_serial := n\<rparr>) = Some st" for n m st
    using active_stack_ok [OF good that] ok(2) good by simp
  then show ?thesis
    using r good require_browsable_ok [OF ok(1) r]
    by (cases b) (auto simp: open_view_def Let_def split: option.splits)
qed

lemma opens_ok [acts_ok]:
  "tui_ok s \<Longrightarrow> tui_ok (snd (open_artist_view i n picture s))" "tui_ok s \<Longrightarrow> tui_ok (snd (open_album_view i n picture s))"
  "tui_ok s \<Longrightarrow> tui_ok (snd (open_track_list from0 h s))" "tui_ok s \<Longrightarrow> tui_ok (snd (open_track_radio i n s))"
  "tui_ok s \<Longrightarrow> tui_ok (snd (open_folder_view folder n s))"
  unfolding open_artist_view_def open_album_view_def open_track_radio_def open_track_list_def open_folder_view_def
  by (rule open_view_ok, assumption, rule new_views_ok)+

lemma open_artist_or_album_ok [acts_ok]: "tui_ok s \<Longrightarrow> tui_ok (snd (open_artist_or_album act artist album s))"
  by (simp add: open_artist_or_album_def acts_ok split: option.split)

lemma sends_ok [acts_ok]:
  "tui_ok s \<Longrightarrow> tui_ok (snd (send_add req play s))" "tui_ok s \<Longrightarrow> tui_ok (snd (send_add_from from0 play_at s))"
  "tui_ok s \<Longrightarrow> tui_ok (snd (send_favorite kind i favorite s))"
  by (auto simp: send_add_def send_add_from_def send_favorite_def require_browsable_def split: option.split)

lemma adds_ok [acts_ok]:
  "tui_ok s \<Longrightarrow> tui_ok (snd (add_track a play t s))" "tui_ok s \<Longrightarrow> tui_ok (snd (add_streamable_track a play t s))"
  "tui_ok s \<Longrightarrow> tui_ok (snd (add_marked act sources s))" "tui_ok s \<Longrightarrow> tui_ok (snd (act_on_folder_entry act e s))"
  by (auto simp: add_track_def add_streamable_track_def add_marked_def act_on_folder_entry_def acts_ok
      split: sum.split folder_entry.split)

lemma add_search_selected_ok [acts_ok]: "tui_ok s \<Longrightarrow> tui_ok (snd (add_search_selected act x s))"
  by (simp add: add_search_selected_def Let_def acts_ok split: search_row.split)

lemma slice_marked:
  "found_ok f \<Longrightarrow> fd_items f \<noteq> [] \<Longrightarrow>
     \<exists>ts. slice_incl (fst (cursor_marked (fd_cursor f))) (snd (cursor_marked (fd_cursor f))) (fd_items f) = Some ts"
  by (auto simp: found_ok_def cursor_in_def cursor_marked_def slice_incl_def Let_def Suc_le_eq [symmetric]
      split: option.splits) (cases "fd_items f"; simp)+

lemma take_marked_ok:
  assumes "found_ok f" "cursor_visual (fd_cursor f)"
  shows "\<exists>sources f'. take_marked_tracks f = Some (sources, f') \<and> found_ok f'"
proof -
  have "fd_items f \<noteq> []"
    using assms by (auto simp: found_ok_def cursor_in_def cursor_visual_def)
  then show ?thesis
    using slice_marked [OF assms(1)] assms(1)
    by (auto simp: take_marked_tracks_def split: prod.splits) (simp add: found_ok_def)
qed

lemma act_on_result_ok [acts_ok]: "tui_ok s \<Longrightarrow> fine (act_on_result act s)"
proof -
  assume ok: "tui_ok s"
  have marked: "fine (case take_marked_tracks (se_tracks (tu_search s)) of None \<Rightarrow> None
      | Some (sources, f) \<Rightarrow> Some (add_marked act sources (s\<lparr>tu_search := (tu_search s)\<lparr>se_tracks := f\<rparr>\<rparr>)))"
    if "cursor_visual (fd_cursor (se_tracks (tu_search s)))"
  proof -
    have x: "search_ok (tu_search s)" using ok by (rule tui_ok_has)
    then have "found_ok (se_tracks (tu_search s))" by (simp add: search_ok_def)
    from take_marked_ok [OF this that] show ?thesis using ok x by (auto intro!: adds_ok simp: tui_ok_parts)
  qed
  have rest: "fine (if adds act \<and> se_tab (tu_search s) = TabTracks \<and> cursor_visual (fd_cursor (se_tracks (tu_search s)))
      then (case take_marked_tracks (se_tracks (tu_search s)) of
              None \<Rightarrow> None
            | Some (sources, f) \<Rightarrow> Some (add_marked act sources (s\<lparr>tu_search := (tu_search s)\<lparr>se_tracks := f\<rparr>\<rparr>)))
      else Some (add_search_selected act x s))" for x
    using marked ok by (simp add: acts_ok)
  have opened: "tui_ok (snd (case x of SelTrack t \<Rightarrow> open_artist_or_album act (first_of (su_artists t)) (su_album t) s
      | _ \<Rightarrow> (fx_none, s)))" "tui_ok (snd (case x of SelTrack t \<Rightarrow> open_track_radio (su_id t) (su_title t) s
      | _ \<Rightarrow> (fx_none, s)))" for x
    using ok by (auto simp: acts_ok split: search_row.split)
  show ?thesis
  proof (cases "search_selected (tu_search s)")
    case (Some x)
    then show ?thesis
      unfolding act_on_result_def using ok rest [of x] opened [of x]
      by (cases act) (simp_all add: acts_ok del: fine.simps(1))
  qed (simp add: act_on_result_def ok)
qed

lemma act_on_library_result_ok [acts_ok]: "tui_ok s \<Longrightarrow> tui_ok (snd (act_on_library_result act s))"
  by (simp add: act_on_library_result_def add_library_selected_def Let_def acts_ok
      split: option.split tui_action.split library_row.split)

section \<open>Opened views, Home and the queue\<close>

lemma view_tracks_ok: "view_ok v \<Longrightarrow> view_tracks v = Some f \<Longrightarrow> found_ok f"
  by (cases v) (auto simp: view_tracks_def split: if_splits)

lemma set_view_tracks_ok [simp]: "view_ok v \<Longrightarrow> found_ok f \<Longrightarrow> view_ok (set_view_tracks f v)"
  by (cases v) (auto simp: set_view_tracks_def)

lemma open_tracks_ok: "tui_ok s \<Longrightarrow> open_tracks s = Some f \<Longrightarrow> found_ok f"
  by (auto simp: open_tracks_def bind_eq_Some_conv dest: active_view_ok view_tracks_ok)

lemma put_open_tracks_ok [simp]: "tui_ok s \<Longrightarrow> found_ok f \<Longrightarrow> tui_ok (put_open_tracks f s)"
  by (cases "active_view s") (auto simp: put_open_tracks_def intro!: put_view_ok set_view_tracks_ok dest: active_view_ok)

lemma play_in_view_ok:
  "tui_ok s \<Longrightarrow> browsed_row s = Some (RowOfTrack from0 t index) \<Longrightarrow> fine (play_in_view from0 index s)"
  by (auto simp: browsed_row_def play_in_view_def track_row_of_def selected_of_def count_streamable_before_def
      acts_ok split: option.splits view.splits if_splits artist_tab.splits)

lemma act_on_row_ok [acts_ok]: "tui_ok s \<Longrightarrow> fine (act_on_row act (browsed_row s) s)"
proof -
  assume ok: "tui_ok s"
  have "fine (act_on_track_row act from0 t index s)" if "browsed_row s = Some (RowOfTrack from0 t index)" for from0 t index
    using ok play_in_view_ok [OF ok that] by (simp add: act_on_track_row_def acts_ok split: tui_action.split)
  then show ?thesis
    using ok by (auto simp: act_on_row_def act_on_album_row_def act_on_artist_row_def acts_ok
        split: option.split view_row.split tui_action.split)
qed

lemma act_in_view_ok [acts_ok]: "tui_ok s \<Longrightarrow> fine (act_in_view act s)"
proof -
  assume ok: "tui_ok s"
  have marked: "fine (map_option (\<lambda>(sources, f). add_marked act sources (put_open_tracks f s)) (take_marked_tracks f))"
    if "open_tracks s = Some f" "cursor_visual (fd_cursor f)" for f
    using take_marked_ok [OF open_tracks_ok [OF ok that(1)] that(2)] ok by (auto intro!: adds_ok)
  show ?thesis using ok marked by (auto simp: act_in_view_def acts_ok split: option.split)
qed

lemma jump_to_library_ok [acts_ok]: "tui_ok s \<Longrightarrow> tui_ok (snd (jump_to_library tab s))"
proof -
  assume ok: "tui_ok s"
  then have "pred_option library_ok (map_option (\<lambda>l. l\<lparr>li_tab := tab\<rparr>) (tu_library s))"
    by (cases "tu_library s") (auto simp: tui_ok_has)
  with ok show ?thesis by (simp add: jump_to_library_def Let_def tui_ok_parts)
qed

lemma act_on_home_result_ok [acts_ok]: "tui_ok s \<Longrightarrow> tui_ok (snd (act_on_home_result act s))"
  by (simp add: act_on_home_result_def open_from_home_def radio_from_home_def add_home_selected_def Let_def acts_ok
      split: option.split tui_action.split home_row.split)

lemma queue_rows_ok [acts_ok]:
  "tui_ok s \<Longrightarrow> tui_ok (snd (open_queue_artist s))" "tui_ok s \<Longrightarrow> tui_ok (snd (open_queue_album s))"
  "tui_ok s \<Longrightarrow> tui_ok (snd (favorite_queue_entry kind favorite s))"
  by (auto simp: open_queue_artist_def open_queue_album_def favorite_queue_entry_def require_browsable_def acts_ok
      split: option.split)

lemma queue_cursor_after_ok:
  assumes "cursor_in (length items) c" "queue_request act c items = Some req"
  shows "cursor_in (length items) (queue_cursor_after act (length items) c)"
  using assms
  by (cases act)
    (auto simp: queue_request_def queue_cursor_after_def cursor_in_def cursor_marked_def cursor_slide_def
      shift_row_def cursor_first_def cursor_select_def cursor_end_visual_def Let_def get_at_def
      split: option.splits if_splits)

lemma edit_queue_ok [acts_ok]: "tui_ok s \<Longrightarrow> tui_ok (snd (edit_queue act s))"
  by (auto simp: edit_queue_def Let_def tui_ok_parts queue_len_def dest: tui_ok_has(7)
      intro!: queue_cursor_after_ok split: option.split)

lemma playback_ok [acts_ok]:
  "tui_ok s \<Longrightarrow> request_for act s \<noteq> None \<Longrightarrow> fine (send_playback act s)"
  "tui_ok s \<Longrightarrow> tui_ok (snd (reconnect s))"
  by (auto simp: send_playback_def reconnect_def split: sum.split tui_connection.split)

end
