(* ===== verification/Tui_Safe.thy ===== *)
theory Tui_Safe
  imports Tui_Inv
begin

text \<open>The interface never panics: the invariant over the keys and messages.\<close>

lemma move_by_ok: "cursor_in len c \<Longrightarrow> cursor_in len (move_by act page len c)"
  by (cases act) simp_all

lemma on_found_ok:
  "tui_ok s \<Longrightarrow> cursor_in (length (fd_items (se_tracks (tu_search s)))) (f (fd_cursor (se_tracks (tu_search s)))) \<Longrightarrow>
     tui_ok (on_search_tracks f s)"
  "tui_ok s \<Longrightarrow> (\<And>x. open_tracks s = Some x \<Longrightarrow> cursor_in (length (fd_items x)) (f (fd_cursor x))) \<Longrightarrow>
     tui_ok (on_open_tracks f s)"
  by (auto simp: on_search_tracks_def on_open_tracks_def tui_ok_parts tui_ok_has split: option.split)

lemma found_cursor: "found_ok f \<Longrightarrow> cursor_in (length (fd_items f)) (fd_cursor f)"
  by (simp add: found_ok_def)

lemma search_tracks_cursor: "tui_ok s \<Longrightarrow> cursor_in (length (fd_items (se_tracks (tu_search s)))) (fd_cursor (se_tracks (tu_search s)))"
  using tui_ok_has(1) by (auto simp: search_ok_def found_ok_def)

lemma visual_ok:
  assumes "tui_ok s"
  shows "tui_ok (toggle_visual s)" "tui_ok (leave_visual s)"
proof -
  show "tui_ok (toggle_visual s)"
  proof (cases "visual_place_of s")
    case (Some p)
    then show ?thesis
      using assms search_tracks_cursor [OF assms] found_cursor [OF open_tracks_ok [OF assms]] tui_ok_has(7) [OF assms]
      by (cases p)
        (auto simp: toggle_visual_def visual_place_of_def tui_ok_parts intro!: on_found_ok cursor_in_moves(12)
          split: if_splits)
  qed (simp add: toggle_visual_def assms)
  define s1 where "s1 = s\<lparr>tu_queue_cursor := cursor_end_visual (tu_queue_cursor s)\<rparr>"
  have s1: "tui_ok s1" using assms by (simp add: s1_def tui_ok_parts tui_ok_has)
  then have "tui_ok (on_search_tracks cursor_end_visual s1)" (is "tui_ok ?s2")
    by (intro on_found_ok(1) cursor_in_moves(10) search_tracks_cursor)
  then have "tui_ok (on_open_tracks cursor_end_visual ?s2)"
    by (intro on_found_ok(2)) (auto intro: cursor_in_moves(10) found_cursor dest: open_tracks_ok)
  then show "tui_ok (leave_visual s)" by (simp add: leave_visual_def s1_def)
qed

lemma move_cursor_ok: "tui_ok s \<Longrightarrow> tui_ok (move_cursor en act s)"
proof -
  assume ok: "tui_ok s"
  show ?thesis
  proof (cases "if tu_focus s = OnMain then active_view s else None")
    case (Some v)
    then have v: "view_ok v" using ok by (auto dest: active_view_ok split: if_splits)
    with Some ok show ?thesis
      by (auto simp: move_cursor_def Let_def intro!: put_view_ok set_view_cursor_ok move_by_ok view_len_cursor)
  next
    case None
    then have "tui_ok (move_cursor en act s) = tui_ok (if tu_focus s = OnSidebar
        then s\<lparr>tu_sidebar := move_by act (half_page en s) (length sections) (tu_sidebar s)\<rparr>
        else case section_of s of
          SecQueue \<Rightarrow> s\<lparr>tu_queue_cursor := move_by act (half_page en s) (queue_len s) (tu_queue_cursor s)\<rparr>
        | SecSearch \<Rightarrow> s\<lparr>tu_search := set_search_cursor (move_by act (half_page en s) (search_list_len (tu_search s))
            (search_list_cursor (tu_search s))) (tu_search s)\<rparr>
        | SecLibrary \<Rightarrow> s\<lparr>tu_library := map_option (\<lambda>l. set_library_cursor (move_by act (half_page en s)
            (library_list_len l) (library_list_cursor l)) l) (tu_library s)\<rparr>
        | SecLyrics \<Rightarrow> s
        | SecHome \<Rightarrow> s\<lparr>tu_home_cursor := move_by act (half_page en s) (selectable_count (home_rows s)) (tu_home_cursor s)\<rparr>)"
      by (simp add: move_cursor_def Let_def)
    moreover have "pred_option library_ok (map_option (\<lambda>l. set_library_cursor (move_by act (half_page en s)
        (library_list_len l) (library_list_cursor l)) l) (tu_library s))"
      by (cases "tu_library s") (auto intro!: library_cursor_ok move_by_ok dest: tui_ok_has(5) [OF ok])
    ultimately show ?thesis
      using ok tui_ok_has(7,8) [OF ok] tui_ok_has(1) [OF ok]
      by (auto simp: tui_ok_parts intro!: move_by_ok search_cursor_ok split: tui_section.split)
  qed
qed

lemma view_next_page_ok: "view_ok v \<Longrightarrow> view_ok (snd (view_next_page v))"
  by (cases v) (auto simp: view_next_page_def dest: found_ok_next split: prod.split artist_tab.split)

lemma load_more_results_ok: "tui_ok s \<Longrightarrow> tui_ok (snd (load_more_results s))"
proof -
  assume ok: "tui_ok s"
  have view: "tui_ok (put_view v' s)" if "active_view s = Some v" "view_next_page v = (n, v')" for v v' n
    using ok view_next_page_ok [OF active_view_ok [OF ok that(1)]] that(2) by simp
  have search: "tui_ok (s\<lparr>tu_search := x\<rparr>)" if "search_next_page t (tu_search s) = (n, x)" for t n x
    using ok search_ok_ops(4) [OF tui_ok_has(1) [OF ok], of t] that by (simp add: tui_ok_parts)
  have library: "tui_ok (s\<lparr>tu_library := Some l'\<rparr>)" if "tu_library s = Some l" "library_next_page t l = (n, l')" for t l n l'
    using ok library_ok_ops(8) [OF tui_ok_has(5) [OF ok that(1)], of t] that(2) by (simp add: tui_ok_parts)
  show ?thesis
    unfolding load_more_results_def
    using ok by (auto intro: view search library split: option.split prod.split tui_section.split)
qed

lemma scrolls_ok:
  "tui_ok s \<Longrightarrow> tui_ok (snd (scroll_help en act s))" "tui_ok s \<Longrightarrow> tui_ok (snd (scroll_lyrics en act s))"
  by (auto simp: scroll_help_def scroll_lyrics_def Let_def split: option.split)

lemma move_or_scroll_ok: "tui_ok s \<Longrightarrow> tui_ok (snd (move_or_scroll en act s))"
proof -
  assume ok: "tui_ok s"
  have "tui_ok s'" if "load_more_results (move_cursor en act s) = (cs, s')" for cs s'
    using load_more_results_ok [OF move_cursor_ok [OF ok]] that by (metis snd_conv)
  then show ?thesis
    using ok by (auto simp: move_or_scroll_def redraw_if_moved_def scrolls_ok split: prod.split)
qed

lemma pop_view_ok: "tui_ok s \<Longrightarrow> tui_ok (snd (pop_view_if_browsing s))"
proof -
  assume ok: "tui_ok s"
  have "tui_ok (put_stack (butlast st) s)" if "active_stack s = Some st" for st
    using stack_ok_ops(3) [OF active_stack_ok [OF ok that]] ok by (simp add: stack_pop_def)
  then show ?thesis using ok by (auto simp: pop_view_if_browsing_def stack_pop_def split: option.split)
qed

lemma switch_tab_ok: "tui_ok s \<Longrightarrow> tui_ok (snd (switch_tab act s))"
proof -
  assume ok: "tui_ok s"
  have "tui_ok (put_view (ViewArtist (a\<lparr>av_tab := t\<rparr>)) s)" if "active_view s = Some (ViewArtist a)" for a t
    using active_view_ok [OF ok that] ok by simp
  then show ?thesis
    using ok tui_ok_has(1) [OF ok] tui_ok_has(5) [OF ok]
    by (auto simp: switch_tab_def Let_def tui_ok_parts split: option.split view.split tui_section.split)
qed

lemma act_on_section_ok: "tui_ok s \<Longrightarrow> fine (act_on_section act s)"
  by (simp add: act_on_section_def acts_ok split: tui_section.split)

lemma activate_ok: "tui_ok s \<Longrightarrow> fine (activate s)"
  by (auto simp: activate_def redraw_if_moved_def act_on_section_ok acts_ok tui_ok_parts tui_ok_has
      split: tui_section.split)

lemma on_queue_row_ok: "tui_ok s \<Longrightarrow> tui_ok (snd (on_queue_row act s))"
  by (simp add: on_queue_row_def acts_ok split: tui_action.split)

lemma start_search_ok: "tui_ok s \<Longrightarrow> tui_ok (snd (start_search s))"
  by (simp add: start_search_def tui_ok_def select_section_def queue_len_def)

lemma apply_action_ok: "tui_ok s \<Longrightarrow> fine (apply_action en act s)"
proof -
  assume ok: "tui_ok s"
  have pop: "tui_ok s'" if "pop_view_if_browsing s = (b, s')" for b s'
    using pop_view_ok [OF ok] that by simp
  show ?thesis
    using ok pop pop_view_ok [OF ok]
    by (cases act) (auto simp: apply_action_def redraw_if_moved_def acts_ok visual_ok activate_ok on_queue_row_ok
        act_on_section_ok start_search_ok switch_tab_ok move_or_scroll_ok request_for_def split: prod.split)
qed

section \<open>Keys and messages\<close>

lemma submit_search_ok: "tui_ok s \<Longrightarrow> tui_ok (snd (submit_search q s))"
proof -
  assume ok: "tui_ok s"
  have "tui_ok (s\<lparr>tu_search := x\<rparr>)" if "search_begin q (tu_search s) = (r, x)" for r x
    using ok search_ok_ops(1) [OF tui_ok_has(1) [OF ok], of q] that by (simp add: tui_ok_parts)
  then show ?thesis
    using ok tui_ok_has(1) [OF ok] by (auto simp: submit_search_def tui_ok_parts split: prod.split)
qed

lemma on_key_typing_ok: "tui_ok s \<Longrightarrow> fine (on_key_typing e s)"
proof -
  assume ok: "tui_ok s"
  have "input_ok (se_input (tu_search s))" using tui_ok_has(1) [OF ok] by (simp add: search_ok_def)
  then have edit: "\<exists>t. edit_step ed (se_input (tu_search s)) = Some t \<and> input_ok t" for ed
    using edit_step_halves by blast
  have typed: "fine (map_option (\<lambda>t. (fx_redraw, set_input t s)) (edit_step ed (se_input (tu_search s))))" for ed
    using edit [of ed] ok tui_ok_has(1) [OF ok] by (auto simp: set_input_def tui_ok_parts)
  have stop: "tui_ok (stop_typing s)" using ok tui_ok_has(1) [OF ok] by (simp add: stop_typing_def tui_ok_parts)
  have "tui_ok (snd (enter_search s))"
    using submit_search_ok [of "(stop_typing s)\<lparr>tu_focus := OnMain\<rparr>"] stop
    by (auto simp: enter_search_def Let_def split: prod.split) (metis snd_conv)
  then show ?thesis
    using ok stop typed by (auto simp: on_key_typing_def split: option.split)
qed

lemma on_key_ok: "tui_ok s \<Longrightarrow> fine (on_key en e s)"
proof -
  assume ok: "tui_ok s"
  then have s: "tui_ok (s\<lparr>tu_notice := None\<rparr>)" by simp
  have "fine (on_key_now en e s)" if "tui_ok s" for s
    using that
    by (auto simp: on_key_now_def on_key_in_help_def Let_def apply_action_ok on_key_typing_ok scrolls_ok
        split: resolution.split)
  from this [OF s] show ?thesis unfolding on_key_def by (intro fine_map) auto
qed

lemma connection_lost_ok: "tui_ok s \<Longrightarrow> tui_ok (connection_lost reason retry_in s)"
proof -
  assume ok: "tui_ok s"
  have "pred_option library_ok (map_option library_lost (tu_library s))"
    by (cases "tu_library s") (auto dest: tui_ok_has(5) [OF ok])
  then show ?thesis using ok by (simp add: connection_lost_def tui_ok_def queue_len_def)
qed

lemma tui_tick_ok: "tui_ok s \<Longrightarrow> tui_ok (snd (tui_tick s))"
  by (simp add: tui_tick_def Let_def split: tui_connection.split)

lemma connected_ok:
  "tui_ok s \<Longrightarrow> tui_ok (clamp_queue_cursor (s\<lparr>tu_connection := c, tu_server := v, tu_status := st, tu_queue := q\<rparr>))"
  by (simp add: clamp_queue_cursor_def tui_ok_def queue_len_def)

lemma update_now_ok: "tui_ok s \<Longrightarrow> fine (update_now en m s)"
  by (cases m) (simp_all add: on_key_ok tui_tick_ok connection_lost_ok on_daemon_event_ok on_response_ok connected_ok Let_def)

lemma loads_ok: "tui_ok s \<Longrightarrow> tui_ok (snd (loads retry s))"
proof -
  assume ok: "tui_ok s"
  have a: "tui_ok (snd (maybe_load_library s))" if "tui_ok s" for s
    using that by (simp add: maybe_load_library_def tui_ok_parts)
  have b: "tui_ok (snd (maybe_load_recently_played s))" "tui_ok (snd (maybe_load_recommended s))"
    "tui_ok (snd (maybe_load_lyrics retry s))" if "tui_ok s" for s
    using that
    by (auto simp: maybe_load_recently_played_def maybe_load_recommended_def maybe_load_lyrics_def lyrics_begin_def
        Let_def split: option.split)
  show ?thesis unfolding loads_def using ok a b by (simp add: Let_def split_beta)
qed

lemma tui_step_ok:
  "tui_ok s \<Longrightarrow> \<exists>cs s'. tui_step en a s = Some (cs, s') \<and> tui_ok s'"
proof (cases a)
  case (Hears m)
  assume ok: "tui_ok s"
  obtain fx s' where u: "update_now en m s = Some (fx, s')" "tui_ok s'"
    using update_now_ok [OF ok, of en m] by (cases "update_now en m s") auto
  then show ?thesis
    using loads_ok [OF u(2)] by (auto simp: Hears tui_update_def Let_def split: prod.split) (metis snd_conv)+
next
  case (Drawn scroll)
  assume ok: "tui_ok s"
  have "tui_ok (remember_scroll scroll s)"
  proof (cases "active_view s")
    case (Some v)
    then show ?thesis
      using ok active_view_ok [OF ok Some]
      by (auto simp: remember_scroll_def intro!: put_view_ok set_view_cursor_ok cursor_in_moves(11) view_len_cursor)
  next
    case None
    have "pred_option library_ok (map_option (\<lambda>l. set_library_cursor
        (cursor_set_scroll scroll (library_list_cursor l)) l) (tu_library s))"
      by (cases "tu_library s") (auto intro!: library_cursor_ok cursor_in_moves(11) dest: tui_ok_has(5) [OF ok])
    then show ?thesis
      using ok None tui_ok_has(1,7) [OF ok]
      by (auto simp: remember_scroll_def tui_ok_parts intro!: search_cursor_ok cursor_in_moves(11)
          split: tui_section.split)
  qed
  then show ?thesis by (simp add: Drawn)
qed

lemma tui_run_ok: "tui_ok s \<Longrightarrow> \<exists>cs s'. tui_run en acts s = Some (cs, s') \<and> tui_ok s'"
proof (induction acts arbitrary: s)
  case (Cons a acts)
  obtain cs s' where "tui_step en a s = Some (cs, s')" "tui_ok s'" using tui_step_ok [OF Cons.prems] by blast
  then show ?case using Cons.IH [of s'] by auto
qed simp

lemma tui_new_ok: "tui_ok tui_new"
  by (simp add: tui_ok_def tui_new_def queue_len_def)

text \<open>
  Home's cursor is not brought back when Home has fewer rows: the one recently played track was under
  the cursor, and is gone from the list.
\<close>

definition home_shrinks :: "tui_act list" where
  "home_shrinks =
     [Hears (TuiDaemon (Ev_RecentlyPlayedChanged
        [\<lparr>ip_source = ''tidal:1'', ip_title = None, ip_artist = None, ip_duration_ms = None, ip_cover = None,
          ip_played_at_ms = 0, ip_artist_id = None, ip_album_id = None, ip_album = None\<rparr>])),
      Hears (TuiKey \<lparr>ke_code = KeyTab, ke_control = False, ke_alt = False\<rparr>),
      Hears (TuiKey \<lparr>ke_code = KeyDown, ke_control = False, ke_alt = False\<rparr>),
      Hears (TuiDaemon (Ev_RecentlyPlayedChanged []))]"

lemma home_cursor_left_behind:
  "case tui_run en home_shrinks tui_new of
     None \<Rightarrow> False
   | Some (cs, s) \<Rightarrow> cu_selected (tu_home_cursor s) = 1 \<and> selectable_count (home_rows s) = 1"
  by code_simp

text \<open>
  C38. Whatever keys are pressed, whatever the daemon says or answers and in whatever order, the interface
  does not panic: no slice is out of bounds, no text is cut inside a character, no action reaches a place
  it cannot. The selected row and the marked block of the sidebar, the queue, the search results, the
  library and every open view are in their list. Home's cursor is the exception
  (\<open>home_cursor_left_behind\<close>): nothing brings it back when Home's rows become fewer, but its row is only
  ever looked up, and a row that is not there does nothing.
\<close>

theorem interface_never_panics:
  "\<exists>cs s. tui_run en acts tui_new = Some (cs, s) \<and> tui_ok s"
  using tui_run_ok [OF tui_new_ok] .

end
