(* ===== verification/Tui_Props.thy ===== *)
theory Tui_Props
  imports Tui_Safe Daemon_Props
begin

text \<open>
  The interface with what it talks to: Enter in an opened listing, and moving a block of the queue.
\<close>

section \<open>Enter plays the row\<close>

lemma nth_streamable:
  "i < length xs \<Longrightarrow> P (xs ! i) \<Longrightarrow>
     length (filter P (take i xs)) < length (filter P xs) \<and> filter P xs ! length (filter P (take i xs)) = xs ! i"
proof -
  assume i: "i < length xs" "P (xs ! i)"
  then have "filter P xs = filter P (take i xs) @ xs ! i # filter P (drop (Suc i) xs)"
    using arg_cong [OF id_take_nth_drop [OF i(1)], of "filter P"] by simp
  then show ?thesis by (simp add: nth_append)
qed

lemma filter_streamable_converted:
  "length (filter su_streamable (take i (map convert_track_summary xs))) = length (filter ct_streamable (take i xs))"
proof -
  have "length (filter su_streamable (map convert_track_summary ys)) = length (filter ct_streamable ys)" for ys
    by (induction ys) (simp_all add: convert_track_summary_def)
  then show ?thesis by (simp add: take_map)
qed

lemma apply_activate_in_view:
  assumes "active_view s = Some v" and "tu_focus s = OnMain"
  shows "apply_action en ActActivate s = act_in_view ActActivate s"
proof (cases "section_of s")
qed (use assms in \<open>simp_all add: apply_action_def activate_def act_on_section_def active_view_def active_stack_def
    stack_top_def last_of_def split: if_splits\<close>)

text \<open>
  C39. Enter on a track of an opened album, playlist or radio plays that very track: the whole listing is
  asked to be added, the daemon answers with the ids of the entries, and the one asked to play is
  that of the track the cursor was on, however many before it cannot be streamed and whatever the
  queue held.
\<close>

theorem enter_plays_the_row:
  assumes "de_catalog en = Some c" and "lists c from0 whole" and "length whole \<le> 1000"
    and "active_view s = Some (ViewTracks v)" and "tl_phase v = PhaseDone" and "tl_of v = from0"
    and "fd_items (tl_tracks v) = map convert_track_summary (take k whole)"
    and "cu_selected (fd_cursor (tl_tracks v)) = i" and "i < k" and "i < length whole" and "ct_streamable (whole ! i)"
    and "tu_focus s = OnMain" and "has_capability cap_catalog s"
    and "daemon_queue_add_from en from0 AddEnd d = (r, d')"
  shows "\<exists>fx s1 n p x. apply_action ten ActActivate s = Some (fx, s1) \<and>
    ef_commands fx = [CmdRequest (TagAddFrom (Some n)) (ReqQueueAddFrom from0 AddEnd)] \<and> r = ReplyOk p \<and>
    ef_commands (fst (on_response (TagAddFrom (Some n)) (Inr p) s2)) = [CmdSend (ReqPlay (Some (qi_id x)))] \<and>
    x \<in> set (items (qu_inner (ct_queue (dm_control d')))) \<and> qt_source (qi_track x) = ''tidal:'' @ ct_id (whole ! i)"
proof -
  define n where "n = length (filter ct_streamable (take i whole))"
  let ?new = "items (qu_inner (ct_queue (dm_control d')))" and ?old = "items (qu_inner (ct_queue (dm_control d)))"
  let ?row = "convert_track_summary (whole ! i)"
  have n: "n < length (filter ct_streamable whole)" "filter ct_streamable whole ! n = whole ! i"
    using nth_streamable [of i whole ct_streamable] assms(10,11) by (simp_all add: n_def)
  obtain ids where r: "r = ReplyOk (PayAdded ids (List.map_filter (rejected_only \<circ> accepted_from_catalog) whole) [])"
    and len: "length ids = length (filter ct_streamable whole)"
    and ids: "map qi_id ?new = map qi_id ?old @ ids"
    and sources: "map (qt_source \<circ> qi_track) ?new =
      map (qt_source \<circ> qi_track) ?old @ map (\<lambda>t. ''tidal:'' @ ct_id t) (filter ct_streamable whole)"
    using listing_added [OF assms(1-3,14)] by blast
  define x where "x = ?new ! (length ?old + n)"
  have "length ?new = length ?old + length ids" using ids by (metis length_append length_map)
  then have in_range: "length ?old + n < length ?new" using n len by simp
  have "map qi_id ?new ! (length ?old + n) = ids ! n" using ids by (simp add: nth_append)
  moreover have "map (qt_source \<circ> qi_track) ?new ! (length ?old + n) = ''tidal:'' @ ct_id (whole ! i)"
    unfolding sources using n by (simp add: nth_append)
  ultimately have x: "x \<in> set ?new" "qi_id x = ids ! n" "qt_source (qi_track x) = ''tidal:'' @ ct_id (whole ! i)"
    using in_range by (simp_all add: x_def)
  have row: "selected_of (tl_tracks v) = Some ?row"
    using assms(7-10) by (simp add: selected_of_def get_at_def)
  have "browsed_row s = Some (RowOfTrack from0 ?row i)"
    using assms(4-6,8) row by (simp add: browsed_row_def track_row_of_def)
  moreover have "count_streamable_before (fd_items (tl_tracks v)) i = Some n"
    using assms(7,9,10) filter_streamable_converted [of i "take k whole"]
    by (simp add: count_streamable_before_def n_def min_absorb1)
  moreover have "tu_connection s = Connected" using assms(13) by (simp add: has_capability_def)
  ultimately have "act_in_view ActActivate s =
      Some (fx_redraw_with [CmdRequest (TagAddFrom (Some n)) (ReqQueueAddFrom from0 AddEnd)], s\<lparr>tu_last_error := None\<rparr>)"
    using assms(4,5,11,13)
    by (simp add: act_in_view_def open_folder_def open_tracks_def view_tracks_def adds_def act_on_row_def
        act_on_track_row_def convert_track_summary_def play_in_view_def send_add_from_def require_browsable_def)
  moreover have "apply_action ten ActActivate s = act_in_view ActActivate s"
    using apply_activate_in_view [OF assms(4,12)] .
  moreover have "ef_commands (fst (on_response (TagAddFrom (Some n)) (Inr (PayAdded ids rej un)) s2)) =
      [CmdSend (ReqPlay (Some (qi_id x)))]" for rej un
    using x(2) n(1) len by (simp add: on_added_def get_at_def fx_redraw_with_def)
  ultimately show ?thesis using r x(1,3) by (auto simp: fx_redraw_with_def)
qed

definition demo_row :: track_list_view where
  "demo_row =
     (track_list_new (RefAlbum ''1'') (HeadRadio ''t''))
       \<lparr>tl_tracks := (found_new \<lparr>fd_items := map convert_track_summary demo_listing,
          fd_cursor := cursor_new\<lparr>cu_selected := 2\<rparr>\<rparr>), tl_phase := PhaseDone\<rparr>"

definition demo_screen :: tui where
  "demo_screen =
     tui_new\<lparr>tu_focus := OnMain, tu_sidebar := cursor_new\<lparr>cu_selected := 3\<rparr>, tu_connection := Connected,
       tu_server := Some \<lparr>sv_info = (''phoniad'', ''0'', 1), sv_protocol = protocol,
         sv_capabilities = [cap_catalog]\<rparr>,
       tu_library_views := [(0, ViewTracks demo_row)]\<rparr>"

definition demo_layout :: tui_env where
  "demo_layout = \<lparr>tv_content_height = (\<lambda>size. snd size - 6), tv_help_overflow = (\<lambda>rows. 0)\<rparr>"

lemma enter_plays_the_row_witness:
  "\<exists>fx s1 n p (x :: queue_item) d' r s2. apply_action demo_layout ActActivate demo_screen = Some (fx, s1) \<and>
    daemon_queue_add_from demo_env (RefAlbum ''1'') AddEnd demo_daemon = (r, d') \<and> r = ReplyOk p \<and>
    ef_commands (fst (on_response (TagAddFrom (Some n)) (Inr p) s2)) = [CmdSend (ReqPlay (Some (qi_id x)))] \<and>
    qt_source (qi_track x) = ''tidal:9''"
proof -
  obtain r d' where r: "daemon_queue_add_from demo_env (RefAlbum ''1'') AddEnd demo_daemon = (r, d')" by fastforce
  have track: "length demo_listing \<le> 1000" "2 < length demo_listing" "ct_streamable (demo_listing ! 2)"
      "ct_id (demo_listing ! 2) = ''9''" and cat: "de_catalog demo_env = Some demo_catalog"
    by (simp_all add: demo_listing_def demo_env_def)
  have screen: "active_view demo_screen = Some (ViewTracks demo_row)" "tu_focus demo_screen = OnMain"
      "has_capability cap_catalog demo_screen"
    by code_simp+
  have row: "tl_phase demo_row = PhaseDone" "tl_of demo_row = RefAlbum ''1''"
      "fd_items (tl_tracks demo_row) = map convert_track_summary (take 3 demo_listing)"
      "cu_selected (fd_cursor (tl_tracks demo_row)) = 2"
    by (simp_all add: demo_row_def track_list_new_def demo_listing_def)
  have three: "2 < (3 :: nat)" by simp
  obtain fx s1 n p and x :: queue_item where played: "apply_action demo_layout ActActivate demo_screen = Some (fx, s1)" "r = ReplyOk p"
      "ef_commands (fst (on_response (TagAddFrom (Some n)) (Inr p) demo_screen)) = [CmdSend (ReqPlay (Some (qi_id x)))]"
      "qt_source (qi_track x) = ''tidal:'' @ ''9''"
    using enter_plays_the_row [OF cat demo_lists track(1) screen(1) row three track(2,3) screen(2,3) r,
      unfolded track(4), of demo_layout demo_screen] by blast
  have "qt_source (qi_track x) = ''tidal:9''" using played(4) by simp
  with played(1-3) r show ?thesis
    by (intro exI [of _ fx] exI [of _ s1] exI [of _ n] exI [of _ p] exI [of _ x] exI [of _ d'] exI [of _ r]
      exI [of _ demo_screen] conjI)
qed

section \<open>A block moves as one\<close>

definition rows_from :: "nat \<times> nat \<Rightarrow> 'a list \<Rightarrow> 'a list" where
  "rows_from marks xs = take (snd marks + 1 - fst marks) (drop (fst marks) xs)"

definition rows_beside :: "nat \<times> nat \<Rightarrow> 'a list \<Rightarrow> 'a list" where
  "rows_beside marks xs = take (fst marks) xs @ drop (snd marks + 1) xs"

lemma rows_split:
  "rows_from (length pre, length pre + length blk - 1) (pre @ blk @ post) = blk \<or> blk = []"
  "rows_beside (length pre, length pre + length blk - 1) (pre @ blk @ post) = pre @ post \<or> blk = []"
  by (cases blk; simp add: rows_from_def rows_beside_def)+

lemma three_parts:
  assumes "a \<le> b" "b < length xs"
  obtains pre blk post where "xs = pre @ blk @ post" "length pre = a" "length blk = Suc b - a" "blk \<noteq> []"
proof
  show "xs = take a xs @ take (Suc b - a) (drop a xs) @ drop (Suc b) xs"
    using assms append_take_drop_id [of "Suc b - a" "drop a xs"] by simp
qed (use assms in \<open>auto simp: min_def\<close>)

lemma step_over_block:
  assumes "a \<le> b" "b + 1 < length xs"
  shows "rows_from (a + 1, b + 1) (insert_at a [xs ! (b + 1)] (remove_at (b + 1) xs)) = rows_from (a, b) xs \<and>
    rows_beside (a + 1, b + 1) (insert_at a [xs ! (b + 1)] (remove_at (b + 1) xs)) = rows_beside (a, b) xs"
proof -
  have "b < length xs" using assms(2) by simp
  then obtain pre blk post where xs: "xs = pre @ blk @ post" "length pre = a" "length blk = Suc b - a" "blk \<noteq> []"
    using three_parts [OF assms(1)] by blast
  obtain x zs where post: "post = x # zs" using xs assms by (cases post) auto
  have b: "b = length pre + length blk - 1" and b1: "b + 1 = length (pre @ [x]) + length blk - 1"
    and b': "b + 1 = length (pre @ blk)" and a1: "a + 1 = length (pre @ [x])"
    using xs assms(1) by auto
  have "insert_at a [xs ! (b + 1)] (remove_at (b + 1) xs) = (pre @ [x]) @ blk @ zs"
    unfolding b' xs(1) post xs(2) [symmetric] by (simp add: insert_at_def remove_at_def nth_append)
  then show ?thesis
    using rows_split [of "pre @ [x]" blk zs] rows_split [of pre blk post] xs(4)
    unfolding a1 b1 xs(2) [symmetric] b by (simp add: xs(1) post)
qed

lemma step_under_block:
  assumes "0 < a" "a \<le> b" "b < length xs"
  shows "rows_from (a - 1, b - 1) (insert_at b [xs ! (a - 1)] (remove_at (a - 1) xs)) = rows_from (a, b) xs \<and>
    rows_beside (a - 1, b - 1) (insert_at b [xs ! (a - 1)] (remove_at (a - 1) xs)) = rows_beside (a, b) xs"
proof -
  obtain pre blk post where xs: "xs = pre @ blk @ post" "length pre = a" "length blk = Suc b - a" "blk \<noteq> []"
    using three_parts [OF assms(2,3)] by blast
  obtain ys x where pre: "pre = ys @ [x]" using xs assms by (cases pre rule: rev_cases) auto
  have b: "b = length pre + length blk - 1" and b1: "b - 1 = length ys + length blk - 1"
    and b': "b = length (ys @ blk)" and a1: "a - 1 = length ys"
    using xs assms pre by auto
  have "insert_at b [xs ! (a - 1)] (remove_at (a - 1) xs) = ys @ blk @ x # post"
    unfolding b' a1 xs(1) pre by (simp add: insert_at_def remove_at_def nth_append)
  then show ?thesis
    using rows_split [of ys blk "x # post"] rows_split [of pre blk post] xs(4)
    unfolding a1 b1 xs(2) [symmetric] by (simp add: xs(1) b [unfolded pre] pre)
qed

text \<open>Moving the entry of a row to a row, in the ids.\<close>

lemma moved_ids:
  assumes "distinct ids" and "ids = map qi_id (items q)" and "from0 < length ids" and "to < length ids"
  shows "map qi_id (items (snd (q_move_to (ids ! from0) to q))) = insert_at to [ids ! from0] (remove_at from0 ids)"
proof -
  have "position_of (\<lambda>it. qi_id it = ids ! from0) (items q) = Some from0"
    using position_of_distinct [OF assms(1,3)] position_of_map [of "\<lambda>y. y = ids ! from0" qi_id "items q"] assms(2) by simp
  moreover have "min to (length (remove_at from0 (items q))) = to"
    using assms(2-4) by (simp add: remove_at_def min_def)
  ultimately show ?thesis
    using assms(2,3) by (simp add: q_move_to_def Let_def map_insert_at map_remove_at bump_version_def)
qed

text \<open>
  C40. Moving the marked entries of the queue up or down by one row: one request is sent, for the entry
  the block steps over; when the daemon has carried it out on the queue the interface showed, the rows
  the cursor then marks, one further, hold the entries it marked before, in their order, and the
  other entries are as they were.
\<close>

theorem block_moves_as_one:
  assumes "tu_connection s = Connected" and "in_queue s" and "tu_queue s = Some q"
    and "map iq_id (ix_items q) = ids" and "map qi_id (items (qu_inner (ct_queue (dm_control d)))) = ids"
    and "distinct ids" and "cursor_marked (tu_queue_cursor s) = (first, last0)" and "last0 < length ids"
    and "(act = ActMoveEntryDown \<and> last0 + 1 < length ids \<and> marks = (first + 1, last0 + 1)) \<or>
         (act = ActMoveEntryUp \<and> 0 < first \<and> marks = (first - 1, last0 - 1))"
  shows "\<exists>req ids'. ef_commands (fst (edit_queue act s)) = [CmdSend req] \<and>
    fst (daemon_handle en entries req d) = ReplyOk PayAck \<and>
    ids' = map qi_id (items (qu_inner (ct_queue (dm_control (snd (daemon_handle en entries req d)))))) \<and>
    cursor_marked (tu_queue_cursor (snd (edit_queue act s))) = marks \<and>
    rows_from marks ids' = rows_from (first, last0) ids \<and> rows_beside marks ids' = rows_beside (first, last0) ids"
proof -
  let ?qu = "ct_queue (dm_control d)"
  have order: "first \<le> last0" using assms(7) by (auto simp: cursor_marked_def Let_def split: option.splits)
  define from0 to where "from0 = (if act = ActMoveEntryDown then last0 + 1 else first - 1)"
    and "to = (if act = ActMoveEntryDown then first else last0)"
  have rows: "from0 < length ids" "to < length ids" using assms(8,9) order by (auto simp: from0_def to_def)
  have len: "length (ix_items q) = length ids" using assms(4) by auto
  then have named: "get_at (ix_items q) from0 = Some (ix_items q ! from0)" "iq_id (ix_items q ! from0) = ids ! from0"
    using rows(1) nth_map [of from0 "ix_items q" iq_id] unfolding assms(4) by (simp_all add: get_at_def)
  have request: "queue_request act (tu_queue_cursor s) (ix_items q) = Some (ReqQueueMove (ids ! from0) to)"
    using assms(9)
  proof (elim disjE conjE)
    assume "act = ActMoveEntryDown"
    then show ?thesis using named by (simp add: queue_request_def assms(7) from0_def to_def)
  next
    assume "act = ActMoveEntryUp" "0 < first"
    then show ?thesis using named by (simp add: queue_request_def assms(7) from0_def to_def)
  qed
  have "position_of (\<lambda>it. qi_id it = ids ! from0) (items (qu_inner ?qu)) = Some from0"
    using position_of_map [of "\<lambda>y. y = ids ! from0" qi_id "items (qu_inner ?qu)", unfolded assms(5)]
      position_of_distinct [OF assms(6) rows(1)] by simp
  then have yes: "fst (queue_move_to (ids ! from0) to ?qu) = True"
    by (simp add: queue_move_to_def mutate_result q_move_to_def Let_def)
  have ids': "map qi_id (items (qu_inner (snd (queue_move_to (ids ! from0) to ?qu)))) =
      insert_at to [ids ! from0] (remove_at from0 ids)"
    using moved_ids [OF assms(6) assms(5) [symmetric] rows] by (simp add: queue_move_to_def mutate_inner)
  have handled: "fst (daemon_handle en entries (ReqQueueMove (ids ! from0) to) d) = ReplyOk PayAck"
      "ct_queue (dm_control (snd (daemon_handle en entries (ReqQueueMove (ids ! from0) to) d))) =
       snd (queue_move_to (ids ! from0) to ?qu)"
    using yes by (cases "queue_move_to (ids ! from0) to ?qu"; simp add: on_queue_def)+
  have blocks: "rows_from marks (insert_at to [ids ! from0] (remove_at from0 ids)) = rows_from (first, last0) ids \<and>
      rows_beside marks (insert_at to [ids ! from0] (remove_at from0 ids)) = rows_beside (first, last0) ids"
    using assms(9)
  proof (elim disjE conjE)
    assume down: "act = ActMoveEntryDown" "last0 + 1 < length ids" "marks = (first + 1, last0 + 1)"
    have "from0 = last0 + 1" "to = first" using down(1) by (simp_all add: from0_def to_def)
    then show ?thesis using step_over_block [OF order down(2)] by (simp add: down(3))
  next
    assume up: "act = ActMoveEntryUp" "0 < first" "marks = (first - 1, last0 - 1)"
    have "from0 = first - 1" "to = last0" using up(1) by (simp_all add: from0_def to_def)
    then show ?thesis using step_under_block [OF up(2) order assms(8)] by (simp add: up(3))
  qed
  have "cursor_marked (queue_cursor_after act (length (ix_items q)) (tu_queue_cursor s)) = marks"
    using assms(7,9) order
    by (auto simp: queue_cursor_after_def cursor_slide_def cursor_marked_def shift_row_def Let_def split: option.splits)
  then show ?thesis
    using request handled ids' blocks assms(1-3) by (simp add: edit_queue_def Let_def)
qed

definition three_daemon :: "(nat, status \<times> command list, nat, nat \<Rightarrow> fake_volume, unit) daemon" where
  "three_daemon = demo_daemon\<lparr>dm_control := demo_control\<lparr>ct_queue := demo_queue\<rparr>\<rparr>"

definition three_screen :: tui where
  "three_screen =
     demo_screen\<lparr>tu_sidebar := cursor_new\<lparr>cu_selected := 1\<rparr>,
       tu_queue := Some (queue_dto (control_snapshot (dm_control three_daemon))),
       tu_queue_cursor := cursor_new\<lparr>cu_selected := 1, cu_anchor := Some 0\<rparr>\<rparr>"

lemma block_moves_as_one_witness:
  "\<exists>req. ef_commands (fst (edit_queue ActMoveEntryDown three_screen)) = [CmdSend req] \<and>
     rows_from (1, 2) (map qi_id (items (qu_inner (ct_queue (dm_control (snd (daemon_handle demo_env [] req three_daemon)))))))
       = [1, 2]"
proof -
  have "tu_connection three_screen = Connected" "in_queue three_screen"
      "tu_queue three_screen = Some (queue_dto (control_snapshot (dm_control three_daemon)))"
      "cursor_marked (tu_queue_cursor three_screen) = (0, 1)"
    by (simp_all add: three_screen_def demo_screen_def in_queue_def section_of_def sections_def cursor_new_def
        cursor_marked_def)
  moreover have "ct_queue (dm_control three_daemon) = demo_queue" by (simp add: three_daemon_def)
  moreover have "map iq_id (ix_items (queue_dto (control_snapshot (dm_control three_daemon)))) = [1, 2, 3]"
      "map qi_id (items (qu_inner demo_queue)) = [1, 2, 3]"
    by code_simp+
  ultimately show ?thesis
    using block_moves_as_one [of three_screen "queue_dto (control_snapshot (dm_control three_daemon))" "[1, 2, 3]"
        three_daemon 0 1 ActMoveEntryDown "(1, 2)" demo_env "[]"]
    by (auto simp: rows_from_def)
qed

end
